(* ===== verification/ZyPrelude.thy ===== *)
theory ZyPrelude
  imports Main "HOL-Library.Word" "HOL-Library.Signed_Division"
begin

section \<open>Prelude: what every component of the model shares\<close>

text \<open>
  The conventions of the development and the lemmas that carry its proofs.

  \<^item> A Rust \<^verbatim>\<open>char\<close> is a Unicode scalar value, modelled as its code point (\<open>uchar\<close>, a
    \<open>nat\<close>); a Rust \<^verbatim>\<open>String\<close> or \<^verbatim>\<open>&str\<close> is the list of its characters (\<open>ustring\<close>). An ASCII
    literal of the source is written \<open>U ''text''\<close>.
  \<^item> A Rust \<^verbatim>\<open>Result<T, E>\<close> is \<open>'e + 'a\<close> with \<open>Inl\<close> the error; the \<open>?\<close> operator is \<open>rbind\<close>.
  \<^item> \<^verbatim>\<open>i64\<close> is \<open>int\<close> with its range written out (\<open>in_i64\<close>, \<open>wrap_i64\<close>), \<^verbatim>\<open>u64\<close> is \<open>64 word\<close>.
    Rust's \<open>/\<close> and \<open>%\<close> truncate toward zero: they are \<open>sdiv\<close> and \<open>smod\<close> of the library;
    \<^verbatim>\<open>div_euclid\<close> and \<^verbatim>\<open>rem_euclid\<close> by a positive divisor are \<open>div\<close> and \<open>mod\<close>.
\<close>

subsection \<open>Characters, texts and results\<close>

type_synonym uchar = nat
type_synonym ustring = "nat list"

abbreviation U :: "string \<Rightarrow> ustring" where
  "U s \<equiv> map of_char s"

fun rbind :: "'e + 'a \<Rightarrow> ('a \<Rightarrow> 'e + 'b) \<Rightarrow> 'e + 'b" where
  "rbind (Inl e) f = Inl e"
| "rbind (Inr a) f = f a"

lemma rbind_cong [fundef_cong]:
  "\<lbrakk>m = m'; \<And>a. m' = Inr a \<Longrightarrow> f a = f' a\<rbrakk> \<Longrightarrow> rbind m f = rbind m' f'"
  by (cases m') auto

lemma rbind_Inr_right [simp]: "rbind m Inr = m"
  by (cases m) simp_all

lemma rbind_Inr_iff: "rbind m f = Inr b \<longleftrightarrow> (\<exists>a. m = Inr a \<and> f a = Inr b)"
  by (cases m) auto

lemma rbind_Inl_iff: "rbind m f = Inl e \<longleftrightarrow> m = Inl e \<or> (\<exists>a. m = Inr a \<and> f a = Inl e)"
  by (cases m) auto

subsection \<open>Machine integers\<close>

definition i64_min :: int where "i64_min = -9223372036854775808"
definition i64_max :: int where "i64_max = 9223372036854775807"

definition in_i64 :: "int \<Rightarrow> bool" where
  "in_i64 v \<longleftrightarrow> i64_min \<le> v \<and> v \<le> i64_max"

definition wrap_i64 :: "int \<Rightarrow> int" where
  "wrap_i64 v = (v + 2 ^ 63) mod 2 ^ 64 - 2 ^ 63"

lemma wrap_i64_id: "in_i64 v \<Longrightarrow> wrap_i64 v = v"
  by (simp add: wrap_i64_def in_i64_def i64_min_def i64_max_def)

lemma wrap_i64_range: "in_i64 (wrap_i64 v)"
proof -
  have "(v + 2 ^ 63) mod 2 ^ 64 < (2::int) ^ 64" "0 \<le> (v + 2 ^ 63) mod (2::int) ^ 64"
    by simp_all
  then show ?thesis by (simp add: wrap_i64_def in_i64_def i64_min_def i64_max_def)
qed

text \<open>\<^verbatim>\<open>checked_add\<close>, \<^verbatim>\<open>checked_sub\<close> and \<^verbatim>\<open>checked_mul\<close> of \<^verbatim>\<open>i64\<close>.\<close>

definition checked_i64 :: "int \<Rightarrow> int option" where
  "checked_i64 v = (if in_i64 v then Some v else None)"

lemma sdiv_nonneg_eq: "0 \<le> (a::int) \<Longrightarrow> 0 \<le> b \<Longrightarrow> a sdiv b = a div b"
  by (cases "a = 0"; cases "b = 0") (auto simp: signed_divide_int_def sgn_if)

lemma smod_nonneg_eq: "0 \<le> (a::int) \<Longrightarrow> 0 \<le> b \<Longrightarrow> a smod b = a mod b"
  by (cases "a = 0"; cases "b = 0") (auto simp: signed_modulo_int_def signed_divide_int_def sgn_if
      minus_div_mult_eq_mod)

subsection \<open>Digits and decimal text\<close>

text \<open>The digits of a natural number in a radix, most significant first.\<close>

fun digits_in :: "nat \<Rightarrow> nat \<Rightarrow> nat list" where
  "digits_in r n = (if r < 2 \<or> n < r then [n] else digits_in r (n div r) @ [n mod r])"

declare digits_in.simps [simp del]

definition from_digits :: "nat \<Rightarrow> nat list \<Rightarrow> nat" where
  "from_digits r ds = foldl (\<lambda>acc d. acc * r + d) 0 ds"

lemma from_digits_append [simp]: "from_digits r (ds @ [d]) = from_digits r ds * r + d"
  by (simp add: from_digits_def)

lemma digits_in_nonempty [simp]: "digits_in r n \<noteq> []"
  by (subst digits_in.simps) simp

lemma from_digits_in [simp]: "from_digits r (digits_in r n) = n"
proof (induction r n rule: digits_in.induct)
  case (1 r n)
  then show ?case
    by (subst digits_in.simps) (simp add: from_digits_def[of r "[n]"])
qed

lemma digits_in_bound: "2 \<le> r \<Longrightarrow> d \<in> set (digits_in r n) \<Longrightarrow> d < r"
proof (induction r n rule: digits_in.induct)
  case (1 r n)
  show ?case
  proof (cases "n < r")
    case True
    with "1.prems" show ?thesis by (subst (asm) digits_in.simps) simp
  next
    case False
    from "1.prems" False have "d \<in> set (digits_in r (n div r)) \<or> d = n mod r"
      by (subst (asm) digits_in.simps) auto
    with "1.IH" "1.prems" False show ?thesis by auto
  qed
qed

lemma length_digits_in:
  assumes "2 \<le> r" "n < r ^ Suc k"
  shows "length (digits_in r n) \<le> Suc k"
  using assms(2)
proof (induction k arbitrary: n)
  case 0
  then show ?case by (subst digits_in.simps) simp
next
  case (Suc k)
  then have "n div r < r ^ Suc k"
    using assms(1) by (simp add: less_mult_imp_div_less mult.commute)
  then have "length (digits_in r (n div r)) \<le> Suc k" by (rule Suc.IH)
  then show ?case by (subst digits_in.simps) simp
qed

definition digit_char :: "nat \<Rightarrow> uchar" where
  "digit_char d = (if d < 10 then 48 + d else 55 + d)"

definition char_digit :: "uchar \<Rightarrow> nat" where
  "char_digit c = (if c < 58 then c - 48 else c - 55)"

definition is_ascii_digit :: "uchar \<Rightarrow> bool" where
  "is_ascii_digit c \<longleftrightarrow> 48 \<le> c \<and> c \<le> 57"

lemma char_digit_inv [simp]: "char_digit (digit_char d) = d"
  by (simp add: char_digit_def digit_char_def)

lemma is_ascii_digit_digit_char [simp]: "is_ascii_digit (digit_char d) \<longleftrightarrow> d < 10"
  by (simp add: is_ascii_digit_def digit_char_def)

definition show_radix :: "nat \<Rightarrow> nat \<Rightarrow> ustring" where
  "show_radix r n = map digit_char (digits_in r n)"

definition read_radix :: "nat \<Rightarrow> ustring \<Rightarrow> nat" where
  "read_radix r s = from_digits r (map char_digit s)"

definition show_nat :: "nat \<Rightarrow> ustring" where
  "show_nat n = show_radix 10 n"

definition read_nat :: "ustring \<Rightarrow> nat" where
  "read_nat s = read_radix 10 s"

definition show_int :: "int \<Rightarrow> ustring" where
  "show_int i = (if i < 0 then 45 # show_nat (nat (- i)) else show_nat (nat i))"

lemma read_show_radix [simp]: "read_radix r (show_radix r n) = n"
  by (simp add: read_radix_def show_radix_def comp_def)

lemma read_show_nat [simp]: "read_nat (show_nat n) = n"
  by (simp add: read_nat_def show_nat_def)

lemma show_nat_nonempty [simp]: "show_nat n \<noteq> []"
  by (simp add: show_nat_def show_radix_def)

lemma show_nat_digits: "list_all is_ascii_digit (show_nat n)"
  by (auto simp: show_nat_def show_radix_def list_all_iff dest: digits_in_bound[rotated])

lemma length_show_nat: "n < 10 ^ Suc k \<Longrightarrow> length (show_nat n) \<le> Suc k"
  using length_digits_in [of 10 n k] by (simp add: show_nat_def show_radix_def)

text \<open>Left padding, as the \<open>{:04}\<close> of a format string pads with zeros.\<close>

definition pad_zero :: "nat \<Rightarrow> ustring \<Rightarrow> ustring" where
  "pad_zero w s = replicate (w - length s) 48 @ s"

lemma length_pad_zero [simp]: "length (pad_zero w s) = max w (length s)"
  by (simp add: pad_zero_def)

lemma list_all_pad_zero [simp]: "list_all is_ascii_digit (pad_zero w s) = list_all is_ascii_digit s"
  by (auto simp: pad_zero_def list_all_iff is_ascii_digit_def)

lemma from_digits_leading_zeros: "from_digits r (replicate k 0 @ ds) = from_digits r ds"
  by (induction k) (simp_all add: from_digits_def)

lemma read_radix_pad_zero [simp]: "read_radix r (pad_zero w s) = read_radix r s"
  by (simp add: read_radix_def pad_zero_def char_digit_def from_digits_leading_zeros)

lemma read_nat_pad_zero [simp]: "read_nat (pad_zero w s) = read_nat s"
  by (simp add: read_nat_def)

subsection \<open>Splitting a text at a character\<close>

text \<open>\<^verbatim>\<open>str::split(char)\<close>: always at least one part, an empty one between adjacent separators.\<close>

fun split_char :: "'a \<Rightarrow> 'a list \<Rightarrow> 'a list list" where
  "split_char sep [] = [[]]"
| "split_char sep (c # cs) =
     (if c = sep then [] # split_char sep cs
      else (case split_char sep cs of [] \<Rightarrow> [[c]] | p # ps \<Rightarrow> (c # p) # ps))"

text \<open>\<^verbatim>\<open>[String]::join\<close>.\<close>

fun join_with :: "'a list \<Rightarrow> 'a list list \<Rightarrow> 'a list" where
  "join_with sep [] = []"
| "join_with sep [p] = p"
| "join_with sep (p # ps) = p @ sep @ join_with sep ps"

lemma split_char_nonempty [simp]: "split_char sep s \<noteq> []"
  by (induction s) (auto split: list.split)

lemma join_split_char [simp]: "join_with [sep] (split_char sep s) = s"
proof (induction s)
  case Nil
  then show ?case by simp
next
  case (Cons c cs)
  note IH = Cons.IH
  show ?case
  proof (cases "split_char sep cs")
    case Nil
    then show ?thesis by (metis split_char_nonempty)
  next
    case (Cons p ps)
    then show ?thesis using IH by (cases ps) auto
  qed
qed

lemma length_split_char: "length (split_char sep s) = Suc (count_list s sep)"
  by (induction s) (auto split: list.split)

lemma split_char_no_sep: "p \<in> set (split_char sep s) \<Longrightarrow> sep \<notin> set p"
proof (induction s arbitrary: p)
  case Nil
  then show ?case by simp
next
  case (Cons c cs)
  then show ?case
    by (cases "split_char sep cs") (auto split: if_splits)
qed

subsection \<open>Substrings\<close>

text \<open>\<^verbatim>\<open>str::starts_with\<close> and \<^verbatim>\<open>str::contains\<close>.\<close>

fun starts_with :: "'a list \<Rightarrow> 'a list \<Rightarrow> bool" where
  "starts_with [] s = True"
| "starts_with (p # ps) [] = False"
| "starts_with (p # ps) (c # cs) = (p = c \<and> starts_with ps cs)"

fun contains_sub :: "'a list \<Rightarrow> 'a list \<Rightarrow> bool" where
  "contains_sub p [] = starts_with p []"
| "contains_sub p (c # cs) = (starts_with p (c # cs) \<or> contains_sub p cs)"

lemma starts_with_iff: "starts_with p s \<longleftrightarrow> (\<exists>t. s = p @ t)"
  by (induction p s rule: starts_with.induct) auto

lemma contains_sub_iff: "contains_sub p s \<longleftrightarrow> (\<exists>a b. s = a @ p @ b)"
proof (induction s)
  case Nil
  then show ?case by (auto simp: starts_with_iff)
next
  case (Cons c cs)
  note IH = Cons.IH
  show ?case
  proof
    assume "contains_sub p (c # cs)"
    then show "\<exists>a b. c # cs = a @ p @ b"
      using Cons by (auto simp: starts_with_iff) (metis append_Cons append_Nil)+
  next
    assume "\<exists>a b. c # cs = a @ p @ b"
    then obtain a b where ab: "c # cs = a @ p @ b" by blast
    show "contains_sub p (c # cs)"
    proof (cases a)
      case Nil
      with ab have "starts_with p (c # cs)" by (simp add: starts_with_iff)
      then show ?thesis by simp
    next
      case (Cons x a')
      with ab have "cs = a' @ p @ b" by simp
      with IH have "contains_sub p cs" by blast
      then show ?thesis by simp
    qed
  qed
qed

end
