(* ===== verification/ZyFloat.thy ===== *)
theory ZyFloat
  imports ZyPrelude
begin

section \<open>IEEE-754 doubles: what the engines use of \<^verbatim>\<open>f64\<close>\<close>

text \<open>
  The engines' \<^verbatim>\<open>f64\<close>: NaN, the two infinities, and the finite values
  \<open>(-1)^s * m * 2^e\<close>, canonical when \<open>f64_ok\<close> holds (\<open>m < 2^53\<close>, and \<open>2^52 \<le> m\<close> unless
  \<open>e = -1074\<close>). Every operation is exact integer arithmetic followed by one rounding to
  nearest, ties to even (\<open>round_ratio\<close>). \<open>fkey\<close> reads a finite value as an integer number of
  \<open>2^-1074\<close>, the unit every finite double is a multiple of, so that comparison, addition and
  remainder are those of \<open>int\<close>. The model is of the language's float type, not of code of
  the repository.
\<close>

datatype f64 = FNan | FInf bool | FFin bool nat int

subsection \<open>Rounding\<close>

fun nbits :: "nat \<Rightarrow> nat" where
  "nbits n = (if n = 0 then 0 else Suc (nbits (n div 2)))"

declare nbits.simps [simp del]

definition round_half_even :: "nat \<Rightarrow> nat \<Rightarrow> nat" where
  "round_half_even n d =
     (let q = n div d; r = n mod d
      in if 2 * r < d \<or> (2 * r = d \<and> even q) then q else q + 1)"

definition scale_ratio :: "nat \<Rightarrow> nat \<Rightarrow> int \<Rightarrow> nat \<times> nat" where
  "scale_ratio n d e = (if 0 \<le> e then (n, d * 2 ^ nat e) else (n * 2 ^ nat (- e), d))"

definition pick_exp :: "nat \<Rightarrow> nat \<Rightarrow> int" where
  "pick_exp n d =
     (let e = int (nbits n) - int (nbits d) - 53;
          (n', d') = scale_ratio n d e
      in max (- 1074) (if 2 ^ 53 \<le> n' div d' then e + 1 else e))"

definition pack_f64 :: "bool \<Rightarrow> nat \<Rightarrow> int \<Rightarrow> f64" where
  "pack_f64 s m e =
     (let (m', e') = (if m = 2 ^ 53 then (2 ^ 52, e + 1) else (m, e))
      in if 971 < e' then FInf s else FFin s m' e')"

definition round_ratio :: "bool \<Rightarrow> nat \<Rightarrow> nat \<Rightarrow> f64" where
  "round_ratio s n d =
     (if n = 0 then FFin s 0 (- 1074)
      else let e = pick_exp n d; (n', d') = scale_ratio n d e
           in pack_f64 s (round_half_even n' d') e)"

subsection \<open>Reading, comparing and converting\<close>

definition f64_bias :: nat where "f64_bias = 1074"

fun fkey :: "f64 \<Rightarrow> int" where
  "fkey (FFin s m e) = (if s then - 1 else 1) * int m * 2 ^ nat (e + int f64_bias)"
| "fkey _ = 0"

fun f64_ok :: "f64 \<Rightarrow> bool" where
  "f64_ok (FFin s m e) = (m < 2 ^ 53 \<and> - 1074 \<le> e \<and> e \<le> 971 \<and> (m < 2 ^ 52 \<longrightarrow> e = - 1074))"
| "f64_ok _ = True"

fun f_is_finite :: "f64 \<Rightarrow> bool" where
  "f_is_finite (FFin _ _ _) = True"
| "f_is_finite _ = False"

fun feq :: "f64 \<Rightarrow> f64 \<Rightarrow> bool" where
  "feq FNan _ = False"
| "feq _ FNan = False"
| "feq (FInf a) (FInf b) = (a = b)"
| "feq (FInf _) _ = False"
| "feq _ (FInf _) = False"
| "feq x y = (fkey x = fkey y)"

fun flt :: "f64 \<Rightarrow> f64 \<Rightarrow> bool" where
  "flt FNan _ = False"
| "flt _ FNan = False"
| "flt (FInf a) (FInf b) = (a \<and> \<not> b)"
| "flt (FInf a) _ = a"
| "flt _ (FInf b) = (\<not> b)"
| "flt x y = (fkey x < fkey y)"

definition fle :: "f64 \<Rightarrow> f64 \<Rightarrow> bool" where
  "fle x y \<longleftrightarrow> flt x y \<or> feq x y"

definition f_of_int :: "int \<Rightarrow> f64" where
  "f_of_int i = round_ratio (i < 0) (nat \<bar>i\<bar>) 1"

definition f_of_key :: "int \<Rightarrow> f64" where
  "f_of_key k = round_ratio (k < 0) (nat \<bar>k\<bar>) (2 ^ f64_bias)"

text \<open>The integer part of a finite value, and \<^verbatim>\<open>as i64\<close> (which saturates; NaN gives 0).\<close>

definition f_int_part :: "f64 \<Rightarrow> int" where
  "f_int_part x = fkey x sdiv 2 ^ f64_bias"

fun f_to_i64 :: "f64 \<Rightarrow> int" where
  "f_to_i64 FNan = 0"
| "f_to_i64 (FInf s) = (if s then i64_min else i64_max)"
| "f_to_i64 x = max i64_min (min i64_max (f_int_part x))"

subsection \<open>Arithmetic\<close>

fun fneg :: "f64 \<Rightarrow> f64" where
  "fneg FNan = FNan"
| "fneg (FInf s) = FInf (\<not> s)"
| "fneg (FFin s m e) = FFin (\<not> s) m e"

fun fadd :: "f64 \<Rightarrow> f64 \<Rightarrow> f64" where
  "fadd FNan _ = FNan"
| "fadd _ FNan = FNan"
| "fadd (FInf a) (FInf b) = (if a = b then FInf a else FNan)"
| "fadd (FInf a) _ = FInf a"
| "fadd _ (FInf b) = FInf b"
| "fadd (FFin s m e) (FFin s' m' e') =
     (let k = fkey (FFin s m e) + fkey (FFin s' m' e')
      in if k = 0 then FFin (s \<and> s') 0 (- 1074) else f_of_key k)"

definition fsub :: "f64 \<Rightarrow> f64 \<Rightarrow> f64" where
  "fsub x y = fadd x (fneg y)"

fun fsign :: "f64 \<Rightarrow> bool" where
  "fsign FNan = False"
| "fsign (FInf s) = s"
| "fsign (FFin s _ _) = s"

definition f_is_zero :: "f64 \<Rightarrow> bool" where
  "f_is_zero x \<longleftrightarrow> f_is_finite x \<and> fkey x = 0"

fun fmul :: "f64 \<Rightarrow> f64 \<Rightarrow> f64" where
  "fmul FNan _ = FNan"
| "fmul _ FNan = FNan"
| "fmul (FInf a) y = (if f_is_zero y then FNan else FInf (a \<noteq> fsign y))"
| "fmul x (FInf b) = (if f_is_zero x then FNan else FInf (fsign x \<noteq> b))"
| "fmul (FFin s m e) (FFin s' m' e') =
     round_ratio (s \<noteq> s') (nat \<bar>fkey (FFin s m e) * fkey (FFin s' m' e')\<bar>) (2 ^ (2 * f64_bias))"

fun fdiv :: "f64 \<Rightarrow> f64 \<Rightarrow> f64" where
  "fdiv FNan _ = FNan"
| "fdiv _ FNan = FNan"
| "fdiv (FInf _) (FInf _) = FNan"
| "fdiv (FInf a) (FFin s m e) = FInf (a \<noteq> s)"
| "fdiv (FFin s m e) (FInf b) = FFin (s \<noteq> b) 0 (- 1074)"
| "fdiv (FFin s m e) (FFin s' m' e') =
     (if m' = 0 then (if m = 0 then FNan else FInf (s \<noteq> s'))
      else round_ratio (s \<noteq> s') (nat \<bar>fkey (FFin s m e)\<bar>) (nat \<bar>fkey (FFin s' m' e')\<bar>))"

text \<open>The \<open>%\<close> of Rust's floats: C's \<^verbatim>\<open>fmod\<close>, exact, with the sign of the dividend.\<close>

fun frem :: "f64 \<Rightarrow> f64 \<Rightarrow> f64" where
  "frem FNan _ = FNan"
| "frem _ FNan = FNan"
| "frem (FInf _) _ = FNan"
| "frem x (FInf _) = x"
| "frem (FFin s m e) (FFin s' m' e') =
     (if m' = 0 then FNan
      else round_ratio s (nat (\<bar>fkey (FFin s m e)\<bar> mod \<bar>fkey (FFin s' m' e')\<bar>)) (2 ^ f64_bias))"

fun ftrunc :: "f64 \<Rightarrow> f64" where
  "ftrunc (FFin s m e) = round_ratio s (nat \<bar>f_int_part (FFin s m e)\<bar>) 1"
| "ftrunc x = x"

subsection \<open>Bit lengths\<close>

lemma nbits_0 [simp]: "nbits 0 = 0"
  by (simp add: nbits.simps)

lemma nbits_pos: "0 < n \<Longrightarrow> nbits n = Suc (nbits (n div 2))"
  by (simp add: nbits.simps [of n])

lemma nbits_1 [simp]: "nbits 1 = 1" "nbits (Suc 0) = 1"
  by (simp_all add: nbits.simps)

lemma nbits_le_iff: "nbits n \<le> k \<longleftrightarrow> n < 2 ^ k"
proof (induction n arbitrary: k rule: nbits.induct)
  case (1 n)
  show ?case
  proof (cases "n = 0")
    case False
    then have eq: "nbits n = Suc (nbits (n div 2))" by (simp add: nbits_pos)
    show ?thesis
    proof (cases k)
      case 0
      with eq False show ?thesis by simp
    next
      case (Suc j)
      from "1.IH" False have "nbits (n div 2) \<le> j \<longleftrightarrow> n div 2 < 2 ^ j" by simp
      also have "\<dots> \<longleftrightarrow> n < 2 ^ Suc j" by (simp add: div_less_iff_less_mult mult.commute)
      finally show ?thesis using eq Suc by simp
    qed
  qed simp
qed

lemma nbits_lower: "0 < n \<Longrightarrow> 2 ^ (nbits n - 1) \<le> n"
  using nbits_le_iff [of n "nbits n - 1"] nbits_pos [of n] by (simp add: not_less [symmetric])

lemma nbits_upper: "n < 2 ^ nbits n"
  using nbits_le_iff [of n "nbits n"] by simp

lemma nbits_double: "0 < n \<Longrightarrow> nbits (2 * n) = Suc (nbits n)"
  by (simp add: nbits_pos [of "2 * n"])

lemma nbits_shift [simp]: "0 < n \<Longrightarrow> nbits (n * 2 ^ k) = nbits n + k"
  by (induction k) (simp_all add: nbits_double mult.left_commute [of _ 2])

lemma nbits_pow2 [simp]: "nbits (2 ^ k) = Suc k"
  using nbits_shift [of 1 k] by simp

subsection \<open>Rounding depends on the ratio alone, and is the identity on representable values\<close>

lemma round_half_even_scale [simp]:
  "0 < c \<Longrightarrow> round_half_even (n * c) (d * c) = round_half_even n d"
  by (simp add: round_half_even_def Let_def mult_mod_left [symmetric] mult.assoc [symmetric])

lemma round_half_even_exact [simp]: "0 < d \<Longrightarrow> round_half_even (q * d) d = q"
  by (simp add: round_half_even_def)

lemma scale_ratio_shift:
  "scale_ratio (n * c) (d * c) e = (fst (scale_ratio n d e) * c, snd (scale_ratio n d e) * c)"
  by (simp add: scale_ratio_def ac_simps)

lemma round_ratio_shift:
  assumes "0 < d"
  shows "round_ratio s (n * 2 ^ k) (d * 2 ^ k) = round_ratio s n d"
proof (cases "n = 0")
  case False
  with assms have "pick_exp (n * 2 ^ k) (d * 2 ^ k) = pick_exp n d"
    by (simp add: pick_exp_def Let_def scale_ratio_shift split: prod.splits)
  with False show ?thesis
    by (simp add: round_ratio_def Let_def scale_ratio_shift split: prod.splits)
qed (simp add: round_ratio_def)

subsection \<open>Integers below 2^53 are exact\<close>

lemma pick_exp_small:
  assumes "0 < n" "n < 2 ^ 53"
  shows "pick_exp n 1 = int (nbits n) - 53"
proof -
  from assms have b: "1 \<le> nbits n" "nbits n \<le> 53"
    by (simp_all add: nbits_le_iff nbits_pos)
  have "(2::nat) ^ 53 = 2 ^ (nbits n - 1) * 2 ^ (54 - nbits n)"
    using b by (simp flip: power_add)
  also have "\<dots> \<le> n * 2 ^ (54 - nbits n)"
    using nbits_lower [OF assms(1)] by simp
  finally have "2 ^ 53 \<le> n * 2 ^ (54 - nbits n)" .
  moreover have "nat (54 - int (nbits n)) = 54 - nbits n" by simp
  ultimately show ?thesis
    using b by (simp add: pick_exp_def scale_ratio_def)
qed

lemma round_ratio_small:
  assumes "0 < n" "n < 2 ^ 53"
  shows "round_ratio s n 1 = FFin s (n * 2 ^ (53 - nbits n)) (int (nbits n) - 53)"
proof -
  from assms have b: "1 \<le> nbits n" "nbits n \<le> 53"
    by (simp_all add: nbits_le_iff nbits_pos)
  have "n * 2 ^ (53 - nbits n) < 2 ^ nbits n * 2 ^ (53 - nbits n)"
    using nbits_upper [of n] by (intro mult_strict_right_mono) simp_all
  also have "\<dots> = (2::nat) ^ 53"
    using b by (simp flip: power_add)
  finally have lt: "n * 2 ^ (53 - nbits n) < 2 ^ 53" .
  have sc: "scale_ratio n 1 (int (nbits n) - 53) = (n * 2 ^ (53 - nbits n), 1)"
    using b by (cases "nbits n = 53") (auto simp: scale_ratio_def nat_diff_distrib' int_ops)
  show ?thesis
    using assms lt b pick_exp_small [OF assms] sc round_half_even_exact [of 1]
    by (simp add: round_ratio_def pack_f64_def)
qed

lemma f_of_int_0 [simp]: "f_of_int 0 = FFin False 0 (- 1074)"
  by (simp add: f_of_int_def round_ratio_def)

lemma f_of_int_small:
  assumes "i \<noteq> 0" "\<bar>i\<bar> < 2 ^ 53"
  shows "f_of_int i =
    FFin (i < 0) (nat \<bar>i\<bar> * 2 ^ (53 - nbits (nat \<bar>i\<bar>))) (int (nbits (nat \<bar>i\<bar>)) - 53)"
proof -
  have "nat \<bar>i\<bar> < 2 ^ 53" using assms(2) by (simp add: nat_less_iff)
  with assms(1) show ?thesis
    using round_ratio_small [of "nat \<bar>i\<bar>" "i < 0"] by (simp add: f_of_int_def)
qed

lemma f_of_int_finite [simp]: "\<bar>i\<bar> < 2 ^ 53 \<Longrightarrow> f_is_finite (f_of_int i)"
  by (cases "i = 0") (simp_all add: f_of_int_small)

lemma fkey_of_int:
  assumes "\<bar>i\<bar> < 2 ^ 53"
  shows "fkey (f_of_int i) = i * 2 ^ f64_bias"
proof (cases "i = 0")
  case False
  let ?n = "nat \<bar>i\<bar>"
  have n: "0 < ?n" "?n < 2 ^ 53" using False assms by (simp_all add: nat_less_iff)
  then have b: "1 \<le> nbits ?n" "nbits ?n \<le> 53"
    by (simp_all add: nbits_le_iff nbits_pos)
  have e: "53 - nbits ?n + nat (int (nbits ?n) - 53 + int f64_bias) = f64_bias"
    using b by (simp add: f64_bias_def) (simp add: nat_add_distrib)
  have "int ?n * 2 ^ (53 - nbits ?n) * 2 ^ nat (int (nbits ?n) - 53 + int f64_bias)
      = int ?n * 2 ^ f64_bias"
    by (simp add: mult.assoc e flip: power_add)
  then have "fkey (f_of_int i) = (if i < 0 then - 1 else 1) * (int ?n * 2 ^ f64_bias)"
    using False assms by (simp add: f_of_int_small mult.assoc)
  also have "\<dots> = i * 2 ^ f64_bias" by simp
  finally show ?thesis .
qed simp

lemma f_int_part_of_int [simp]: "\<bar>i\<bar> < 2 ^ 53 \<Longrightarrow> f_int_part (f_of_int i) = i"
  by (simp add: f_int_part_def fkey_of_int signed_divide_int_def sgn_mult abs_mult)
    (simp add: sgn_mult_abs)

lemma feq_of_int:
  assumes "\<bar>i\<bar> < 2 ^ 53" "\<bar>j\<bar> < 2 ^ 53"
  shows "feq (f_of_int i) (f_of_int j) \<longleftrightarrow> i = j"
proof -
  obtain s m e s' m' e' where x: "f_of_int i = FFin s m e" "f_of_int j = FFin s' m' e'"
    using assms by (metis f_is_finite.elims(2) f_of_int_finite)
  show ?thesis
    using fkey_of_int [OF assms(1)] fkey_of_int [OF assms(2)] by (simp add: x del: fkey.simps)
qed

lemma flt_of_int:
  assumes "\<bar>i\<bar> < 2 ^ 53" "\<bar>j\<bar> < 2 ^ 53"
  shows "flt (f_of_int i) (f_of_int j) \<longleftrightarrow> i < j"
proof -
  obtain s m e s' m' e' where x: "f_of_int i = FFin s m e" "f_of_int j = FFin s' m' e'"
    using assms by (metis f_is_finite.elims(2) f_of_int_finite)
  show ?thesis
    using fkey_of_int [OF assms(1)] fkey_of_int [OF assms(2)] by (simp add: x del: fkey.simps)
qed

lemma f_of_key_int: "f_of_key (i * 2 ^ f64_bias) = f_of_int i"
proof -
  have "nat \<bar>i * 2 ^ f64_bias\<bar> = nat \<bar>i\<bar> * 2 ^ f64_bias"
    by (simp add: abs_mult nat_mult_distrib nat_power_eq)
  then show ?thesis
    using round_ratio_shift [of 1 "i < 0" "nat \<bar>i\<bar>" f64_bias]
    by (simp add: f_of_key_def f_of_int_def mult_less_0_iff)
qed

lemma f_of_int_cases:
  assumes "\<bar>i\<bar> < 2 ^ 53"
  obtains m e where "f_of_int i = FFin (i < 0) m e"
  using assms by (cases "i = 0") (auto simp: f_of_int_small)

lemma fadd_of_int:
  assumes "\<bar>i\<bar> < 2 ^ 53" "\<bar>j\<bar> < 2 ^ 53"
  shows "fadd (f_of_int i) (f_of_int j) = f_of_int (i + j)"
proof -
  obtain m e m' e' where x: "f_of_int i = FFin (i < 0) m e" "f_of_int j = FFin (j < 0) m' e'"
    using assms f_of_int_cases by metis
  have k: "fkey (f_of_int i) + fkey (f_of_int j) = (i + j) * 2 ^ f64_bias"
    using assms by (simp add: fkey_of_int distrib_right)
  show ?thesis
  proof (cases "i + j = 0")
    case True
    then have "\<not> (i < 0 \<and> j < 0)" by linarith
    with True k show ?thesis by (simp add: x del: fkey.simps)
  next
    case False
    with k show ?thesis by (simp add: x f_of_key_int del: fkey.simps)
  qed
qed

subsection \<open>The order of the floats\<close>

lemma feq_sym: "feq x y = feq y x"
  by (cases x; cases y) auto

lemma flt_irrefl [simp]: "\<not> flt x x"
  by (cases x) auto

lemma flt_trans: "flt x y \<Longrightarrow> flt y z \<Longrightarrow> flt x z"
  by (cases x; cases y; cases z) (auto simp del: fkey.simps)

lemma fle_antisym: "fle x y \<Longrightarrow> fle y x \<Longrightarrow> feq x y"
  by (cases x; cases y) (auto simp: fle_def simp del: fkey.simps)

lemma f_trichotomy: "x \<noteq> FNan \<Longrightarrow> y \<noteq> FNan \<Longrightarrow> flt x y \<or> feq x y \<or> flt y x"
  by (cases x; cases y) (auto simp del: fkey.simps)

lemma flt_not_feq: "flt x y \<Longrightarrow> \<not> feq x y \<and> \<not> flt y x"
  by (cases x; cases y) (auto simp del: fkey.simps)

lemma feq_trans: "feq x y \<Longrightarrow> feq y z \<Longrightarrow> feq x z"
  by (cases x; cases y; cases z) (auto simp del: fkey.simps)

subsection \<open>Reading a float from text: \<^verbatim>\<open>str::parse::<f64>\<close>\<close>

text \<open>
  Rust's grammar: an optional sign, then \<open>inf\<close>, \<open>infinity\<close> or \<open>nan\<close> in any case, or digits
  with at most one point and at least one digit, and an optional exponent. The value is the
  decimal's exact ratio, rounded once.
\<close>

definition ascii_lower :: "uchar \<Rightarrow> uchar" where
  "ascii_lower c = (if 65 \<le> c \<and> c \<le> 90 then c + 32 else c)"

definition strip_sign :: "ustring \<Rightarrow> bool \<times> ustring" where
  "strip_sign s = (case s of
     [] \<Rightarrow> (False, [])
   | c # cs \<Rightarrow> if c = 45 then (True, cs) else if c = 43 then (False, cs) else (False, s))"

definition parse_exponent :: "ustring \<Rightarrow> int option" where
  "parse_exponent s =
     (case s of
        [] \<Rightarrow> Some 0
      | c # cs \<Rightarrow>
          (if c = 101 \<or> c = 69
           then (let (neg, ds) = strip_sign cs
                 in if ds \<noteq> [] \<and> list_all is_ascii_digit ds
                    then Some (if neg then - int (read_nat ds) else int (read_nat ds))
                    else None)
           else None))"

definition decimal_f64 :: "bool \<Rightarrow> nat \<Rightarrow> int \<Rightarrow> f64" where
  "decimal_f64 s n e =
     (if 0 \<le> e then round_ratio s (n * 10 ^ nat e) 1 else round_ratio s n (10 ^ nat (- e)))"

definition parse_number :: "bool \<Rightarrow> ustring \<Rightarrow> f64 option" where
  "parse_number neg s =
     (let whole = takeWhile is_ascii_digit s;
          r1 = dropWhile is_ascii_digit s;
          (frac, r2) = (case r1 of
              [] \<Rightarrow> ([], [])
            | c # cs \<Rightarrow> if c = 46 then (takeWhile is_ascii_digit cs, dropWhile is_ascii_digit cs)
                       else ([], r1))
      in if whole = [] \<and> frac = [] then None
         else (case parse_exponent r2 of
                 None \<Rightarrow> None
               | Some e \<Rightarrow> Some (decimal_f64 neg (read_nat (whole @ frac)) (e - int (length frac)))))"

definition parse_f64 :: "ustring \<Rightarrow> f64 option" where
  "parse_f64 s =
     (let (neg, r) = strip_sign s; l = map ascii_lower r
      in if l = U ''inf'' \<or> l = U ''infinity'' then Some (FInf neg)
         else if l = U ''nan'' then Some FNan
         else parse_number neg r)"

end
