(* ===== verification/ZyNum.thy ===== *)
theory ZyNum
  imports ZyFloat
begin

section \<open>The numeric model: \<^verbatim>\<open>zymbol-common/src/num.rs\<close>\<close>

text \<open>
  The safe integer of the language, \<open>\<plusminus>(2^53 - 1)\<close>, and the checked operations every engine
  shares. The locale \<open>checked_op\<close> is the contract the arithmetic of the engines relies on: an
  operation over \<^verbatim>\<open>i64\<close> that answers exactly the mathematical result when it is a Zymbol integer
  and nothing otherwise. It is interpreted on \<open>num_add\<close>, \<open>num_sub\<close> and \<open>num_mul\<close>.
\<close>

subsection \<open>The range\<close>

definition ZY_INT_MAX :: int where "ZY_INT_MAX = 9007199254740991"
definition ZY_INT_MIN :: int where "ZY_INT_MIN = - ZY_INT_MAX"

definition in_int_range :: "int \<Rightarrow> bool" where
  "in_int_range v \<longleftrightarrow> v \<ge> ZY_INT_MIN \<and> v \<le> ZY_INT_MAX"

definition num_checked :: "int \<Rightarrow> int option" where
  "num_checked v = (if in_int_range v then Some v else None)"

subsection \<open>The operations\<close>

definition num_add :: "int \<Rightarrow> int \<Rightarrow> int option" where
  "num_add a b = (case checked_i64 (a + b) of Some v \<Rightarrow> num_checked v | None \<Rightarrow> None)"

definition num_sub :: "int \<Rightarrow> int \<Rightarrow> int option" where
  "num_sub a b = (case checked_i64 (a - b) of Some v \<Rightarrow> num_checked v | None \<Rightarrow> None)"

definition num_mul :: "int \<Rightarrow> int \<Rightarrow> int option" where
  "num_mul a b = (case checked_i64 (a * b) of Some v \<Rightarrow> num_checked v | None \<Rightarrow> None)"

definition num_neg :: "int \<Rightarrow> int option" where
  "num_neg a = num_checked (wrap_i64 (- a))"

text \<open>The loop of \<^verbatim>\<open>pow\<close>: \<open>exp - i\<close> multiplications left, stopping at the first that leaves.\<close>

fun pow_loop :: "int \<Rightarrow> nat \<Rightarrow> int \<Rightarrow> int option" where
  "pow_loop base 0 acc = Some acc"
| "pow_loop base (Suc left) acc =
     (case num_mul acc base of None \<Rightarrow> None | Some acc' \<Rightarrow> pow_loop base left acc')"

definition num_pow :: "int \<Rightarrow> nat \<Rightarrow> int option" where
  "num_pow base exp =
     (if base = 0 then Some (if exp = 0 then 1 else 0)
      else if base = 1 then Some 1
      else if base = - 1 then Some (if exp mod 2 = 0 then 1 else - 1)
      else pow_loop base exp 1)"

text \<open>\<^verbatim>\<open>from_f64\<close>: the truncated float, when it is finite and in range.\<close>

definition num_from_f64 :: "f64 \<Rightarrow> int option" where
  "num_from_f64 v =
     (if \<not> f_is_finite v then None
      else let t = ftrunc v
           in if flt t (f_of_int ZY_INT_MIN) \<or> flt (f_of_int ZY_INT_MAX) t then None
              else Some (f_to_i64 t))"

definition overflow_msg :: "int \<Rightarrow> ustring \<Rightarrow> int \<Rightarrow> ustring" where
  "overflow_msg a op b =
     U ''integer overflow: '' @ show_int a @ U '' '' @ op @ U '' '' @ show_int b"

subsection \<open>Reading text\<close>

datatype num = NInt int | NFloat f64 | NNone

text \<open>\<^verbatim>\<open>str::parse::<i64>\<close> on an optional sign and digits only.\<close>

definition parse_i64 :: "ustring \<Rightarrow> int option" where
  "parse_i64 s =
     (let (neg, ds) = strip_sign s
      in if ds \<noteq> [] \<and> list_all is_ascii_digit ds
         then checked_i64 (if neg then - int (read_nat ds) else int (read_nat ds))
         else None)"

definition num_parse :: "ustring \<Rightarrow> num" where
  "num_parse text =
     (let digits = snd (strip_sign text)
      in if digits \<noteq> [] \<and> list_all is_ascii_digit digits
         then (case parse_i64 text of
                 Some n \<Rightarrow> if in_int_range n then NInt n else NNone
               | None \<Rightarrow> NNone)
         else (case parse_f64 text of Some f \<Rightarrow> NFloat f | None \<Rightarrow> NNone))"

subsection \<open>Writing in a base\<close>

definition base_string :: "int \<Rightarrow> nat \<Rightarrow> ustring" where
  "base_string n radix =
     (let sign = (if n < 0 then U ''-'' else []); m = nat \<bar>n\<bar>
      in if radix = 2 then sign @ U ''0b'' @ show_radix 2 m
         else if radix = 8 then sign @ U ''0o'' @ show_radix 8 m
         else if radix = 10 then sign @ U ''0d'' @ pad_zero 4 (show_radix 10 m)
         else sign @ U ''0x'' @ pad_zero 4 (show_radix 16 m))"

subsection \<open>The contract of a checked operation\<close>

lemma in_int_range_iff: "in_int_range v \<longleftrightarrow> \<bar>v\<bar> < 2 ^ 53"
  by (auto simp: in_int_range_def ZY_INT_MIN_def ZY_INT_MAX_def)

lemma in_int_range_i64: "in_int_range v \<Longrightarrow> in_i64 v"
  by (simp add: in_int_range_def ZY_INT_MIN_def ZY_INT_MAX_def in_i64_def i64_min_def i64_max_def)

lemma num_checked_Some [simp]: "num_checked v = Some w \<longleftrightarrow> in_int_range v \<and> w = v"
  by (auto simp: num_checked_def)

lemma checked_then_range:
  "(case checked_i64 v of Some w \<Rightarrow> num_checked w | None \<Rightarrow> None) = num_checked v"
  by (simp add: checked_i64_def num_checked_def in_int_range_i64)

locale checked_op =
  fixes op :: "int \<Rightarrow> int \<Rightarrow> int option"
    and exact :: "int \<Rightarrow> int \<Rightarrow> int"
  assumes op_exact: "op a b = num_checked (exact a b)"
begin

lemma result_exact: "op a b = Some v \<Longrightarrow> v = exact a b"
  by (simp add: op_exact)

lemma result_in_range: "op a b = Some v \<Longrightarrow> in_int_range v"
  by (auto simp: op_exact)

lemma fails_iff: "op a b = None \<longleftrightarrow> \<not> in_int_range (exact a b)"
  by (simp add: op_exact num_checked_def)

lemma total_in_range: "in_int_range (exact a b) \<Longrightarrow> op a b = Some (exact a b)"
  by (simp add: op_exact num_checked_def)

lemma commutes: "exact a b = exact b a \<Longrightarrow> op a b = op b a"
  by (simp add: op_exact)

end

interpretation add: checked_op num_add "(+)"
  by unfold_locales (simp add: num_add_def checked_then_range)

interpretation sub: checked_op num_sub "(-)"
  by unfold_locales (simp add: num_sub_def checked_then_range)

interpretation mul: checked_op num_mul "(*)"
  by unfold_locales (simp add: num_mul_def checked_then_range)

subsection \<open>Exponentiation\<close>

lemma pow_loop_exact:
  assumes "in_int_range acc" "2 \<le> \<bar>base\<bar>"
  shows "pow_loop base k acc = num_checked (acc * base ^ k)"
  using assms(1)
proof (induction k arbitrary: acc)
  case 0
  then show ?case by (simp add: num_checked_def)
next
  case (Suc k)
  show ?case
  proof (cases "in_int_range (acc * base)")
    case True
    with Suc.IH [OF True] show ?thesis
      by (simp add: mul.total_in_range mult.assoc)
  next
    case False
    have "1 \<le> \<bar>base\<bar> ^ k" using assms(2) by (intro one_le_power) simp
    then have "\<bar>acc * base\<bar> * 1 \<le> \<bar>acc * base\<bar> * \<bar>base\<bar> ^ k"
      by (intro mult_left_mono) simp_all
    then have "\<bar>acc * base\<bar> \<le> \<bar>acc * base ^ Suc k\<bar>"
      by (simp add: abs_mult power_abs mult.assoc)
    with False have "\<not> in_int_range (acc * base ^ Suc k)"
      unfolding in_int_range_iff by linarith
    with False show ?thesis by (simp add: mul.fails_iff [THEN iffD2] num_checked_def)
  qed
qed

lemma minus_one_power: "(- 1 :: int) ^ n = (if n mod 2 = 0 then 1 else - 1)"
  by (auto simp: even_iff_mod_2_eq_zero [symmetric])

lemma num_pow_checked: "num_pow base exp = num_checked (base ^ exp)"
proof (cases "base = 0 \<or> base = 1 \<or> base = - 1")
  case True
  then show ?thesis
    by (auto simp: num_pow_def minus_one_power num_checked_def in_int_range_def ZY_INT_MAX_def
        ZY_INT_MIN_def power_0_left)
next
  case False
  then have "2 \<le> \<bar>base\<bar>" by linarith
  moreover have "in_int_range 1" by (simp add: in_int_range_iff)
  ultimately show ?thesis
    using False by (simp add: num_pow_def pow_loop_exact)
qed

text \<open>
  \<^verbatim>\<open>pow\<close> answers the exact power whenever it is a Zymbol integer and nothing otherwise,
  for every base and exponent: no partial product that left the range and came back, and no
  shortcut base, changes the answer.
\<close>

lemma num_pow_exact: "num_pow base exp = (if in_int_range (base ^ exp) then Some (base ^ exp) else None)"
  by (simp add: num_pow_checked num_checked_def)

subsection \<open>Negation and the float boundary\<close>

text \<open>
  Negation is total on the integers of the language and its own inverse: \<open>-x\<close> is the one
  arithmetic operation that can never raise \<open>##Range\<close>.
\<close>

lemma num_neg_total:
  assumes "in_int_range a"
  shows "num_neg a = Some (- a) \<and> num_neg (- a) = Some a"
proof -
  have r: "in_int_range (- a)" using assms by (simp add: in_int_range_iff)
  have "wrap_i64 (- a) = - a" "wrap_i64 a = a"
    using assms r by (simp_all add: wrap_i64_id in_int_range_i64)
  then show ?thesis using assms r by (simp add: num_neg_def)
qed

lemma ftrunc_of_int: "\<bar>i\<bar> < 2 ^ 53 \<Longrightarrow> ftrunc (f_of_int i) = f_of_int i"
proof -
  assume i: "\<bar>i\<bar> < 2 ^ 53"
  then obtain m e where x: "f_of_int i = FFin (i < 0) m e" by (rule f_of_int_cases)
  have "ftrunc (f_of_int i) = round_ratio (i < 0) (nat \<bar>f_int_part (f_of_int i)\<bar>) 1"
    by (simp add: x)
  also have "\<dots> = f_of_int i"
    unfolding f_int_part_of_int [OF i] by (simp add: f_of_int_def)
  finally show ?thesis .
qed

lemma f_to_i64_of_int:
  assumes "in_int_range i"
  shows "f_to_i64 (f_of_int i) = i"
proof -
  have i: "\<bar>i\<bar> < 2 ^ 53" using assms by (simp add: in_int_range_iff)
  then obtain m e where x: "f_of_int i = FFin (i < 0) m e" by (rule f_of_int_cases)
  have "f_to_i64 (f_of_int i) = max i64_min (min i64_max (f_int_part (f_of_int i)))"
    by (simp add: x)
  with i show ?thesis
    using in_int_range_i64 [OF assms] f_int_part_of_int [OF i] by (simp add: in_i64_def)
qed

lemma ZY_INT_bounds_small [simp]: "\<bar>ZY_INT_MIN\<bar> < 2 ^ 53" "\<bar>ZY_INT_MAX\<bar> < 2 ^ 53"
  by (simp_all add: ZY_INT_MIN_def ZY_INT_MAX_def)

text \<open>
  Every integer of the language survives the round trip through a double: converting it to
  \<^verbatim>\<open>f64\<close> and reading it back with \<^verbatim>\<open>from_f64\<close> gives the same integer. It is the defining
  property of the bound \<open>2^53 - 1\<close>.
\<close>

lemma from_f64_of_int:
  assumes "in_int_range i"
  shows "num_from_f64 (f_of_int i) = Some i"
proof -
  have i: "\<bar>i\<bar> < 2 ^ 53" using assms by (simp add: in_int_range_iff)
  have "\<not> flt (f_of_int i) (f_of_int ZY_INT_MIN)" "\<not> flt (f_of_int ZY_INT_MAX) (f_of_int i)"
    using assms i by (simp_all only: flt_of_int ZY_INT_bounds_small in_int_range_def) auto
  with i assms show ?thesis
    by (simp add: num_from_f64_def ftrunc_of_int f_to_i64_of_int)
qed


subsection \<open>Text and integers\<close>

lemma strip_sign_digits: "ds \<noteq> [] \<Longrightarrow> list_all is_ascii_digit ds \<Longrightarrow> strip_sign ds = (False, ds)"
  by (cases ds) (auto simp: strip_sign_def is_ascii_digit_def)

lemma strip_sign_show_int [simp]: "strip_sign (show_int n) = (n < 0, show_nat (nat \<bar>n\<bar>))"
  by (auto simp: show_int_def strip_sign_def strip_sign_digits [unfolded strip_sign_def]
      show_nat_digits)

lemma parse_i64_show_int [simp]: "parse_i64 (show_int n) = checked_i64 n"
  by (auto simp: parse_i64_def show_nat_digits)

text \<open>
  Reading a number never answers a value the text did not hold: the text of an integer, any
  integer, reads back as that integer when it is one of the language and as no number
  otherwise, never as the nearby float.
\<close>

lemma parse_show_int: "num_parse (show_int n) = (if in_int_range n then NInt n else NNone)"
  by (auto simp: num_parse_def show_nat_digits checked_i64_def in_int_range_i64)

text \<open>
  What \<^verbatim>\<open>parse\<close> reads as an integer is in the range of the language, whatever the text:
  the text is an optional sign and digits that spell exactly that integer.
\<close>

lemma parse_int_sound:
  assumes "num_parse text = NInt n"
  shows "in_int_range n \<and> list_all is_ascii_digit (snd (strip_sign text)) \<and>
         n = (if fst (strip_sign text) then - 1 else 1) * int (read_nat (snd (strip_sign text)))"
proof -
  obtain neg ds where sd: "strip_sign text = (neg, ds)" by (cases "strip_sign text")
  from assms sd have d: "ds \<noteq> []" "list_all is_ascii_digit ds" "parse_i64 text = Some n"
      "in_int_range n"
    by (auto simp: num_parse_def split: if_splits option.splits)
  from d(1,2,3) sd have "n = (if neg then - 1 else 1) * int (read_nat ds)"
    by (auto simp: parse_i64_def checked_i64_def split: if_splits)
  with d sd show ?thesis by simp
qed

text \<open>The text of \<^verbatim>\<open>base_string\<close> read back: sign, prefix, digits.\<close>

definition read_base_string :: "nat \<Rightarrow> ustring \<Rightarrow> int" where
  "read_base_string radix s =
     (let (neg, r) = strip_sign s; m = int (read_radix radix (drop 2 r))
      in if neg then - m else m)"

text \<open>
  \<open>0x|n|\<close>, \<open>0b|n|\<close>, \<open>0o|n|\<close> and \<open>0d|n|\<close> lose nothing: the digits after the prefix, read in
  the radix under the sign in front, are the integer that was written, padding included.
\<close>

lemma base_string_roundtrip:
  assumes "radix \<in> {2, 8, 10, 16}"
  shows "read_base_string radix (base_string n radix) = n"
  using assms
  by (auto simp: read_base_string_def base_string_def strip_sign_def Let_def)


end
