(* ===== verification/ZyTime.thy ===== *)
theory ZyTime
  imports ZyNum
begin

section \<open>The civil calendar: \<^verbatim>\<open>zymbol-intrinsics/src/time.rs\<close>\<close>

text \<open>
  Instants are milliseconds since 1970-01-01T00:00:00Z; a calendar reading is an instant plus
  an offset in minutes. The arithmetic is the source's, on \<open>int\<close> with Rust's truncating
  division (\<open>sdiv\<close>, \<open>smod\<close>) where the source writes \<open>/\<close> and \<open>%\<close>, and \<open>div\<close>, \<open>mod\<close> where it
  writes \<^verbatim>\<open>div_euclid\<close>, \<^verbatim>\<open>rem_euclid\<close>. Instants and counts of the language are below \<open>2^53\<close>, so the
  only \<^verbatim>\<open>i64\<close> operations that could overflow are the ones the source writes as \<^verbatim>\<open>checked_\<close>, and
  those are modelled as such. The machine's clock and zone (the trait \<^verbatim>\<open>Clock\<close>) are the record
  \<open>clock\<close>, whose fields are arbitrary functions. An error keeps what its message says.
\<close>

subsection \<open>The calendar\<close>

definition days_from_civil :: "int \<Rightarrow> int \<Rightarrow> int \<Rightarrow> int" where
  "days_from_civil year month day =
     (let y = (if month \<le> 2 then year - 1 else year);
          era = (if y \<ge> 0 then y else y - 399) sdiv 400;
          yoe = y - era * 400;
          mp = (month + 9) smod 12;
          doy = (153 * mp + 2) sdiv 5 + day - 1;
          doe = yoe * 365 + yoe sdiv 4 - yoe sdiv 100 + doy
      in era * 146097 + doe - 719468)"

definition civil_from_days :: "int \<Rightarrow> int \<times> int \<times> int" where
  "civil_from_days days =
     (let z = days + 719468;
          era = (if z \<ge> 0 then z else z - 146096) sdiv 146097;
          doe = z - era * 146097;
          yoe = (doe - doe sdiv 1460 + doe sdiv 36524 - doe sdiv 146096) sdiv 365;
          y = yoe + era * 400;
          doy = doe - (365 * yoe + yoe sdiv 4 - yoe sdiv 100);
          mp = (5 * doy + 2) sdiv 153;
          d = doy - (153 * mp + 2) sdiv 5 + 1;
          m = (if mp < 10 then mp + 3 else mp - 9)
      in (if m \<le> 2 then y + 1 else y, m, d))"

definition is_leap :: "int \<Rightarrow> bool" where
  "is_leap year \<longleftrightarrow> (year smod 4 = 0 \<and> year smod 100 \<noteq> 0) \<or> year smod 400 = 0"

definition days_in_month :: "int \<Rightarrow> int \<Rightarrow> int" where
  "days_in_month year month =
     (if month \<in> {1, 3, 5, 7, 8, 10, 12} then 31
      else if month \<in> {4, 6, 9, 11} then 30
      else if month = 2 then (if is_leap year then 29 else 28)
      else 0)"

subsection \<open>Units, zones and errors\<close>

definition MS_PER_SECOND :: int where "MS_PER_SECOND = 1000"
definition MS_PER_MINUTE :: int where "MS_PER_MINUTE = 60 * MS_PER_SECOND"
definition MS_PER_HOUR :: int where "MS_PER_HOUR = 60 * MS_PER_MINUTE"
definition MS_PER_DAY :: int where "MS_PER_DAY = 24 * MS_PER_HOUR"

definition MAX_SAFE :: int where "MAX_SAFE = 9007199254740991"

lemmas ms_defs = MS_PER_DAY_def MS_PER_HOUR_def MS_PER_MINUTE_def MS_PER_SECOND_def

datatype unit_of_time = Duration int | Days int | Months int

datatype zone = Utc | Local | Fixed int

datatype time_error =
    UnknownUnit ustring
  | BadZone ustring
  | YearOutside int
  | MonthOutside int
  | DayOutside int int int int \<comment> \<open>day, last, year, month\<close>
  | HourOutside int
  | MinuteOutside int
  | SecondOutside int
  | MillisecondOutside int
  | TimeOverflow
  | NoLocalZone ustring
  | UnknownPattern uchar
  | LonePercent
  | WrongFieldCount nat

definition parse_unit :: "ustring \<Rightarrow> time_error + unit_of_time" where
  "parse_unit name =
     (if name = U ''millisecond'' then Inr (Duration 1)
      else if name = U ''second'' then Inr (Duration MS_PER_SECOND)
      else if name = U ''minute'' then Inr (Duration MS_PER_MINUTE)
      else if name = U ''hour'' then Inr (Duration MS_PER_HOUR)
      else if name = U ''day'' then Inr (Days 1)
      else if name = U ''week'' then Inr (Days 7)
      else if name = U ''month'' then Inr (Months 1)
      else if name = U ''year'' then Inr (Months 12)
      else Inl (UnknownUnit name))"

text \<open>
  \<open>parse_zone\<close> works on the bytes of its argument; a text whose bytes are a sign and four ASCII
  digits has exactly those five characters, so the test reads the characters.
\<close>

definition parse_zone :: "ustring \<Rightarrow> time_error + zone" where
  "parse_zone spec =
     (if spec = U ''UTC'' then Inr Utc
      else if spec = U ''local'' then Inr Local
      else case spec of
        [] \<Rightarrow> Inl (BadZone spec)
      | c # ds \<Rightarrow>
          if c \<noteq> 43 \<and> c \<noteq> 45 then Inl (BadZone spec)
          else if length spec \<noteq> 5 \<or> \<not> list_all is_ascii_digit ds then Inl (BadZone spec)
          else (let sign = (if c = 43 then 1 else - 1);
                    hours = int (read_nat (take 2 ds));
                    minutes = int (read_nat (drop 2 ds))
                in if hours > 23 \<or> minutes > 59 then Inl (BadZone spec)
                   else Inr (Fixed (sign * (hours * 60 + minutes)))))"

record clock =
  now_ms :: int
  local_offset_minutes_at :: "int \<Rightarrow> time_error + int"

fun offset_of :: "clock \<Rightarrow> zone \<Rightarrow> int \<Rightarrow> time_error + int" where
  "offset_of clk Utc epoch_ms = Inr 0"
| "offset_of clk (Fixed m) epoch_ms = Inr m"
| "offset_of clk Local epoch_ms = local_offset_minutes_at clk epoch_ms"

subsection \<open>Reading an instant, and naming one\<close>

record parts =
  year :: int
  month :: int
  day :: int
  hour :: int
  minute :: int
  second :: int
  millisecond :: int
  weekday :: int
  offset :: int

definition parts_at :: "int \<Rightarrow> int \<Rightarrow> parts" where
  "parts_at epoch_ms offset_min =
     (let shifted = epoch_ms + offset_min * MS_PER_MINUTE;
          days = shifted div MS_PER_DAY;
          in_day = shifted mod MS_PER_DAY;
          (y, m, d) = civil_from_days days
      in \<lparr>year = y, month = m, day = d,
          hour = in_day sdiv MS_PER_HOUR,
          minute = in_day sdiv MS_PER_MINUTE smod 60,
          second = in_day sdiv MS_PER_SECOND smod 60,
          millisecond = in_day smod MS_PER_SECOND,
          weekday = (days + 3) mod 7 + 1,
          offset = offset_min\<rparr>)"

definition guard :: "int \<Rightarrow> time_error + int" where
  "guard ms = (if \<bar>ms\<bar> > MAX_SAFE then Inl TimeOverflow else Inr ms)"

definition epoch_from_civil ::
    "int \<Rightarrow> int \<Rightarrow> int \<Rightarrow> int \<Rightarrow> int \<Rightarrow> int \<Rightarrow> int \<Rightarrow> int \<Rightarrow> time_error + int" where
  "epoch_from_civil y mo d h mi s ms offset_min =
     (if \<not> (- 9999 \<le> y \<and> y \<le> 9999) then Inl (YearOutside y)
      else if \<not> (1 \<le> mo \<and> mo \<le> 12) then Inl (MonthOutside mo)
      else let last = days_in_month y mo in
      if \<not> (1 \<le> d \<and> d \<le> last) then Inl (DayOutside d last y mo)
      else if \<not> (0 \<le> h \<and> h \<le> 23) then Inl (HourOutside h)
      else if \<not> (0 \<le> mi \<and> mi \<le> 59) then Inl (MinuteOutside mi)
      else if \<not> (0 \<le> s \<and> s \<le> 59) then Inl (SecondOutside s)
      else if \<not> (0 \<le> ms \<and> ms \<le> 999) then Inl (MillisecondOutside ms)
      else guard (days_from_civil y mo d * MS_PER_DAY + h * MS_PER_HOUR + mi * MS_PER_MINUTE
                  + s * MS_PER_SECOND + ms - offset_min * MS_PER_MINUTE))"

definition epoch_from_civil_in ::
    "clock \<Rightarrow> int \<Rightarrow> int \<Rightarrow> int \<Rightarrow> int \<Rightarrow> int \<Rightarrow> int \<Rightarrow> int \<Rightarrow> zone \<Rightarrow> time_error + int" where
  "epoch_from_civil_in clk y mo d h mi s ms zn =
     rbind (case zn of
              Utc \<Rightarrow> Inr 0
            | Fixed m \<Rightarrow> Inr m
            | Local \<Rightarrow> rbind (epoch_from_civil y mo d h mi s ms 0) (local_offset_minutes_at clk))
       (\<lambda>off. rbind (epoch_from_civil y mo d h mi s ms off)
         (\<lambda>e. if zn = Local
              then rbind (local_offset_minutes_at clk e)
                     (\<lambda>corrected. if corrected \<noteq> off
                                  then epoch_from_civil y mo d h mi s ms corrected
                                  else Inr e)
              else Inr e))"

subsection \<open>Arithmetic on instants\<close>

definition rebuild :: "clock \<Rightarrow> int \<Rightarrow> int \<Rightarrow> int \<Rightarrow> parts \<Rightarrow> zone \<Rightarrow> time_error + int" where
  "rebuild clk y m d p zn =
     epoch_from_civil_in clk y m d (hour p) (minute p) (second p) (millisecond p) zn"

text \<open>\<^verbatim>\<open>ok_or_else(overflow)\<close> on a checked \<^verbatim>\<open>i64\<close> operation.\<close>

definition or_overflow :: "int option \<Rightarrow> time_error + int" where
  "or_overflow v = (case v of None \<Rightarrow> Inl TimeOverflow | Some n \<Rightarrow> Inr n)"

fun time_add :: "clock \<Rightarrow> int \<Rightarrow> int \<Rightarrow> unit_of_time \<Rightarrow> zone \<Rightarrow> time_error + int" where
  "time_add clk epoch_ms count (Duration step) zn =
     rbind (or_overflow (checked_i64 (count * step)))
       (\<lambda>n. rbind (or_overflow (checked_i64 (epoch_ms + n))) guard)"
| "time_add clk epoch_ms count (Days per) zn =
     rbind (offset_of clk zn epoch_ms)
       (\<lambda>off. let p = parts_at epoch_ms off in
         rbind (or_overflow (checked_i64 (count * per)))
           (\<lambda>n. rbind (or_overflow (checked_i64 (days_from_civil (year p) (month p) (day p) + n)))
             (\<lambda>days. let (y, m, d) = civil_from_days days in rebuild clk y m d p zn)))"
| "time_add clk epoch_ms count (Months per) zn =
     rbind (offset_of clk zn epoch_ms)
       (\<lambda>off. let p = parts_at epoch_ms off in
         rbind (or_overflow (checked_i64 (count * per)))
           (\<lambda>n. rbind (or_overflow (checked_i64 (year p * 12 + (month p - 1) + n)))
             (\<lambda>total. let y = total div 12; m = total mod 12 + 1;
                          d = min (day p) (days_in_month y m)
                      in rebuild clk y m d p zn)))"

text \<open>The order of \<open>day_time\<close>: Rust compares the tuples left to right.\<close>

definition day_time :: "parts \<Rightarrow> int list" where
  "day_time p = [day p, hour p, minute p, second p, millisecond p]"

fun lex_less :: "int list \<Rightarrow> int list \<Rightarrow> bool" where
  "lex_less (x # xs) (y # ys) = (x < y \<or> (x = y \<and> lex_less xs ys))"
| "lex_less [] (y # ys) = True"
| "lex_less _ [] = False"

fun time_diff :: "clock \<Rightarrow> int \<Rightarrow> int \<Rightarrow> unit_of_time \<Rightarrow> zone \<Rightarrow> time_error + int" where
  "time_diff clk a b (Duration step) zn = Inr ((a - b) sdiv step)"
| "time_diff clk a b (Days per) zn =
     rbind (offset_of clk zn a) (\<lambda>oa. let pa = parts_at a oa in
     rbind (offset_of clk zn b) (\<lambda>ob. let pb = parts_at b ob in
       Inr ((days_from_civil (year pa) (month pa) (day pa)
             - days_from_civil (year pb) (month pb) (day pb)) sdiv per)))"
| "time_diff clk a b (Months per) zn =
     rbind (offset_of clk zn a) (\<lambda>oa. let pa = parts_at a oa in
     rbind (offset_of clk zn b) (\<lambda>ob. let pb = parts_at b ob;
         months = (year pa - year pb) * 12 + (month pa - month pb);
         months' = (if months > 0 \<and> lex_less (day_time pa) (day_time pb) then months - 1
                    else if months < 0 \<and> lex_less (day_time pb) (day_time pa) then months + 1
                    else months)
       in Inr (months' sdiv per)))"

subsection \<open>Formatting\<close>

definition pad2 :: "int \<Rightarrow> ustring" where
  "pad2 n = (if n < 10 then U ''0'' else []) @ show_int n"

text \<open>\<open>{:03}\<close> and \<open>{:04}\<close> of a non-negative number.\<close>

definition zeros :: "nat \<Rightarrow> int \<Rightarrow> ustring" where
  "zeros w n = pad_zero w (show_nat (nat n))"

definition year_text :: "int \<Rightarrow> ustring" where
  "year_text y = (if y < 0 then U ''-'' @ zeros 4 (- y) else zeros 4 y)"

definition offset_text :: "int \<Rightarrow> ustring" where
  "offset_text minutes =
     (let sign = (if minutes < 0 then 45 else 43); a = \<bar>minutes\<bar>
      in sign # zeros 2 (a sdiv 60) @ zeros 2 (a smod 60))"

definition day_of_year :: "parts \<Rightarrow> int" where
  "day_of_year p = days_from_civil (year p) (month p) (day p) - days_from_civil (year p) 1 1 + 1"

definition pattern_text :: "parts \<Rightarrow> uchar \<Rightarrow> time_error + ustring" where
  "pattern_text p c =
     (if c = of_char (CHR ''Y'') then Inr (year_text (year p))
      else if c = of_char (CHR ''m'') then Inr (pad2 (month p))
      else if c = of_char (CHR ''d'') then Inr (pad2 (day p))
      else if c = of_char (CHR ''H'') then Inr (pad2 (hour p))
      else if c = of_char (CHR ''M'') then Inr (pad2 (minute p))
      else if c = of_char (CHR ''S'') then Inr (pad2 (second p))
      else if c = of_char (CHR ''L'') then Inr (zeros 3 (millisecond p))
      else if c = of_char (CHR ''j'') then Inr (zeros 3 (day_of_year p))
      else if c = of_char (CHR ''u'') then Inr (show_int (weekday p))
      else if c = of_char (CHR ''z'') then Inr (offset_text (offset p))
      else if c = of_char (CHR ''F'') then
        Inr (year_text (year p) @ U ''-'' @ pad2 (month p) @ U ''-'' @ pad2 (day p))
      else if c = of_char (CHR ''T'') then
        Inr (pad2 (hour p) @ U '':'' @ pad2 (minute p) @ U '':'' @ pad2 (second p))
      else if c = of_char (CHR ''%'') then Inr (U ''%'')
      else Inl (UnknownPattern c))"

fun format_loop :: "parts \<Rightarrow> ustring \<Rightarrow> ustring \<Rightarrow> time_error + ustring" where
  "format_loop p out [] = Inr out"
| "format_loop p out (c # cs) =
     (if c \<noteq> 37 then format_loop p (out @ [c]) cs
      else case cs of
             [] \<Rightarrow> Inl LonePercent
           | d # ds \<Rightarrow> rbind (pattern_text p d) (\<lambda>t. format_loop p (out @ t) ds))"

definition time_format :: "int \<Rightarrow> ustring \<Rightarrow> int \<Rightarrow> time_error + ustring" where
  "time_format epoch_ms pattern offset_min = format_loop (parts_at epoch_ms offset_min) [] pattern"

definition iso_date :: "int \<Rightarrow> int \<Rightarrow> ustring" where
  "iso_date epoch_ms offset_min =
     (let p = parts_at epoch_ms offset_min
      in year_text (year p) @ U ''-'' @ pad2 (month p) @ U ''-'' @ pad2 (day p))"

subsection \<open>What \<^verbatim>\<open>std/time\<close> exports\<close>

definition zone_or_utc :: "ustring option \<Rightarrow> time_error + zone" where
  "zone_or_utc spec = (case spec of None \<Rightarrow> Inr Utc | Some s \<Rightarrow> parse_zone s)"

definition call_today_with :: "clock \<Rightarrow> ustring option \<Rightarrow> time_error + ustring" where
  "call_today_with clk zn =
     rbind (zone_or_utc zn) (\<lambda>z. rbind (offset_of clk z (now_ms clk))
       (\<lambda>off. Inr (iso_date (now_ms clk) off)))"

definition call_parts_with :: "clock \<Rightarrow> int \<Rightarrow> ustring option \<Rightarrow> time_error + parts" where
  "call_parts_with clk epoch_ms zn =
     rbind (zone_or_utc zn) (\<lambda>z. rbind (offset_of clk z epoch_ms)
       (\<lambda>off. Inr (parts_at epoch_ms off)))"

definition call_of_with :: "clock \<Rightarrow> int list \<Rightarrow> ustring option \<Rightarrow> time_error + int" where
  "call_of_with clk fs zn =
     (case fs of
        [y, mo, d] \<Rightarrow> rbind (zone_or_utc zn) (epoch_from_civil_in clk y mo d 0 0 0 0)
      | [y, mo, d, h, mi, s] \<Rightarrow> rbind (zone_or_utc zn) (epoch_from_civil_in clk y mo d h mi s 0)
      | _ \<Rightarrow> Inl (WrongFieldCount (length fs)))"

definition call_format_with :: "clock \<Rightarrow> int \<Rightarrow> ustring \<Rightarrow> ustring option \<Rightarrow> time_error + ustring" where
  "call_format_with clk epoch_ms pattern zn =
     rbind (zone_or_utc zn) (\<lambda>z. rbind (offset_of clk z epoch_ms)
       (\<lambda>off. time_format epoch_ms pattern off))"

definition call_add_with ::
    "clock \<Rightarrow> int \<Rightarrow> int \<Rightarrow> ustring \<Rightarrow> ustring option \<Rightarrow> time_error + int" where
  "call_add_with clk epoch_ms count u zn =
     rbind (parse_unit u) (\<lambda>u'. rbind (zone_or_utc zn) (time_add clk epoch_ms count u'))"

definition call_diff_with ::
    "clock \<Rightarrow> int \<Rightarrow> int \<Rightarrow> ustring \<Rightarrow> ustring option \<Rightarrow> time_error + int" where
  "call_diff_with clk a b u zn =
     rbind (parse_unit u) (\<lambda>u'. rbind (zone_or_utc zn) (time_diff clk a b u'))"

end
