(* ===== verification/ZyCalendar.thy ===== *)
theory ZyCalendar
  imports ZyTime
begin

section \<open>The calendar is a bijection\<close>

text \<open>
  Correctness of \<open>days_from_civil\<close> and \<open>civil_from_days\<close> over the whole proleptic Gregorian
  calendar, and of what \<^verbatim>\<open>std/time\<close> builds on them: reading an instant and naming it, adding,
  and the text of a zone. The locale \<open>codec\<close> is the contract of a pair of inverse operations; it
  is interpreted on the calendar and on the text of a fixed zone.
\<close>

subsection \<open>The contract of an encoding\<close>

locale codec =
  fixes enc :: "'a \<Rightarrow> 'b"
    and dec :: "'b \<Rightarrow> 'a"
    and valid :: "'a \<Rightarrow> bool"
  assumes dec_enc: "valid x \<Longrightarrow> dec (enc x) = x"
begin

lemma enc_inj: "valid x \<Longrightarrow> valid y \<Longrightarrow> enc x = enc y \<longleftrightarrow> x = y"
  by (metis dec_enc)

end

locale bijective_codec = codec +
  assumes valid_dec: "valid (dec b)"
    and enc_dec: "enc (dec b) = b"
begin

lemma dec_eq_iff: "valid x \<Longrightarrow> dec b = x \<longleftrightarrow> enc x = b"
  by (auto simp: dec_enc enc_dec)

lemma dec_inj: "dec b = dec c \<longleftrightarrow> b = c"
  by (metis enc_dec)

lemma encoded_once: "\<exists>!x. valid x \<and> enc x = b"
  by (metis dec_enc enc_dec valid_dec)

end

subsection \<open>The era arithmetic\<close>

text \<open>
  The year of an era that starts in March: \<open>year_start y\<close> days precede year \<open>y\<close>, and
  \<open>year_of_day\<close> is the source's formula for the year a day of the era is in. The formula is
  monotone, so it is right on a whole year as soon as it is right at its two ends; those 800
  values are evaluated.
\<close>

definition year_start :: "int \<Rightarrow> int" where
  "year_start y = 365 * y + y div 4 - y div 100"

definition year_last :: "int \<Rightarrow> int" where
  "year_last y = (if y = 399 then 146096 else year_start (y + 1) - 1)"

definition year_of_day :: "int \<Rightarrow> int" where
  "year_of_day n = (n - n div 1460 + n div 36524 - n div 146096) div 365"

lemma div_step:
  assumes "0 < (k::int)"
  shows "(n + 1) div k = (if k dvd n + 1 then n div k + 1 else n div k)"
proof (cases "k dvd n + 1")
  case True
  then obtain c where c: "n + 1 = k * c" by (auto elim: dvdE)
  then have "n = k * (c - 1) + (k - 1)" by (simp add: algebra_simps)
  then have "n div k = c - 1" using assms by (intro int_div_pos_eq [where r = "k - 1"]) simp_all
  with c assms True show ?thesis by simp
next
  case False
  have "n mod k + 1 \<noteq> k"
  proof
    assume "n mod k + 1 = k"
    then have "n + 1 = k * (n div k + 1)"
      using mult_div_mod_eq [of k n] by (simp only: distrib_left)
    with False show False by simp
  qed
  with assms have "n mod k + 1 < k" using pos_mod_bound [of k n] by linarith
  then have "(n + 1) div k = n div k"
    using assms by (intro int_div_pos_eq [where r = "n mod k + 1"]) (simp_all add: algebra_simps)
  with False show ?thesis by simp
qed

lemma year_of_day_mono_step: "year_of_day n \<le> year_of_day (n + 1)"
proof -
  have "(n + 1) div 1460 \<le> n div 1460 + 1" by (simp add: div_step)
  moreover have "(n + 1) div 146096 - n div 146096 \<le> (n + 1) div 36524 - n div 36524"
  proof (cases "146096 dvd n + 1")
    case True
    then have "36524 dvd n + 1" by (rule dvd_trans [rotated]) simp
    with True show ?thesis by (simp add: div_step)
  next
    case False
    then show ?thesis by (simp add: div_step)
  qed
  ultimately have "n - n div 1460 + n div 36524 - n div 146096
      \<le> (n + 1) - (n + 1) div 1460 + (n + 1) div 36524 - (n + 1) div 146096"
    by linarith
  then show ?thesis unfolding year_of_day_def by (intro zdiv_mono1) simp_all
qed

lemma year_of_day_mono: "m \<le> n \<Longrightarrow> year_of_day m \<le> year_of_day n"
proof (induction n rule: int_ge_induct)
  case (step i)
  then show ?case using year_of_day_mono_step [of i] by linarith
qed simp

lemma year_of_day_ends:
  "list_all (\<lambda>y. year_of_day (year_start y) = y \<and> year_of_day (year_last y) = y) [0..399]"
  by code_simp

lemma year_of_day_eq:
  assumes "0 \<le> y" "y < 400" "year_start y \<le> n" "n \<le> year_last y"
  shows "year_of_day n = y"
proof -
  from assms(1,2) have "year_of_day (year_start y) = y" "year_of_day (year_last y) = y"
    using year_of_day_ends by (simp_all add: list_all_iff)
  with year_of_day_mono [OF assms(3)] year_of_day_mono [OF assms(4)] show ?thesis by simp
qed

lemma floor_sdiv:
  assumes "0 < (k::int)"
  shows "(if z \<ge> 0 then z else z - (k - 1)) sdiv k = z div k"
proof (cases "z \<ge> 0")
  case True
  with assms show ?thesis by (simp add: sdiv_nonneg_eq)
next
  case False
  have "k - 1 - z = k * (- (z div k)) + (k - 1 - z mod k)"
    using mult_div_mod_eq [of k z] by (simp add: algebra_simps)
  then have "(k - 1 - z) div k = - (z div k)"
    using assms pos_mod_bound [of k z] pos_mod_sign [of k z]
    by (intro int_div_pos_eq [where r = "k - 1 - z mod k"]) linarith+
  moreover have "(z - (k - 1)) sdiv k = - ((k - 1 - z) div k)"
    using assms False by (simp add: signed_divide_int_def sgn_if)
  ultimately show ?thesis using False by simp
qed

lemma smod_eq_0_iff: "(a::int) smod b = 0 \<longleftrightarrow> b dvd a"
proof -
  have "a smod b = sgn a * (\<bar>a\<bar> mod \<bar>b\<bar>)" by (rule signed_modulo_int_def)
  then show ?thesis
    by (cases "a = 0") (auto simp: sgn_if dvd_eq_mod_eq_0 [symmetric])
qed

lemma is_leap_iff: "is_leap y \<longleftrightarrow> (4 dvd y \<and> \<not> 100 dvd y) \<or> 400 dvd y"
  by (simp add: is_leap_def smod_eq_0_iff)

lemma year_start_step:
  "year_start (y + 1) = year_start y + 365 + (if 4 dvd y + 1 then 1 else 0) - (if 100 dvd y + 1 then 1 else 0)"
  by (simp add: year_start_def div_step)

lemma year_length:
  assumes "0 \<le> y" "y < 400"
  shows "year_last y = year_start y + (if is_leap (y + 1 + 400 * e) then 365 else 364)"
proof -
  have l: "is_leap (y + 1 + 400 * e) \<longleftrightarrow> (4 dvd y + 1 \<and> \<not> 100 dvd y + 1) \<or> 400 dvd y + 1"
  proof -
    have "k dvd y + 1 + 400 * e \<longleftrightarrow> k dvd y + 1" if "k dvd 400" for k :: int
      using that by (simp add: dvd_add_left_iff)
    then show ?thesis by (simp add: is_leap_iff)
  qed
  have "400 dvd y + 1 \<longleftrightarrow> y = 399" using assms by presburger
  moreover have "100 dvd y + 1 \<Longrightarrow> 4 dvd y + 1" by presburger
  ultimately show ?thesis
    by (auto simp: year_last_def l year_start_step) (simp_all add: year_start_def)
qed

lemma year_start_mono: "m \<le> n \<Longrightarrow> year_start m \<le> year_start n"
proof (induction n rule: int_ge_induct)
  case (step i)
  then show ?case using year_start_step [of i] by (simp split: if_splits)
qed simp

lemma year_exists:
  assumes "0 \<le> n" "n < 146097"
  shows "\<exists>y. 0 \<le> y \<and> y < 400 \<and> year_start y \<le> n \<and> n \<le> year_last y"
proof -
  define S where "S = {y. 0 \<le> y \<and> y < 400 \<and> year_start y \<le> n}"
  define M where "M = Max S"
  have fin: "finite S" by (rule finite_subset [of _ "{0..<400}"]) (auto simp: S_def)
  have "0 \<in> S" using assms by (simp add: S_def year_start_def)
  then have "M \<in> S" unfolding M_def using fin by (intro Max_in) auto
  then have M: "0 \<le> M" "M < 400" "year_start M \<le> n" by (simp_all add: S_def)
  have "n \<le> year_last M"
  proof (cases "M = 399")
    case True
    with assms show ?thesis by (simp add: year_last_def)
  next
    case False
    have "M + 1 \<notin> S" using Max_ge [OF fin, of "M + 1"] M_def by auto
    with False M have "\<not> year_start (M + 1) \<le> n" by (simp add: S_def)
    with False show ?thesis by (simp add: year_last_def)
  qed
  with M show ?thesis by blast
qed

subsection \<open>The source's formulas, over floor division\<close>

lemma day_of_era:
  assumes "0 \<le> n" "n < 146097"
  shows "(n - n sdiv 1460 + n sdiv 36524 - n sdiv 146096) sdiv 365 = year_of_day n"
proof -
  have "n div 1460 \<le> n" "n div 146096 \<le> n div 36524"
    using assms zdiv_mono2 [of n 1 1460] by (simp_all add: zdiv_mono2)
  then show ?thesis
    using assms by (simp add: sdiv_nonneg_eq year_of_day_def)
qed

lemma era_of_days: "(if z \<ge> 0 then z else z - 146096) sdiv 146097 = z div (146097::int)"
  using floor_sdiv [of 146097 z] by (cases "z \<ge> 0") simp_all

lemma era_of_years: "(if z \<ge> 0 then z else z - 399) sdiv 400 = z div (400::int)"
  using floor_sdiv [of 400 z] by (cases "z \<ge> 0") simp_all

definition valid_date :: "int \<Rightarrow> int \<Rightarrow> int \<Rightarrow> bool" where
  "valid_date y m d \<longleftrightarrow> 1 \<le> m \<and> m \<le> 12 \<and> 1 \<le> d \<and> d \<le> days_in_month y m"

text \<open>The month and day of a day of a March-based year, and back.\<close>

definition month_of_doy :: "int \<Rightarrow> int" where
  "month_of_doy doy = (5 * doy + 2) div 153"

definition doy_of_month :: "int \<Rightarrow> int" where
  "doy_of_month mp = (153 * mp + 2) div 5"

lemma civil_from_days_eq:
  assumes "0 \<le> y" "y < 400" "year_start y \<le> doe" "doe \<le> year_last y"
  shows "civil_from_days (era * 146097 + doe - 719468) =
    (let doy = doe - year_start y; mp = month_of_doy doy;
         m = (if mp < 10 then mp + 3 else mp - 9)
     in (if m \<le> 2 then y + era * 400 + 1 else y + era * 400, m, doy - doy_of_month mp + 1))"
proof -
  have "0 \<le> year_start y" using assms year_start_mono [of 0 y] by (simp add: year_start_def)
  moreover have "year_last y \<le> 146096"
    using year_start_mono [of "y + 1" 399] assms by (auto simp: year_last_def year_start_def)
  ultimately have doe: "0 \<le> doe" "doe < 146097" using assms by linarith+
  have era: "(era * 146097 + doe) div 146097 = era" using doe by simp
  have yoe: "year_of_day doe = y" using assms by (rule year_of_day_eq)
  have ys: "365 * y + y sdiv 4 - y sdiv 100 = year_start y"
    using assms by (simp add: year_start_def sdiv_nonneg_eq)
  have mp: "(5 * doy + 2) sdiv 153 = month_of_doy doy" "0 \<le> month_of_doy doy" if "0 \<le> doy" for doy
    using that by (simp_all add: month_of_doy_def sdiv_nonneg_eq)
  have dm: "(153 * mp + 2) sdiv 5 = doy_of_month mp" if "0 \<le> mp" for mp
    using that by (simp add: doy_of_month_def sdiv_nonneg_eq)
  have z: "era * 146097 + doe - 719468 + 719468 = era * 146097 + doe"
    "era * 146097 + doe - era * 146097 = doe" by simp_all
  have doy: "0 \<le> doe - year_start y" using assms by simp
  show ?thesis
    unfolding civil_from_days_def Let_def z era_of_days era day_of_era [OF doe] yoe ys mp [OF doy]
      dm [OF mp(2) [OF doy]] ..
qed

lemma days_from_civil_eq:
  assumes "1 \<le> m" "m \<le> 12"
  shows "days_from_civil y m d =
    (let y' = (if m \<le> 2 then y - 1 else y); mp = (if m \<le> 2 then m + 9 else m - 3)
     in (y' div 400) * 146097 + (year_start (y' mod 400) + doy_of_month mp + d - 1) - 719468)"
proof -
  have mp: "(m + 9) mod 12 = (if m \<le> 2 then m + 9 else m - 3)"
    using assms by presburger
  have "y' - y' div 400 * 400 = y' mod 400" for y' :: int by (simp add: minus_div_mult_eq_mod)
  moreover have "(153 * k + 2) sdiv 5 = doy_of_month k" if "0 \<le> k" for k
    using that by (simp add: doy_of_month_def sdiv_nonneg_eq)
  moreover have "k * 365 + k sdiv 4 - k sdiv 100 = year_start k" if "0 \<le> k" for k
    using that by (simp add: year_start_def sdiv_nonneg_eq)
  moreover have "(m + 9) smod 12 = (if m \<le> 2 then m + 9 else m - 3)"
    using assms mp by (simp add: smod_nonneg_eq)
  ultimately show ?thesis
    using assms by (simp only: days_from_civil_def Let_def era_of_years) simp
qed

subsection \<open>The round trips\<close>

lemma month_cases:
  assumes "1 \<le> (m::int)" "m \<le> 12"
  shows "m = 1 \<or> m = 2 \<or> m = 3 \<or> m = 4 \<or> m = 5 \<or> m = 6 \<or> m = 7 \<or> m = 8 \<or> m = 9 \<or> m = 10
    \<or> m = 11 \<or> m = 12"
  using assms by arith

lemma month_of_doy_bounds:
  assumes "0 \<le> doy" "doy \<le> 365"
  shows "0 \<le> month_of_doy doy \<and> month_of_doy doy \<le> 11 \<and> doy_of_month (month_of_doy doy) \<le> doy"
  using assms unfolding month_of_doy_def doy_of_month_def by linarith

lemma month_of_doy_of_month:
  assumes "1 \<le> m" "m \<le> 12" "1 \<le> d" "d \<le> days_in_month y m"
  shows "month_of_doy (doy_of_month (if m \<le> 2 then m + 9 else m - 3) + d - 1)
       = (if m \<le> 2 then m + 9 else m - 3)"
  using month_cases [OF assms(1,2)] assms(3,4)
  by (elim disjE) (simp_all add: month_of_doy_def doy_of_month_def days_in_month_def split: if_splits)

lemma date_doy_bound:
  assumes "valid_date y m d"
  shows "0 \<le> doy_of_month (if m \<le> 2 then m + 9 else m - 3) + d - 1 \<and>
         doy_of_month (if m \<le> 2 then m + 9 else m - 3) + d - 1
           \<le> (if is_leap ((if m \<le> 2 then y - 1 else y) + 1) then 365 else 364)"
proof -
  from assms have m: "1 \<le> m" "m \<le> 12" and d: "1 \<le> d" "d \<le> days_in_month y m"
    by (simp_all add: valid_date_def)
  show ?thesis
    using month_cases [OF m] d by (elim disjE)
      (simp_all add: doy_of_month_def days_in_month_def split: if_splits)
qed

lemma civil_from_days_of_days:
  assumes "valid_date y m d"
  shows "civil_from_days (days_from_civil y m d) = (y, m, d)"
proof -
  from assms have m: "1 \<le> m" "m \<le> 12" and d: "1 \<le> d" "d \<le> days_in_month y m"
    by (simp_all add: valid_date_def)
  define y' where "y' = (if m \<le> 2 then y - 1 else y)"
  define mp where "mp = (if m \<le> 2 then m + 9 else m - 3)"
  define yoe where "yoe = y' mod 400"
  define doy where "doy = doy_of_month mp + d - 1"
  have days: "days_from_civil y m d = y' div 400 * 146097 + (year_start yoe + doy) - 719468"
    using days_from_civil_eq [OF m, of y d]
    by (simp add: Let_def y'_def [symmetric] mp_def [symmetric] yoe_def [symmetric] doy_def)
  have yoe: "0 \<le> yoe" "yoe < 400" and y'_eq: "y' + 1 = yoe + 1 + 400 * (y' div 400)"
    using mult_div_mod_eq [of 400 y'] by (simp_all add: yoe_def)
  have doy: "0 \<le> doy" "doy \<le> (if is_leap (y' + 1) then 365 else 364)"
    using date_doy_bound [OF assms] by (simp_all add: doy_def mp_def y'_def)
  have "month_of_doy doy = mp"
    using month_of_doy_of_month [OF m d] by (simp add: doy_def mp_def)
  moreover have "yoe + y' div 400 * 400 = y'" by (simp add: yoe_def)
  moreover have "doy - doy_of_month mp + 1 = d" by (simp add: doy_def)
  moreover have "civil_from_days (days_from_civil y m d) =
      (let doy = year_start yoe + doy - year_start yoe; mp = month_of_doy doy;
           m = (if mp < 10 then mp + 3 else mp - 9)
       in (if m \<le> 2 then yoe + y' div 400 * 400 + 1 else yoe + y' div 400 * 400, m,
           doy - doy_of_month mp + 1))"
    unfolding days using yoe doy year_length [OF yoe, of "y' div 400"]
    by (intro civil_from_days_eq) (simp_all add: y'_eq)
  ultimately show ?thesis
    using m by (auto simp: Let_def mp_def y'_def [symmetric]) (simp_all add: y'_def)
qed

lemma days_from_civil_of_civil:
  "case civil_from_days days of (y, m, d) \<Rightarrow> valid_date y m d \<and> days_from_civil y m d = days"
proof -
  define era where "era = (days + 719468) div 146097"
  define doe where "doe = (days + 719468) mod 146097"
  have days: "days = era * 146097 + doe - 719468"
    by (simp add: era_def doe_def)
  obtain y where y: "0 \<le> y" "y < 400" "year_start y \<le> doe" "doe \<le> year_last y"
    using year_exists [of doe] by (auto simp: doe_def)
  define doy where "doy = doe - year_start y"
  define mp where "mp = month_of_doy doy"
  define m where "m = (if mp < 10 then mp + 3 else mp - 9)"
  define d where "d = doy - doy_of_month mp + 1"
  define yr where "yr = (if m \<le> 2 then y + era * 400 + 1 else y + era * 400)"
  have civ: "civil_from_days days = (yr, m, d)"
    unfolding days civil_from_days_eq [OF y] Let_def yr_def m_def d_def mp_def doy_def ..
  have doy: "0 \<le> doy" "doy \<le> (if is_leap (y + 1 + 400 * era) then 365 else 364)"
    using y year_length [of y era] by (simp_all add: doy_def)
  then have "doy \<le> 365" by (simp split: if_splits)
  with doy have mp: "0 \<le> mp" "mp \<le> 11" "doy_of_month mp \<le> doy"
    using month_of_doy_bounds by (simp_all add: mp_def)
  then have m: "1 \<le> m" "m \<le> 12" and mp_m: "mp = (if m \<le> 2 then m + 9 else m - 3)"
    by (simp_all add: m_def)
  have "d \<le> days_in_month yr m"
    using month_cases [OF m] doy mp_m
    unfolding d_def yr_def days_in_month_def mp_def month_of_doy_def doy_of_month_def
    by (elim disjE) (auto simp: ac_simps split: if_splits)
  moreover have "days_from_civil yr m d = days"
  proof -
    have "(if m \<le> 2 then yr - 1 else yr) = 400 * era + y" by (simp add: yr_def)
    then show ?thesis
      using days_from_civil_eq [OF m, of yr d] mp_m y
      by (simp add: Let_def d_def doy_def days)
  qed
  ultimately show ?thesis
    using m mp(3) by (simp add: civ valid_date_def d_def)
qed

definition civil_days :: "int \<times> int \<times> int \<Rightarrow> int" where
  "civil_days = (\<lambda>(y, m, d). days_from_civil y m d)"

definition civil_valid :: "int \<times> int \<times> int \<Rightarrow> bool" where
  "civil_valid = (\<lambda>(y, m, d). valid_date y m d)"

interpretation calendar: bijective_codec civil_days civil_from_days civil_valid
proof
  fix x :: "int \<times> int \<times> int"
  assume "civil_valid x"
  then show "civil_from_days (civil_days x) = x"
    by (auto simp: civil_valid_def civil_days_def civil_from_days_of_days split: prod.splits)
next
  fix days
  show "civil_valid (civil_from_days days)" "civil_days (civil_from_days days) = days"
    using days_from_civil_of_civil [of days]
    by (auto simp: civil_valid_def civil_days_def split: prod.splits)
qed

text \<open>
  C30. \<open>civil_from_days\<close> undoes \<open>days_from_civil\<close> on every valid date, in every year, before and
  after the epoch.
\<close>

theorem civil_of_days_of_civil:
  assumes "valid_date y m d"
  shows "civil_from_days (days_from_civil y m d) = (y, m, d)"
  using calendar.dec_enc [of "(y, m, d)"] assms by (simp add: civil_days_def civil_valid_def)

theorem civil_of_days_of_civil_witness: "civil_from_days (days_from_civil 2024 2 29) = (2024, 2, 29)"
  by (rule civil_of_days_of_civil) (simp add: valid_date_def days_in_month_def is_leap_iff)

text \<open>
  Every day has exactly one date: it is read as a valid date whose day it is, and no other
  valid date names that day.
\<close>

lemma one_date_per_day: "\<exists>!ymd. (case ymd of (y, m, d) \<Rightarrow> valid_date y m d \<and> days_from_civil y m d = days)"
  using calendar.encoded_once [of days]
  by (simp add: civil_days_def civil_valid_def split_beta)

subsection \<open>Reading an instant and naming it again\<close>

lemma in_day_fields:
  assumes "0 \<le> t" "t < MS_PER_DAY"
  shows "t sdiv MS_PER_HOUR * MS_PER_HOUR + (t sdiv MS_PER_MINUTE smod 60) * MS_PER_MINUTE
         + (t sdiv MS_PER_SECOND smod 60) * MS_PER_SECOND + t smod MS_PER_SECOND = t"
    and "0 \<le> t sdiv MS_PER_HOUR" "t sdiv MS_PER_HOUR \<le> 23"
    and "0 \<le> t sdiv MS_PER_MINUTE smod 60" "t sdiv MS_PER_MINUTE smod 60 \<le> 59"
    and "0 \<le> t sdiv MS_PER_SECOND smod 60" "t sdiv MS_PER_SECOND smod 60 \<le> 59"
    and "0 \<le> t smod MS_PER_SECOND" "t smod MS_PER_SECOND \<le> 999"
proof -
  have sd: "t sdiv 3600000 = t div 3600000" "t sdiv 60000 smod 60 = t div 60000 mod 60"
    "t sdiv 1000 smod 60 = t div 1000 mod 60" "t smod 1000 = t mod 1000"
    using assms by (simp_all add: sdiv_nonneg_eq smod_nonneg_eq)
  have b: "0 \<le> t" "t < 86400000" using assms by (simp_all add: ms_defs)
  show "t sdiv MS_PER_HOUR * MS_PER_HOUR + (t sdiv MS_PER_MINUTE smod 60) * MS_PER_MINUTE
         + (t sdiv MS_PER_SECOND smod 60) * MS_PER_SECOND + t smod MS_PER_SECOND = t"
  proof -
    have "t div 60000 div 60 = t div 3600000" "t div 1000 div 60 = t div 60000"
      by (simp_all add: zdiv_zmult2_eq [symmetric])
    then show ?thesis
      using minus_mult_div_eq_mod [of "t div 60000" 60] minus_mult_div_eq_mod [of "t div 1000" 60]
        minus_mult_div_eq_mod [of t 1000]
      by (simp add: ms_defs sd)
  qed
  show "0 \<le> t sdiv MS_PER_HOUR" "t sdiv MS_PER_HOUR \<le> 23"
    using b by (simp_all add: ms_defs sd)
  show "0 \<le> t sdiv MS_PER_MINUTE smod 60" "t sdiv MS_PER_MINUTE smod 60 \<le> 59"
    "0 \<le> t sdiv MS_PER_SECOND smod 60" "t sdiv MS_PER_SECOND smod 60 \<le> 59"
    "0 \<le> t smod MS_PER_SECOND" "t smod MS_PER_SECOND \<le> 999"
    by (simp_all add: ms_defs sd)
qed

definition fields_ok :: "parts \<Rightarrow> bool" where
  "fields_ok p \<longleftrightarrow> valid_date (year p) (month p) (day p) \<and> 0 \<le> hour p \<and> hour p \<le> 23 \<and>
     0 \<le> minute p \<and> minute p \<le> 59 \<and> 0 \<le> second p \<and> second p \<le> 59 \<and>
     0 \<le> millisecond p \<and> millisecond p \<le> 999"

definition epoch_of :: "parts \<Rightarrow> int" where
  "epoch_of p = days_from_civil (year p) (month p) (day p) * MS_PER_DAY + hour p * MS_PER_HOUR
     + minute p * MS_PER_MINUTE + second p * MS_PER_SECOND + millisecond p
     - offset p * MS_PER_MINUTE"

lemma offset_parts_at [simp]: "offset (parts_at e off) = off"
  by (simp add: parts_at_def Let_def split: prod.splits)

lemma parts_at_ok: "fields_ok (parts_at e off) \<and> epoch_of (parts_at e off) = e"
proof -
  define sh where "sh = e + off * MS_PER_MINUTE"
  obtain y m d where civ: "civil_from_days (sh div MS_PER_DAY) = (y, m, d)"
    by (metis prod_cases3)
  then have v: "valid_date y m d" "days_from_civil y m d = sh div MS_PER_DAY"
    using days_from_civil_of_civil [of "sh div MS_PER_DAY"] by simp_all
  have "0 < MS_PER_DAY" by (simp add: ms_defs)
  then have t: "0 \<le> sh mod MS_PER_DAY" "sh mod MS_PER_DAY < MS_PER_DAY" by simp_all
  note f = in_day_fields [OF t]
  have "sh div MS_PER_DAY * MS_PER_DAY + sh mod MS_PER_DAY = sh" by simp
  moreover have "epoch_of (parts_at e off) = sh div MS_PER_DAY * MS_PER_DAY
      + (sh mod MS_PER_DAY) sdiv MS_PER_HOUR * MS_PER_HOUR
      + (sh mod MS_PER_DAY) sdiv MS_PER_MINUTE smod 60 * MS_PER_MINUTE
      + (sh mod MS_PER_DAY) sdiv MS_PER_SECOND smod 60 * MS_PER_SECOND
      + (sh mod MS_PER_DAY) smod MS_PER_SECOND - off * MS_PER_MINUTE"
    by (simp add: epoch_of_def parts_at_def Let_def sh_def [symmetric] civ v)
  ultimately have "epoch_of (parts_at e off) = e"
    using f(1) sh_def by linarith
  then show ?thesis
    using f(2-) v by (simp add: fields_ok_def parts_at_def Let_def sh_def [symmetric] civ)
qed

lemma epoch_from_civil_parts:
  assumes "fields_ok p"
  shows "epoch_from_civil (year p) (month p) (day p) (hour p) (minute p) (second p)
      (millisecond p) (offset p)
    = (if \<not> (- 9999 \<le> year p \<and> year p \<le> 9999) then Inl (YearOutside (year p)) else guard (epoch_of p))"
  using assms by (simp add: epoch_from_civil_def fields_ok_def valid_date_def epoch_of_def)

lemma epoch_from_civil_InrD:
  assumes "epoch_from_civil y mo d h mi s ms off = Inr e"
  shows "- 9999 \<le> y \<and> y \<le> 9999 \<and> valid_date y mo d \<and> 0 \<le> h \<and> h \<le> 23 \<and> 0 \<le> mi \<and> mi \<le> 59 \<and>
    0 \<le> s \<and> s \<le> 59 \<and> 0 \<le> ms \<and> ms \<le> 999 \<and> \<bar>e\<bar> \<le> MAX_SAFE \<and>
    e = days_from_civil y mo d * MS_PER_DAY + h * MS_PER_HOUR + mi * MS_PER_MINUTE
      + s * MS_PER_SECOND + ms - off * MS_PER_MINUTE"
  using assms by (auto simp: epoch_from_civil_def valid_date_def guard_def Let_def split: if_splits)

text \<open>The reading is the only one: the fields of an instant are determined by it.\<close>

lemma parts_at_unique:
  assumes "valid_date y m d" "0 \<le> h" "h \<le> 23" "0 \<le> mi" "mi \<le> 59" "0 \<le> s" "s \<le> 59"
    "0 \<le> ms" "ms \<le> 999"
    and e: "e = days_from_civil y m d * MS_PER_DAY + h * MS_PER_HOUR + mi * MS_PER_MINUTE
      + s * MS_PER_SECOND + ms - off * MS_PER_MINUTE"
  shows "parts_at e off = \<lparr>year = y, month = m, day = d, hour = h, minute = mi, second = s,
    millisecond = ms, weekday = (days_from_civil y m d + 3) mod 7 + 1, offset = off\<rparr>"
proof -
  define t where "t = h * 3600000 + mi * 60000 + s * 1000 + ms"
  have t: "0 \<le> t" "t < 86400000" using assms(2-9) by (simp_all add: t_def)
  have sh: "e + off * 60000 = 86400000 * days_from_civil y m d + t"
    using e by (simp add: ms_defs t_def)
  then have dm: "(e + off * 60000) div 86400000 = days_from_civil y m d"
      "(e + off * 60000) mod 86400000 = t"
    using t by simp_all
  have "t div 3600000 = h"
    using assms(2-9) by (intro int_div_pos_eq [where r = "mi * 60000 + s * 1000 + ms"]) (simp_all add: t_def)
  moreover have "t div 60000 = h * 60 + mi"
    using assms(2-9) by (intro int_div_pos_eq [where r = "s * 1000 + ms"]) (simp_all add: t_def)
  moreover have "t div 1000 = (h * 60 + mi) * 60 + s"
    using assms(2-9) by (intro int_div_pos_eq [where r = ms]) (simp_all add: t_def)
  moreover have "t mod 1000 = ms"
    using assms(2-9) by (intro int_mod_pos_eq [where q = "h * 3600 + mi * 60 + s"]) (simp_all add: t_def)
  moreover have "(3600 * h + mi * 60 + s) mod 60 = s"
    using assms(6,7) by (intro int_mod_pos_eq [where q = "h * 60 + mi"]) simp_all
  ultimately have f: "t sdiv 3600000 = h" "t sdiv 60000 smod 60 = mi" "t sdiv 1000 smod 60 = s"
      "t smod 1000 = ms"
    using t(1) assms(2-9) by (simp_all add: sdiv_nonneg_eq smod_nonneg_eq)
  have c: "MS_PER_DAY = 86400000" "MS_PER_HOUR = 3600000" "MS_PER_MINUTE = 60000" "MS_PER_SECOND = 1000"
    by (simp_all add: ms_defs)
  show ?thesis
    unfolding parts_at_def Let_def c dm civil_from_days_of_days [OF assms(1)] prod.case f ..
qed

text \<open>Evaluation of closed readings, without unfolding the truncating divisions.\<close>

lemmas calendar_eval = valid_date_def days_in_month_def is_leap_iff days_from_civil_eq Let_def
  year_start_def doy_of_month_def ms_defs epoch_from_civil_def guard_def MAX_SAFE_def

text \<open>
  C31. Reading an instant on the calendar and naming the reading again, at the same offset, gives
  the instant back, for every instant of the language's range whose year has four digits.
\<close>

theorem epoch_of_parts_at:
  assumes "\<bar>e\<bar> \<le> MAX_SAFE" "p = parts_at e off" "- 9999 \<le> year p" "year p \<le> 9999"
  shows "epoch_from_civil (year p) (month p) (day p) (hour p) (minute p) (second p)
           (millisecond p) (offset p) = Inr e"
  using epoch_from_civil_parts [of p] parts_at_ok [of e off] assms by (simp add: guard_def)

theorem epoch_of_parts_at_witness:
  "epoch_from_civil 1969 12 31 23 59 59 999 0 = Inr (- 1)"
proof -
  have "parts_at (- 1) 0 = \<lparr>year = 1969, month = 12, day = 31, hour = 23, minute = 59, second = 59,
    millisecond = 999, weekday = 3, offset = 0\<rparr>"
    using parts_at_unique [of 1969 12 31 23 59 59 999 "- 1" 0] by (simp add: calendar_eval)
  then show ?thesis
    using epoch_of_parts_at [of "- 1" "parts_at (- 1) 0" 0] by (simp add: MAX_SAFE_def)
qed

text \<open>
  C32. A civil reading that is accepted names the instant whose reading it is: reading the
  result at the same offset gives every field back, so no field is rolled over into another.
\<close>

theorem parts_of_epoch_from_civil:
  assumes "epoch_from_civil y mo d h mi s ms off = Inr e"
  shows "parts_at e off = \<lparr>year = y, month = mo, day = d, hour = h, minute = mi, second = s,
    millisecond = ms, weekday = (days_from_civil y mo d + 3) mod 7 + 1, offset = off\<rparr>"
  using epoch_from_civil_InrD [OF assms] by (intro parts_at_unique) simp_all

theorem parts_of_epoch_from_civil_witness:
  "day (parts_at 1787450400000 (- 240)) = 22 \<and> hour (parts_at 1787450400000 (- 240)) = 22"
proof -
  have "epoch_from_civil 2026 8 22 22 0 0 0 (- 240) = Inr 1787450400000"
    by (simp add: calendar_eval)
  from parts_of_epoch_from_civil [OF this] show ?thesis by simp
qed

subsection \<open>Adding calendar units\<close>

lemma rebuild_fixed:
  assumes "zn \<noteq> Local" "offset_of clk zn e = Inr off"
  shows "rebuild clk y m d p zn = epoch_from_civil y m d (hour p) (minute p) (second p) (millisecond p) off"
  using assms by (cases zn) (auto simp: rebuild_def epoch_from_civil_in_def rbind_Inr_iff
      split: sum.splits intro: sum.exhaust)

lemma or_overflow_Inr: "or_overflow v = Inr n \<longleftrightarrow> v = Some n"
  by (auto simp: or_overflow_def split: option.splits)

lemma checked_i64_Some: "checked_i64 v = Some n \<longleftrightarrow> in_i64 v \<and> n = v"
  by (auto simp: checked_i64_def)

lemma time_add_months_InrD:
  assumes "time_add clk e n (Months per) zn = Inr e'" "zn \<noteq> Local" "offset_of clk zn e = Inr off"
    and "p = parts_at e off" "p' = parts_at e' off"
  shows "year p' * 12 + month p' = year p * 12 + month p + n * per \<and>
    day p' = min (day p) (days_in_month (year p') (month p')) \<and>
    hour p' = hour p \<and> minute p' = minute p \<and> second p' = second p \<and> millisecond p' = millisecond p"
proof -
  define total where "total = year p * 12 + (month p - 1) + n * per"
  define d where "d = min (day p) (days_in_month (total div 12) (total mod 12 + 1))"
  from assms have "rebuild clk (total div 12) (total mod 12 + 1) d p zn = Inr e'"
    by (auto simp: rbind_Inr_iff or_overflow_Inr checked_i64_Some Let_def total_def d_def)
  then have "epoch_from_civil (total div 12) (total mod 12 + 1) d (hour p) (minute p) (second p)
      (millisecond p) off = Inr e'"
    using rebuild_fixed [OF assms(2,3)] by simp
  note D = epoch_from_civil_InrD [OF this]
  have p': "p' = \<lparr>year = total div 12, month = total mod 12 + 1, day = d, hour = hour p,
      minute = minute p, second = second p, millisecond = millisecond p,
      weekday = (days_from_civil (total div 12) (total mod 12 + 1) d + 3) mod 7 + 1, offset = off\<rparr>"
    unfolding assms(5) using D by (intro parts_at_unique) simp_all
  have "total div 12 * 12 + total mod 12 = total" by simp
  then show ?thesis by (simp add: p' d_def) (simp add: total_def)
qed

text \<open>
  C33. Adding months (or years) at a fixed offset moves exactly that many months, keeps the wall
  clock, and keeps the day of the month except where the month is shorter, where it is the last
  day: it never rolls into the month after.
\<close>

theorem add_months_clamps:
  assumes "time_add clk e n (Months per) (Fixed off) = Inr e'"
    and "p = parts_at e off" "p' = parts_at e' off"
  shows "year p' * 12 + month p' = year p * 12 + month p + n * per \<and>
    day p' = min (day p) (days_in_month (year p') (month p')) \<and>
    hour p' = hour p \<and> minute p' = minute p \<and> second p' = second p \<and> millisecond p' = millisecond p"
  using time_add_months_InrD [OF assms(1) _ _ assms(2,3)] by simp

definition utc_clock :: clock where
  "utc_clock = \<lparr>now_ms = 0, local_offset_minutes_at = (\<lambda>_. Inr 0)\<rparr>"

lemma jan31_2026: "parts_at 1769871600000 0 = \<lparr>year = 2026, month = 1, day = 31, hour = 15, minute = 0,
    second = 0, millisecond = 0, weekday = 6, offset = 0\<rparr>"
  using parts_at_unique [of 2026 1 31 15 0 0 0 1769871600000 0] by (simp add: calendar_eval)

lemma month_after_jan31_2026:
  "time_add utc_clock 1769871600000 1 (Months 1) (Fixed 0) = Inr 1772290800000"
proof -
  have "epoch_from_civil 2026 2 28 15 0 0 0 0 = Inr 1772290800000" by (simp add: calendar_eval)
  moreover have "or_overflow (checked_i64 (1 * 1)) = Inr 1"
      "or_overflow (checked_i64 (2026 * 12 + (1 - 1) + 1)) = Inr 24313"
    by (simp_all add: or_overflow_def checked_i64_def in_i64_def i64_min_def i64_max_def)
  moreover have "min 31 (days_in_month 2026 2) = 28" by (simp add: days_in_month_def is_leap_iff)
  moreover have "(24313::int) div 12 = 2026" "(24313::int) mod 12 + 1 = 2" by simp_all
  ultimately show ?thesis
    by (simp only: time_add.simps offset_of.simps rbind.simps Let_def jan31_2026 parts.simps
        rebuild_fixed [of "Fixed 0" utc_clock 0 0] zone.distinct simp_thms)
qed

theorem add_months_clamps_witness:
  "day (parts_at 1769871600000 0) = 31 \<and> day (parts_at 1772290800000 0) = 28"
proof -
  have "year (parts_at 1772290800000 0) = 2026 \<and> month (parts_at 1772290800000 0) = 2"
    using parts_at_unique [of 2026 2 28 15 0 0 0 1772290800000 0] by (simp add: calendar_eval)
  then show ?thesis
    using add_months_clamps [OF month_after_jan31_2026 refl refl]
    by (simp add: days_in_month_def is_leap_iff jan31_2026)
qed

lemma time_add_days_InrD:
  assumes "time_add clk e n (Days per) zn = Inr e'" "zn \<noteq> Local" "offset_of clk zn e = Inr off"
    and "p = parts_at e off" "p' = parts_at e' off"
  shows "days_from_civil (year p') (month p') (day p') = days_from_civil (year p) (month p) (day p) + n * per \<and>
    hour p' = hour p \<and> minute p' = minute p \<and> second p' = second p \<and> millisecond p' = millisecond p"
proof -
  define days where "days = days_from_civil (year p) (month p) (day p) + n * per"
  obtain y m d where civ: "civil_from_days days = (y, m, d)" by (metis prod_cases3)
  with days_from_civil_of_civil [of days] have dd: "days_from_civil y m d = days" by simp
  from assms civ have "rebuild clk y m d p zn = Inr e'"
    by (auto simp: rbind_Inr_iff or_overflow_Inr checked_i64_Some Let_def days_def)
  then have "epoch_from_civil y m d (hour p) (minute p) (second p) (millisecond p) off = Inr e'"
    using rebuild_fixed [OF assms(2,3)] by simp
  note D = epoch_from_civil_InrD [OF this]
  have "p' = \<lparr>year = y, month = m, day = d, hour = hour p, minute = minute p, second = second p,
      millisecond = millisecond p, weekday = (days_from_civil y m d + 3) mod 7 + 1, offset = off\<rparr>"
    unfolding assms(5) using D by (intro parts_at_unique) simp_all
  then show ?thesis by (simp add: dd) (simp add: days_def)
qed

text \<open>
  At a fixed offset, adding \<open>n\<close> days or weeks and then asking for the difference in the
  same unit answers \<open>n\<close>: \<open>add\<close> and \<open>diff\<close> count the same calendar.
\<close>

lemma diff_of_add_days:
  assumes "time_add clk e n (Days per) (Fixed off) = Inr e'" "per \<noteq> 0"
  shows "time_diff clk e' e (Days per) (Fixed off) = Inr n"
proof -
  have "(n * per) sdiv per = n"
    using assms(2) by (simp add: signed_divide_int_def sgn_mult abs_mult) (simp add: sgn_if)
  then show ?thesis
    using time_add_days_InrD [OF assms(1) _ _ refl refl] by (simp add: Let_def)
qed

lemma week_after_jan31_2026:
  "time_add utc_clock 1769871600000 1 (Days 7) (Fixed 0) = Inr 1770476400000"
proof -
  have "epoch_from_civil 2026 2 7 15 0 0 0 0 = Inr 1770476400000" by (simp add: calendar_eval)
  moreover have "civil_from_days 20491 = (2026, 2, 7)"
    using civil_from_days_of_days [of 2026 2 7] by (simp add: calendar_eval)
  moreover have "or_overflow (checked_i64 (1 * 7)) = Inr 7"
      "or_overflow (checked_i64 (20484 + 7)) = Inr 20491"
    by (simp_all add: or_overflow_def checked_i64_def in_i64_def i64_min_def i64_max_def)
  moreover have "days_from_civil 2026 1 31 = 20484" by (simp add: calendar_eval)
  ultimately show ?thesis
    by (simp only: time_add.simps offset_of.simps rbind.simps Let_def jan31_2026 parts.simps
        rebuild_fixed [of "Fixed 0" utc_clock 0 0] zone.distinct simp_thms prod.case)
qed


subsection \<open>The text of a zone\<close>

lemma two_digits:
  assumes "0 \<le> a" "a < 100"
  shows "length (zeros 2 a) = 2" "list_all is_ascii_digit (zeros 2 a)" "read_nat (zeros 2 a) = nat a"
proof -
  have "nat a < 10 ^ Suc 1" using assms by (simp add: nat_less_iff)
  then have "length (show_nat (nat a)) \<le> 2" using length_show_nat [of "nat a" 1] by simp
  then show "length (zeros 2 a) = 2" by (simp add: zeros_def)
qed (simp_all add: zeros_def show_nat_digits)

lemma parse_offset_text:
  assumes "\<bar>m\<bar> < 1440"
  shows "parse_zone (offset_text m) = Inr (Fixed m)"
proof -
  define h where "h = \<bar>m\<bar> div 60"
  define r where "r = \<bar>m\<bar> mod 60"
  have hr: "0 \<le> h" "h < 24" "0 \<le> r" "r < 60" "h * 60 + r = \<bar>m\<bar>"
    using assms by (auto simp: h_def r_def)
  have t: "offset_text m = (if m < 0 then 45 else 43) # zeros 2 h @ zeros 2 r"
    by (simp add: offset_text_def Let_def h_def r_def sdiv_nonneg_eq smod_nonneg_eq)
  have "h < 100" "r < 100" using hr by simp_all
  note d = two_digits [OF hr(1) \<open>h < 100\<close>] two_digits [OF hr(3) \<open>r < 100\<close>]
  have "offset_text m \<noteq> U ''UTC''" "offset_text m \<noteq> U ''local''" by (simp_all add: t)
  then show ?thesis
    using hr d by (auto simp: parse_zone_def t Let_def)
qed

definition zone_minutes :: "ustring \<Rightarrow> int" where
  "zone_minutes s = (case parse_zone s of Inr (Fixed m) \<Rightarrow> m | _ \<Rightarrow> 0)"

interpretation zone_text: codec offset_text zone_minutes "\<lambda>m. \<bar>m\<bar> < 1440"
  by unfold_locales (simp add: zone_minutes_def parse_offset_text)

text \<open>
  The text \<open>%z\<close> writes for an offset of less than a day is a zone \<open>parse_zone\<close> reads as
  that offset, and two offsets are never written alike.
\<close>

lemma zone_text_roundtrip:
  assumes "\<bar>m\<bar> < 1440" "\<bar>n\<bar> < 1440"
  shows "parse_zone (offset_text m) = Inr (Fixed m) \<and> (offset_text m = offset_text n \<longleftrightarrow> m = n)"
  using assms parse_offset_text zone_text.enc_inj by simp


end
