(* ===== verification/ZySyntax.thy ===== *)
theory ZySyntax imports ZyFloat begin

text \<open>
  Positions and spans (crates/zymbol-span), the literals and operators of the language
  (crates/zymbol-common) and the block, the one struct both expressions and statements
  hold.
\<close>


section \<open>Positions and spans\<close>

record position =
  line :: nat
  column :: nat
  byte_offset :: nat

definition position_start :: position where
  "position_start = \<lparr>line = 1, column = 1, byte_offset = 0\<rparr>"

record span =
  sp_start :: position
  sp_end :: position
  file_id :: nat

definition span_to :: "span \<Rightarrow> span \<Rightarrow> span" where
  "span_to a b = \<lparr>sp_start = sp_start a, sp_end = sp_end b, file_id = file_id a\<rparr>"

text \<open>u32 subtraction that panics below zero (overflow checks are on in debug).\<close>
definition span_len :: "span \<Rightarrow> nat option" where
  "span_len s = (if byte_offset (sp_start s) \<le> byte_offset (sp_end s)
     then Some (byte_offset (sp_end s) - byte_offset (sp_start s)) else None)"

definition span_is_empty :: "span \<Rightarrow> bool" where
  "span_is_empty s = (byte_offset (sp_start s) = byte_offset (sp_end s))"

definition no_span :: span where
  "no_span = \<lparr>sp_start = position_start, sp_end = position_start, file_id = 0\<rparr>"

section \<open>Literals and operators\<close>

datatype literal =
    LInt int
  | LFloat f64
  | LString ustring
  | LInterpolated ustring
  | LChar uchar
  | LBool bool
  | LUnit

datatype binary_op =
    OpAdd | OpSub | OpMul | OpDiv | OpMod | OpPow
  | OpEq | OpNeq | OpLt | OpGt | OpLe | OpGe
  | OpAnd | OpOr
  | OpPipe | OpComma | OpRange | OpConcat

fun op_text :: "binary_op \<Rightarrow> ustring" where
  "op_text OpAdd = U ''+''"
| "op_text OpSub = U ''-''"
| "op_text OpMul = U ''*''"
| "op_text OpDiv = U ''/''"
| "op_text OpMod = U ''%''"
| "op_text OpPow = U ''^''"
| "op_text OpEq = U ''==''"
| "op_text OpNeq = U ''<>''"
| "op_text OpLt = U ''<''"
| "op_text OpGt = U ''>''"
| "op_text OpLe = U ''<=''"
| "op_text OpGe = U ''>=''"
| "op_text OpAnd = U ''&&''"
| "op_text OpOr = U ''||''"
| "op_text OpPipe = U ''|>''"
| "op_text OpComma = U '',''"
| "op_text OpRange = U ''..''"
| "op_text OpConcat = U '' ''"

definition is_arithmetic :: "binary_op \<Rightarrow> bool" where
  "is_arithmetic op = (op \<in> {OpAdd, OpSub, OpMul, OpDiv, OpMod, OpPow})"

definition is_comparison :: "binary_op \<Rightarrow> bool" where
  "is_comparison op = (op \<in> {OpEq, OpNeq, OpLt, OpGt, OpLe, OpGe})"

definition is_logical :: "binary_op \<Rightarrow> bool" where
  "is_logical op = (op \<in> {OpAnd, OpOr})"

datatype unary_op = OpNeg | OpNot | OpPos

fun unary_text :: "unary_op \<Rightarrow> ustring" where
  "unary_text OpNeg = U ''-''"
| "unary_text OpNot = U ''!''"
| "unary_text OpPos = U ''+''"

section \<open>Blocks\<close>

datatype (plugins only: code size) 'b block = Block (blk_statements: "'b list") (blk_span: span)

end
