(* ===== verification/ZyExprNodes.thy ===== *)
theory ZyExprNodes imports ZySyntax begin

text \<open>
  The structs of crates/zymbol-ast that hold expressions, one datatype per struct with the
  struct's fields, in the struct's order, as selectors.  A struct is polymorphic in the
  expressions and statements it holds; theory ZyAst ties the knot, as the source's Box does.
\<close>

datatype (plugins only: code size) literal_expr = LiteralExpr (lit_value: literal) (lit_span: span)
datatype (plugins only: code size) identifier_expr = IdentifierExpr (id_name: ustring) (id_span: span) (id_hot: bool) (id_pre_hot: bool)
datatype (plugins only: code size) 'e binary_expr = BinaryExpr (bin_op: binary_op) (bin_left: 'e) (bin_right: 'e) (bin_span: span)
datatype (plugins only: code size) 'e unary_expr = UnaryExpr (un_op: unary_op) (un_operand: 'e) (un_span: span)
datatype (plugins only: code size) 'e range_expr = RangeExpr (rng_start: 'e) (rng_end: 'e) (rng_step: "'e option") (rng_span: span)
datatype (plugins only: code size) 'e array_literal = ArrayLiteralExpr (arr_elements: "'e list") (arr_span: span) (arr_mixed: bool)
datatype (plugins only: code size) 'e tuple_expr = TupleExpr (tup_elements: "'e list") (tup_span: span)
datatype (plugins only: code size) 'e group_expr = GroupExpr (grp_expr: 'e) (grp_span: span)
datatype (plugins only: code size) 'e named_tuple = NamedTupleExpr (nt_fields: "(ustring \<times> 'e) list") (nt_quoted: "bool list") (nt_span: span)
datatype (plugins only: code size) 'e member_access = MemberAccessExpr (mem_object: 'e) (mem_field: ustring) (mem_module: bool) (mem_span: span)
datatype (plugins only: code size) 'e index_expr = IndexExpr (ix_array: 'e) (ix_index: 'e) (ix_span: span)
datatype (plugins only: code size) 'e function_call = FunctionCallExpr (call_callable: 'e) (call_arguments: "'e list")
  (call_out_args: "nat list") (call_span: span)

datatype (plugins only: code size) 'e length_expr = CollectionLengthExpr (len_collection: 'e) (len_span: span)
datatype (plugins only: code size) 'e append_expr = CollectionAppendExpr (app_collection: 'e) (app_element: 'e) (app_span: span)
datatype (plugins only: code size) 'e insert_expr = CollectionInsertExpr (ins_collection: 'e) (ins_index: 'e) (ins_element: 'e) (ins_span: span)
datatype (plugins only: code size) 'e remove_value_expr = CollectionRemoveValueExpr (rv_collection: 'e) (rv_value: 'e) (rv_span: span)
datatype (plugins only: code size) 'e remove_all_expr = CollectionRemoveAllExpr (ra_collection: 'e) (ra_value: 'e) (ra_span: span)
datatype (plugins only: code size) 'e remove_at_expr = CollectionRemoveAtExpr (rat_collection: 'e) (rat_index: 'e) (rat_span: span)
datatype (plugins only: code size) 'e remove_range_expr = CollectionRemoveRangeExpr (rr_collection: 'e) (rr_start: "'e option")
  (rr_end: "'e option") (rr_count: bool) (rr_span: span)
datatype (plugins only: code size) 'e find_all_expr = CollectionFindAllExpr (fa_collection: 'e) (fa_value: 'e) (fa_span: span)
datatype (plugins only: code size) 'e contains_expr = CollectionContainsExpr (con_collection: 'e) (con_element: 'e) (con_span: span)
datatype (plugins only: code size) 'e update_expr = CollectionUpdateExpr (upd_target: 'e) (upd_value: 'e) (upd_span: span)
datatype (plugins only: code size) 'e slice_expr = CollectionSliceExpr (sl_collection: 'e) (sl_start: "'e option")
  (sl_end: "'e option") (sl_count: bool) (sl_span: span)
datatype (plugins only: code size) 'e map_expr = CollectionMapExpr (map_collection: 'e) (map_lambda: 'e) (map_span: span)
datatype (plugins only: code size) 'e filter_expr = CollectionFilterExpr (flt_collection: 'e) (flt_lambda: 'e) (flt_span: span)
datatype (plugins only: code size) 'e reduce_expr = CollectionReduceExpr (red_collection: 'e) (red_initial: 'e) (red_lambda: 'e) (red_span: span)
datatype (plugins only: code size) 'e sort_expr = CollectionSortExpr (srt_collection: 'e) (srt_ascending: bool)
  (srt_comparator: "'e option") (srt_span: span)

datatype (plugins only: code size) 'e split_expr = StringSplitExpr (sp_string: 'e) (sp_delimiter: 'e) (sp_span: span)
datatype (plugins only: code size) 'e concat_build = ConcatBuildExpr (cb_base: 'e) (cb_items: "'e list") (cb_span: span)
datatype (plugins only: code size) 'e repeat_expr = StringRepeatExpr (rep_string: 'e) (rep_count: 'e) (rep_span: span)
datatype (plugins only: code size) 'e replace_expr = StringReplaceExpr (rpl_string: 'e) (rpl_pattern: 'e) (rpl_replacement: 'e)
  (rpl_count: "'e option") (rpl_span: span)

datatype (plugins only: code size) 'e numeric_eval = NumericEvalExpr (ne_expr: 'e) (ne_span: span)
datatype (plugins only: code size) 'e type_metadata = TypeMetadataExpr (tm_expr: 'e) (tm_span: span)
datatype (plugins only: code size) format_kind = Thousands | Scientific
datatype (plugins only: code size) 'e precision = PrecLiteral nat | PrecDynamic 'e
datatype (plugins only: code size) 'e precision_op = PrecRound "'e precision" | PrecTruncate "'e precision"
datatype (plugins only: code size) 'e format_expr = FormatExpr (fmt_kind: format_kind) (fmt_precision: "'e precision_op option")
  (fmt_expr: 'e) (fmt_span: span)
datatype (plugins only: code size) base_prefix = Binary | Octal | Decimal | Hex
datatype (plugins only: code size) 'e base_conversion = BaseConversionExpr (bc_prefix: base_prefix) (bc_expr: 'e) (bc_span: span)
datatype (plugins only: code size) 'e round_expr = RoundExpr (ro_precision: "'e precision") (ro_expr: 'e) (ro_span: span)
datatype (plugins only: code size) 'e trunc_expr = TruncExpr (tr_precision: "'e precision") (tr_expr: 'e) (tr_span: span)
datatype (plugins only: code size) cast_kind = ToFloat | ToIntRound | ToIntTrunc | ToChar
datatype (plugins only: code size) 'e numeric_cast = NumericCastExpr (nc_kind: cast_kind) (nc_expr: 'e) (nc_span: span)

datatype (plugins only: code size) 'e nav_step = NavStep (nav_index: 'e) (nav_range_end: "'e option")
datatype (plugins only: code size) 'e nav_path = NavPath (nav_steps: "'e nav_step list")
datatype (plugins only: code size) 'e extract_group = ExtractGroup (eg_paths: "'e nav_path list")
datatype (plugins only: code size) 'e deep_index = DeepIndexExpr (di_array: 'e) (di_path: "'e nav_path") (di_span: span)
datatype (plugins only: code size) 'e flat_extract = FlatExtractExpr (fe_array: 'e) (fe_paths: "'e nav_path list")
  (fe_double_bracket: bool) (fe_span: span)
datatype (plugins only: code size) 'e structured_extract = StructuredExtractExpr (se_array: 'e) (se_groups: "'e extract_group list") (se_span: span)

datatype (plugins only: code size) 'e error_check = ErrorCheckExpr (ec_expr: 'e) (ec_span: span)
datatype (plugins only: code size) 'e error_construct = ErrorConstructExpr (eco_kind: ustring) (eco_message: 'e) (eco_span: span)
datatype (plugins only: code size) 'e error_propagate = ErrorPropagateExpr (ep_expr: 'e) (ep_span: span)
datatype (plugins only: code size) 'e pipe_arg = Placeholder | PipeExprArg 'e
datatype (plugins only: code size) 'e pipe_expr = PipeExpr (pp_left: 'e) (pp_callable: 'e) (pp_arguments: "'e pipe_arg list")
  (pp_implicit: bool) (pp_span: span)
datatype (plugins only: code size) execute_expr = ExecuteExpr (ex_path: ustring) (ex_quoted: bool) (ex_args: "ustring list") (ex_span: span)
datatype (plugins only: code size) 'e bash_exec = BashExecExpr (bx_args: "'e list") (bx_span: span)


datatype (plugins only: code size) ('e, 's) lambda_body = LamExpr 'e | LamBlock "'s block"
datatype (plugins only: code size) ('e, 's) lambda_expr = LambdaExpr (lam_params: "ustring list") (lam_body: "('e, 's) lambda_body")
  (lam_parenthesized: bool) (lam_span: span)

datatype (plugins only: code size) 'e pattern =
    PLiteral literal span
  | PRange 'e 'e span
  | PList "'e pattern list" span
  | PWildcard span
  | PComparison binary_op 'e span
  | PIdent ustring span
  | POr "'e pattern list" span
  | PErrorKind ustring "ustring option" span
datatype (plugins only: code size) ('e, 's) match_case = MatchCase (mc_pattern: "'e pattern") (mc_value: "'e option")
  (mc_block: "'s block option") (mc_span: span)
datatype (plugins only: code size) ('e, 's) match_expr = MatchExpr (m_scrutinee: 'e) (m_cases: "('e, 's) match_case list") (m_span: span)

end
