(* ===== verification/ZyStmtNodes.thy ===== *)
theory ZyStmtNodes imports ZySyntax begin

text \<open>
  The structs of crates/zymbol-ast that make statements, in the same style as the expression
  structs of ZyExprNodes.
\<close>

datatype (plugins only: code size) 'e output_stmt = OutputStmt (out_exprs: "'e list") (out_span: span)
datatype (plugins only: code size) assign_sugar = SugarNone | SugarCompound binary_op | SugarIncrement | SugarDecrement | SugarInPlaceEdit
datatype (plugins only: code size) 'e assignment = Assignment (as_name: ustring) (as_value: 'e) (as_span: span) (as_hot: bool)
  (as_pre_hot: bool) (as_sugar: assign_sugar) (as_written: "'e option")
datatype (plugins only: code size) 'e const_decl = ConstDecl (cd_name: ustring) (cd_value: 'e) (cd_span: span)
datatype (plugins only: code size) lifetime_end = LifetimeEnd (le_name: ustring) (le_span: span)
datatype (plugins only: code size) destructure_item = DBind ustring | DRest ustring | DIgnore
datatype (plugins only: code size) destructure_pattern =
    DArray "destructure_item list"
  | DPositional "destructure_item list"
  | DNamedTuple "(ustring \<times> ustring) list"
datatype (plugins only: code size) 'e destructure_assign = DestructureAssign (da_pattern: destructure_pattern) (da_value: 'e) (da_span: span)

datatype (plugins only: code size) input_cast =
    CastString | CastNumeric | CastFloat
  | CastDecimal nat nat
  | CastInt "nat option"
  | CastText "nat option"
  | CastChar
datatype (plugins only: code size) string_part = PartText ustring | PartVariable ustring
datatype (plugins only: code size) input_prompt = PromptSimple ustring | PromptInterpolated "string_part list"
datatype (plugins only: code size) input_stmt = Input (in_variable: ustring) (in_prompt: "input_prompt option") (in_cast: input_cast) (in_span: span)
datatype (plugins only: code size) newline_stmt = Newline (nl_span: span) (nl_backslash: bool)
datatype (plugins only: code size) clear_screen = ClearScreen (cs_span: span)
datatype (plugins only: code size) key_input = KeyInput (ki_variable: ustring) (ki_blocking: bool) (ki_span: span)
datatype (plugins only: code size) 'e output_pos = OutputPos (op_slots: "'e option list") (op_items: "'e list") (op_parenthesized: bool) (op_span: span)
datatype (plugins only: code size) 's tui_block = TuiBlock (tui_body: "'s block") (tui_span: span)

datatype (plugins only: code size) ('e, 's) else_if = ElseIfBranch (ei_condition: 'e) (ei_block: "'s block") (ei_span: span)
datatype (plugins only: code size) ('e, 's) if_stmt = IfStmt (if_condition: 'e) (if_then: "'s block")
  (if_else_ifs: "('e, 's) else_if list") (if_else: "'s block option") (if_span: span)

datatype (plugins only: code size) ('e, 's) loop_stmt = Loop (lp_condition: "'e option") (lp_iterator: "ustring option")
  (lp_iterator_pattern: "destructure_pattern option") (lp_iterable: "'e option") (lp_body: "'s block")
  (lp_label: "ustring option") (lp_span: span)
datatype (plugins only: code size) break_stmt = Break (br_label: "ustring option") (br_span: span)
datatype (plugins only: code size) continue_stmt = Continue (ct_label: "ustring option") (ct_span: span)
datatype (plugins only: code size) 'e sleep_stmt = Sleep (slp_duration: 'e) (slp_span: span)

datatype (plugins only: code size) error_type = ErrorType (et_name: ustring) (et_span: span)
datatype (plugins only: code size) 's catch_clause = CatchClause (cc_error_type: "error_type option") (cc_block: "'s block") (cc_span: span)
datatype (plugins only: code size) 's finally_clause = FinallyClause (fc_block: "'s block") (fc_span: span)
datatype (plugins only: code size) 's try_stmt = TryStmt (try_block: "'s block") (try_catches: "'s catch_clause list")
  (try_finally: "'s finally_clause option") (try_span: span)

datatype (plugins only: code size) parameter_kind = ParamNormal | ParamMutable | ParamOutput
datatype (plugins only: code size) parameter = Parameter (pa_name: ustring) (pa_kind: parameter_kind) (pa_span: span)
datatype (plugins only: code size) 's function_decl = FunctionDecl (fd_name: ustring) (fd_parameters: "parameter list")
  (fd_body: "'s block") (fd_span: span)
datatype (plugins only: code size) 'e return_stmt = ReturnStmt (rt_value: "'e option") (rt_span: span)
datatype (plugins only: code size) 'e expr_stmt = ExprStatement (es_expr: 'e) (es_span: span)
datatype (plugins only: code size) cli_args_capture = CliArgsCaptureStmt (ca_variable: ustring) (ca_span: span)

end
