(* ===== verification/ZyAst.thy ===== *)
theory ZyAst imports ZyExprNodes ZyStmtNodes begin

text \<open>
  The two recursive types of the abstract syntax tree, the enums Expr and Statement of
  crates/zymbol-ast, over the structs of ZyExprNodes and ZyStmtNodes.
\<close>

section \<open>Expressions and statements\<close>

datatype (plugins only: code size) expr =
    ELiteral literal_expr
  | EIdentifier identifier_expr
  | EBinary "expr binary_expr"
  | EUnary "expr unary_expr"
  | ERange "expr range_expr"
  | EArrayLiteral "expr array_literal"
  | ETuple "expr tuple_expr"
  | EGroup "expr group_expr"
  | ENamedTuple "expr named_tuple"
  | EMemberAccess "expr member_access"
  | EIndex "expr index_expr"
  | EFunctionCall "expr function_call"
  | EMatch "(expr, statement) match_expr"
  | ELength "expr length_expr"
  | EAppend "expr append_expr"
  | EInsert "expr insert_expr"
  | ERemoveValue "expr remove_value_expr"
  | ERemoveAll "expr remove_all_expr"
  | ERemoveAt "expr remove_at_expr"
  | ERemoveRange "expr remove_range_expr"
  | EContains "expr contains_expr"
  | EFindAll "expr find_all_expr"
  | EUpdate "expr update_expr"
  | ESlice "expr slice_expr"
  | EStringRepeat "expr repeat_expr"
  | EStringReplace "expr replace_expr"
  | EStringSplit "expr split_expr"
  | EConcatBuild "expr concat_build"
  | ENumericEval "expr numeric_eval"
  | ETypeMetadata "expr type_metadata"
  | EFormat "expr format_expr"
  | EBaseConversion "expr base_conversion"
  | ELambda "(expr, statement) lambda_expr"
  | EMap "expr map_expr"
  | EFilter "expr filter_expr"
  | EReduce "expr reduce_expr"
  | ESortAsc "expr sort_expr"
  | ESortDesc "expr sort_expr"
  | ESortCustom "expr sort_expr"
  | EPipe "expr pipe_expr"
  | EExecute execute_expr
  | EBashExec "expr bash_exec"
  | ERound "expr round_expr"
  | ETrunc "expr trunc_expr"
  | ENumericCast "expr numeric_cast"
  | EErrorCheck "expr error_check"
  | EErrorConstruct "expr error_construct"
  | EErrorPropagate "expr error_propagate"
  | EDeepIndex "expr deep_index"
  | EFlatExtract "expr flat_extract"
  | EStructuredExtract "expr structured_extract"
  | ETerminalSize span
and statement =
    SOutput "expr output_stmt"
  | SAssignment "expr assignment"
  | SConstDecl "expr const_decl"
  | SDestructureAssign "expr destructure_assign"
  | SLifetimeEnd lifetime_end
  | SInput input_stmt
  | SIf "(expr, statement) if_stmt"
  | SLoop "(expr, statement) loop_stmt"
  | SBreak break_stmt
  | SContinue continue_stmt
  | STry "statement try_stmt"
  | SNewline newline_stmt
  | SFunctionDecl "statement function_decl"
  | SReturn "expr return_stmt"
  | SMatch "(expr, statement) match_expr"
  | SExpr "expr expr_stmt"
  | SCliArgsCapture cli_args_capture
  | SSetNumeralMode nat span
  | SSleep "expr sleep_stmt"
  | SKeyInput key_input
  | SClearScreen clear_screen
  | SOutputPos "expr output_pos"
  | STuiBlock "statement tui_block"

end
