(* ===== verification/ZyDigits.thy ===== *)
theory ZyDigits imports ZyNum begin

text \<open>
  The numeral systems of the language: the table of the 69 digit blocks and the reading of a
  number written in any of them (crates/zymbol-lexer/src/digit_blocks.rs), the decimal text of a
  double, and the writing of a number under the active numeral mode
  (crates/zymbol-interpreter/src/numeral_mode.rs).  The lemmas show that the blocks are
  disjoint, so a digit belongs to one script, and that what a mode writes reads back.
\<close>

section \<open>Digit blocks\<close>

definition DIGIT_BLOCKS :: "(nat \<times> ustring) list" where
  "DIGIT_BLOCKS = [
    (48, U ''ASCII''), (1632, U ''Arabic-Indic''), (1776, U ''Extended Arabic-Indic''),
    (1984, U ''NKo''), (2406, U ''Devanagari''), (2534, U ''Bengali''),
    (2662, U ''Gurmukhi''), (2790, U ''Gujarati''), (2918, U ''Oriya''),
    (3046, U ''Tamil''), (3174, U ''Telugu''), (3302, U ''Kannada''),
    (3430, U ''Malayalam''), (3558, U ''Sinhala Archaic''), (3664, U ''Thai''),
    (3792, U ''Lao''), (3872, U ''Tibetan''), (4160, U ''Myanmar''),
    (4240, U ''Myanmar Shan''), (6112, U ''Khmer''), (6160, U ''Mongolian''),
    (6470, U ''Limbu''), (6608, U ''New Tai Lue''), (6784, U ''Tai Tham Hora''),
    (6800, U ''Tai Tham Tham''), (6992, U ''Balinese''), (7088, U ''Sundanese''),
    (7232, U ''Lepcha''), (7248, U ''Ol Chiki''), (42528, U ''Vai''),
    (43216, U ''Saurashtra''), (43264, U ''Kayah Li''), (43472, U ''Javanese''),
    (43504, U ''Myanmar Tai Laing''), (43600, U ''Cham''), (44016, U ''Meetei Mayek''),
    (63728, U ''Klingon pIqaD''), (65296, U ''Fullwidth''), (66720, U ''Osmanya''),
    (68912, U ''Hanifi Rohingya''), (69734, U ''Brahmi''), (69872, U ''Sora Sompeng''),
    (69942, U ''Chakma''), (70096, U ''Sharada''), (70384, U ''Khudawadi''),
    (70736, U ''Newa''), (70864, U ''Tirhuta''), (71248, U ''Modi''),
    (71360, U ''Takri''), (71472, U ''Ahom''), (71904, U ''Warang Citi''),
    (72016, U ''Dives Akuru''), (72784, U ''Bhaiksuki''), (73040, U ''Masaram Gondi''),
    (73120, U ''Gunjala Gondi''), (73552, U ''Kawi''), (92768, U ''Mro''),
    (92864, U ''Tangsa''), (93008, U ''Pahawh Hmong''), (120782, U ''Mathematical Bold''),
    (120792, U ''Mathematical Double-struck''), (120802, U ''Mathematical Sans-serif''), (120812, U ''Mathematical Sans-serif Bold''),
    (120822, U ''Mathematical Monospace''), (123200, U ''Nyiakeng Puachue Hmong''), (123632, U ''Wancho''),
    (124144, U ''Nag Mundari''), (125264, U ''Adlam''), (130032, U ''Segmented/LCD'')]"

definition in_block :: "uchar \<Rightarrow> nat \<Rightarrow> bool" where
  "in_block cp base \<longleftrightarrow> base \<le> cp \<and> cp \<le> base + 9"

definition digit_value :: "uchar \<Rightarrow> nat option" where
  "digit_value cp = map_option (\<lambda>b. cp - fst b) (find (\<lambda>b. in_block cp (fst b)) DIGIT_BLOCKS)"

definition digit_block_base :: "uchar \<Rightarrow> nat option" where
  "digit_block_base cp = find (in_block cp) (map fst DIGIT_BLOCKS)"

definition SCRIPT_SEPARATORS :: "(nat \<times> uchar \<times> uchar) list" where
  "SCRIPT_SEPARATORS = [(0x0660, 0x066B, 0x066C), (0x06F0, 0x066B, 0x066C)]"

definition decimal_separator :: "nat \<Rightarrow> uchar" where
  "decimal_separator base =
     (case find (\<lambda>e. fst e = base) SCRIPT_SEPARATORS of Some (_, dec, _) \<Rightarrow> dec | None \<Rightarrow> 46)"

definition thousands_separator :: "nat \<Rightarrow> uchar" where
  "thousands_separator base =
     (case find (\<lambda>e. fst e = base) SCRIPT_SEPARATORS of Some (_, _, th) \<Rightarrow> th | None \<Rightarrow> 44)"

definition is_decimal_separator :: "uchar \<Rightarrow> bool" where
  "is_decimal_separator ch \<longleftrightarrow> ch = 46 \<or> list_ex (\<lambda>e. fst (snd e) = ch) SCRIPT_SEPARATORS"

text \<open>The loop of ascii number: what was written so far, whether a digit and a point were seen.\<close>

fun ascii_number_loop :: "ustring \<Rightarrow> ustring \<Rightarrow> bool \<Rightarrow> bool \<Rightarrow> ustring option" where
  "ascii_number_loop [] result has_digit has_dot = (if has_digit then Some result else None)"
| "ascii_number_loop (ch # chars) result has_digit has_dot =
     (case digit_value ch of
        Some dv \<Rightarrow> ascii_number_loop chars (result @ [digit_char dv]) True has_dot
      | None \<Rightarrow>
          if is_decimal_separator ch \<and> \<not> has_dot
          then ascii_number_loop chars (result @ [46]) has_digit True
          else None)"

definition ascii_number :: "ustring \<Rightarrow> ustring option" where
  "ascii_number s =
     (case s of
        ch # rest \<Rightarrow>
          if ch = 45 then ascii_number_loop rest [45] False False
          else ascii_number_loop s [] False False
      | [] \<Rightarrow> ascii_number_loop s [] False False)"

definition is_ascii :: "ustring \<Rightarrow> bool" where
  "is_ascii s = list_all (\<lambda>c. c < 128) s"

definition ascii_digits :: "ustring \<Rightarrow> ustring" where
  "ascii_digits s =
     (if is_ascii s then s else case ascii_number s of Some n \<Rightarrow> n | None \<Rightarrow> s)"

text \<open>The trimming of a text by the Unicode property White Space.\<close>

definition is_whitespace :: "uchar \<Rightarrow> bool" where
  "is_whitespace c \<longleftrightarrow> 9 \<le> c \<and> c \<le> 13 \<or> 0x2000 \<le> c \<and> c \<le> 0x200A \<or>
     c \<in> {32, 0x85, 0xA0, 0x1680, 0x2028, 0x2029, 0x202F, 0x205F, 0x3000}"

definition trim :: "ustring \<Rightarrow> ustring" where
  "trim s = rev (dropWhile is_whitespace (rev (dropWhile is_whitespace s)))"

section \<open>The decimal text of a double\<close>

text \<open>
  The text the standard library displays a double as: the shortest decimal that reads back as
  the same double, the closest of them when there are several, never in exponent form.
\<close>

definition f_ratio :: "nat \<Rightarrow> int \<Rightarrow> nat \<times> nat" where
  "f_ratio m e = (if 0 \<le> e then (m * 2 ^ nat e, 1) else (m, 2 ^ nat (- e)))"

definition decimal_exponent :: "nat \<Rightarrow> nat \<Rightarrow> int" where
  "decimal_exponent n d =
     (if d \<le> n then int (length (digits_in 10 (n div d)))
      else 1 - int (length (digits_in 10 ((d + n - 1) div n - 1))))"

definition shortest_at :: "bool \<Rightarrow> nat \<Rightarrow> int \<Rightarrow> nat \<Rightarrow> (nat \<times> int) option" where
  "shortest_at s m e nd =
     (let (n, d) = f_ratio m e;
          k = decimal_exponent n d;
          p = k - int nd;
          (n', d') = (if 0 \<le> p then (n, d * 10 ^ nat p) else (n * 10 ^ nat (- p), d));
          lo = n' div d'; hi = lo + 1;
          reads = (\<lambda>c. decimal_f64 s c p = FFin s m e)
      in if reads lo \<and> \<not> (reads hi \<and> d' \<le> 2 * (n' mod d')) then Some (lo, p)
         else if reads hi then Some (hi, p)
         else None)"

definition shortest_decimal :: "bool \<Rightarrow> nat \<Rightarrow> int \<Rightarrow> nat \<times> int" where
  "shortest_decimal s m e =
     (case List.map_filter (shortest_at s m e) [1..<18] of
        c # _ \<Rightarrow> c
      | [] \<Rightarrow> (m, e))"

definition decimal_text :: "nat \<Rightarrow> int \<Rightarrow> ustring" where
  "decimal_text c p =
     (if 0 \<le> p then show_nat c @ replicate (nat p) 48
      else let q = nat (- p); ds = pad_zero (q + 1) (show_nat c)
           in take (length ds - q) ds @ 46 # drop (length ds - q) ds)"

fun f_show :: "f64 \<Rightarrow> ustring" where
  "f_show FNan = U ''NaN''"
| "f_show (FInf s) = (if s then U ''-inf'' else U ''inf'')"
| "f_show (FFin s m e) =
     (if s then [45] else []) @
     (if m = 0 then U ''0'' else case shortest_decimal s m e of (c, p) \<Rightarrow> decimal_text c p)"

section \<open>The numeral mode\<close>

definition ASCII_BASE :: nat where "ASCII_BASE = 0x0030"

text \<open>A code point that is a scalar value; the others make no character.\<close>
definition char_from_u32 :: "nat \<Rightarrow> uchar option" where
  "char_from_u32 c = (if c < 0xD800 \<or> 0xDFFF < c \<and> c < 0x110000 then Some c else None)"

definition map_numeral_char :: "nat \<Rightarrow> uchar \<Rightarrow> uchar" where
  "map_numeral_char base ch =
     (if is_ascii_digit ch
      then (case char_from_u32 (base + (ch - ASCII_BASE)) of Some c \<Rightarrow> c | None \<Rightarrow> ch)
      else if ch = 46 then decimal_separator base
      else if ch = 44 then thousands_separator base
      else ch)"

definition map_numeral_number :: "ustring \<Rightarrow> nat \<Rightarrow> ustring" where
  "map_numeral_number s base = (if base = ASCII_BASE then s else map (map_numeral_char base) s)"

definition to_numeral_int :: "int \<Rightarrow> nat \<Rightarrow> ustring" where
  "to_numeral_int v base = map_numeral_number (show_int v) base"

definition to_numeral_float :: "f64 \<Rightarrow> nat \<Rightarrow> ustring" where
  "to_numeral_float v base = map_numeral_number (f_show v) base"

definition to_numeral_bool :: "bool \<Rightarrow> nat \<Rightarrow> ustring" where
  "to_numeral_bool v base = 35 # to_numeral_int (if v then 1 else 0) base"

definition str_as_int :: "ustring \<Rightarrow> int option" where
  "str_as_int s =
     (case parse_i64 (ascii_digits (trim s)) of
        Some n \<Rightarrow> if in_int_range n then Some n else None
      | None \<Rightarrow> None)"

definition str_as_float :: "ustring \<Rightarrow> f64 option" where
  "str_as_float s = parse_f64 (ascii_digits (trim s))"

section \<open>The blocks are disjoint\<close>

fun blocks_apart :: "nat list \<Rightarrow> bool" where
  "blocks_apart (a # b # bs) = (a + 9 < b \<and> blocks_apart (b # bs))"
| "blocks_apart _ = True"

lemma digit_blocks_apart: "blocks_apart (map fst DIGIT_BLOCKS)"
  by (simp add: DIGIT_BLOCKS_def)

lemma blocks_apart_above: "blocks_apart (a # bs) \<Longrightarrow> b \<in> set bs \<Longrightarrow> a + 9 < b"
proof (induction bs arbitrary: a)
  case (Cons c cs)
  then have "a + 9 < c" "blocks_apart (c # cs)" by simp_all
  with Cons show ?case by fastforce
qed simp

lemma blocks_apart_tail: "blocks_apart (a # bs) \<Longrightarrow> blocks_apart bs"
  by (cases bs) simp_all

lemma find_block: "blocks_apart bs \<Longrightarrow> b \<in> set bs \<Longrightarrow> in_block cp b \<Longrightarrow> find (in_block cp) bs = Some b"
proof (induction bs)
  case (Cons a bs)
  then have apart: "blocks_apart bs" by (blast dest: blocks_apart_tail)
  show ?case
  proof (cases "b = a")
    case True
    with Cons.prems show ?thesis by simp
  next
    case False
    with Cons.prems have mem: "b \<in> set bs" by simp
    with Cons.prems have "a + 9 < b" by (blast dest: blocks_apart_above)
    with Cons.prems have "\<not> in_block cp a" by (auto simp: in_block_def)
    with Cons.IH [OF apart mem] Cons.prems show ?thesis by simp
  qed
qed simp

lemma find_fst: "map_option (\<lambda>x. g (fst x)) (find (\<lambda>x. P (fst x)) xs) = map_option g (find P (map fst xs))"
  by (induction xs) auto

lemma digit_value_block: "digit_value cp = map_option (\<lambda>b. cp - b) (digit_block_base cp)"
  by (simp add: digit_value_def digit_block_base_def find_fst [where g = "\<lambda>b. cp - b"])

definition is_script :: "nat \<Rightarrow> bool" where
  "is_script b \<longleftrightarrow> b \<in> set (map fst DIGIT_BLOCKS)"

lemma digit_block_base_in:
  "is_script b \<Longrightarrow> d < 10 \<Longrightarrow> digit_block_base (b + d) = Some b"
  unfolding digit_block_base_def is_script_def
  by (rule find_block [OF digit_blocks_apart]) (auto simp: in_block_def)

lemma digit_value_in: "is_script b \<Longrightarrow> d < 10 \<Longrightarrow> digit_value (b + d) = Some d"
  by (simp add: digit_value_block digit_block_base_in)

lemma digit_block_base_Some:
  "digit_block_base cp = Some b \<longleftrightarrow> is_script b \<and> in_block cp b"
proof
  assume "digit_block_base cp = Some b"
  then show "is_script b \<and> in_block cp b"
    unfolding digit_block_base_def is_script_def by (metis find_Some_iff nth_mem)
next
  assume "is_script b \<and> in_block cp b"
  then show "digit_block_base cp = Some b"
    unfolding digit_block_base_def is_script_def by (blast intro: find_block [OF digit_blocks_apart])
qed

section \<open>What a mode writes reads back\<close>

definition block_clear :: "nat \<Rightarrow> bool" where
  "block_clear b \<longleftrightarrow> (b = 48 \<or> 128 \<le> b) \<and> (b + 9 < 0xD800 \<or> 0xDFFF < b) \<and> b + 9 < 0x110000 \<and> 13 < b \<and>
     (b + 9 < 0x2000 \<or> 0x200A < b) \<and>
     list_all (\<lambda>c. b + 9 < c \<or> c < b) [32, 0x85, 0xA0, 0x1680, 0x2028, 0x2029, 0x202F, 0x205F, 0x3000]"

lemma script_clear: "is_script b \<Longrightarrow> block_clear b"
proof -
  have "list_all block_clear (map fst DIGIT_BLOCKS)"
    by (simp add: DIGIT_BLOCKS_def block_clear_def)
  then have "\<forall>b \<in> set (map fst DIGIT_BLOCKS). block_clear b" by (simp only: list_all_iff)
  then show "is_script b \<Longrightarrow> block_clear b" unfolding is_script_def by (rule bspec)
qed

lemma block_base_scalar:
  assumes "is_script b" "d < 10"
  shows "char_from_u32 (b + d) = Some (b + d)"
proof -
  from script_clear [OF assms(1)] have "b + 9 < 0xD800 \<or> 0xDFFF < b" "b + 9 < 0x110000"
    unfolding block_clear_def by blast+
  with assms(2) show ?thesis by (auto simp: char_from_u32_def)
qed

lemma block_bases: "is_script b \<Longrightarrow> b = 48 \<or> 128 \<le> b"
  using script_clear [of b] unfolding block_clear_def by blast

lemma block_not_whitespace:
  assumes "is_script b" "in_block c b"
  shows "\<not> is_whitespace c"
proof -
  from script_clear [OF assms(1)] have ranges: "13 < b" "b + 9 < 0x2000 \<or> 0x200A < b"
    and points: "\<forall>p \<in> set [32, 0x85, 0xA0, 0x1680, 0x2028, 0x2029, 0x202F, 0x205F, 0x3000].
      b + 9 < p \<or> p < b"
    unfolding block_clear_def list_all_iff by blast+
  have "c \<notin> set [32, 0x85, 0xA0, 0x1680, 0x2028, 0x2029, 0x202F, 0x205F, 0x3000]"
    using points assms(2) unfolding in_block_def by fastforce
  with ranges assms(2) show ?thesis by (auto simp: is_whitespace_def in_block_def)
qed

lemma digit_not_whitespace: "digit_value c = Some d \<Longrightarrow> \<not> is_whitespace c"
  using block_not_whitespace by (auto simp: digit_value_block digit_block_base_Some)

lemma not_digits: "digit_value 45 = None" "digit_value 46 = None" "digit_value 0x66B = None"
  by (simp_all add: digit_value_def DIGIT_BLOCKS_def in_block_def)

lemma decimal_separator_not_digit: "digit_value (decimal_separator b) = None"
  by (simp add: decimal_separator_def SCRIPT_SEPARATORS_def not_digits)

lemma decimal_separator_reads [simp]: "is_decimal_separator (decimal_separator b)"
  by (simp add: decimal_separator_def SCRIPT_SEPARATORS_def is_decimal_separator_def)

lemma map_numeral_number_map: "map_numeral_number s b = map (map_numeral_char b) s"
proof -
  have "map_numeral_char ASCII_BASE c = c" for c
    by (auto simp: map_numeral_char_def ASCII_BASE_def is_ascii_digit_def char_from_u32_def
        decimal_separator_def thousands_separator_def SCRIPT_SEPARATORS_def)
  then show ?thesis by (simp add: map_numeral_number_def map_idI)
qed

lemma map_numeral_char_simps [simp]:
  "map_numeral_char b 45 = 45" "map_numeral_char b 46 = decimal_separator b"
  by (simp_all add: map_numeral_char_def is_ascii_digit_def)

lemma digit_value_rendered:
  assumes "is_script b"
  shows "is_ascii_digit c \<Longrightarrow> digit_value (map_numeral_char b c) = Some (c - 48)"
  using block_base_scalar [OF assms, of "c - 48"] digit_value_in [OF assms, of "c - 48"]
  by (auto simp: map_numeral_char_def is_ascii_digit_def ASCII_BASE_def)

lemma rendered_not_minus: "is_script b \<Longrightarrow> is_ascii_digit c \<Longrightarrow> map_numeral_char b c \<noteq> 45"
  using digit_value_rendered not_digits by fastforce

lemma loop_rendered_digits:
  assumes b: "is_script b"
  shows "list_all is_ascii_digit ds \<Longrightarrow>
   ascii_number_loop (map (map_numeral_char b) ds @ rest) r dig dot =
   ascii_number_loop rest (r @ ds) (dig \<or> ds \<noteq> []) dot"
proof (induction ds arbitrary: r dig)
  case (Cons c ds)
  from Cons.prems have c: "is_ascii_digit c" and ds: "list_all is_ascii_digit ds" by simp_all
  have "digit_char (c - 48) = c" using c by (auto simp: digit_char_def is_ascii_digit_def)
  with Cons.IH [OF ds] show ?case by (simp add: digit_value_rendered [OF b c])
qed simp

lemma loop_rendered_fraction:
  "is_script b \<Longrightarrow> list_all is_ascii_digit ds \<Longrightarrow>
   ascii_number_loop (decimal_separator b # map (map_numeral_char b) ds) r True False =
   Some (r @ 46 # ds)"
  using loop_rendered_digits [of b ds "[]"] by (simp add: decimal_separator_not_digit)

lemma ascii_number_rendered:
  assumes b: "is_script b" and shape: "list_all is_ascii_digit ds" "ds \<noteq> []" "list_all is_ascii_digit fs"
    "s = (if neg then [45] else []) @ ds @ (if dot then 46 # fs else [])"
  shows "ascii_number (map_numeral_number s b) = Some s"
proof -
  let ?m = "map (map_numeral_char b)"
  have body: "ascii_number_loop (?m (ds @ (if dot then 46 # fs else []))) r False False
      = Some (r @ ds @ (if dot then 46 # fs else []))" for r
    using shape loop_rendered_digits [OF b, of ds "?m (if dot then 46 # fs else [])" r False False]
      loop_rendered_fraction [OF b, of fs "r @ ds"]
    by (cases dot) simp_all
  obtain c ds' where ds: "ds = c # ds'" "is_ascii_digit c" using shape by (cases ds) auto
  show ?thesis
    using shape(4) ds body [of "[45]"] body [of "[]"] rendered_not_minus [OF b, of c]
    by (cases neg) (simp_all add: map_numeral_number_map ascii_number_def)
qed

lemma ascii_number_numeral_int:
  "is_script b \<Longrightarrow> ascii_number (to_numeral_int n b) = Some (show_int n)"
  unfolding to_numeral_int_def
  by (rule ascii_number_rendered [where ds = "show_nat (nat \<bar>n\<bar>)" and fs = "[]" and neg = "n < 0" and dot = False])
     (auto simp: show_nat_digits show_int_def)

lemma decimal_text_shape:
  "\<exists>ds fs dot. list_all is_ascii_digit ds \<and> ds \<noteq> [] \<and> list_all is_ascii_digit fs \<and>
     decimal_text c p = ds @ (if dot then 46 # fs else [])"
proof (cases "0 \<le> p")
  case True
  have "list_all is_ascii_digit (show_nat c @ replicate (nat p) 48)"
    using show_nat_digits by (auto simp: list_all_iff is_ascii_digit_def)
  with True show ?thesis
    by (intro exI [of _ "show_nat c @ replicate (nat p) 48"] exI [of _ "[]"] exI [of _ False])
       (simp add: decimal_text_def)
next
  case False
  define q ds where "q = nat (- p)" and "ds = pad_zero (q + 1) (show_nat c)"
  have "list_all is_ascii_digit ds" by (simp add: ds_def show_nat_digits)
  then have "list_all is_ascii_digit (take (length ds - q) ds)" "list_all is_ascii_digit (drop (length ds - q) ds)"
    by (auto simp: list_all_iff dest: in_set_takeD in_set_dropD)
  moreover have "q < length ds" by (simp add: ds_def)
  then have "take (length ds - q) ds \<noteq> []" by auto
  ultimately show ?thesis using False
    by (intro exI [of _ "take (length ds - q) ds"] exI [of _ "drop (length ds - q) ds"] exI [of _ True])
       (simp add: decimal_text_def Let_def q_def ds_def)
qed

lemma f_show_shape:
  assumes "f_is_finite f"
  obtains neg ds fs dot where "list_all is_ascii_digit ds" "ds \<noteq> []" "list_all is_ascii_digit fs"
    "f_show f = (if neg then [45] else []) @ ds @ (if dot then 46 # fs else [])"
proof -
  from assms obtain s m e where f: "f = FFin s m e" by (cases f) auto
  have "\<exists>ds fs dot. list_all is_ascii_digit ds \<and> ds \<noteq> [] \<and> list_all is_ascii_digit fs \<and>
      (if m = 0 then U ''0'' else case shortest_decimal s m e of (c, p) \<Rightarrow> decimal_text c p) =
      ds @ (if dot then 46 # fs else [])"
  proof (cases "m = 0")
    case True
    then show ?thesis
      by (intro exI [of _ "U ''0''"] exI [of _ "[]"] exI [of _ False]) (simp add: is_ascii_digit_def)
  next
    case False
    obtain c p where "shortest_decimal s m e = (c, p)" by fastforce
    with False decimal_text_shape [of c p] show ?thesis by simp
  qed
  then obtain ds fs dot where shape: "list_all is_ascii_digit ds" "ds \<noteq> []" "list_all is_ascii_digit fs"
    and body: "(if m = 0 then U ''0'' else case shortest_decimal s m e of (c, p) \<Rightarrow> decimal_text c p) =
      ds @ (if dot then 46 # fs else [])"
    by (elim exE conjE)
  have "f_show f = (if s then [45] else []) @ ds @ (if dot then 46 # fs else [])"
    by (simp only: f f_show.simps body)
  with shape show thesis by (rule that)
qed

lemma ascii_number_numeral_float:
  assumes b: "is_script b" and f: "f_is_finite f"
  shows "ascii_number (to_numeral_float f b) = Some (f_show f)"
proof -
  obtain neg ds fs dot where "list_all is_ascii_digit ds" "ds \<noteq> []" "list_all is_ascii_digit fs"
      "f_show f = (if neg then [45] else []) @ ds @ (if dot then 46 # fs else [])"
    using f_show_shape [OF f] .
  then show ?thesis unfolding to_numeral_float_def by (rule ascii_number_rendered [OF b])
qed

lemma ascii_digits_rendered:
  assumes b: "is_script b"
    and shape: "list_all is_ascii_digit ds" "ds \<noteq> []" "list_all is_ascii_digit fs"
      "s = (if neg then [45] else []) @ ds @ (if dot then 46 # fs else [])"
  shows "ascii_digits (map_numeral_number s b) = s"
proof (cases "b = ASCII_BASE")
  case True
  have "is_ascii s" using shape
    by (auto simp: is_ascii_def list_all_iff is_ascii_digit_def split: if_splits)
  with True show ?thesis by (simp add: map_numeral_number_def ascii_digits_def)
next
  case False
  obtain c ds' where ds: "ds = c # ds'" "is_ascii_digit c" using shape by (cases ds) auto
  have "128 \<le> map_numeral_char b c"
    using ds(2) b False block_bases [OF b] block_base_scalar [OF b, of "c - 48"]
    by (auto simp: map_numeral_char_def is_ascii_digit_def ASCII_BASE_def)
  then have "\<not> is_ascii (map_numeral_number s b)"
    using ds by (auto simp: shape(4) map_numeral_number_map is_ascii_def)
  with ascii_number_rendered [OF assms] show ?thesis by (simp add: ascii_digits_def)
qed

lemma dropWhile_hd: "s = [] \<or> \<not> P (hd s) \<Longrightarrow> dropWhile P s = s"
  by (cases s) auto

lemma trim_id: "s = [] \<or> \<not> is_whitespace (hd s) \<and> \<not> is_whitespace (last s) \<Longrightarrow> trim s = s"
  by (auto simp: trim_def dropWhile_hd hd_rev)

lemma trim_numeral_int:
  assumes b: "is_script b"
  shows "trim (to_numeral_int n b) = to_numeral_int n b"
proof (rule trim_id)
  let ?ds = "show_nat (nat \<bar>n\<bar>)"
  have s: "to_numeral_int n b = map (map_numeral_char b) ((if n < 0 then [45] else []) @ ?ds)"
    by (simp add: to_numeral_int_def map_numeral_number_map show_int_def)
  have nw: "\<not> is_whitespace (map_numeral_char b c)" if "c \<in> set ?ds" for c
    using that show_nat_digits [of "nat \<bar>n\<bar>"] digit_value_rendered [OF b, of c] digit_not_whitespace
    by (auto simp: list_all_iff)
  have "\<not> is_whitespace (map_numeral_char b (hd ?ds))" "\<not> is_whitespace (map_numeral_char b (last ?ds))"
    by (rule nw, simp)+
  then show "to_numeral_int n b = [] \<or> \<not> is_whitespace (hd (to_numeral_int n b)) \<and>
      \<not> is_whitespace (last (to_numeral_int n b))"
    by (simp add: s hd_append hd_map last_map is_whitespace_def)
qed

lemma str_as_int_numeral_int:
  assumes b: "is_script b"
  shows "str_as_int (to_numeral_int n b) = (if in_int_range n then Some n else None)"
proof -
  have "ascii_digits (to_numeral_int n b) = show_int n" unfolding to_numeral_int_def
    by (rule ascii_digits_rendered [OF b, where ds = "show_nat (nat \<bar>n\<bar>)" and fs = "[]" and neg = "n < 0" and dot = False])
       (auto simp: show_nat_digits show_int_def)
  then show ?thesis
    by (auto simp: str_as_int_def trim_numeral_int [OF b] checked_i64_def in_int_range_i64)
qed

text \<open>
  C29. What a numeral mode writes, the language reads: an integer written in any of the 69
  scripts reads back as that integer (as no integer when it is out of range), and the text of a
  finite double, decimal separator of the script included, normalises to its ASCII text.
\<close>

theorem numeral_roundtrip:
  assumes "b \<in> set (map fst DIGIT_BLOCKS)"
  shows "str_as_int (to_numeral_int n b) = (if in_int_range n then Some n else None) \<and>
         ascii_number (to_numeral_float (FFin s m e) b) = Some (f_show (FFin s m e))"
  using assms str_as_int_numeral_int [of b n] ascii_number_numeral_float [of b "FFin s m e"]
  by (simp add: is_script_def)

theorem numeral_roundtrip_witness:
  "str_as_int (to_numeral_int (- 42) 0x0966) = Some (- 42) \<and>
   ascii_number (to_numeral_float (f_of_int 0) 0x0660) = Some (U ''0'')"
  using numeral_roundtrip [of "0x0966" "- 42" False 0 0] numeral_roundtrip [of "0x0660" 0 False 0 "- 1074"]
  by (simp add: DIGIT_BLOCKS_def in_int_range_iff)

end
