(* ===== verification/ZyValue.thy ===== *)
theory ZyValue imports ZyAst ZyDigits begin

text \<open>
  The values of the tree-walking engine and what the engine says about them
  (crates/zymbol-interpreter/src/lib.rs): their display and repr forms under a numeral mode,
  the type symbols a program reads (crates/zymbol-common/src/typesym.rs), the type names a
  diagnostic writes (crates/zymbol-common/src/typeword.rs) and equality
  (crates/zymbol-interpreter/src/arithmetic_ops.rs).

  A shared aggregate (the source's Rc) is its content: the engine copies on the first write,
  so sharing is not observable.  A dictionary is its list of keys and values in insertion
  order, a captured environment an association list.  The pointer a named function is
  identified by is the number of its definition.
\<close>

section \<open>Values\<close>

datatype error_value = ErrorValue (err_type: ustring) (err_message: ustring)

definition error_generic :: "ustring \<Rightarrow> error_value" where "error_generic m = ErrorValue (U ''_'') m"
definition error_io :: "ustring \<Rightarrow> error_value" where "error_io m = ErrorValue (U ''IO'') m"
definition error_index :: "ustring \<Rightarrow> error_value" where "error_index m = ErrorValue (U ''Index'') m"
definition error_type_error :: "ustring \<Rightarrow> error_value" where "error_type_error m = ErrorValue (U ''Type'') m"
definition error_div :: "ustring \<Rightarrow> error_value" where "error_div m = ErrorValue (U ''Div'') m"
definition error_range :: "ustring \<Rightarrow> error_value" where "error_range m = ErrorValue (U ''Range'') m"
definition error_parse :: "ustring \<Rightarrow> error_value" where "error_parse m = ErrorValue (U ''Parse'') m"
definition error_key :: "ustring \<Rightarrow> error_value" where "error_key m = ErrorValue (U ''Key'') m"
definition error_depth :: "ustring \<Rightarrow> error_value" where "error_depth m = ErrorValue (U ''Depth'') m"

datatype function_def =
    FnZymbol (fn_parameters: "parameter list") (fn_body: "statement block")
      (fn_origin: "ustring option") (fn_auto_free: "(nat \<times> ustring list) list")
  | FnNative (fn_name: ustring) (fn_arity: int)

datatype fn_identity = IdNamed nat function_def | IdLambda nat | IdNative

fun fn_identity_eq :: "fn_identity \<Rightarrow> fn_identity \<Rightarrow> bool" where
  "fn_identity_eq (IdNamed a _) (IdNamed b _) = (a = b)"
| "fn_identity_eq (IdLambda a) (IdLambda b) = (a = b)"
| "fn_identity_eq _ _ = False"

datatype zvalue =
    VString ustring
  | VInt int
  | VFloat f64
  | VChar uchar
  | VBool bool
  | VArray "zvalue list"
  | VTuple "zvalue list"
  | VNamedTuple "(ustring \<times> zvalue) list"
  | VFunction function_value
  | VError error_value
  | VUnit
and function_value =
    FunctionValue (fv_params: "ustring list") (fv_body: "(expr, statement) lambda_body")
      (fv_captures: "(ustring \<times> zvalue) list") (fv_named: bool) (fv_identity: fn_identity)
      (fv_aliases: "(ustring \<times> ustring) list")

definition function_value_eq :: "function_value \<Rightarrow> function_value \<Rightarrow> bool" where
  "function_value_eq f g = fn_identity_eq (fv_identity f) (fv_identity g)"

definition is_error :: "zvalue \<Rightarrow> bool" where
  "is_error v = (case v of VError _ \<Rightarrow> True | _ \<Rightarrow> False)"

definition as_error :: "zvalue \<Rightarrow> error_value option" where
  "as_error v = (case v of VError e \<Rightarrow> Some e | _ \<Rightarrow> None)"

text \<open>An insertion-ordered map: a key written again keeps its place and takes the new value.\<close>

definition dict_insert :: "ustring \<Rightarrow> 'v \<Rightarrow> (ustring \<times> 'v) list \<Rightarrow> (ustring \<times> 'v) list" where
  "dict_insert k v d =
     (if k \<in> fst ` set d then map (\<lambda>e. if fst e = k then (k, v) else e) d else d @ [(k, v)])"

definition dict_collect :: "(ustring \<times> 'v) list \<Rightarrow> (ustring \<times> 'v) list" where
  "dict_collect flds = fold (\<lambda>e. dict_insert (fst e) (snd e)) flds []"

definition dict_ok :: "(ustring \<times> 'v) list \<Rightarrow> bool" where
  "dict_ok d = distinct (map fst d)"

definition value_named_tuple :: "(ustring \<times> zvalue) list \<Rightarrow> zvalue" where
  "value_named_tuple flds = VNamedTuple (dict_collect flds)"

section \<open>Type symbols and type names\<close>

definition SYM_INT :: ustring where "SYM_INT = U ''###''"
definition SYM_FLOAT :: ustring where "SYM_FLOAT = U ''##.''"
definition SYM_STRING :: ustring where "SYM_STRING = [35, 35, 34]"
definition SYM_CHAR :: ustring where "SYM_CHAR = [35, 35, 39]"
definition SYM_BOOL :: ustring where "SYM_BOOL = U ''##?''"
definition SYM_ARRAY :: ustring where "SYM_ARRAY = U ''##]''"
definition SYM_LIST :: ustring where "SYM_LIST = U ''##[''"
definition SYM_TUPLE :: ustring where "SYM_TUPLE = U ''##)''"
definition SYM_DICT :: ustring where "SYM_DICT = U ''##(''"
definition SYM_UNIT :: ustring where "SYM_UNIT = U ''##_''"
definition SYM_FUNCTION :: ustring where "SYM_FUNCTION = U ''##()''"
definition SYM_LAMBDA :: ustring where "SYM_LAMBDA = U ''##->''"

definition array_symbol :: "ustring list \<Rightarrow> ustring" where
  "array_symbol symbols =
     (case symbols of
        [] \<Rightarrow> SYM_ARRAY
      | first # rest \<Rightarrow> if list_all (\<lambda>s. s = first) rest then SYM_ARRAY else SYM_LIST)"

fun base_type_symbol :: "zvalue \<Rightarrow> ustring" where
  "base_type_symbol (VInt _) = SYM_INT"
| "base_type_symbol (VFloat _) = SYM_FLOAT"
| "base_type_symbol (VString _) = SYM_STRING"
| "base_type_symbol (VChar _) = SYM_CHAR"
| "base_type_symbol (VBool _) = SYM_BOOL"
| "base_type_symbol (VArray _) = SYM_ARRAY"
| "base_type_symbol (VTuple _) = SYM_TUPLE"
| "base_type_symbol (VNamedTuple _) = SYM_DICT"
| "base_type_symbol (VFunction f) = (if fv_named f then SYM_FUNCTION else SYM_LAMBDA)"
| "base_type_symbol (VError e) = U ''##'' @ err_type e"
| "base_type_symbol VUnit = SYM_UNIT"

definition type_symbol_of :: "zvalue \<Rightarrow> ustring" where
  "type_symbol_of v =
     (case v of
        VArray items \<Rightarrow> array_symbol (map base_type_symbol items)
      | other \<Rightarrow> base_type_symbol other)"

definition tw_array :: "ustring list \<Rightarrow> ustring" where
  "tw_array names =
     (case names of
        [] \<Rightarrow> U ''[?]''
      | first # rest \<Rightarrow>
          if list_all (\<lambda>n. n = first) rest then U ''['' @ first @ U '']'' else U ''[Any]'')"

definition tw_tuple :: "ustring list \<Rightarrow> ustring" where
  "tw_tuple names = U ''('' @ join_with (U '', '') names @ U '')''"

definition tw_dict :: "(ustring \<times> ustring) list \<Rightarrow> ustring" where
  "tw_dict flds =
     U ''#('' @ join_with (U '', '') (map (\<lambda>(k, t). k @ U '': '' @ t) flds) @ U '')''"

fun type_word :: "zvalue \<Rightarrow> ustring" where
  "type_word (VInt _) = U ''integer''"
| "type_word (VFloat _) = U ''float''"
| "type_word (VBool _) = U ''bool''"
| "type_word (VString _) = U ''string''"
| "type_word (VChar _) = U ''char''"
| "type_word (VArray _) = U ''array''"
| "type_word (VTuple _) = U ''tuple''"
| "type_word (VNamedTuple _) = U ''tuple''"
| "type_word (VFunction f) = (if fv_named f then U ''function'' else U ''lambda'')"
| "type_word (VError _) = U ''error''"
| "type_word VUnit = U ''unit''"

fun type_ident :: "zvalue \<Rightarrow> ustring" where
  "type_ident (VInt _) = U ''Int''"
| "type_ident (VFloat _) = U ''Float''"
| "type_ident (VString _) = U ''String''"
| "type_ident (VChar _) = U ''Char''"
| "type_ident (VBool _) = U ''Bool''"
| "type_ident (VArray _) = U ''Array''"
| "type_ident (VTuple _) = U ''Tuple''"
| "type_ident (VNamedTuple _) = U ''Dict''"
| "type_ident (VFunction _) = U ''Function''"
| "type_ident (VError _) = U ''Error''"
| "type_ident VUnit = U ''Unit''"

fun type_label :: "zvalue \<Rightarrow> ustring" where
  "type_label (VInt _) = U ''Int''"
| "type_label (VFloat _) = U ''Float''"
| "type_label (VString _) = U ''String''"
| "type_label (VChar _) = U ''Char''"
| "type_label (VBool _) = U ''Bool''"
| "type_label VUnit = U ''Unit''"
| "type_label (VError _) = U ''Error''"
| "type_label (VFunction _) = U ''Function''"
| "type_label (VArray items) = tw_array (map type_label items)"
| "type_label (VTuple items) = tw_tuple (map type_label items)"
| "type_label (VNamedTuple flds) = tw_dict (map (\<lambda>(k, v). (k, type_label v)) flds)"

fun type_name :: "zvalue \<Rightarrow> ustring" where
  "type_name (VInt _) = U ''###''"
| "type_name (VFloat _) = U ''##.''"
| "type_name (VString _) = [35, 35, 34]"
| "type_name (VChar _) = [35, 35, 39]"
| "type_name (VBool _) = U ''##?''"
| "type_name (VArray _) = U ''##[]''"
| "type_name (VTuple _) = U ''##()''"
| "type_name (VNamedTuple _) = U ''##(name:)''"
| "type_name (VFunction _) = U ''##fn''"
| "type_name (VError _) = U ''##!''"
| "type_name VUnit = U ''##_''"

section \<open>Display and repr\<close>

definition function_text :: "function_value \<Rightarrow> ustring" where
  "function_text f =
     (if fv_named f then U ''<funct/'' else U ''<lambd/'') @ show_nat (length (fv_params f)) @ U ''>''"

text \<open>Display inside a collection shows Unit, which stands alone as nothing.\<close>

definition nested :: "zvalue \<Rightarrow> ustring \<Rightarrow> ustring" where
  "nested v shown = (case v of VUnit \<Rightarrow> U ''()'' | _ \<Rightarrow> shown)"

fun display_in :: "nat \<Rightarrow> zvalue \<Rightarrow> ustring" where
  "display_in base (VString s) = s"
| "display_in base (VInt n) = to_numeral_int n base"
| "display_in base (VFloat f) = to_numeral_float f base"
| "display_in base (VChar c) = [c]"
| "display_in base (VBool b) = to_numeral_bool b base"
| "display_in base (VArray elements) =
     U ''['' @ join_with (U '', '') (map (\<lambda>v. nested v (display_in base v)) elements) @ U '']''"
| "display_in base (VTuple elements) =
     U ''('' @ join_with (U '', '') (map (\<lambda>v. nested v (display_in base v)) elements) @ U '')''"
| "display_in base (VNamedTuple flds) =
     U ''#('' @ join_with (U '', '')
       (map (\<lambda>(name, v). name @ U '': '' @ nested v (display_in base v)) flds) @ U '')''"
| "display_in base (VFunction f) = function_text f"
| "display_in base (VError e) = U ''##'' @ err_type e @ U ''('' @ err_message e @ U '')''"
| "display_in base VUnit = []"

definition display_string :: "zvalue \<Rightarrow> ustring" where
  "display_string v = display_in ASCII_BASE v"

fun repr_in :: "nat \<Rightarrow> zvalue \<Rightarrow> ustring" where
  "repr_in base (VString s) = 34 # s @ [34]"
| "repr_in base (VChar c) = [39, c, 39]"
| "repr_in base VUnit = U ''()''"
| "repr_in base (VArray elements) = U ''['' @ join_with (U '', '') (map (repr_in base) elements) @ U '']''"
| "repr_in base (VTuple elements) = U ''('' @ join_with (U '', '') (map (repr_in base) elements) @ U '')''"
| "repr_in base (VNamedTuple flds) =
     U ''#('' @ join_with (U '', '') (map (\<lambda>(name, v). name @ U '': '' @ repr_in base v) flds) @ U '')''"
| "repr_in base v = display_in base v"

section \<open>Equality\<close>

text \<open>The arms the source lists; two values of different shapes are unequal, Int and Float apart.\<close>

fun values_equal :: "zvalue \<Rightarrow> zvalue \<Rightarrow> bool" where
  "values_equal (VString a) r = (case r of VString b \<Rightarrow> a = b | _ \<Rightarrow> False)"
| "values_equal (VInt a) r =
     (case r of VInt b \<Rightarrow> a = b | VFloat b \<Rightarrow> feq (f_of_int a) b | _ \<Rightarrow> False)"
| "values_equal (VBool a) r = (case r of VBool b \<Rightarrow> a = b | _ \<Rightarrow> False)"
| "values_equal (VFloat a) r =
     (case r of VFloat b \<Rightarrow> feq a b | VInt b \<Rightarrow> feq a (f_of_int b) | _ \<Rightarrow> False)"
| "values_equal (VChar a) r = (case r of VChar b \<Rightarrow> a = b | _ \<Rightarrow> False)"
| "values_equal (VArray a) r =
     (case r of
        VArray b \<Rightarrow> length a = length b \<and> list_all (\<lambda>(eq, y). eq y) (zip (map values_equal a) b)
      | _ \<Rightarrow> False)"
| "values_equal (VTuple a) r =
     (case r of
        VTuple b \<Rightarrow> length a = length b \<and> list_all (\<lambda>(eq, y). eq y) (zip (map values_equal a) b)
      | _ \<Rightarrow> False)"
| "values_equal (VNamedTuple a) r =
     (case r of
        VNamedTuple b \<Rightarrow>
          length a = length b \<and>
          list_all (\<lambda>(ka, eq). case map_of b ka of Some vb \<Rightarrow> eq vb | None \<Rightarrow> False)
            (map (\<lambda>(ka, va). (ka, values_equal va)) a)
      | _ \<Rightarrow> False)"
| "values_equal VUnit r = (case r of VUnit \<Rightarrow> True | _ \<Rightarrow> False)"
| "values_equal (VFunction a) r = (case r of VFunction b \<Rightarrow> function_value_eq a b | _ \<Rightarrow> False)"
| "values_equal (VError a) r = False"


section \<open>Equality is an equivalence on the numbers and texts a program can hold\<close>

text \<open>
  What a value of the language is: an integer in range, a dictionary whose keys are
  distinct, and so on inside.
\<close>

fun value_ok :: "zvalue \<Rightarrow> bool" where
  "value_ok (VInt n) = in_int_range n"
| "value_ok (VArray vs) = list_all value_ok vs"
| "value_ok (VTuple vs) = list_all value_ok vs"
| "value_ok (VNamedTuple d) = (dict_ok d \<and> list_all (\<lambda>(k, v). value_ok v) d)"
| "value_ok _ = True"

text \<open>What equals itself: no NaN, no error and no native function anywhere inside.\<close>

fun self_equal :: "zvalue \<Rightarrow> bool" where
  "self_equal (VFloat f) = (f \<noteq> FNan)"
| "self_equal (VArray vs) = list_all self_equal vs"
| "self_equal (VTuple vs) = list_all self_equal vs"
| "self_equal (VNamedTuple d) = list_all (\<lambda>(k, v). self_equal v) d"
| "self_equal (VFunction f) = (fv_identity f \<noteq> IdNative)"
| "self_equal (VError _) = False"
| "self_equal _ = True"

definition is_atom :: "zvalue \<Rightarrow> bool" where
  "is_atom v = (case v of VArray _ \<Rightarrow> False | VTuple _ \<Rightarrow> False | VNamedTuple _ \<Rightarrow> False | _ \<Rightarrow> True)"

lemma zvalue_shape_induct [case_names atom array tup dict]:
  assumes "\<And>v. is_atom v \<Longrightarrow> P v"
    and "\<And>vs. (\<And>v. v \<in> set vs \<Longrightarrow> P v) \<Longrightarrow> P (VArray vs)"
    and "\<And>vs. (\<And>v. v \<in> set vs \<Longrightarrow> P v) \<Longrightarrow> P (VTuple vs)"
    and "\<And>d. (\<And>k v. (k, v) \<in> set d \<Longrightarrow> P v) \<Longrightarrow> P (VNamedTuple d)"
  shows "P v"
proof (rule zvalue.induct [of P "\<lambda>_. True"])
  fix d :: "(ustring \<times> zvalue) list" assume "\<And>x y. x \<in> set d \<Longrightarrow> y \<in> Basic_BNFs.snds x \<Longrightarrow> P y"
  then show "P (VNamedTuple d)" by (intro assms(4)) (metis snds.intros snd_conv)
qed (auto simp: is_atom_def intro: assms)

lemma values_equal_array [simp]:
  "values_equal (VArray a) (VArray b) = list_all2 values_equal a b"
  by (auto simp: list_all2_conv_all_nth list_all_length)

lemma values_equal_tuple [simp]:
  "values_equal (VTuple a) (VTuple b) = list_all2 values_equal a b"
  by (auto simp: list_all2_conv_all_nth list_all_length)

lemma values_equal_dict [simp]:
  "values_equal (VNamedTuple a) (VNamedTuple b) \<longleftrightarrow>
   length a = length b \<and> (\<forall>(k, v) \<in> set a. \<exists>w. map_of b k = Some w \<and> values_equal v w)"
  by (fastforce simp: list_all_iff split: option.splits)

declare values_equal.simps(6-8) [simp del]

lemma values_equal_shape:
  "values_equal (VArray a) r \<Longrightarrow> \<exists>b. r = VArray b"
  "values_equal (VTuple a) r \<Longrightarrow> \<exists>b. r = VTuple b"
  "values_equal (VNamedTuple c) r \<Longrightarrow> \<exists>b. r = VNamedTuple b"
  by (cases r; simp add: values_equal.simps)+

lemma feq_refl: "feq f f \<longleftrightarrow> f \<noteq> FNan"
  by (cases f) auto

lemma fn_identity_eq_refl: "fn_identity_eq a a \<longleftrightarrow> a \<noteq> IdNative"
  by (cases a) auto

lemma fn_identity_eq_sym: "fn_identity_eq a b = fn_identity_eq b a"
  by (cases a; cases b) auto

lemma fn_identity_eq_trans: "fn_identity_eq a b \<Longrightarrow> fn_identity_eq b c \<Longrightarrow> fn_identity_eq a c"
  by (cases a; cases b; cases c) auto

lemma atom_equal_sym: "is_atom a \<Longrightarrow> values_equal a b \<Longrightarrow> values_equal b a"
  by (cases a; cases b)
     (auto simp: is_atom_def feq_sym function_value_eq_def fn_identity_eq_sym values_equal.simps)

lemma dict_same_keys:
  assumes "dict_ok a" "dict_ok b" "length a = length b" "fst ` set a \<subseteq> fst ` set b"
  shows "fst ` set a = fst ` set b"
  using assms by (metis card_subset_eq dict_ok_def distinct_card finite_imageI length_map list.set_map List.finite_set)

lemma values_equal_sym_imp:
  "value_ok a \<Longrightarrow> value_ok b \<Longrightarrow> values_equal a b \<Longrightarrow> values_equal b a"
proof (induction a arbitrary: b rule: zvalue_shape_induct)
  case (atom v)
  then show ?case by (blast intro: atom_equal_sym)
next
  case (array vs)
  then obtain ws where b: "b = VArray ws" by (blast dest: values_equal_shape)
  with array have "list_all2 values_equal vs ws" by simp
  with array b show ?case by (auto simp: list_all2_conv_all_nth list_all_length)
next
  case (tup vs)
  then obtain ws where b: "b = VTuple ws" by (blast dest: values_equal_shape)
  with tup have "list_all2 values_equal vs ws" by simp
  with tup b show ?case by (auto simp: list_all2_conv_all_nth list_all_length)
next
  case (dict d)
  then obtain e where b: "b = VNamedTuple e" by (blast dest: values_equal_shape)
  with dict.prems have ok: "dict_ok d" "dict_ok e" and len: "length d = length e"
    and eq: "\<And>k v. (k, v) \<in> set d \<Longrightarrow> \<exists>w. map_of e k = Some w \<and> values_equal v w"
    by (auto simp: list_all_iff)
  have keys: "fst ` set d = fst ` set e"
    by (rule dict_same_keys [OF ok len]) (use eq in \<open>force dest: map_of_SomeD\<close>)
  have "\<exists>v. map_of d k = Some v \<and> values_equal w v" if kw: "(k, w) \<in> set e" for k w
  proof -
    from kw keys obtain v where v: "(k, v) \<in> set d" by force
    with eq obtain w' where "map_of e k = Some w'" "values_equal v w'" by blast
    moreover have "map_of e k = Some w" using ok kw by (simp add: dict_ok_def)
    ultimately have "values_equal v w" by simp
    moreover have "value_ok v" "value_ok w" using dict.prems b v kw by (auto simp: list_all_iff)
    ultimately have "values_equal w v" using dict.IH [OF v] by blast
    moreover have "map_of d k = Some v" using ok v by (simp add: dict_ok_def)
    ultimately show ?thesis by blast
  qed
  with b len show ?case by auto
qed

lemma feq_of_int_inj: "in_int_range a \<Longrightarrow> in_int_range b \<Longrightarrow> feq (f_of_int a) (f_of_int b) \<longleftrightarrow> a = b"
  by (simp add: feq_of_int in_int_range_iff)

lemma atom_equal_trans:
  assumes "is_atom a" "value_ok a" "value_ok b" "value_ok c" "values_equal a b" "values_equal b c"
  shows "values_equal a c"
  using assms
  by (cases a; cases b; cases c)
     (simp_all add: is_atom_def function_value_eq_def values_equal.simps feq_of_int_inj [symmetric],
      (metis feq_sym feq_trans fn_identity_eq_trans)+)

lemma values_equal_trans_ok:
  "value_ok a \<Longrightarrow> value_ok b \<Longrightarrow> value_ok c \<Longrightarrow> values_equal a b \<Longrightarrow> values_equal b c \<Longrightarrow> values_equal a c"
proof (induction a arbitrary: b c rule: zvalue_shape_induct)
  case (atom v)
  then show ?case by (blast intro: atom_equal_trans)
next
  case (array vs)
  then obtain ws xs where bc: "b = VArray ws" "c = VArray xs" by (blast dest: values_equal_shape)
  with array.prems have "list_all2 values_equal vs ws" "list_all2 values_equal ws xs" by simp_all
  with array bc show ?case
    by (simp add: list_all2_conv_all_nth list_all_length) (metis nth_mem)
next
  case (tup vs)
  then obtain ws xs where bc: "b = VTuple ws" "c = VTuple xs" by (blast dest: values_equal_shape)
  with tup.prems have "list_all2 values_equal vs ws" "list_all2 values_equal ws xs" by simp_all
  with tup bc show ?case
    by (simp add: list_all2_conv_all_nth list_all_length) (metis nth_mem)
next
  case (dict d)
  then obtain e where b: "b = VNamedTuple e" by (blast dest: values_equal_shape)
  with dict.prems obtain f where c: "c = VNamedTuple f" by (blast dest: values_equal_shape)
  have "\<exists>x. map_of f k = Some x \<and> values_equal v x" if kv: "(k, v) \<in> set d" for k v
  proof -
    from dict.prems b kv obtain w where w: "map_of e k = Some w" "values_equal v w" by auto
    then have "(k, w) \<in> set e" by (simp add: map_of_SomeD)
    with dict.prems b c obtain x where x: "map_of f k = Some x" "values_equal w x" by auto
    have "value_ok v" "value_ok w" "value_ok x"
      using dict.prems b c kv \<open>(k, w) \<in> set e\<close> map_of_SomeD [OF x(1)] by (auto simp: list_all_iff)
    with dict.IH [OF kv] w x show ?thesis by blast
  qed
  with dict.prems b c show ?case by auto
qed

lemma values_equal_self: "value_ok a \<Longrightarrow> values_equal a a \<longleftrightarrow> self_equal a"
proof (induction a rule: zvalue_shape_induct)
  case (atom v)
  then show ?case
    by (cases v) (auto simp: is_atom_def values_equal.simps function_value_eq_def feq_refl
        fn_identity_eq_refl)
next
  case (array vs)
  then show ?case by (auto simp: list_all2_conv_all_nth list_all_length)
next
  case (tup vs)
  then show ?case by (auto simp: list_all2_conv_all_nth list_all_length)
next
  case (dict d)
  then have ok: "dict_ok d" by simp
  have "(\<exists>w. map_of d k = Some w \<and> values_equal v w) \<longleftrightarrow> self_equal v" if "(k, v) \<in> set d" for k v
    using that dict ok by (auto simp: list_all_iff dict_ok_def)
  then show ?case by (fastforce simp: list_all_iff)
qed

text \<open>
  C23. Equality of values is an equivalence wherever it can be one: on the values of the language
  it is symmetric and transitive, Int and Float promotion, nested collections and dictionaries
  in any key order included, and the values that do not equal themselves are exactly those that
  hold a NaN, an error value or a native function.
\<close>

theorem values_equal_equivalence:
  assumes "value_ok a" "value_ok b" "value_ok c"
  shows "values_equal a b = values_equal b a \<and>
         (values_equal a b \<and> values_equal b c \<longrightarrow> values_equal a c) \<and>
         (values_equal a a \<longleftrightarrow> self_equal a)"
  using assms values_equal_sym_imp values_equal_trans_ok values_equal_self by blast

theorem values_equal_equivalence_witness:
  "values_equal (VNamedTuple [(U ''a'', VInt 1), (U ''b'', VUnit)])
       (VNamedTuple [(U ''b'', VUnit), (U ''a'', VFloat (f_of_int 1))]) \<and>
   values_equal (VNamedTuple [(U ''b'', VUnit), (U ''a'', VFloat (f_of_int 1))])
       (VNamedTuple [(U ''a'', VInt 1), (U ''b'', VUnit)])"
proof -
  have "values_equal (VNamedTuple [(U ''a'', VInt 1), (U ''b'', VUnit)])
       (VNamedTuple [(U ''b'', VUnit), (U ''a'', VFloat (f_of_int 1))])"
    by (simp add: feq_refl f_of_int_small)
  with values_equal_equivalence [of "VNamedTuple [(U ''a'', VInt 1), (U ''b'', VUnit)]"
      "VNamedTuple [(U ''b'', VUnit), (U ''a'', VFloat (f_of_int 1))]" VUnit]
  show ?thesis by (simp add: dict_ok_def in_int_range_iff f_of_int_small del: values_equal_dict)
qed

end
