(* ===== verification/ZyError.thy ===== *)
theory ZyError imports ZyValue begin

text \<open>
  Runtime errors (crates/zymbol-interpreter/src/lib.rs): how an error learns where it happened,
  which family of the language it belongs to, read from the kind it declares or from its words
  (crates/zymbol-common/src/errkind.rs), and which catch clause takes it.
\<close>

section \<open>Errors\<close>

datatype runtime_error =
    EGeneric ustring span
  | EIo ustring
  | EModuleNotFound ustring
  | ECircularDependency
  | ECircularImport ustring
  | EParseError ustring
  | ELocated (loc_message: ustring) (loc_file: ustring) (loc_line: nat) (loc_column: nat)
  | EKinded ustring runtime_error
  | EUnwind

fun error_text :: "runtime_error \<Rightarrow> ustring" where
  "error_text (EGeneric message _) = message"
| "error_text (EIo m) = U ''io error: '' @ m"
| "error_text (EModuleNotFound path) = U ''module not found: '' @ path"
| "error_text ECircularDependency = U ''circular dependency detected''"
| "error_text (ECircularImport m) =
     U ''E004: Circular import detected: module '' @ [39] @ m @ [39] @ U '' is already being loaded''"
| "error_text (EParseError m) = U ''failed to parse module: '' @ m"
| "error_text (ELocated message _ _ _) = message"
| "error_text (EKinded _ inner) = error_text inner"
| "error_text EUnwind = U ''unwinding''"

text \<open>The first argument is the file as a diagnostic displays it.\<close>

fun locate :: "ustring \<Rightarrow> nat \<Rightarrow> runtime_error \<Rightarrow> runtime_error" where
  "locate file ln (EGeneric message sp) =
     (if 0 < ln then ELocated message file ln 0 else EGeneric message sp)"
| "locate file ln (EKinded kind inner) = EKinded kind (locate file ln inner)"
| "locate file ln other = other"

definition kinded :: "string \<Rightarrow> ustring \<Rightarrow> span \<Rightarrow> runtime_error" where
  "kinded kind message sp = EKinded (U kind) (EGeneric message sp)"

fun error_location :: "runtime_error \<Rightarrow> (ustring \<times> nat) option" where
  "error_location (ELocated _ file ln _) = Some (file, ln)"
| "error_location (EKinded _ inner) = error_location inner"
| "error_location _ = None"

section \<open>The family of an error\<close>

text \<open>
  The lower case of a character as far as the words below can see: the ASCII letters, and the two
  other characters whose lower case holds an ASCII letter (U+212A and U+0130).
\<close>

definition lower_char :: "uchar \<Rightarrow> ustring" where
  "lower_char c =
     (if c = 0x212A then U ''k'' else if c = 0x130 then [105, 0x307] else [ascii_lower c])"

definition to_lowercase :: "ustring \<Rightarrow> ustring" where
  "to_lowercase s = concat (map lower_char s)"

definition error_kind_of_message :: "ustring \<Rightarrow> ustring" where
  "error_kind_of_message message =
     (let m = to_lowercase message
      in if starts_with (U ''call depth exceeded'') m then U ''Depth''
         else if contains_sub (U ''overflow'') m \<or> contains_sub (U ''out of range'') m then U ''Range''
         else if contains_sub (U ''no key'') m then U ''Key''
         else if contains_sub (U ''index'') m \<or> contains_sub (U ''out of bounds'') m then U ''Index''
         else if contains_sub (U ''type'') m then U ''Type''
         else if contains_sub (U ''division'') m \<or> contains_sub (U ''divide by zero'') m
              \<or> contains_sub (U ''modulo'') m then U ''Div''
         else if contains_sub (U ''parse'') m then U ''Parse''
         else U ''_'')"

definition value_of_kinded :: "ustring \<Rightarrow> ustring \<Rightarrow> error_value" where
  "value_of_kinded kind m =
     (if kind = U ''Range'' then error_range m
      else if kind = U ''Key'' then error_key m
      else if kind = U ''Index'' then error_index m
      else if kind = U ''Type'' then error_type_error m
      else if kind = U ''Div'' then error_div m
      else if kind = U ''Parse'' then error_parse m
      else if kind = U ''IO'' then error_io m
      else error_generic m)"

definition value_of_message :: "ustring \<Rightarrow> error_value" where
  "value_of_message m =
     (let kind = error_kind_of_message m
      in if kind = U ''Range'' then error_range m
         else if kind = U ''Key'' then error_key m
         else if kind = U ''Index'' then error_index m
         else if kind = U ''Type'' then error_type_error m
         else if kind = U ''Div'' then error_div m
         else if kind = U ''Parse'' then error_parse m
         else if kind = U ''Depth'' then error_depth m
         else error_generic m)"

fun runtime_error_to_value :: "runtime_error \<Rightarrow> zvalue" where
  "runtime_error_to_value (EKinded kind inner) = VError (value_of_kinded kind (error_text inner))"
| "runtime_error_to_value (EIo e) = VError (error_io e)"
| "runtime_error_to_value EUnwind = VError (error_generic (U ''unwinding''))"
| "runtime_error_to_value (EGeneric message _) = VError (value_of_message message)"
| "runtime_error_to_value (ELocated message _ _ _) = VError (value_of_message message)"
| "runtime_error_to_value (EModuleNotFound path) = VError (error_io (U ''module not found: '' @ path))"
| "runtime_error_to_value ECircularDependency = VError (error_generic (U ''circular dependency detected''))"
| "runtime_error_to_value (ECircularImport m) =
     VError (error_generic (error_text (ECircularImport m)))"
| "runtime_error_to_value (EParseError m) = VError (error_parse m)"

definition catch_matches :: "'s catch_clause \<Rightarrow> zvalue \<Rightarrow> bool" where
  "catch_matches clause v =
     (case as_error v of
        None \<Rightarrow> False
      | Some e \<Rightarrow>
          (case cc_error_type clause of
             None \<Rightarrow> True
           | Some t \<Rightarrow> et_name t = U ''_'' \<or> et_name t = err_type e))"

text \<open>The family as a catch clause sees it.\<close>

definition family :: "runtime_error \<Rightarrow> ustring" where
  "family e = (case runtime_error_to_value e of VError v \<Rightarrow> err_type v | _ \<Rightarrow> [])"

section \<open>Lemmas\<close>

named_theorems error_simps

lemma error_value_types [simp]:
  "err_type (error_range m) = U ''Range''" "err_type (error_key m) = U ''Key''"
  "err_type (error_index m) = U ''Index''" "err_type (error_type_error m) = U ''Type''"
  "err_type (error_div m) = U ''Div''" "err_type (error_parse m) = U ''Parse''"
  "err_type (error_io m) = U ''IO''" "err_type (error_generic m) = U ''_''"
  "err_type (error_depth m) = U ''Depth''"
  by (simp_all add: error_range_def error_key_def error_index_def error_type_error_def error_div_def
      error_parse_def error_io_def error_generic_def error_depth_def)

lemma err_type_of_message: "err_type (value_of_message m) = error_kind_of_message m"
  by (simp add: value_of_message_def error_kind_of_message_def Let_def)

lemma family_generic [error_simps]: "family (EGeneric m sp) = error_kind_of_message m"
  by (simp add: family_def err_type_of_message)

lemma family_kinded [error_simps]:
  "family (kinded kind m sp) =
     (if U kind \<in> {U ''Range'', U ''Key'', U ''Index'', U ''Type'', U ''Div'', U ''Parse'', U ''IO''}
      then U kind else U ''_'')"
  by (simp add: family_def kinded_def value_of_kinded_def)

lemma to_lowercase_append [simp]: "to_lowercase (a @ b) = to_lowercase a @ to_lowercase b"
  by (simp add: to_lowercase_def)

lemma contains_sub_prefix: "contains_sub p a \<Longrightarrow> contains_sub p (a @ b)"
  by (auto simp: contains_sub_iff) (metis append.assoc)

lemma starts_with_append: "starts_with p a \<Longrightarrow> starts_with p (a @ b)"
  by (auto simp: starts_with_iff)

text \<open>Attaching a place to an error never moves it to another family, nor changes its words.\<close>

lemma locate_text [simp]: "error_text (locate file ln e) = error_text e"
  by (induction e) auto

lemma locate_value: "runtime_error_to_value (locate file ln e) = runtime_error_to_value e"
  by (cases e) auto

text \<open>The innermost frame that knows the file wins: an error located once stays where it is.\<close>

lemma locate_once: "error_location e \<noteq> None \<Longrightarrow> locate file ln e = e"
  by (induction e) auto

text \<open>
  C28. Learning where an error happened changes nothing a program can see: its words, its family,
  the catch clauses that take it are those of the bare error, and an error that already knows
  its place keeps it.
\<close>

theorem locating_is_neutral:
  "error_text (locate file ln e) = error_text e \<and> family (locate file ln e) = family e \<and>
   catch_matches clause (runtime_error_to_value (locate file ln e)) =
     catch_matches clause (runtime_error_to_value e) \<and>
   locate file2 ln2 (locate file (Suc ln) e) = locate file (Suc ln) e"
proof -
  have "locate file2 ln2 (locate file (Suc ln) e) = locate file (Suc ln) e"
    by (induction e) auto
  then show ?thesis by (simp add: family_def locate_value)
qed

end
