(* ===== verification/ZyArith.thy ===== *)
theory ZyArith imports ZyError begin

text \<open>
  The arithmetic and comparison operators of the tree-walking engine
  (crates/zymbol-interpreter/src/arithmetic_ops.rs): promotion of Int to Float, the checked
  integer operations, division and remainder with their zero checks, power, comparison, with the
  errors each raises.  The power of doubles is the platform's and is a parameter.
\<close>

section \<open>The operators\<close>

definition int_result :: "int option \<Rightarrow> int \<Rightarrow> ustring \<Rightarrow> int \<Rightarrow> span \<Rightarrow> runtime_error + zvalue" where
  "int_result v a op b sp =
     (case v of Some n \<Rightarrow> Inr (VInt n) | None \<Rightarrow> Inl (EGeneric (overflow_msg a op b) sp))"

definition EM_DASH :: uchar where "EM_DASH = 0x2014"

definition plus_text_msg :: ustring where
  "plus_text_msg = U ''+ is arithmetic only '' @ EM_DASH # U '' use juxtaposition to concatenate strings: '' @
     34 # U ''a'' @ 34 # U '' b '' @ 34 # U ''c'' @ [34]"

definition div_text_msg :: ustring where
  "div_text_msg = U ''/ requires numeric operands '' @ EM_DASH # U '' use $/ to split strings''"

definition numeric_msg :: "string \<Rightarrow> zvalue \<Rightarrow> zvalue \<Rightarrow> ustring" where
  "numeric_msg what l r =
     U what @ U '' requires numeric operands: '' @ type_ident l @ U '', '' @ type_ident r"

definition is_text :: "zvalue \<Rightarrow> bool" where
  "is_text v = (case v of VString _ \<Rightarrow> True | _ \<Rightarrow> False)"

definition eval_add :: "zvalue \<Rightarrow> zvalue \<Rightarrow> span \<Rightarrow> runtime_error + zvalue" where
  "eval_add l r sp =
     (case (l, r) of
        (VInt a, VInt b) \<Rightarrow> int_result (num_add a b) a (U ''+'') b sp
      | (VFloat a, VFloat b) \<Rightarrow> Inr (VFloat (fadd a b))
      | (VInt a, VFloat b) \<Rightarrow> Inr (VFloat (fadd (f_of_int a) b))
      | (VFloat a, VInt b) \<Rightarrow> Inr (VFloat (fadd a (f_of_int b)))
      | _ \<Rightarrow>
          if is_text l \<or> is_text r then Inl (kinded ''Type'' plus_text_msg sp)
          else Inl (kinded ''Type'' (numeric_msg ''arithmetic'' l r) sp))"

definition value_to_concat_str :: "nat \<Rightarrow> zvalue \<Rightarrow> ustring" where
  "value_to_concat_str mode v =
     (case v of
        VString s \<Rightarrow> s
      | VChar c \<Rightarrow> [c]
      | VInt n \<Rightarrow> to_numeral_int n mode
      | VFloat f \<Rightarrow> to_numeral_float f mode
      | VBool b \<Rightarrow> to_numeral_bool b mode
      | _ \<Rightarrow> display_in mode v)"

definition eval_concat :: "nat \<Rightarrow> zvalue \<Rightarrow> zvalue \<Rightarrow> runtime_error + zvalue" where
  "eval_concat mode l r = Inr (VString (value_to_concat_str mode l @ value_to_concat_str mode r))"

definition eval_arithmetic ::
    "(int \<Rightarrow> int \<Rightarrow> int option) \<Rightarrow> (f64 \<Rightarrow> f64 \<Rightarrow> f64) \<Rightarrow> ustring \<Rightarrow> zvalue \<Rightarrow> zvalue \<Rightarrow> span \<Rightarrow> runtime_error + zvalue"
where
  "eval_arithmetic int_op float_op op l r sp =
     (case (l, r) of
        (VInt a, VInt b) \<Rightarrow> int_result (int_op a b) a op b sp
      | (VFloat a, VFloat b) \<Rightarrow> Inr (VFloat (float_op a b))
      | (VInt a, VFloat b) \<Rightarrow> Inr (VFloat (float_op (f_of_int a) b))
      | (VFloat a, VInt b) \<Rightarrow> Inr (VFloat (float_op a (f_of_int b)))
      | _ \<Rightarrow> Inl (kinded ''Type'' (numeric_msg ''arithmetic'' l r) sp))"

definition is_number :: "zvalue \<Rightarrow> bool" where
  "is_number v = (case v of VInt _ \<Rightarrow> True | VFloat _ \<Rightarrow> True | _ \<Rightarrow> False)"

definition is_zero_number :: "zvalue \<Rightarrow> bool" where
  "is_zero_number v = (case v of VInt n \<Rightarrow> n = 0 | VFloat f \<Rightarrow> feq f (f_of_int 0) | _ \<Rightarrow> False)"

definition modulo_by_zero :: "span \<Rightarrow> runtime_error" where
  "modulo_by_zero sp = EGeneric (U ''modulo by zero'') sp"

definition eval_mod :: "zvalue \<Rightarrow> zvalue \<Rightarrow> span \<Rightarrow> runtime_error + zvalue" where
  "eval_mod l r sp =
     (if is_zero_number r \<and> is_number l then Inl (modulo_by_zero sp)
      else eval_arithmetic (\<lambda>a b. Some (a smod b)) frem (U ''%'') l r sp)"

definition div_by_zero :: "span \<Rightarrow> runtime_error" where
  "div_by_zero sp = EGeneric (U ''division by zero'') sp"

definition eval_div :: "zvalue \<Rightarrow> zvalue \<Rightarrow> span \<Rightarrow> runtime_error + zvalue" where
  "eval_div l r sp =
     (case (l, r) of
        (VInt a, VInt b) \<Rightarrow> if b = 0 then Inl (div_by_zero sp) else Inr (VInt (a sdiv b))
      | (VFloat a, VFloat b) \<Rightarrow>
          if feq b (f_of_int 0) then Inl (div_by_zero sp) else Inr (VFloat (fdiv a b))
      | (VInt a, VFloat b) \<Rightarrow>
          if feq b (f_of_int 0) then Inl (div_by_zero sp) else Inr (VFloat (fdiv (f_of_int a) b))
      | (VFloat a, VInt b) \<Rightarrow>
          if b = 0 then Inl (div_by_zero sp) else Inr (VFloat (fdiv a (f_of_int b)))
      | _ \<Rightarrow>
          if is_text l \<or> is_text r then Inl (kinded ''Type'' div_text_msg sp)
          else Inl (kinded ''Type'' (numeric_msg ''arithmetic'' l r) sp))"

definition u32_max :: int where "u32_max = 4294967295"

definition eval_pow :: "(f64 \<Rightarrow> f64 \<Rightarrow> f64) \<Rightarrow> zvalue \<Rightarrow> zvalue \<Rightarrow> span \<Rightarrow> runtime_error + zvalue" where
  "eval_pow powf l r sp =
     (case (l, r) of
        (VInt base, VInt exp) \<Rightarrow>
          if exp < 0 then Inr (VFloat (powf (f_of_int base) (f_of_int exp)))
          else int_result (num_pow base (nat (min exp u32_max))) base (U ''^'') exp sp
      | (VFloat base, VFloat exp) \<Rightarrow> Inr (VFloat (powf base exp))
      | (VInt base, VFloat exp) \<Rightarrow> Inr (VFloat (powf (f_of_int base) exp))
      | (VFloat base, VInt exp) \<Rightarrow> Inr (VFloat (powf base (f_of_int exp)))
      | _ \<Rightarrow> Inl (kinded ''Type'' (numeric_msg ''power operator'' l r) sp))"

text \<open>The order of two texts: UTF-8 bytes compare as code points do.\<close>

fun text_compare :: "ustring \<Rightarrow> ustring \<Rightarrow> int" where
  "text_compare [] [] = 0"
| "text_compare [] (_ # _) = 1"
| "text_compare (_ # _) [] = - 1"
| "text_compare (a # as) (b # bs) = (if a < b then 1 else if b < a then - 1 else text_compare as bs)"

definition cannot_compare :: "string \<Rightarrow> ustring \<Rightarrow> string \<Rightarrow> ustring \<Rightarrow> binary_op \<Rightarrow> runtime_error" where
  "cannot_compare wa ta wb tb op =
     kinded ''Parse''
       (U ''cannot compare '' @ U wa @ ta @ U wb @ tb @ U '' using operator '' @ 39 # op_text op @ [39]) no_span"

definition quoted :: "ustring \<Rightarrow> ustring" where "quoted s = 39 # s @ [39]"

definition compare_values ::
    "(int \<Rightarrow> int \<Rightarrow> bool) \<Rightarrow> (f64 \<Rightarrow> f64 \<Rightarrow> bool) \<Rightarrow> binary_op \<Rightarrow> zvalue \<Rightarrow> zvalue \<Rightarrow> runtime_error + zvalue"
where
  "compare_values int_compare float_compare op l r =
     (case (l, r) of
        (VInt a, VInt b) \<Rightarrow> Inr (VBool (int_compare a b))
      | (VFloat a, VFloat b) \<Rightarrow> Inr (VBool (float_compare a b))
      | (VInt a, VFloat b) \<Rightarrow> Inr (VBool (float_compare (f_of_int a) b))
      | (VFloat a, VInt b) \<Rightarrow> Inr (VBool (float_compare a (f_of_int b)))
      | (VChar a, VChar b) \<Rightarrow> Inr (VBool (int_compare (int a) (int b)))
      | (VBool a, VBool b) \<Rightarrow> Inr (VBool (int_compare (of_bool a) (of_bool b)))
      | (VString a, VString b) \<Rightarrow>
          (case (str_as_int a, str_as_int b) of
             (Some i, Some j) \<Rightarrow> Inr (VBool (int_compare i j))
           | _ \<Rightarrow>
             (case (str_as_float a, str_as_float b) of
                (Some x, Some y) \<Rightarrow> Inr (VBool (float_compare x y))
              | _ \<Rightarrow> Inr (VBool (int_compare 0 (text_compare a b)))))
      | (VString s, VInt i) \<Rightarrow>
          (case str_as_int s of
             Some n \<Rightarrow> Inr (VBool (int_compare n i))
           | None \<Rightarrow>
             (case str_as_float s of
                Some x \<Rightarrow> Inr (VBool (float_compare x (f_of_int i)))
              | None \<Rightarrow> Inl (cannot_compare ''string '' (quoted s) '' with integer '' (show_int i) op)))
      | (VInt i, VString s) \<Rightarrow>
          (case str_as_int s of
             Some n \<Rightarrow> Inr (VBool (int_compare i n))
           | None \<Rightarrow>
             (case str_as_float s of
                Some x \<Rightarrow> Inr (VBool (float_compare (f_of_int i) x))
              | None \<Rightarrow> Inl (cannot_compare ''integer '' (show_int i) '' with string '' (quoted s) op)))
      | (VString s, VFloat f) \<Rightarrow>
          (case str_as_float s of
             Some x \<Rightarrow> Inr (VBool (float_compare x f))
           | None \<Rightarrow> Inl (cannot_compare ''string '' (quoted s) '' with float '' (f_show f) op))
      | (VFloat f, VString s) \<Rightarrow>
          (case str_as_float s of
             Some x \<Rightarrow> Inr (VBool (float_compare f x))
           | None \<Rightarrow> Inl (cannot_compare ''float '' (f_show f) '' with string '' (quoted s) op))
      | _ \<Rightarrow>
          Inl (kinded ''Type''
            (U ''cannot compare values with operator '' @ quoted (op_text op) @ U '': '' @ type_ident l @
             U '' and '' @ type_ident r) no_span))"

definition logical_msg :: "string \<Rightarrow> zvalue \<Rightarrow> ustring" where
  "logical_msg name v = U ''logical '' @ U name @ U '' requires boolean operands, got '' @ type_ident v"

definition as_bool :: "string \<Rightarrow> zvalue \<Rightarrow> span \<Rightarrow> runtime_error + bool" where
  "as_bool name v sp =
     (case v of VBool b \<Rightarrow> Inr b | _ \<Rightarrow> Inl (kinded ''Type'' (logical_msg name v) sp))"

fun op_debug :: "binary_op \<Rightarrow> ustring" where
  "op_debug OpPipe = U ''Pipe''"
| "op_debug OpComma = U ''Comma''"
| "op_debug OpRange = U ''Range''"
| "op_debug op = op_text op"

definition apply_binary ::
    "(f64 \<Rightarrow> f64 \<Rightarrow> f64) \<Rightarrow> nat \<Rightarrow> binary_op \<Rightarrow> span \<Rightarrow> zvalue \<Rightarrow> zvalue \<Rightarrow> runtime_error + zvalue"
where
  "apply_binary powf mode op sp l r =
     (case op of
        OpConcat \<Rightarrow> eval_concat mode l r
      | OpAdd \<Rightarrow> eval_add l r sp
      | OpSub \<Rightarrow> eval_arithmetic num_sub fsub (U ''-'') l r sp
      | OpMul \<Rightarrow> eval_arithmetic num_mul fmul (U ''*'') l r sp
      | OpDiv \<Rightarrow> eval_div l r sp
      | OpMod \<Rightarrow> eval_mod l r sp
      | OpPow \<Rightarrow> eval_pow powf l r sp
      | OpEq \<Rightarrow> Inr (VBool (values_equal l r))
      | OpNeq \<Rightarrow> Inr (VBool (\<not> values_equal l r))
      | OpLt \<Rightarrow> compare_values (<) flt op l r
      | OpGt \<Rightarrow> compare_values (>) (\<lambda>x y. flt y x) op l r
      | OpLe \<Rightarrow> compare_values (\<le>) fle op l r
      | OpGe \<Rightarrow> compare_values (\<ge>) (\<lambda>x y. fle y x) op l r
      | OpAnd \<Rightarrow>
          rbind (as_bool ''AND'' l sp) (\<lambda>a. rbind (as_bool ''AND'' r sp) (\<lambda>b. Inr (VBool (a \<and> b))))
      | OpOr \<Rightarrow>
          rbind (as_bool ''OR'' l sp) (\<lambda>a. rbind (as_bool ''OR'' r sp) (\<lambda>b. Inr (VBool (a \<or> b))))
      | _ \<Rightarrow> Inl (EGeneric (U ''unsupported binary operator: '' @ op_debug op) sp))"

definition apply_unary :: "unary_op \<Rightarrow> span \<Rightarrow> zvalue \<Rightarrow> runtime_error + zvalue" where
  "apply_unary op sp operand =
     (case op of
        OpNot \<Rightarrow>
          (case operand of
             VBool b \<Rightarrow> Inr (VBool (\<not> b))
           | _ \<Rightarrow> Inl (kinded ''Type'' (U ''logical NOT requires boolean operand, got '' @ type_ident operand) sp))
      | OpNeg \<Rightarrow>
          (case operand of
             VInt n \<Rightarrow> Inr (VInt (wrap_i64 (- n)))
           | VFloat f \<Rightarrow> Inr (VFloat (fneg f))
           | _ \<Rightarrow> Inl (kinded ''Type'' (U ''negation requires numeric operand, got '' @ type_ident operand) sp))
      | OpPos \<Rightarrow>
          (case operand of
             VInt n \<Rightarrow> Inr (VInt n)
           | VFloat f \<Rightarrow> Inr (VFloat f)
           | _ \<Rightarrow> Inl (kinded ''Type'' (U ''unary plus requires numeric operand, got '' @ type_ident operand) sp)))"

lemma wrap_neg [simp]:
  "in_int_range n \<Longrightarrow> wrap_i64 (- n) = - n" "\<bar>n\<bar> < 9007199254740992 \<Longrightarrow> wrap_i64 (- n) = - n"
  by (rule wrap_i64_id, auto simp: in_int_range_iff in_i64_def i64_min_def i64_max_def)+

section \<open>The family of each failure\<close>

lemma overflow_family [error_simps]: "family (EGeneric (overflow_msg a op b) sp) = U ''Range''"
proof -
  have low: "to_lowercase (U ''integer overflow: '') = U ''integer overflow: ''"
    by (simp add: to_lowercase_def lower_char_def ascii_lower_def)
  have "contains_sub (U ''overflow'') (U ''integer overflow: '')" by simp
  then have c: "contains_sub (U ''overflow'') (to_lowercase (overflow_msg a op b))"
    unfolding overflow_msg_def to_lowercase_append low by (rule contains_sub_prefix)
  have "\<not> starts_with (U ''call depth exceeded'') (to_lowercase (overflow_msg a op b))"
    unfolding overflow_msg_def to_lowercase_append low by simp
  with c show ?thesis by (simp add: family_generic error_kind_of_message_def Let_def del: starts_with.simps)
qed

lemma zero_families [error_simps]:
  "family (div_by_zero sp) = U ''Div''" "family (modulo_by_zero sp) = U ''Div''"
  by (simp_all add: div_by_zero_def modulo_by_zero_def family_generic error_kind_of_message_def to_lowercase_def
      lower_char_def ascii_lower_def)

text \<open>What an operator on numbers should answer: the exact result, when it is one of the language.\<close>

fun exact_int_op :: "binary_op \<Rightarrow> int \<Rightarrow> int \<Rightarrow> int" where
  "exact_int_op OpAdd a b = a + b"
| "exact_int_op OpSub a b = a - b"
| "exact_int_op OpMul a b = a * b"
| "exact_int_op OpDiv a b = a sdiv b"
| "exact_int_op OpMod a b = a smod b"
| "exact_int_op _ a b = a ^ nat b"

definition divides :: "binary_op \<Rightarrow> bool" where
  "divides op \<longleftrightarrow> op = OpDiv \<or> op = OpMod"

lemma abs_div_le: "\<bar>a\<bar> div \<bar>b\<bar> \<le> \<bar>a :: int\<bar>"
proof (cases "b = 0")
  case False
  then have "\<bar>a\<bar> div \<bar>b\<bar> \<le> \<bar>a\<bar> div 1" by (intro zdiv_mono2) auto
  then show ?thesis by simp
qed simp

lemma abs_sdiv: "\<bar>a sdiv b\<bar> = \<bar>a\<bar> div \<bar>b :: int\<bar>"
  by (auto simp: signed_divide_int_def abs_mult abs_sgn_eq pos_imp_zdiv_nonneg_iff)

lemma smod_sgn: "a smod b = sgn a * (\<bar>a\<bar> mod \<bar>b :: int\<bar>)"
  by (rule signed_modulo_int_def)

lemma abs_smod: "\<bar>a smod b\<bar> = \<bar>a\<bar> mod \<bar>b :: int\<bar>"
proof -
  have e: "a smod b = sgn a * (\<bar>a\<bar> mod \<bar>b\<bar>)" by (rule smod_sgn)
  show ?thesis
  proof (cases "b = 0")
    case False
    then have "0 \<le> \<bar>a\<bar> mod \<bar>b\<bar>" by simp
    with e show ?thesis by (auto simp: abs_mult abs_sgn_eq)
  qed (simp add: e abs_mult abs_sgn_eq)
qed

lemma sdiv_in_range: "in_int_range a \<Longrightarrow> in_int_range (a sdiv b)"
  using abs_div_le [of a b] by (simp add: in_int_range_iff abs_sdiv)

lemma smod_in_range: "in_int_range a \<Longrightarrow> in_int_range (a smod b)"
proof -
  have "\<bar>a\<bar> mod \<bar>b\<bar> \<le> \<bar>a\<bar>" by (rule zmod_le_nonneg_dividend) simp
  then show "in_int_range a \<Longrightarrow> ?thesis" by (simp add: in_int_range_iff abs_smod)
qed

lemma big_power:
  assumes "2 \<le> \<bar>base :: int\<bar>" "53 \<le> n"
  shows "\<not> in_int_range (base ^ n)"
proof -
  have "(2::int) ^ 53 \<le> 2 ^ n" using assms(2) by (rule power_increasing) simp
  also have "\<dots> \<le> \<bar>base\<bar> ^ n" using assms(1) by (rule power_mono) simp
  finally show ?thesis by (simp add: in_int_range_iff power_abs)
qed

lemma clamped_power:
  assumes "0 \<le> b" "a = - 1 \<Longrightarrow> b \<le> u32_max"
  shows "num_pow a (nat (min b u32_max)) = num_checked (a ^ nat b)"
proof (cases "b \<le> u32_max")
  case True
  then show ?thesis by (simp add: num_pow_checked min_def)
next
  case False
  then have big: "53 \<le> nat b" "53 \<le> nat (min b u32_max)" by (auto simp: u32_max_def)
  consider "a = 0" | "a = 1" | "2 \<le> \<bar>a\<bar>" using False assms(2) by fastforce
  then show ?thesis
  proof cases
    case 3
    then show ?thesis using big big_power [of a] by (simp add: num_pow_checked num_checked_def)
  next
    case 1
    from big have "0 < nat b" "0 < nat (min b u32_max)" by linarith+
    then have "(0::int) ^ nat b = 0" "(0::int) ^ nat (min b u32_max) = 0"
      by (simp_all only: zero_power)
    with 1 show ?thesis by (simp only: num_pow_checked)
  qed (simp add: num_pow_checked)
qed

definition int_failure :: "binary_op \<Rightarrow> int \<Rightarrow> int \<Rightarrow> span \<Rightarrow> runtime_error" where
  "int_failure op a b sp = EGeneric (overflow_msg a (op_text op) b) sp"

lemma int_arithmetic:
  assumes "in_int_range a" "in_int_range b" "is_arithmetic op"
    and "op = OpPow \<Longrightarrow> 0 \<le> b \<and> (a = - 1 \<longrightarrow> b \<le> u32_max)"
    and "\<not> (divides op \<and> b = 0)"
  shows "apply_binary powf mode op sp (VInt a) (VInt b) =
     (if in_int_range (exact_int_op op a b) then Inr (VInt (exact_int_op op a b))
      else Inl (int_failure op a b sp))"
  using assms
  by (cases op)
     (auto simp: is_arithmetic_def apply_binary_def eval_add_def eval_arithmetic_def eval_div_def
       eval_mod_def eval_pow_def int_result_def add.op_exact sub.op_exact mul.op_exact
       clamped_power num_checked_def int_failure_def divides_def sdiv_in_range smod_in_range
       is_zero_number_def)

section \<open>The contract of the operators\<close>

definition arith_family :: "binary_op \<Rightarrow> zvalue \<Rightarrow> zvalue \<Rightarrow> ustring" where
  "arith_family op l r =
     (if is_number l \<and> is_number r
      then (if divides op \<and> is_zero_number r then U ''Div'' else U ''Range'')
      else U ''Type'')"

lemma kinded_type_family [simp]: "family (kinded ''Type'' m sp) = U ''Type''"
  by (simp add: family_kinded)

lemma int_result_family: "int_result v a op b sp = Inl e \<Longrightarrow> family e = U ''Range''"
  by (auto simp: int_result_def overflow_family split: option.splits)

lemma int_result_Inr: "int_result v a op b sp = Inr w \<longleftrightarrow> (\<exists>n. v = Some n \<and> w = VInt n)"
  by (auto simp: int_result_def split: option.splits)

lemma eval_arithmetic_family:
  "eval_arithmetic int_op float_op name l r sp = Inl e \<Longrightarrow>
   family e = (if is_number l \<and> is_number r then U ''Range'' else U ''Type'')"
  by (cases l; cases r) (auto simp: eval_arithmetic_def is_number_def dest: int_result_family)

lemma eval_add_family:
  "eval_add l r sp = Inl e \<Longrightarrow>
   family e = (if is_number l \<and> is_number r then U ''Range'' else U ''Type'')"
  by (cases l; cases r)
     (auto simp: eval_add_def is_number_def is_text_def dest: int_result_family split: if_splits)

lemma eval_pow_family:
  "eval_pow powf l r sp = Inl e \<Longrightarrow>
   family e = (if is_number l \<and> is_number r then U ''Range'' else U ''Type'')"
  by (cases l; cases r)
     (auto simp: eval_pow_def is_number_def dest: int_result_family split: if_splits)

lemma eval_div_family: "eval_div l r sp = Inl e \<Longrightarrow> family e = arith_family OpDiv l r"
  by (cases l; cases r)
     (auto simp: eval_div_def arith_family_def is_number_def is_zero_number_def divides_def is_text_def
       zero_families split: if_splits)

lemma eval_mod_family:
  assumes "eval_mod l r sp = Inl e"
  shows "family e = arith_family OpMod l r"
proof (cases "is_zero_number r \<and> is_number l")
  case True
  moreover have "is_number r" using True by (cases r) (auto simp: is_zero_number_def is_number_def)
  ultimately show ?thesis using assms
    by (auto simp: eval_mod_def arith_family_def divides_def zero_families)
next
  case False
  with assms have "eval_arithmetic (\<lambda>a b. Some (a smod b)) frem (U ''%'') l r sp = Inl e"
    by (auto simp: eval_mod_def)
  from eval_arithmetic_family [OF this] False show ?thesis
    by (auto simp: arith_family_def)
qed

lemma apply_binary_family:
  "is_arithmetic op \<Longrightarrow> apply_binary powf mode op sp l r = Inl e \<Longrightarrow> family e = arith_family op l r"
  by (cases op)
     (auto simp: apply_binary_def is_arithmetic_def arith_family_def divides_def
       dest: eval_add_family eval_arithmetic_family eval_pow_family eval_div_family eval_mod_family)

definition scalar_ok :: "zvalue \<Rightarrow> bool" where
  "scalar_ok v = (case v of VInt n \<Rightarrow> in_int_range n | _ \<Rightarrow> True)"

lemma result_ok:
  "int_result (num_checked v) a op b sp = Inr w \<Longrightarrow> value_ok w"
  by (auto simp: int_result_Inr)

lemma compare_values_bool: "compare_values f g op l r = Inr w \<Longrightarrow> \<exists>b. w = VBool b"
  by (cases l; cases r) (auto simp: compare_values_def split: option.splits)

lemma eval_add_ok: "eval_add l r sp = Inr w \<Longrightarrow> value_ok w"
  by (cases l; cases r) (auto simp: eval_add_def int_result_Inr add.op_exact split: if_splits)

lemma eval_arithmetic_ok:
  "(\<And>a b n. int_op a b = Some n \<Longrightarrow> l = VInt a \<Longrightarrow> r = VInt b \<Longrightarrow> in_int_range n) \<Longrightarrow>
   eval_arithmetic int_op float_op name l r sp = Inr w \<Longrightarrow> value_ok w"
  by (cases l; cases r) (auto simp: eval_arithmetic_def int_result_Inr)

lemma eval_div_ok: "value_ok l \<Longrightarrow> eval_div l r sp = Inr w \<Longrightarrow> value_ok w"
  by (cases l; cases r) (auto simp: eval_div_def sdiv_in_range split: if_splits)

lemma eval_mod_ok: "value_ok l \<Longrightarrow> eval_mod l r sp = Inr w \<Longrightarrow> value_ok w"
  by (rule eval_arithmetic_ok [of "\<lambda>a b. Some (a smod b)" l r frem "U ''%''" sp])
     (auto simp: eval_mod_def smod_in_range split: if_splits)

lemma eval_pow_ok: "eval_pow powf l r sp = Inr w \<Longrightarrow> value_ok w"
  by (cases l; cases r) (auto simp: eval_pow_def int_result_Inr num_pow_checked split: if_splits)

lemma apply_binary_ok:
  assumes "value_ok l" "apply_binary powf mode op sp l r = Inr w"
  shows "value_ok w"
  using assms
  by (cases op)
     (auto simp: apply_binary_def eval_concat_def rbind_Inr_iff sub.op_exact mul.op_exact
       dest: eval_add_ok eval_div_ok eval_mod_ok eval_pow_ok compare_values_bool
       elim!: eval_arithmetic_ok [rotated])

lemma apply_unary_ok: "value_ok v \<Longrightarrow> apply_unary op sp v = Inr w \<Longrightarrow> value_ok w"
  by (cases op; cases v) (auto simp: apply_unary_def in_int_range_iff)

text \<open>
  C25. Integer arithmetic is exact or an error, on every operator: on two integers of the language
  plus, minus, times, divide, remainder and power answer the mathematical result when it is an
  integer of the language, and otherwise the overflow error that echoes the operands, never a
  wrapped or rounded number.  Left out are the zero divisor, a negative exponent, whose result is
  a float, and minus one raised beyond the largest 32-bit exponent.
\<close>

theorem int_arithmetic_exact:
  assumes "in_int_range a" "in_int_range b" "is_arithmetic op"
    and "op = OpPow \<Longrightarrow> 0 \<le> b \<and> (a = - 1 \<longrightarrow> b \<le> u32_max)"
    and "\<not> (divides op \<and> b = 0)"
  shows "apply_binary powf mode op sp (VInt a) (VInt b) =
     (if in_int_range (exact_int_op op a b) then Inr (VInt (exact_int_op op a b))
      else Inl (int_failure op a b sp))"
  using assms by (rule int_arithmetic)

theorem int_arithmetic_exact_witness:
  "apply_binary fadd 48 OpMul no_span (VInt 9007199254740991) (VInt 2) =
     Inl (int_failure OpMul 9007199254740991 2 no_span) \<and>
   apply_binary fadd 48 OpPow no_span (VInt 2) (VInt 10) = Inr (VInt 1024)"
  using int_arithmetic_exact [of 9007199254740991 2 OpMul fadd 48 no_span]
    int_arithmetic_exact [of 2 10 OpPow fadd 48 no_span]
  by (simp add: in_int_range_iff is_arithmetic_def divides_def)

text \<open>
  The exponent is clamped to 32 bits, which changes its parity: minus one to the even power
  2 to the 32 comes out as minus one.
\<close>

theorem pow_clamp_parity:
  "eval_pow powf (VInt (- 1)) (VInt 4294967296) sp = Inr (VInt (- 1)) \<and>
   in_int_range 4294967296 \<and> (- 1 :: int) ^ nat 4294967296 = 1"
proof -
  have odd: "(- 1 :: int) ^ nat 4294967295 = - 1" and even: "(- 1 :: int) ^ nat 4294967296 = 1"
    by (subst minus_one_power, simp)+
  have "num_pow (- 1) (nat 4294967295) = Some (- 1)"
    unfolding num_pow_checked odd by (simp add: in_int_range_iff)
  then have "eval_pow powf (VInt (- 1)) (VInt 4294967296) sp = Inr (VInt (- 1))"
    by (simp add: eval_pow_def u32_max_def int_result_def del: nat_numeral)
  with even show ?thesis by (simp only: in_int_range_iff) simp
qed

text \<open>
  C24. What an arithmetic operator can answer: a value of the language whatever the operands
  (every integer in range), or an error whose family says what was wrong: Type when an operand
  is not a number, Div when the divisor of a division or remainder is zero in either numeric
  type, and Range otherwise.
\<close>

theorem arithmetic_outcome:
  assumes "is_arithmetic op" "value_ok l"
  shows "case apply_binary powf mode op sp l r of
           Inr w \<Rightarrow> value_ok w
         | Inl e \<Rightarrow> family e = arith_family op l r"
  using assms apply_binary_ok apply_binary_family by (cases "apply_binary powf mode op sp l r") auto

theorem arithmetic_outcome_witness:
  "family (div_by_zero no_span) = arith_family OpDiv (VInt 1) (VInt 0)"
  using arithmetic_outcome [of OpDiv "VInt 1" "VInt 0" fadd 48 no_span]
  by (simp add: is_arithmetic_def apply_binary_def eval_div_def in_int_range_iff)

text \<open>
  C26. Division truncates and remainder goes with it: for a non-zero divisor both answer integers
  of the language, the quotient times the divisor plus the remainder is the dividend, the
  remainder is smaller than the divisor and never has the sign opposite to the dividend.
\<close>

theorem division_law:
  assumes "in_int_range a" "b \<noteq> 0"
  shows "\<exists>q m. apply_binary powf mode OpDiv sp (VInt a) (VInt b) = Inr (VInt q) \<and>
           apply_binary powf mode OpMod sp (VInt a) (VInt b) = Inr (VInt m) \<and>
           in_int_range q \<and> in_int_range m \<and> a = q * b + m \<and> \<bar>m\<bar> < \<bar>b\<bar> \<and> 0 \<le> m * a"
proof -
  have "a = (a sdiv b) * b + a smod b" by (simp only: sdiv_mult_smod_eq)
  moreover have "\<bar>a smod b\<bar> < \<bar>b\<bar>" using assms(2) by (simp add: abs_smod)
  moreover have "a smod b = sgn a * (\<bar>a\<bar> mod \<bar>b\<bar>)" by (rule smod_sgn)
  then have "(a smod b) * a = (\<bar>a\<bar> mod \<bar>b\<bar>) * \<bar>a\<bar>" by (simp add: abs_sgn mult.assoc mult.commute mult.left_commute)
  then have "0 \<le> (a smod b) * a" using assms(2) by simp
  moreover have "in_int_range (a sdiv b)" "in_int_range (a smod b)"
    using assms(1) by (rule sdiv_in_range, rule smod_in_range)
  ultimately show ?thesis using assms(2)
    by (intro exI [of _ "a sdiv b"] exI [of _ "a smod b"])
       (simp add: apply_binary_def eval_div_def eval_mod_def eval_arithmetic_def int_result_def is_zero_number_def)
qed

theorem division_law_witness:
  "\<exists>q m. apply_binary fadd 48 OpDiv no_span (VInt (- 7)) (VInt 2) = Inr (VInt q) \<and>
         apply_binary fadd 48 OpMod no_span (VInt (- 7)) (VInt 2) = Inr (VInt m) \<and> - 7 = q * 2 + m"
  using division_law [of "- 7" 2 fadd 48 no_span] by (auto simp: in_int_range_iff)

text \<open>
  Juxtaposition cannot fail and joins exactly what display shows, whatever the values and
  the numeral mode.
\<close>

lemma concat_is_display:
  "apply_binary powf mode OpConcat sp l r = Inr (VString (display_in mode l @ display_in mode r))"
proof -
  have "value_to_concat_str mode v = display_in mode v" for v
    by (cases v) (simp_all add: value_to_concat_str_def)
  then show ?thesis by (simp add: apply_binary_def eval_concat_def)
qed

section \<open>Order and equality agree\<close>

definition number_f64 :: "zvalue \<Rightarrow> f64" where
  "number_f64 v = (case v of VInt n \<Rightarrow> f_of_int n | VFloat f \<Rightarrow> f | _ \<Rightarrow> FNan)"

lemma f_of_int_not_nan: "in_int_range n \<Longrightarrow> f_of_int n \<noteq> FNan"
  unfolding in_int_range_iff by (drule f_of_int_finite) auto

lemma in_range_flt: "in_int_range a \<Longrightarrow> in_int_range b \<Longrightarrow> flt (f_of_int a) (f_of_int b) \<longleftrightarrow> a < b"
  unfolding in_int_range_iff by (rule flt_of_int)

lemma in_range_feq: "in_int_range a \<Longrightarrow> in_int_range b \<Longrightarrow> feq (f_of_int a) (f_of_int b) \<longleftrightarrow> a = b"
  unfolding in_int_range_iff by (rule feq_of_int)

lemma in_range_fle: "in_int_range a \<Longrightarrow> in_int_range b \<Longrightarrow> fle (f_of_int a) (f_of_int b) \<longleftrightarrow> a \<le> b"
  by (auto simp: fle_def in_range_flt in_range_feq)

lemma numeric_relations:
  assumes "is_number l" "is_number r" "value_ok l" "value_ok r"
  shows "compare_values (<) flt op l r = Inr (VBool (flt (number_f64 l) (number_f64 r)))"
    and "compare_values (>) (\<lambda>x y. flt y x) op l r = Inr (VBool (flt (number_f64 r) (number_f64 l)))"
    and "compare_values (\<le>) fle op l r = Inr (VBool (fle (number_f64 l) (number_f64 r)))"
    and "compare_values (\<ge>) (\<lambda>x y. fle y x) op l r = Inr (VBool (fle (number_f64 r) (number_f64 l)))"
    and "values_equal l r = feq (number_f64 l) (number_f64 r)"
proof -
  from assms(1,3) consider a where "l = VInt a" "in_int_range a" | f where "l = VFloat f"
    by (cases l) (auto simp: is_number_def)
  note l = this
  from assms(2,4) consider b where "r = VInt b" "in_int_range b" | g where "r = VFloat g"
    by (cases r) (auto simp: is_number_def)
  note r = this
  note rules = compare_values_def number_f64_def in_range_flt in_range_feq in_range_fle
  show "compare_values (<) flt op l r = Inr (VBool (flt (number_f64 l) (number_f64 r)))"
    by (rule l; rule r) (simp_all add: rules)
  show "compare_values (>) (\<lambda>x y. flt y x) op l r = Inr (VBool (flt (number_f64 r) (number_f64 l)))"
    by (rule l; rule r) (simp_all add: rules)
  show "compare_values (\<le>) fle op l r = Inr (VBool (fle (number_f64 l) (number_f64 r)))"
    by (rule l; rule r) (simp_all add: rules)
  show "compare_values (\<ge>) (\<lambda>x y. fle y x) op l r = Inr (VBool (fle (number_f64 r) (number_f64 l)))"
    by (rule l; rule r) (simp_all add: rules)
  show "values_equal l r = feq (number_f64 l) (number_f64 r)"
    by (rule l; rule r) (simp_all add: rules)
qed

text \<open>
  C27. Order and equality agree on numbers: comparing any two numbers that are not NaN, Int with
  Float included, exactly one of less, equal and greater holds, and the other three relations
  are the ones these determine.
\<close>

theorem numeric_order:
  assumes "is_number l" "is_number r" "value_ok l" "value_ok r"
    and "l \<noteq> VFloat FNan" "r \<noteq> VFloat FNan"
  shows "\<exists>lt eq. \<not> (lt \<and> eq) \<and>
     apply_binary powf mode OpLt sp l r = Inr (VBool lt) \<and>
     apply_binary powf mode OpEq sp l r = Inr (VBool eq) \<and>
     apply_binary powf mode OpGt sp l r = Inr (VBool (\<not> lt \<and> \<not> eq)) \<and>
     apply_binary powf mode OpLe sp l r = Inr (VBool (lt \<or> eq)) \<and>
     apply_binary powf mode OpGe sp l r = Inr (VBool (\<not> lt)) \<and>
     apply_binary powf mode OpNeq sp l r = Inr (VBool (\<not> eq))"
proof -
  let ?x = "number_f64 l" and ?y = "number_f64 r"
  have "?x \<noteq> FNan" "?y \<noteq> FNan"
    using assms by (auto simp: number_f64_def is_number_def f_of_int_not_nan split: zvalue.splits)
  then have tri: "flt ?x ?y \<or> feq ?x ?y \<or> flt ?y ?x" by (rule f_trichotomy)
  have ex: "flt ?x ?y \<Longrightarrow> \<not> feq ?x ?y \<and> \<not> flt ?y ?x" "flt ?y ?x \<Longrightarrow> \<not> feq ?x ?y \<and> \<not> flt ?x ?y"
    using flt_not_feq feq_sym by blast+
  show ?thesis
    by (rule exI [of _ "flt ?x ?y"], rule exI [of _ "feq ?x ?y"])
       (use tri ex feq_sym [of ?x ?y] in
         \<open>simp add: apply_binary_def numeric_relations [OF assms(1-4)], auto simp: fle_def\<close>)
qed

theorem numeric_order_witness:
  "\<exists>lt eq. \<not> (lt \<and> eq) \<and>
     apply_binary fadd 48 OpLt no_span (VInt 7) (VFloat (f_of_int 7)) = Inr (VBool lt) \<and>
     apply_binary fadd 48 OpEq no_span (VInt 7) (VFloat (f_of_int 7)) = Inr (VBool eq)"
  using numeric_order [of "VInt 7" "VFloat (f_of_int 7)" fadd 48 no_span]
  by (auto simp: is_number_def in_int_range_iff f_of_int_small)

end
