(* ===== verification/ZyState.thy ===== *)
theory ZyState imports ZyArith "HOL-Library.AList" begin

text \<open>
  The state of the tree-walking engine and its variable store
  (crates/zymbol-interpreter/src/lib.rs).  What a call saves and restores (the source's
  SavedCallState) is the record frame; the interpreter's state extends it with what every frame
  shares, so saving a frame is truncating the record and restoring it is extending it again.
  A scope is a map from names to values; the stack of scopes is a list with the outermost scope
  first, as in the source, where a position in it is recorded for loops and destroyed names.

  Left out are the pools of recycled containers and the counters of steps, which no program can
  observe, and the cache of free names, which is recomputed.
\<close>

section \<open>The state\<close>

type_synonym scope = "ustring \<Rightarrow> zvalue option"

datatype control_flow =
    CfNone
  | CfBreak "ustring option"
  | CfContinue "ustring option"
  | CfReturn "zvalue option"

record loaded_module =
  mod_name :: ustring
  mod_functions :: "ustring \<Rightarrow> (nat \<times> function_def) option"
  mod_all_functions :: "ustring \<Rightarrow> (nat \<times> function_def) option"
  mod_constants :: "(ustring \<times> zvalue) list"
  mod_all_variables :: scope
  mod_import_aliases :: "(ustring \<times> ustring) list"
  mod_const_names :: "ustring set"
  mod_dead_variables :: "ustring set"

record frame =
  scope_stack :: "scope list"
  mutable_vars_stack :: "ustring set list"
  const_vars_stack :: "ustring set list"
  import_aliases :: "(ustring \<times> ustring) list"
  module_scope :: bool
  has_any_const :: bool
  loop_scope_depths :: "nat list"
  dead_variables :: "ustring \<Rightarrow> nat option"
  auto_dead_variables :: "ustring set"
  current_module_path :: "ustring option"
  try_depth :: "8 word"

record interp = frame +
  written :: ustring
  input_lines :: "ustring list"
  fn_table :: "ustring \<Rightarrow> (nat \<times> function_def) option"
  next_definition :: nat
  next_lambda :: nat
  control_flow :: control_flow
  has_control_flow :: bool
  loaded_modules :: "ustring \<Rightarrow> loaded_module option"
  module_dead :: "ustring set"
  current_file :: "ustring option"
  cur_stmt_line :: nat
  exit_code :: "int option"
  cli_args :: "zvalue list option"
  destruction_schedule :: "(nat \<times> ustring list) list"
  tui_depth :: nat
  current_function :: "ustring option"
  tco_pending :: bool
  tco_args :: "zvalue list"
  move_guard_names :: "ustring set"
  numeral_mode :: nat
  global_consts :: "(ustring \<times> zvalue) list"
  call_depth :: nat
  active_calls :: nat
  file_vars :: scope
  auto_free_excluded :: "ustring set"

definition fresh_frame :: frame where
  "fresh_frame =
     \<lparr>scope_stack = [Map.empty], mutable_vars_stack = [{}], const_vars_stack = [{}],
      import_aliases = [], module_scope = False, has_any_const = False, loop_scope_depths = [],
      dead_variables = Map.empty, auto_dead_variables = {}, current_module_path = None, try_depth = 0\<rparr>"

definition new_interp :: interp where
  "new_interp = frame.extend fresh_frame
     \<lparr>written = [], input_lines = [], fn_table = Map.empty, next_definition = 0, next_lambda = 1,
      control_flow = CfNone, has_control_flow = False, loaded_modules = Map.empty, module_dead = {},
      current_file = None, cur_stmt_line = 0, exit_code = None, cli_args = None,
      destruction_schedule = [], tui_depth = 0, current_function = None, tco_pending = False,
      tco_args = [], move_guard_names = {}, numeral_mode = ASCII_BASE, global_consts = [],
      call_depth = 0, active_calls = 0, file_vars = Map.empty, auto_free_excluded = {}\<rparr>"

section \<open>Scopes\<close>

definition push_scope :: "interp \<Rightarrow> interp" where
  "push_scope s = s\<lparr>scope_stack := scope_stack s @ [Map.empty],
     mutable_vars_stack := mutable_vars_stack s @ [{}],
     const_vars_stack := const_vars_stack s @ [{}]\<rparr>"

definition pop_scope :: "interp \<Rightarrow> interp" where
  "pop_scope s =
     (if 1 < length (scope_stack s)
      then let scopes = butlast (scope_stack s)
           in s\<lparr>scope_stack := scopes,
                dead_variables := (\<lambda>x. case dead_variables s x of
                    Some i \<Rightarrow> if i < length scopes then Some i else None | None \<Rightarrow> None),
                mutable_vars_stack := butlast (mutable_vars_stack s),
                const_vars_stack := butlast (const_vars_stack s)\<rparr>
      else s)"

definition push_loop_scope :: "interp \<Rightarrow> interp" where
  "push_loop_scope s =
     (let s' = push_scope s
      in s'\<lparr>loop_scope_depths := loop_scope_depths s' @ [length (scope_stack s') - 1]\<rparr>)"

definition pop_loop_scope :: "interp \<Rightarrow> interp" where
  "pop_loop_scope s = pop_scope (s\<lparr>loop_scope_depths := butlast (loop_scope_depths s)\<rparr>)"

definition frame_base :: "interp \<Rightarrow> nat" where
  "frame_base s = (if module_scope s then 1 else 0)"

definition insert_at :: "nat \<Rightarrow> ustring \<Rightarrow> zvalue \<Rightarrow> interp \<Rightarrow> interp" where
  "insert_at i x v s = s\<lparr>scope_stack := (scope_stack s)[i := (scope_stack s ! i)(x \<mapsto> v)]\<rparr>"

definition set_at_nearest_loop :: "ustring \<Rightarrow> zvalue \<Rightarrow> interp \<Rightarrow> interp" where
  "set_at_nearest_loop x v s =
     (if loop_scope_depths s \<noteq> [] then insert_at (last (loop_scope_depths s)) x v s
      else insert_at (frame_base s) x v s)"

definition set_above_nearest_loop :: "ustring \<Rightarrow> zvalue \<Rightarrow> interp \<Rightarrow> interp" where
  "set_above_nearest_loop x v s =
     (let len = length (loop_scope_depths s)
      in if 2 \<le> len then insert_at (loop_scope_depths s ! (len - 2)) x v s
         else insert_at (frame_base s) x v s)"

text \<open>The innermost scope that holds a name: its position in the stack.\<close>

fun innermost :: "ustring \<Rightarrow> scope list \<Rightarrow> nat option" where
  "innermost x [] = None"
| "innermost x (sc # scs) =
     (case innermost x scs of
        Some i \<Rightarrow> Some (Suc i)
      | None \<Rightarrow> if sc x = None then None else Some 0)"

definition lookup :: "ustring \<Rightarrow> scope list \<Rightarrow> zvalue option" where
  "lookup x scopes = (case innermost x scopes of Some i \<Rightarrow> (scopes ! i) x | None \<Rightarrow> None)"

definition get_variable :: "interp \<Rightarrow> ustring \<Rightarrow> zvalue option" where
  "get_variable s x =
     (case lookup x (scope_stack s) of
        Some v \<Rightarrow> Some v
      | None \<Rightarrow> if current_module_path s = None then map_of (global_consts s) x else None)"

definition variable_hides_alias :: "interp \<Rightarrow> ustring \<Rightarrow> bool" where
  "variable_hides_alias s x = list_ex (\<lambda>sc. sc x \<noteq> None) (scope_stack s)"

definition is_callable :: "zvalue \<Rightarrow> bool" where
  "is_callable v = (case v of VFunction _ \<Rightarrow> True | _ \<Rightarrow> False)"

definition mirror_file_var :: "ustring \<Rightarrow> zvalue \<Rightarrow> interp \<Rightarrow> interp" where
  "mirror_file_var x v s =
     (if is_callable v then s\<lparr>file_vars := (file_vars s)(x \<mapsto> v)\<rparr>
      else s\<lparr>file_vars := (file_vars s)(x := None)\<rparr>)"

definition set_variable_new :: "ustring \<Rightarrow> zvalue \<Rightarrow> interp \<Rightarrow> interp" where
  "set_variable_new x v s0 =
     (let s1 = s0\<lparr>dead_variables := (dead_variables s0)(x := None),
                  auto_dead_variables := auto_dead_variables s0 - {x}\<rparr>;
          s2 = (if call_depth s1 = 0 \<and> length (scope_stack s1) = 1 then mirror_file_var x v s1 else s1)
      in if scope_stack s2 = [] then s2 else insert_at (length (scope_stack s2) - 1) x v s2)"

definition take_variable :: "ustring \<Rightarrow> interp \<Rightarrow> zvalue option \<times> interp" where
  "take_variable x s =
     (let base = frame_base s
      in case innermost x (drop base (scope_stack s)) of
           Some i \<Rightarrow> ((scope_stack s ! (base + i)) x,
                      s\<lparr>scope_stack := (scope_stack s)[base + i := (scope_stack s ! (base + i))(x := None)]\<rparr>)
         | None \<Rightarrow> (None, s))"

definition set_variable :: "ustring \<Rightarrow> zvalue \<Rightarrow> interp \<Rightarrow> interp" where
  "set_variable x v s0 =
     (let revive_at = dead_variables s0 x;
          s = s0\<lparr>dead_variables := (dead_variables s0)(x := None),
                 auto_dead_variables := auto_dead_variables s0 - {x}\<rparr>;
          at_depth_zero = (call_depth s = 0);
          mirrored = (\<lambda>i. if at_depth_zero \<and> i = 0 then mirror_file_var x v s else s)
      in case innermost x (scope_stack s) of
           Some i \<Rightarrow> insert_at i x v (mirrored i)
         | None \<Rightarrow>
             (case revive_at of
                Some i \<Rightarrow>
                  if i < length (scope_stack s) then insert_at i x v (mirrored i)
                  else if x \<in> module_dead s
                  then insert_at 0 x v (s\<lparr>module_dead := module_dead s - {x}\<rparr>)
                  else insert_at (length (scope_stack s) - 1) x v
                         (mirrored (length (scope_stack s) - 1))
              | None \<Rightarrow>
                  if x \<in> module_dead s
                  then insert_at 0 x v (s\<lparr>module_dead := module_dead s - {x}\<rparr>)
                  else insert_at (length (scope_stack s) - 1) x v
                         (mirrored (length (scope_stack s) - 1))))"

definition in_frame_scopes :: "interp \<Rightarrow> ustring \<Rightarrow> bool" where
  "in_frame_scopes s x = list_ex (\<lambda>sc. sc x \<noteq> None) (drop 1 (scope_stack s))"

text \<open>The innermost scope whose constants hold a name.\<close>

fun innermost_const :: "ustring \<Rightarrow> ustring set list \<Rightarrow> nat option" where
  "innermost_const x [] = None"
| "innermost_const x (cs # css) =
     (case innermost_const x css of Some i \<Rightarrow> Some (Suc i) | None \<Rightarrow> if x \<in> cs then Some 0 else None)"

definition is_const :: "interp \<Rightarrow> ustring \<Rightarrow> bool" where
  "is_const s x =
     (if \<not> has_any_const s \<and> global_consts s = [] then False
      else if current_module_path s = None \<and> map_of (global_consts s) x \<noteq> None then True
      else case innermost_const x (const_vars_stack s) of
             Some i \<Rightarrow> \<not> (i = 0 \<and> module_scope s) \<or> \<not> in_frame_scopes s x
           | None \<Rightarrow> False)"

definition set_control_flow :: "control_flow \<Rightarrow> interp \<Rightarrow> interp" where
  "set_control_flow cf s = s\<lparr>has_control_flow := (cf \<noteq> CfNone), control_flow := cf\<rparr>"

definition clear_control_flow :: "interp \<Rightarrow> interp" where
  "clear_control_flow s = s\<lparr>has_control_flow := False, control_flow := CfNone\<rparr>"

definition mark_const :: "ustring \<Rightarrow> interp \<Rightarrow> interp" where
  "mark_const x s =
     (let cs = const_vars_stack s
      in s\<lparr>has_any_const := True,
           const_vars_stack := (if cs = [] then cs else cs[length cs - 1 := insert x (last cs)])\<rparr>)"

definition unmark_const :: "ustring \<Rightarrow> interp \<Rightarrow> interp" where
  "unmark_const x s =
     (if \<not> has_any_const s then s
      else let base = frame_base s; cs = const_vars_stack s
           in s\<lparr>const_vars_stack := take base cs @ map (\<lambda>c. c - {x}) (drop base cs)\<rparr>)"

definition is_root_scope :: "interp \<Rightarrow> bool" where
  "is_root_scope s = (call_depth s = 0 \<and> length (scope_stack s) = 1)"

definition record_global_const :: "ustring \<Rightarrow> zvalue \<Rightarrow> interp \<Rightarrow> interp" where
  "record_global_const x v s = s\<lparr>global_consts := AList.update x v (global_consts s)\<rparr>"

definition mark_mutable :: "ustring \<Rightarrow> interp \<Rightarrow> interp" where
  "mark_mutable x s =
     (let ms = mutable_vars_stack s
      in s\<lparr>mutable_vars_stack := (if ms = [] then ms else ms[length ms - 1 := insert x (last ms)])\<rparr>)"

definition is_dead_module_state :: "interp \<Rightarrow> ustring \<Rightarrow> bool" where
  "is_dead_module_state s x = (x \<in> module_dead s \<and> \<not> in_frame_scopes s x)"

definition is_module_state :: "interp \<Rightarrow> ustring \<Rightarrow> bool" where
  "is_module_state s x =
     (module_scope s \<and> (case scope_stack s of sc # _ \<Rightarrow> sc x \<noteq> None | [] \<Rightarrow> False) \<and> \<not> in_frame_scopes s x)"

section \<open>Destruction\<close>

definition use_after_destruction :: "ustring \<Rightarrow> span \<Rightarrow> runtime_error" where
  "use_after_destruction x sp =
     kinded ''_'' (U ''use after destruction: variable '' @ quoted x @ U '' was destroyed after its last use'') sp"

definition internal_use_after :: "ustring \<Rightarrow> span \<Rightarrow> runtime_error" where
  "internal_use_after x sp =
     EGeneric (U ''internal: use of '' @ quoted x @ U '' after auto-destruction '' @ EM_DASH #
       U '' this is a bug in the last-use analyzer, please report it (workaround: add a later '' @
       96 # U ''>> '' @ x @ 96 # U '' mention or a '' @ 96 # 92 # 32 # x @ 96 #
       U '' at the intended end of life)'') sp"

definition destroy_variable :: "ustring \<Rightarrow> span \<Rightarrow> interp \<Rightarrow> (runtime_error + unit) \<times> interp" where
  "destroy_variable x sp s0 =
     (let s = s0\<lparr>global_consts := AList.delete x (global_consts s0)\<rparr>;
          base = frame_base s
      in case innermost x (drop base (scope_stack s)) of
           Some i \<Rightarrow>
             (Inr (), s\<lparr>scope_stack := (scope_stack s)[base + i := (scope_stack s ! (base + i))(x := None)],
                        dead_variables := (dead_variables s)(x \<mapsto> base + i)\<rparr>)
         | None \<Rightarrow>
             if base = 1 \<and> (scope_stack s ! 0) x \<noteq> None
             then (Inr (), s\<lparr>scope_stack := (scope_stack s)[0 := (scope_stack s ! 0)(x := None)],
                             module_dead := insert x (module_dead s)\<rparr>)
             else if base = 1 \<and> x \<in> module_dead s then (Inl (use_after_destruction x sp), s)
             else if dead_variables s x \<noteq> None then (Inl (use_after_destruction x sp), s)
             else (Inr (), s))"

definition auto_destroy_variable :: "ustring \<Rightarrow> interp \<Rightarrow> interp" where
  "auto_destroy_variable x s =
     (if is_const s x then s
      else let base = frame_base s
           in case innermost x (drop base (scope_stack s)) of
                Some i \<Rightarrow>
                  s\<lparr>scope_stack := (scope_stack s)[base + i := (scope_stack s ! (base + i))(x := None)],
                    auto_dead_variables := insert x (auto_dead_variables s)\<rparr>
              | None \<Rightarrow> s)"

definition check_variable_alive :: "interp \<Rightarrow> ustring \<Rightarrow> span \<Rightarrow> runtime_error + unit" where
  "check_variable_alive s x sp =
     (if dead_variables s x \<noteq> None \<or> is_dead_module_state s x then Inl (use_after_destruction x sp)
      else if x \<in> auto_dead_variables s then Inl (internal_use_after x sp)
      else Inr ())"

section \<open>Calls\<close>

definition check_in_module_scope :: "interp \<Rightarrow> interp" where
  "check_in_module_scope s =
     (if \<not> module_scope s then s
      else case (current_module_path s, scope_stack s) of
             (Some path, slot # rest) \<Rightarrow>
               (case loaded_modules s path of
                  Some m \<Rightarrow>
                    s\<lparr>loaded_modules := (loaded_modules s)(path \<mapsto>
                        m\<lparr>mod_all_variables := slot, mod_dead_variables := module_dead s\<rparr>),
                      scope_stack := Map.empty # rest, module_dead := {}\<rparr>
                | None \<Rightarrow> s)
           | _ \<Rightarrow> s)"

definition check_out_module_scope :: "interp \<Rightarrow> interp" where
  "check_out_module_scope s =
     (if \<not> module_scope s then s
      else case (current_module_path s, scope_stack s) of
             (Some path, slot # rest) \<Rightarrow>
               (case loaded_modules s path of
                  Some m \<Rightarrow>
                    s\<lparr>loaded_modules := (loaded_modules s)(path \<mapsto>
                        m\<lparr>mod_all_variables := Map.empty, mod_dead_variables := {}\<rparr>),
                      scope_stack := mod_all_variables m # rest, module_dead := mod_dead_variables m\<rparr>
                | None \<Rightarrow> s)
           | _ \<Rightarrow> s)"

definition with_frame :: "frame \<Rightarrow> interp \<Rightarrow> interp" where
  "with_frame f s = frame.extend f (frame.more s)"

definition take_call_state :: "interp \<Rightarrow> frame \<times> interp" where
  "take_call_state s0 =
     (let s = check_in_module_scope s0
      in (frame.truncate s, with_frame fresh_frame (s\<lparr>call_depth := call_depth s + 1\<rparr>)))"

definition restore_call_state :: "frame \<Rightarrow> interp \<Rightarrow> interp" where
  "restore_call_state saved s =
     check_out_module_scope (with_frame saved (s\<lparr>call_depth := call_depth s - 1\<rparr>))"

section \<open>Lookup\<close>

lemma innermost_None: "innermost x scs = None \<longleftrightarrow> (\<forall>sc \<in> set scs. sc x = None)"
  by (induction scs) (auto split: option.splits)

lemma innermost_append:
  "innermost x (scs @ [sc]) = (if sc x = None then innermost x scs else Some (length scs))"
  by (induction scs) (auto split: option.splits)

lemma innermost_SomeD: "innermost x scs = Some i \<Longrightarrow> i < length scs \<and> (scs ! i) x \<noteq> None"
  by (induction scs arbitrary: i) (auto split: option.splits if_splits)

lemma innermost_update_other:
  "x \<noteq> y \<Longrightarrow> innermost y (scs[i := (scs ! i)(x := w)]) = innermost y scs"
proof (induction scs arbitrary: i)
  case (Cons sc scs)
  then show ?case by (cases i) (auto split: option.splits)
qed simp

lemma innermost_update_here:
  "i < length scs \<Longrightarrow> innermost x scs = None \<or> innermost x scs = Some i \<Longrightarrow>
   innermost x (scs[i := (scs ! i)(x \<mapsto> v)]) = Some i"
proof (induction scs arbitrary: i)
  case (Cons sc scs)
  then show ?case by (cases i) (auto split: option.splits if_splits)
qed simp

lemma lookup_update_here:
  "i < length scs \<Longrightarrow> innermost x scs = None \<or> innermost x scs = Some i \<Longrightarrow>
   lookup x (scs[i := (scs ! i)(x \<mapsto> v)]) = Some v"
  by (simp add: lookup_def innermost_update_here)

lemma lookup_update_other: "x \<noteq> y \<Longrightarrow> lookup y (scs[i := (scs ! i)(x := w)]) = lookup y scs"
proof (cases "innermost y scs")
  case (Some j)
  assume "x \<noteq> y"
  then show ?thesis using Some innermost_SomeD [OF Some]
    by (cases "i = j") (auto simp: lookup_def innermost_update_other)
qed (simp add: lookup_def innermost_update_other)

lemma lookup_last: "scs \<noteq> [] \<Longrightarrow> lookup x (scs[length scs - 1 := (scs ! (length scs - 1))(x \<mapsto> v)]) = Some v"
proof -
  assume "scs \<noteq> []"
  then obtain ys sc where scs: "scs = ys @ [sc]" by (metis rev_exhaust)
  then show ?thesis by (simp add: lookup_def innermost_append list_update_append)
qed

lemma lookup_None: "lookup x scs = None \<longleftrightarrow> innermost x scs = None"
  using innermost_SomeD [of x scs] by (auto simp: lookup_def split: option.splits)

section \<open>The shape of the store\<close>

text \<open>
  What a statement must leave as it found it: how many scopes there are, where the loops are,
  whose frame it is, how deep the calls go.
\<close>

type_synonym shape = "nat \<times> nat list \<times> bool \<times> ustring option \<times> nat \<times> nat \<times> 8 word"

definition shape :: "interp \<Rightarrow> shape" where
  "shape s = (length (scope_stack s), loop_scope_depths s, module_scope s, current_module_path s,
     call_depth s, active_calls s, try_depth s)"

definition stacks_ok :: "interp \<Rightarrow> bool" where
  "stacks_ok s \<longleftrightarrow> 0 < length (scope_stack s) \<and>
     length (mutable_vars_stack s) = length (scope_stack s) \<and>
     length (const_vars_stack s) = length (scope_stack s) \<and>
     (module_scope s \<longrightarrow> 1 < length (scope_stack s)) \<and>
     (\<forall>d \<in> set (loop_scope_depths s). d < length (scope_stack s))"

named_theorems store_simps

lemma insert_at_fields [store_simps]:
  "length (scope_stack (insert_at i x v s)) = length (scope_stack s)"
  "shape (insert_at i x v s) = shape s"
  "stacks_ok (insert_at i x v s) = stacks_ok s"
  by (auto simp: insert_at_def shape_def stacks_ok_def simp del: length_greater_0_conv)

lemma mirror_fields [store_simps]:
  "scope_stack (mirror_file_var x v s) = scope_stack s"
  "shape (mirror_file_var x v s) = shape s"
  "stacks_ok (mirror_file_var x v s) = stacks_ok s"
  "current_module_path (mirror_file_var x v s) = current_module_path s"
  "global_consts (mirror_file_var x v s) = global_consts s"
  by (auto simp: mirror_file_var_def shape_def stacks_ok_def)

lemma shape_ignores [store_simps]:
  "shape (s\<lparr>dead_variables := d, auto_dead_variables := a\<rparr>) = shape s"
  "shape (s\<lparr>module_dead := m\<rparr>) = shape s"
  "stacks_ok (s\<lparr>dead_variables := d, auto_dead_variables := a\<rparr>) = stacks_ok s"
  "stacks_ok (s\<lparr>module_dead := m\<rparr>) = stacks_ok s"
  by (simp_all add: shape_def stacks_ok_def)

lemma set_variable_shape [store_simps]:
  "shape (set_variable x v s) = shape s" "stacks_ok (set_variable x v s) = stacks_ok s"
  by (auto simp: set_variable_def Let_def store_simps split: option.splits)

lemma set_variable_new_shape [store_simps]:
  "shape (set_variable_new x v s) = shape s" "stacks_ok (set_variable_new x v s) = stacks_ok s"
  by (auto simp: set_variable_new_def Let_def store_simps)

lemma set_at_loop_shape [store_simps]:
  "shape (set_at_nearest_loop x v s) = shape s" "stacks_ok (set_at_nearest_loop x v s) = stacks_ok s"
  "shape (set_above_nearest_loop x v s) = shape s" "stacks_ok (set_above_nearest_loop x v s) = stacks_ok s"
  by (auto simp: set_at_nearest_loop_def set_above_nearest_loop_def Let_def store_simps)

lemma take_variable_shape [store_simps]:
  "shape (snd (take_variable x s)) = shape s" "stacks_ok (snd (take_variable x s)) = stacks_ok s"
  by (auto simp: take_variable_def Let_def shape_def stacks_ok_def split: option.splits
      simp del: length_greater_0_conv)

lemma destroy_variable_shape [store_simps]:
  "shape (snd (destroy_variable x sp s)) = shape s" "stacks_ok (snd (destroy_variable x sp s)) = stacks_ok s"
  by (auto simp: destroy_variable_def Let_def shape_def stacks_ok_def split: option.splits
      simp del: length_greater_0_conv)

lemma auto_destroy_shape [store_simps]:
  "shape (auto_destroy_variable x s) = shape s" "stacks_ok (auto_destroy_variable x s) = stacks_ok s"
  by (auto simp: auto_destroy_variable_def Let_def shape_def stacks_ok_def split: option.splits
      simp del: length_greater_0_conv)

lemma flow_shape [store_simps]:
  "shape (set_control_flow cf s) = shape s" "stacks_ok (set_control_flow cf s) = stacks_ok s"
  "shape (clear_control_flow s) = shape s" "stacks_ok (clear_control_flow s) = stacks_ok s"
  by (simp_all add: set_control_flow_def clear_control_flow_def shape_def stacks_ok_def)

lemma mark_shape [store_simps]:
  "shape (mark_const x s) = shape s" "stacks_ok (mark_const x s) = stacks_ok s"
  "shape (mark_mutable x s) = shape s" "stacks_ok (mark_mutable x s) = stacks_ok s"
  "shape (unmark_const x s) = shape s"
  "shape (record_global_const x v s) = shape s" "stacks_ok (record_global_const x v s) = stacks_ok s"
  by (auto simp: mark_const_def mark_mutable_def unmark_const_def record_global_const_def Let_def
      shape_def stacks_ok_def)

lemma unmark_stacks_ok [store_simps]: "stacks_ok s \<Longrightarrow> stacks_ok (unmark_const x s)"
  by (auto simp: unmark_const_def Let_def stacks_ok_def frame_base_def)

lemma push_pop_scope:
  "stacks_ok s \<Longrightarrow> stacks_ok (push_scope s)"
  "stacks_ok s \<Longrightarrow> shape (pop_scope (push_scope s)) = shape s"
  by (auto simp: push_scope_def pop_scope_def stacks_ok_def shape_def Let_def)

section \<open>The store contract\<close>

text \<open>What binding a name promises, whoever keeps the names.\<close>

definition put_all :: "('k \<Rightarrow> 'v \<Rightarrow> 's \<Rightarrow> 's) \<Rightarrow> ('k \<times> 'v) list \<Rightarrow> 's \<Rightarrow> 's" where
  "put_all put bs s = fold (\<lambda>(x, v). put x v) bs s"

lemma put_all_simps [simp]:
  "put_all put [] s = s" "put_all put ((x, v) # bs) s = put_all put bs (put x v s)"
  by (simp_all add: put_all_def)

locale store =
  fixes get :: "'s \<Rightarrow> 'k \<Rightarrow> 'v option"
    and put :: "'k \<Rightarrow> 'v \<Rightarrow> 's \<Rightarrow> 's"
    and ok :: "'s \<Rightarrow> bool"
  assumes get_put: "ok s \<Longrightarrow> get (put x v s) x = Some v"
    and get_put_other: "ok s \<Longrightarrow> x \<noteq> y \<Longrightarrow> get (put x v s) y = get s y"
    and ok_put: "ok s \<Longrightarrow> ok (put x v s)"
begin

lemma get_put_if: "ok s \<Longrightarrow> get (put x v s) y = (if y = x then Some v else get s y)"
  by (simp add: get_put get_put_other)

lemma last_put_wins: "ok s \<Longrightarrow> get (put x v (put x w s)) y = get (put x v s) y"
  by (simp add: get_put_if ok_put)

lemma puts_commute: "ok s \<Longrightarrow> x \<noteq> y \<Longrightarrow> get (put x v (put y w s)) z = get (put y w (put x v s)) z"
  by (simp add: get_put_if ok_put)

lemma ok_put_all: "ok s \<Longrightarrow> ok (put_all put bs s)"
  by (induction bs arbitrary: s) (auto simp: ok_put)

lemma get_put_all:
  "ok s \<Longrightarrow> get (put_all put bs s) x = (case map_of (rev bs) x of Some v \<Rightarrow> Some v | None \<Rightarrow> get s x)"
  by (induction bs arbitrary: s)
     (auto simp: ok_put get_put_if map_add_def split: option.splits)

end

lemma get_insert_at:
  "i < length (scope_stack s) \<Longrightarrow> innermost x (scope_stack s) = None \<or> innermost x (scope_stack s) = Some i \<Longrightarrow>
   get_variable (insert_at i x v s) x = Some v"
  by (simp add: get_variable_def insert_at_def lookup_update_here)

lemma get_insert_at_other: "x \<noteq> y \<Longrightarrow> get_variable (insert_at i x v s) y = get_variable s y"
  by (auto simp: get_variable_def insert_at_def lookup_update_other split: option.split)

lemma get_mirror [simp]: "get_variable (mirror_file_var x v s) y = get_variable s y"
  by (auto simp: get_variable_def store_simps split: option.split)

lemma get_ignores [simp]:
  "get_variable (s\<lparr>dead_variables := d, auto_dead_variables := a\<rparr>) y = get_variable s y"
  "get_variable (s\<lparr>module_dead := m\<rparr>) y = get_variable s y"
  by (auto simp: get_variable_def split: option.split)

lemma set_variable_get:
  assumes "stacks_ok s"
  shows "get_variable (set_variable x v s) x = Some v"
proof -
  have len: "0 < length (scope_stack s)" using assms by (simp add: stacks_ok_def)
  show ?thesis
    using len innermost_SomeD [of x "scope_stack s"]
    by (auto simp: set_variable_def Let_def store_simps get_insert_at split: option.splits)
qed

lemma set_variable_get_other: "x \<noteq> y \<Longrightarrow> get_variable (set_variable x v s) y = get_variable s y"
  by (auto simp: set_variable_def Let_def get_insert_at_other split: option.splits)

lemma insert_at_last_get:
  "Suc i = length (scope_stack s) \<Longrightarrow> get_variable (insert_at i x v s) x = Some v"
proof -
  assume i: "Suc i = length (scope_stack s)"
  then have "scope_stack s \<noteq> []" "i = length (scope_stack s) - 1" by auto
  then show ?thesis using lookup_last [of "scope_stack s" x v]
    by (simp add: get_variable_def insert_at_def)
qed

interpretation vars: store get_variable set_variable stacks_ok
  by unfold_locales (simp_all add: set_variable_get set_variable_get_other store_simps)

lemma set_variable_new_get:
  assumes "stacks_ok s"
  shows "get_variable (set_variable_new x v s) x = Some v"
proof -
  obtain i where i: "Suc i = length (scope_stack s)"
    using assms by (metis Suc_pred' stacks_ok_def)
  then have "scope_stack s \<noteq> []" "length (scope_stack s) - Suc 0 = i" by auto
  with i show ?thesis by (simp add: set_variable_new_def Let_def store_simps insert_at_last_get)
qed

lemma set_variable_new_get_other: "x \<noteq> y \<Longrightarrow> get_variable (set_variable_new x v s) y = get_variable s y"
  by (auto simp: set_variable_new_def Let_def get_insert_at_other)

interpretation params: store get_variable set_variable_new stacks_ok
  by unfold_locales (simp_all add: set_variable_new_get set_variable_new_get_other store_simps)

lemma map_of_overwrite:
  "map_of (map (\<lambda>e. if fst e = k then (k, v) else e) d) j =
   (if j = k \<and> k \<in> fst ` set d then Some v else map_of d j)"
  by (induction d) force+

lemma keys_overwrite: "map fst (map (\<lambda>e. if fst e = k then (k, v) else e) d) = map fst d"
  by (induction d) auto

lemma map_of_dict_insert: "map_of (dict_insert k v d) j = (if j = k then Some v else map_of d j)"
proof (cases "k \<in> fst ` set d")
  case False
  then have "map_of d k = None" by (simp add: map_of_eq_None_iff)
  with False show ?thesis by (auto simp: dict_insert_def map_add_def split: option.splits)
qed (simp add: dict_insert_def map_of_overwrite)

lemma dict_ok_insert: "dict_ok d \<Longrightarrow> dict_ok (dict_insert k v d)"
  by (auto simp: dict_insert_def dict_ok_def keys_overwrite simp del: map_map)

interpretation dict: store "\<lambda>d k. map_of d k" dict_insert dict_ok
  by unfold_locales (simp_all add: map_of_dict_insert dict_ok_insert)

lemma dict_collect_put_all: "dict_collect flds = put_all dict_insert flds []"
  by (simp add: dict_collect_def put_all_def case_prod_beta')

lemma dict_collect_ok: "dict_ok (dict_collect flds)"
  unfolding dict_collect_put_all by (rule dict.ok_put_all) (simp add: dict_ok_def)

text \<open>
  C22. Reading after writing: an assignment makes its name hold the value and leaves what every
  other name reads as it was, whatever scope the assignment lands in (the one that holds the
  name, the one it was destroyed in, the module's, or the innermost).
\<close>

theorem read_after_assignment:
  assumes "stacks_ok s"
  shows "get_variable (set_variable x v s) y = (if y = x then Some v else get_variable s y)"
  using assms by (rule vars.get_put_if)

theorem read_after_assignment_witness:
  "get_variable (set_variable (U ''x'') (VInt 1) new_interp) (U ''x'') = Some (VInt 1)"
  using read_after_assignment [of new_interp "U ''x''" "VInt 1" "U ''x''"]
  by (simp add: stacks_ok_def new_interp_def fresh_frame_def frame.defs)

text \<open>
  The parameters of a call are read as they were bound: binding a list of names and values
  into a frame makes each name hold its last value and touches no other name.
\<close>

lemma read_after_binding:
  assumes "stacks_ok s"
  shows "get_variable (put_all set_variable_new bs s) x =
         (case map_of (rev bs) x of Some v \<Rightarrow> Some v | None \<Rightarrow> get_variable s x)"
  using assms by (rule params.get_put_all)


section \<open>Destruction and calls\<close>

lemma innermost_only:
  "i < length scs \<Longrightarrow> (scs ! i) x \<noteq> None \<Longrightarrow> (\<And>j. j < length scs \<Longrightarrow> j \<noteq> i \<Longrightarrow> (scs ! j) x = None) \<Longrightarrow>
   innermost x scs = Some i"
proof (induction scs arbitrary: i)
  case (Cons sc scs)
  show ?case
  proof (cases i)
    case 0
    have "(scs ! j) x = None" if "j < length scs" for j
      using Cons.prems(3) [of "Suc j"] that 0 by simp
    then have "innermost x scs = None" by (auto simp: innermost_None in_set_conv_nth)
    with Cons.prems 0 show ?thesis by simp
  next
    case (Suc k)
    have "innermost x scs = Some k"
      using Cons.prems Suc by (intro Cons.IH) (auto dest: Cons.prems(3) [of "Suc _", simplified])
    with Suc show ?thesis by simp
  qed
qed simp

section \<open>Destruction and calls\<close>

text \<open>The frame's own scopes hold a name in one place only.\<close>

definition sole_holder :: "ustring \<Rightarrow> nat \<Rightarrow> interp \<Rightarrow> bool" where
  "sole_holder x i s \<longleftrightarrow> frame_base s \<le> i \<and> i < length (scope_stack s) \<and> (scope_stack s ! i) x \<noteq> None \<and>
     list_all (\<lambda>j. j \<noteq> i \<longrightarrow> (scope_stack s ! j) x = None) [0..<length (scope_stack s)]"

lemma sole_holderD:
  assumes "sole_holder x i s"
  shows "frame_base s \<le> i" "i < length (scope_stack s)" "(scope_stack s ! i) x \<noteq> None"
    "\<And>j. j < length (scope_stack s) \<Longrightarrow> j \<noteq> i \<Longrightarrow> (scope_stack s ! j) x = None"
  using assms by (auto simp: sole_holder_def list_all_iff)

lemma sole_holder_innermost:
  assumes "sole_holder x i s"
  shows "innermost x (scope_stack s) = Some i"
    "innermost x (drop (frame_base s) (scope_stack s)) = Some (i - frame_base s)"
  using sole_holderD [OF assms] by (auto intro!: innermost_only)

lemma destroy_sole_holder:
  assumes "sole_holder x i s"
  shows "destroy_variable x sp s =
    (Inr (), s\<lparr>global_consts := AList.delete x (global_consts s),
               scope_stack := (scope_stack s)[i := (scope_stack s ! i)(x := None)],
               dead_variables := (dead_variables s)(x \<mapsto> i)\<rparr>)"
  using sole_holderD(1) [OF assms] sole_holder_innermost(2) [OF assms]
  by (simp add: destroy_variable_def Let_def frame_base_def split: if_splits)

lemma destroyed_gone:
  assumes "sole_holder x i s"
  shows "innermost x ((scope_stack s)[i := (scope_stack s ! i)(x := None)]) = None"
  using sole_holderD [OF assms] by (auto simp: innermost_None in_set_conv_nth nth_list_update)

text \<open>
  C9. A destroyed name: the destruction succeeds, afterwards every reading and a second
  destruction are the error of a use after destruction, and an assignment brings the name back
  at the position it was destroyed at, alive again.
\<close>

theorem destruction_lifecycle:
  assumes "sole_holder x i s" and "x \<notin> module_dead s"
  shows "let (r, d) = destroy_variable x sp s
         in r = Inr () \<and>
            get_variable d x = None \<and>
            check_variable_alive d x sp = Inl (use_after_destruction x sp) \<and>
            fst (destroy_variable x sp d) = Inl (use_after_destruction x sp) \<and>
            innermost x (scope_stack (set_variable x v d)) = Some i \<and>
            get_variable (set_variable x v d) x = Some v \<and>
            check_variable_alive (set_variable x v d) x sp = Inr ()"
proof -
  define d where "d = s\<lparr>global_consts := AList.delete x (global_consts s),
     scope_stack := (scope_stack s)[i := (scope_stack s ! i)(x := None)],
     dead_variables := (dead_variables s)(x \<mapsto> i)\<rparr>"
  have i: "i < length (scope_stack d)" and base: "frame_base d = frame_base s"
    and gone: "innermost x (scope_stack d) = None"
    and gc: "map_of (global_consts d) x = None" and dead: "dead_variables d x = Some i"
    and md: "x \<notin> module_dead d"
    using sole_holderD [OF assms(1)] destroyed_gone [OF assms(1)] assms(2)
    by (simp_all add: d_def frame_base_def delete_conv)
  have gone': "innermost x (drop k (scope_stack d)) = None" for k
    using gone by (auto simp: innermost_None dest: in_set_dropD)
  have slot: "(scope_stack d ! 0) x = None"
    using gone [unfolded innermost_None] i by (cases "scope_stack d") auto
  have again: "fst (destroy_variable x sp d) = Inl (use_after_destruction x sp)"
    using md dead slot gone' by (simp add: destroy_variable_def Let_def frame_base_def)
  have put: "set_variable x v d =
      insert_at i x v (if call_depth d = 0 \<and> i = 0 then mirror_file_var x v
          (d\<lparr>dead_variables := (dead_variables d)(x := None), auto_dead_variables := auto_dead_variables d - {x}\<rparr>)
        else d\<lparr>dead_variables := (dead_variables d)(x := None), auto_dead_variables := auto_dead_variables d - {x}\<rparr>)"
    using gone dead i by (simp add: set_variable_def Let_def)
  have home: "innermost x (scope_stack (set_variable x v d)) = Some i"
    using innermost_update_here [OF i disjI1 [OF gone], of v] unfolding put
    by (auto simp: insert_at_def store_simps)
  have read: "get_variable (set_variable x v d) x = Some v"
    unfolding put using i gone by (auto simp: get_insert_at store_simps)
  have alive: "check_variable_alive (set_variable x v d) x sp = Inr ()"
    unfolding put using md
    by (simp add: check_variable_alive_def is_dead_module_state_def insert_at_def mirror_file_var_def)
  show ?thesis
    unfolding destroy_sole_holder [OF assms(1)] d_def [symmetric]
    using gone gc dead again home read alive
    by (simp add: get_variable_def lookup_def check_variable_alive_def)
qed

theorem destruction_lifecycle_witness:
  "fst (destroy_variable (U ''x'') no_span
     (snd (destroy_variable (U ''x'') no_span (set_variable (U ''x'') (VInt 1) new_interp))))
     = Inl (use_after_destruction (U ''x'') no_span)"
proof -
  let ?s = "set_variable (U ''x'') (VInt 1) new_interp"
  have "sole_holder (U ''x'') 0 ?s" "U ''x'' \<notin> module_dead ?s"
    by (simp_all add: sole_holder_def set_variable_def insert_at_def mirror_file_var_def is_callable_def
        frame_base_def new_interp_def fresh_frame_def frame.defs Let_def)
  from destruction_lifecycle [OF this, of no_span "VInt 2"] show ?thesis
    by (simp add: case_prod_beta Let_def)
qed

lemma with_frame_fields [simp]:
  "frame.truncate (with_frame f s) = f" "frame.more (with_frame f s) = frame.more s"
  by (cases f; cases s; simp add: with_frame_def frame.defs)+

lemma with_frame_select [simp]:
  "scope_stack (with_frame f s) = scope_stack f" "module_scope (with_frame f s) = module_scope f"
  "current_module_path (with_frame f s) = current_module_path f"
  "loaded_modules (with_frame f s) = loaded_modules s" "call_depth (with_frame f s) = call_depth s"
  "global_consts (with_frame f s) = global_consts s" "module_dead (with_frame f s) = module_dead s"
  "dead_variables (with_frame f s) = dead_variables f"
  by (cases s; simp add: with_frame_def frame.defs)+

text \<open>A frame whose module's record is checked out: the table holds nothing of its variables.\<close>

definition module_on_loan :: "interp \<Rightarrow> bool" where
  "module_on_loan s =
     (case current_module_path s of
        Some path \<Rightarrow> (case loaded_modules s path of
            Some m \<Rightarrow> mod_all_variables m = Map.empty \<and> mod_dead_variables m = {} \<and> scope_stack s \<noteq> []
          | None \<Rightarrow> False)
      | None \<Rightarrow> False)"

text \<open>
  C21. Lending a module's variables to a frame and taking them back: handing them in before a
  nested call and taking them out again leaves the state exactly as it was.
\<close>

theorem module_loan_roundtrip:
  assumes "module_scope s \<longrightarrow> module_on_loan s"
  shows "check_out_module_scope (check_in_module_scope s) = s"
proof (cases "module_scope s")
  case True
  then obtain path m slot rest where
    s: "current_module_path s = Some path" "loaded_modules s path = Some m"
       "scope_stack s = slot # rest" "mod_all_variables m = Map.empty" "mod_dead_variables m = {}"
    using assms by (auto simp: module_on_loan_def neq_Nil_conv split: option.splits)
  then have "(loaded_modules s)(path \<mapsto> m\<lparr>mod_all_variables := Map.empty, mod_dead_variables := {}\<rparr>)
      = loaded_modules s"
    by (cases m) (auto simp: fun_eq_iff)
  then show ?thesis using True s
    by (cases s) (simp add: check_in_module_scope_def check_out_module_scope_def)
qed (simp add: check_in_module_scope_def check_out_module_scope_def)

definition demo_module :: loaded_module where
  "demo_module = \<lparr>mod_name = U ''m'', mod_functions = Map.empty, mod_all_functions = Map.empty,
     mod_constants = [], mod_all_variables = Map.empty, mod_import_aliases = [], mod_const_names = {},
     mod_dead_variables = {}\<rparr>"

theorem module_loan_roundtrip_witness:
  "let s = new_interp\<lparr>module_scope := True, current_module_path := Some (U ''m.zy''),
       scope_stack := [[U ''n'' \<mapsto> VInt 1], Map.empty],
       loaded_modules := [U ''m.zy'' \<mapsto> demo_module]\<rparr>
   in check_out_module_scope (check_in_module_scope s) = s"
  unfolding Let_def
  by (rule module_loan_roundtrip) (simp add: module_on_loan_def demo_module_def)

text \<open>What is a frame's own: everything it saves, but for the slot that belongs to its module.\<close>

definition own_frame :: "interp \<Rightarrow> interp \<Rightarrow> frame" where
  "own_frame s r = frame.truncate (r\<lparr>scope_stack := drop (frame_base s) (scope_stack r)\<rparr>)"

lemma check_in_fields:
  "call_depth (check_in_module_scope s) = call_depth s"
  "global_consts (check_in_module_scope s) = global_consts s"
  "own_frame s (check_in_module_scope s) = own_frame s s"
  "module_scope (frame.truncate (check_in_module_scope s)) = module_scope s"
  by (auto simp: check_in_module_scope_def own_frame_def frame_base_def frame.defs
      split: option.splits list.splits)

lemma check_out_fields:
  "call_depth (check_out_module_scope s) = call_depth s"
  "module_scope s = module_scope u \<Longrightarrow> own_frame u (check_out_module_scope s) = own_frame u s"
  by (auto simp: check_out_module_scope_def own_frame_def frame_base_def frame.defs
      split: option.splits list.splits)

lemma own_frame_truncate: "frame.truncate r = frame.truncate r' \<Longrightarrow> own_frame s r = own_frame s r'"
  by (cases r; cases r') (simp add: own_frame_def frame.defs)



end
