(* ===== verification/ZyEngine.thy ===== *)
theory ZyEngine imports ZyState begin

text \<open>
  Computations of the tree-walking engine.  The source's Result over a mutable interpreter is a
  function from the state to an outcome, an error or a value, and the state it leaves; it is None
  when the fuel that bounds the recursion ran out, which no program can do by itself.

  An engine is the pair of procedures every handler calls back, eval_expr and execute_statement,
  with the fuel left for loops that need not end.  Handlers are written against an engine; theory
  ZyEval ties the knot.  Two relations are proved of every handler by the rules of this theory:
  keeps, that it leaves the shape of the store as it found it, and le_comp, that more fuel never
  changes an answer.
\<close>

section \<open>Computations\<close>

type_synonym 'a outcome = "runtime_error + 'a"
type_synonym 'a comp = "interp \<Rightarrow> ('a outcome \<times> interp) option"

definition ret :: "'a \<Rightarrow> 'a comp" where "ret x s = Some (Inr x, s)"

definition raise :: "runtime_error \<Rightarrow> 'a comp" where "raise e s = Some (Inl e, s)"

definition no_fuel :: "'a comp" where "no_fuel s = None"

definition bindc :: "'a comp \<Rightarrow> ('a \<Rightarrow> 'b comp) \<Rightarrow> 'b comp" where
  "bindc m f s = (case m s of
      None \<Rightarrow> None
    | Some (Inl e, s') \<Rightarrow> Some (Inl e, s')
    | Some (Inr x, s') \<Rightarrow> f x s')"

definition gets :: "(interp \<Rightarrow> 'a) \<Rightarrow> 'a comp" where "gets f s = Some (Inr (f s), s)"

definition modify :: "(interp \<Rightarrow> interp) \<Rightarrow> unit comp" where "modify f s = Some (Inr (), f s)"

text \<open>A result that needs no state, a computation that reads the state first, and a state
  transformer that may fail.\<close>

definition lift :: "'a outcome \<Rightarrow> 'a comp" where "lift r s = Some (r, s)"

definition reading :: "(interp \<Rightarrow> 'a comp) \<Rightarrow> 'a comp" where "reading f s = f s s"

definition stateful :: "(interp \<Rightarrow> 'a outcome \<times> interp) \<Rightarrow> 'a comp" where "stateful f s = Some (f s)"

text \<open>What runs whether or not the computation failed, and a computation whose error is looked at.\<close>

definition finally_do :: "'a comp \<Rightarrow> (interp \<Rightarrow> interp) \<Rightarrow> 'a comp" where
  "finally_do m f s = (case m s of None \<Rightarrow> None | Some (r, s') \<Rightarrow> Some (r, f s'))"

definition attempt :: "'a comp \<Rightarrow> ('a outcome) comp" where
  "attempt m s = (case m s of None \<Rightarrow> None | Some (r, s') \<Rightarrow> Some (Inr r, s'))"

primrec mapc :: "('a \<Rightarrow> 'b comp) \<Rightarrow> 'a list \<Rightarrow> ('b list) comp" where
  "mapc f [] = ret []"
| "mapc f (x # xs) = bindc (f x) (\<lambda>y. bindc (mapc f xs) (\<lambda>ys. ret (y # ys)))"

primrec optc :: "('a \<Rightarrow> 'b comp) \<Rightarrow> 'a option \<Rightarrow> ('b option) comp" where
  "optc f None = ret None"
| "optc f (Some x) = bindc (f x) (\<lambda>y. ret (Some y))"

record engine =
  eval :: "expr \<Rightarrow> zvalue comp"
  exec :: "statement \<Rightarrow> unit comp"
  turns :: nat

lemma bindc_ret [simp]: "bindc (ret x) f = f x"
  by (simp add: bindc_def ret_def fun_eq_iff)

lemma bindc_raise [simp]: "bindc (raise e) f = raise e"
  by (simp add: bindc_def raise_def fun_eq_iff)

lemma lift_simps [simp]: "lift (Inr x) = ret x" "lift (Inl e) = raise e"
  by (simp_all add: lift_def ret_def raise_def fun_eq_iff)

lemma bindc_assoc: "bindc (bindc m f) g = bindc m (\<lambda>x. bindc (f x) g)"
  by (auto simp: bindc_def fun_eq_iff split: option.split sum.split)

lemma bindc_Inr_iff:
  "bindc m f s = Some (Inr y, t) \<longleftrightarrow> (\<exists>x u. m s = Some (Inr x, u) \<and> f x u = Some (Inr y, t))"
  by (auto simp: bindc_def split: option.splits sum.splits)

lemma bindc_Some_iff:
  "bindc m f s = Some (r, t) \<longleftrightarrow>
     (\<exists>e. m s = Some (Inl e, t) \<and> r = Inl e) \<or> (\<exists>x u. m s = Some (Inr x, u) \<and> f x u = Some (r, t))"
  by (auto simp: bindc_def split: option.splits sum.splits)

named_theorems run_simps

lemma run_prims [run_simps]:
  "ret x s = Some (Inr x, s)" "raise e s = Some (Inl e, s)" "gets f s = Some (Inr (f s), s)"
  "modify h s = Some (Inr (), h s)" "lift r s = Some (r, s)" "reading k s = k s s"
  "stateful w s = Some (w s)"
  by (simp_all add: ret_def raise_def gets_def modify_def lift_def reading_def stateful_def)

lemma run_bind [run_simps]:
  "m s = Some (Inr x, t) \<Longrightarrow> bindc m k s = k x t"
  "m s = Some (Inl e, t) \<Longrightarrow> bindc m k s = Some (Inl e, t)"
  by (simp_all add: bindc_def)

lemma bind_modify [run_simps]: "bindc (modify h) k s = k () (h s)"
  and bind_gets [run_simps]: "bindc (gets f) k s = k (f s) s"
  by (simp_all add: bindc_def modify_def gets_def)

section \<open>The shape is kept\<close>

text \<open>
  What a computation does to the shape of the store: it never pops a scope it did not push, and
  leaves the loops, the frame, the module and the depths of calls and of try blocks as they were.
  Scopes may be left behind: the source pops none of them when an error travels, and only a catch
  puts the stack back.
\<close>

definition grown :: "interp \<Rightarrow> interp \<Rightarrow> bool" where
  "grown s t \<longleftrightarrow> stacks_ok t \<and> length (scope_stack s) \<le> length (scope_stack t) \<and> snd (shape t) = snd (shape s)"

definition keeps :: "'a comp \<Rightarrow> bool" where
  "keeps m \<longleftrightarrow> (\<forall>s r t. stacks_ok s \<longrightarrow> m s = Some (r, t) \<longrightarrow> grown s t)"

named_theorems keeps_rules

lemma keepsD: "keeps m \<Longrightarrow> stacks_ok s \<Longrightarrow> m s = Some (r, t) \<Longrightarrow> grown s t"
  unfolding keeps_def by blast

lemma keepsI: "(\<And>s r t. stacks_ok s \<Longrightarrow> m s = Some (r, t) \<Longrightarrow> grown s t) \<Longrightarrow> keeps m"
  unfolding keeps_def by blast

lemma grown_refl: "stacks_ok s \<Longrightarrow> grown s s"
  and grown_trans: "grown s t \<Longrightarrow> grown t u \<Longrightarrow> grown s u"
  and grown_ok: "grown s t \<Longrightarrow> stacks_ok t"
  by (auto simp: grown_def)

lemma same_shape_grown: "stacks_ok t \<Longrightarrow> shape t = shape s \<Longrightarrow> grown s t"
  by (simp add: grown_def shape_def)

lemma grown_cong: "shape s = shape s' \<Longrightarrow> grown s t \<longleftrightarrow> grown s' t"
  by (simp add: grown_def shape_def)

lemma keeps_ret [keeps_rules]: "keeps (ret x)"
  and keeps_raise [keeps_rules]: "keeps (raise e)"
  and keeps_gets [keeps_rules]: "keeps (gets f)"
  and keeps_lift [keeps_rules]: "keeps (lift r)"
  and keeps_no_fuel [keeps_rules]: "keeps no_fuel"
  by (auto simp: keeps_def ret_def raise_def gets_def lift_def no_fuel_def intro: grown_refl)

lemma keeps_bindc [keeps_rules]: "keeps m \<Longrightarrow> (\<And>x. keeps (f x)) \<Longrightarrow> keeps (bindc m f)"
  unfolding keeps_def bindc_Some_iff by (meson grown_ok grown_trans)

lemma keeps_modify [keeps_rules]:
  "(\<And>s. stacks_ok s \<Longrightarrow> stacks_ok (f s) \<and> shape (f s) = shape s) \<Longrightarrow> keeps (modify f)"
  by (auto simp: keeps_def modify_def intro: same_shape_grown)

lemma keeps_reading [keeps_rules]: "(\<And>s. keeps (f s)) \<Longrightarrow> keeps (reading f)"
  by (auto simp: keeps_def reading_def)

lemma keeps_stateful [keeps_rules]:
  "(\<And>s. stacks_ok s \<Longrightarrow> stacks_ok (snd (f s)) \<and> shape (snd (f s)) = shape s) \<Longrightarrow> keeps (stateful f)"
  by (auto simp: keeps_def stateful_def intro!: same_shape_grown) (metis snd_conv)+

lemma keeps_finally [keeps_rules]:
  "keeps m \<Longrightarrow> (\<And>s. stacks_ok s \<Longrightarrow> stacks_ok (f s) \<and> shape (f s) = shape s) \<Longrightarrow> keeps (finally_do m f)"
  unfolding keeps_def finally_do_def
  by (auto split: option.splits) (meson grown_ok grown_trans same_shape_grown)

lemma keeps_attempt [keeps_rules]: "keeps m \<Longrightarrow> keeps (attempt m)"
  unfolding keeps_def attempt_def by (auto split: option.splits)

text \<open>A change of the state undone whatever the computation answers.\<close>

lemma keeps_around:
  assumes "keeps m"
    and "\<And>s. stacks_ok s \<Longrightarrow> stacks_ok (f s)"
    and "\<And>s t. stacks_ok s \<Longrightarrow> grown (f s) t \<Longrightarrow> grown s (g t)"
  shows "keeps (bindc (modify f) (\<lambda>_. finally_do m g))"
  using assms unfolding keeps_def
  by (auto simp: bindc_def modify_def finally_do_def split: option.splits)

text \<open>The same, undone only when the computation finishes.\<close>

lemma keeps_around_ok:
  assumes "keeps m"
    and "\<And>s. stacks_ok s \<Longrightarrow> stacks_ok (f s)"
    and "\<And>s t. stacks_ok s \<Longrightarrow> grown (f s) t \<Longrightarrow> grown s (g t)"
    and "\<And>s t. stacks_ok s \<Longrightarrow> grown (f s) t \<Longrightarrow> grown s t"
  shows "keeps (bindc (modify f) (\<lambda>_. bindc m (\<lambda>_. modify g)))"
  using assms unfolding keeps_def
  by (auto simp: bindc_def modify_def split: option.splits sum.splits)

lemma keeps_mapc [keeps_rules]: "(\<And>x. x \<in> set xs \<Longrightarrow> keeps (f x)) \<Longrightarrow> keeps (mapc f xs)"
  by (induction xs) (auto intro!: keeps_rules)

lemma keeps_optc [keeps_rules]: "(\<And>x. keeps (f x)) \<Longrightarrow> keeps (optc f xo)"
  by (cases xo) (auto intro!: keeps_rules)

lemma keeps_if [keeps_rules]: "(b \<Longrightarrow> keeps m) \<Longrightarrow> (\<not> b \<Longrightarrow> keeps n) \<Longrightarrow> keeps (if b then m else n)"
  by simp

lemma keeps_let [keeps_rules]: "keeps (f y) \<Longrightarrow> keeps (Let y f)"
  by (simp add: Let_def)

lemma keeps_case_option [keeps_rules]:
  "keeps m \<Longrightarrow> (\<And>x. keeps (f x)) \<Longrightarrow> keeps (case xo of None \<Rightarrow> m | Some x \<Rightarrow> f x)"
  by (cases xo) auto

lemma keeps_case_sum [keeps_rules]:
  "(\<And>x. keeps (f x)) \<Longrightarrow> (\<And>x. keeps (g x)) \<Longrightarrow> keeps (case z of Inl x \<Rightarrow> f x | Inr x \<Rightarrow> g x)"
  by (cases z) auto

lemma keeps_case_prod [keeps_rules]: "(\<And>x y. keeps (f x y)) \<Longrightarrow> keeps (case z of (x, y) \<Rightarrow> f x y)"
  by (cases z) auto

lemma keeps_case_list [keeps_rules]:
  "keeps m \<Longrightarrow> (\<And>x ys. keeps (f x ys)) \<Longrightarrow> keeps (case xs of [] \<Rightarrow> m | x # ys \<Rightarrow> f x ys)"
  by (cases xs) auto

lemma keeps_case_zvalue [keeps_rules]:
  "(\<And>x0. keeps (f0 x0)) \<Longrightarrow> (\<And>x0. keeps (f1 x0)) \<Longrightarrow> (\<And>x0. keeps (f2 x0)) \<Longrightarrow> (\<And>x0. keeps (f3 x0)) \<Longrightarrow> (\<And>x0. keeps (f4 x0)) \<Longrightarrow> (\<And>x0. keeps (f5 x0)) \<Longrightarrow> (\<And>x0. keeps (f6 x0)) \<Longrightarrow> (\<And>x0. keeps (f7 x0)) \<Longrightarrow> (\<And>x0. keeps (f8 x0)) \<Longrightarrow> (\<And>x0. keeps (f9 x0)) \<Longrightarrow> keeps f10 \<Longrightarrow>
   keeps (case_zvalue f0 f1 f2 f3 f4 f5 f6 f7 f8 f9 f10 v)"
  by (cases v) auto

lemma keeps_case_control_flow [keeps_rules]:
  "keeps f0 \<Longrightarrow> (\<And>x0. keeps (f1 x0)) \<Longrightarrow> (\<And>x0. keeps (f2 x0)) \<Longrightarrow> (\<And>x0. keeps (f3 x0)) \<Longrightarrow>
   keeps (case_control_flow f0 f1 f2 f3 v)"
  by (cases v) auto

lemma keeps_case_destructure_pattern [keeps_rules]:
  "(\<And>x0. keeps (f0 x0)) \<Longrightarrow> (\<And>x0. keeps (f1 x0)) \<Longrightarrow> (\<And>x0. keeps (f2 x0)) \<Longrightarrow>
   keeps (case_destructure_pattern f0 f1 f2 v)"
  by (cases v) auto

lemma keeps_case_literal [keeps_rules]:
  "(\<And>x0. keeps (f0 x0)) \<Longrightarrow> (\<And>x0. keeps (f1 x0)) \<Longrightarrow> (\<And>x0. keeps (f2 x0)) \<Longrightarrow> (\<And>x0. keeps (f3 x0)) \<Longrightarrow> (\<And>x0. keeps (f4 x0)) \<Longrightarrow> (\<And>x0. keeps (f5 x0)) \<Longrightarrow> keeps f6 \<Longrightarrow>
   keeps (case_literal f0 f1 f2 f3 f4 f5 f6 v)"
  by (cases v) auto

section \<open>More fuel changes no answer\<close>

definition le_comp :: "'a comp \<Rightarrow> 'a comp \<Rightarrow> bool" where
  "le_comp m n \<longleftrightarrow> (\<forall>s r. m s = Some r \<longrightarrow> n s = Some r)"

definition le_engine :: "engine \<Rightarrow> engine \<Rightarrow> bool" where
  "le_engine E F \<longleftrightarrow> (\<forall>e. le_comp (eval E e) (eval F e)) \<and> (\<forall>c. le_comp (exec E c) (exec F c)) \<and> turns E \<le> turns F"

named_theorems le_rules

lemma le_compI: "(\<And>s r. m s = Some r \<Longrightarrow> n s = Some r) \<Longrightarrow> le_comp m n"
  and le_compD: "le_comp m n \<Longrightarrow> m s = Some r \<Longrightarrow> n s = Some r"
  unfolding le_comp_def by blast+

lemma le_refl [le_rules]: "le_comp m m"
  by (simp add: le_comp_def)

lemma le_no_fuel [le_rules]: "le_comp no_fuel m"
  by (simp add: le_comp_def no_fuel_def)

lemma le_trans: "le_comp m n \<Longrightarrow> le_comp n k \<Longrightarrow> le_comp m k"
  by (simp add: le_comp_def)

lemma le_eval [le_rules]: "le_engine E F \<Longrightarrow> le_comp (eval E e) (eval F e)"
  and le_exec [le_rules]: "le_engine E F \<Longrightarrow> le_comp (exec E c) (exec F c)"
  by (simp_all add: le_engine_def)

lemma le_bindc [le_rules]:
  assumes m: "le_comp m n" and f: "\<And>x. le_comp (f x) (g x)"
  shows "le_comp (bindc m f) (bindc n g)"
proof (rule le_compI)
  fix s and r :: "'b outcome \<times> interp" assume def: "bindc m f s = Some r"
  then obtain x u where r: "m s = Some (Inl x, u) \<and> r = (Inl x, u) \<or> (\<exists>y. m s = Some (Inr y, u) \<and> f y u = Some r)"
    by (cases r) (auto simp: bindc_Some_iff)
  then show "bindc n g s = Some r"
    by (auto simp: bindc_def le_compD [OF m] le_compD [OF f])
qed

lemma le_reading [le_rules]: "(\<And>s. le_comp (f s) (g s)) \<Longrightarrow> le_comp (reading f) (reading g)"
  by (auto simp: le_comp_def reading_def)

lemma le_finally [le_rules]: "le_comp m n \<Longrightarrow> le_comp (finally_do m f) (finally_do n f)"
  by (auto simp: le_comp_def finally_do_def split: option.splits)

lemma le_attempt [le_rules]: "le_comp m n \<Longrightarrow> le_comp (attempt m) (attempt n)"
  by (auto simp: le_comp_def attempt_def split: option.splits)

lemma le_mapc [le_rules]: "(\<And>x. le_comp (f x) (g x)) \<Longrightarrow> le_comp (mapc f xs) (mapc g xs)"
  by (induction xs) (auto intro!: le_rules)

lemma le_optc [le_rules]: "(\<And>x. le_comp (f x) (g x)) \<Longrightarrow> le_comp (optc f xo) (optc g xo)"
  by (cases xo) (auto intro!: le_rules)

lemma le_if [le_rules]:
  "(b \<Longrightarrow> le_comp m m') \<Longrightarrow> (\<not> b \<Longrightarrow> le_comp n n') \<Longrightarrow> le_comp (if b then m else n) (if b then m' else n')"
  by simp

lemma le_let [le_rules]: "le_comp (f y) (g z) \<Longrightarrow> le_comp (Let y f) (Let z g)"
  by (simp add: Let_def)

lemma le_case_option [le_rules]:
  "le_comp m m' \<Longrightarrow> (\<And>x. le_comp (f x) (g x)) \<Longrightarrow>
   le_comp (case xo of None \<Rightarrow> m | Some x \<Rightarrow> f x) (case xo of None \<Rightarrow> m' | Some x \<Rightarrow> g x)"
  by (cases xo) auto

lemma le_case_sum [le_rules]:
  "(\<And>x. le_comp (f x) (f' x)) \<Longrightarrow> (\<And>x. le_comp (g x) (g' x)) \<Longrightarrow>
   le_comp (case z of Inl x \<Rightarrow> f x | Inr x \<Rightarrow> g x) (case z of Inl x \<Rightarrow> f' x | Inr x \<Rightarrow> g' x)"
  by (cases z) auto

lemma le_case_prod [le_rules]:
  "(\<And>x y. le_comp (f x y) (g x y)) \<Longrightarrow> le_comp (case z of (x, y) \<Rightarrow> f x y) (case z of (x, y) \<Rightarrow> g x y)"
  by (cases z) auto

lemma le_case_list [le_rules]:
  "le_comp m m' \<Longrightarrow> (\<And>x ys. le_comp (f x ys) (g x ys)) \<Longrightarrow>
   le_comp (case xs of [] \<Rightarrow> m | x # ys \<Rightarrow> f x ys) (case xs of [] \<Rightarrow> m' | x # ys \<Rightarrow> g x ys)"
  by (cases xs) auto

lemma le_case_zvalue [le_rules]:
  "(\<And>x0. le_comp (f0 x0) (g0 x0)) \<Longrightarrow> (\<And>x0. le_comp (f1 x0) (g1 x0)) \<Longrightarrow> (\<And>x0. le_comp (f2 x0) (g2 x0)) \<Longrightarrow> (\<And>x0. le_comp (f3 x0) (g3 x0)) \<Longrightarrow> (\<And>x0. le_comp (f4 x0) (g4 x0)) \<Longrightarrow> (\<And>x0. le_comp (f5 x0) (g5 x0)) \<Longrightarrow> (\<And>x0. le_comp (f6 x0) (g6 x0)) \<Longrightarrow> (\<And>x0. le_comp (f7 x0) (g7 x0)) \<Longrightarrow> (\<And>x0. le_comp (f8 x0) (g8 x0)) \<Longrightarrow> (\<And>x0. le_comp (f9 x0) (g9 x0)) \<Longrightarrow> le_comp f10 g10 \<Longrightarrow>
   le_comp (case_zvalue f0 f1 f2 f3 f4 f5 f6 f7 f8 f9 f10 v) (case_zvalue g0 g1 g2 g3 g4 g5 g6 g7 g8 g9 g10 v)"
  by (cases v) auto

lemma le_case_control_flow [le_rules]:
  "le_comp f0 g0 \<Longrightarrow> (\<And>x0. le_comp (f1 x0) (g1 x0)) \<Longrightarrow> (\<And>x0. le_comp (f2 x0) (g2 x0)) \<Longrightarrow> (\<And>x0. le_comp (f3 x0) (g3 x0)) \<Longrightarrow>
   le_comp (case_control_flow f0 f1 f2 f3 v) (case_control_flow g0 g1 g2 g3 v)"
  by (cases v) auto

lemma le_case_destructure_pattern [le_rules]:
  "(\<And>x0. le_comp (f0 x0) (g0 x0)) \<Longrightarrow> (\<And>x0. le_comp (f1 x0) (g1 x0)) \<Longrightarrow> (\<And>x0. le_comp (f2 x0) (g2 x0)) \<Longrightarrow>
   le_comp (case_destructure_pattern f0 f1 f2 v) (case_destructure_pattern g0 g1 g2 v)"
  by (cases v) auto

lemma le_case_literal [le_rules]:
  "(\<And>x0. le_comp (f0 x0) (g0 x0)) \<Longrightarrow> (\<And>x0. le_comp (f1 x0) (g1 x0)) \<Longrightarrow> (\<And>x0. le_comp (f2 x0) (g2 x0)) \<Longrightarrow> (\<And>x0. le_comp (f3 x0) (g3 x0)) \<Longrightarrow> (\<And>x0. le_comp (f4 x0) (g4 x0)) \<Longrightarrow> (\<And>x0. le_comp (f5 x0) (g5 x0)) \<Longrightarrow> le_comp f6 g6 \<Longrightarrow>
   le_comp (case_literal f0 f1 f2 f3 f4 f5 f6 v) (case_literal g0 g1 g2 g3 g4 g5 g6 v)"
  by (cases v) auto

text \<open>What every handler is owed by the engine it calls back.\<close>

definition engine_ok :: "engine \<Rightarrow> bool" where
  "engine_ok E \<longleftrightarrow> (\<forall>e. keeps (eval E e)) \<and> (\<forall>c. keeps (exec E c))"

lemma engine_okD [keeps_rules]:
  "engine_ok E \<Longrightarrow> keeps (eval E e)" "engine_ok E \<Longrightarrow> keeps (exec E c)"
  by (simp_all add: engine_ok_def)

end
