(* ===== verification/ZyCollect.thy ===== *)
theory ZyCollect imports ZyState begin

text \<open>
  Collections by position and by key (crates/zymbol-interpreter/src/collection_ops.rs, the reading
  half of expr_eval.rs, string_ops.rs): the operations on values that are evaluated already.  A
  position is written from 1, or from the end with a negative number; a key is a text and
  addresses a dictionary.
\<close>

section \<open>Words\<close>

definition backticked :: "ustring \<Rightarrow> ustring" where "backticked s = 96 # s @ [96]"

definition double_quoted :: "ustring \<Rightarrow> ustring" where "double_quoted s = 34 # s @ [34]"

definition index_zero_msg :: ustring where
  "index_zero_msg = U ''index 0 is invalid '' @ EM_DASH #
     U '' Zymbol uses 1-based indexing (use 1 for the first element, -1 for the last)''"

definition len_msg :: "ustring \<Rightarrow> int \<Rightarrow> ustring \<Rightarrow> nat \<Rightarrow> ustring" where
  "len_msg what index container len =
     what @ U ''index out of bounds: index '' @ show_int index @ U '' for '' @ container @
     U '' of length '' @ show_nat len"

text \<open>The name read first, then the container: array index out of bounds ... for array of length.\<close>

definition bounds_msg :: "ustring \<Rightarrow> int \<Rightarrow> nat \<Rightarrow> ustring" where
  "bounds_msg container index len = len_msg (container @ U '' '') index container len"

definition missing_key_msg :: "ustring \<Rightarrow> ustring list \<Rightarrow> ustring" where
  "missing_key_msg key available =
     U ''no key '' @ quoted key @ U '' in dictionary '' @ EM_DASH #
     (if available = [] then U '' it is empty'' else U '' available: '' @ join_with (U '', '') available)"

definition missing_key :: "ustring \<Rightarrow> (ustring \<times> zvalue) list \<Rightarrow> span \<Rightarrow> runtime_error" where
  "missing_key key flds sp = kinded ''Key'' (missing_key_msg key (map fst flds)) sp"

definition first_key :: "(ustring \<times> zvalue) list \<Rightarrow> ustring" where
  "first_key flds = (case flds of [] \<Rightarrow> U ''clave'' | (k, _) # _ \<Rightarrow> k)"

definition dict_not_positional :: "ustring \<Rightarrow> (ustring \<times> zvalue) list \<Rightarrow> ustring" where
  "dict_not_positional op flds =
     (let d = U ''d['' @ double_quoted (first_key flds) @ U '']''
      in U ''a dictionary is addressed by key, not by position: '' @ backticked op @
         U '' has no meaning here'' @ 10 # U ''help: use the key '' @ EM_DASH # 32 # d @ U '', '' @ d @
         U ''$~ value, d$-['' @ double_quoted (first_key flds) @ U ''] '' @ EM_DASH #
         U '' because adding a key changes what sits at each position'')"

definition not_a_container :: "zvalue \<Rightarrow> span \<Rightarrow> runtime_error" where
  "not_a_container v sp = kinded ''Type'' (U ''cannot index into '' @ type_label v @ 32 # EM_DASH #
     U '' expected array, tuple, or string'') sp"

section \<open>Positions\<close>

text \<open>A position counted from 1, or back from the end, as an offset; None outside.\<close>

definition position_at :: "int \<Rightarrow> nat \<Rightarrow> nat option" where
  "position_at index len =
     (let i = (if index < 0 then int len + index else index - 1)
      in if i < 0 \<or> int len \<le> i then None else Some (nat i))"

definition resolve_index :: "int \<Rightarrow> nat \<Rightarrow> span \<Rightarrow> runtime_error + nat option" where
  "resolve_index index len sp =
     (if index = 0 then Inl (EGeneric index_zero_msg sp) else Inr (position_at index len))"

definition element_position :: "int \<Rightarrow> nat \<Rightarrow> nat option" where
  "element_position index len = (if index = 0 then None else position_at index len)"

text \<open>The forms that say where they ran out: the navigation path's, and the local one of $~.\<close>

definition resolve_idx :: "int \<Rightarrow> nat \<Rightarrow> span \<Rightarrow> ustring \<Rightarrow> runtime_error + nat" where
  "resolve_idx index len sp container =
     (if index = 0 then Inl (kinded ''Index'' index_zero_msg sp)
      else case position_at index len of
             None \<Rightarrow> Inl (kinded ''Index'' (if container = U ''named tuple''
                 then len_msg (U ''named tuple '') index (U ''tuple'') len
                 else bounds_msg container index len) sp)
           | Some i \<Rightarrow> Inr i)"

definition resolve_int :: "int \<Rightarrow> nat \<Rightarrow> span \<Rightarrow> ustring \<Rightarrow> runtime_error + nat" where
  "resolve_int index len sp container =
     (if index = 0 then Inl (EGeneric index_zero_msg sp)
      else case position_at index len of
             None \<Rightarrow> Inl (EGeneric (bounds_msg container index len) sp)
           | Some i \<Rightarrow> Inr i)"

section \<open>Reading\<close>

definition in_bounds :: "ustring \<Rightarrow> int \<Rightarrow> 'a list \<Rightarrow> span \<Rightarrow> runtime_error + 'a" where
  "in_bounds container index xs sp =
     rbind (resolve_index index (length xs) sp) (\<lambda>io.
       case io of
         Some i \<Rightarrow> Inr (xs ! i)
       | None \<Rightarrow> Inl (EGeneric (bounds_msg container index (length xs)) sp))"

definition dict_get :: "(ustring \<times> zvalue) list \<Rightarrow> ustring \<Rightarrow> span \<Rightarrow> runtime_error + zvalue" where
  "dict_get flds key sp = (case map_of flds key of Some v \<Rightarrow> Inr v | None \<Rightarrow> Inl (missing_key key flds sp))"

definition key_not_position :: "(ustring \<times> zvalue) list \<Rightarrow> span \<Rightarrow> runtime_error" where
  "key_not_position flds sp = kinded ''Type''
     (U ''a dictionary is addressed by key, not by position'' @ 10 # U ''help: use d['' @
      double_quoted (first_key flds) @ U ''] '' @ EM_DASH # U '' adding a key changes what sits at each position'') sp"

definition text_addresses_dictionary :: "zvalue \<Rightarrow> span \<Rightarrow> runtime_error" where
  "text_addresses_dictionary v sp =
     kinded ''Type'' (U ''a String addresses a dictionary key, and this is '' @ type_label v) sp"

text \<open>
  index_ref answers the elements that are values living inside the collection, index_into the
  others too: a character of a text, and the refusal of what is not a collection.
\<close>

definition index_ref :: "zvalue \<Rightarrow> zvalue \<Rightarrow> span \<Rightarrow> runtime_error + zvalue option" where
  "index_ref collection index_value sp =
     (case (collection, index_value) of
        (VNamedTuple flds, VString key) \<Rightarrow> rbind (dict_get flds key sp) (\<lambda>v. Inr (Some v))
      | (VNamedTuple flds, VInt _) \<Rightarrow> Inl (key_not_position flds sp)
      | (_, VInt index) \<Rightarrow>
          (case collection of
             VArray xs \<Rightarrow> rbind (in_bounds (U ''array'') index xs sp) (\<lambda>v. Inr (Some v))
           | VTuple xs \<Rightarrow> rbind (in_bounds (U ''tuple'') index xs sp) (\<lambda>v. Inr (Some v))
           | _ \<Rightarrow> Inr None)
      | (_, VString _) \<Rightarrow> Inl (text_addresses_dictionary collection sp)
      | _ \<Rightarrow> Inl (kinded ''Type'' (U ''index must be an integer, got '' @ type_label index_value) sp))"

definition index_into :: "zvalue \<Rightarrow> zvalue \<Rightarrow> span \<Rightarrow> runtime_error + zvalue" where
  "index_into collection index_value sp =
     rbind (index_ref collection index_value sp) (\<lambda>vo.
       case vo of
         Some v \<Rightarrow> Inr v
       | None \<Rightarrow>
           (case (collection, index_value) of
              (VString s, VInt index) \<Rightarrow> rbind (in_bounds (U ''string'') index s sp) (\<lambda>c. Inr (VChar c))
            | _ \<Rightarrow> Inl (not_a_container collection sp)))"

definition length_of :: "zvalue \<Rightarrow> nat option" where
  "length_of v = (case v of VArray xs \<Rightarrow> Some (length xs) | VTuple xs \<Rightarrow> Some (length xs)
     | VNamedTuple d \<Rightarrow> Some (length d) | VString s \<Rightarrow> Some (length s) | _ \<Rightarrow> None)"

definition collection_length :: "zvalue \<Rightarrow> span \<Rightarrow> runtime_error + zvalue" where
  "collection_length v sp = (case length_of v of
      Some n \<Rightarrow> Inr (VInt (int n))
    | None \<Rightarrow> Inl (kinded ''Type'' (U ''cannot get length of '' @ type_label v @
        U '' - only arrays, tuples, and strings have length'') sp))"

section \<open>Edits\<close>

text \<open>What may be written into a text.\<close>

definition text_piece :: "zvalue \<Rightarrow> ustring option" where
  "text_piece v = (case v of VChar c \<Rightarrow> Some [c] | VString s \<Rightarrow> Some s | _ \<Rightarrow> None)"

definition append_in :: "zvalue \<Rightarrow> zvalue \<Rightarrow> span \<Rightarrow> runtime_error + zvalue" where
  "append_in collection element sp =
     (case collection of
        VArray xs \<Rightarrow> Inr (VArray (xs @ [element]))
      | VTuple xs \<Rightarrow> Inr (VTuple (xs @ [element]))
      | VNamedTuple _ \<Rightarrow> Inl (kinded ''Type'' (U ''$+ is not supported on named tuples '' @ EM_DASH #
            U '' no field name available'') sp)
      | VString s \<Rightarrow>
          (case text_piece element of
             Some t \<Rightarrow> Inr (VString (s @ t))
           | None \<Rightarrow> Inl (kinded ''Type'' (U ''$+ on string requires char or string element, got '' @
                 type_label element) sp))
      | _ \<Rightarrow> Inl (kinded ''Type'' (U ''cannot append to '' @ type_label collection @
            U '' - only arrays, tuples, and strings support $+'') sp))"

definition remove_nth :: "nat \<Rightarrow> 'a list \<Rightarrow> 'a list" where
  "remove_nth i xs = take i xs @ drop (Suc i) xs"

definition insert_nth :: "nat \<Rightarrow> 'a list \<Rightarrow> 'a list \<Rightarrow> 'a list" where
  "insert_nth i ys xs = take i xs @ ys @ drop i xs"

definition remove_position :: "ustring \<Rightarrow> int \<Rightarrow> 'a list \<Rightarrow> span \<Rightarrow> runtime_error + 'a list" where
  "remove_position container index xs sp =
     (if index = 0 then Inl (EGeneric index_zero_msg sp)
      else case position_at index (length xs) of
             None \<Rightarrow> Inl (EGeneric (len_msg [] index container (length xs)) sp)
           | Some i \<Rightarrow> Inr (remove_nth i xs))"

definition dict_remove :: "ustring \<Rightarrow> (ustring \<times> zvalue) list \<Rightarrow> (ustring \<times> zvalue) list" where
  "dict_remove key flds = filter (\<lambda>e. fst e \<noteq> key) flds"

definition remove_at_in :: "zvalue \<Rightarrow> zvalue \<Rightarrow> span \<Rightarrow> runtime_error + zvalue" where
  "remove_at_in collection index_value sp =
     (case (collection, index_value) of
        (VNamedTuple flds, VString key) \<Rightarrow>
          (if map_of flds key = None then Inl (missing_key key flds sp) else Inr (VNamedTuple (dict_remove key flds)))
      | (VNamedTuple flds, VInt _) \<Rightarrow> Inl (kinded ''Type'' (dict_not_positional (U ''d$-[n]'') flds) sp)
      | (_, VInt index) \<Rightarrow>
          (case collection of
             VArray xs \<Rightarrow> rbind (remove_position (U ''array'') index xs sp) (\<lambda>ys. Inr (VArray ys))
           | VTuple xs \<Rightarrow> rbind (remove_position (U ''tuple'') index xs sp) (\<lambda>ys. Inr (VTuple ys))
           | VString s \<Rightarrow> rbind (remove_position (U ''string'') index s sp) (\<lambda>t. Inr (VString t))
           | _ \<Rightarrow> Inl (kinded ''Type'' (U ''cannot remove from '' @ type_label collection @
                 U '' - only arrays, tuples, and strings support $-[i]'') sp))
      | _ \<Rightarrow> Inl (kinded ''Type'' (U ''remove index must be an integer, got '' @ type_label index_value) sp))"

definition splice :: "nat \<Rightarrow> 'a list \<Rightarrow> 'a list \<Rightarrow> 'a list" where
  "splice i piece xs = take i xs @ piece @ drop (Suc i) xs"

definition want_int :: "ustring \<Rightarrow> zvalue \<Rightarrow> span \<Rightarrow> runtime_error + int" where
  "want_int what v sp = (case v of VInt n \<Rightarrow> Inr n
     | _ \<Rightarrow> Inl (kinded ''Type'' (what @ U '' must be an integer, got '' @ type_label v) sp))"

definition want_piece :: "ustring \<Rightarrow> zvalue \<Rightarrow> span \<Rightarrow> runtime_error + ustring" where
  "want_piece what v sp = (case text_piece v of Some t \<Rightarrow> Inr t
     | None \<Rightarrow> Inl (kinded ''Type'' (what @ type_label v) sp))"

definition string_update_piece :: "zvalue \<Rightarrow> span \<Rightarrow> runtime_error + ustring" where
  "string_update_piece v sp = want_piece (U ''$~ on string requires char or string value, got '') v sp"

text \<open>The tuple resolves its index with words of its own, shorter than the others'.\<close>

definition resolve_tuple :: "int \<Rightarrow> nat \<Rightarrow> span \<Rightarrow> runtime_error + nat" where
  "resolve_tuple index len sp =
     (if index = 0
      then Inl (EGeneric (U ''index 0 is invalid '' @ EM_DASH # U '' Zymbol uses 1-based indexing'') sp)
      else case position_at index len of
             None \<Rightarrow> Inl (EGeneric (len_msg [] index (U ''tuple'') len) sp)
           | Some i \<Rightarrow> Inr i)"

definition update_in :: "zvalue \<Rightarrow> zvalue \<Rightarrow> zvalue \<Rightarrow> span \<Rightarrow> runtime_error + zvalue" where
  "update_in collection index_value new_value sp =
     (case collection of
        VArray xs \<Rightarrow>
          rbind (want_int (U ''array update index'') index_value sp) (\<lambda>index.
          rbind (resolve_int index (length xs) sp (U ''array'')) (\<lambda>i. Inr (VArray (xs[i := new_value]))))
      | VTuple xs \<Rightarrow>
          rbind (want_int (U ''tuple update index'') index_value sp) (\<lambda>index.
          rbind (resolve_tuple index (length xs) sp) (\<lambda>i. Inr (VTuple (xs[i := new_value]))))
      | VString s \<Rightarrow>
          rbind (want_int (U ''string update index'') index_value sp) (\<lambda>index.
          rbind (string_update_piece new_value sp) (\<lambda>piece.
          rbind (resolve_int index (length s) sp (U ''string'')) (\<lambda>i. Inr (VString (splice i piece s)))))
      | VNamedTuple flds \<Rightarrow>
          (case index_value of
             VString name \<Rightarrow> Inr (VNamedTuple (dict_insert name new_value flds))
           | _ \<Rightarrow> Inl (kinded ''Type'' (dict_not_positional (U ''d[n]$~ value'') flds) sp))
      | _ \<Rightarrow> Inl (kinded ''Type'' (U ''$~ writes into a collection, and this is '' @ type_label collection @
            10 # U ''help: use a[1]$~ v on an array or tuple, d['' @ double_quoted (U ''key'') @ U '']$~ v on a #('' @
            0x2026 # U '')'') sp))"


section \<open>Along a path\<close>

definition step_msg :: "zvalue \<Rightarrow> ustring" where
  "step_msg v = U ''a navigation step is a position or a key, got '' @ type_label v"

definition path_words :: ustring where "path_words = U ''d[n>'' @ 0x2026 # U '']''"

definition no_position :: "ustring \<Rightarrow> (ustring \<times> zvalue) list \<Rightarrow> span \<Rightarrow> runtime_error" where
  "no_position op flds sp = kinded ''Type'' (dict_not_positional op flds) sp"

definition get_at_idx :: "zvalue \<Rightarrow> int \<Rightarrow> span \<Rightarrow> runtime_error + zvalue" where
  "get_at_idx col index sp =
     (case col of
        VArray xs \<Rightarrow> rbind (resolve_idx index (length xs) sp (U ''array'')) (\<lambda>i. Inr (xs ! i))
      | VTuple xs \<Rightarrow> rbind (resolve_idx index (length xs) sp (U ''tuple'')) (\<lambda>i. Inr (xs ! i))
      | VNamedTuple d \<Rightarrow> rbind (resolve_idx index (length d) sp (U ''named tuple'')) (\<lambda>i. Inr (snd (d ! i)))
      | VString s \<Rightarrow> rbind (resolve_idx index (length s) sp (U ''string'')) (\<lambda>i. Inr (VChar (s ! i)))
      | _ \<Rightarrow> Inl (not_a_container col sp))"

definition set_at_idx :: "zvalue \<Rightarrow> int \<Rightarrow> zvalue \<Rightarrow> span \<Rightarrow> runtime_error + zvalue" where
  "set_at_idx col index v sp =
     (case col of
        VArray xs \<Rightarrow> rbind (resolve_idx index (length xs) sp (U ''array'')) (\<lambda>i. Inr (VArray (xs[i := v])))
      | VTuple xs \<Rightarrow> rbind (resolve_idx index (length xs) sp (U ''tuple'')) (\<lambda>i. Inr (VTuple (xs[i := v])))
      | VNamedTuple d \<Rightarrow> rbind (resolve_idx index (length d) sp (U ''named tuple''))
            (\<lambda>i. Inr (VNamedTuple (d[i := (fst (d ! i), v)])))
      | VString s \<Rightarrow> rbind (string_update_piece v sp) (\<lambda>piece.
            rbind (resolve_idx index (length s) sp (U ''string'')) (\<lambda>i. Inr (VString (splice i piece s))))
      | _ \<Rightarrow> Inl (kinded ''Type'' (U ''cannot update '' @ type_label col @ U '' during deep update'') sp))"

definition get_at_step :: "zvalue \<Rightarrow> zvalue \<Rightarrow> span \<Rightarrow> runtime_error + zvalue" where
  "get_at_step col step sp =
     (case (col, step) of
        (VNamedTuple d, VString key) \<Rightarrow> dict_get d key sp
      | (VNamedTuple d, VInt _) \<Rightarrow> Inl (no_position path_words d sp)
      | (_, VInt n) \<Rightarrow> get_at_idx col n sp
      | _ \<Rightarrow> Inl (EGeneric (step_msg step) sp))"

definition set_at_step :: "zvalue \<Rightarrow> zvalue \<Rightarrow> zvalue \<Rightarrow> span \<Rightarrow> runtime_error + zvalue" where
  "set_at_step col step v sp =
     (case (col, step) of
        (VNamedTuple d, VString key) \<Rightarrow> Inr (VNamedTuple (dict_insert key v d))
      | (VNamedTuple d, VInt _) \<Rightarrow> Inl (no_position (path_words @ U ''$~ value'') d sp)
      | (_, VInt n) \<Rightarrow> set_at_idx col n v sp
      | _ \<Rightarrow> Inl (EGeneric (step_msg step) sp))"

definition is_dict :: "zvalue \<Rightarrow> bool" where
  "is_dict v = (case v of VNamedTuple _ \<Rightarrow> True | _ \<Rightarrow> False)"

definition is_string_value :: "zvalue \<Rightarrow> bool" where
  "is_string_value v = (case v of VString _ \<Rightarrow> True | _ \<Rightarrow> False)"

fun deep_update_value :: "zvalue \<Rightarrow> zvalue list \<Rightarrow> zvalue \<Rightarrow> span \<Rightarrow> runtime_error + zvalue" where
  "deep_update_value col [] v sp = Inr v"
| "deep_update_value col (step # steps) v sp =
     (case (col, step) of
        (VNamedTuple d, VInt _) \<Rightarrow> Inl (no_position (path_words @ U ''$~ value'') d sp)
      | _ \<Rightarrow>
          (if steps = [] \<and> is_dict col \<and> is_string_value step then set_at_step col step v sp
           else rbind (get_at_step col step sp) (\<lambda>sub.
                rbind (deep_update_value sub steps v sp) (\<lambda>sub'.
                set_at_step col step sub' sp))))"

text \<open>
  The path written where it is: checked first, reading only, and then written level by level
  without an error of its own.
\<close>

fun deep_path_in_place :: "zvalue \<Rightarrow> zvalue list \<Rightarrow> zvalue \<Rightarrow> bool" where
  "deep_path_in_place at [] last_step =
     (case (at, last_step) of
        (VArray xs, VInt n) \<Rightarrow> element_position n (length xs) \<noteq> None
      | (VTuple xs, VInt n) \<Rightarrow> element_position n (length xs) \<noteq> None
      | (VNamedTuple _, VString _) \<Rightarrow> True
      | _ \<Rightarrow> False)"
| "deep_path_in_place at (step # inner) last_step =
     (case (at, step) of
        (VArray xs, VInt n) \<Rightarrow>
          (case element_position n (length xs) of Some i \<Rightarrow> deep_path_in_place (xs ! i) inner last_step | None \<Rightarrow> False)
      | (VTuple xs, VInt n) \<Rightarrow>
          (case element_position n (length xs) of Some i \<Rightarrow> deep_path_in_place (xs ! i) inner last_step | None \<Rightarrow> False)
      | (VNamedTuple d, VString key) \<Rightarrow>
          (case map_of d key of Some v \<Rightarrow> deep_path_in_place v inner last_step | None \<Rightarrow> False)
      | _ \<Rightarrow> False)"

fun write_in_place :: "zvalue \<Rightarrow> zvalue list \<Rightarrow> zvalue \<Rightarrow> zvalue" where
  "write_in_place at [] v = v"
| "write_in_place at (step # steps) v =
     (case (at, step) of
        (VArray xs, VInt n) \<Rightarrow>
          (case element_position n (length xs) of Some i \<Rightarrow> VArray (xs[i := write_in_place (xs ! i) steps v]) | None \<Rightarrow> at)
      | (VTuple xs, VInt n) \<Rightarrow>
          (case element_position n (length xs) of Some i \<Rightarrow> VTuple (xs[i := write_in_place (xs ! i) steps v]) | None \<Rightarrow> at)
      | (VNamedTuple d, VString key) \<Rightarrow>
          VNamedTuple (dict_insert key
            (case map_of d key of Some w \<Rightarrow> write_in_place w steps v | None \<Rightarrow> v) d)
      | _ \<Rightarrow> at)"

definition deep_update_in :: "zvalue \<Rightarrow> zvalue list \<Rightarrow> zvalue \<Rightarrow> span \<Rightarrow> runtime_error + zvalue" where
  "deep_update_in col indices v sp =
     (if indices = [] then Inr v
      else if \<not> deep_path_in_place col (butlast indices) (last indices) then deep_update_value col indices v sp
      else Inr (write_in_place col indices v))"

section \<open>Elements by value and by stretch\<close>

definition insert_at_position :: "zvalue \<Rightarrow> zvalue \<Rightarrow> zvalue \<Rightarrow> span \<Rightarrow> runtime_error + zvalue" where
  "insert_at_position collection index_val element sp =
     rbind (want_int (U ''$+[i] index'') index_val sp) (\<lambda>index.
     if index \<le> 0 then Inl (EGeneric (U ''$+[i] index must be positive (1-based, use 1 to insert at the beginning), got '' @
        show_int index) sp)
     else
       let i = nat (index - 1);
           outside = (\<lambda>what len. EGeneric (U ''$+['' @ show_int index @ U ''] index out of bounds for '' @ what @
              U '' of length '' @ show_nat len) sp)
       in case collection of
            VArray xs \<Rightarrow> if length xs < i then Inl (outside (U ''array'') (length xs))
                         else Inr (VArray (insert_nth i [element] xs))
          | VTuple xs \<Rightarrow> if length xs < i then Inl (outside (U ''tuple'') (length xs))
                         else Inr (VTuple (insert_nth i [element] xs))
          | VNamedTuple _ \<Rightarrow> Inl (kinded ''Type'' (U ''$+[i] is not supported on named tuples '' @ EM_DASH #
                U '' no field name available'') sp)
          | VString s \<Rightarrow>
              if length s < i then Inl (outside (U ''string'') (length s))
              else rbind (want_piece (U ''$+[i] on string requires char or string element, got '') element sp)
                     (\<lambda>t. Inr (VString (insert_nth i t s)))
          | _ \<Rightarrow> Inl (kinded ''Type'' (U ''$+[i] requires an array, tuple, or string, got '' @ type_label collection) sp))"

text \<open>The first element a test holds of, taken out.\<close>

fun remove_first :: "('a \<Rightarrow> bool) \<Rightarrow> 'a list \<Rightarrow> 'a list" where
  "remove_first P [] = []"
| "remove_first P (x # xs) = (if P x then xs else x # remove_first P xs)"

text \<open>Cut a pattern out where it first starts.\<close>

fun remove_sub :: "'a list \<Rightarrow> 'a list \<Rightarrow> 'a list" where
  "remove_sub p [] = []"
| "remove_sub p (c # cs) = (if starts_with p (c # cs) then drop (length p) (c # cs) else c # remove_sub p cs)"

text \<open>Replace what a pattern matches, left to right, at most so many times (None: every time).\<close>

function replace_sub :: "'a list \<Rightarrow> 'a list \<Rightarrow> nat option \<Rightarrow> 'a list \<Rightarrow> 'a list" where
  "replace_sub p r left s =
     (case s of
        [] \<Rightarrow> []
      | c # cs \<Rightarrow>
          if p \<noteq> [] \<and> left \<noteq> Some 0 \<and> starts_with p s
          then r @ replace_sub p r (map_option (\<lambda>n. n - 1) left) (drop (length p) s)
          else c # replace_sub p r left cs)"
  by pat_completeness auto
termination by (relation "measure (\<lambda>(p, r, left, s). length s)") auto

declare replace_sub.simps [simp del]

definition remove_value_in :: "zvalue \<Rightarrow> zvalue \<Rightarrow> span \<Rightarrow> runtime_error + zvalue" where
  "remove_value_in collection v sp =
     (case collection of
        VArray xs \<Rightarrow> Inr (VArray (remove_first (\<lambda>x. values_equal x v) xs))
      | VTuple xs \<Rightarrow> Inr (VTuple (remove_first (\<lambda>x. values_equal x v) xs))
      | VNamedTuple d \<Rightarrow> Inr (VNamedTuple (remove_first (\<lambda>e. values_equal (snd e) v) d))
      | VString s \<Rightarrow>
          (case v of
             VChar c \<Rightarrow> Inr (VString (remove_first (\<lambda>ch. ch = c) s))
           | VString p \<Rightarrow> Inr (VString (if p = [] \<or> length s < length p then s else remove_sub p s))
           | _ \<Rightarrow> Inl (kinded ''Type'' (U ''$- on string requires char or string value, got '' @ type_label v) sp))
      | _ \<Rightarrow> Inl (kinded ''Type'' (U ''$- requires an array, tuple, or string, got '' @ type_label collection) sp))"

definition remove_all_in :: "zvalue \<Rightarrow> zvalue \<Rightarrow> span \<Rightarrow> runtime_error + zvalue" where
  "remove_all_in collection v sp =
     (case collection of
        VArray xs \<Rightarrow> Inr (VArray (filter (\<lambda>x. \<not> values_equal x v) xs))
      | VTuple xs \<Rightarrow> Inr (VTuple (filter (\<lambda>x. \<not> values_equal x v) xs))
      | VNamedTuple d \<Rightarrow> Inr (value_named_tuple (filter (\<lambda>e. \<not> values_equal (snd e) v) d))
      | VString s \<Rightarrow>
          (case v of
             VChar c \<Rightarrow> Inr (VString (filter (\<lambda>ch. ch \<noteq> c) s))
           | VString p \<Rightarrow> Inr (VString (if p = [] then s else replace_sub p [] None s))
           | _ \<Rightarrow> Inl (kinded ''Type'' (U ''$-- on string requires char or string value, got '' @ type_label v) sp))
      | _ \<Rightarrow> Inl (kinded ''Type'' (U ''$-- requires an array, tuple, or string, got '' @ type_label collection) sp))"

definition contains_in :: "zvalue \<Rightarrow> zvalue \<Rightarrow> span \<Rightarrow> runtime_error + zvalue" where
  "contains_in collection element sp =
     (case collection of
        VArray xs \<Rightarrow> Inr (VBool (list_ex (\<lambda>x. values_equal x element) xs))
      | VTuple xs \<Rightarrow> Inr (VBool (list_ex (\<lambda>x. values_equal x element) xs))
      | VNamedTuple d \<Rightarrow>
          (case element of
             VString key \<Rightarrow> Inr (VBool (map_of d key \<noteq> None))
           | _ \<Rightarrow> Inl (kinded ''Type'' (U ''a dictionary is asked about a key, so '' @ backticked (U ''$?'') @
                 U '' needs a String, got '' @ type_label element) sp))
      | VString s \<Rightarrow>
          (case element of
             VChar c \<Rightarrow> Inr (VBool (c \<in> set s))
           | VString p \<Rightarrow> Inr (VBool (contains_sub p s))
           | _ \<Rightarrow> Inl (kinded ''Type'' (U ''string contains only supports char or string search, got '' @ type_label element) sp))
      | _ \<Rightarrow> Inl (kinded ''Type'' (U ''cannot search '' @ type_label collection @
            U '' - only arrays, tuples, and strings support contains'') sp))"

text \<open>Positions from 1 where a test on the rest of the list holds.\<close>

fun positions_where :: "('a list \<Rightarrow> bool) \<Rightarrow> int \<Rightarrow> 'a list \<Rightarrow> zvalue list" where
  "positions_where P i [] = []"
| "positions_where P i (x # xs) = (if P (x # xs) then [VInt i] else []) @ positions_where P (i + 1) xs"

definition find_all_in :: "zvalue \<Rightarrow> zvalue \<Rightarrow> span \<Rightarrow> runtime_error + zvalue" where
  "find_all_in collection v sp =
     (case collection of
        VArray xs \<Rightarrow> Inr (VArray (positions_where (\<lambda>l. values_equal (hd l) v) 1 xs))
      | VTuple xs \<Rightarrow> Inr (VArray (positions_where (\<lambda>l. values_equal (hd l) v) 1 xs))
      | VString s \<Rightarrow>
          (case v of
             VString p \<Rightarrow>
               if p = [] then Inl (kinded ''Index'' (U ''$?? pattern must not be empty'') sp)
               else Inr (VArray (positions_where (starts_with p) 1 s))
           | VChar c \<Rightarrow> Inr (VArray (positions_where (\<lambda>l. hd l = c) 1 s))
           | _ \<Rightarrow> Inl (kinded ''Type'' (U ''$?? on string requires char or string value, got '' @ type_label v) sp))
      | _ \<Rightarrow> Inl (kinded ''Type'' (U ''$?? requires an array, tuple, or string, got '' @ type_label collection) sp))"

section \<open>Slices\<close>

definition slice_length :: "zvalue \<Rightarrow> span \<Rightarrow> runtime_error + nat" where
  "slice_length v sp = (case length_of v of Some n \<Rightarrow> Inr n
     | None \<Rightarrow> Inl (kinded ''Type'' (U ''cannot slice '' @ type_label v @
         U '' - only arrays, tuples, named tuples, and strings support slice'') sp))"

definition list_slice :: "nat \<Rightarrow> nat \<Rightarrow> 'a list \<Rightarrow> 'a list" where
  "list_slice a b xs = take (b - a) (drop a xs)"

text \<open>What a cut of a sequence becomes in each collection.\<close>

definition cut_with :: "(zvalue list \<Rightarrow> zvalue list) \<Rightarrow> (ustring \<Rightarrow> ustring) \<Rightarrow> ustring \<Rightarrow> zvalue \<Rightarrow> span \<Rightarrow>
    runtime_error + zvalue" where
  "cut_with f g op collection sp =
     (case collection of
        VArray xs \<Rightarrow> Inr (VArray (f xs))
      | VTuple xs \<Rightarrow> Inr (VTuple (f xs))
      | VString s \<Rightarrow> Inr (VString (g s))
      | VNamedTuple d \<Rightarrow> Inl (kinded ''Type'' (dict_not_positional op d) sp)
      | _ \<Rightarrow> Inl (kinded ''Type'' (U ''cannot slice '' @ type_label collection @
            U '' - only arrays, tuples, named tuples, and strings support slice'') sp))"

definition span_text :: "int \<Rightarrow> int \<Rightarrow> bool \<Rightarrow> ustring" where
  "span_text a b count = 91 # show_int a @ (if count then U '':'' else U ''..'') @ show_int b @ U '']''"

text \<open>
  The bounds of a slice: zero stands for a start that was not written, a negative one counts from
  the end, and the end is a position, or how many with the count form.
\<close>

definition slice_start :: "int \<Rightarrow> nat \<Rightarrow> int" where
  "slice_start w len = (if w = 0 then 0 else if w < 0 then int len + w else w - 1)"

definition slice_end :: "int \<Rightarrow> nat \<Rightarrow> bool \<Rightarrow> int \<Rightarrow> int" where
  "slice_end w len count start =
     (if count then start + w else if w < 0 then int len + w + 1 else w)"

definition slice_in :: "zvalue \<Rightarrow> nat \<Rightarrow> int \<Rightarrow> int \<Rightarrow> bool \<Rightarrow> span \<Rightarrow> runtime_error + zvalue" where
  "slice_in collection len written_start written_end count sp =
     (if count \<and> written_end < 0
      then Inl (kinded ''Index'' (U ''slice count must be non-negative, got '' @ show_int written_end) sp)
      else
        let start = slice_start written_start len;
            stop = slice_end written_end len count start
        in if start < 0 \<or> stop < 0 \<or> start > int len \<or> stop > int len
           then Inl (EGeneric (U ''slice indices out of bounds: '' @ span_text written_start written_end count @
                  U '' for collection of length '' @ show_nat len) sp)
           else
             let lo_pos = (if written_start = 0 then 1 else if written_start < 0 then int len + written_start + 1
                           else written_start);
                 hi_pos = (if written_end < 0 then int len + written_end + 1 else written_end)
             in if lo_pos > hi_pos \<and> \<not> count \<and> hi_pos \<ge> 1 \<and> lo_pos \<le> int len
                then cut_with (\<lambda>xs. rev (list_slice (nat (hi_pos - 1)) (nat lo_pos) xs))
                       (\<lambda>s. rev (list_slice (nat (hi_pos - 1)) (nat lo_pos) s)) (U ''d$[a..b]'') collection sp
                else if start > stop
                then Inl (EGeneric (U ''slice start ('' @ show_int written_start @ U '') cannot be greater than end ('' @
                       show_int written_end @ U '')'') sp)
                else cut_with (list_slice (nat start) (nat stop)) (list_slice (nat start) (nat stop))
                       (U ''d$[a..b]'') collection sp)"

text \<open>Removing a stretch.  Its bounds are positive, and an end not written is the length.\<close>

definition range_start :: "zvalue \<Rightarrow> span \<Rightarrow> runtime_error + int" where
  "range_start v sp =
     rbind (want_int (U ''$-[..] start'') v sp) (\<lambda>n.
       if n \<le> 0 then Inl (kinded ''Index'' (U ''$-[start..] start must be positive (1-based), got '' @ show_int n) sp)
       else Inr n)"

definition range_end :: "bool \<Rightarrow> zvalue \<Rightarrow> span \<Rightarrow> runtime_error + int" where
  "range_end count v sp =
     rbind (want_int (U ''$-[..] end'') v sp) (\<lambda>n.
       if \<not> count \<and> n \<le> 0
       then Inl (kinded ''Index'' (U ''$-[..end] end must be positive (1-based), got '' @ show_int n) sp)
       else if n < 0
       then Inl (kinded ''Index'' (U ''$-[..] count must be non-negative, got '' @ show_int n) sp)
       else Inr n)"

definition range_length :: "zvalue \<Rightarrow> span \<Rightarrow> runtime_error + nat" where
  "range_length v sp = (case length_of v of Some n \<Rightarrow> Inr n
     | None \<Rightarrow> Inl (kinded ''Type'' (U ''$-[..] requires an array, tuple, or string, got '' @ type_label v) sp))"

definition drain :: "nat \<Rightarrow> nat \<Rightarrow> 'a list \<Rightarrow> 'a list" where
  "drain a b xs = take a xs @ drop b xs"

definition remove_range_in :: "zvalue \<Rightarrow> nat \<Rightarrow> int \<Rightarrow> int \<Rightarrow> bool \<Rightarrow> span \<Rightarrow> runtime_error + zvalue" where
  "remove_range_in collection len written_start written_end count sp =
     (let start = written_start - 1; stop = (if count then start + written_end else written_end)
      in if start > stop
         then Inl (kinded ''Index'' (U ''$-[start..end]: start ('' @ show_int written_start @
                U '') cannot be greater than end ('' @ show_int written_end @ U '')'') sp)
         else if start > int len \<or> stop > int len
         then Inl (kinded ''Index'' (U ''$-'' @ span_text written_start written_end count @
                U '' out of bounds for collection of length '' @ show_nat len) sp)
         else if start = stop then Inr collection
         else case collection of
                VArray xs \<Rightarrow> Inr (VArray (drain (nat start) (nat stop) xs))
              | VTuple xs \<Rightarrow> Inr (VTuple (drain (nat start) (nat stop) xs))
              | VString s \<Rightarrow> Inr (VString (drain (nat start) (nat stop) s))
              | VNamedTuple d \<Rightarrow> Inl (kinded ''Type'' (dict_not_positional (U ''d$-[a..b]'') d) sp)
              | _ \<Rightarrow> Inr collection)"

section \<open>What a higher-order operator walks\<close>

definition chars_of :: "ustring \<Rightarrow> zvalue list" where "chars_of s = map VChar s"

definition keys_of :: "(ustring \<times> zvalue) list \<Rightarrow> zvalue list" where "keys_of d = map (\<lambda>e. VString (fst e)) d"

definition hof_items :: "zvalue \<Rightarrow> zvalue list option" where
  "hof_items v = (case v of VArray xs \<Rightarrow> Some xs | VTuple xs \<Rightarrow> Some xs | VString s \<Rightarrow> Some (chars_of s)
     | VNamedTuple d \<Rightarrow> Some (keys_of d) | _ \<Rightarrow> None)"

definition hof_rebuild :: "zvalue \<Rightarrow> zvalue list \<Rightarrow> zvalue" where
  "hof_rebuild original items =
     (case original of
        VTuple _ \<Rightarrow> VTuple items
      | VString _ \<Rightarrow>
          (if list_all (\<lambda>v. text_piece v \<noteq> None) items
           then VString (concat (map (\<lambda>v. the (text_piece v)) items)) else VArray items)
      | _ \<Rightarrow> VArray items)"

text \<open>What a loop walks: eval_iterable, and eval_iterable_pairs for a loop with a pattern.\<close>

definition iterable_items :: "zvalue \<Rightarrow> span \<Rightarrow> runtime_error + zvalue list" where
  "iterable_items v sp = (case hof_items v of Some xs \<Rightarrow> Inr xs
     | None \<Rightarrow> Inl (kinded ''Type''
         (U ''can only iterate over ranges, arrays, strings, tuples and dictionaries, got '' @ type_label v) sp))"

definition dict_pairs :: "(ustring \<times> zvalue) list \<Rightarrow> zvalue list" where
  "dict_pairs d = map (\<lambda>(k, v). VTuple [VString k, v]) d"

section \<open>Texts\<close>

definition repeat_text :: "zvalue \<Rightarrow> zvalue \<Rightarrow> span \<Rightarrow> runtime_error + zvalue" where
  "repeat_text sv cv sp =
     (case text_piece sv of
        None \<Rightarrow> Inl (EGeneric (U ''$* requires a string, got '' @ type_label sv) sp)
      | Some s \<Rightarrow>
          (case cv of
             VInt n \<Rightarrow> if 0 \<le> n then Inr (VString (concat (replicate (nat n) s)))
                       else Inl (kinded ''Index'' (U ''$* repetition count must be non-negative, got '' @ show_int n) sp)
           | _ \<Rightarrow> Inl (kinded ''Type'' (U ''$* repetition count must be an integer, got '' @ type_label cv) sp)))"

definition replace_string :: "zvalue \<Rightarrow> span \<Rightarrow> runtime_error + ustring" where
  "replace_string v sp = (case v of VString s \<Rightarrow> Inr s
     | _ \<Rightarrow> Inl (EGeneric (U ''$~~ requires a string, got '' @ type_label v) sp))"

definition replace_with :: "zvalue \<Rightarrow> span \<Rightarrow> runtime_error + ustring" where
  "replace_with v sp = (case v of VString s \<Rightarrow> Inr s
     | _ \<Rightarrow> Inl (kinded ''Type'' (U ''$~~ replacement must be a string, got '' @ type_label v) sp))"

definition replace_count :: "zvalue \<Rightarrow> span \<Rightarrow> runtime_error + nat option" where
  "replace_count v sp = (case v of
       VInt n \<Rightarrow> if n < 0 then Inl (kinded ''Index'' (U ''replacement count must be non-negative, got '' @ show_int n) sp)
                 else Inr (if n = 0 then None else Some (nat n))
     | _ \<Rightarrow> Inl (kinded ''Type'' (U ''$~~ count must be an integer, got '' @ type_label v) sp))"

definition replace_pattern :: "zvalue \<Rightarrow> span \<Rightarrow> runtime_error + ustring" where
  "replace_pattern v sp = (case v of
       VString p \<Rightarrow> if p = [] then Inl (kinded ''Index'' (U ''$~~ pattern must not be empty'') sp) else Inr p
     | VChar c \<Rightarrow> Inr [c]
     | _ \<Rightarrow> Inl (kinded ''Type'' (U ''$~~ pattern must be a string or char, got '' @ type_label v) sp))"

text \<open>Splitting at a pattern, left to right.\<close>

function split_sub :: "'a list \<Rightarrow> 'a list \<Rightarrow> 'a list \<Rightarrow> 'a list list" where
  "split_sub p part s =
     (case s of
        [] \<Rightarrow> [part]
      | c # cs \<Rightarrow>
          if p \<noteq> [] \<and> starts_with p s then part # split_sub p [] (drop (length p) s)
          else split_sub p (part @ [c]) cs)"
  by pat_completeness auto
termination by (relation "measure (\<lambda>(p, part, s). length s)") auto

declare split_sub.simps [simp del]

definition split_text :: "zvalue \<Rightarrow> zvalue \<Rightarrow> span \<Rightarrow> runtime_error + zvalue" where
  "split_text sv dv sp =
     (case sv of
        VString s \<Rightarrow>
          (case dv of
             VChar c \<Rightarrow> Inr (VArray (map VString (split_char c s)))
           | VString d \<Rightarrow>
               if d = [] then Inl (kinded ''Index'' (U ''$/ delimiter must not be empty'') sp)
               else Inr (VArray (map VString (split_sub d [] s)))
           | _ \<Rightarrow> Inl (kinded ''Type'' (U ''$/ delimiter must be a char or string, got '' @ type_label dv) sp))
      | _ \<Rightarrow> Inl (kinded ''Type'' (U ''$/ requires a string on the left, got '' @ type_label sv) sp))"

section \<open>Lemmas\<close>

lemma position_at_bound: "position_at n len = Some i \<Longrightarrow> i < len"
  by (auto simp: position_at_def Let_def split: if_splits)

lemma position_at_Some_iff:
  "position_at n len = Some i \<longleftrightarrow> i < len \<and> (n = int i + 1 \<or> n = int i - int len)"
  by (auto simp: position_at_def Let_def)

lemma position_zero [simp]: "n \<noteq> 0 \<Longrightarrow> element_position n len = position_at n len"
  by (simp add: element_position_def)

lemma resolve_idx_position:
  "element_position n len = Some i \<Longrightarrow> resolve_idx n len sp c = Inr i"
  by (auto simp: resolve_idx_def element_position_def split: if_splits)

lemma in_bounds_Inr_iff:
  "in_bounds c n xs sp = Inr v \<longleftrightarrow> (\<exists>i. element_position n (length xs) = Some i \<and> v = xs ! i)"
  by (auto simp: in_bounds_def resolve_index_def element_position_def split: option.splits)

text \<open>What the walk over a path reads at each step agrees with what it writes.\<close>

lemma deep_update_write_in_place:
  "indices \<noteq> [] \<Longrightarrow> deep_path_in_place col (butlast indices) (last indices) \<Longrightarrow>
   deep_update_value col indices v sp = Inr (write_in_place col indices v)"
proof (induction indices arbitrary: col)
  case (Cons step steps)
  show ?case
  proof (cases "steps = []")
    case True
    with Cons.prems show ?thesis
      by (auto simp: get_at_step_def set_at_step_def get_at_idx_def set_at_idx_def is_dict_def is_string_value_def
          resolve_idx_position split: zvalue.splits option.splits)
  next
    case False
    with Cons.prems have path: "deep_path_in_place col (step # butlast steps) (last steps)" by simp
    from False path Cons.IH show ?thesis
      by (auto simp: get_at_step_def set_at_step_def get_at_idx_def set_at_idx_def is_dict_def is_string_value_def
          resolve_idx_position dict_get_def split: zvalue.splits option.splits)
  qed
qed simp

text \<open>
  C12. A path written in place: the edit that checks a path and then writes it level by level, with
  no copy, answers what the functional update answers, on every value, path and error.
\<close>

theorem deep_update_in_place:
  "deep_update_in col indices v sp = deep_update_value col indices v sp"
  by (simp add: deep_update_in_def deep_update_write_in_place)

text \<open>Two addresses name the same element.\<close>

definition same_address :: "zvalue \<Rightarrow> zvalue \<Rightarrow> zvalue \<Rightarrow> bool" where
  "same_address collection i j =
     (case (i, j) of
        (VInt n, VInt m) \<Rightarrow> (case length_of collection of
            Some len \<Rightarrow> element_position n len = element_position m len | None \<Rightarrow> False)
      | (VString k, VString l) \<Rightarrow> k = l
      | _ \<Rightarrow> False)"

lemma position_bound: "element_position n len = Some i \<Longrightarrow> i < len"
  by (auto simp: element_position_def position_at_bound split: if_splits)

lemma index_into_Inr_iff:
  "index_into c j sp = Inr w \<longleftrightarrow>
     (\<exists>xs n i. (c = VArray xs \<or> c = VTuple xs) \<and> j = VInt n \<and> element_position n (length xs) = Some i \<and> w = xs ! i) \<or>
     (\<exists>d k. c = VNamedTuple d \<and> j = VString k \<and> map_of d k = Some w) \<or>
     (\<exists>s n i. c = VString s \<and> j = VInt n \<and> element_position n (length s) = Some i \<and> w = VChar (s ! i))"
  unfolding index_into_def index_ref_def
  by (cases c) (auto simp: rbind_Inr_iff in_bounds_Inr_iff dict_get_def split: option.splits zvalue.splits)

lemma update_in_Inr_iff:
  "update_in c i v sp = Inr c' \<longleftrightarrow>
     (\<exists>xs n k. c = VArray xs \<and> i = VInt n \<and> element_position n (length xs) = Some k \<and> c' = VArray (xs[k := v])) \<or>
     (\<exists>xs n k. c = VTuple xs \<and> i = VInt n \<and> element_position n (length xs) = Some k \<and> c' = VTuple (xs[k := v])) \<or>
     (\<exists>d key. c = VNamedTuple d \<and> i = VString key \<and> c' = VNamedTuple (dict_insert key v d)) \<or>
     (\<exists>s n k t. c = VString s \<and> i = VInt n \<and> element_position n (length s) = Some k \<and> text_piece v = Some t \<and>
        c' = VString (splice k t s))"
  unfolding update_in_def
  by (cases c)
     (auto simp: rbind_Inr_iff want_int_def resolve_int_def resolve_tuple_def element_position_def
        string_update_piece_def want_piece_def split: option.splits zvalue.splits)

text \<open>
  C18. Writing and reading an element: after a write that succeeded, an array, a tuple or a
  dictionary reads what was written at that address, every other address that could be read reads
  what it did, and an array or a tuple keeps its length.
\<close>

theorem written_is_read:
  assumes "update_in c i v sp = Inr c'" and "\<not> is_string_value c"
  shows "index_into c' i sp = Inr v \<and>
         (index_into c j sp = Inr w \<longrightarrow> \<not> same_address c i j \<longrightarrow> index_into c' j sp = Inr w) \<and>
         (is_dict c \<or> length_of c' = length_of c)"
proof -
  from assms consider
      (seq) xs n k where "c = VArray xs \<and> c' = VArray (xs[k := v]) \<or> c = VTuple xs \<and> c' = VTuple (xs[k := v])"
        "i = VInt n" "element_position n (length xs) = Some k"
    | (dict) d key where "c = VNamedTuple d" "i = VString key" "c' = VNamedTuple (dict_insert key v d)"
    by (auto simp: update_in_Inr_iff is_string_value_def)
  then show ?thesis
  proof cases
    case seq
    then show ?thesis using position_bound [OF seq(3)]
      by (auto simp: index_into_Inr_iff same_address_def length_of_def nth_list_update)
  next
    case dict
    have "index_into c' i sp = Inr v" using dict by (simp add: index_into_Inr_iff map_of_dict_insert)
    moreover have "index_into c' j sp = Inr w" if "index_into c j sp = Inr w" "\<not> same_address c i j"
    proof -
      from that(1) dict(1) obtain k where "j = VString k" "map_of d k = Some w"
        by (auto simp: index_into_Inr_iff)
      with that(2) dict show ?thesis by (simp add: index_into_Inr_iff same_address_def map_of_dict_insert)
    qed
    ultimately show ?thesis using dict by (simp add: is_dict_def)
  qed
qed

theorem written_is_read_witness:
  "update_in (VArray [VInt 1, VInt 2]) (VInt (-1)) (VInt 9) no_span = Inr (VArray [VInt 1, VInt 9]) \<and>
   index_into (VArray [VInt 1, VInt 9]) (VInt (-1)) no_span = Inr (VInt 9) \<and>
   index_into (VArray [VInt 1, VInt 9]) (VInt 1) no_span = Inr (VInt 1)"
proof -
  have u: "update_in (VArray [VInt 1, VInt 2]) (VInt (-1)) (VInt 9) no_span = Inr (VArray [VInt 1, VInt 9])"
    by (simp add: update_in_def want_int_def resolve_int_def position_at_def)
  have n: "\<not> is_string_value (VArray [VInt 1, VInt 2])" by (simp add: is_string_value_def)
  have r: "index_into (VArray [VInt 1, VInt 2]) (VInt 1) no_span = Inr (VInt 1)"
    and a: "\<not> same_address (VArray [VInt 1, VInt 2]) (VInt (-1)) (VInt 1)"
    by (simp_all add: index_into_def index_ref_def in_bounds_def resolve_index_def position_at_def same_address_def
        length_of_def element_position_def)
  from written_is_read [OF u n, of "VInt 1" "VInt 1"] u r a show ?thesis by blast
qed

text \<open>
  C20. A slice and what removing it leaves are the whole: for positions inside the collection the
  slice reads the stretch, its reversal when the positions are written from the higher to the
  lower, removing the stretch keeps the rest in order, and putting the slice back where it was
  gives the collection again.
\<close>

theorem slice_and_rest:
  assumes "1 \<le> a" and "a \<le> b" and "b \<le> int (length xs)"
  shows "\<exists>cut rest.
     slice_in (VArray xs) (length xs) a b False sp = Inr (VArray cut) \<and>
     (a < b \<longrightarrow> slice_in (VArray xs) (length xs) b a False sp = Inr (VArray (rev cut))) \<and>
     slice_in (VArray xs) (length xs) a (b - a + 1) True sp = Inr (VArray cut) \<and>
     remove_range_in (VArray xs) (length xs) a b False sp = Inr (VArray rest) \<and>
     insert_nth (nat (a - 1)) cut rest = xs \<and> int (length cut) = b - a + 1"
proof -
  let ?cut = "list_slice (nat (a - 1)) (nat b) xs" and ?rest = "drain (nat (a - 1)) (nat b) xs"
  have le: "nat (a - 1) \<le> nat b" "nat b \<le> length xs" using assms by auto
  have whole: "insert_nth (nat (a - 1)) ?cut ?rest = xs"
  proof -
    have "drop (nat (a - 1)) xs = ?cut @ drop (nat b) xs"
      using le by (simp add: list_slice_def) (metis append_take_drop_id drop_drop le_add_diff_inverse2)
    then have "take (nat (a - 1)) xs @ ?cut @ drop (nat b) xs = xs" by (metis append_take_drop_id)
    then show ?thesis using le by (simp add: insert_nth_def drain_def)
  qed
  have len: "int (length ?cut) = b - a + 1" using assms by (simp add: list_slice_def)
  have s1: "slice_in (VArray xs) (length xs) a b False sp = Inr (VArray ?cut)"
    and s2: "a < b \<longrightarrow> slice_in (VArray xs) (length xs) b a False sp = Inr (VArray (rev ?cut))"
    and s3: "slice_in (VArray xs) (length xs) a (b - a + 1) True sp = Inr (VArray ?cut)"
    and r: "remove_range_in (VArray xs) (length xs) a b False sp = Inr (VArray ?rest)"
    using assms by (auto simp: slice_in_def slice_start_def slice_end_def cut_with_def Let_def remove_range_in_def)
  from whole len s1 s2 s3 r show ?thesis by blast
qed

theorem slice_and_rest_witness:
  "\<exists>cut rest. slice_in (VArray (map VInt [1, 2, 3, 4])) (length (map VInt [1, 2, 3, 4])) 3 2 False no_span =
       Inr (VArray (rev cut)) \<and>
     insert_nth 1 cut rest = map VInt [1, 2, 3, 4] \<and> int (length cut) = 2"
proof -
  have "(1::int) \<le> 2" "(2::int) \<le> 3" "(3::int) \<le> int (length (map VInt [1, 2, 3, 4]))" by simp_all
  from slice_and_rest [OF this, of no_span] show ?thesis by auto
qed

lemma split_sub_nonempty [simp]: "split_sub p part s \<noteq> []"
  by (induction p part s rule: split_sub.induct) (subst split_sub.simps, simp split: list.split)

lemma join_with_Cons [simp]: "ps \<noteq> [] \<Longrightarrow> join_with sep (q # ps) = q @ sep @ join_with sep ps"
  by (cases ps) simp_all

lemma join_split_sub: "p \<noteq> [] \<Longrightarrow> join_with p (split_sub p part s) = part @ s"
proof (induction p part s rule: split_sub.induct)
  case (1 p part s)
  show ?case
  proof (cases s)
    case (Cons c cs)
    show ?thesis
    proof (cases "starts_with p s")
      case True
      then have "p @ drop (length p) s = s" by (auto simp: starts_with_iff)
      moreover have "split_sub p part s = part # split_sub p [] (drop (length p) s)"
        using True Cons 1(3) by (subst split_sub.simps) simp
      ultimately show ?thesis using 1(1) [OF Cons] True 1(3) by simp
    next
      case False
      then have "split_sub p part s = split_sub p (part @ [c]) cs"
        using Cons by (subst split_sub.simps) simp
      then show ?thesis using 1(2) [OF Cons] False Cons 1(3) by simp
    qed
  qed (simp add: split_sub.simps)
qed

lemma replace_sub_none: "\<not> contains_sub p s \<Longrightarrow> replace_sub p r k s = s"
proof (induction s arbitrary: k)
  case (Cons c cs)
  then show ?case by (subst replace_sub.simps) auto
qed (simp add: replace_sub.simps)

text \<open>
  C19. Splitting loses nothing: a text split at a character or at a text that is not empty gives
  texts that, joined by it, are the text again.
\<close>

theorem split_joins:
  assumes "split_text (VString s) d sp = Inr v"
  shows "\<exists>ps. v = VArray (map VString ps) \<and> join_with (the (text_piece d)) ps = s"
  using assms
  by (auto simp: split_text_def text_piece_def join_split_sub split: zvalue.splits if_splits)

theorem split_joins_witness:
  "split_text (VString (U ''a, b, c'')) (VString (U '', '')) no_span =
     Inr (VArray (map VString [U ''a'', U ''b'', U ''c''])) \<and>
   join_with (U '', '') [U ''a'', U ''b'', U ''c''] = U ''a, b, c''"
proof -
  have s: "split_text (VString (U ''a, b, c'')) (VString (U '', '')) no_span =
     Inr (VArray (map VString [U ''a'', U ''b'', U ''c'']))"
    by (simp add: split_text_def split_sub.simps)
  from split_joins [OF s] have "join_with (U '', '') [U ''a'', U ''b'', U ''c''] = U ''a, b, c''"
    by (auto simp: text_piece_def map_eq_Cons_conv)
  with s show ?thesis by blast
qed

end
