(* ===== verification/ZySort.thy ===== *)
theory ZySort imports ZyEngine ZyCollect "HOL-Library.Multiset" begin

text \<open>
  Sorting (eval_collection_sort of crates/zymbol-interpreter/src/collection_ops.rs).  With a
  comparator the engine merges runs of width 1, 2, 4, ... bottom-up, asking the comparator, a call
  of the program, in an order that is part of the language; without one it asks the library's
  stable sort.
\<close>

section \<open>The merges\<close>

definition takes_left :: "(zvalue \<Rightarrow> zvalue \<Rightarrow> bool comp) \<Rightarrow> zvalue \<Rightarrow> zvalue \<Rightarrow> bool comp" where
  "takes_left says l r = bindc (says l r) (\<lambda>b. if b then ret True else bindc (says r l) (\<lambda>c. ret (\<not> c)))"

fun merge_runs :: "(zvalue \<Rightarrow> zvalue \<Rightarrow> bool comp) \<Rightarrow> zvalue list \<Rightarrow> zvalue list \<Rightarrow> zvalue list comp" where
  "merge_runs left (x # xs) (y # ys) =
     bindc (left x y) (\<lambda>b. if b then bindc (merge_runs left xs (y # ys)) (\<lambda>zs. ret (x # zs))
                           else bindc (merge_runs left (x # xs) ys) (\<lambda>zs. ret (y # zs)))"
| "merge_runs left xs ys = ret (xs @ ys)"

text \<open>One pass over the array; a width is never zero.\<close>

function merge_pass :: "(zvalue \<Rightarrow> zvalue \<Rightarrow> bool comp) \<Rightarrow> nat \<Rightarrow> zvalue list \<Rightarrow> zvalue list comp" where
  "merge_pass left width src =
     (if src = [] \<or> width = 0 then ret []
      else bindc (merge_runs left (take width src) (take width (drop width src))) (\<lambda>run.
           bindc (merge_pass left width (drop (2 * width) src)) (\<lambda>rest. ret (run @ rest))))"
  by pat_completeness auto
termination by (relation "measure (\<lambda>(left, width, src). length src)") auto

declare merge_pass.simps [simp del]

function merge_passes :: "(zvalue \<Rightarrow> zvalue \<Rightarrow> bool comp) \<Rightarrow> nat \<Rightarrow> nat \<Rightarrow> zvalue list \<Rightarrow> zvalue list comp" where
  "merge_passes left n width src =
     (if width < n \<and> 0 < width then bindc (merge_pass left width src) (\<lambda>dst. merge_passes left n (2 * width) dst)
      else ret src)"
  by pat_completeness auto
termination by (relation "measure (\<lambda>(left, n, width, src). n - width)") auto

declare merge_passes.simps [simp del]

definition merge_sort :: "(zvalue \<Rightarrow> zvalue \<Rightarrow> bool comp) \<Rightarrow> zvalue list \<Rightarrow> zvalue list comp" where
  "merge_sort says xs = merge_passes (takes_left says) (length xs) 1 xs"

section \<open>Natural order\<close>

datatype ordering = Less | Equal | Greater

definition compare_by :: "('a \<Rightarrow> 'a \<Rightarrow> bool) \<Rightarrow> 'a \<Rightarrow> 'a \<Rightarrow> ordering" where
  "compare_by lt x y = (if lt x y then Less else if lt y x then Greater else Equal)"

definition float_compare :: "f64 \<Rightarrow> f64 \<Rightarrow> ordering option" where
  "float_compare x y = (if flt x y then Some Less else if flt y x then Some Greater
     else if feq x y then Some Equal else None)"

definition natural_cmp :: "zvalue \<Rightarrow> zvalue \<Rightarrow> ordering option" where
  "natural_cmp a b =
     (case (a, b) of
        (VInt x, VInt y) \<Rightarrow> Some (compare_by (<) x y)
      | (VFloat x, VFloat y) \<Rightarrow> float_compare x y
      | (VInt x, VFloat y) \<Rightarrow> float_compare (f_of_int x) y
      | (VFloat x, VInt y) \<Rightarrow> float_compare x (f_of_int y)
      | (VString x, VString y) \<Rightarrow> Some (compare_by (\<lambda>s t. text_compare s t < 0) x y)
      | (VBool x, VBool y) \<Rightarrow> Some (compare_by (<) x y)
      | _ \<Rightarrow> None)"

definition natural_le :: "zvalue \<Rightarrow> zvalue \<Rightarrow> bool" where
  "natural_le a b = (case natural_cmp a b of Some Greater \<Rightarrow> False | _ \<Rightarrow> True)"

definition ordered_by :: "(zvalue \<Rightarrow> zvalue \<Rightarrow> bool) \<Rightarrow> zvalue list \<Rightarrow> bool" where
  "ordered_by le xs =
     (list_all (\<lambda>a. list_all (\<lambda>b. le a b \<or> le b a) xs) xs \<and>
      list_all (\<lambda>a. list_all (\<lambda>b. list_all (\<lambda>c. le a b \<longrightarrow> le b c \<longrightarrow> le a c) xs) xs) xs)"

fun insert_by :: "('a \<Rightarrow> 'a \<Rightarrow> bool) \<Rightarrow> 'a \<Rightarrow> 'a list \<Rightarrow> 'a list" where
  "insert_by le x [] = [x]"
| "insert_by le x (y # ys) = (if le x y then x # y # ys else y # insert_by le x ys)"

definition stable_sort :: "('a \<Rightarrow> 'a \<Rightarrow> bool) \<Rightarrow> 'a list \<Rightarrow> 'a list" where
  "stable_sort le xs = foldr (insert_by le) xs []"

text \<open>The library's sort_by promises its result, the stable one, only for a total order on the
  elements at hand; what it does with another is a parameter.\<close>

definition natural_sort :: "(zvalue list \<Rightarrow> zvalue list) \<Rightarrow> bool \<Rightarrow> zvalue list \<Rightarrow> zvalue list" where
  "natural_sort unordered ascending xs =
     (let ys = (if ordered_by natural_le xs then stable_sort natural_le xs else unordered xs)
      in if ascending then ys else rev ys)"

section \<open>Correctness\<close>

definition total_preorder :: "('a \<Rightarrow> 'a \<Rightarrow> bool) \<Rightarrow> bool" where
  "total_preorder le \<longleftrightarrow> (\<forall>a b. le a b \<or> le b a) \<and> (\<forall>a b c. le a b \<longrightarrow> le b c \<longrightarrow> le a c)"

text \<open>What sorting promises: in order, the same elements, and ties as they stood.\<close>

definition sorts :: "('a \<Rightarrow> 'a \<Rightarrow> bool) \<Rightarrow> 'a list \<Rightarrow> 'a list \<Rightarrow> bool" where
  "sorts le xs ys \<longleftrightarrow> sorted_wrt le ys \<and> mset ys = mset xs \<and>
     (\<forall>a. filter (\<lambda>b. le a b \<and> le b a) ys = filter (\<lambda>b. le a b \<and> le b a) xs)"

fun pure_merge :: "('a \<Rightarrow> 'a \<Rightarrow> bool) \<Rightarrow> 'a list \<Rightarrow> 'a list \<Rightarrow> 'a list" where
  "pure_merge le (x # xs) (y # ys) =
     (if le x y then x # pure_merge le xs (y # ys) else y # pure_merge le (x # xs) ys)"
| "pure_merge le xs ys = xs @ ys"

lemma merge_runs_pure: "merge_runs (\<lambda>a b. ret (le a b)) xs ys = ret (pure_merge le xs ys)"
  by (induction "\<lambda>a b. ret (le a b) :: bool comp" xs ys rule: merge_runs.induct) (auto simp: if_distrib)

lemma mset_pure_merge: "mset (pure_merge le xs ys) = mset xs + mset ys"
  by (induction le xs ys rule: pure_merge.induct) auto

lemma set_pure_merge: "set (pure_merge le xs ys) = set xs \<union> set ys"
  by (metis mset_pure_merge set_mset_mset set_mset_union)

lemma sorted_pure_merge:
  "total_preorder le \<Longrightarrow> sorted_wrt le xs \<Longrightarrow> sorted_wrt le ys \<Longrightarrow> sorted_wrt le (pure_merge le xs ys)"
  by (induction le xs ys rule: pure_merge.induct)
     (auto simp: set_pure_merge total_preorder_def split: if_splits, meson+)

lemma filter_pure_merge:
  "total_preorder le \<Longrightarrow> sorted_wrt le xs \<Longrightarrow>
   filter (\<lambda>b. le a b \<and> le b a) (pure_merge le xs ys) =
   filter (\<lambda>b. le a b \<and> le b a) xs @ filter (\<lambda>b. le a b \<and> le b a) ys"
proof (induction le xs ys rule: pure_merge.induct)
  case (1 le x xs y ys)
  show ?case
  proof (cases "le x y")
    case False
    have "filter (\<lambda>b. le a b \<and> le b a) (x # xs) = []" if y: "le a y" "le y a"
    proof -
      have "\<not> le b a" if b: "b \<in> set (x # xs)" for b
      proof
        assume "le b a"
        moreover have "le x b" using 1(4) b 1(3) by (auto simp: total_preorder_def)
        ultimately have "le x y" using y 1(3) by (meson total_preorder_def)
        with False show False by simp
      qed
      then show ?thesis by (auto simp: filter_empty_conv)
    qed
    with False 1 show ?thesis by auto
  qed (use 1 in simp)
qed simp_all

lemma pure_merge_sorts:
  assumes "total_preorder le" "sorts le xs xs'" "sorts le ys ys'"
  shows "sorts le (xs @ ys) (pure_merge le xs' ys')"
  using assms by (auto simp: sorts_def sorted_pure_merge mset_pure_merge filter_pure_merge)

text \<open>Runs: the list is cut every so many elements, and each stretch is in order.\<close>

function runs_sorted :: "('a \<Rightarrow> 'a \<Rightarrow> bool) \<Rightarrow> nat \<Rightarrow> 'a list \<Rightarrow> bool" where
  "runs_sorted le w xs = (if xs = [] \<or> w = 0 then True
     else sorted_wrt le (take w xs) \<and> runs_sorted le w (drop w xs))"
  by pat_completeness auto
termination by (relation "measure (\<lambda>(le, w, xs). length xs)") auto

declare runs_sorted.simps [simp del]

lemma runs_sorted_one: "runs_sorted le 1 xs"
  by (induction xs) (subst runs_sorted.simps, simp)+

lemma runs_sorted_all: "length xs \<le> w \<Longrightarrow> 0 < w \<Longrightarrow> runs_sorted le w xs \<Longrightarrow> sorted_wrt le xs"
  by (subst (asm) runs_sorted.simps) (auto split: if_splits)

lemma runs_sorted_take: "0 < w \<Longrightarrow> runs_sorted le w xs \<Longrightarrow> sorted_wrt le (take w xs) \<and> runs_sorted le w (drop w xs)"
  by (cases "xs = []") (auto simp: runs_sorted.simps [of le w xs] runs_sorted.simps [of le w "[]"])

lemma sorts_refl: "sorted_wrt le xs \<Longrightarrow> sorts le xs xs"
  by (simp add: sorts_def)

lemma merge_pass_pure:
  assumes "total_preorder le" "0 < w" "runs_sorted le w xs"
  shows "\<exists>ys. merge_pass (\<lambda>a b. ret (le a b)) w xs = ret ys \<and> runs_sorted le (2 * w) ys \<and> mset ys = mset xs \<and>
     (\<forall>a. filter (\<lambda>b. le a b \<and> le b a) ys = filter (\<lambda>b. le a b \<and> le b a) xs)"
  using assms(3)
proof (induction "length xs" arbitrary: xs rule: less_induct)
  case less
  show ?case
  proof (cases "xs = []")
    case True
    then show ?thesis by (subst merge_pass.simps) (auto simp: runs_sorted.simps)
  next
    case False
    let ?l = "take w xs" and ?r = "take w (drop w xs)" and ?d = "drop (2 * w) xs"
    have l: "sorted_wrt le ?l" and rd: "runs_sorted le w (drop w xs)"
      using runs_sorted_take [OF assms(2) less.prems] by auto
    have r: "sorted_wrt le ?r" and "runs_sorted le w (drop w (drop w xs))"
      using runs_sorted_take [OF assms(2) rd] by auto
    then have d: "runs_sorted le w ?d" by (simp add: mult_2)
    let ?m = "pure_merge le ?l ?r"
    have m: "sorts le (?l @ ?r) ?m"
      using pure_merge_sorts [OF assms(1) sorts_refl [OF l] sorts_refl [OF r]] .
    have whole: "xs = (?l @ ?r) @ ?d" by (metis append.assoc append_take_drop_id drop_drop mult_2)
    obtain ys where ys: "merge_pass (\<lambda>a b. ret (le a b)) w ?d = ret ys" "runs_sorted le (2 * w) ys"
      "mset ys = mset ?d" "\<And>a. filter (\<lambda>b. le a b \<and> le b a) ys = filter (\<lambda>b. le a b \<and> le b a) ?d"
      using less.hyps [OF _ d] False assms(2) by auto
    have len: "length ?m = length (?l @ ?r)" using m by (metis size_mset sorts_def)
    have "runs_sorted le (2 * w) (?m @ ys)"
    proof (cases "length xs \<le> 2 * w")
      case True
      then have "ys = []" using ys(3) by simp
      then show ?thesis using m len True assms(2)
        by (subst runs_sorted.simps) (auto simp: sorts_def runs_sorted.simps)
    next
      case False
      then have "length ?m = 2 * w" using len by simp
      then show ?thesis using m ys(2) assms(2) by (subst runs_sorted.simps) (auto simp: sorts_def)
    qed
    moreover have "merge_pass (\<lambda>a b. ret (le a b)) w xs = ret (?m @ ys)"
      using False assms(2) ys(1) by (subst merge_pass.simps) (simp add: merge_runs_pure)
    moreover have "mset (?m @ ys) = mset xs" using m ys(3) by (subst (2) whole) (simp add: sorts_def)
    moreover have "filter (\<lambda>b. le a b \<and> le b a) (?m @ ys) = filter (\<lambda>b. le a b \<and> le b a) xs" for a
      using m ys(4) [of a] by (subst (2) whole) (simp add: sorts_def)
    ultimately show ?thesis by blast
  qed
qed

lemma merge_passes_pure:
  assumes "total_preorder le" "0 < w" "runs_sorted le w xs" "n = length xs"
  shows "\<exists>ys. merge_passes (\<lambda>a b. ret (le a b)) n w xs = ret ys \<and> sorts le xs ys"
  using assms(2-)
proof (induction "n - w" arbitrary: w xs rule: less_induct)
  case less
  show ?case
  proof (cases "w < n")
    case True
    obtain ys where ys: "merge_pass (\<lambda>a b. ret (le a b)) w xs = ret ys" "runs_sorted le (2 * w) ys"
      "mset ys = mset xs" "\<And>a. filter (\<lambda>b. le a b \<and> le b a) ys = filter (\<lambda>b. le a b \<and> le b a) xs"
      using merge_pass_pure [OF assms(1) less.prems(1,2)] by blast
    have "n - 2 * w < n - w" "0 < 2 * w" "n = length ys"
      using True less.prems ys(3) by (auto dest: arg_cong [of _ _ size])
    then obtain zs where zs: "merge_passes (\<lambda>a b. ret (le a b)) n (2 * w) ys = ret zs" "sorts le ys zs"
      using less.hyps [of "2 * w" ys] ys(2) by blast
    have "merge_passes (\<lambda>a b. ret (le a b)) n w xs = ret zs"
      using True less.prems(1) ys(1) zs(1) by (subst merge_passes.simps) simp
    moreover have "sorts le xs zs" using zs(2) ys(3,4) by (simp add: sorts_def)
    ultimately show ?thesis by blast
  next
    case False
    then have "sorts le xs xs" using less.prems runs_sorted_all [of xs w le] by (intro sorts_refl) simp
    moreover have "merge_passes (\<lambda>a b. ret (le a b)) n w xs = ret xs"
      using False by (subst merge_passes.simps) simp
    ultimately show ?thesis by blast
  qed
qed

lemma takes_left_pure: "takes_left (\<lambda>a b. ret (c a b)) = (\<lambda>a b. ret (c a b \<or> \<not> c b a))"
  by (auto simp: takes_left_def fun_eq_iff)

text \<open>An order on the elements at hand is enough: the merges never compare anything else.\<close>

definition ordered_on :: "'a set \<Rightarrow> ('a \<Rightarrow> 'a \<Rightarrow> bool) \<Rightarrow> bool" where
  "ordered_on S le \<longleftrightarrow> (\<forall>a\<in>S. \<forall>b\<in>S. le a b \<or> le b a) \<and>
     (\<forall>a\<in>S. \<forall>b\<in>S. \<forall>c\<in>S. le a b \<longrightarrow> le b c \<longrightarrow> le a c)"

definition extend_after :: "'a set \<Rightarrow> ('a \<Rightarrow> 'a \<Rightarrow> bool) \<Rightarrow> 'a \<Rightarrow> 'a \<Rightarrow> bool" where
  "extend_after S le a b = (if b \<in> S then a \<in> S \<and> le a b else True)"

lemma extend_after_total: "ordered_on S le \<Longrightarrow> total_preorder (extend_after S le)"
  unfolding total_preorder_def ordered_on_def extend_after_def by meson

lemma extend_after_on: "a \<in> S \<Longrightarrow> b \<in> S \<Longrightarrow> extend_after S le a b = le a b"
  by (simp add: extend_after_def)

lemma pure_merge_cong:
  "(\<And>a b. a \<in> S \<Longrightarrow> b \<in> S \<Longrightarrow> le a b = le' a b) \<Longrightarrow> set xs \<subseteq> S \<Longrightarrow> set ys \<subseteq> S \<Longrightarrow>
   pure_merge le xs ys = pure_merge le' xs ys"
  by (induction le xs ys rule: pure_merge.induct) auto

lemma merge_pass_cong:
  assumes "\<And>a b. a \<in> S \<Longrightarrow> b \<in> S \<Longrightarrow> le a b = le' a b"
  shows "set xs \<subseteq> S \<Longrightarrow> merge_pass (\<lambda>a b. ret (le a b)) w xs = merge_pass (\<lambda>a b. ret (le' a b)) w xs"
proof (induction "length xs" arbitrary: xs rule: less_induct)
  case less
  have "pure_merge le (take w xs) (take w (drop w xs)) = pure_merge le' (take w xs) (take w (drop w xs))"
    by (rule pure_merge_cong [OF assms]) (use less.prems in \<open>auto dest!: in_set_takeD in_set_dropD\<close>)
  moreover have "merge_pass (\<lambda>a b. ret (le a b)) w (drop (2 * w) xs) = merge_pass (\<lambda>a b. ret (le' a b)) w (drop (2 * w) xs)"
    if "xs \<noteq> []" "w \<noteq> 0"
    using less.hyps [of "drop (2 * w) xs"] less.prems that by (auto dest!: in_set_dropD)
  ultimately show ?case
    by (subst (1 2) merge_pass.simps) (simp add: merge_runs_pure)
qed

lemma merge_passes_cong:
  assumes "total_preorder le'" and eq: "\<And>a b. a \<in> S \<Longrightarrow> b \<in> S \<Longrightarrow> le a b = le' a b"
  shows "set xs \<subseteq> S \<Longrightarrow> runs_sorted le' w xs \<Longrightarrow>
    merge_passes (\<lambda>a b. ret (le a b)) n w xs = merge_passes (\<lambda>a b. ret (le' a b)) n w xs"
proof (induction "n - w" arbitrary: w xs rule: less_induct)
  case less
  show ?case
  proof (cases "w < n \<and> 0 < w")
    case True
    obtain ys where ys: "merge_pass (\<lambda>a b. ret (le' a b)) w xs = ret ys" "runs_sorted le' (2 * w) ys" "mset ys = mset xs"
      using merge_pass_pure [OF assms(1) _ less.prems(2)] True by blast
    have "set ys \<subseteq> S" using ys(3) less.prems(1) by (metis set_mset_mset)
    moreover have "n - 2 * w < n - w" using True by linarith
    ultimately have "merge_passes (\<lambda>a b. ret (le a b)) n (2 * w) ys = merge_passes (\<lambda>a b. ret (le' a b)) n (2 * w) ys"
      using less.hyps ys(2) by blast
    then show ?thesis using True ys(1) merge_pass_cong [where w = w, OF eq less.prems(1)]
      by (subst (1 2) merge_passes.simps) simp
  next
    case False
    then have "merge_passes f n w xs = ret xs" for f by (subst merge_passes.simps) auto
    then show ?thesis by simp
  qed
qed

definition sorts_on :: "('a \<Rightarrow> 'a \<Rightarrow> bool) \<Rightarrow> 'a list \<Rightarrow> 'a list \<Rightarrow> bool" where
  "sorts_on le xs ys \<longleftrightarrow> sorted_wrt le ys \<and> mset ys = mset xs \<and>
     (\<forall>a \<in> set xs. filter (\<lambda>b. le a b \<and> le b a) ys = filter (\<lambda>b. le a b \<and> le b a) xs)"

text \<open>
  C8. Sorting with a comparator: whether the comparator answers strictly or not, as long as "goes
  before, or is not gone before" orders the elements of the array up to ties, the merges end, the
  result is in order and holds the same elements, and elements that tie keep the order they had.
\<close>

theorem merge_sort_correct:
  assumes "ordered_on (set xs) (\<lambda>a b. c a b \<or> \<not> c b a)"
  shows "\<exists>ys. merge_sort (\<lambda>a b. ret (c a b)) xs = ret ys \<and> sorts_on (\<lambda>a b. c a b \<or> \<not> c b a) xs ys"
proof -
  let ?le = "\<lambda>a b. c a b \<or> \<not> c b a" and ?le' = "extend_after (set xs) (\<lambda>a b. c a b \<or> \<not> c b a)"
  have tp: "total_preorder ?le'" by (rule extend_after_total [OF assms])
  have one: "runs_sorted ?le' 1 xs" by (rule runs_sorted_one)
  obtain ys where ys: "merge_passes (\<lambda>a b. ret (?le' a b)) (length xs) 1 xs = ret ys" "sorts ?le' xs ys"
    using merge_passes_pure [OF tp _ one refl] by auto
  have "merge_passes (\<lambda>a b. ret (?le a b)) (length xs) 1 xs = ret ys"
    using merge_passes_cong [OF tp extend_after_on [symmetric] subset_refl one] ys(1) by simp
  moreover have "sorts_on ?le xs ys"
    unfolding sorts_on_def
  proof (intro conjI ballI)
    have set: "set ys = set xs" using ys(2) by (metis set_mset_mset sorts_def)
    show "mset ys = mset xs" using ys(2) by (simp add: sorts_def)
    have "sorted_wrt ?le' ys" using ys(2) by (simp add: sorts_def)
    then show "sorted_wrt ?le ys"
      by (rule sorted_wrt_mono_rel [rotated]) (use set in \<open>auto simp: extend_after_def\<close>)
    fix a assume a: "a \<in> set xs"
    have cong: "filter (\<lambda>b. ?le' a b \<and> ?le' b a) zs = filter (\<lambda>b. ?le a b \<and> ?le b a) zs" if "set zs = set xs" for zs
      by (rule filter_cong [OF refl]) (use a that in \<open>simp add: extend_after_on\<close>)
    have "filter (\<lambda>b. ?le' a b \<and> ?le' b a) ys = filter (\<lambda>b. ?le' a b \<and> ?le' b a) xs"
      using ys(2) unfolding sorts_def by blast
    then show "filter (\<lambda>b. ?le a b \<and> ?le b a) ys = filter (\<lambda>b. ?le a b \<and> ?le b a) xs"
      unfolding cong [OF set] cong [OF refl] .
  qed
  ultimately show ?thesis unfolding merge_sort_def takes_left_pure by blast
qed

definition int_before :: "zvalue \<Rightarrow> zvalue \<Rightarrow> bool" where
  "int_before a b = (case (a, b) of (VInt x, VInt y) \<Rightarrow> x < y | _ \<Rightarrow> False)"

theorem merge_sort_correct_witness:
  "\<exists>ys. merge_sort (\<lambda>a b. ret (int_before a b)) (map VInt [3, 1, 2]) = ret ys \<and> mset ys = {#VInt 1, VInt 2, VInt 3#}"
proof -
  have "ordered_on (set (map VInt [3, 1, 2])) (\<lambda>a b. int_before a b \<or> \<not> int_before b a)"
    by (simp add: ordered_on_def int_before_def)
  from merge_sort_correct [OF this] show ?thesis
    by (auto simp: sorts_on_def add_mset_commute)
qed

end
