(* ===== verification/ZyChars.thy ===== *)
theory ZyChars imports ZyDigits begin

text \<open>
  What a name may be made of (crates/zymbol-lexer/src/lib.rs, is_ident_start and its companions)
  and the names an interpolated text mentions (crates/zymbol-semantic/src/interpolation.rs).  The
  Unicode properties Alphabetic and Alphanumeric of the standard library are parameters.
\<close>

definition is_control :: "uchar \<Rightarrow> bool" where
  "is_control c = (c < 0x20 \<or> 0x7F \<le> c \<and> c < 0xA0)"

definition invisible_ranges :: "(nat \<times> nat) list" where
  "invisible_ranges =
     [(0x00AD, 0x00AD), (0x0600, 0x0605), (0x061C, 0x061C), (0x06DD, 0x06DD), (0x070F, 0x070F),
      (0x0890, 0x0891), (0x08E2, 0x08E2), (0x180E, 0x180E), (0x200B, 0x200F), (0x202A, 0x202E),
      (0x2060, 0x2064), (0x2066, 0x206F), (0xFEFF, 0xFEFF), (0xFFF9, 0xFFFB), (0x110BD, 0x110BD),
      (0x110CD, 0x110CD), (0x13430, 0x1343F), (0x1BCA0, 0x1BCA3), (0x1D173, 0x1D17A),
      (0xE0001, 0xE0001), (0xE0020, 0xE007F)]"

definition is_invisible_char :: "uchar \<Rightarrow> bool" where
  "is_invisible_char c = (is_control c \<or> list_ex (\<lambda>(a, b). a \<le> c \<and> c \<le> b) invisible_ranges)"

definition is_operator_char :: "uchar \<Rightarrow> bool" where
  "is_operator_char c = (c \<in> set (U ''><=!+-*/%^&|?:.,;()[]{}@~#$'') \<or> c = 0xB6 \<or> c = 0x5C)"

definition is_ident_start :: "(uchar \<Rightarrow> bool) \<Rightarrow> uchar \<Rightarrow> bool" where
  "is_ident_start alphabetic c =
     (if c = 95 then True
      else if c = 96 \<or> is_invisible_char c then False
      else if alphabetic c then True
      else \<not> is_whitespace c \<and> digit_value c = None \<and> \<not> is_operator_char c)"

definition is_ident_continue :: "(uchar \<Rightarrow> bool) \<Rightarrow> uchar \<Rightarrow> bool" where
  "is_ident_continue alphanumeric c =
     (if c = 0x200C \<or> c = 0x200D then True
      else if c = 96 \<or> is_invisible_char c then False
      else if alphanumeric c \<or> c = 95 then True
      else \<not> is_whitespace c \<and> \<not> is_operator_char c)"

text \<open>The scan keeps whether it is inside braces and the name read so far.\<close>

fun interpolated_loop ::
    "(uchar \<Rightarrow> bool) \<Rightarrow> (uchar \<Rightarrow> bool) \<Rightarrow> bool \<Rightarrow> ustring \<Rightarrow> ustring \<Rightarrow> ustring list"
where
  "interpolated_loop alpha alnum in_var name [] = []"
| "interpolated_loop alpha alnum in_var name (c # cs) =
     (if c = 123 \<and> \<not> in_var then interpolated_loop alpha alnum True [] cs
      else if c = 125 \<and> in_var then
        (if name \<noteq> [] then name # interpolated_loop alpha alnum False [] cs
         else interpolated_loop alpha alnum False name cs)
      else if in_var then
        (if (if name = [] then is_ident_start alpha c else is_ident_continue alnum c)
         then interpolated_loop alpha alnum True (name @ [c]) cs
         else interpolated_loop alpha alnum False name cs)
      else interpolated_loop alpha alnum False name cs)"

definition interpolated_names :: "(uchar \<Rightarrow> bool) \<Rightarrow> (uchar \<Rightarrow> bool) \<Rightarrow> ustring \<Rightarrow> ustring list" where
  "interpolated_names alpha alnum s = interpolated_loop alpha alnum False [] s"

end
