(* ===== verification/ZyRefs.thy ===== *)
theory ZyRefs imports ZyEngine ZyChars begin

text \<open>
  What an expression names and what it can write, the walks over the tree the engine asks before
  it runs: operand_may_write of crates/zymbol-semantic/src/last_use.rs, plain_operand of
  variables.rs, and the free names of a function body (collect_refs of functions_lambda.rs) with
  the captures they give a closure.  A walk recurs through the map of each struct, so the shape of
  the recursion is the shape of the tree.
\<close>

section \<open>Spans and parentheses\<close>

primrec expr_span :: "expr \<Rightarrow> span" where
  "expr_span (ELiteral x) = lit_span x"
| "expr_span (EIdentifier x) = id_span x"
| "expr_span (EBinary x) = bin_span x"
| "expr_span (EUnary x) = un_span x"
| "expr_span (ERange x) = rng_span x"
| "expr_span (EArrayLiteral x) = arr_span x"
| "expr_span (ETuple x) = tup_span x"
| "expr_span (EGroup x) = grp_span x"
| "expr_span (ENamedTuple x) = nt_span x"
| "expr_span (EMemberAccess x) = mem_span x"
| "expr_span (EIndex x) = ix_span x"
| "expr_span (EFunctionCall x) = call_span x"
| "expr_span (EMatch x) = m_span x"
| "expr_span (ELength x) = len_span x"
| "expr_span (EAppend x) = app_span x"
| "expr_span (EInsert x) = ins_span x"
| "expr_span (ERemoveValue x) = rv_span x"
| "expr_span (ERemoveAll x) = ra_span x"
| "expr_span (ERemoveAt x) = rat_span x"
| "expr_span (ERemoveRange x) = rr_span x"
| "expr_span (EContains x) = con_span x"
| "expr_span (EFindAll x) = fa_span x"
| "expr_span (EUpdate x) = upd_span x"
| "expr_span (ESlice x) = sl_span x"
| "expr_span (EStringRepeat x) = rep_span x"
| "expr_span (EStringReplace x) = rpl_span x"
| "expr_span (EStringSplit x) = sp_span x"
| "expr_span (EConcatBuild x) = cb_span x"
| "expr_span (ENumericEval x) = ne_span x"
| "expr_span (ETypeMetadata x) = tm_span x"
| "expr_span (EFormat x) = fmt_span x"
| "expr_span (EBaseConversion x) = bc_span x"
| "expr_span (ELambda x) = lam_span x"
| "expr_span (EMap x) = map_span x"
| "expr_span (EFilter x) = flt_span x"
| "expr_span (EReduce x) = red_span x"
| "expr_span (ESortAsc x) = srt_span x"
| "expr_span (ESortDesc x) = srt_span x"
| "expr_span (ESortCustom x) = srt_span x"
| "expr_span (EPipe x) = pp_span x"
| "expr_span (EExecute x) = ex_span x"
| "expr_span (EBashExec x) = bx_span x"
| "expr_span (ERound x) = ro_span x"
| "expr_span (ETrunc x) = tr_span x"
| "expr_span (ENumericCast x) = nc_span x"
| "expr_span (EErrorCheck x) = ec_span x"
| "expr_span (EErrorConstruct x) = eco_span x"
| "expr_span (EErrorPropagate x) = ep_span x"
| "expr_span (EDeepIndex x) = di_span x"
| "expr_span (EFlatExtract x) = fe_span x"
| "expr_span (EStructuredExtract x) = se_span x"
| "expr_span (ETerminalSize x) = x"

primrec statement_span :: "statement \<Rightarrow> span" where
  "statement_span (SOutput x) = out_span x"
| "statement_span (SAssignment x) = as_span x"
| "statement_span (SConstDecl x) = cd_span x"
| "statement_span (SDestructureAssign x) = da_span x"
| "statement_span (SLifetimeEnd x) = le_span x"
| "statement_span (SInput x) = in_span x"
| "statement_span (SIf x) = if_span x"
| "statement_span (SLoop x) = lp_span x"
| "statement_span (SBreak x) = br_span x"
| "statement_span (SContinue x) = ct_span x"
| "statement_span (STry x) = try_span x"
| "statement_span (SNewline x) = nl_span x"
| "statement_span (SFunctionDecl x) = fd_span x"
| "statement_span (SReturn x) = rt_span x"
| "statement_span (SMatch x) = m_span x"
| "statement_span (SExpr x) = es_span x"
| "statement_span (SCliArgsCapture x) = ca_span x"
| "statement_span (SSetNumeralMode b x) = x"
| "statement_span (SSleep x) = slp_span x"
| "statement_span (SKeyInput x) = ki_span x"
| "statement_span (SClearScreen x) = cs_span x"
| "statement_span (SOutputPos x) = op_span x"
| "statement_span (STuiBlock x) = tui_span x"

fun unwrap_group :: "expr \<Rightarrow> expr" where
  "unwrap_group (EGroup (GroupExpr e sp)) = unwrap_group e"
| "unwrap_group e = e"

text \<open>The name an expression is, parentheses apart.\<close>

definition as_identifier :: "expr \<Rightarrow> identifier_expr option" where
  "as_identifier e = (case unwrap_group e of EIdentifier i \<Rightarrow> Some i | _ \<Rightarrow> None)"

definition is_named :: "ustring \<Rightarrow> expr \<Rightarrow> bool" where
  "is_named x e = (case as_identifier e of Some i \<Rightarrow> id_name i = x | None \<Rightarrow> False)"

definition hot_name :: "identifier_expr \<Rightarrow> bool" where
  "hot_name i = (id_hot i \<or> id_pre_hot i)"

section \<open>What an operand can write\<close>

function (sequential) plain_operand :: "expr \<Rightarrow> bool" and plain_steps :: "expr nav_step list \<Rightarrow> bool" where
  "plain_operand (ELiteral _) = True"
| "plain_operand (EIdentifier _) = True"
| "plain_operand (EGroup (GroupExpr e _)) = plain_operand e"
| "plain_operand (EUnary (UnaryExpr _ e _)) = plain_operand e"
| "plain_operand (EBinary (BinaryExpr _ l r _)) = (plain_operand l \<and> plain_operand r)"
| "plain_operand (EIndex (IndexExpr a i _)) = (plain_operand a \<and> plain_operand i)"
| "plain_operand (EMemberAccess (MemberAccessExpr ob _ _ _)) = plain_operand ob"
| "plain_operand (EDeepIndex (DeepIndexExpr a (NavPath steps) _)) = (plain_operand a \<and> plain_steps steps)"
| "plain_operand (ELength (CollectionLengthExpr e _)) = plain_operand e"
| "plain_operand _ = False"
| "plain_steps [] = True"
| "plain_steps (NavStep i None # steps) = (plain_operand i \<and> plain_steps steps)"
| "plain_steps (NavStep i (Some r) # steps) = (plain_operand i \<and> plain_operand r \<and> plain_steps steps)"
  by pat_completeness auto
termination
  by (relation "measure (case_sum size (size_list (size_nav_step size)))") auto

text \<open>
  The walk of operand_may_write: whether some expression met on the way down is one that can
  write.  A walk answers a function of the name asked about and of whether it is state every
  function of a module shares.
\<close>

type_synonym asker = "ustring \<Rightarrow> bool \<Rightarrow> bool"

definition any_asks :: "asker list \<Rightarrow> asker" where
  "any_asks as x shared = list_ex (\<lambda>a. a x shared) as"

definition passed_out :: "expr function_call \<Rightarrow> ustring \<Rightarrow> bool" where
  "passed_out c x = list_ex (\<lambda>i. i < length (call_arguments c) \<and> is_named x (call_arguments c ! i)) (call_out_args c)"

definition opt_list :: "'a option \<Rightarrow> 'a list" where
  "opt_list z = (case z of None \<Rightarrow> [] | Some x \<Rightarrow> [x])"

definition step_parts :: "'e nav_step list \<Rightarrow> 'e list" where
  "step_parts steps = concat (map (\<lambda>s. nav_index s # opt_list (nav_range_end s)) steps)"

definition path_parts :: "'e nav_path list \<Rightarrow> 'e list" where
  "path_parts ps = concat (map (\<lambda>p. step_parts (nav_steps p)) ps)"

definition precision_parts :: "'e precision \<Rightarrow> 'e list" where
  "precision_parts p = (case p of PrecLiteral _ \<Rightarrow> [] | PrecDynamic e \<Rightarrow> [e])"

definition precision_op_parts :: "'e precision_op option \<Rightarrow> 'e list" where
  "precision_op_parts z = (case z of None \<Rightarrow> []
     | Some (PrecRound p) \<Rightarrow> precision_parts p | Some (PrecTruncate p) \<Rightarrow> precision_parts p)"

definition pipe_parts :: "'e pipe_arg list \<Rightarrow> 'e list" where
  "pipe_parts as = concat (map (\<lambda>a. case a of Placeholder \<Rightarrow> [] | PipeExprArg e \<Rightarrow> [e]) as)"

definition block_parts :: "'a list block \<Rightarrow> 'a list" where
  "block_parts b = concat (blk_statements b)"

text \<open>One level of the walk over an expression, walk_sub_exprs, and the expressions of a statement
  that are not in a nested function, walk_stmt_exprs, both over trees whose parts have been
  replaced by what the walk answers for them.\<close>

definition match_stmt_parts :: "('a, 'a list) match_expr \<Rightarrow> 'a list" where
  "match_stmt_parts m = m_scrutinee m # concat (map (\<lambda>c.
     opt_list (mc_value c) @ (case mc_block c of None \<Rightarrow> [] | Some b \<Rightarrow> block_parts b)) (m_cases m))"

definition lambda_parts :: "('a, 'a list) lambda_expr \<Rightarrow> 'a list" where
  "lambda_parts l = (case lam_body l of LamExpr e \<Rightarrow> [e] | LamBlock b \<Rightarrow> block_parts b)"

primrec may_write :: "expr \<Rightarrow> asker" and stmt_may_write :: "statement \<Rightarrow> asker list" where
  "may_write (ELiteral x) = any_asks []"
| "may_write (EIdentifier x) = any_asks []"
| "may_write (EBinary x) = (let y = map_binary_expr may_write x in any_asks [bin_left y, bin_right y])"
| "may_write (EUnary x) = un_operand (map_unary_expr may_write x)"
| "may_write (ERange x) = (let y = map_range_expr may_write x in any_asks (rng_start y # rng_end y # opt_list (rng_step y)))"
| "may_write (EArrayLiteral x) = any_asks (arr_elements (map_array_literal may_write x))"
| "may_write (ETuple x) = any_asks (tup_elements (map_tuple_expr may_write x))"
| "may_write (EGroup x) = grp_expr (map_group_expr may_write x)"
| "may_write (ENamedTuple x) = any_asks (map snd (nt_fields (map_named_tuple may_write x)))"
| "may_write (EMemberAccess x) = mem_object (map_member_access may_write x)"
| "may_write (EIndex x) = (let y = map_index_expr may_write x in any_asks [ix_array y, ix_index y])"
| "may_write (EFunctionCall x) = (\<lambda>name shared. shared \<or> passed_out x name \<or>
     (let y = map_function_call may_write x in any_asks (call_callable y # call_arguments y) name shared))"
| "may_write (EMatch x) = (\<lambda>name shared. True)"
| "may_write (ELength x) = len_collection (map_length_expr may_write x)"
| "may_write (EAppend x) = (let y = map_append_expr may_write x in any_asks [app_collection y, app_element y])"
| "may_write (EInsert x) = (let y = map_insert_expr may_write x in any_asks [ins_collection y, ins_index y, ins_element y])"
| "may_write (ERemoveValue x) = (let y = map_remove_value_expr may_write x in any_asks [rv_collection y, rv_value y])"
| "may_write (ERemoveAll x) = (let y = map_remove_all_expr may_write x in any_asks [ra_collection y, ra_value y])"
| "may_write (ERemoveAt x) = (let y = map_remove_at_expr may_write x in any_asks [rat_collection y, rat_index y])"
| "may_write (ERemoveRange x) = (let y = map_remove_range_expr may_write x
     in any_asks (rr_collection y # opt_list (rr_start y) @ opt_list (rr_end y)))"
| "may_write (EContains x) = (let y = map_contains_expr may_write x in any_asks [con_collection y, con_element y])"
| "may_write (EFindAll x) = (let y = map_find_all_expr may_write x in any_asks [fa_collection y, fa_value y])"
| "may_write (EUpdate x) = (let y = map_update_expr may_write x in any_asks [upd_target y, upd_value y])"
| "may_write (ESlice x) = (let y = map_slice_expr may_write x
     in any_asks (sl_collection y # opt_list (sl_start y) @ opt_list (sl_end y)))"
| "may_write (EStringRepeat x) = (let y = map_repeat_expr may_write x in any_asks [rep_string y, rep_count y])"
| "may_write (EStringReplace x) = (let y = map_replace_expr may_write x
     in any_asks (rpl_string y # rpl_pattern y # rpl_replacement y # opt_list (rpl_count y)))"
| "may_write (EStringSplit x) = (let y = map_split_expr may_write x in any_asks [sp_string y, sp_delimiter y])"
| "may_write (EConcatBuild x) = (let y = map_concat_build may_write x in any_asks (cb_base y # cb_items y))"
| "may_write (ENumericEval x) = ne_expr (map_numeric_eval may_write x)"
| "may_write (ETypeMetadata x) = tm_expr (map_type_metadata may_write x)"
| "may_write (EFormat x) = (let y = map_format_expr may_write x in any_asks (fmt_expr y # precision_op_parts (fmt_precision y)))"
| "may_write (EBaseConversion x) = bc_expr (map_base_conversion may_write x)"
| "may_write (ELambda x) = any_asks (lambda_parts (map_lambda_expr may_write stmt_may_write x))"
| "may_write (EMap x) = (\<lambda>name shared. shared \<or>
     (let y = map_map_expr may_write x in any_asks [map_collection y, map_lambda y] name shared))"
| "may_write (EFilter x) = (\<lambda>name shared. shared \<or>
     (let y = map_filter_expr may_write x in any_asks [flt_collection y, flt_lambda y] name shared))"
| "may_write (EReduce x) = (\<lambda>name shared. shared \<or>
     (let y = map_reduce_expr may_write x in any_asks [red_collection y, red_initial y, red_lambda y] name shared))"
| "may_write (ESortAsc x) = (\<lambda>name shared. shared \<or>
     (let y = map_sort_expr may_write x in any_asks (srt_collection y # opt_list (srt_comparator y)) name shared))"
| "may_write (ESortDesc x) = (\<lambda>name shared. shared \<or>
     (let y = map_sort_expr may_write x in any_asks (srt_collection y # opt_list (srt_comparator y)) name shared))"
| "may_write (ESortCustom x) = (\<lambda>name shared. shared \<or>
     (let y = map_sort_expr may_write x in any_asks (srt_collection y # opt_list (srt_comparator y)) name shared))"
| "may_write (EPipe x) = (\<lambda>name shared. shared \<or>
     (let y = map_pipe_expr may_write x in any_asks (pp_left y # pp_callable y # pipe_parts (pp_arguments y)) name shared))"
| "may_write (EExecute x) = any_asks []"
| "may_write (EBashExec x) = any_asks (bx_args (map_bash_exec may_write x))"
| "may_write (ERound x) = (let y = map_round_expr may_write x in any_asks (ro_expr y # precision_parts (ro_precision y)))"
| "may_write (ETrunc x) = (let y = map_trunc_expr may_write x in any_asks (tr_expr y # precision_parts (tr_precision y)))"
| "may_write (ENumericCast x) = nc_expr (map_numeric_cast may_write x)"
| "may_write (EErrorCheck x) = ec_expr (map_error_check may_write x)"
| "may_write (EErrorConstruct x) = eco_message (map_error_construct may_write x)"
| "may_write (EErrorPropagate x) = ep_expr (map_error_propagate may_write x)"
| "may_write (EDeepIndex x) = (let y = map_deep_index may_write x in any_asks (di_array y # path_parts [di_path y]))"
| "may_write (EFlatExtract x) = (let y = map_flat_extract may_write x in any_asks (fe_array y # path_parts (fe_paths y)))"
| "may_write (EStructuredExtract x) = (let y = map_structured_extract may_write x
     in any_asks (se_array y # concat (map (\<lambda>g. path_parts (eg_paths g)) (se_groups y))))"
| "may_write (ETerminalSize x) = any_asks []"
| "stmt_may_write (SOutput x) = out_exprs (map_output_stmt may_write x)"
| "stmt_may_write (SAssignment x) = [as_value (map_assignment may_write x)]"
| "stmt_may_write (SConstDecl x) = [cd_value (map_const_decl may_write x)]"
| "stmt_may_write (SDestructureAssign x) = [da_value (map_destructure_assign may_write x)]"
| "stmt_may_write (SLifetimeEnd x) = []"
| "stmt_may_write (SInput x) = []"
| "stmt_may_write (SIf x) = (let y = map_if_stmt may_write stmt_may_write x
     in if_condition y # block_parts (if_then y) @
        concat (map (\<lambda>b. ei_condition b # block_parts (ei_block b)) (if_else_ifs y)) @
        (case if_else y of None \<Rightarrow> [] | Some b \<Rightarrow> block_parts b))"
| "stmt_may_write (SLoop x) = (let y = map_loop_stmt may_write stmt_may_write x
     in opt_list (lp_condition y) @ opt_list (lp_iterable y) @ block_parts (lp_body y))"
| "stmt_may_write (SBreak x) = []"
| "stmt_may_write (SContinue x) = []"
| "stmt_may_write (STry x) = (let y = map_try_stmt stmt_may_write x
     in block_parts (try_block y) @ concat (map (\<lambda>c. block_parts (cc_block c)) (try_catches y)) @
        (case try_finally y of None \<Rightarrow> [] | Some f \<Rightarrow> block_parts (fc_block f)))"
| "stmt_may_write (SNewline x) = []"
| "stmt_may_write (SFunctionDecl x) = []"
| "stmt_may_write (SReturn x) = opt_list (rt_value (map_return_stmt may_write x))"
| "stmt_may_write (SMatch x) = match_stmt_parts (map_match_expr may_write stmt_may_write x)"
| "stmt_may_write (SExpr x) = [es_expr (map_expr_stmt may_write x)]"
| "stmt_may_write (SCliArgsCapture x) = []"
| "stmt_may_write (SSetNumeralMode b x) = []"
| "stmt_may_write (SSleep x) = [slp_duration (map_sleep_stmt may_write x)]"
| "stmt_may_write (SKeyInput x) = []"
| "stmt_may_write (SClearScreen x) = []"
| "stmt_may_write (SOutputPos x) = (let y = map_output_pos may_write x
     in concat (map opt_list (op_slots y)) @ op_items y)"
| "stmt_may_write (STuiBlock x) = block_parts (tui_body (map_tui_block stmt_may_write x))"

definition operand_may_write :: "expr \<Rightarrow> ustring \<Rightarrow> bool \<Rightarrow> bool" where
  "operand_may_write e x shared = may_write e x shared"

definition operands_may_write :: "interp \<Rightarrow> ustring \<Rightarrow> expr list \<Rightarrow> bool" where
  "operands_may_write s x es =
     (if list_all plain_operand es then False
      else let shared = is_module_state s x in list_ex (\<lambda>e. operand_may_write e x shared) es)"

section \<open>Free names\<close>

text \<open>
  The world outside the engine, as far as the engine asks it: the powers and the logarithm of
  doubles, the Unicode properties of a character, what a function written in Rust answers, the
  schedule the last-use analysis gives a body (which names may be destroyed after which statement)
  and the names of a program it leaves alone, whether the thread's stack is nearly spent, what the
  library's sort makes of elements that have no order, and the handlers that drive the terminal,
  files and other programs.
\<close>

record host =
  h_powf :: "f64 \<Rightarrow> f64 \<Rightarrow> f64"
  h_powi :: "f64 \<Rightarrow> int \<Rightarrow> f64"
  h_log10 :: "f64 \<Rightarrow> f64"
  h_alphabetic :: "uchar \<Rightarrow> bool"
  h_alphanumeric :: "uchar \<Rightarrow> bool"
  h_native :: "ustring \<Rightarrow> zvalue list \<Rightarrow> span \<Rightarrow> runtime_error + zvalue"
  h_schedule :: "statement list \<Rightarrow> ustring list \<Rightarrow> ustring set \<Rightarrow> (nat \<times> ustring list) list"
  h_exclusions :: "statement list \<Rightarrow> ustring set"
  h_stack_spent :: "interp \<Rightarrow> bool"
  h_sort_unordered :: "zvalue list \<Rightarrow> zvalue list"
  h_other_expr :: "expr \<Rightarrow> zvalue comp"
  h_other_stmt :: "statement \<Rightarrow> unit comp"

definition host_ok :: "host \<Rightarrow> bool" where
  "host_ok h \<longleftrightarrow> (\<forall>e. keeps (h_other_expr h e)) \<and> (\<forall>c. keeps (h_other_stmt h c))"

lemma host_okD [keeps_rules]: "host_ok h \<Longrightarrow> keeps (h_other_expr h e)" "host_ok h \<Longrightarrow> keeps (h_other_stmt h c)"
  by (simp_all add: host_ok_def)

type_synonym namer = "ustring list \<Rightarrow> ustring list"
type_synonym stmt_namer = "ustring list \<Rightarrow> ustring list \<times> ustring list"

definition join_refs :: "namer list \<Rightarrow> namer" where
  "join_refs rs locals = remdups (concat (map (\<lambda>r. r locals) rs))"

text \<open>The statements of a block in turn, each seeing the names the ones before it bound.\<close>

fun block_refs :: "stmt_namer list \<Rightarrow> namer" where
  "block_refs [] locals = []"
| "block_refs (r # rs) locals = (case r locals of (locals', names) \<Rightarrow> remdups (names @ block_refs rs locals'))"

definition opt_block_refs :: "stmt_namer block option \<Rightarrow> namer" where
  "opt_block_refs z locals = (case z of None \<Rightarrow> [] | Some b \<Rightarrow> block_refs (blk_statements b) locals)"

definition match_refs :: "(namer, stmt_namer) match_expr \<Rightarrow> namer" where
  "match_refs m = join_refs (m_scrutinee m # concat (map (\<lambda>c.
     opt_list (mc_value c) @ [opt_block_refs (mc_block c)]) (m_cases m)))"

definition lambda_refs :: "(namer, stmt_namer) lambda_body \<Rightarrow> namer" where
  "lambda_refs b locals = (case b of LamExpr r \<Rightarrow> r locals | LamBlock b \<Rightarrow> block_refs (blk_statements b) locals)"

definition literal_refs :: "host \<Rightarrow> literal \<Rightarrow> namer" where
  "literal_refs h l locals = (case l of
      LInterpolated s \<Rightarrow> filter (\<lambda>x. x \<notin> set locals)
        (remdups (interpolated_names (h_alphabetic h) (h_alphanumeric h) s))
    | _ \<Rightarrow> [])"

definition name_ref :: "ustring \<Rightarrow> namer" where
  "name_ref x locals = (if x \<in> set locals then [] else [x])"

definition stmt_reads :: "namer list \<Rightarrow> stmt_namer" where
  "stmt_reads rs locals = (locals, join_refs rs locals)"

definition stmt_binds :: "ustring \<Rightarrow> namer \<Rightarrow> stmt_namer" where
  "stmt_binds x r locals = (x # locals, r locals)"

primrec expr_refs :: "host \<Rightarrow> expr \<Rightarrow> namer" and stmt_refs :: "host \<Rightarrow> statement \<Rightarrow> stmt_namer" where
  "expr_refs h (ELiteral x) = literal_refs h (lit_value x)"
| "expr_refs h (EIdentifier x) = name_ref (id_name x)"
| "expr_refs h (EBinary x) = (let y = map_binary_expr (expr_refs h) x in join_refs [bin_left y, bin_right y])"
| "expr_refs h (EUnary x) = un_operand (map_unary_expr (expr_refs h) x)"
| "expr_refs h (ERange x) = (let y = map_range_expr (expr_refs h) x in join_refs (rng_start y # rng_end y # opt_list (rng_step y)))"
| "expr_refs h (EArrayLiteral x) = (let y = map_array_literal (expr_refs h) x in join_refs (arr_elements y))"
| "expr_refs h (ETuple x) = (let y = map_tuple_expr (expr_refs h) x in join_refs (tup_elements y))"
| "expr_refs h (EGroup x) = grp_expr (map_group_expr (expr_refs h) x)"
| "expr_refs h (ENamedTuple x) = (let y = map_named_tuple (expr_refs h) x in join_refs (map snd (nt_fields y)))"
| "expr_refs h (EMemberAccess x) = mem_object (map_member_access (expr_refs h) x)"
| "expr_refs h (EIndex x) = (let y = map_index_expr (expr_refs h) x in join_refs [ix_array y, ix_index y])"
| "expr_refs h (EFunctionCall x) = (let y = map_function_call (expr_refs h) x in join_refs (call_callable y # call_arguments y))"
| "expr_refs h (EMatch x) = match_refs (map_match_expr (expr_refs h) (stmt_refs h) x)"
| "expr_refs h (ELength x) = len_collection (map_length_expr (expr_refs h) x)"
| "expr_refs h (EAppend x) = (let y = map_append_expr (expr_refs h) x in join_refs [app_collection y, app_element y])"
| "expr_refs h (EInsert x) = (let y = map_insert_expr (expr_refs h) x in join_refs [ins_collection y, ins_index y, ins_element y])"
| "expr_refs h (ERemoveValue x) = (let y = map_remove_value_expr (expr_refs h) x in join_refs [rv_collection y, rv_value y])"
| "expr_refs h (ERemoveAll x) = (let y = map_remove_all_expr (expr_refs h) x in join_refs [ra_collection y, ra_value y])"
| "expr_refs h (ERemoveAt x) = (let y = map_remove_at_expr (expr_refs h) x in join_refs [rat_collection y, rat_index y])"
| "expr_refs h (ERemoveRange x) = (let y = map_remove_range_expr (expr_refs h) x in join_refs (rr_collection y # opt_list (rr_start y) @ opt_list (rr_end y)))"
| "expr_refs h (EContains x) = (let y = map_contains_expr (expr_refs h) x in join_refs [con_collection y, con_element y])"
| "expr_refs h (EFindAll x) = (let y = map_find_all_expr (expr_refs h) x in join_refs [fa_collection y, fa_value y])"
| "expr_refs h (EUpdate x) = (let y = map_update_expr (expr_refs h) x in join_refs [upd_target y, upd_value y])"
| "expr_refs h (ESlice x) = (let y = map_slice_expr (expr_refs h) x in join_refs (sl_collection y # opt_list (sl_start y) @ opt_list (sl_end y)))"
| "expr_refs h (EStringRepeat x) = (let y = map_repeat_expr (expr_refs h) x in join_refs [rep_string y, rep_count y])"
| "expr_refs h (EStringReplace x) = (let y = map_replace_expr (expr_refs h) x in join_refs (rpl_string y # rpl_pattern y # rpl_replacement y # opt_list (rpl_count y)))"
| "expr_refs h (EStringSplit x) = (let y = map_split_expr (expr_refs h) x in join_refs [sp_string y, sp_delimiter y])"
| "expr_refs h (EConcatBuild x) = (let y = map_concat_build (expr_refs h) x in join_refs (cb_base y # cb_items y))"
| "expr_refs h (ENumericEval x) = ne_expr (map_numeric_eval (expr_refs h) x)"
| "expr_refs h (ETypeMetadata x) = tm_expr (map_type_metadata (expr_refs h) x)"
| "expr_refs h (EFormat x) = (let y = map_format_expr (expr_refs h) x in join_refs (fmt_expr y # precision_op_parts (fmt_precision y)))"
| "expr_refs h (EBaseConversion x) = bc_expr (map_base_conversion (expr_refs h) x)"
| "expr_refs h (ELambda x) = (\<lambda>locals. lambda_refs (lam_body (map_lambda_expr (expr_refs h) (stmt_refs h) x)) (lam_params x @ locals))"
| "expr_refs h (EMap x) = (let y = map_map_expr (expr_refs h) x in join_refs [map_collection y, map_lambda y])"
| "expr_refs h (EFilter x) = (let y = map_filter_expr (expr_refs h) x in join_refs [flt_collection y, flt_lambda y])"
| "expr_refs h (EReduce x) = (let y = map_reduce_expr (expr_refs h) x in join_refs [red_collection y, red_initial y, red_lambda y])"
| "expr_refs h (ESortAsc x) = (let y = map_sort_expr (expr_refs h) x in join_refs (srt_collection y # opt_list (srt_comparator y)))"
| "expr_refs h (ESortDesc x) = (let y = map_sort_expr (expr_refs h) x in join_refs (srt_collection y # opt_list (srt_comparator y)))"
| "expr_refs h (ESortCustom x) = (let y = map_sort_expr (expr_refs h) x in join_refs (srt_collection y # opt_list (srt_comparator y)))"
| "expr_refs h (EPipe x) = (let y = map_pipe_expr (expr_refs h) x in join_refs (pp_left y # pp_callable y # pipe_parts (pp_arguments y)))"
| "expr_refs h (EExecute x) = (\<lambda>locals. [])"
| "expr_refs h (EBashExec x) = (\<lambda>locals. [])"
| "expr_refs h (ERound x) = (let y = map_round_expr (expr_refs h) x in join_refs (ro_expr y # precision_parts (ro_precision y)))"
| "expr_refs h (ETrunc x) = (let y = map_trunc_expr (expr_refs h) x in join_refs (tr_expr y # precision_parts (tr_precision y)))"
| "expr_refs h (ENumericCast x) = nc_expr (map_numeric_cast (expr_refs h) x)"
| "expr_refs h (EErrorCheck x) = ec_expr (map_error_check (expr_refs h) x)"
| "expr_refs h (EErrorConstruct x) = eco_message (map_error_construct (expr_refs h) x)"
| "expr_refs h (EErrorPropagate x) = ep_expr (map_error_propagate (expr_refs h) x)"
| "expr_refs h (EDeepIndex x) = (let y = map_deep_index (expr_refs h) x in join_refs (di_array y # path_parts [di_path y]))"
| "expr_refs h (EFlatExtract x) = (let y = map_flat_extract (expr_refs h) x in join_refs (fe_array y # path_parts (fe_paths y)))"
| "expr_refs h (EStructuredExtract x) = (let y = map_structured_extract (expr_refs h) x in join_refs (se_array y # concat (map (\<lambda>g. path_parts (eg_paths g)) (se_groups y))))"
| "expr_refs h (ETerminalSize x) = (\<lambda>locals. [])"
| "stmt_refs h (SOutput x) = stmt_reads (out_exprs (map_output_stmt (expr_refs h) x))"
| "stmt_refs h (SAssignment x) = stmt_binds (as_name x) (as_value (map_assignment (expr_refs h) x))"
| "stmt_refs h (SConstDecl x) = stmt_binds (cd_name x) (cd_value (map_const_decl (expr_refs h) x))"
| "stmt_refs h (SDestructureAssign x) = stmt_reads [da_value (map_destructure_assign (expr_refs h) x)]"
| "stmt_refs h (SLifetimeEnd x) = stmt_reads []"
| "stmt_refs h (SInput x) = stmt_reads []"
| "stmt_refs h (SIf x) = (let y = map_if_stmt (expr_refs h) (stmt_refs h) x
     in stmt_reads [if_condition y, block_refs (blk_statements (if_then y))])"
| "stmt_refs h (SLoop x) = stmt_reads [block_refs (blk_statements (lp_body (map_loop_stmt (expr_refs h) (stmt_refs h) x)))]"
| "stmt_refs h (SBreak x) = stmt_reads []"
| "stmt_refs h (SContinue x) = stmt_reads []"
| "stmt_refs h (STry x) = stmt_reads []"
| "stmt_refs h (SNewline x) = stmt_reads []"
| "stmt_refs h (SFunctionDecl x) = stmt_reads []"
| "stmt_refs h (SReturn x) = stmt_reads (opt_list (rt_value (map_return_stmt (expr_refs h) x)))"
| "stmt_refs h (SMatch x) = stmt_reads []"
| "stmt_refs h (SExpr x) = stmt_reads [es_expr (map_expr_stmt (expr_refs h) x)]"
| "stmt_refs h (SCliArgsCapture x) = stmt_reads []"
| "stmt_refs h (SSetNumeralMode b x) = stmt_reads []"
| "stmt_refs h (SSleep x) = stmt_reads []"
| "stmt_refs h (SKeyInput x) = stmt_reads []"
| "stmt_refs h (SClearScreen x) = stmt_reads []"
| "stmt_refs h (SOutputPos x) = stmt_reads []"
| "stmt_refs h (STuiBlock x) = stmt_reads []"

definition collect_refs_in_body :: "host \<Rightarrow> (expr, statement) lambda_body \<Rightarrow> namer" where
  "collect_refs_in_body h b = lambda_refs (map_lambda_body (expr_refs h) (stmt_refs h) b)"

definition collect_refs_in_stmts :: "host \<Rightarrow> statement list \<Rightarrow> namer" where
  "collect_refs_in_stmts h sts = block_refs (map (stmt_refs h) sts)"

section \<open>Functions as values\<close>

definition capture_only :: "interp \<Rightarrow> ustring list \<Rightarrow> (ustring \<times> zvalue) list" where
  "capture_only s names = concat (map (\<lambda>x. case lookup x (scope_stack s) of Some v \<Rightarrow> [(x, v)] | None \<Rightarrow> []) names)"

definition func_def_to_value :: "host \<Rightarrow> interp \<Rightarrow> nat \<times> function_def \<Rightarrow> function_value" where
  "func_def_to_value h s d =
     (case snd d of
        FnNative _ _ \<Rightarrow> FunctionValue [] (LamBlock (Block [] no_span)) [] False IdNative []
      | FnZymbol params body origin free \<Rightarrow>
          FunctionValue (map pa_name params) (LamBlock body)
            (capture_only s (collect_refs_in_stmts h (blk_statements body) (map pa_name params)))
            True (IdNamed (fst d) (snd d)) (import_aliases s))"

text \<open>A closure is numbered when it is made, so that no two evaluations of a lambda are the same
  function.\<close>

definition eval_lambda :: "host \<Rightarrow> (expr, statement) lambda_expr \<Rightarrow> zvalue comp" where
  "eval_lambda h l = reading (\<lambda>s.
     bindc (modify (\<lambda>s. s\<lparr>next_lambda := next_lambda s + 1\<rparr>)) (\<lambda>_.
     ret (VFunction (FunctionValue (lam_params l) (lam_body l)
       (capture_only s (collect_refs_in_body h (lam_body l) (lam_params l))) False
       (IdLambda (next_lambda s)) (import_aliases s)))))"

definition register_function :: "host \<Rightarrow> statement function_decl \<Rightarrow> interp \<Rightarrow> interp" where
  "register_function h d s =
     (let normal = filter (\<lambda>p. pa_kind p = ParamNormal) (fd_parameters d);
          others = filter (\<lambda>p. pa_kind p \<noteq> ParamNormal) (fd_parameters d);
          free = h_schedule h (blk_statements (fd_body d)) (map pa_name normal)
                   (auto_free_excluded s \<union> set (map pa_name others));
          def = FnZymbol (fd_parameters d) (fd_body d) (current_file s) free
      in s\<lparr>fn_table := (fn_table s)(fd_name d \<mapsto> (next_definition s, def)),
           next_definition := next_definition s + 1\<rparr>)"

lemma eval_lambda_keeps [keeps_rules]: "keeps (eval_lambda h l)"
  unfolding eval_lambda_def by (intro keeps_rules) (simp add: shape_def stacks_ok_def)

lemma register_function_shape [store_simps]:
  "stacks_ok (register_function h d s) = stacks_ok s" "shape (register_function h d s) = shape s"
  by (simp_all add: register_function_def Let_def shape_def stacks_ok_def)

end
