(* ===== verification/ZyControl.thy ===== *)
theory ZyControl imports ZyRefs ZyCollect begin

text \<open>
  Statements that decide what runs next (crates/zymbol-interpreter/src/if_stmt.rs, loops.rs,
  match_stmt.rs and execute_try of lib.rs), destructuring and literals.  A signal, a return or the
  exit of a loop, is left in the state; whatever runs a list of statements looks for it after each.
\<close>

section \<open>Blocks\<close>

text \<open>A list of statements up to the first signal.\<close>

primrec run_stmts :: "engine \<Rightarrow> statement list \<Rightarrow> unit comp" where
  "run_stmts E [] = ret ()"
| "run_stmts E (c # cs) =
     bindc (exec E c) (\<lambda>_. reading (\<lambda>s. if has_control_flow s then ret () else run_stmts E cs))"

definition execute_block_no_scope :: "engine \<Rightarrow> statement block \<Rightarrow> unit comp" where
  "execute_block_no_scope E b = run_stmts E (blk_statements b)"

text \<open>A scope around a computation: an error leaves it where it stands.\<close>

definition in_scope :: "unit comp \<Rightarrow> unit comp" where
  "in_scope m = bindc (modify push_scope) (\<lambda>_. bindc m (\<lambda>_. modify pop_scope))"

definition execute_block :: "engine \<Rightarrow> statement block \<Rightarrow> unit comp" where
  "execute_block E b = in_scope (run_stmts E (blk_statements b))"

text \<open>Statements with the names each may destroy once it is done.\<close>

fun run_scheduled :: "engine \<Rightarrow> (nat \<times> ustring list) list \<Rightarrow> nat \<Rightarrow> statement list \<Rightarrow> unit comp" where
  "run_scheduled E schedule i [] = ret ()"
| "run_scheduled E schedule i (c # cs) =
     bindc (exec E c) (\<lambda>_. reading (\<lambda>s.
       if has_control_flow s then ret ()
       else bindc (modify (fold auto_destroy_variable (case map_of schedule i of Some xs \<Rightarrow> xs | None \<Rightarrow> []))) (\<lambda>_.
            run_scheduled E schedule (Suc i) cs)))"

definition execute_body_scheduled :: "engine \<Rightarrow> statement block \<Rightarrow> (nat \<times> ustring list) list \<Rightarrow> unit comp" where
  "execute_body_scheduled E b schedule =
     (if schedule = [] then execute_block_no_scope E b else run_scheduled E schedule 0 (blk_statements b))"

section \<open>Conditionals\<close>

definition declares :: "statement \<Rightarrow> bool" where
  "declares c = (case c of SAssignment _ \<Rightarrow> True | SConstDecl _ \<Rightarrow> True | SDestructureAssign _ \<Rightarrow> True | _ \<Rightarrow> False)"

definition needs_own_scope :: "statement block \<Rightarrow> bool" where
  "needs_own_scope b = list_ex declares (blk_statements b)"

definition condition :: "zvalue \<Rightarrow> expr \<Rightarrow> runtime_error + bool" where
  "condition v e = (case v of VBool b \<Rightarrow> Inr b
     | _ \<Rightarrow> Inl (kinded ''Type'' (U ''a condition must be a Bool, got '' @ type_ident v) (expr_span e)))"

definition run_branch :: "engine \<Rightarrow> statement block \<Rightarrow> unit comp" where
  "run_branch E b = (if needs_own_scope b then execute_block E b else execute_block_no_scope E b)"

fun run_else_ifs :: "engine \<Rightarrow> (expr, statement) else_if list \<Rightarrow> statement block option \<Rightarrow> unit comp" where
  "run_else_ifs E [] else_block = (case else_block of Some b \<Rightarrow> run_branch E b | None \<Rightarrow> ret ())"
| "run_else_ifs E (br # brs) else_block =
     bindc (eval E (ei_condition br)) (\<lambda>v.
     bindc (lift (condition v (ei_condition br))) (\<lambda>b.
       if b then run_branch E (ei_block br) else run_else_ifs E brs else_block))"

definition execute_if :: "engine \<Rightarrow> (expr, statement) if_stmt \<Rightarrow> unit comp" where
  "execute_if E c =
     bindc (eval E (if_condition c)) (\<lambda>v.
     bindc (lift (condition v (if_condition c))) (\<lambda>b.
       if b then run_branch E (if_then c) else run_else_ifs E (if_else_ifs c) (if_else c)))"

section \<open>Destructuring\<close>

definition is_rest :: "destructure_item \<Rightarrow> bool" where
  "is_rest i = (case i of DRest _ \<Rightarrow> True | _ \<Rightarrow> False)"

definition wrap_rest :: "bool \<Rightarrow> zvalue list \<Rightarrow> zvalue" where
  "wrap_rest is_tuple vs = (if is_tuple then VTuple vs else VArray vs)"

text \<open>What the last name of a pattern takes: nothing, the value left, or what is left together.\<close>

definition absorbed :: "bool \<Rightarrow> zvalue list \<Rightarrow> zvalue" where
  "absorbed is_tuple vs = (case vs of [] \<Rightarrow> VUnit | [v] \<Rightarrow> v | _ \<Rightarrow> wrap_rest is_tuple vs)"

definition item_or_unit :: "zvalue list \<Rightarrow> nat \<Rightarrow> zvalue" where
  "item_or_unit vs i = (if i < length vs then vs ! i else VUnit)"

definition trailing_items :: "destructure_item list \<Rightarrow> nat" where
  "trailing_items items = length (takeWhile (\<lambda>i. \<not> is_rest i) (rev items))"

definition rest_end :: "destructure_item list \<Rightarrow> zvalue list \<Rightarrow> nat \<Rightarrow> nat" where
  "rest_end items vs idx =
     (let trailing = trailing_items items
      in if 0 < trailing \<and> idx + trailing < length vs then length vs - trailing else length vs)"

text \<open>The values the names of a pattern take, in order: all the items, the ones not yet bound, and how many
  values are used up.\<close>

fun positional_bindings ::
    "bool \<Rightarrow> destructure_item list \<Rightarrow> zvalue list \<Rightarrow> destructure_item list \<Rightarrow> nat \<Rightarrow> (ustring \<times> zvalue) list"
where
  "positional_bindings is_tuple items vs [] idx = []"
| "positional_bindings is_tuple items vs (i # is) idx =
     (let absorbs = \<not> list_ex is_rest items \<and> is = [];
          next = (if absorbs then length vs else idx + 1)
      in case i of
           DBind x \<Rightarrow>
             (x, if absorbs then absorbed is_tuple (drop idx vs) else item_or_unit vs idx) #
             positional_bindings is_tuple items vs is next
         | DRest x \<Rightarrow>
             (let stop = rest_end items vs idx
              in (x, wrap_rest is_tuple (if idx \<le> stop then list_slice idx stop vs else [])) #
                 positional_bindings is_tuple items vs is stop)
         | DIgnore \<Rightarrow> positional_bindings is_tuple items vs is next)"

definition bind_all :: "(ustring \<times> zvalue) list \<Rightarrow> interp \<Rightarrow> interp" where
  "bind_all bs = fold (\<lambda>(x, v). set_variable x v) bs"

definition bind_positional :: "destructure_item list \<Rightarrow> zvalue list \<Rightarrow> bool \<Rightarrow> interp \<Rightarrow> interp" where
  "bind_positional items vs is_tuple = bind_all (positional_bindings is_tuple items vs items 0)"

fun bind_fields :: "(ustring \<times> ustring) list \<Rightarrow> (ustring \<times> zvalue) list \<Rightarrow> span \<Rightarrow> unit comp" where
  "bind_fields [] d sp = ret ()"
| "bind_fields ((field, x) # fs) d sp =
     (case map_of d field of
        Some v \<Rightarrow> bindc (modify (set_variable x v)) (\<lambda>_. bind_fields fs d sp)
      | None \<Rightarrow> raise (missing_key field d sp))"

definition bind_destructure_pattern :: "destructure_pattern \<Rightarrow> zvalue \<Rightarrow> span \<Rightarrow> unit comp" where
  "bind_destructure_pattern p rhs sp =
     (case p of
        DArray items \<Rightarrow>
          (case rhs of VArray xs \<Rightarrow> modify (bind_positional items xs False)
           | _ \<Rightarrow> raise (EGeneric (U ''array pattern '' @ quoted (U ''[ '' @ 0x2026 # U '' ]'') @
                   U '' requires an array, got '' @ type_label rhs) sp))
      | DPositional items \<Rightarrow>
          (case rhs of VTuple xs \<Rightarrow> modify (bind_positional items xs True)
           | _ \<Rightarrow> raise (EGeneric (U ''tuple pattern '' @ quoted (U ''( '' @ 0x2026 # U '' )'') @
                   U '' requires a tuple, got '' @ type_label rhs) sp))
      | DNamedTuple fs \<Rightarrow>
          (case rhs of VNamedTuple d \<Rightarrow> bind_fields fs d sp
           | _ \<Rightarrow> raise (EGeneric (U ''the pattern #('' @ 0x2026 # U '') requires a dictionary, got '' @ type_label rhs @
                   10 # U ''help: #(key: name) = d unpacks a dictionary; use (a, b) for a tuple, [a, b] for an array'') sp)))"

definition eval_destructure_assign :: "engine \<Rightarrow> expr destructure_assign \<Rightarrow> unit comp" where
  "eval_destructure_assign E d =
     bindc (eval E (da_value d)) (\<lambda>rhs. bind_destructure_pattern (da_pattern d) rhs (da_span d))"

section \<open>Loops\<close>

definition rhs_has_hot_self_ref :: "expr \<Rightarrow> ustring \<Rightarrow> bool" where
  "rhs_has_hot_self_ref e x =
     (let hot_self = (\<lambda>r. case as_identifier r of Some i \<Rightarrow> hot_name i \<and> id_name i = x | None \<Rightarrow> False)
      in case e of
           EAppend op \<Rightarrow> hot_self (app_collection op)
         | EBinary op \<Rightarrow> hot_self (bin_left op)
         | _ \<Rightarrow> False)"

definition needs_fresh_scope :: "interp \<Rightarrow> statement \<Rightarrow> bool" where
  "needs_fresh_scope s c =
     (case c of
        SAssignment a \<Rightarrow>
          \<not> (as_hot a \<or> as_pre_hot a \<or> rhs_has_hot_self_ref (as_value a) (as_name a)) \<and> get_variable s (as_name a) = None
      | SConstDecl _ \<Rightarrow> True
      | SDestructureAssign _ \<Rightarrow> True
      | _ \<Rightarrow> False)"

definition body_needs_own_scope :: "statement block \<Rightarrow> interp \<Rightarrow> bool" where
  "body_needs_own_scope b s = list_ex (needs_fresh_scope s) (blk_statements b)"

text \<open>Whether the loop stops, taking the signals addressed to it.\<close>

definition handle_loop_control :: "ustring option \<Rightarrow> bool comp" where
  "handle_loop_control label = reading (\<lambda>s.
     if \<not> has_control_flow s then ret False
     else case control_flow s of
            CfBreak l \<Rightarrow>
              if l = None \<or> l = label then bindc (modify clear_control_flow) (\<lambda>_. ret True) else ret True
          | CfContinue l \<Rightarrow>
              if l = None \<or> l = label then bindc (modify clear_control_flow) (\<lambda>_. ret False) else ret True
          | CfReturn _ \<Rightarrow> ret True
          | CfNone \<Rightarrow> ret False)"

definition loop_turn :: "engine \<Rightarrow> (expr, statement) loop_stmt \<Rightarrow> bool \<Rightarrow> bool comp" where
  "loop_turn E l needs_scope =
     bindc (if needs_scope then execute_block E (lp_body l) else execute_block_no_scope E (lp_body l)) (\<lambda>_.
     handle_loop_control (lp_label l))"

text \<open>A turn for each element, so many turns, a turn for each position of a range, and turns while
  a condition holds.  The counter of a range is an i64 that wraps, so a range whose step passes the end of
  the machine's integers need not end: it takes fuel, as the loop on a condition does.\<close>

primrec for_each :: "('v \<Rightarrow> unit comp) \<Rightarrow> bool comp \<Rightarrow> 'v list \<Rightarrow> unit comp" where
  "for_each bind turn [] = ret ()"
| "for_each bind turn (v # vs) =
     bindc (bind v) (\<lambda>_. bindc turn (\<lambda>stop. if stop then ret () else for_each bind turn vs))"

primrec times_loop :: "bool comp \<Rightarrow> nat \<Rightarrow> unit comp" where
  "times_loop turn 0 = ret ()"
| "times_loop turn (Suc n) = bindc turn (\<lambda>stop. if stop then ret () else times_loop turn n)"

definition past_the_end :: "bool \<Rightarrow> int \<Rightarrow> int \<Rightarrow> bool" where
  "past_the_end forward stop_at current \<longleftrightarrow> (forward \<and> current > stop_at) \<or> (\<not> forward \<and> current < stop_at)"

primrec range_loop :: "nat \<Rightarrow> (int \<Rightarrow> unit comp) \<Rightarrow> bool comp \<Rightarrow> bool \<Rightarrow> int \<Rightarrow> int \<Rightarrow> int \<Rightarrow> unit comp" where
  "range_loop 0 bind turn forward step stop_at current = (if past_the_end forward stop_at current then ret () else no_fuel)"
| "range_loop (Suc n) bind turn forward step stop_at current =
     (if past_the_end forward stop_at current then ret ()
      else bindc (bind current) (\<lambda>_. bindc turn (\<lambda>stop.
             if stop then ret ()
             else range_loop n bind turn forward step stop_at
                    (wrap_i64 (if forward then current + step else current - step)))))"

primrec while_loop :: "nat \<Rightarrow> bool comp \<Rightarrow> bool comp \<Rightarrow> bool \<Rightarrow> unit comp" where
  "while_loop 0 cond turn keep_going = (if keep_going then no_fuel else ret ())"
| "while_loop (Suc n) cond turn keep_going =
     (if \<not> keep_going then ret ()
      else bindc turn (\<lambda>stop. if stop then ret () else bindc cond (\<lambda>next. while_loop n cond turn next)))"

definition loop_specifier_error :: "zvalue \<Rightarrow> span \<Rightarrow> runtime_error" where
  "loop_specifier_error v sp = EGeneric (U ''loop expects a count or a condition, got '' @ type_word v) sp"

definition while_condition :: "engine \<Rightarrow> expr \<Rightarrow> bool comp" where
  "while_condition E e = bindc (eval E e) (\<lambda>v.
     case v of VBool b \<Rightarrow> ret b | _ \<Rightarrow> raise (loop_specifier_error v (expr_span e)))"

definition eval_iterable :: "engine \<Rightarrow> expr \<Rightarrow> zvalue list comp" where
  "eval_iterable E e = bindc (eval E e) (\<lambda>v. lift (iterable_items v (expr_span e)))"

text \<open>With a pattern a dictionary hands over pairs.  The source evaluates what is not a dictionary
  a second time.\<close>

definition eval_iterable_pairs :: "engine \<Rightarrow> expr \<Rightarrow> zvalue list comp" where
  "eval_iterable_pairs E e = bindc (attempt (eval E e)) (\<lambda>r.
     case r of
       Inr (VNamedTuple d) \<Rightarrow> ret (dict_pairs d)
     | _ \<Rightarrow> eval_iterable E e)"

definition range_step :: "engine \<Rightarrow> expr option \<Rightarrow> int comp" where
  "range_step E z = (case z of
      None \<Rightarrow> ret 1
    | Some e \<Rightarrow> bindc (eval E e) (\<lambda>v.
        case v of
          VInt n \<Rightarrow> if 0 < n then ret n
                    else raise (EGeneric (U ''step must be positive, got '' @ show_int n) (expr_span e))
        | _ \<Rightarrow> raise (kinded ''Type'' (U ''step must be an integer, got '' @ type_label v) (expr_span e))))"

definition range_bounds :: "zvalue \<Rightarrow> zvalue \<Rightarrow> span \<Rightarrow> runtime_error + (int \<times> int)" where
  "range_bounds sv ev sp = (case (sv, ev) of
      (VInt a, VInt b) \<Rightarrow> Inr (a, b)
    | _ \<Rightarrow> Inl (kinded ''Type'' (U ''range bounds must be integers, got '' @ type_label sv @ U '' and '' @ type_label ev) sp))"

definition run_range :: "engine \<Rightarrow> (expr, statement) loop_stmt \<Rightarrow> ustring \<Rightarrow> expr range_expr \<Rightarrow> unit comp" where
  "run_range E l x r =
     bindc (eval E (rng_start r)) (\<lambda>sv.
     bindc (eval E (rng_end r)) (\<lambda>ev.
     bindc (range_step E (rng_step r)) (\<lambda>step.
     bindc (lift (range_bounds sv ev (expr_span (rng_start r)))) (\<lambda>(start, stop_at).
     reading (\<lambda>s.
       range_loop (turns E) (\<lambda>i. modify (set_variable x (VInt i))) (loop_turn E l (body_needs_own_scope (lp_body l) s))
         (start \<le> stop_at) step stop_at start)))))"

definition run_condition_loop :: "engine \<Rightarrow> (expr, statement) loop_stmt \<Rightarrow> expr \<Rightarrow> unit comp" where
  "run_condition_loop E l e =
     bindc (eval E e) (\<lambda>v. reading (\<lambda>s.
       let turn = loop_turn E l (body_needs_own_scope (lp_body l) s)
       in case v of
            VInt n \<Rightarrow> times_loop turn (nat (max n 0))
          | VBool first \<Rightarrow> while_loop (turns E) (while_condition E e) turn first
          | _ \<Rightarrow> raise (loop_specifier_error v (expr_span e))))"

definition run_loop :: "engine \<Rightarrow> (expr, statement) loop_stmt \<Rightarrow> unit comp" where
  "run_loop E l =
     (case (lp_iterator_pattern l, lp_iterator l, lp_iterable l) of
        (Some p, _, Some e) \<Rightarrow>
          bindc (eval_iterable_pairs E e) (\<lambda>vs. reading (\<lambda>s.
            for_each (\<lambda>v. bind_destructure_pattern p v (lp_span l))
              (loop_turn E l (body_needs_own_scope (lp_body l) s)) vs))
      | (_, Some x, Some e) \<Rightarrow>
          (case unwrap_group e of
             ERange r \<Rightarrow> run_range E l x r
           | _ \<Rightarrow> bindc (eval_iterable E e) (\<lambda>vs. reading (\<lambda>s.
               for_each (\<lambda>v. modify (set_variable x v)) (loop_turn E l (body_needs_own_scope (lp_body l) s)) vs)))
      | _ \<Rightarrow>
          (case lp_condition l of
             Some e \<Rightarrow> run_condition_loop E l e
           | None \<Rightarrow> reading (\<lambda>s.
               while_loop (turns E) (ret True) (loop_turn E l (body_needs_own_scope (lp_body l) s)) True)))"

definition in_loop_scope :: "unit comp \<Rightarrow> unit comp" where
  "in_loop_scope m = bindc (modify push_loop_scope) (\<lambda>_. finally_do m pop_loop_scope)"

definition execute_loop :: "engine \<Rightarrow> (expr, statement) loop_stmt \<Rightarrow> unit comp" where
  "execute_loop E l = in_loop_scope (run_loop E l)"

definition execute_break :: "break_stmt \<Rightarrow> unit comp" where
  "execute_break b = modify (set_control_flow (CfBreak (br_label b)))"

definition execute_continue :: "continue_stmt \<Rightarrow> unit comp" where
  "execute_continue c = modify (set_control_flow (CfContinue (ct_label c)))"

section \<open>Literals and interpolation\<close>

text \<open>An escaped brace travels as a control character and becomes a brace again at the end.\<close>

definition restore_braces :: "ustring \<Rightarrow> ustring" where
  "restore_braces s = map (\<lambda>c. if c = 1 then 123 else if c = 2 then 125 else c) s"

datatype piece = PieceText ustring | PieceValue zvalue

definition text_so_far :: "ustring \<Rightarrow> piece list" where
  "text_so_far t = (if t = [] then [] else [PieceText t])"

definition value_of_name :: "host \<Rightarrow> interp \<Rightarrow> ustring \<Rightarrow> zvalue option" where
  "value_of_name h s x =
     (case get_variable s x of
        Some v \<Rightarrow> Some v
      | None \<Rightarrow> map_option (\<lambda>d. VFunction (func_def_to_value h s d)) (fn_table s x))"

definition lost_interpolation :: "ustring \<Rightarrow> span \<Rightarrow> runtime_error" where
  "lost_interpolation x sp = EGeneric (U ''internal: use of '' @ quoted x @
     U '' after auto-destruction (string interpolation) '' @ EM_DASH #
     U '' this is a bug in the last-use analyzer, please report it'') sp"

text \<open>What a name in braces stands for: an error, the value, or the text as it is written.\<close>

definition name_in_text :: "host \<Rightarrow> interp \<Rightarrow> ustring \<Rightarrow> span \<Rightarrow> runtime_error + zvalue option" where
  "name_in_text h s x sp =
     rbind (if dead_variables s x \<noteq> None \<or> is_dead_module_state s x then check_variable_alive s x sp else Inr ()) (\<lambda>_.
     case value_of_name h s x of
       Some v \<Rightarrow> Inr (Some v)
     | None \<Rightarrow> if x \<in> auto_dead_variables s then Inl (lost_interpolation x sp) else Inr None)"

function pieces_loop :: "host \<Rightarrow> interp \<Rightarrow> span \<Rightarrow> ustring \<Rightarrow> ustring \<Rightarrow> runtime_error + piece list" where
  "pieces_loop h s sp acc [] = Inr (text_so_far acc)"
| "pieces_loop h s sp acc (c # cs) =
     (if c = 123 then
        (if 125 \<in> set cs then
           (let x = takeWhile (\<lambda>c. c \<noteq> 125) cs; rest = drop (length x + 1) cs
            in rbind (name_in_text h s x sp) (\<lambda>z.
                 case z of
                   Some v \<Rightarrow> rbind (pieces_loop h s sp [] rest) (\<lambda>ps. Inr (text_so_far acc @ PieceValue v # ps))
                 | None \<Rightarrow> pieces_loop h s sp (acc @ 123 # x @ [125]) rest))
         else pieces_loop h s sp (acc @ [123]) cs)
      else pieces_loop h s sp (acc @ [c]) cs)"
  by pat_completeness auto
termination by (relation "measure (\<lambda>(h, s, sp, acc, cs). length cs)") auto

definition interpolation_pieces :: "host \<Rightarrow> interp \<Rightarrow> ustring \<Rightarrow> span \<Rightarrow> runtime_error + piece list" where
  "interpolation_pieces h s t sp = pieces_loop h s sp [] t"

definition format_value :: "interp \<Rightarrow> zvalue \<Rightarrow> ustring" where
  "format_value s v = display_in (numeral_mode s) v"

definition piece_text :: "interp \<Rightarrow> piece \<Rightarrow> ustring" where
  "piece_text s p = (case p of PieceText t \<Rightarrow> t | PieceValue v \<Rightarrow> format_value s v)"

definition interpolate_string :: "host \<Rightarrow> interp \<Rightarrow> ustring \<Rightarrow> span \<Rightarrow> runtime_error + ustring" where
  "interpolate_string h s t sp = rbind (interpolation_pieces h s t sp) (\<lambda>ps. Inr (concat (map (piece_text s) ps)))"

definition literal_to_value :: "literal \<Rightarrow> zvalue" where
  "literal_to_value l = (case l of
      LString t \<Rightarrow> VString (restore_braces t) | LInterpolated t \<Rightarrow> VString (restore_braces t)
    | LInt n \<Rightarrow> VInt n | LFloat f \<Rightarrow> VFloat f | LChar c \<Rightarrow> VChar c | LBool b \<Rightarrow> VBool b | LUnit \<Rightarrow> VUnit)"

definition eval_literal :: "host \<Rightarrow> literal_expr \<Rightarrow> zvalue comp" where
  "eval_literal h e = (case lit_value e of
      LInterpolated t \<Rightarrow> reading (\<lambda>s.
        lift (rbind (interpolate_string h s t (lit_span e)) (\<lambda>u. Inr (VString (restore_braces u)))))
    | l \<Rightarrow> ret (literal_to_value l))"

section \<open>Patterns\<close>

definition range_bound :: "engine \<Rightarrow> expr \<Rightarrow> zvalue comp" where
  "range_bound E e = (case e of ELiteral l \<Rightarrow> ret (literal_to_value (lit_value l)) | _ \<Rightarrow> eval E e)"

definition in_range_pattern :: "zvalue \<Rightarrow> zvalue \<Rightarrow> zvalue \<Rightarrow> span \<Rightarrow> runtime_error + bool" where
  "in_range_pattern v a b sp =
     (case (v, a, b) of
        (VInt x, VInt lo, VInt hi) \<Rightarrow> Inr (lo \<le> x \<and> x \<le> hi)
      | (VChar x, VChar lo, VChar hi) \<Rightarrow> Inr (lo \<le> x \<and> x \<le> hi)
      | _ \<Rightarrow> Inl (EGeneric (U ''range pattern type mismatch'') sp))"

definition matched :: "bool \<Rightarrow> bool option" where
  "matched b = (if b then Some True else None)"

text \<open>The name of an operator as the source's Debug prints it.\<close>

fun op_name :: "binary_op \<Rightarrow> ustring" where
  "op_name OpAdd = U ''Add''"
| "op_name OpSub = U ''Sub''"
| "op_name OpMul = U ''Mul''"
| "op_name OpDiv = U ''Div''"
| "op_name OpMod = U ''Mod''"
| "op_name OpPow = U ''Pow''"
| "op_name OpEq = U ''Eq''"
| "op_name OpNeq = U ''Neq''"
| "op_name OpLt = U ''Lt''"
| "op_name OpGt = U ''Gt''"
| "op_name OpLe = U ''Le''"
| "op_name OpGe = U ''Ge''"
| "op_name OpAnd = U ''And''"
| "op_name OpOr = U ''Or''"
| "op_name OpPipe = U ''Pipe''"
| "op_name OpComma = U ''Comma''"
| "op_name OpRange = U ''Range''"
| "op_name OpConcat = U ''Concat''"

definition order_test :: "binary_op \<Rightarrow> zvalue \<Rightarrow> zvalue \<Rightarrow> runtime_error + zvalue" where
  "order_test op v r =
     (case op of
        OpLt \<Rightarrow> compare_values (<) flt op v r
      | OpGt \<Rightarrow> compare_values (>) (\<lambda>x y. flt y x) op v r
      | OpLe \<Rightarrow> compare_values (\<le>) fle op v r
      | _ \<Rightarrow> compare_values (\<ge>) (\<lambda>x y. fle y x) op v r)"

definition comparison_pattern :: "binary_op \<Rightarrow> zvalue \<Rightarrow> zvalue \<Rightarrow> span \<Rightarrow> runtime_error + bool option" where
  "comparison_pattern op v r sp =
     (if op \<in> {OpLt, OpGt, OpLe, OpGe} then
        rbind (order_test op v r) (\<lambda>w. case w of VBool b \<Rightarrow> Inr (matched b)
          | _ \<Rightarrow> Inl (EGeneric (U ''comparison pattern did not produce a boolean'') sp))
      else if op = OpEq then Inr (matched (values_equal v r))
      else if op = OpNeq then Inr (matched (\<not> values_equal v r))
      else Inl (EGeneric (U ''unsupported operator in comparison pattern: '' @ op_name op) sp))"

definition ident_pattern :: "host \<Rightarrow> interp \<Rightarrow> ustring \<Rightarrow> zvalue \<Rightarrow> span \<Rightarrow> runtime_error + bool option" where
  "ident_pattern h s x v sp =
     (case get_variable s x of
        Some (VArray elems) \<Rightarrow> Inr (matched (list_ex (values_equal v) elems))
      | Some w \<Rightarrow> Inr (matched (values_equal v w))
      | None \<Rightarrow>
          (case fn_table s x of
             Some d \<Rightarrow> Inr (matched (values_equal v (VFunction (func_def_to_value h s d))))
           | None \<Rightarrow> Inl (EGeneric (U ''undefined variable '' @ quoted x @ U '' in match pattern'') sp)))"

text \<open>An array is matched element by element, anything else is looked for among the alternatives.\<close>

function (sequential) pattern_matches :: "host \<Rightarrow> engine \<Rightarrow> expr pattern \<Rightarrow> zvalue \<Rightarrow> bool option comp"
  and all_match :: "host \<Rightarrow> engine \<Rightarrow> expr pattern list \<Rightarrow> zvalue list \<Rightarrow> bool option comp"
  and any_match :: "host \<Rightarrow> engine \<Rightarrow> expr pattern list \<Rightarrow> zvalue \<Rightarrow> bool option comp"
where
  "pattern_matches h E (PWildcard sp) v = ret (Some True)"
| "pattern_matches h E (PErrorKind kind x sp) v =
     ret (case v of VError e \<Rightarrow> matched (err_type e = kind) | _ \<Rightarrow> None)"
| "pattern_matches h E (PLiteral l sp) v = ret (matched (values_equal (literal_to_value l) v))"
| "pattern_matches h E (PRange a b sp) v =
     bindc (range_bound E a) (\<lambda>x. bindc (range_bound E b) (\<lambda>y.
     bindc (lift (in_range_pattern v x y sp)) (\<lambda>b. ret (matched b))))"
| "pattern_matches h E (PList ps sp) v =
     (case v of
        VArray xs \<Rightarrow> if length ps \<noteq> length xs then ret None else all_match h E ps xs
      | _ \<Rightarrow> any_match h E ps v)"
| "pattern_matches h E (PComparison op e sp) v =
     bindc (eval E e) (\<lambda>r. lift (comparison_pattern op v r sp))"
| "pattern_matches h E (PIdent x sp) v = reading (\<lambda>s. lift (ident_pattern h s x v sp))"
| "pattern_matches h E (POr ps sp) v = any_match h E ps v"
| "all_match h E (p # ps) (x # xs) =
     bindc (pattern_matches h E p x) (\<lambda>m. if m = Some True then all_match h E ps xs else ret None)"
| "all_match h E _ _ = ret (Some True)"
| "any_match h E [] v = ret None"
| "any_match h E (p # ps) v =
     bindc (pattern_matches h E p v) (\<lambda>m. if m = Some True then ret (Some True) else any_match h E ps v)"
  by pat_completeness auto
termination
  by (relation "measure (case_sum (\<lambda>(h, E, p, v). size p)
        (case_sum (\<lambda>(h, E, ps, xs). size_list size ps) (\<lambda>(h, E, ps, v). size_list size ps)))") auto

definition bound_name :: "expr pattern \<Rightarrow> ustring option" where
  "bound_name p = (case p of PErrorKind _ x _ \<Rightarrow> x | _ \<Rightarrow> None)"

section \<open>Matching\<close>

text \<open>A signal the block of an arm leaves unwinds the expression the match is part of.\<close>

definition eval_match_arm :: "engine \<Rightarrow> (expr, statement) match_case \<Rightarrow> zvalue comp" where
  "eval_match_arm E c =
     bindc (case mc_value c of Some e \<Rightarrow> eval E e | None \<Rightarrow> ret VUnit) (\<lambda>v.
       case mc_block c of
         None \<Rightarrow> ret v
       | Some b \<Rightarrow> bindc (execute_block E b) (\<lambda>_. reading (\<lambda>s.
           if has_control_flow s then raise EUnwind else ret v)))"

definition enter_arm :: "expr pattern \<Rightarrow> zvalue \<Rightarrow> interp \<Rightarrow> interp" where
  "enter_arm p v s =
     (case (bound_name p, v) of
        (Some x, VError e) \<Rightarrow> set_variable x (VString (err_message e)) (push_scope s)
      | _ \<Rightarrow> s)"

definition leave_arm :: "expr pattern \<Rightarrow> interp \<Rightarrow> interp" where
  "leave_arm p s = (if bound_name p \<noteq> None then pop_scope s else s)"

primrec eval_cases :: "host \<Rightarrow> engine \<Rightarrow> zvalue \<Rightarrow> span \<Rightarrow> (expr, statement) match_case list \<Rightarrow> zvalue comp" where
  "eval_cases h E v sp [] = raise (EGeneric (U ''no pattern matched in match expression'') sp)"
| "eval_cases h E v sp (c # cs) =
     bindc (pattern_matches h E (mc_pattern c) v) (\<lambda>m.
       if m = Some True
       then bindc (modify (enter_arm (mc_pattern c) v)) (\<lambda>_.
              finally_do (eval_match_arm E c) (leave_arm (mc_pattern c)))
       else eval_cases h E v sp cs)"

definition eval_match :: "host \<Rightarrow> engine \<Rightarrow> (expr, statement) match_expr \<Rightarrow> zvalue comp" where
  "eval_match h E m = bindc (eval E (m_scrutinee m)) (\<lambda>v. eval_cases h E v (m_span m) (m_cases m))"

definition execute_match_statement :: "host \<Rightarrow> engine \<Rightarrow> (expr, statement) match_expr \<Rightarrow> unit comp" where
  "execute_match_statement h E m = bindc (eval_match h E m) (\<lambda>_. ret ())"

section \<open>Errors caught\<close>

definition unwind_scopes_to :: "nat \<Rightarrow> nat \<Rightarrow> interp \<Rightarrow> interp" where
  "unwind_scopes_to scopes loops s =
     (let t = (pop_scope ^^ (length (scope_stack s) - scopes)) s
      in t\<lparr>loop_scope_depths := take loops (loop_scope_depths t)\<rparr>)"

text \<open>The count of enclosing handlers is a byte.\<close>

definition in_try :: "unit comp \<Rightarrow> unit comp" where
  "in_try m = bindc (modify (\<lambda>s. s\<lparr>try_depth := try_depth s + 1\<rparr>)) (\<lambda>_.
     finally_do m (\<lambda>s. s\<lparr>try_depth := try_depth s - 1\<rparr>))"

definition execute_catch_block :: "engine \<Rightarrow> statement catch_clause \<Rightarrow> zvalue \<Rightarrow> unit comp" where
  "execute_catch_block E c err =
     in_scope (bindc (modify (set_variable (U ''_err'') err)) (\<lambda>_. run_stmts E (blk_statements (cc_block c))))"

text \<open>The error still owed after the clauses, and the line it was raised at.\<close>

definition run_clauses :: "engine \<Rightarrow> statement try_stmt \<Rightarrow> nat \<Rightarrow> nat \<Rightarrow> (runtime_error + unit) \<Rightarrow>
    (runtime_error \<times> nat) option comp" where
  "run_clauses E c scopes loops r =
     (case r of
        Inr _ \<Rightarrow> ret None
      | Inl e \<Rightarrow> bindc (modify (unwind_scopes_to scopes loops)) (\<lambda>_. reading (\<lambda>s.
          let raised_at = cur_stmt_line s; err = runtime_error_to_value e
          in case find (\<lambda>cl. catch_matches cl err) (try_catches c) of
               None \<Rightarrow> ret (Some (e, raised_at))
             | Some cl \<Rightarrow> bindc (attempt (in_try (execute_catch_block E cl err))) (\<lambda>caught.
                 case caught of
                   Inr _ \<Rightarrow> ret None
                 | Inl e' \<Rightarrow> bindc (modify (unwind_scopes_to scopes loops)) (\<lambda>_. reading (\<lambda>s.
                     ret (Some (e', cur_stmt_line s))))))))"

text \<open>The finally block runs with no signal pending, and what was pending comes back after it.\<close>

definition run_finally :: "engine \<Rightarrow> statement finally_clause option \<Rightarrow> nat \<Rightarrow> nat \<Rightarrow> unit comp" where
  "run_finally E z scopes loops =
     (case z of
        None \<Rightarrow> ret ()
      | Some f \<Rightarrow> reading (\<lambda>s0.
          bindc (modify (\<lambda>s. s\<lparr>control_flow := CfNone, has_control_flow := False\<rparr>)) (\<lambda>_.
          bindc (attempt (in_try (execute_block E (fc_block f)))) (\<lambda>r.
            case r of
              Inl e \<Rightarrow> bindc (modify (unwind_scopes_to scopes loops)) (\<lambda>_. raise e)
            | Inr _ \<Rightarrow> modify (\<lambda>s. s\<lparr>control_flow := control_flow s0, has_control_flow := has_control_flow s0\<rparr>)))))"

definition execute_try :: "engine \<Rightarrow> statement try_stmt \<Rightarrow> unit comp" where
  "execute_try E c = reading (\<lambda>s0.
     let scopes = length (scope_stack s0); loops = length (loop_scope_depths s0)
     in bindc (attempt (in_try (execute_block E (try_block c)))) (\<lambda>r.
        bindc (run_clauses E c scopes loops r) (\<lambda>pending.
        bindc (run_finally E (try_finally c) scopes loops) (\<lambda>_.
          case pending of
            None \<Rightarrow> ret ()
          | Some (e, raised_at) \<Rightarrow> bindc (modify (\<lambda>s. s\<lparr>cur_stmt_line := raised_at\<rparr>)) (\<lambda>_. raise e)))))"

section \<open>The handlers keep the shape of the store\<close>

lemma grown_push_pop:
  assumes "stacks_ok s" "grown (push_scope s) t"
  shows "grown s (pop_scope t)" and "grown s t"
proof -
  have l: "Suc (length (scope_stack s)) \<le> length (scope_stack t)" "loop_scope_depths t = loop_scope_depths s"
      "module_scope t = module_scope s" "snd (shape t) = snd (shape s)" "stacks_ok t"
    using assms(2) by (auto simp: grown_def shape_def push_scope_def)
  then show "grown s t" by (simp add: grown_def)
  have "stacks_ok (pop_scope t)"
    using l assms(1) by (auto simp: stacks_ok_def pop_scope_def Let_def simp del: length_greater_0_conv)
  then show "grown s (pop_scope t)"
    using l assms(1) by (auto simp: grown_def pop_scope_def Let_def shape_def stacks_ok_def simp del: length_greater_0_conv)
qed

lemma grown_push_pop_loop:
  assumes "stacks_ok s" "grown (push_loop_scope s) t"
  shows "grown s (pop_loop_scope t)"
proof -
  have d: "loop_scope_depths t = loop_scope_depths s @ [length (scope_stack s)]"
    using assms(2) by (auto simp: grown_def shape_def push_loop_scope_def push_scope_def Let_def)
  have "grown (push_scope s) (t\<lparr>loop_scope_depths := butlast (loop_scope_depths t)\<rparr>)"
    using assms d by (auto simp: grown_def shape_def push_loop_scope_def push_scope_def stacks_ok_def Let_def)
  from grown_push_pop(1) [OF assms(1) this] show ?thesis by (simp add: pop_loop_scope_def)
qed

lemma push_scope_ok: "stacks_ok s \<Longrightarrow> stacks_ok (push_scope s)"
  and push_loop_scope_ok: "stacks_ok s \<Longrightarrow> stacks_ok (push_loop_scope s)"
  by (auto simp: push_scope_def push_loop_scope_def stacks_ok_def Let_def less_Suc_eq)

lemma in_scope_keeps [keeps_rules]: "keeps m \<Longrightarrow> keeps (in_scope m)"
  unfolding in_scope_def
  by (rule keeps_around_ok) (auto intro: push_scope_ok grown_push_pop)

lemma in_loop_scope_keeps [keeps_rules]: "keeps m \<Longrightarrow> keeps (in_loop_scope m)"
  unfolding in_loop_scope_def
  by (rule keeps_around) (auto intro: push_loop_scope_ok grown_push_pop_loop)

lemma run_stmts_keeps [keeps_rules]: "engine_ok E \<Longrightarrow> keeps (run_stmts E cs)"
  by (induction cs) (auto intro!: keeps_rules)

lemma block_keeps [keeps_rules]:
  "engine_ok E \<Longrightarrow> keeps (execute_block_no_scope E b)" "engine_ok E \<Longrightarrow> keeps (execute_block E b)"
  "engine_ok E \<Longrightarrow> keeps (run_branch E b)"
  by (auto simp: execute_block_no_scope_def execute_block_def run_branch_def intro!: keeps_rules)

lemma fold_destroy_shape [store_simps]:
  "stacks_ok (fold auto_destroy_variable xs s) = stacks_ok s" "shape (fold auto_destroy_variable xs s) = shape s"
  by (induction xs arbitrary: s) (auto simp: store_simps)

lemma run_scheduled_keeps [keeps_rules]: "engine_ok E \<Longrightarrow> keeps (run_scheduled E schedule i cs)"
  by (induction cs arbitrary: i) (auto intro!: keeps_rules simp: store_simps)

lemma execute_body_scheduled_keeps [keeps_rules]: "engine_ok E \<Longrightarrow> keeps (execute_body_scheduled E b schedule)"
  unfolding execute_body_scheduled_def by (auto intro!: keeps_rules)

lemma run_else_ifs_keeps [keeps_rules]: "engine_ok E \<Longrightarrow> keeps (run_else_ifs E brs z)"
  by (induction brs) (auto intro!: keeps_rules)

lemma execute_if_keeps [keeps_rules]: "engine_ok E \<Longrightarrow> keeps (execute_if E c)"
  unfolding execute_if_def by (auto intro!: keeps_rules)

lemma bind_all_shape [store_simps]:
  "stacks_ok (bind_all bs s) = stacks_ok s" "shape (bind_all bs s) = shape s"
  unfolding bind_all_def by (induction bs arbitrary: s) (auto simp: store_simps)

lemma bind_fields_keeps [keeps_rules]: "keeps (bind_fields fs d sp)"
  by (induction fs) (auto intro!: keeps_rules simp: store_simps)

lemma bind_destructure_keeps [keeps_rules]: "keeps (bind_destructure_pattern p rhs sp)"
  unfolding bind_destructure_pattern_def bind_positional_def
  by (auto intro!: keeps_rules simp: store_simps )

lemma eval_destructure_keeps [keeps_rules]: "engine_ok E \<Longrightarrow> keeps (eval_destructure_assign E d)"
  unfolding eval_destructure_assign_def by (auto intro!: keeps_rules)

lemma handle_loop_control_keeps [keeps_rules]: "keeps (handle_loop_control l)"
  unfolding handle_loop_control_def
  by (auto intro!: keeps_rules simp: store_simps)

lemma loop_turn_keeps [keeps_rules]: "engine_ok E \<Longrightarrow> keeps (loop_turn E l b)"
  unfolding loop_turn_def by (auto intro!: keeps_rules)

lemma for_each_keeps [keeps_rules]: "(\<And>v. keeps (bind v)) \<Longrightarrow> keeps turn \<Longrightarrow> keeps (for_each bind turn vs)"
  by (induction vs) (auto intro!: keeps_rules)

lemma times_loop_keeps [keeps_rules]: "keeps turn \<Longrightarrow> keeps (times_loop turn n)"
  by (induction n) (auto intro!: keeps_rules)

lemma range_loop_keeps [keeps_rules]:
  "(\<And>v. keeps (bind v)) \<Longrightarrow> keeps turn \<Longrightarrow> keeps (range_loop n bind turn fwd step stop_at i)"
  by (induction n arbitrary: i) (auto intro!: keeps_rules)

lemma while_loop_keeps [keeps_rules]: "keeps cond \<Longrightarrow> keeps turn \<Longrightarrow> keeps (while_loop n cond turn b)"
  by (induction n arbitrary: b) (auto intro!: keeps_rules)

lemma eval_iterable_keeps [keeps_rules]: "engine_ok E \<Longrightarrow> keeps (eval_iterable E e)"
  unfolding eval_iterable_def by (auto intro!: keeps_rules)

lemma eval_iterable_pairs_keeps [keeps_rules]: "engine_ok E \<Longrightarrow> keeps (eval_iterable_pairs E e)"
  unfolding eval_iterable_pairs_def by (auto intro!: keeps_rules)

lemma while_condition_keeps [keeps_rules]: "engine_ok E \<Longrightarrow> keeps (while_condition E e)"
  unfolding while_condition_def by (auto intro!: keeps_rules)

lemma range_step_keeps [keeps_rules]: "engine_ok E \<Longrightarrow> keeps (range_step E z)"
  unfolding range_step_def by (auto intro!: keeps_rules)

lemma run_range_keeps [keeps_rules]: "engine_ok E \<Longrightarrow> keeps (run_range E l x r)"
  unfolding run_range_def by (auto intro!: keeps_rules simp: store_simps)

lemma run_condition_loop_keeps [keeps_rules]: "engine_ok E \<Longrightarrow> keeps (run_condition_loop E l e)"
  unfolding run_condition_loop_def Let_def by (auto intro!: keeps_rules)

lemma run_loop_keeps [keeps_rules]: "engine_ok E \<Longrightarrow> keeps (run_loop E l)"
  unfolding run_loop_def by (auto intro!: keeps_rules simp: store_simps split: option.split expr.split)

lemma execute_loop_keeps [keeps_rules]: "engine_ok E \<Longrightarrow> keeps (execute_loop E l)"
  and execute_break_keeps [keeps_rules]: "keeps (execute_break b)"
  and execute_continue_keeps [keeps_rules]: "keeps (execute_continue c)"
  unfolding execute_loop_def execute_break_def execute_continue_def
  by (auto intro!: keeps_rules simp: store_simps)

lemma eval_literal_keeps [keeps_rules]: "keeps (eval_literal h e)"
  unfolding eval_literal_def by (auto intro!: keeps_rules)

lemma range_bound_keeps [keeps_rules]: "engine_ok E \<Longrightarrow> keeps (range_bound E e)"
  unfolding range_bound_def by (auto intro!: keeps_rules split: expr.split)

lemma pattern_matches_keeps [keeps_rules]:
  "engine_ok E \<Longrightarrow> keeps (pattern_matches h E p v)" "engine_ok E \<Longrightarrow> keeps (all_match h E ps xs)"
  "engine_ok E \<Longrightarrow> keeps (any_match h E ps v)"
proof (induction h E p v and h E ps xs and h E ps v rule: pattern_matches_all_match_any_match.induct)
  case (5 h E ps sp v)
  then show ?case by (cases v) (auto intro!: keeps_rules)
qed (auto intro!: keeps_rules)

lemma eval_match_arm_keeps [keeps_rules]: "engine_ok E \<Longrightarrow> keeps (eval_match_arm E c)"
  unfolding eval_match_arm_def by (auto intro!: keeps_rules)

lemma bound_pattern_is_error:
  "pattern_matches h E p v s = Some (Inr (Some True), t) \<Longrightarrow> bound_name p = Some x \<Longrightarrow> \<exists>e. v = VError e"
  by (cases p) (auto simp: bound_name_def ret_def split: zvalue.splits)

text \<open>An arm entered is left again, whatever it answers.\<close>

lemma grown_arm:
  assumes "stacks_ok s" "bound_name p \<noteq> None \<Longrightarrow> \<exists>e. v = VError e"
  shows "stacks_ok (enter_arm p v s)" "grown (enter_arm p v s) t \<Longrightarrow> grown s (leave_arm p t)"
proof -
  have push: "stacks_ok (enter_arm p v s) \<and> shape (enter_arm p v s) = shape (push_scope s)" if "bound_name p \<noteq> None"
    using that assms push_scope_ok [OF assms(1)] by (auto simp: enter_arm_def store_simps)
  then show "stacks_ok (enter_arm p v s)"
    using assms(1) by (cases "bound_name p") (auto simp: enter_arm_def)
  assume g: "grown (enter_arm p v s) t"
  show "grown s (leave_arm p t)"
  proof (cases "bound_name p")
    case None
    with g show ?thesis by (simp add: enter_arm_def leave_arm_def)
  next
    case (Some y)
    with push g have "grown (push_scope s) t" by (metis grown_cong option.distinct(1))
    with grown_push_pop(1) [OF assms(1)] Some show ?thesis by (simp add: leave_arm_def)
  qed
qed

lemma keeps_bindc_after:
  assumes "keeps m"
    and "\<And>x s t r u. m s = Some (Inr x, t) \<Longrightarrow> stacks_ok t \<Longrightarrow> f x t = Some (r, u) \<Longrightarrow> grown t u"
  shows "keeps (bindc m f)"
proof (rule keepsI)
  fix s r t assume s: "stacks_ok s" and "bindc m f s = Some (r, t)"
  then consider e where "m s = Some (Inl e, t)" | x u where "m s = Some (Inr x, u)" "f x u = Some (r, t)"
    by (auto simp: bindc_Some_iff)
  then show "grown s t"
  proof cases
    case 1
    then show ?thesis by (rule keepsD [OF assms(1) s])
  next
    case 2
    from keepsD [OF assms(1) s 2(1)] assms(2) [OF 2(1) _ 2(2)] show ?thesis by (blast intro: grown_ok grown_trans)
  qed
qed

lemma eval_cases_keeps [keeps_rules]: "engine_ok E \<Longrightarrow> keeps (eval_cases h E v sp cs)"
proof (induction cs)
  case (Cons c cs)
  let ?p = "mc_pattern c" and ?arm = "eval_match_arm E c"
  show ?case
    unfolding eval_cases.simps
  proof (rule keeps_bindc_after)
    show "keeps (pattern_matches h E ?p v)" using Cons.prems by (rule keeps_rules)
    fix m s t r u
    assume p: "pattern_matches h E ?p v s = Some (Inr m, t)" and t: "stacks_ok t"
      and run: "(if m = Some True
          then bindc (modify (enter_arm ?p v)) (\<lambda>_. finally_do ?arm (leave_arm ?p))
          else eval_cases h E v sp cs) t = Some (r, u)"
    show "grown t u"
    proof (cases "m = Some True")
      case True
      then have e: "\<exists>e. v = VError e" if "bound_name ?p \<noteq> None"
        using that bound_pattern_is_error [of h E ?p v s t] p by auto
      obtain w where w: "?arm (enter_arm ?p v t) = Some (r, w)" "u = leave_arm ?p w"
        using run True by (auto simp: bind_modify finally_do_def split: option.splits)
      have "grown (enter_arm ?p v t) w"
        by (rule keepsD [OF eval_match_arm_keeps [OF Cons.prems] grown_arm(1) [OF t e] w(1)])
      from grown_arm(2) [OF t e this] w(2) show ?thesis by simp
    next
      case False
      with run keepsD [OF Cons.IH [OF Cons.prems] t] show ?thesis by simp
    qed
  qed
qed (auto intro!: keeps_rules)

lemma eval_match_keeps [keeps_rules]:
  "engine_ok E \<Longrightarrow> keeps (eval_match h E m)" "engine_ok E \<Longrightarrow> keeps (execute_match_statement h E m)"
  unfolding execute_match_statement_def eval_match_def by (auto intro!: keeps_rules)

text \<open>A catch puts the stack back: afterwards it stands where the try block began.\<close>

lemma pop_one:
  assumes "stacks_ok u" "1 < length (scope_stack u)"
    "\<forall>d \<in> set (loop_scope_depths u). d < length (scope_stack u) - 1"
    "module_scope u \<Longrightarrow> 2 < length (scope_stack u)"
  shows "stacks_ok (pop_scope u)" "length (scope_stack (pop_scope u)) = length (scope_stack u) - 1"
    "snd (shape (pop_scope u)) = snd (shape u)"
  using assms by (auto simp: pop_scope_def Let_def stacks_ok_def shape_def simp del: length_greater_0_conv)

lemma pop_scopes:
  assumes "stacks_ok t" "n < length (scope_stack t)"
    "\<forall>d \<in> set (loop_scope_depths t). d < length (scope_stack t) - n"
    "module_scope t \<Longrightarrow> n + 1 < length (scope_stack t)"
  shows "stacks_ok ((pop_scope ^^ n) t) \<and> length (scope_stack ((pop_scope ^^ n) t)) = length (scope_stack t) - n \<and>
    snd (shape ((pop_scope ^^ n) t)) = snd (shape t)"
  using assms(2-)
proof (induction n)
  case (Suc n)
  let ?u = "(pop_scope ^^ n) t"
  have below: "\<forall>d \<in> set (loop_scope_depths t). d < length (scope_stack t) - n"
    using Suc.prems(2) by (auto dest!: bspec)
  have u: "stacks_ok ?u" "length (scope_stack ?u) = length (scope_stack t) - n" "snd (shape ?u) = snd (shape t)"
    using Suc.IH [OF _ below] Suc.prems by auto
  then have f: "loop_scope_depths ?u = loop_scope_depths t" "module_scope ?u = module_scope t"
    by (simp_all add: shape_def)
  have "1 < length (scope_stack ?u)" "\<forall>d \<in> set (loop_scope_depths ?u). d < length (scope_stack ?u) - 1"
    "module_scope ?u \<Longrightarrow> 2 < length (scope_stack ?u)"
    using Suc.prems f u(2) by auto
  from pop_one [OF u(1) this] u show ?case by simp
qed (use assms(1) in simp)

lemma unwind_shape:
  assumes "stacks_ok s" "grown s t"
  shows "stacks_ok (unwind_scopes_to (length (scope_stack s)) (length (loop_scope_depths s)) t)"
    and "shape (unwind_scopes_to (length (scope_stack s)) (length (loop_scope_depths s)) t) = shape s"
proof -
  let ?n = "length (scope_stack t) - length (scope_stack s)"
  have t: "length (scope_stack s) \<le> length (scope_stack t)" "loop_scope_depths t = loop_scope_depths s"
    "module_scope t = module_scope s" "snd (shape t) = snd (shape s)" "stacks_ok t"
    using assms(2) by (auto simp: grown_def shape_def)
  have "0 < length (scope_stack s)" "\<forall>d \<in> set (loop_scope_depths s). d < length (scope_stack s)"
    "module_scope s \<Longrightarrow> 1 < length (scope_stack s)"
    using assms(1) by (auto simp: stacks_ok_def)
  moreover from this(1) have "?n < length (scope_stack t)" using t(1) by linarith
  ultimately have p: "stacks_ok ((pop_scope ^^ ?n) t)" "length (scope_stack ((pop_scope ^^ ?n) t)) = length (scope_stack s)"
    "snd (shape ((pop_scope ^^ ?n) t)) = snd (shape s)"
    using pop_scopes [OF t(5), of ?n] t by auto
  then have d: "loop_scope_depths ((pop_scope ^^ ?n) t) = loop_scope_depths s" by (auto simp: shape_def)
  show "stacks_ok (unwind_scopes_to (length (scope_stack s)) (length (loop_scope_depths s)) t)"
    using p(1) d by (simp add: unwind_scopes_to_def Let_def stacks_ok_def)
  show "shape (unwind_scopes_to (length (scope_stack s)) (length (loop_scope_depths s)) t) = shape s"
    using p d by (simp add: unwind_scopes_to_def Let_def shape_def)
qed

text \<open>The same relative to the state a try block began in.\<close>

definition keeps_over :: "interp \<Rightarrow> 'a comp \<Rightarrow> bool" where
  "keeps_over s0 m \<longleftrightarrow> (\<forall>s r t. grown s0 s \<longrightarrow> m s = Some (r, t) \<longrightarrow> grown s0 t)"

lemma keeps_over: "keeps m \<Longrightarrow> keeps_over s0 m"
  unfolding keeps_def keeps_over_def by (blast intro: grown_ok grown_trans)

lemma keeps_over_bindc: "keeps_over s0 m \<Longrightarrow> (\<And>x. keeps_over s0 (f x)) \<Longrightarrow> keeps_over s0 (bindc m f)"
  unfolding keeps_over_def bindc_Some_iff by blast

lemma keeps_over_reading: "(\<And>s. keeps_over s0 (f s)) \<Longrightarrow> keeps_over s0 (reading f)"
  by (auto simp: keeps_over_def reading_def)

lemma keeps_over_unwind:
  "stacks_ok s0 \<Longrightarrow> keeps_over s0 (modify (unwind_scopes_to (length (scope_stack s0)) (length (loop_scope_depths s0))))"
  unfolding keeps_over_def modify_def using unwind_shape same_shape_grown by auto

lemma keeps_reading_over: "(\<And>s. stacks_ok s \<Longrightarrow> keeps_over s (f s)) \<Longrightarrow> keeps (reading f)"
  unfolding keeps_over_def by (auto simp: keeps_def reading_def intro: grown_refl)

lemma in_try_keeps [keeps_rules]: "keeps m \<Longrightarrow> keeps (in_try m)"
  unfolding in_try_def
  by (rule keeps_around) (auto simp: grown_def shape_def stacks_ok_def)

lemma execute_catch_keeps [keeps_rules]: "engine_ok E \<Longrightarrow> keeps (execute_catch_block E c v)"
  unfolding execute_catch_block_def by (auto intro!: keeps_rules simp: store_simps)

lemma run_clauses_keeps:
  assumes "engine_ok E" "stacks_ok s0"
  shows "keeps_over s0 (run_clauses E c (length (scope_stack s0)) (length (loop_scope_depths s0)) r)"
proof (cases r)
  case (Inl e)
  have arm: "keeps (attempt (in_try (execute_catch_block E cl v)))" for cl v
    using assms(1) by (intro keeps_rules)
  show ?thesis
    unfolding run_clauses_def Inl sum.case Let_def
    by (intro keeps_over_bindc keeps_over_unwind [OF assms(2)] keeps_over_reading)
       (auto simp: keeps_over [OF keeps_ret] split: option.split
          intro!: keeps_over_bindc keeps_over [OF arm] keeps_over_unwind [OF assms(2)] keeps_over_reading split: sum.split)
qed (simp add: run_clauses_def keeps_over keeps_ret)

lemma run_finally_keeps:
  assumes "engine_ok E" "stacks_ok s0"
  shows "keeps_over s0 (run_finally E z (length (scope_stack s0)) (length (loop_scope_depths s0)))"
proof (cases z)
  case (Some f)
  have flow: "keeps (modify (\<lambda>s. s\<lparr>control_flow := cf, has_control_flow := b\<rparr>))" for cf b
    by (intro keeps_rules) (simp add: shape_def stacks_ok_def)
  have body: "keeps (attempt (in_try (execute_block E b)))" for b
    using assms(1) by (intro keeps_rules)
  show ?thesis
    unfolding run_finally_def Some option.case
    by (intro keeps_over_reading keeps_over_bindc keeps_over [OF flow] keeps_over [OF body])
       (auto split: sum.split intro!: keeps_over_bindc keeps_over_unwind [OF assms(2)] keeps_over [OF keeps_raise]
          keeps_over [OF flow])
qed (simp add: run_finally_def keeps_over keeps_ret)

lemma execute_try_keeps [keeps_rules]:
  assumes "engine_ok E" shows "keeps (execute_try E c)"
proof -
  have body: "keeps (attempt (in_try (execute_block E b)))" for b
    using assms by (intro keeps_rules)
  have last: "keeps (case z of None \<Rightarrow> ret () | Some (e, ln) \<Rightarrow> bindc (modify (\<lambda>s. s\<lparr>cur_stmt_line := ln\<rparr>)) (\<lambda>_. raise e))" for z
    by (intro keeps_rules) (simp add: shape_def stacks_ok_def)
  show ?thesis
    unfolding execute_try_def Let_def
    by (intro keeps_reading_over keeps_over_bindc run_clauses_keeps run_finally_keeps keeps_over [OF body]
        keeps_over [OF last] assms)
qed

section \<open>More fuel changes none of them\<close>

lemma in_scope_le [le_rules]: "le_comp m n \<Longrightarrow> le_comp (in_scope m) (in_scope n)"
  and in_loop_scope_le [le_rules]: "le_comp m n \<Longrightarrow> le_comp (in_loop_scope m) (in_loop_scope n)"
  and in_try_le [le_rules]: "le_comp m n \<Longrightarrow> le_comp (in_try m) (in_try n)"
  unfolding in_scope_def in_loop_scope_def in_try_def by (auto intro!: le_rules)

lemma run_stmts_le [le_rules]: "le_engine E F \<Longrightarrow> le_comp (run_stmts E cs) (run_stmts F cs)"
  by (induction cs) (auto intro!: le_rules)

lemma block_le [le_rules]:
  "le_engine E F \<Longrightarrow> le_comp (execute_block_no_scope E b) (execute_block_no_scope F b)"
  "le_engine E F \<Longrightarrow> le_comp (execute_block E b) (execute_block F b)"
  "le_engine E F \<Longrightarrow> le_comp (run_branch E b) (run_branch F b)"
  by (auto simp: execute_block_no_scope_def execute_block_def run_branch_def intro!: le_rules)

lemma run_scheduled_le [le_rules]: "le_engine E F \<Longrightarrow> le_comp (run_scheduled E sch i cs) (run_scheduled F sch i cs)"
  by (induction cs arbitrary: i) (auto intro!: le_rules)

lemma execute_body_scheduled_le [le_rules]:
  "le_engine E F \<Longrightarrow> le_comp (execute_body_scheduled E b sch) (execute_body_scheduled F b sch)"
  unfolding execute_body_scheduled_def by (auto intro!: le_rules)

lemma run_else_ifs_le [le_rules]: "le_engine E F \<Longrightarrow> le_comp (run_else_ifs E brs z) (run_else_ifs F brs z)"
  by (induction brs) (auto intro!: le_rules)

lemma execute_if_le [le_rules]: "le_engine E F \<Longrightarrow> le_comp (execute_if E c) (execute_if F c)"
  unfolding execute_if_def by (auto intro!: le_rules)

lemma eval_destructure_le [le_rules]:
  "le_engine E F \<Longrightarrow> le_comp (eval_destructure_assign E d) (eval_destructure_assign F d)"
  unfolding eval_destructure_assign_def by (auto intro!: le_rules)

lemma loop_turn_le [le_rules]: "le_engine E F \<Longrightarrow> le_comp (loop_turn E l b) (loop_turn F l b)"
  unfolding loop_turn_def by (auto intro!: le_rules)

lemma for_each_le [le_rules]: "le_comp t t' \<Longrightarrow> le_comp (for_each bind t vs) (for_each bind t' vs)"
  and times_loop_le [le_rules]: "le_comp t t' \<Longrightarrow> le_comp (times_loop t n) (times_loop t' n)"
  by (induction vs, auto intro!: le_rules) (induction n, auto intro!: le_rules)

lemma range_loop_le [le_rules]:
  "le_comp t t' \<Longrightarrow> m \<le> n \<Longrightarrow> le_comp (range_loop m bind t fwd step stop_at i) (range_loop n bind t' fwd step stop_at i)"
proof (induction m arbitrary: n i)
  case 0
  then show ?case by (cases n) (auto intro!: le_rules)
next
  case (Suc m)
  then show ?case by (cases n) (auto intro!: le_rules)
qed

lemma while_loop_le [le_rules]:
  "le_comp c c' \<Longrightarrow> le_comp t t' \<Longrightarrow> m \<le> n \<Longrightarrow> le_comp (while_loop m c t b) (while_loop n c' t' b)"
proof (induction m arbitrary: n b)
  case 0
  then show ?case by (cases n) (auto intro!: le_rules)
next
  case (Suc m)
  then show ?case by (cases n) (auto intro!: le_rules)
qed

lemma le_turns [le_rules]: "le_engine E F \<Longrightarrow> turns E \<le> turns F"
  by (simp add: le_engine_def)

lemma loop_parts_le [le_rules]:
  "le_engine E F \<Longrightarrow> le_comp (eval_iterable E e) (eval_iterable F e)"
  "le_engine E F \<Longrightarrow> le_comp (while_condition E e) (while_condition F e)"
  "le_engine E F \<Longrightarrow> le_comp (range_step E z) (range_step F z)"
  unfolding eval_iterable_def while_condition_def range_step_def by (auto intro!: le_rules)

lemma eval_iterable_pairs_le [le_rules]:
  "le_engine E F \<Longrightarrow> le_comp (eval_iterable_pairs E e) (eval_iterable_pairs F e)"
  unfolding eval_iterable_pairs_def by (auto intro!: le_rules)

lemma run_range_le [le_rules]: "le_engine E F \<Longrightarrow> le_comp (run_range E l x r) (run_range F l x r)"
  unfolding run_range_def by (auto intro!: le_rules)

lemma run_condition_loop_le [le_rules]:
  "le_engine E F \<Longrightarrow> le_comp (run_condition_loop E l e) (run_condition_loop F l e)"
  unfolding run_condition_loop_def Let_def by (auto intro!: le_rules)

lemma run_loop_le [le_rules]: "le_engine E F \<Longrightarrow> le_comp (run_loop E l) (run_loop F l)"
  unfolding run_loop_def by (auto intro!: le_rules split: option.split expr.split)

lemma execute_loop_le [le_rules]: "le_engine E F \<Longrightarrow> le_comp (execute_loop E l) (execute_loop F l)"
  unfolding execute_loop_def by (auto intro!: le_rules)

lemma range_bound_le [le_rules]: "le_engine E F \<Longrightarrow> le_comp (range_bound E e) (range_bound F e)"
  unfolding range_bound_def by (auto intro!: le_rules split: expr.split)

lemma pattern_matches_le [le_rules]:
  "le_engine E F \<Longrightarrow> le_comp (pattern_matches h E p v) (pattern_matches h F p v)"
  "le_engine E F \<Longrightarrow> le_comp (all_match h E ps xs) (all_match h F ps xs)"
  "le_engine E F \<Longrightarrow> le_comp (any_match h E ps v) (any_match h F ps v)"
proof (induction h E p v and h E ps xs and h E ps v rule: pattern_matches_all_match_any_match.induct)
  case (5 h E ps sp v)
  then show ?case by (cases v) (auto intro!: le_rules)
qed (auto intro!: le_rules)

lemma eval_match_arm_le [le_rules]: "le_engine E F \<Longrightarrow> le_comp (eval_match_arm E c) (eval_match_arm F c)"
  unfolding eval_match_arm_def by (auto intro!: le_rules)

lemma eval_cases_le [le_rules]: "le_engine E F \<Longrightarrow> le_comp (eval_cases h E v sp cs) (eval_cases h F v sp cs)"
  by (induction cs) (auto intro!: le_rules)

lemma eval_match_le [le_rules]:
  "le_engine E F \<Longrightarrow> le_comp (eval_match h E m) (eval_match h F m)"
  "le_engine E F \<Longrightarrow> le_comp (execute_match_statement h E m) (execute_match_statement h F m)"
  unfolding execute_match_statement_def eval_match_def by (auto intro!: le_rules)

lemma execute_try_le [le_rules]: "le_engine E F \<Longrightarrow> le_comp (execute_try E c) (execute_try F c)"
  unfolding execute_try_def run_clauses_def run_finally_def execute_catch_block_def
  by (auto intro!: le_rules)

section \<open>The positions of a range\<close>

text \<open>The positions a range visits: from one bound towards the other, a step at a time.\<close>

definition range_positions :: "int \<Rightarrow> int \<Rightarrow> int \<Rightarrow> int list" where
  "range_positions start stop_at step =
     (if start \<le> stop_at then map (\<lambda>k. start + k * step) [0..(stop_at - start) div step]
      else map (\<lambda>k. start - k * step) [0..(start - stop_at) div step])"

lemma upto_0_Suc: "0 \<le> (n :: int) \<Longrightarrow> map f [0..n] = f 0 # map (\<lambda>k. f (k + 1)) [0..n - 1]"
proof -
  assume "0 \<le> n"
  then have "[0..n] = 0 # [0 + 1..n]" by (simp add: upto_rec1)
  moreover have "[0 + 1..n] = map (\<lambda>k. k + 1) [0..n - 1]"
    by (auto simp: list_eq_iff_nth_eq)
  ultimately show ?thesis by simp
qed

text \<open>As long as the counter can pass the end without leaving the machine's integers.\<close>

lemma forward_positions:
  assumes "0 < step" "in_i64 (stop_at + step)" "in_i64 a" "nat (stop_at + 1 - a) \<le> n"
  shows "range_loop n bind turn True step stop_at a =
    for_each bind turn (map (\<lambda>k. a + k * step) [0..(stop_at - a) div step])"
  using assms(3,4)
proof (induction n arbitrary: a)
  case 0
  then have "(stop_at - a) div step < 0" using assms(1) by (simp add: div_neg_pos_less0)
  with 0 show ?case by (simp add: past_the_end_def)
next
  case (Suc n)
  show ?case
  proof (cases "a \<le> stop_at")
    case True
    then have q: "0 \<le> (stop_at - a) div step" using assms(1) by (simp add: pos_imp_zdiv_nonneg_iff)
    have d: "(stop_at - (a + step)) div step = (stop_at - a) div step - 1"
      using div_add_self2 [of step "stop_at - (a + step)"] assms(1) by (simp add: algebra_simps)
    have i: "in_i64 (a + step)" using assms(1,2) Suc.prems(1) True by (simp add: in_i64_def)
    have "range_loop n bind turn True step stop_at (a + step) =
        for_each bind turn (map (\<lambda>k. a + step + k * step) [0..(stop_at - a) div step - 1])"
      using Suc.IH [OF i] Suc.prems(2) True assms(1) unfolding d by simp
    with q True i show ?thesis
      by (simp add: past_the_end_def wrap_i64_id upto_0_Suc algebra_simps cong del: if_weak_cong)
  next
    case False
    then have "(stop_at - a) div step < 0" using assms(1) by (simp add: div_neg_pos_less0)
    with False show ?thesis by (simp add: past_the_end_def)
  qed
qed

lemma backward_positions:
  assumes "0 < step" "in_i64 (stop_at - step)" "in_i64 a" "nat (a + 1 - stop_at) \<le> n"
  shows "range_loop n bind turn False step stop_at a =
    for_each bind turn (map (\<lambda>k. a - k * step) [0..(a - stop_at) div step])"
  using assms(3,4)
proof (induction n arbitrary: a)
  case 0
  then have "(a - stop_at) div step < 0" using assms(1) by (simp add: div_neg_pos_less0)
  with 0 show ?case by (simp add: past_the_end_def)
next
  case (Suc n)
  show ?case
  proof (cases "stop_at \<le> a")
    case True
    then have q: "0 \<le> (a - stop_at) div step" using assms(1) by (simp add: pos_imp_zdiv_nonneg_iff)
    have d: "(a - step - stop_at) div step = (a - stop_at) div step - 1"
      using div_add_self2 [of step "a - step - stop_at"] assms(1) by (simp add: algebra_simps)
    have i: "in_i64 (a - step)" using assms(1,2) Suc.prems(1) True by (simp add: in_i64_def)
    have "range_loop n bind turn False step stop_at (a - step) =
        for_each bind turn (map (\<lambda>k. a - step - k * step) [0..(a - stop_at) div step - 1])"
      using Suc.IH [OF i] Suc.prems(2) True assms(1) unfolding d by simp
    with q True i show ?thesis
      by (simp add: past_the_end_def wrap_i64_id upto_0_Suc algebra_simps cong del: if_weak_cong)
  next
    case False
    then have "(a - stop_at) div step < 0" using assms(1) by (simp add: div_neg_pos_less0)
    with False show ?thesis by (simp add: past_the_end_def)
  qed
qed

text \<open>
  C11. A loop over a range is a loop over its positions.  While the counter stays among the machine's
  integers - it may pass the end of the range by a step, not that of the i64, which bounds and steps
  of the language's own range never make it do - and with as many turns as the range is long, running the range from its start to its end is running the body once for each
  of start, start plus or minus the step, and so on up to and including the last position that does
  not pass the end, upwards when the start is not after the end and downwards otherwise, whatever binds
  the variable and whatever the body does.
\<close>

theorem range_is_for_each:
  assumes "0 < step" and "in_i64 start"
    and "in_i64 (if start \<le> stop_at then stop_at + step else stop_at - step)"
    and "nat \<bar>stop_at - start\<bar> < n"
  shows "range_loop n bind turn (start \<le> stop_at) step stop_at start =
    for_each bind turn (range_positions start stop_at step)"
proof (cases "start \<le> stop_at")
  case True
  then show ?thesis using forward_positions [OF assms(1) _ assms(2), of stop_at n] assms(3,4) by (simp add: range_positions_def)
next
  case False
  then show ?thesis using backward_positions [OF assms(1) _ assms(2), of stop_at n] assms(3,4) by (simp add: range_positions_def)
qed

theorem range_is_for_each_witness:
  "range_loop 7 (\<lambda>i. modify (set_variable (U ''i'') (VInt i))) (ret False) (7 \<le> (1 :: int)) 3 1 7 =
   for_each (\<lambda>i. modify (set_variable (U ''i'') (VInt i))) (ret False) [7, 4, 1]"
proof -
  have p: "range_positions 7 1 3 = [7, 4, 1]" by (simp add: range_positions_def upto_rec1)
  have "in_i64 7" "in_i64 (- 2)" by (simp_all add: in_i64_def i64_min_def i64_max_def)
  then show ?thesis
    using range_is_for_each [of 3 7 1 7 "\<lambda>i. modify (set_variable (U ''i'') (VInt i))" "ret False"] unfolding p by simp
qed

text \<open>Past them the counter wraps: from 1 to 10 by the greatest i64, the second position is the least.\<close>

lemma range_wraps:
  "wrap_i64 (1 + i64_max) = i64_min \<and> \<not> past_the_end True 10 i64_min"
  by (simp add: wrap_i64_def i64_min_def i64_max_def past_the_end_def)

section \<open>What a finally block is owed\<close>

lemma run_clauses_never_raises: "run_clauses E c scopes loops r s = Some (z, t) \<Longrightarrow> \<exists>p. z = Inr p"
  unfolding run_clauses_def
  by (auto simp: run_simps reading_def bindc_def attempt_def Let_def split: sum.splits option.splits if_splits)

lemma bindc_answer: "m s = Some (Inr x, t) \<Longrightarrow> bindc m f s = f x t"
  by (simp add: bindc_def)

section \<open>What a rest takes\<close>

text \<open>The names of a pattern without a rest, beside the values they take.\<close>

definition named_values :: "destructure_item list \<Rightarrow> zvalue list \<Rightarrow> (ustring \<times> zvalue) list" where
  "named_values items vs = concat (map (\<lambda>(i, v). case i of DBind x \<Rightarrow> [(x, v)] | _ \<Rightarrow> []) (zip items vs))"

lemma named_values_Cons [simp]:
  "named_values (i # is) (v # vs) = (case i of DBind x \<Rightarrow> [(x, v)] | _ \<Rightarrow> []) @ named_values is vs"
  "named_values [] vs = []"
  by (simp_all add: named_values_def)

lemma bindings_before:
  assumes "list_ex is_rest items \<or> js \<noteq> []" and "\<not> list_ex is_rest is"
  shows "positional_bindings b items vs (is @ js) idx =
    named_values is (map (item_or_unit vs) [idx..<idx + length is]) @ positional_bindings b items vs js (idx + length is)"
  using assms
proof (induction "is" arbitrary: idx)
  case (Cons i "is")
  then have "i \<noteq> DRest x" for x by (auto simp: is_rest_def)
  moreover have "[idx..<idx + length (i # is)] = idx # [Suc idx..<Suc idx + length is]"
    by (simp add: upt_conv_Cons del: upt_Suc)
  ultimately show ?case using Cons
    by (cases i) (auto simp: Let_def simp del: upt_Suc)
qed simp

lemma items_taken: "n + m \<le> length vs \<Longrightarrow> map (item_or_unit vs) [n..<n + m] = take m (drop n vs)"
  by (auto simp: list_eq_iff_nth_eq item_or_unit_def)

lemma items_missing: "length vs \<le> n \<Longrightarrow> map (item_or_unit vs) [n..<n + m] = replicate m VUnit"
  by (auto simp: list_eq_iff_nth_eq item_or_unit_def)

lemma is_rest_of: "is_rest (DRest x)"
  by (simp add: is_rest_def)

lemma trailing_of: "\<not> list_ex is_rest after \<Longrightarrow> trailing_items (before @ DRest x # after) = length after"
  unfolding trailing_items_def rev_append rev.simps append_assoc
  by (subst takeWhile_append2) (auto simp: list_ex_iff is_rest_of)

text \<open>
  C13. A rest takes the middle.  In a pattern with one rest, the names before it take the first
  values and the rest takes, as an array or as a tuple, what is left after keeping one value for
  each name behind it - provided there is something left: when the values are exactly as many as the
  names beside the rest, the rest takes the last ones and the names behind it are bound to nothing.
\<close>

theorem rest_takes_the_middle:
  fixes x before after vs
  defines "p \<equiv> length before" and "q \<equiv> length after"
  defines "r \<equiv> (if p + q < length vs then length vs - p - q else length vs - p)"
  assumes "\<not> list_ex is_rest before" and "\<not> list_ex is_rest after" and "p + q \<le> length vs"
  shows "positional_bindings is_tuple (before @ DRest x # after) vs (before @ DRest x # after) 0 =
    named_values before (take p vs) @ (x, wrap_rest is_tuple (take r (drop p vs))) #
    named_values after (drop (p + r) vs @ replicate (p + r + q - length vs) VUnit)"
proof -
  let ?items = "before @ DRest x # after"
  have rest: "list_ex is_rest ?items" by (simp add: is_rest_def)
  have stop: "rest_end ?items vs p = p + r"
    using assms(4-6) by (auto simp: rest_end_def trailing_of Let_def r_def q_def p_def)
  have first: "positional_bindings is_tuple ?items vs ?items 0 =
      named_values before (take p vs) @ positional_bindings is_tuple ?items vs (DRest x # after) p"
    using bindings_before [of ?items "DRest x # after" before is_tuple vs 0] items_taken [of 0 p vs] rest assms(4,6)
    by (simp add: p_def)
  have slice: "list_slice p (p + r) vs = take r (drop p vs)"
    by (simp add: list_slice_def)
  have last: "positional_bindings is_tuple ?items vs after (p + r) =
      named_values after (map (item_or_unit vs) [p + r..<p + r + q])"
    using bindings_before [of ?items "[]" after is_tuple vs "p + r"] rest assms(5) by (simp add: q_def)
  have "map (item_or_unit vs) [p + r..<p + r + q] = drop (p + r) vs @ replicate (p + r + q - length vs) VUnit"
  proof (cases "p + q < length vs")
    case True
    then have "p + r + q = length vs" by (simp add: r_def)
    then show ?thesis using items_taken [of "p + r" q vs] by simp
  next
    case False
    then have "p + r = length vs" using assms(6) by (simp add: r_def)
    then show ?thesis using items_missing [of vs "p + r" q] by simp
  qed
  moreover have "positional_bindings is_tuple ?items vs (DRest x # after) p =
      (x, wrap_rest is_tuple (take r (drop p vs))) # positional_bindings is_tuple ?items vs after (p + r)"
    by (simp only: positional_bindings.simps Let_def destructure_item.case stop slice le_add1 if_True)
  ultimately show ?thesis by (simp only: first last)
qed

theorem rest_takes_the_middle_witness:
  "positional_bindings False [DBind [97], DRest [114], DBind [98]] (map VInt [1, 2, 3, 4])
     [DBind [97], DRest [114], DBind [98]] 0 =
   [([97], VInt 1), ([114], VArray [VInt 2, VInt 3]), ([98], VInt 4)]"
  using rest_takes_the_middle [of "[DBind [97]]" "[DBind [98]]" "map VInt [1, 2, 3, 4]" False "[114]"]
  by (simp add: is_rest_def wrap_rest_def)

end
