(* ===== verification/ZyAssign.thy ===== *)
theory ZyAssign imports ZyControl begin

text \<open>
  Assignments and constants (crates/zymbol-interpreter/src/variables.rs).  A value that starts from
  its own target, x = x + 1 or a statement that edits a collection, works on the variable where it
  is; each shape has its procedure, which answers whether it has done the assignment.
\<close>

section \<open>The receiver\<close>

text \<open>A variable written where it is: no scope changes hands and no name comes back to life.\<close>

definition put_slot :: "ustring \<Rightarrow> zvalue \<Rightarrow> interp \<Rightarrow> interp" where
  "put_slot x v s = (case innermost x (scope_stack s) of Some i \<Rightarrow> insert_at i x v s | None \<Rightarrow> s)"

definition slot_value :: "interp \<Rightarrow> ustring \<Rightarrow> zvalue option" where
  "slot_value s x = lookup x (scope_stack s)"

definition receiver_read_first :: "interp \<Rightarrow> ustring \<Rightarrow> expr list \<Rightarrow> zvalue option" where
  "receiver_read_first s x operands = (if operands_may_write s x operands then get_variable s x else None)"

text \<open>Whether the receiver still is what was read.  A collection is compared by what it holds, where
  the source compares who owns it: a collection rebuilt with the same elements gives the same edit.\<close>

definition same_value :: "zvalue \<Rightarrow> zvalue \<Rightarrow> bool" where
  "same_value a b = (case (a, b) of
      (VFloat x, VFloat y) \<Rightarrow> feq x y
    | (VFunction f, VFunction g) \<Rightarrow> function_value_eq f g
    | _ \<Rightarrow> a = b)"

definition receiver_untouched :: "interp \<Rightarrow> ustring \<Rightarrow> zvalue \<Rightarrow> bool" where
  "receiver_untouched s x read = (case get_variable s x of Some now \<Rightarrow> same_value now read | None \<Rightarrow> False)"

type_synonym edit = "zvalue \<Rightarrow> runtime_error + zvalue"

definition edit_variable :: "engine \<Rightarrow> ustring \<Rightarrow> expr \<Rightarrow> edit \<Rightarrow> unit comp" where
  "edit_variable E x receiver edit = reading (\<lambda>s.
     case slot_value s x of
       Some v \<Rightarrow> bindc (lift (edit v)) (\<lambda>w. modify (put_slot x w))
     | None \<Rightarrow> bindc (eval E receiver) (\<lambda>v. bindc (lift (edit v)) (\<lambda>w. modify (set_variable x w))))"

definition edit_receiver :: "engine \<Rightarrow> ustring \<Rightarrow> zvalue option \<Rightarrow> expr \<Rightarrow> edit \<Rightarrow> unit comp" where
  "edit_receiver E x read receiver edit = reading (\<lambda>s.
     case read of
       Some v \<Rightarrow>
         (if receiver_untouched s x v then edit_variable E x receiver edit
          else bindc (lift (edit v)) (\<lambda>w. modify (set_variable x w)))
     | None \<Rightarrow> edit_variable E x receiver edit)"

definition edit_receiver_done :: "engine \<Rightarrow> ustring \<Rightarrow> zvalue option \<Rightarrow> expr \<Rightarrow> edit \<Rightarrow> bool comp" where
  "edit_receiver_done E x read receiver edit = bindc (edit_receiver E x read receiver edit) (\<lambda>_. ret True)"

text \<open>Operands evaluated with the receiver read before them.\<close>

definition with_receiver :: "ustring \<Rightarrow> expr list \<Rightarrow> 'a comp \<Rightarrow> (zvalue option \<Rightarrow> 'a \<Rightarrow> 'b comp) \<Rightarrow> 'b comp" where
  "with_receiver x operands m f = reading (\<lambda>s.
     let read = receiver_read_first s x operands in bindc m (\<lambda>v. f read v))"

section \<open>The shapes of an assignment\<close>

definition assign_element_read :: "engine \<Rightarrow> expr assignment \<Rightarrow> expr index_expr \<Rightarrow> bool comp" where
  "assign_element_read E a ix =
     (case as_identifier (ix_array ix) of
        None \<Rightarrow> ret False
      | Some arr \<Rightarrow> reading (\<lambda>s.
          if operands_may_write s (id_name arr) [ix_index ix] then ret False
          else bindc (eval E (ix_index ix)) (\<lambda>i. reading (\<lambda>s.
               bindc (case get_variable s (id_name arr) of
                        Some c \<Rightarrow> lift (index_into c i (ix_span ix))
                      | None \<Rightarrow> bindc (eval E (ix_array ix)) (\<lambda>c. lift (index_into c i (ix_span ix)))) (\<lambda>v.
               bindc (modify (set_variable (as_name a) v)) (\<lambda>_. ret True))))))"

definition is_char :: "zvalue \<Rightarrow> bool" where
  "is_char v = (case v of VChar _ \<Rightarrow> True | _ \<Rightarrow> False)"

definition hot_append_start :: "identifier_expr \<Rightarrow> ustring \<Rightarrow> zvalue \<Rightarrow> interp \<Rightarrow> interp" where
  "hot_append_start i x element s =
     (if hot_name i \<and> get_variable s x = None
      then let neutral = (if is_char element then VString [] else VArray [])
           in if id_pre_hot i then set_above_nearest_loop x neutral s else set_variable x neutral s
      else s)"

definition assign_append :: "engine \<Rightarrow> expr assignment \<Rightarrow> expr append_expr \<Rightarrow> bool comp" where
  "assign_append E a op =
     (case as_identifier (app_collection op) of
        Some i \<Rightarrow>
          (if id_name i = as_name a
           then with_receiver (as_name a) [app_element op] (eval E (app_element op)) (\<lambda>read element.
                bindc (modify (hot_append_start i (as_name a) element)) (\<lambda>_.
                edit_receiver_done E (as_name a) read (app_collection op) (\<lambda>c. append_in c element (app_span op))))
           else ret False)
      | None \<Rightarrow> ret False)"

definition assign_remove_at :: "engine \<Rightarrow> expr assignment \<Rightarrow> expr remove_at_expr \<Rightarrow> bool comp" where
  "assign_remove_at E a op =
     (if is_named (as_name a) (rat_collection op)
      then with_receiver (as_name a) [rat_index op] (eval E (rat_index op)) (\<lambda>read i.
           edit_receiver_done E (as_name a) read (rat_collection op) (\<lambda>c. remove_at_in c i (rat_span op)))
      else ret False)"

definition nav_step_value :: "zvalue \<Rightarrow> span \<Rightarrow> runtime_error + zvalue" where
  "nav_step_value v sp = (case v of VInt _ \<Rightarrow> Inr v | VString _ \<Rightarrow> Inr v
     | _ \<Rightarrow> Inl (kinded ''Type'' (U ''a navigation step is a position (Int) or a dictionary key (String), got '' @
              type_label v) sp))"

definition eval_nav_steps :: "engine \<Rightarrow> expr deep_index \<Rightarrow> span \<Rightarrow> zvalue list comp" where
  "eval_nav_steps E di sp =
     mapc (\<lambda>st. bindc (eval E (nav_index st)) (\<lambda>v. lift (nav_step_value v sp))) (nav_steps (di_path di))"

definition no_ranges :: "expr deep_index \<Rightarrow> bool" where
  "no_ranges di = list_all (\<lambda>st. nav_range_end st = None) (nav_steps (di_path di))"

definition assign_update :: "engine \<Rightarrow> expr assignment \<Rightarrow> expr update_expr \<Rightarrow> bool comp" where
  "assign_update E a op =
     (let x = as_name a; sp = upd_span op; value = upd_value op
      in case unwrap_group (upd_target op) of
           EIndex ix \<Rightarrow>
             (if is_named x (ix_array ix)
              then with_receiver x [ix_index ix, value]
                     (bindc (eval E (ix_index ix)) (\<lambda>i. bindc (eval E value) (\<lambda>v. ret (i, v)))) (\<lambda>read (i, v).
                   edit_receiver_done E x read (ix_array ix) (\<lambda>c. update_in c i v sp))
              else ret False)
         | EMemberAccess ma \<Rightarrow>
             (if \<not> mem_module ma \<and> is_named x (mem_object ma)
              then with_receiver x [value] (eval E value) (\<lambda>read v.
                   edit_receiver_done E x read (mem_object ma) (\<lambda>c. update_in c (VString (mem_field ma)) v sp))
              else ret False)
         | EDeepIndex di \<Rightarrow> reading (\<lambda>s.
             if is_named x (di_array di) \<and> no_ranges di \<and> get_variable s x \<noteq> None
             then with_receiver x (map nav_index (nav_steps (di_path di)) @ [value])
                    (bindc (eval_nav_steps E di sp) (\<lambda>path. bindc (eval E value) (\<lambda>v. ret (path, v)))) (\<lambda>read (path, v).
                  edit_receiver_done E x read (di_array di) (\<lambda>c. deep_update_in c path v sp))
             else ret False)
         | _ \<Rightarrow> ret False)"

text \<open>Several values put at the end: a text takes each as the text it is when it is evaluated.\<close>

definition build_base_error :: "zvalue \<Rightarrow> span \<Rightarrow> runtime_error" where
  "build_base_error v sp = kinded ''Type'' (U ''$++ requires a string or array as base, got '' @ type_label v) sp"

definition concat_items :: "ustring \<Rightarrow> zvalue list \<Rightarrow> span \<Rightarrow> edit" where
  "concat_items pieces items sp c =
     (case c of VString s \<Rightarrow> Inr (VString (s @ pieces)) | VArray xs \<Rightarrow> Inr (VArray (xs @ items))
      | _ \<Rightarrow> Inl (build_base_error c sp))"

definition eval_as_text :: "engine \<Rightarrow> expr \<Rightarrow> ustring comp" where
  "eval_as_text E e = bindc (eval E e) (\<lambda>v. reading (\<lambda>s. ret (value_to_concat_str (numeral_mode s) v)))"

definition assign_concat_build :: "engine \<Rightarrow> expr assignment \<Rightarrow> expr concat_build \<Rightarrow> bool comp" where
  "assign_concat_build E a op =
     (let x = as_name a; items = cb_items op
      in if \<not> is_named x (cb_base op) then ret False
         else reading (\<lambda>s.
           case get_variable s x of
             Some (VString _) \<Rightarrow>
               with_receiver x items (mapc (eval_as_text E) items) (\<lambda>read ts.
                 edit_receiver_done E x read (cb_base op) (concat_items (concat ts) [] (cb_span op)))
           | Some (VArray _) \<Rightarrow>
               with_receiver x items (mapc (eval E) items) (\<lambda>read vs.
                 edit_receiver_done E x read (cb_base op) (concat_items [] vs (cb_span op)))
           | _ \<Rightarrow> ret False))"

section \<open>Operators on the variable itself\<close>

definition apply_in :: "host \<Rightarrow> expr binary_expr \<Rightarrow> zvalue \<Rightarrow> zvalue \<Rightarrow> zvalue comp" where
  "apply_in h b l r = reading (\<lambda>s. lift (apply_binary (h_powf h) (numeral_mode s) (bin_op b) (bin_span b) l r))"

definition in_place_int :: "binary_op \<Rightarrow> int \<Rightarrow> int \<Rightarrow> (int option \<times> ustring) option" where
  "in_place_int op a b = (case op of
      OpAdd \<Rightarrow> Some (num_add a b, U ''+'') | OpSub \<Rightarrow> Some (num_sub a b, U ''-'')
    | OpMul \<Rightarrow> Some (num_mul a b, U ''*'') | _ \<Rightarrow> None)"

definition in_place_float :: "binary_op \<Rightarrow> f64 \<Rightarrow> f64 \<Rightarrow> f64 option" where
  "in_place_float op a b = (case op of
      OpAdd \<Rightarrow> Some (fadd a b) | OpSub \<Rightarrow> Some (fsub a b) | OpMul \<Rightarrow> Some (fmul a b) | _ \<Rightarrow> None)"

text \<open>What the shortcuts write in the variable: None leaves it to the operator.\<close>

definition in_place_result :: "nat \<Rightarrow> binary_op \<Rightarrow> zvalue \<Rightarrow> zvalue \<Rightarrow> span \<Rightarrow> (runtime_error + zvalue) option" where
  "in_place_result mode op cur r sp =
     (if op = OpConcat
      then (case cur of VString t \<Rightarrow> Some (Inr (VString (t @ value_to_concat_str mode r))) | _ \<Rightarrow> None)
      else case (cur, r) of
             (VInt a, VInt b) \<Rightarrow>
               (case in_place_int op a b of
                  Some (Some n, _) \<Rightarrow> Some (Inr (VInt n))
                | Some (None, name) \<Rightarrow> Some (Inl (EGeneric (overflow_msg a name b) sp))
                | None \<Rightarrow> None)
           | (VFloat a, VFloat b) \<Rightarrow> map_option (\<lambda>f. Inr (VFloat f)) (in_place_float op a b)
           | _ \<Rightarrow> None)"

definition finish_binary :: "host \<Rightarrow> engine \<Rightarrow> expr assignment \<Rightarrow> expr binary_expr \<Rightarrow> zvalue \<Rightarrow> bool comp" where
  "finish_binary h E a b r = reading (\<lambda>s.
     let x = as_name a;
         operator = bindc (case get_variable s x of Some v \<Rightarrow> ret v | None \<Rightarrow> eval E (bin_left b)) (\<lambda>l.
           bindc (apply_in h b l r) (\<lambda>v. bindc (modify (set_variable x v)) (\<lambda>_. ret True)))
     in case slot_value s x of
          None \<Rightarrow> operator
        | Some cur \<Rightarrow>
            (case in_place_result (numeral_mode s) (bin_op b) cur r (as_span a) of
               None \<Rightarrow> operator
             | Some result \<Rightarrow> bindc (lift result) (\<lambda>v. bindc (modify (put_slot x v)) (\<lambda>_. ret True))))"

definition assign_binary :: "host \<Rightarrow> engine \<Rightarrow> expr assignment \<Rightarrow> expr binary_expr \<Rightarrow> bool comp" where
  "assign_binary h E a b =
     (let x = as_name a
      in if bin_op b \<in> {OpAnd, OpOr} then ret False
         else case as_identifier (bin_left b) of
           None \<Rightarrow> ret False
         | Some i \<Rightarrow> reading (\<lambda>s.
             if id_name i \<noteq> x \<or> hot_name i \<and> get_variable s x = None then ret False
             else if plain_operand (bin_right b)
             then bindc (eval E (bin_right b)) (finish_binary h E a b)
             else with_receiver x [bin_right b] (eval E (bin_right b)) (\<lambda>read r. reading (\<lambda>s.
                    case read of
                      Some l \<Rightarrow>
                        (if receiver_untouched s x l then finish_binary h E a b r
                         else bindc (apply_in h b l r) (\<lambda>v. bindc (modify (set_variable x v)) (\<lambda>_. ret True)))
                    | None \<Rightarrow> finish_binary h E a b r))))"

section \<open>Assignments\<close>

definition assign_shape :: "host \<Rightarrow> engine \<Rightarrow> expr assignment \<Rightarrow> bool comp" where
  "assign_shape h E a =
     (case as_value a of
        EIndex ix \<Rightarrow> assign_element_read E a ix
      | EAppend op \<Rightarrow> assign_append E a op
      | ERemoveAt op \<Rightarrow> assign_remove_at E a op
      | EUpdate op \<Rightarrow> assign_update E a op
      | EConcatBuild op \<Rightarrow> assign_concat_build E a op
      | EBinary b \<Rightarrow> assign_binary h E a b
      | _ \<Rightarrow> ret False)"

text \<open>The neutral a hot name starts from, read off the value that is about to be assigned.\<close>

definition hot_neutral_from_value :: "expr \<Rightarrow> ustring \<Rightarrow> zvalue" where
  "hot_neutral_from_value e x =
     (case e of
        EAppend op \<Rightarrow> if is_named x (app_collection op) then VArray [] else VInt 0
      | EBinary b \<Rightarrow>
          (if bin_op b = OpConcat then VString []
           else if bin_op b \<in> {OpMul, OpDiv} \<and> is_named x (bin_left b) then VInt 1
           else VInt 0)
      | _ \<Rightarrow> VInt 0)"

definition start_hot :: "expr assignment \<Rightarrow> interp \<Rightarrow> interp" where
  "start_hot a s =
     (let x = as_name a; neutral = hot_neutral_from_value (as_value a) x;
          s1 = (if as_hot a \<and> get_variable s x = None then set_at_nearest_loop x neutral s else s)
      in if as_pre_hot a \<and> get_variable s1 x = None then set_above_nearest_loop x neutral s1 else s1)"

definition const_reassigned :: "ustring \<Rightarrow> span \<Rightarrow> runtime_error" where
  "const_reassigned x sp = EGeneric (U ''cannot reassign constant '' @ quoted x @ U '' (declared with :=)'') sp"

definition tuple_immutable_msg :: "ustring \<Rightarrow> ustring" where
  "tuple_immutable_msg x = U ''cannot modify tuple '' @ quoted x @ U '': tuples are immutable'' @ 10 #
     U ''help: use '' @ 39 # U ''new = '' @ x @ U ''[i]$~ value'' @ 39 # U '' for a functional update''"

definition is_tuple_value :: "zvalue option \<Rightarrow> bool" where
  "is_tuple_value z = (case z of Some (VTuple _) \<Rightarrow> True | _ \<Rightarrow> False)"

definition execute_assignment :: "host \<Rightarrow> engine \<Rightarrow> expr assignment \<Rightarrow> unit comp" where
  "execute_assignment h E a = reading (\<lambda>s.
     let x = as_name a
     in if is_const s x then raise (const_reassigned x (as_span a))
        else if as_sugar a = SugarInPlaceEdit \<and> is_tuple_value (get_variable s x)
        then raise (EGeneric (tuple_immutable_msg x) (as_span a))
        else bindc (modify (start_hot a)) (\<lambda>_.
             bindc (assign_shape h E a) (\<lambda>finished.
               if finished then ret ()
               else bindc (eval E (as_value a)) (\<lambda>v. modify (set_variable x v)))))"

definition const_declared :: "ustring \<Rightarrow> span \<Rightarrow> runtime_error" where
  "const_declared x sp = EGeneric (U ''constant '' @ quoted x @ U '' already declared'') sp"

definition declare_const :: "ustring \<Rightarrow> zvalue \<Rightarrow> interp \<Rightarrow> interp" where
  "declare_const x v s =
     mark_const x (set_variable x v (if is_root_scope s then record_global_const x v s else s))"

definition execute_const_decl :: "engine \<Rightarrow> expr const_decl \<Rightarrow> unit comp" where
  "execute_const_decl E c = reading (\<lambda>s.
     if is_const s (cd_name c) then raise (const_declared (cd_name c) (cd_span c))
     else bindc (eval E (cd_value c)) (\<lambda>v. modify (declare_const (cd_name c) v)))"

section \<open>What the procedures keep\<close>

lemma put_slot_shape [store_simps]:
  "shape (put_slot x v s) = shape s" "stacks_ok (put_slot x v s) = stacks_ok s"
  by (auto simp: put_slot_def store_simps split: option.split)

lemma edits_keep [keeps_rules]:
  "engine_ok E \<Longrightarrow> keeps (edit_variable E x e f)" "engine_ok E \<Longrightarrow> keeps (edit_receiver E x read e f)"
  "engine_ok E \<Longrightarrow> keeps (edit_receiver_done E x read e f)"
  by (auto simp: edit_variable_def edit_receiver_def edit_receiver_done_def store_simps intro!: keeps_rules)

lemma with_receiver_keeps [keeps_rules]: "keeps m \<Longrightarrow> (\<And>read v. keeps (f read v)) \<Longrightarrow> keeps (with_receiver x es m f)"
  unfolding with_receiver_def Let_def by (auto intro!: keeps_rules)

lemma hot_append_start_shape [store_simps]:
  "shape (hot_append_start i x v s) = shape s" "stacks_ok (hot_append_start i x v s) = stacks_ok s"
  by (simp_all add: hot_append_start_def Let_def store_simps)

lemma start_hot_shape [store_simps]: "shape (start_hot a s) = shape s" "stacks_ok (start_hot a s) = stacks_ok s"
  by (simp_all add: start_hot_def Let_def store_simps)

lemma declare_const_shape [store_simps]:
  "shape (declare_const x v s) = shape s" "stacks_ok (declare_const x v s) = stacks_ok s"
  by (simp_all add: declare_const_def store_simps)

lemma eval_nav_steps_keeps [keeps_rules]: "engine_ok E \<Longrightarrow> keeps (eval_nav_steps E di sp)"
  unfolding eval_nav_steps_def by (auto intro!: keeps_rules)

lemma eval_as_text_keeps [keeps_rules]: "engine_ok E \<Longrightarrow> keeps (eval_as_text E e)"
  unfolding eval_as_text_def by (auto intro!: keeps_rules)

lemma apply_in_keeps [keeps_rules]: "keeps (apply_in h b l r)"
  unfolding apply_in_def by (auto intro!: keeps_rules)

lemma assign_element_read_keeps [keeps_rules]: "engine_ok E \<Longrightarrow> keeps (assign_element_read E a ix)"
  unfolding assign_element_read_def by (auto intro!: keeps_rules simp: store_simps)

lemma assign_append_keeps [keeps_rules]: "engine_ok E \<Longrightarrow> keeps (assign_append E a op)"
  unfolding assign_append_def by (auto intro!: keeps_rules simp: store_simps)

lemma assign_remove_at_keeps [keeps_rules]: "engine_ok E \<Longrightarrow> keeps (assign_remove_at E a op)"
  unfolding assign_remove_at_def by (auto intro!: keeps_rules)

text \<open>Of a choice between the kinds of expressions, only those written out matter.\<close>

lemma keeps_case_expr_update:
  "(\<And>x. keeps (f x)) \<Longrightarrow> (\<And>x. keeps (g x)) \<Longrightarrow> (\<And>x. keeps (k x)) \<Longrightarrow> keeps m \<Longrightarrow>
   keeps (case e of EIndex x \<Rightarrow> f x | EMemberAccess x \<Rightarrow> g x | EDeepIndex x \<Rightarrow> k x | _ \<Rightarrow> m)"
  by (cases e) auto

lemma assign_update_keeps [keeps_rules]: "engine_ok E \<Longrightarrow> keeps (assign_update E a op)"
  unfolding assign_update_def Let_def by (rule keeps_case_expr_update) (auto intro!: keeps_rules)

lemma assign_concat_build_keeps [keeps_rules]: "engine_ok E \<Longrightarrow> keeps (assign_concat_build E a op)"
  unfolding assign_concat_build_def Let_def by (auto intro!: keeps_rules)

lemma finish_binary_keeps [keeps_rules]: "engine_ok E \<Longrightarrow> keeps (finish_binary h E a b r)"
  unfolding finish_binary_def Let_def by (auto intro!: keeps_rules simp: store_simps)

lemma assign_binary_keeps [keeps_rules]: "engine_ok E \<Longrightarrow> keeps (assign_binary h E a b)"
  unfolding assign_binary_def Let_def by (auto intro!: keeps_rules simp: store_simps)

lemma assign_shape_keeps [keeps_rules]: "engine_ok E \<Longrightarrow> keeps (assign_shape h E a)"
  unfolding assign_shape_def by (cases "as_value a") (auto intro!: keeps_rules)

lemma execute_assignment_keeps [keeps_rules]: "engine_ok E \<Longrightarrow> keeps (execute_assignment h E a)"
  unfolding execute_assignment_def Let_def by (auto intro!: keeps_rules simp: store_simps)

lemma execute_const_decl_keeps [keeps_rules]: "engine_ok E \<Longrightarrow> keeps (execute_const_decl E c)"
  unfolding execute_const_decl_def by (auto intro!: keeps_rules simp: store_simps)

lemma edits_le [le_rules]:
  "le_engine E F \<Longrightarrow> le_comp (edit_variable E x e f) (edit_variable F x e f)"
  "le_engine E F \<Longrightarrow> le_comp (edit_receiver E x read e f) (edit_receiver F x read e f)"
  "le_engine E F \<Longrightarrow> le_comp (edit_receiver_done E x read e f) (edit_receiver_done F x read e f)"
  by (auto simp: edit_variable_def edit_receiver_def edit_receiver_done_def intro!: le_rules)

lemma with_receiver_le [le_rules]:
  "le_comp m n \<Longrightarrow> (\<And>read v. le_comp (f read v) (g read v)) \<Longrightarrow> le_comp (with_receiver x es m f) (with_receiver x es n g)"
  unfolding with_receiver_def Let_def by (auto intro!: le_rules)

lemma assign_parts_le [le_rules]:
  "le_engine E F \<Longrightarrow> le_comp (eval_nav_steps E di sp) (eval_nav_steps F di sp)"
  "le_engine E F \<Longrightarrow> le_comp (eval_as_text E e) (eval_as_text F e)"
  unfolding eval_nav_steps_def eval_as_text_def by (auto intro!: le_rules)

lemma assign_element_read_le [le_rules]: "le_engine E F \<Longrightarrow> le_comp (assign_element_read E a ix) (assign_element_read F a ix)"
  unfolding assign_element_read_def by (auto intro!: le_rules)

lemma assign_append_le [le_rules]: "le_engine E F \<Longrightarrow> le_comp (assign_append E a op) (assign_append F a op)"
  unfolding assign_append_def by (auto intro!: le_rules)

lemma assign_remove_at_le [le_rules]: "le_engine E F \<Longrightarrow> le_comp (assign_remove_at E a op) (assign_remove_at F a op)"
  unfolding assign_remove_at_def by (auto intro!: le_rules)

lemma le_case_expr_update:
  "(\<And>x. le_comp (f x) (f' x)) \<Longrightarrow> (\<And>x. le_comp (g x) (g' x)) \<Longrightarrow> (\<And>x. le_comp (k x) (k' x)) \<Longrightarrow> le_comp m m' \<Longrightarrow>
   le_comp (case e of EIndex x \<Rightarrow> f x | EMemberAccess x \<Rightarrow> g x | EDeepIndex x \<Rightarrow> k x | _ \<Rightarrow> m)
     (case e of EIndex x \<Rightarrow> f' x | EMemberAccess x \<Rightarrow> g' x | EDeepIndex x \<Rightarrow> k' x | _ \<Rightarrow> m')"
  by (cases e) auto

lemma assign_update_le [le_rules]: "le_engine E F \<Longrightarrow> le_comp (assign_update E a op) (assign_update F a op)"
  unfolding assign_update_def Let_def by (rule le_case_expr_update) (auto intro!: le_rules)

lemma assign_concat_build_le [le_rules]: "le_engine E F \<Longrightarrow> le_comp (assign_concat_build E a op) (assign_concat_build F a op)"
  unfolding assign_concat_build_def Let_def by (auto intro!: le_rules)

lemma finish_binary_le [le_rules]: "le_engine E F \<Longrightarrow> le_comp (finish_binary h E a b r) (finish_binary h F a b r)"
  unfolding finish_binary_def Let_def by (auto intro!: le_rules)

lemma assign_binary_le [le_rules]: "le_engine E F \<Longrightarrow> le_comp (assign_binary h E a b) (assign_binary h F a b)"
  unfolding assign_binary_def Let_def by (auto intro!: le_rules)

lemma assign_shape_le [le_rules]: "le_engine E F \<Longrightarrow> le_comp (assign_shape h E a) (assign_shape h F a)"
  unfolding assign_shape_def by (cases "as_value a") (auto intro!: le_rules)

lemma execute_assignment_le [le_rules]: "le_engine E F \<Longrightarrow> le_comp (execute_assignment h E a) (execute_assignment h F a)"
  unfolding execute_assignment_def Let_def by (auto intro!: le_rules)

lemma execute_const_decl_le [le_rules]: "le_engine E F \<Longrightarrow> le_comp (execute_const_decl E c) (execute_const_decl F c)"
  unfolding execute_const_decl_def by (auto intro!: le_rules)

end
