(* ===== verification/ZyCalls.thy ===== *)
theory ZyCalls imports ZyAssign begin

text \<open>
  Calls (crates/zymbol-interpreter/src/functions_lambda.rs): the limit on active calls, lambdas
  with their captures, named functions with the state of their module, output parameters lent and
  written back, and the loop a tail call makes of a body.
\<close>

section \<open>The limit on active calls\<close>

definition MAX_ACTIVE_CALLS :: nat where "MAX_ACTIVE_CALLS = 10000"

definition exceeded_message :: ustring where
  "exceeded_message = U ''call depth exceeded: more than '' @ show_nat MAX_ACTIVE_CALLS @ U '' calls active at once''"

definition enter_call :: "host \<Rightarrow> span \<Rightarrow> unit comp" where
  "enter_call h sp = reading (\<lambda>s.
     if MAX_ACTIVE_CALLS \<le> active_calls s \<or> h_stack_spent h s then raise (EGeneric exceeded_message sp)
     else modify (\<lambda>s. s\<lparr>active_calls := active_calls s + 1\<rparr>))"

definition counted :: "host \<Rightarrow> span \<Rightarrow> 'a comp \<Rightarrow> 'a comp" where
  "counted h sp m = bindc (enter_call h sp) (\<lambda>_. finally_do m (\<lambda>s. s\<lparr>active_calls := active_calls s - 1\<rparr>))"

section \<open>Frames\<close>

text \<open>A computation in a frame of its own: what sets the frame up, and what is made of the outcome once it is
  over, which gives the caller's frame back.\<close>

definition in_frame ::
    "(frame \<Rightarrow> interp \<Rightarrow> interp) \<Rightarrow> 'a comp \<Rightarrow> (frame \<Rightarrow> nat \<Rightarrow> 'a outcome \<Rightarrow> interp \<Rightarrow> 'b outcome \<times> interp) \<Rightarrow> 'b comp"
where
  "in_frame enter m leave = reading (\<lambda>s.
     case take_call_state s of (saved, s') \<Rightarrow>
       bindc (modify (\<lambda>_. enter saved s')) (\<lambda>_.
       bindc (attempt m) (\<lambda>r. stateful (leave saved (cur_stmt_line s) r))))"

definition unit_or :: "zvalue option \<Rightarrow> zvalue" where
  "unit_or z = (case z of Some v \<Rightarrow> v | None \<Rightarrow> VUnit)"

definition bind_params :: "ustring list \<Rightarrow> zvalue list \<Rightarrow> interp \<Rightarrow> interp" where
  "bind_params xs vs = fold (\<lambda>(x, v). set_variable x v) (zip xs vs)"

definition bind_new_params :: "ustring list \<Rightarrow> zvalue list \<Rightarrow> interp \<Rightarrow> interp" where
  "bind_new_params xs vs = fold (\<lambda>(x, v). set_variable_new x v) (zip xs vs)"

section \<open>Lambdas\<close>

definition lambda_arity_error :: "nat \<Rightarrow> nat \<Rightarrow> span \<Rightarrow> runtime_error" where
  "lambda_arity_error want got sp =
     EGeneric (U ''lambda expects '' @ show_nat want @ U '' arguments, got '' @ show_nat got) sp"

text \<open>An expression without captures runs in a scope of the caller's frame.  A return pending at the end is
  what it answers.\<close>

definition settle_fast :: "zvalue outcome \<Rightarrow> interp \<Rightarrow> zvalue outcome \<times> interp" where
  "settle_fast r s =
     (case control_flow s of
        CfReturn z \<Rightarrow>
          ((case r of Inr _ \<Rightarrow> Inr (unit_or z) | Inl e \<Rightarrow> if e = EUnwind then Inr (unit_or z) else Inl e),
           clear_control_flow s)
      | _ \<Rightarrow> (r, s))"

definition leave_fast :: "interp \<Rightarrow> zvalue outcome \<Rightarrow> interp \<Rightarrow> zvalue outcome \<times> interp" where
  "leave_fast s0 r s =
     (case settle_fast r s of (r', s') \<Rightarrow>
        let s'' = pop_scope (s'\<lparr>import_aliases := import_aliases s0\<rparr>)
        in (r', case r' of Inr _ \<Rightarrow> s''\<lparr>cur_stmt_line := cur_stmt_line s0\<rparr> | Inl _ \<Rightarrow> s''))"

definition fast_lambda :: "engine \<Rightarrow> function_value \<Rightarrow> expr \<Rightarrow> zvalue list \<Rightarrow> zvalue comp" where
  "fast_lambda E f e args = reading (\<lambda>s0.
     bindc (modify (\<lambda>s. (bind_new_params (fv_params f) args (push_scope s))\<lparr>import_aliases := fv_aliases f\<rparr>)) (\<lambda>_.
     bindc (attempt (eval E e)) (\<lambda>r. stateful (leave_fast s0 r))))"

definition enter_lambda :: "function_value \<Rightarrow> zvalue list \<Rightarrow> frame \<Rightarrow> interp \<Rightarrow> interp" where
  "enter_lambda f args saved s =
     bind_params (fv_params f) args (bind_all (fv_captures f)
       (if fv_aliases f \<noteq> [] then s\<lparr>import_aliases := fv_aliases f\<rparr> else s))"

text \<open>The body of a lambda answers its value, or nothing when it is a block.\<close>

definition lambda_body_comp :: "engine \<Rightarrow> function_value \<Rightarrow> zvalue option comp" where
  "lambda_body_comp E f =
     (case fv_body f of
        LamExpr e \<Rightarrow> bindc (eval E e) (\<lambda>v. ret (Some v))
      | LamBlock b \<Rightarrow> bindc (execute_block_no_scope E b) (\<lambda>_. ret None))"

definition take_return :: "interp \<Rightarrow> (zvalue \<times> interp) option" where
  "take_return s = (case control_flow s of
      CfReturn z \<Rightarrow> Some (unit_or z, s\<lparr>control_flow := CfNone, has_control_flow := False\<rparr>)
    | _ \<Rightarrow> None)"

definition lambda_result :: "zvalue option outcome \<Rightarrow> interp \<Rightarrow> zvalue outcome \<times> interp" where
  "lambda_result r s =
     (case r of
        Inl e \<Rightarrow> (Inl e, s)
      | Inr (Some v) \<Rightarrow> (Inr v, s)
      | Inr None \<Rightarrow>
          (case take_return s of
             Some (v, s') \<Rightarrow> (Inr v, s')
           | None \<Rightarrow> (Inr VUnit, s\<lparr>control_flow := CfNone\<rparr>)))"

text \<open>A signal that unwound an expression body is the return of the lambda.\<close>

definition unwound_result :: "function_value \<Rightarrow> zvalue option outcome \<Rightarrow> interp \<Rightarrow> zvalue outcome \<times> interp" where
  "unwound_result f r s =
     (case (fv_body f, r) of
        (LamExpr _, Inl e) \<Rightarrow>
          (if e = EUnwind then (case take_return s of Some (v, s') \<Rightarrow> (Inr v, s') | None \<Rightarrow> (Inl EUnwind, s))
           else (Inl e, s))
      | _ \<Rightarrow> lambda_result r s)"

definition leave_lambda :: "function_value \<Rightarrow> frame \<Rightarrow> nat \<Rightarrow> zvalue option outcome \<Rightarrow> interp \<Rightarrow> zvalue outcome \<times> interp" where
  "leave_lambda f saved call_line r s =
     (case unwound_result f r s of (r', s') \<Rightarrow>
        let s'' = restore_call_state saved s'
        in (r', case r' of Inr _ \<Rightarrow> s''\<lparr>cur_stmt_line := call_line\<rparr> | Inl _ \<Rightarrow> s''))"

definition eval_lambda_call_body :: "engine \<Rightarrow> function_value \<Rightarrow> zvalue list \<Rightarrow> span \<Rightarrow> zvalue comp" where
  "eval_lambda_call_body E f args sp =
     (if length args \<noteq> length (fv_params f) then raise (lambda_arity_error (length (fv_params f)) (length args) sp)
      else case (fv_captures f, fv_body f) of
             ([], LamExpr e) \<Rightarrow> fast_lambda E f e args
           | _ \<Rightarrow> in_frame (enter_lambda f args) (lambda_body_comp E f) (leave_lambda f))"

definition eval_lambda_call :: "host \<Rightarrow> engine \<Rightarrow> function_value \<Rightarrow> zvalue list \<Rightarrow> span \<Rightarrow> zvalue comp" where
  "eval_lambda_call h E f args sp = counted h sp (eval_lambda_call_body E f args sp)"

section \<open>Named functions\<close>

definition is_output :: "parameter \<Rightarrow> bool" where
  "is_output p = (pa_kind p = ParamOutput)"

text \<open>The output arguments that are lent: a variable of the calling frame, passed out once.\<close>

definition lendable :: "interp \<Rightarrow> parameter \<times> expr \<Rightarrow> ustring option" where
  "lendable s pe =
     (case pe of (p, e) \<Rightarrow>
        if \<not> is_output p then None
        else (case as_identifier e of
                None \<Rightarrow> None
              | Some i \<Rightarrow>
                  if hot_name i \<or> is_module_state s (id_name i) \<or> is_const s (id_name i) \<or>
                     \<not> list_ex (\<lambda>sc. sc (id_name i) \<noteq> None) (scope_stack s)
                  then None else Some (id_name i)))"

definition lendable_arguments :: "interp \<Rightarrow> parameter list \<Rightarrow> expr list \<Rightarrow> bool list" where
  "lendable_arguments s ps es =
     (let zs = map (lendable s) (zip ps es)
      in map (\<lambda>z. case z of None \<Rightarrow> False | Some x \<Rightarrow> count_list zs (Some x) = 1) zs)"

primrec eval_arguments :: "engine \<Rightarrow> bool list \<Rightarrow> expr list \<Rightarrow> zvalue list comp" where
  "eval_arguments E lent [] = ret []"
| "eval_arguments E lent (e # es) =
     bindc (if lent \<noteq> [] \<and> hd lent then ret VUnit else eval E e) (\<lambda>v.
     bindc (eval_arguments E (tl lent) es) (\<lambda>vs. ret (v # vs)))"

text \<open>The lent values leave the caller's variables, which hold nothing meanwhile.\<close>

fun lend :: "bool list \<Rightarrow> expr list \<Rightarrow> zvalue list \<Rightarrow> interp \<Rightarrow> zvalue list \<times> interp" where
  "lend (b # bs) (e # es) (v # vs) s =
     (case (if b then as_identifier e else None) of
        None \<Rightarrow> (case lend bs es vs s of (ws, t) \<Rightarrow> (v # ws, t))
      | Some i \<Rightarrow>
          (case slot_value s (id_name i) of
             None \<Rightarrow> (case lend bs es vs s of (ws, t) \<Rightarrow> (v # ws, t))
           | Some w \<Rightarrow> (case lend bs es vs (put_slot (id_name i) VUnit s) of (ws, t) \<Rightarrow> (w # ws, t))))"
| "lend _ _ vs s = (vs, s)"

text \<open>The module whose state the body runs against, and what the body sees of its file.\<close>

definition module_context :: "interp \<Rightarrow> ustring option \<Rightarrow> ustring option \<Rightarrow> ustring option" where
  "module_context s module_path origin =
     (case module_path of
        Some path \<Rightarrow> Some (case origin of Some p \<Rightarrow> p | None \<Rightarrow> path)
      | None \<Rightarrow> (case origin of Some p \<Rightarrow> if loaded_modules s p \<noteq> None then Some p else None | None \<Rightarrow> None))"

definition captured_from_file :: "host \<Rightarrow> interp \<Rightarrow> function_def \<Rightarrow> (ustring \<times> zvalue) list" where
  "captured_from_file h s d =
     concat (map (\<lambda>x. case file_vars s x of Some v \<Rightarrow> [(x, v)] | None \<Rightarrow> [])
       (collect_refs_in_stmts h (blk_statements (fn_body d)) (map pa_name (fn_parameters d))))"

definition bind_all_new :: "(ustring \<times> zvalue) list \<Rightarrow> interp \<Rightarrow> interp" where
  "bind_all_new bs = fold (\<lambda>(x, v). set_variable_new x v) bs"

definition enter_module :: "(ustring \<times> zvalue) list \<Rightarrow> ustring \<Rightarrow> bool \<Rightarrow> loaded_module \<Rightarrow> interp \<Rightarrow> interp" where
  "enter_module captured path want_functions m s =
     (let vars = mod_all_variables m;
          s1 = s\<lparr>loaded_modules := (loaded_modules s)(path \<mapsto> m\<lparr>mod_all_variables := Map.empty, mod_dead_variables := {}\<rparr>),
                module_dead := mod_dead_variables m,
                scope_stack := (scope_stack s)[0 := vars] @ [hd (scope_stack s)],
                has_any_const := has_any_const s \<or> mod_const_names m \<noteq> {},
                const_vars_stack := (const_vars_stack s)[0 := mod_const_names m] @ [hd (const_vars_stack s)],
                mutable_vars_stack := mutable_vars_stack s @ [{}],
                module_scope := True\<rparr>;
          s2 = bind_all_new (filter (\<lambda>(x, v). vars x = None) captured) s1
      in s2\<lparr>import_aliases := mod_import_aliases m, current_module_path := Some path,
            fn_table := (if want_functions then mod_all_functions m else fn_table s2)\<rparr>)"

text \<open>The constants the caller sees, the innermost of each name, with their names.\<close>

fun visible_constants :: "scope list \<Rightarrow> ustring set list \<Rightarrow> scope \<times> ustring set" where
  "visible_constants (sc # scs) (cs # css) =
     (let live = {x \<in> cs. sc x \<noteq> None}
      in case visible_constants scs css of
           (m, names) \<Rightarrow> ((\<lambda>x. if m x \<noteq> None then m x else if x \<in> live then sc x else None), live \<union> names))"
| "visible_constants _ _ = (Map.empty, {})"

definition enter_script :: "(ustring \<times> zvalue) list \<Rightarrow> frame \<Rightarrow> interp \<Rightarrow> interp" where
  "enter_script captured saved s =
     (let s1 = bind_all_new captured s
      in case visible_constants (frame.scope_stack saved) (frame.const_vars_stack saved) of
           (consts, names) \<Rightarrow>
             s1\<lparr>import_aliases := frame.import_aliases saved,
                scope_stack := (scope_stack s1)[0 := hd (scope_stack s1) ++ consts],
                dead_variables := dead_variables s1 |` (- names),
                auto_dead_variables := auto_dead_variables s1 - names,
                const_vars_stack := (const_vars_stack s1)[0 := hd (const_vars_stack s1) \<union> names],
                has_any_const := has_any_const s1 \<or> names \<noteq> {}\<rparr>)"

definition bind_parameter :: "parameter \<times> zvalue \<Rightarrow> interp \<Rightarrow> interp" where
  "bind_parameter pv s =
     (case pv of (p, v) \<Rightarrow>
        let s1 = unmark_const (pa_name p) s;
            s2 = (if pa_kind p = ParamNormal then s1 else mark_mutable (pa_name p) s1)
        in set_variable_new (pa_name p) v s2)"

text \<open>What a call of a named function is: the function, its arguments, and the module it was reached through.\<close>

record call_site =
  cs_params :: "parameter list"
  cs_args :: "expr list"
  cs_lent :: "bool list"
  cs_values :: "zvalue list"
  cs_context :: "ustring option"
  cs_want_functions :: bool
  cs_captured :: "(ustring \<times> zvalue) list"
  cs_name :: "ustring option"
  cs_body_file :: "ustring option"

definition output_names :: "parameter list \<Rightarrow> ustring set" where
  "output_names ps = pa_name ` set (filter is_output ps)"

definition enter_function :: "call_site \<Rightarrow> frame \<Rightarrow> interp \<Rightarrow> interp" where
  "enter_function c saved s =
     (let s1 = (case cs_context c of
                  None \<Rightarrow> enter_script (cs_captured c) saved s
                | Some path \<Rightarrow>
                    (case loaded_modules s path of
                       Some m \<Rightarrow> enter_module (cs_captured c) path (cs_want_functions c) m s
                     | None \<Rightarrow> s));
          s2 = fold bind_parameter (zip (cs_params c) (cs_values c)) s1
      in s2\<lparr>current_function := cs_name c, move_guard_names := output_names (cs_params c)\<rparr>)"

text \<open>A tail call of the function by itself runs the body again with its arguments.\<close>

definition rebind_tail_call :: "parameter list \<Rightarrow> interp \<Rightarrow> interp" where
  "rebind_tail_call ps s =
     clear_control_flow (bind_params (map pa_name ps) (tco_args s) (s\<lparr>tco_pending := False, tco_args := []\<rparr>))"

primrec body_loop :: "nat \<Rightarrow> engine \<Rightarrow> parameter list \<Rightarrow> statement block \<Rightarrow> (nat \<times> ustring list) list \<Rightarrow> unit comp" where
  "body_loop 0 E ps b schedule = no_fuel"
| "body_loop (Suc n) E ps b schedule =
     bindc (execute_body_scheduled E b schedule) (\<lambda>_. reading (\<lambda>s.
       if tco_pending s then bindc (modify (rebind_tail_call ps)) (\<lambda>_. body_loop n E ps b schedule)
       else ret ()))"

text \<open>The values the output parameters hold at the end, under the names they go back to.\<close>

fun take_outputs :: "(parameter \<times> expr) list \<Rightarrow> interp \<Rightarrow> (ustring \<times> zvalue) list \<times> interp" where
  "take_outputs [] s = ([], s)"
| "take_outputs ((p, e) # pes) s =
     (case as_identifier e of
        None \<Rightarrow> take_outputs pes s
      | Some i \<Rightarrow>
          (case take_variable (pa_name p) s of
             (z, s') \<Rightarrow> (case take_outputs pes s' of (us, t) \<Rightarrow> ((id_name i, unit_or z) # us, t))))"

definition output_pairs :: "call_site \<Rightarrow> (parameter \<times> expr) list" where
  "output_pairs c = filter (\<lambda>(p, e). is_output p) (zip (cs_params c) (cs_args c))"

definition lent_pairs :: "call_site \<Rightarrow> (parameter \<times> expr) list" where
  "lent_pairs c = map fst (filter snd (zip (zip (cs_params c) (cs_args c)) (cs_lent c)))"

text \<open>What of the state outside the frame a call changes while it runs.\<close>

record call_context =
  cc_function :: "ustring option"
  cc_guard :: "ustring set"
  cc_functions :: "(ustring \<Rightarrow> (nat \<times> function_def) option) option"

definition leave_call :: "call_context \<Rightarrow> frame \<Rightarrow> (ustring \<times> zvalue) list \<Rightarrow> interp \<Rightarrow> interp" where
  "leave_call cc saved updates s =
     (let s1 = bind_all updates (restore_call_state saved s)
      in case cc_functions cc of Some t \<Rightarrow> s1\<lparr>fn_table := t\<rparr> | None \<Rightarrow> s1)"

definition give_back :: "call_context \<Rightarrow> interp \<Rightarrow> interp" where
  "give_back cc s = s\<lparr>current_function := cc_function cc, move_guard_names := cc_guard cc\<rparr>"

definition locate_in :: "ustring option \<Rightarrow> interp \<Rightarrow> runtime_error \<Rightarrow> runtime_error" where
  "locate_in file s e =
     (case (case file of Some f \<Rightarrow> Some f | None \<Rightarrow> current_file s) of
        Some f \<Rightarrow> locate f (cur_stmt_line s) e
      | None \<Rightarrow> e)"

definition leave_function :: "call_site \<Rightarrow> call_context \<Rightarrow> frame \<Rightarrow> nat \<Rightarrow> unit outcome \<Rightarrow> interp \<Rightarrow> zvalue outcome \<times> interp" where
  "leave_function c cc saved call_line r s =
     (case r of
        Inl e \<Rightarrow>
          (case take_outputs (lent_pairs c) s of (returned, s1) \<Rightarrow>
             let s2 = leave_call cc saved returned (check_in_module_scope (give_back cc s1))
             in (Inl (locate_in (cs_body_file c) s2 e), s2))
      | Inr _ \<Rightarrow>
          (case (case take_return s of Some (v, s1) \<Rightarrow> (v, s1) | None \<Rightarrow> (VUnit, s\<lparr>control_flow := CfNone\<rparr>)) of
             (v, s1) \<Rightarrow>
               (case take_outputs (output_pairs c) (check_in_module_scope (give_back cc s1)) of
                  (updates, s2) \<Rightarrow> (Inr v, (leave_call cc saved updates s2)\<lparr>cur_stmt_line := call_line\<rparr>))))"

definition arity_error :: "ustring \<Rightarrow> int \<Rightarrow> int \<Rightarrow> span \<Rightarrow> runtime_error" where
  "arity_error noun want got sp =
     EGeneric (U ''function expects '' @ show_int want @ noun @ U '', got '' @ show_int got) sp"

text \<open>A length kept in eight bits.\<close>

definition wrap_i8 :: "nat \<Rightarrow> int" where
  "wrap_i8 n = (int n + 128) mod 256 - 128"

definition call_native :: "host \<Rightarrow> engine \<Rightarrow> ustring \<Rightarrow> int \<Rightarrow> expr list \<Rightarrow> span \<Rightarrow> zvalue comp" where
  "call_native h E name arity args sp =
     (let got = wrap_i8 (length args)
      in if 0 \<le> arity \<and> got \<noteq> arity then raise (arity_error (U '' argument(s)'') arity got sp)
         else bindc (mapc (eval E) args) (\<lambda>vs. lift (h_native h name vs sp)))"

definition run_function ::
    "host \<Rightarrow> engine \<Rightarrow> function_def \<Rightarrow> expr list \<Rightarrow> bool list \<Rightarrow> zvalue list \<Rightarrow> ustring option \<Rightarrow> ustring option \<Rightarrow> zvalue comp"
where
  "run_function h E d args lent vs module_path name = reading (\<lambda>s.
     let context = module_context s module_path (fn_origin d);
         swapped = (module_path \<noteq> None \<and> (case context of Some p \<Rightarrow> loaded_modules s p \<noteq> None | None \<Rightarrow> False));
         site = \<lparr>cs_params = fn_parameters d, cs_args = args, cs_lent = lent, cs_values = vs, cs_context = context,
                 cs_want_functions = (module_path \<noteq> None), cs_captured = captured_from_file h s d, cs_name = name,
                 cs_body_file = fn_origin d\<rparr>;
         cc = \<lparr>cc_function = current_function s, cc_guard = move_guard_names s,
               cc_functions = (if swapped then Some (fn_table s) else None)\<rparr>
     in in_frame (enter_function site) (body_loop (turns E) E (fn_parameters d) (fn_body d) (fn_auto_free d))
          (leave_function site cc))"

definition call_zymbol :: "host \<Rightarrow> engine \<Rightarrow> function_def \<Rightarrow> expr list \<Rightarrow> span \<Rightarrow> ustring option \<Rightarrow> ustring option \<Rightarrow> zvalue comp" where
  "call_zymbol h E d args sp module_path name =
     (if length args \<noteq> length (fn_parameters d)
      then raise (arity_error (U '' arguments'') (int (length (fn_parameters d))) (int (length args)) sp)
      else reading (\<lambda>s.
        let lent = lendable_arguments s (fn_parameters d) args
        in bindc (eval_arguments E lent args) (\<lambda>vs.
           bindc (stateful (\<lambda>s. case lend lent args vs s of (ws, t) \<Rightarrow> (Inr ws, t))) (\<lambda>ws.
           run_function h E d args lent ws module_path name))))"

definition eval_traditional_function_call ::
    "host \<Rightarrow> engine \<Rightarrow> function_def \<Rightarrow> expr list \<Rightarrow> span \<Rightarrow> ustring option \<Rightarrow> ustring option \<Rightarrow> zvalue comp"
where
  "eval_traditional_function_call h E d args sp module_path name =
     (case d of
        FnNative native arity \<Rightarrow> call_native h E native arity args sp
      | FnZymbol _ _ _ _ \<Rightarrow> counted h sp (call_zymbol h E d args sp module_path name))"

section \<open>What is called\<close>

definition call_evaluated :: "host \<Rightarrow> engine \<Rightarrow> expr function_call \<Rightarrow> zvalue comp" where
  "call_evaluated h E c = bindc (eval E (call_callable c)) (\<lambda>v.
     case v of
       VFunction f \<Rightarrow> bindc (mapc (eval E) (call_arguments c)) (\<lambda>vs. eval_lambda_call h E f vs (call_span c))
     | _ \<Rightarrow> raise (kinded ''Type'' (U ''expression is not callable'') (call_span c)))"

definition no_such_function :: "interp \<Rightarrow> ustring \<Rightarrow> span \<Rightarrow> runtime_error" where
  "no_such_function s x sp =
     (if get_variable s x \<noteq> None then kinded ''Type'' (quoted x @ U '' is not a function'') sp
      else EGeneric (U ''undefined function: '' @ quoted x) sp)"

definition call_named :: "host \<Rightarrow> engine \<Rightarrow> expr function_call \<Rightarrow> ustring \<Rightarrow> zvalue comp" where
  "call_named h E c x = reading (\<lambda>s.
     case get_variable s x of
       Some (VFunction f) \<Rightarrow> bindc (mapc (eval E) (call_arguments c)) (\<lambda>vs. eval_lambda_call h E f vs (call_span c))
     | _ \<Rightarrow>
         (case fn_table s x of
            Some (_, d) \<Rightarrow> eval_traditional_function_call h E d (call_arguments c) (call_span c) None (Some x)
          | None \<Rightarrow>
              bindc (lift (check_variable_alive s x (call_span c))) (\<lambda>_. raise (no_such_function s x (call_span c)))))"

definition call_in_module :: "host \<Rightarrow> engine \<Rightarrow> expr function_call \<Rightarrow> ustring \<Rightarrow> ustring \<Rightarrow> ustring \<Rightarrow> zvalue comp" where
  "call_in_module h E c alias path f = reading (\<lambda>s.
     case loaded_modules s path of
       None \<Rightarrow> raise (EGeneric (U ''module '' @ quoted alias @ U '' not loaded'') (call_span c))
     | Some m \<Rightarrow>
         (case mod_functions m f of
            None \<Rightarrow> raise (EGeneric (U ''module '' @ quoted alias @ U '' does not export function '' @ quoted f) (call_span c))
          | Some (_, d) \<Rightarrow> eval_traditional_function_call h E d (call_arguments c) (call_span c) (Some path) None))"

definition alias_of_call :: "interp \<Rightarrow> expr member_access \<Rightarrow> (ustring \<times> ustring) option" where
  "alias_of_call s ma =
     (case as_identifier (mem_object ma) of
        None \<Rightarrow> None
      | Some i \<Rightarrow>
          (case map_of (import_aliases s) (id_name i) of
             Some path \<Rightarrow> if mem_module ma \<or> \<not> variable_hides_alias s (id_name i) then Some (id_name i, path) else None
           | None \<Rightarrow> None))"

definition eval_function_call :: "host \<Rightarrow> engine \<Rightarrow> expr function_call \<Rightarrow> zvalue comp" where
  "eval_function_call h E c =
     (case unwrap_group (call_callable c) of
        EIdentifier i \<Rightarrow> call_named h E c (id_name i)
      | EMemberAccess ma \<Rightarrow> reading (\<lambda>s.
          case alias_of_call s ma of
            Some (alias, path) \<Rightarrow> call_in_module h E c alias path (mem_field ma)
          | None \<Rightarrow> call_evaluated h E c)
      | _ \<Rightarrow> call_evaluated h E c)"

section \<open>A call gives the caller its frame back\<close>

definition fresh_in :: "interp \<Rightarrow> bool" where
  "fresh_in s \<longleftrightarrow> frame.truncate s = fresh_frame"

lemma fresh_inD:
  "fresh_in s \<Longrightarrow> scope_stack s = [Map.empty] \<and> mutable_vars_stack s = [{}] \<and> const_vars_stack s = [{}] \<and>
     module_scope s = False \<and> loop_scope_depths s = [] \<and> stacks_ok s"
  by (cases s) (auto simp: fresh_in_def fresh_frame_def frame.truncate_def stacks_ok_def)

lemma check_module_shape [store_simps]:
  "shape (check_in_module_scope s) = shape s" "stacks_ok (check_in_module_scope s) = stacks_ok s"
  "shape (check_out_module_scope s) = shape s" "stacks_ok (check_out_module_scope s) = stacks_ok s"
  by (auto simp: check_in_module_scope_def check_out_module_scope_def shape_def stacks_ok_def split: option.split list.split)

lemma fresh_frame_fields:
  "fresh_in (with_frame fresh_frame (c\<lparr>call_depth := n\<rparr>)) = True"
  "call_depth (with_frame fresh_frame (c\<lparr>call_depth := n\<rparr>)) = n"
  "active_calls (with_frame fresh_frame (c\<lparr>call_depth := n\<rparr>)) = active_calls c"
  by (cases c; simp add: fresh_in_def with_frame_def frame.defs fresh_frame_def)+

lemma take_call_state_fresh:
  assumes "take_call_state s = (saved, t)"
  shows "fresh_in t" "call_depth t = call_depth s + 1" "active_calls t = active_calls s"
proof -
  have c: "call_depth (check_in_module_scope s) = call_depth s" "active_calls (check_in_module_scope s) = active_calls s"
    by (auto simp: check_in_module_scope_def split: option.split list.split)
  have "t = with_frame fresh_frame ((check_in_module_scope s)\<lparr>call_depth := call_depth (check_in_module_scope s) + 1\<rparr>)"
    using assms by (simp add: take_call_state_def Let_def)
  with c show "fresh_in t" "call_depth t = call_depth s + 1" "active_calls t = active_calls s"
    by (simp_all only: fresh_frame_fields)
qed

lemma with_frame_shape:
  "shape (with_frame (frame.truncate c) v) =
     (length (scope_stack c), loop_scope_depths c, module_scope c, current_module_path c,
      call_depth v, active_calls v, try_depth c)"
  "stacks_ok (with_frame (frame.truncate c) v) = stacks_ok c"
  by (cases c; cases v; simp add: with_frame_def frame.defs shape_def stacks_ok_def)+

lemma restore_shape:
  assumes "stacks_ok s" "take_call_state s = (saved, t)" "call_depth u = call_depth t" "active_calls u = active_calls t"
  shows "stacks_ok (restore_call_state saved u)" "shape (restore_call_state saved u) = shape s"
proof -
  have d: "call_depth u = call_depth s + 1" "active_calls u = active_calls s"
    using take_call_state_fresh [OF assms(2)] assms(3,4) by auto
  obtain c where c: "c = check_in_module_scope s" by blast
  have saved: "saved = frame.truncate c" using assms(2) by (simp add: take_call_state_def Let_def c)
  have ok: "stacks_ok c" "shape c = shape s" using assms(1) by (simp_all add: store_simps c)
  then have "shape s = (length (scope_stack c), loop_scope_depths c, module_scope c, current_module_path c,
      call_depth s, active_calls s, try_depth c)" by (simp add: shape_def)
  with ok(1) d show "stacks_ok (restore_call_state saved u)" "shape (restore_call_state saved u) = shape s"
    by (simp_all add: restore_call_state_def saved check_module_shape with_frame_shape)
qed

definition enters :: "(frame \<Rightarrow> interp \<Rightarrow> interp) \<Rightarrow> bool" where
  "enters enter \<longleftrightarrow> (\<forall>saved s. fresh_in s \<longrightarrow> stacks_ok (enter saved s) \<and>
     call_depth (enter saved s) = call_depth s \<and> active_calls (enter saved s) = active_calls s)"

text \<open>What a frame is left with: the shape the caller had.\<close>

definition leaves :: "(frame \<Rightarrow> nat \<Rightarrow> 'a outcome \<Rightarrow> interp \<Rightarrow> 'b outcome \<times> interp) \<Rightarrow> bool" where
  "leaves leave \<longleftrightarrow> (\<forall>s saved t ln r u. stacks_ok s \<longrightarrow> take_call_state s = (saved, t) \<longrightarrow>
     call_depth u = call_depth t \<longrightarrow> active_calls u = active_calls t \<longrightarrow>
     stacks_ok (snd (leave saved ln r u)) \<and> shape (snd (leave saved ln r u)) = shape s)"

lemma in_frame_keeps: "enters enter \<Longrightarrow> keeps m \<Longrightarrow> leaves leave \<Longrightarrow> keeps (in_frame enter m leave)"
proof (rule keepsI)
  fix s r u
  assume enter: "enters enter" and m: "keeps m" and leave: "leaves leave" and s: "stacks_ok s"
    and run: "in_frame enter m leave s = Some (r, u)"
  obtain saved t where t: "take_call_state s = (saved, t)" by (cases "take_call_state s")
  from run t obtain q w where q: "m (enter saved t) = Some (q, w)" "leave saved (cur_stmt_line s) q w = (r, u)"
    by (auto simp: in_frame_def run_simps attempt_def bindc_def modify_def split: option.splits)
  note fresh = take_call_state_fresh [OF t]
  have e: "stacks_ok (enter saved t)" "call_depth (enter saved t) = call_depth t" "active_calls (enter saved t) = active_calls t"
    using enter fresh(1) by (auto simp: enters_def)
  have "grown (enter saved t) w" by (rule keepsD [OF m e(1) q(1)])
  then have "call_depth w = call_depth t" "active_calls w = active_calls t"
    using e by (auto simp: grown_def shape_def)
  then have "stacks_ok u \<and> shape u = shape s"
    using leave s t q(2) unfolding leaves_def by (metis snd_conv)
  then show "grown s u" by (simp add: same_shape_grown)
qed

lemma counted_keeps [keeps_rules]: "keeps m \<Longrightarrow> keeps (counted h sp m)"
proof (rule keepsI)
  fix s r t
  assume m: "keeps m" and s: "stacks_ok s" and run: "counted h sp m s = Some (r, t)"
  let ?s = "s\<lparr>active_calls := active_calls s + 1\<rparr>"
  show "grown s t"
  proof (cases "MAX_ACTIVE_CALLS \<le> active_calls s \<or> h_stack_spent h s")
    case True
    with run s show ?thesis by (auto simp: counted_def enter_call_def bindc_def run_simps intro: grown_refl)
  next
    case False
    then obtain u where u: "m ?s = Some (r, u)" "t = u\<lparr>active_calls := active_calls u - 1\<rparr>"
      using run by (auto simp: counted_def enter_call_def bindc_def run_simps finally_do_def split: option.splits)
    have "grown ?s u" using keepsD [OF m _ u(1)] s by (simp add: stacks_ok_def)
    with u(2) show ?thesis by (simp add: grown_def shape_def stacks_ok_def)
  qed
qed

text \<open>What a counted call does to the count: one more while it runs, and what it was afterwards.\<close>

lemma counted_exact:
  assumes "keeps m" "stacks_ok s" "counted h sp m s = Some (r, t)"
  shows "active_calls t = active_calls s"
    and "active_calls s < MAX_ACTIVE_CALLS \<Longrightarrow> \<not> h_stack_spent h s \<Longrightarrow>
      \<exists>u. m (s\<lparr>active_calls := active_calls s + 1\<rparr>) = Some (r, u) \<and> t = u\<lparr>active_calls := active_calls s\<rparr>"
proof -
  have "grown s t" using keepsD [OF counted_keeps [OF assms(1)] assms(2,3)] .
  then show "active_calls t = active_calls s" by (simp add: grown_def shape_def)
next
  let ?s = "s\<lparr>active_calls := active_calls s + 1\<rparr>"
  assume "active_calls s < MAX_ACTIVE_CALLS" "\<not> h_stack_spent h s"
  then obtain u where u: "m ?s = Some (r, u)" "t = u\<lparr>active_calls := active_calls u - 1\<rparr>"
    using assms(3) by (auto simp: counted_def enter_call_def bindc_def run_simps finally_do_def split: option.splits)
  have "grown ?s u" using keepsD [OF assms(1) _ u(1)] assms(2) by (simp add: stacks_ok_def)
  then have "active_calls u = active_calls s + 1" by (simp add: grown_def shape_def)
  with u show "\<exists>u. m ?s = Some (r, u) \<and> t = u\<lparr>active_calls := active_calls s\<rparr>" by auto
qed

lemma bind_params_shape [store_simps]:
  "shape (bind_params xs vs s) = shape s" "stacks_ok (bind_params xs vs s) = stacks_ok s"
  "shape (bind_new_params xs vs s) = shape s" "stacks_ok (bind_new_params xs vs s) = stacks_ok s"
  "shape (bind_all_new bs s) = shape s" "stacks_ok (bind_all_new bs s) = stacks_ok s"
proof -
  have old: "shape (fold (\<lambda>(x, v). set_variable x v) ps t) = shape t \<and>
      stacks_ok (fold (\<lambda>(x, v). set_variable x v) ps t) = stacks_ok t" for ps t
    by (induction ps arbitrary: t) (simp_all add: split_beta set_variable_shape)
  have new: "shape (fold (\<lambda>(x, v). set_variable_new x v) ps t) = shape t \<and>
      stacks_ok (fold (\<lambda>(x, v). set_variable_new x v) ps t) = stacks_ok t" for ps t
    by (induction ps arbitrary: t) (simp_all add: split_beta set_variable_new_shape)
  show "shape (bind_params xs vs s) = shape s" "stacks_ok (bind_params xs vs s) = stacks_ok s"
    "shape (bind_new_params xs vs s) = shape s" "stacks_ok (bind_new_params xs vs s) = stacks_ok s"
    "shape (bind_all_new bs s) = shape s" "stacks_ok (bind_all_new bs s) = stacks_ok s"
    by (simp_all only: bind_params_def bind_new_params_def bind_all_new_def old new)
qed

lemma depths_of_shape:
  "shape s = shape t \<Longrightarrow> call_depth s = call_depth t" "shape s = shape t \<Longrightarrow> active_calls s = active_calls t"
  by (simp_all add: shape_def)

lemma shape_other_fields [store_simps]:
  "shape (s\<lparr>import_aliases := a\<rparr>) = shape s" "stacks_ok (s\<lparr>import_aliases := a\<rparr>) = stacks_ok s"
  "shape (s\<lparr>fn_table := f\<rparr>) = shape s" "stacks_ok (s\<lparr>fn_table := f\<rparr>) = stacks_ok s"
  "shape (s\<lparr>cur_stmt_line := n\<rparr>) = shape s" "stacks_ok (s\<lparr>cur_stmt_line := n\<rparr>) = stacks_ok s"
  "shape (s\<lparr>control_flow := cf\<rparr>) = shape s" "stacks_ok (s\<lparr>control_flow := cf\<rparr>) = stacks_ok s"
  "shape (s\<lparr>control_flow := cf, has_control_flow := b\<rparr>) = shape s"
  "stacks_ok (s\<lparr>control_flow := cf, has_control_flow := b\<rparr>) = stacks_ok s"
  "shape (s\<lparr>current_function := cfn, move_guard_names := g\<rparr>) = shape s"
  "stacks_ok (s\<lparr>current_function := cfn, move_guard_names := g\<rparr>) = stacks_ok s"
  "shape (s\<lparr>tco_pending := b, tco_args := vs\<rparr>) = shape s" "stacks_ok (s\<lparr>tco_pending := b, tco_args := vs\<rparr>) = stacks_ok s"
  by (simp_all add: shape_def stacks_ok_def)

lemma enter_lambda_enters: "enters (enter_lambda f args)"
  unfolding enters_def
proof (intro allI impI)
  fix saved s assume "fresh_in s"
  then have "stacks_ok s" by (simp add: fresh_inD)
  moreover have "shape (enter_lambda f args saved s) = shape s" "stacks_ok (enter_lambda f args saved s) = stacks_ok s"
    by (simp_all add: enter_lambda_def store_simps bind_all_shape)
  ultimately show "stacks_ok (enter_lambda f args saved s) \<and> call_depth (enter_lambda f args saved s) = call_depth s \<and>
      active_calls (enter_lambda f args saved s) = active_calls s"
    by (auto dest: depths_of_shape)
qed

text \<open>Leaving is restoring the caller's frame after changes that keep the depths, and then changes that keep
  the shape.\<close>

lemma leavesI:
  assumes "\<And>saved ln r u. \<exists>v. call_depth v = call_depth u \<and> active_calls v = active_calls u \<and>
      stacks_ok (snd (leave saved ln r u)) = stacks_ok (restore_call_state saved v) \<and>
      shape (snd (leave saved ln r u)) = shape (restore_call_state saved v)"
  shows "leaves leave"
  unfolding leaves_def using assms restore_shape by metis

lemma take_return_shape: "take_return s = Some (v, t) \<Longrightarrow> shape t = shape s"
  by (auto simp: take_return_def store_simps split: control_flow.splits)

lemma unwound_result_shape: "shape (snd (unwound_result f r s)) = shape s"
  by (auto simp: unwound_result_def lambda_result_def store_simps take_return_shape
      split: sum.split option.split lambda_body.split)

lemma leave_lambda_leaves: "leaves (leave_lambda f)"
proof (rule leavesI)
  fix saved ln r u
  obtain r' v where v: "unwound_result f r u = (r', v)" by (cases "unwound_result f r u")
  have "shape v = shape u" using unwound_result_shape [of f r u] v by simp
  then have "call_depth v = call_depth u" "active_calls v = active_calls u" by (auto dest: depths_of_shape)
  with v show "\<exists>v. call_depth v = call_depth u \<and> active_calls v = active_calls u \<and>
      stacks_ok (snd (leave_lambda f saved ln r u)) = stacks_ok (restore_call_state saved v) \<and>
      shape (snd (leave_lambda f saved ln r u)) = shape (restore_call_state saved v)"
    by (intro exI [of _ v]) (auto simp: leave_lambda_def Let_def store_simps split: sum.split)
qed

lemma lambda_body_keeps [keeps_rules]: "engine_ok E \<Longrightarrow> keeps (lambda_body_comp E f)"
  unfolding lambda_body_comp_def by (cases "fv_body f") (auto intro!: keeps_rules)

lemma settle_fast_shape: "shape (snd (settle_fast r s)) = shape s \<and> stacks_ok (snd (settle_fast r s)) = stacks_ok s"
  by (auto simp: settle_fast_def store_simps split: control_flow.split)

lemma fast_lambda_keeps [keeps_rules]: "engine_ok E \<Longrightarrow> keeps (fast_lambda E f e args)"
proof (rule keepsI)
  fix s r t
  let ?s = "(bind_new_params (fv_params f) args (push_scope s))\<lparr>import_aliases := fv_aliases f\<rparr>"
  assume E: "engine_ok E" and s: "stacks_ok s" and run: "fast_lambda E f e args s = Some (r, t)"
  obtain q u where q: "eval E e ?s = Some (q, u)" "leave_fast s q u = (r, t)"
    using run by (auto simp: fast_lambda_def run_simps attempt_def bindc_def modify_def split: option.splits)
  have e: "shape ?s = shape (push_scope s)" "stacks_ok ?s"
    using push_scope_ok [OF s] by (simp_all add: store_simps)
  have "keeps (eval E e)" using E by (rule keeps_rules)
  then have "grown ?s u" using e(2) q(1) by (rule keepsD)
  then have g: "grown (push_scope s) u" using grown_cong [OF e(1)] by simp
  obtain r' v where v: "settle_fast q u = (r', v)" by (cases "settle_fast q u")
  have "shape v = shape u" "stacks_ok v = stacks_ok u" using settle_fast_shape [of q u] v by auto
  with g have "grown (push_scope s) (v\<lparr>import_aliases := import_aliases s\<rparr>)"
    by (simp add: grown_def shape_def stacks_ok_def)
  from grown_push_pop(1) [OF s this] q(2) v show "grown s t"
    by (auto simp: leave_fast_def Let_def grown_def store_simps shape_def stacks_ok_def split: sum.splits)
qed

lemma eval_lambda_call_body_keeps [keeps_rules]: "engine_ok E \<Longrightarrow> keeps (eval_lambda_call_body E f args sp)"
proof -
  assume E: "engine_ok E"
  have "keeps (in_frame (enter_lambda f args) (lambda_body_comp E f) (leave_lambda f))"
    by (rule in_frame_keeps [OF enter_lambda_enters lambda_body_keeps [OF E] leave_lambda_leaves])
  then show ?thesis
    unfolding eval_lambda_call_body_def by (cases "fv_body f") (auto intro!: keeps_rules E)
qed

lemma eval_lambda_call_keeps [keeps_rules]: "engine_ok E \<Longrightarrow> keeps (eval_lambda_call h E f args sp)"
  unfolding eval_lambda_call_def by (intro keeps_rules)

lemma bind_parameter_keeps:
  assumes "stacks_ok s" shows "stacks_ok (bind_parameter pv s)" "shape (bind_parameter pv s) = shape s"
  using assms by (auto simp: bind_parameter_def Let_def store_simps split: prod.split)

lemma fold_bind_parameter:
  "stacks_ok s \<Longrightarrow> stacks_ok (fold bind_parameter ps s) \<and> shape (fold bind_parameter ps s) = shape s"
  by (induction ps arbitrary: s) (simp_all add: bind_parameter_keeps)

lemma enter_script_ok:
  assumes "fresh_in s"
  shows "stacks_ok (enter_script captured saved s)" "shape (enter_script captured saved s) = shape s"
proof -
  have s: "stacks_ok (bind_all_new captured s)" "shape (bind_all_new captured s) = shape s"
    using fresh_inD [OF assms] by (auto simp: store_simps)
  then show "stacks_ok (enter_script captured saved s)" "shape (enter_script captured saved s) = shape s"
    by (auto simp: enter_script_def Let_def shape_def stacks_ok_def split: prod.split)
qed

lemma enter_module_ok:
  assumes "fresh_in s"
  shows "stacks_ok (enter_module captured path w m s)"
    "call_depth (enter_module captured path w m s) = call_depth s"
    "active_calls (enter_module captured path w m s) = active_calls s"
proof -
  let ?s = "s\<lparr>loaded_modules := (loaded_modules s)(path \<mapsto> m\<lparr>mod_all_variables := Map.empty, mod_dead_variables := {}\<rparr>),
      module_dead := mod_dead_variables m,
      scope_stack := (scope_stack s)[0 := mod_all_variables m] @ [hd (scope_stack s)],
      has_any_const := has_any_const s \<or> mod_const_names m \<noteq> {},
      const_vars_stack := (const_vars_stack s)[0 := mod_const_names m] @ [hd (const_vars_stack s)],
      mutable_vars_stack := mutable_vars_stack s @ [{}], module_scope := True\<rparr>"
  let ?c = "filter (\<lambda>(x, v). mod_all_variables m x = None) captured"
  have "stacks_ok ?s" using fresh_inD [OF assms] by (simp add: stacks_ok_def)
  then have "stacks_ok (bind_all_new ?c ?s)" "shape (bind_all_new ?c ?s) = shape ?s" by (simp_all add: store_simps)
  then show "stacks_ok (enter_module captured path w m s)"
    "call_depth (enter_module captured path w m s) = call_depth s"
    "active_calls (enter_module captured path w m s) = active_calls s"
    by (simp_all add: enter_module_def Let_def shape_def stacks_ok_def)
qed

lemma enter_function_enters: "enters (enter_function c)"
  unfolding enters_def
proof (intro allI impI)
  fix saved s assume s: "fresh_in s"
  let ?s = "case cs_context c of None \<Rightarrow> enter_script (cs_captured c) saved s
     | Some path \<Rightarrow> (case loaded_modules s path of
           Some m \<Rightarrow> enter_module (cs_captured c) path (cs_want_functions c) m s | None \<Rightarrow> s)"
  have "stacks_ok ?s \<and> call_depth ?s = call_depth s \<and> active_calls ?s = active_calls s"
    using enter_script_ok [OF s] enter_module_ok [OF s] fresh_inD [OF s] depths_of_shape [OF enter_script_ok(2) [OF s]]
    by (simp split: option.split)
  moreover from this have f: "stacks_ok (fold bind_parameter ps ?s)" "shape (fold bind_parameter ps ?s) = shape ?s" for ps
    using fold_bind_parameter by blast+
  moreover have "call_depth (fold bind_parameter ps ?s) = call_depth ?s" "active_calls (fold bind_parameter ps ?s) = active_calls ?s" for ps
    using f(2) [of ps] by (auto dest: depths_of_shape)
  ultimately show "stacks_ok (enter_function c saved s) \<and> call_depth (enter_function c saved s) = call_depth s \<and>
      active_calls (enter_function c saved s) = active_calls s"
    by (simp add: enter_function_def Let_def store_simps)
qed

lemma take_outputs_shape: "shape (snd (take_outputs pes s)) = shape s"
proof (induction pes arbitrary: s)
  case (Cons pe pes)
  obtain p e where pe: "pe = (p, e)" by (cases pe)
  obtain z t where t: "take_variable (pa_name p) s = (z, t)" by (cases "take_variable (pa_name p) s")
  obtain us u where u: "take_outputs pes t = (us, u)" by (cases "take_outputs pes t")
  have "shape t = shape s" using take_variable_shape(1) [of "pa_name p" s] t by simp
  moreover have "shape u = shape t" using Cons.IH [of t] u by simp
  ultimately show ?case using Cons.IH pe t u by (auto split: option.split)
qed simp

lemma leave_call_shape:
  "shape (leave_call cc saved us s) = shape (restore_call_state saved s)"
  "stacks_ok (leave_call cc saved us s) = stacks_ok (restore_call_state saved s)"
  by (auto simp: leave_call_def Let_def store_simps split: option.split)

lemma leave_function_leaves: "leaves (leave_function c cc)"
proof (rule leavesI)
  fix saved ln and r :: "unit outcome" and u :: interp
  let ?ok = "\<lambda>v w. call_depth v = call_depth u \<and> active_calls v = active_calls u \<and>
      stacks_ok w = stacks_ok (restore_call_state saved v) \<and> shape w = shape (restore_call_state saved v)"
  show "\<exists>v. ?ok v (snd (leave_function c cc saved ln r u))"
  proof (cases r)
    case (Inl e)
    obtain us w where w: "take_outputs (lent_pairs c) u = (us, w)" by (cases "take_outputs (lent_pairs c) u")
    have "shape w = shape u" using take_outputs_shape [of "lent_pairs c" u] w by simp
    then have "shape (check_in_module_scope (give_back cc w)) = shape u" by (simp add: store_simps give_back_def)
    from depths_of_shape [OF this] w Inl show ?thesis
      by (intro exI [of _ "check_in_module_scope (give_back cc w)"])
         (simp add: leave_function_def Let_def leave_call_shape)
  next
    case (Inr x)
    obtain v w where w: "(case take_return u of Some (v, s1) \<Rightarrow> (v, s1) | None \<Rightarrow> (VUnit, u\<lparr>control_flow := CfNone\<rparr>)) = (v, w)"
      by (meson surj_pair)
    have "shape w = shape u"
      using w take_return_shape [of u] by (auto simp: store_simps split: option.splits)
    then have g: "shape (check_in_module_scope (give_back cc w)) = shape u" by (simp add: store_simps give_back_def)
    obtain us y where y: "take_outputs (output_pairs c) (check_in_module_scope (give_back cc w)) = (us, y)"
      by (meson surj_pair)
    have "shape y = shape u" using take_outputs_shape [of "output_pairs c" "check_in_module_scope (give_back cc w)"] y g by simp
    from depths_of_shape [OF this] w y Inr show ?thesis
      by (intro exI [of _ y]) (simp add: leave_function_def leave_call_shape store_simps)
  qed
qed

lemma rebind_tail_call_shape [store_simps]:
  "shape (rebind_tail_call ps s) = shape s" "stacks_ok (rebind_tail_call ps s) = stacks_ok s"
  by (simp_all add: rebind_tail_call_def store_simps)

lemma body_loop_keeps [keeps_rules]: "engine_ok E \<Longrightarrow> keeps (body_loop n E ps b schedule)"
  by (induction n) (auto intro!: keeps_rules simp: store_simps)

lemma eval_arguments_keeps [keeps_rules]: "engine_ok E \<Longrightarrow> keeps (eval_arguments E lent es)"
  by (induction es arbitrary: lent) (auto intro!: keeps_rules)

lemma lend_shape: "shape (snd (lend bs es vs s)) = shape s \<and> stacks_ok (snd (lend bs es vs s)) = stacks_ok s"
proof (induction bs es vs s rule: lend.induct)
  case (1 b bs e es v vs s)
  show ?case
  proof (cases "if b then as_identifier e else None")
    case None
    with "1.IH"(1) show ?thesis by (simp only: lend.simps option.case split_beta snd_conv)
  next
    case (Some i)
    with "1.IH"(2,3) show ?thesis
      by (cases "slot_value s (id_name i)") (simp_all only: lend.simps option.case split_beta snd_conv put_slot_shape)
  qed
qed simp_all

lemma call_native_keeps [keeps_rules]: "engine_ok E \<Longrightarrow> keeps (call_native h E x n es sp)"
  unfolding call_native_def by (auto intro!: keeps_rules)

lemma run_function_keeps [keeps_rules]: "engine_ok E \<Longrightarrow> keeps (run_function h E d args lent vs p x)"
  unfolding run_function_def Let_def
  by (intro keeps_rules in_frame_keeps enter_function_enters leave_function_leaves)

lemma call_zymbol_keeps [keeps_rules]: "engine_ok E \<Longrightarrow> keeps (call_zymbol h E d args sp p x)"
  unfolding call_zymbol_def Let_def by (auto intro!: keeps_rules simp: split_beta lend_shape)

lemma eval_traditional_keeps [keeps_rules]: "engine_ok E \<Longrightarrow> keeps (eval_traditional_function_call h E d args sp p x)"
  unfolding eval_traditional_function_call_def by (cases d) (auto intro!: keeps_rules)

lemma call_kinds_keep [keeps_rules]:
  "engine_ok E \<Longrightarrow> keeps (call_evaluated h E c)" "engine_ok E \<Longrightarrow> keeps (call_named h E c x)"
  "engine_ok E \<Longrightarrow> keeps (call_in_module h E c alias p f)"
  unfolding call_evaluated_def call_named_def call_in_module_def by (auto intro!: keeps_rules)

lemma eval_function_call_keeps [keeps_rules]: "engine_ok E \<Longrightarrow> keeps (eval_function_call h E c)"
  unfolding eval_function_call_def by (cases "unwrap_group (call_callable c)") (auto intro!: keeps_rules)

section \<open>More fuel changes no answer\<close>

lemma counted_le [le_rules]: "le_comp m n \<Longrightarrow> le_comp (counted h sp m) (counted h sp n)"
  unfolding counted_def by (intro le_rules)

lemma in_frame_le [le_rules]: "le_comp m n \<Longrightarrow> le_comp (in_frame enter m leave) (in_frame enter n leave)"
  unfolding in_frame_def by (intro le_rules)

lemma fast_lambda_le [le_rules]: "le_engine E F \<Longrightarrow> le_comp (fast_lambda E f e args) (fast_lambda F f e args)"
  unfolding fast_lambda_def by (intro le_rules)

lemma lambda_body_le [le_rules]: "le_engine E F \<Longrightarrow> le_comp (lambda_body_comp E f) (lambda_body_comp F f)"
  unfolding lambda_body_comp_def by (cases "fv_body f") (auto intro!: le_rules)

lemma eval_lambda_call_le [le_rules]: "le_engine E F \<Longrightarrow> le_comp (eval_lambda_call h E f args sp) (eval_lambda_call h F f args sp)"
  unfolding eval_lambda_call_def eval_lambda_call_body_def by (cases "fv_body f") (auto intro!: le_rules)

lemma body_loop_le [le_rules]:
  "le_engine E F \<Longrightarrow> n \<le> m \<Longrightarrow> le_comp (body_loop n E ps b sch) (body_loop m F ps b sch)"
proof (induction n arbitrary: m)
  case (Suc n)
  then obtain k where "m = Suc k" "n \<le> k" by (cases m) auto
  with Suc show ?case by (auto intro!: le_rules)
qed (simp add: le_no_fuel)

lemma eval_arguments_le [le_rules]: "le_engine E F \<Longrightarrow> le_comp (eval_arguments E lent es) (eval_arguments F lent es)"
  by (induction es arbitrary: lent) (auto intro!: le_rules)

lemma call_native_le [le_rules]: "le_engine E F \<Longrightarrow> le_comp (call_native h E x n es sp) (call_native h F x n es sp)"
  unfolding call_native_def by (auto intro!: le_rules)

lemma run_function_le [le_rules]:
  "le_engine E F \<Longrightarrow> le_comp (run_function h E d args lent vs p x) (run_function h F d args lent vs p x)"
  unfolding run_function_def Let_def by (intro le_rules)

lemma call_zymbol_le [le_rules]:
  "le_engine E F \<Longrightarrow> le_comp (call_zymbol h E d args sp p x) (call_zymbol h F d args sp p x)"
  unfolding call_zymbol_def by (intro le_rules)

lemma eval_traditional_le [le_rules]:
  "le_engine E F \<Longrightarrow> le_comp (eval_traditional_function_call h E d args sp p x) (eval_traditional_function_call h F d args sp p x)"
  unfolding eval_traditional_function_call_def by (cases d) (auto intro!: le_rules)

lemma call_kinds_le [le_rules]:
  "le_engine E F \<Longrightarrow> le_comp (call_evaluated h E c) (call_evaluated h F c)"
  "le_engine E F \<Longrightarrow> le_comp (call_named h E c x) (call_named h F c x)"
  "le_engine E F \<Longrightarrow> le_comp (call_in_module h E c alias p f) (call_in_module h F c alias p f)"
  unfolding call_evaluated_def call_named_def call_in_module_def
  by (auto intro!: le_rules split: option.split zvalue.split)

lemma eval_function_call_le [le_rules]: "le_engine E F \<Longrightarrow> le_comp (eval_function_call h E c) (eval_function_call h F c)"
  unfolding eval_function_call_def by (cases "unwrap_group (call_callable c)") (auto intro!: le_rules)

section \<open>What a call may touch\<close>

lemma restored_own_frame:
  assumes "take_call_state s = (saved, t)"
  shows "own_frame s (restore_call_state saved u) = own_frame s s"
proof -
  let ?c = "check_in_module_scope s"
  have saved: "saved = frame.truncate ?c" using assms by (simp add: take_call_state_def Let_def)
  obtain v where v: "v = with_frame saved (u\<lparr>call_depth := call_depth u - 1\<rparr>)" by blast
  have "frame.truncate v = frame.truncate ?c" by (simp add: v saved with_frame_def frame.defs)
  from own_frame_truncate [OF this, of s] have "own_frame s v = own_frame s s" by (simp add: check_in_fields(3))
  moreover have "module_scope s = module_scope v"
    using check_in_fields(4) [of s] by (simp add: v saved with_frame_def frame.defs)
  ultimately show ?thesis
    using check_out_fields(2) [of v s] by (simp add: restore_call_state_def v)
qed

lemma own_frame_shared [simp]:
  "own_frame s (r\<lparr>cur_stmt_line := n\<rparr>) = own_frame s r" "own_frame s (r\<lparr>fn_table := f\<rparr>) = own_frame s r"
  by (cases r; simp add: own_frame_def frame.defs)+

lemma in_frame_own:
  assumes run: "in_frame enter m leave s = Some (r, t)"
    and leave: "\<And>saved ln q w. \<exists>u. own_frame s (snd (leave saved ln q w)) = own_frame s (restore_call_state saved u)"
  shows "own_frame s t = own_frame s s"
proof -
  obtain saved s' where s': "take_call_state s = (saved, s')" by (cases "take_call_state s")
  from run s' obtain q w where "leave saved (cur_stmt_line s) q w = (r, t)"
    by (auto simp: in_frame_def run_simps attempt_def bindc_def modify_def split: option.splits)
  with leave [of saved "cur_stmt_line s" q w] show ?thesis
    by (auto simp: restored_own_frame [OF s'])
qed

lemma leave_lambda_own: "\<exists>u. own_frame s (snd (leave_lambda f saved ln q w)) = own_frame s (restore_call_state saved u)"
proof -
  obtain r v where v: "unwound_result f q w = (r, v)" by (cases "unwound_result f q w")
  then show ?thesis by (intro exI [of _ v]) (auto simp: leave_lambda_def Let_def split: sum.split)
qed

lemma leave_function_own:
  assumes "output_pairs c = []" "lent_pairs c = []"
  shows "\<exists>u. own_frame s (snd (leave_function c cc saved ln q w)) = own_frame s (restore_call_state saved u)"
proof (cases q)
  case (Inl e)
  with assms show ?thesis
    by (intro exI [of _ "check_in_module_scope (give_back cc w)"])
       (simp add: leave_function_def Let_def leave_call_def bind_all_def split: option.split)
next
  case (Inr x)
  obtain v u where u: "(case take_return w of Some (v, s1) \<Rightarrow> (v, s1) | None \<Rightarrow> (VUnit, w\<lparr>control_flow := CfNone\<rparr>)) = (v, u)"
    by (meson surj_pair)
  with assms Inr show ?thesis
    by (intro exI [of _ "check_in_module_scope (give_back cc u)"])
       (simp add: leave_function_def Let_def leave_call_def bind_all_def split: option.split)
qed

lemma no_outputs_nothing_lent:
  assumes "filter is_output ps = []"
  shows "lendable_arguments s ps es = replicate (min (length ps) (length es)) False"
proof -
  have "lendable s (p, e) = None" if "(p, e) \<in> set (zip ps es)" for p e
    using that assms by (auto simp: lendable_def filter_empty_conv dest: set_zip_leftD)
  then have "map (lendable s) (zip ps es) = map (\<lambda>_. None) (zip ps es)" by (intro map_cong) auto
  then have "map (lendable s) (zip ps es) = replicate (min (length ps) (length es)) None"
    by (simp add: map_replicate_const)
  then show ?thesis by (simp add: lendable_arguments_def Let_def)
qed

lemma eval_arguments_none: "eval_arguments E (replicate n False) es = mapc (eval E) es"
  by (induction es arbitrary: n) (simp_all add: gr0_conv_Suc [symmetric] del: replicate.simps, case_tac n, auto)

lemma lend_none: "lend (replicate n False) es vs s = (vs, s)"
proof (induction es arbitrary: n vs)
  case (Cons e es)
  then show ?case by (cases n; cases vs) auto
qed (cases n; simp)

lemma bind_stateful_pure: "bindc (stateful (Pair (Inr x))) k = k x"
  by (simp add: bindc_def stateful_def fun_eq_iff)

lemma no_outputs_pairs:
  assumes "filter is_output ps = []"
  shows "filter (\<lambda>(p, e). is_output p) (zip ps es) = []"
  using assms by (auto simp: filter_empty_conv dest: set_zip_leftD)

lemma nothing_lent_pairs: "map fst (filter snd (zip xs (replicate n False))) = []"
  by (auto simp: filter_empty_conv dest: set_zip_rightD)

lemma run_function_own:
  assumes "filter is_output (fn_parameters d) = []"
    and "run_function h E d args (replicate n False) vs p x s = Some (r, t)"
  shows "own_frame s t = own_frame s s"
proof -
  from assms(2) obtain enter m c cc where
    run: "in_frame enter m (leave_function c cc) s = Some (r, t)"
      and c: "cs_params c = fn_parameters d" "cs_lent c = replicate n False"
    by (auto simp: run_function_def run_simps Let_def)
  have "output_pairs c = []" "lent_pairs c = []"
    using no_outputs_pairs [OF assms(1)] by (simp_all add: output_pairs_def lent_pairs_def c nothing_lent_pairs)
  then show ?thesis by (intro in_frame_own [OF run] leave_function_own)
qed

text \<open>A host that does nothing, and an engine whose every statement assigns x and then fails.\<close>

definition quiet_host :: host where
  "quiet_host = \<lparr>h_powf = \<lambda>x y. x, h_powi = \<lambda>x n. x, h_log10 = \<lambda>x. x, h_alphabetic = \<lambda>c. 97 \<le> c \<and> c \<le> 122,
     h_alphanumeric = \<lambda>c. 97 \<le> c \<and> c \<le> 122, h_native = \<lambda>x vs sp. Inr VUnit, h_schedule = \<lambda>cs xs ex. [],
     h_exclusions = \<lambda>cs. {}, h_stack_spent = \<lambda>s. False, h_sort_unordered = \<lambda>vs. vs,
     h_other_expr = \<lambda>e. ret VUnit, h_other_stmt = \<lambda>c. ret ()\<rparr>"

definition failing_engine :: engine where
  "failing_engine = \<lparr>eval = \<lambda>e. ret VUnit,
     exec = \<lambda>c. stateful (\<lambda>s. (Inl EUnwind, set_variable (U ''x'') (VInt 5) s)), turns = 1\<rparr>"

definition demo_body :: "statement block" where
  "demo_body = Block [SNewline (Newline no_span False)] no_span"

definition demo_closure :: function_value where
  "demo_closure = FunctionValue [] (LamBlock demo_body) [(U ''y'', VInt 2)] False (IdLambda 1) []"

lemma failing_body: "body_loop (Suc n) failing_engine ps demo_body [] u = Some (Inl EUnwind, set_variable (U ''x'') (VInt 5) u)"
  by (simp add: failing_engine_def demo_body_def execute_body_scheduled_def execute_block_no_scope_def
      bindc_def stateful_def)

lemma in_frame_returns: "(\<And>u. m u \<noteq> None) \<Longrightarrow> \<exists>r t. in_frame enter m leave s = Some (r, t)"
proof -
  assume m: "\<And>u. m u \<noteq> None"
  obtain saved t where t: "take_call_state s = (saved, t)" by (cases "take_call_state s")
  obtain q u where "m (enter saved t) = Some (q, u)" using m [of "enter saved t"] by auto
  with t show ?thesis
    by (simp add: in_frame_def run_simps attempt_def bindc_def modify_def stateful_def)
qed

text \<open>
  C6. A call does not touch its caller's variables.  When a function has no output parameters,
  what is the caller's own after the call (every scope, constant, loop and destroyed name of its
  frame) is what it was once the arguments had been evaluated, whatever the body did, and a call
  with the wrong number of arguments changes nothing at all; a closure that captured something,
  or whose body is a block, leaves the frame it was called in as it was.
\<close>

theorem calls_leave_frame:
  assumes "filter is_output (fn_parameters d) = []" and "call_zymbol h E d args sp p x s = Some (r, t)"
    and "fv_captures f \<noteq> [] \<or> (\<forall>e. fv_body f \<noteq> LamExpr e)"
    and "eval_lambda_call_body E f vs sp s' = Some (r', t')"
  shows "(t = s \<and> length args \<noteq> length (fn_parameters d) \<or>
          (\<exists>q u. mapc (eval E) args s = Some (q, u) \<and> own_frame u t = own_frame u u)) \<and>
         own_frame s' t' = own_frame s' s'"
proof
  show "t = s \<and> length args \<noteq> length (fn_parameters d) \<or>
          (\<exists>q u. mapc (eval E) args s = Some (q, u) \<and> own_frame u t = own_frame u u)"
  proof (cases "length args = length (fn_parameters d)")
    case True
    let ?m = "min (length (fn_parameters d)) (length args)"
    have "bindc (mapc (eval E) args) (\<lambda>vs. run_function h E d args (replicate ?m False) vs p x) s = Some (r, t)"
      using assms(2) True no_outputs_nothing_lent [OF assms(1), of s args]
      by (simp add: call_zymbol_def run_simps eval_arguments_none Let_def lend_none bind_stateful_pure)
    then obtain q u where "mapc (eval E) args s = Some (q, u)" "own_frame u t = own_frame u u"
      using run_function_own [OF assms(1)] by (auto simp: bindc_Some_iff)
    then show ?thesis by blast
  next
    case False
    with assms(2) show ?thesis by (simp add: call_zymbol_def run_simps)
  qed
  show "own_frame s' t' = own_frame s' s'"
  proof (cases "length vs = length (fv_params f)")
    case True
    with assms(3,4) have "in_frame (enter_lambda f vs) (lambda_body_comp E f) (leave_lambda f) s' = Some (r', t')"
      by (auto simp: eval_lambda_call_body_def split: list.splits lambda_body.splits)
    then show ?thesis by (rule in_frame_own) (rule leave_lambda_own)
  next
    case False
    with assms(4) show ?thesis by (simp add: eval_lambda_call_body_def run_simps)
  qed
qed

theorem calls_leave_frame_witness:
  "let s = set_variable (U ''x'') (VInt 1) new_interp
   in \<exists>r t r' t'. call_zymbol quiet_host failing_engine (FnZymbol [] demo_body None []) [] no_span None None s = Some (r, t) \<and>
        own_frame s t = own_frame s s \<and>
        eval_lambda_call_body failing_engine demo_closure [] no_span s = Some (r', t') \<and> own_frame s t' = own_frame s s"
proof -
  let ?d = "FnZymbol [] demo_body None []" and ?s = "set_variable (U ''x'') (VInt 1) new_interp"
  have turns: "turns failing_engine = Suc 0" by (simp add: failing_engine_def)
  have "\<exists>r t. call_zymbol quiet_host failing_engine ?d [] no_span None None ?s = Some (r, t)"
    unfolding call_zymbol_def run_function_def turns Let_def
    by (auto simp: run_simps bind_stateful_pure lendable_arguments_def failing_body simp del: body_loop.simps
        intro!: in_frame_returns)
  moreover have "\<exists>r t. eval_lambda_call_body failing_engine demo_closure [] no_span ?s = Some (r, t)"
    by (auto simp: eval_lambda_call_body_def demo_closure_def lambda_body_comp_def execute_block_no_scope_def
        demo_body_def failing_engine_def bindc_def stateful_def intro!: in_frame_returns)
  ultimately obtain r t r' t' where
    run: "call_zymbol quiet_host failing_engine ?d [] no_span None None ?s = Some (r, t)"
      "eval_lambda_call_body failing_engine demo_closure [] no_span ?s = Some (r', t')" by blast
  have "mapc (eval failing_engine) [] ?s = Some (q, u) \<longrightarrow> u = ?s" for q u by (simp add: ret_def)
  with calls_leave_frame [OF _ run(1) _ run(2)] run show ?thesis
    by (auto simp: Let_def demo_closure_def)
qed

section \<open>The limit holds\<close>

lemma exceeded_family: "family (EGeneric exceeded_message sp) = U ''Depth''"
proof -
  let ?p = "U ''call depth exceeded''"
  obtain rest where rest: "exceeded_message = ?p @ rest" by (simp add: exceeded_message_def)
  have p: "to_lowercase ?p = ?p" by (simp add: to_lowercase_def lower_char_def ascii_lower_def)
  have "to_lowercase exceeded_message = to_lowercase ?p @ to_lowercase rest"
    unfolding rest by (simp only: to_lowercase_def map_append concat_append)
  then have "starts_with ?p (to_lowercase exceeded_message)"
    unfolding p starts_with_iff by (rule exI)
  then show ?thesis by (simp add: family_def err_type_of_message error_kind_of_message_def Let_def)
qed

end
