(* ===== verification/ZyExprs.thy ===== *)
theory ZyExprs imports ZyCalls begin

text \<open>
  Names, members, operators, pipes and addresses
  (crates/zymbol-interpreter/src/expr_eval.rs, expressions.rs, index_nav.rs, collections.rs).
\<close>

text \<open>A branch the source declares unreachable, where it would stop the program.\<close>

definition aborted :: "'a comp" where "aborted = no_fuel"

section \<open>Names and members\<close>

definition undefined_name :: "ustring \<Rightarrow> span \<Rightarrow> runtime_error" where
  "undefined_name x sp = EGeneric (quoted x @ U '' is undefined '' @ EM_DASH # U '' did you mean '' @
     quoted (x @ [0xB0]) @ U '' (hot definition)?'') sp"

definition eval_identifier :: "host \<Rightarrow> identifier_expr \<Rightarrow> zvalue comp" where
  "eval_identifier h i = reading (\<lambda>s.
     bindc (lift (check_variable_alive s (id_name i) (id_span i))) (\<lambda>_.
       case get_variable s (id_name i) of
         Some v \<Rightarrow> ret v
       | None \<Rightarrow>
           (case fn_table s (id_name i) of
              Some d \<Rightarrow> ret (VFunction (func_def_to_value h s d))
            | None \<Rightarrow> raise (undefined_name (id_name i) (id_span i)))))"

text \<open>The module an object names: its alias, unless a variable of the frame hides it.\<close>

definition alias_of_member :: "interp \<Rightarrow> expr member_access \<Rightarrow> (ustring \<times> ustring) option" where
  "alias_of_member s ma =
     (case as_identifier (mem_object ma) of
        None \<Rightarrow> None
      | Some i \<Rightarrow>
          (case map_of (import_aliases s) (id_name i) of
             Some path \<Rightarrow> if variable_hides_alias s (id_name i) then None else Some (id_name i, path)
           | None \<Rightarrow> None))"

definition no_constant_msg :: "ustring \<Rightarrow> ustring \<Rightarrow> ustring list \<Rightarrow> ustring" where
  "no_constant_msg alias fld available =
     U ''Module '' @ quoted alias @ U '' has no constant '' @ quoted fld @ U ''. Available constants: '' @
     (if available = [] then U ''none'' else join_with (U '', '') available)"

definition module_constant :: "interp \<Rightarrow> ustring \<Rightarrow> ustring \<Rightarrow> ustring \<Rightarrow> span \<Rightarrow> zvalue outcome" where
  "module_constant s alias path fld sp =
     (case loaded_modules s path of
        None \<Rightarrow> Inl (EGeneric (U ''Module '' @ quoted alias @ U '' not loaded'') sp)
      | Some m \<Rightarrow>
          (case map_of (mod_constants m) fld of
             Some v \<Rightarrow> Inr v
           | None \<Rightarrow> Inl (EGeneric (no_constant_msg alias fld (map fst (mod_constants m))) sp)))"

definition member_of :: "zvalue \<Rightarrow> ustring \<Rightarrow> span \<Rightarrow> zvalue outcome" where
  "member_of v fld sp =
     (case v of
        VNamedTuple d \<Rightarrow> dict_get d fld sp
      | VTuple _ \<Rightarrow>
          Inl (kinded ''Type'' (U ''a positional tuple is addressed by position, not by name: '' @ quoted fld @
            10 # U ''help: use t[1] '' @ EM_DASH # U '' names live in a dictionary, #(key: value)'') sp)
      | _ \<Rightarrow>
          Inl (kinded ''Type'' (U ''the dot reaches a dictionary key, and this is '' @ type_label v @
            10 # U ''help: use d.'' @ fld @ U '' on a #('' @ 0x2026 # U '') '' @ EM_DASH #
            U '' for a position, use x[1]'') sp))"

definition eval_member_access :: "engine \<Rightarrow> expr member_access \<Rightarrow> zvalue comp" where
  "eval_member_access E ma = reading (\<lambda>s.
     let by_value = bindc (eval E (mem_object ma)) (\<lambda>v. lift (member_of v (mem_field ma) (mem_span ma)))
     in case alias_of_member s ma of
          Some (alias, path) \<Rightarrow> lift (module_constant s alias path (mem_field ma) (mem_span ma))
        | None \<Rightarrow>
            (case as_identifier (mem_object ma) of
               None \<Rightarrow> by_value
             | Some i \<Rightarrow>
                 bindc (lift (check_variable_alive s (id_name i) (id_span i))) (\<lambda>_.
                   case get_variable s (id_name i) of
                     Some v \<Rightarrow> if is_dict v then lift (member_of v (mem_field ma) (mem_span ma)) else by_value
                   | None \<Rightarrow> by_value)))"

section \<open>Operators\<close>

text \<open>The second operand of a conjunction or disjunction is evaluated only when the first does not decide.\<close>

definition eval_logical :: "engine \<Rightarrow> expr binary_expr \<Rightarrow> zvalue comp" where
  "eval_logical E b =
     (let is_and = (bin_op b = OpAnd); name = (if is_and then ''AND'' else ''OR'')
      in bindc (eval E (bin_left b)) (\<lambda>l.
         bindc (lift (as_bool name l (bin_span b))) (\<lambda>x.
           if x \<noteq> is_and then ret (VBool x)
           else bindc (eval E (bin_right b)) (\<lambda>r.
                bindc (lift (as_bool name r (bin_span b))) (\<lambda>y. ret (VBool y))))))"

text \<open>A variable that holds an integer against a literal or another such variable is answered without evaluating
  either.\<close>

definition int_variable :: "interp \<Rightarrow> ustring \<Rightarrow> int option" where
  "int_variable s x = (case get_variable s x of Some v \<Rightarrow> (case v of VInt n \<Rightarrow> Some n | _ \<Rightarrow> None) | None \<Rightarrow> None)"

definition int_right :: "interp \<Rightarrow> expr \<Rightarrow> int option" where
  "int_right s e =
     (case unwrap_group e of
        ELiteral l \<Rightarrow> (case lit_value l of LInt n \<Rightarrow> Some n | _ \<Rightarrow> None)
      | EIdentifier i \<Rightarrow> int_variable s (id_name i)
      | _ \<Rightarrow> None)"

definition int_shortcut :: "binary_op \<Rightarrow> int \<Rightarrow> int \<Rightarrow> span \<Rightarrow> zvalue outcome option" where
  "int_shortcut op l r sp =
     (case op of
        OpLt \<Rightarrow> Some (Inr (VBool (l < r)))
      | OpLe \<Rightarrow> Some (Inr (VBool (l \<le> r)))
      | OpGt \<Rightarrow> Some (Inr (VBool (l > r)))
      | OpGe \<Rightarrow> Some (Inr (VBool (l \<ge> r)))
      | OpEq \<Rightarrow> Some (Inr (VBool (l = r)))
      | OpNeq \<Rightarrow> Some (Inr (VBool (l \<noteq> r)))
      | OpAdd \<Rightarrow> Some (int_result (num_add l r) l (U ''+'') r sp)
      | OpSub \<Rightarrow> Some (int_result (num_sub l r) l (U ''-'') r sp)
      | OpMul \<Rightarrow> Some (int_result (num_mul l r) l (U ''*'') r sp)
      | OpMod \<Rightarrow> if r \<noteq> 0 then Some (Inr (VInt (l smod r))) else None
      | OpDiv \<Rightarrow> if r \<noteq> 0 then Some (Inr (VInt (l sdiv r))) else None
      | _ \<Rightarrow> None)"

definition eval_int_shortcut :: "interp \<Rightarrow> expr binary_expr \<Rightarrow> zvalue outcome option" where
  "eval_int_shortcut s b =
     (case as_identifier (bin_left b) of
        None \<Rightarrow> None
      | Some i \<Rightarrow>
          (case (int_variable s (id_name i), int_right s (bin_right b)) of
             (Some l, Some r) \<Rightarrow> int_shortcut (bin_op b) l r (bin_span b)
           | _ \<Rightarrow> None))"

text \<open>A hot name that does not exist yet starts at the neutral element of its operator.\<close>

definition hot_left :: "interp \<Rightarrow> expr binary_expr \<Rightarrow> identifier_expr option" where
  "hot_left s b =
     (if bin_op b = OpAdd \<or> bin_op b = OpConcat
      then (case as_identifier (bin_left b) of
              Some i \<Rightarrow> if hot_name i \<and> get_variable s (id_name i) = None then Some i else None
            | None \<Rightarrow> None)
      else None)"

definition hot_neutral :: "binary_op \<Rightarrow> zvalue \<Rightarrow> zvalue" where
  "hot_neutral op r =
     (if op = OpConcat then VString []
      else case r of VString _ \<Rightarrow> VString [] | VFloat _ \<Rightarrow> VFloat (f_of_int 0) | _ \<Rightarrow> VInt 0)"

definition eval_hot_binary :: "engine \<Rightarrow> expr binary_expr \<Rightarrow> identifier_expr \<Rightarrow> zvalue comp" where
  "eval_hot_binary E b i =
     bindc (eval E (bin_right b)) (\<lambda>r.
       let start = hot_neutral (bin_op b) r
       in bindc (modify (if id_pre_hot i then set_above_nearest_loop (id_name i) start else set_variable (id_name i) start)) (\<lambda>_.
          bindc (eval E (bin_left b)) (\<lambda>l. reading (\<lambda>s.
            lift (if bin_op b = OpConcat then eval_concat (numeral_mode s) l r else eval_add l r (bin_span b))))))"

definition eval_binary :: "host \<Rightarrow> engine \<Rightarrow> expr binary_expr \<Rightarrow> zvalue comp" where
  "eval_binary h E b =
     (if bin_op b = OpAnd \<or> bin_op b = OpOr then eval_logical E b
      else reading (\<lambda>s.
        case eval_int_shortcut s b of
          Some r \<Rightarrow> lift r
        | None \<Rightarrow>
            (case hot_left s b of
               Some i \<Rightarrow> eval_hot_binary E b i
             | None \<Rightarrow> bindc (eval E (bin_left b)) (\<lambda>l. bindc (eval E (bin_right b)) (\<lambda>r. apply_in h b l r)))))"

definition eval_unary :: "engine \<Rightarrow> expr unary_expr \<Rightarrow> zvalue comp" where
  "eval_unary E u = bindc (eval E (un_operand u)) (\<lambda>v. lift (apply_unary (un_op u) (un_span u) v))"

definition pipe_argument :: "engine \<Rightarrow> zvalue \<Rightarrow> expr pipe_arg \<Rightarrow> zvalue comp" where
  "pipe_argument E piped a = (case a of Placeholder \<Rightarrow> ret piped | PipeExprArg e \<Rightarrow> eval E e)"

definition eval_pipe :: "host \<Rightarrow> engine \<Rightarrow> expr pipe_expr \<Rightarrow> zvalue comp" where
  "eval_pipe h E p =
     bindc (eval E (pp_left p)) (\<lambda>piped.
     bindc (eval E (pp_callable p)) (\<lambda>callable.
     bindc (mapc (pipe_argument E piped) (pp_arguments p)) (\<lambda>args.
       case callable of
         VFunction f \<Rightarrow> eval_lambda_call h E f args (pp_span p)
       | _ \<Rightarrow> raise (kinded ''Type'' (U ''pipe operator requires a callable function or lambda'') (pp_span p)))))"

section \<open>Addresses\<close>

text \<open>The links of a chain of indices down to the name at its root, the outermost first.\<close>

function (sequential) chain_of :: "expr \<Rightarrow> (identifier_expr \<times> expr index_expr list) option" where
  "chain_of (EIdentifier i) = Some (i, [])"
| "chain_of (EGroup (GroupExpr e _)) = chain_of e"
| "chain_of (EIndex (IndexExpr a i sp)) =
     (case chain_of a of None \<Rightarrow> None | Some (root, links) \<Rightarrow> Some (root, IndexExpr a i sp # links))"
| "chain_of _ = None"
  by pat_completeness auto
termination by (relation "measure size") auto

definition index_chain :: "expr index_expr \<Rightarrow> (identifier_expr \<times> expr index_expr list) option" where
  "index_chain ix = chain_of (EIndex ix)"

fun index_walk :: "zvalue \<Rightarrow> (zvalue \<times> span) list \<Rightarrow> zvalue outcome" where
  "index_walk v [] = Inr v"
| "index_walk v ((i, sp) # rest) = rbind (index_into v i sp) (\<lambda>w. index_walk w rest)"

definition eval_link :: "engine \<Rightarrow> expr index_expr \<Rightarrow> (zvalue \<times> span) comp" where
  "eval_link E ix = bindc (eval E (ix_index ix)) (\<lambda>v. ret (v, ix_span ix))"

definition index_by_value :: "engine \<Rightarrow> expr index_expr \<Rightarrow> zvalue comp" where
  "index_by_value E ix =
     bindc (eval E (ix_array ix)) (\<lambda>c. bindc (eval E (ix_index ix)) (\<lambda>i. lift (index_into c i (ix_span ix))))"

definition index_writes_root :: "interp \<Rightarrow> ustring \<Rightarrow> expr index_expr list \<Rightarrow> bool" where
  "index_writes_root s x links =
     (list_ex (\<lambda>l. \<not> plain_operand (ix_index l)) links \<and> operands_may_write s x (map ix_index links))"

definition eval_index :: "engine \<Rightarrow> expr index_expr \<Rightarrow> zvalue comp" where
  "eval_index E ix = reading (\<lambda>s.
     case index_chain ix of
       None \<Rightarrow> index_by_value E ix
     | Some (root, links) \<Rightarrow>
         bindc (lift (check_variable_alive s (id_name root) (id_span root))) (\<lambda>_.
           if \<not> index_writes_root s (id_name root) links \<and> get_variable s (id_name root) \<noteq> None
           then bindc (mapc (eval_link E) (rev links)) (\<lambda>indices. reading (\<lambda>t.
                  case get_variable t (id_name root) of
                    Some c \<Rightarrow> lift (index_walk c indices)
                  | None \<Rightarrow> aborted))
           else index_by_value E ix))"

text \<open>A step of a navigation path is a position or a key, as its value says.\<close>

definition descend_key :: "zvalue \<Rightarrow> ustring \<Rightarrow> span \<Rightarrow> zvalue outcome" where
  "descend_key v key sp = (case v of VNamedTuple d \<Rightarrow> dict_get d key sp | _ \<Rightarrow> Inl (text_addresses_dictionary v sp))"

definition resolve_in :: "int \<Rightarrow> nat \<Rightarrow> span \<Rightarrow> ustring \<Rightarrow> runtime_error + nat" where
  "resolve_in index len sp container =
     (let i = (if index < 0 then int len + index else index - 1)
      in if i < 0 \<or> int len \<le> i
         then Inl (EGeneric (container @ U '' index out of bounds: index '' @ show_int index @ U '' for '' @ container @
                U '' of length '' @ show_nat len) sp)
         else Inr (nat i))"

definition descend :: "zvalue \<Rightarrow> int \<Rightarrow> span \<Rightarrow> span \<Rightarrow> zvalue outcome" where
  "descend v index index_span sp =
     (if index = 0 then Inl (EGeneric index_zero_msg index_span)
      else case v of
             VArray xs \<Rightarrow> rbind (resolve_in index (length xs) sp (U ''array'')) (\<lambda>i. Inr (xs ! i))
           | VTuple xs \<Rightarrow> rbind (resolve_in index (length xs) sp (U ''tuple'')) (\<lambda>i. Inr (xs ! i))
           | VNamedTuple d \<Rightarrow> Inl (kinded ''Type'' (dict_not_positional path_words d) sp)
           | VString s \<Rightarrow> rbind (resolve_in index (length s) sp (U ''string'')) (\<lambda>i. Inr (VString [s ! i]))
           | _ \<Rightarrow> Inl (not_a_container v sp))"

definition descend_step :: "zvalue \<Rightarrow> zvalue \<Rightarrow> span \<Rightarrow> span \<Rightarrow> zvalue outcome" where
  "descend_step v step index_span sp =
     (case step of
        VString key \<Rightarrow> descend_key v key sp
      | VInt n \<Rightarrow> descend v n index_span sp
      | _ \<Rightarrow> Inl (kinded ''Type'' (U ''a navigation step is a position (Int) or a dictionary key (String), got '' @
              type_label step) index_span))"

primrec deep_steps :: "engine \<Rightarrow> span \<Rightarrow> expr nav_step list \<Rightarrow> zvalue \<Rightarrow> zvalue comp" where
  "deep_steps E sp [] v = ret v"
| "deep_steps E sp (st # sts) v =
     bindc (eval E (nav_index st)) (\<lambda>step.
     bindc (lift (descend_step v step (expr_span (nav_index st)) sp)) (\<lambda>w. deep_steps E sp sts w))"

definition eval_deep_index :: "engine \<Rightarrow> expr deep_index \<Rightarrow> zvalue comp" where
  "eval_deep_index E di =
     bindc (eval E (di_array di)) (\<lambda>v. deep_steps E (di_span di) (nav_steps (di_path di)) v)"

definition eval_nav_atom :: "engine \<Rightarrow> expr \<Rightarrow> int comp" where
  "eval_nav_atom E e = bindc (eval E e) (\<lambda>v. lift (want_int (U ''index'') v (expr_span e)))"

text \<open>A range of positions, in the order they are walked: a range written downwards reverses.\<close>

definition nav_range :: "int \<Rightarrow> int \<Rightarrow> span \<Rightarrow> runtime_error + int list" where
  "nav_range i j sp =
     (if i < 0 \<or> j < 0
      then Inl (kinded ''Index'' (U ''range indices in nav path must be positive integers'') sp)
      else if i < 1 \<or> j < 1
      then Inl (kinded ''Index'' (U ''invalid nav range '' @ show_int i @ U ''..'' @ show_int j @ 32 # EM_DASH #
             U '' indices are 1-based'') sp)
      else Inr (if i \<le> j then [i..j] else rev [j..i]))"

primrec walk_steps :: "engine \<Rightarrow> span \<Rightarrow> expr nav_step list \<Rightarrow> zvalue \<Rightarrow> zvalue list comp" where
  "walk_steps E sp [] v = ret [v]"
| "walk_steps E sp (st # sts) v =
     (case nav_range_end st of
        Some e \<Rightarrow>
          bindc (eval_nav_atom E (nav_index st)) (\<lambda>i.
          bindc (eval_nav_atom E e) (\<lambda>j.
          bindc (lift (nav_range i j sp)) (\<lambda>ps.
          bindc (mapc (\<lambda>p. bindc (lift (descend v p (expr_span (nav_index st)) sp)) (\<lambda>w. walk_steps E sp sts w)) ps)
            (\<lambda>found. ret (concat found)))))
      | None \<Rightarrow>
          bindc (eval E (nav_index st)) (\<lambda>step.
          bindc (lift (descend_step v step (expr_span (nav_index st)) sp)) (\<lambda>w. walk_steps E sp sts w)))"

definition walk_paths :: "engine \<Rightarrow> span \<Rightarrow> zvalue \<Rightarrow> expr nav_path list \<Rightarrow> zvalue list comp" where
  "walk_paths E sp base paths =
     bindc (mapc (\<lambda>p. walk_steps E sp (nav_steps p) base) paths) (\<lambda>found. ret (concat found))"

definition eval_flat_extract :: "engine \<Rightarrow> expr flat_extract \<Rightarrow> zvalue comp" where
  "eval_flat_extract E fe =
     bindc (eval E (fe_array fe)) (\<lambda>base.
     bindc (walk_paths E (fe_span fe) base (fe_paths fe)) (\<lambda>vs. ret (VArray vs)))"

definition eval_structured_extract :: "engine \<Rightarrow> expr structured_extract \<Rightarrow> zvalue comp" where
  "eval_structured_extract E se =
     bindc (eval E (se_array se)) (\<lambda>base.
     bindc (mapc (\<lambda>g. bindc (walk_paths E (se_span se) base (eg_paths g)) (\<lambda>vs. ret (VArray vs))) (se_groups se))
       (\<lambda>groups. ret (VArray groups)))"

section \<open>Collections as they are written\<close>

definition eval_array_literal :: "engine \<Rightarrow> expr array_literal \<Rightarrow> zvalue comp" where
  "eval_array_literal E a = bindc (mapc (eval E) (arr_elements a)) (\<lambda>vs. ret (VArray vs))"

definition eval_tuple :: "engine \<Rightarrow> expr tuple_expr \<Rightarrow> zvalue comp" where
  "eval_tuple E t = bindc (mapc (eval E) (tup_elements t)) (\<lambda>vs. ret (VTuple vs))"

definition eval_field :: "engine \<Rightarrow> ustring \<times> expr \<Rightarrow> (ustring \<times> zvalue) comp" where
  "eval_field E f = bindc (eval E (snd f)) (\<lambda>v. ret (fst f, v))"

definition eval_named_tuple :: "engine \<Rightarrow> expr named_tuple \<Rightarrow> zvalue comp" where
  "eval_named_tuple E t = bindc (mapc (eval_field E) (nt_fields t)) (\<lambda>fs. ret (value_named_tuple fs))"

section \<open>Errors as values\<close>

definition eval_error_construct :: "engine \<Rightarrow> expr error_construct \<Rightarrow> zvalue comp" where
  "eval_error_construct E e =
     bindc (eval E (eco_message e)) (\<lambda>v.
       case v of
         VString m \<Rightarrow> ret (VError (ErrorValue (eco_kind e) m))
       | _ \<Rightarrow> raise (kinded ''Type'' (U ''an error's message is a String, got '' @ type_label v) (expr_span (eco_message e))))"

definition eval_error_check :: "engine \<Rightarrow> expr error_check \<Rightarrow> zvalue comp" where
  "eval_error_check E e = bindc (eval E (ec_expr e)) (\<lambda>v. ret (VBool (is_error v)))"

definition eval_error_propagate :: "engine \<Rightarrow> expr error_propagate \<Rightarrow> zvalue comp" where
  "eval_error_propagate E e =
     bindc (eval E (ep_expr e)) (\<lambda>v.
     bindc (modify (if is_error v then set_control_flow (CfReturn (Some v)) else (\<lambda>s. s))) (\<lambda>_. ret v))"

section \<open>What the handlers keep\<close>

lemma eval_identifier_keeps [keeps_rules]: "keeps (eval_identifier h i)"
  unfolding eval_identifier_def by (auto intro!: keeps_rules)

lemma eval_member_access_keeps [keeps_rules]: "engine_ok E \<Longrightarrow> keeps (eval_member_access E ma)"
  unfolding eval_member_access_def Let_def by (auto intro!: keeps_rules simp: store_simps)

lemma eval_logical_keeps [keeps_rules]: "engine_ok E \<Longrightarrow> keeps (eval_logical E b)"
  unfolding eval_logical_def Let_def by (auto intro!: keeps_rules simp: store_simps)

lemma eval_hot_binary_keeps [keeps_rules]: "engine_ok E \<Longrightarrow> keeps (eval_hot_binary E b i)"
  unfolding eval_hot_binary_def Let_def by (auto intro!: keeps_rules simp: store_simps)

lemma eval_binary_keeps [keeps_rules]: "engine_ok E \<Longrightarrow> keeps (eval_binary h E b)"
  unfolding eval_binary_def by (auto intro!: keeps_rules simp: store_simps)

lemma eval_unary_keeps [keeps_rules]: "engine_ok E \<Longrightarrow> keeps (eval_unary E u)"
  unfolding eval_unary_def by (auto intro!: keeps_rules simp: store_simps)

lemma pipe_argument_keeps [keeps_rules]: "engine_ok E \<Longrightarrow> keeps (pipe_argument E v a)"
  unfolding pipe_argument_def by (cases a) (auto intro!: keeps_rules)

lemma eval_pipe_keeps [keeps_rules]: "engine_ok E \<Longrightarrow> keeps (eval_pipe h E p)"
  unfolding eval_pipe_def by (auto intro!: keeps_rules simp: store_simps)

lemma eval_link_keeps [keeps_rules]: "engine_ok E \<Longrightarrow> keeps (eval_link E ix)"
  unfolding eval_link_def by (auto intro!: keeps_rules simp: store_simps)

lemma index_by_value_keeps [keeps_rules]: "engine_ok E \<Longrightarrow> keeps (index_by_value E ix)"
  unfolding index_by_value_def by (auto intro!: keeps_rules simp: store_simps)

lemma eval_index_keeps [keeps_rules]: "engine_ok E \<Longrightarrow> keeps (eval_index E ix)"
  unfolding eval_index_def aborted_def by (auto intro!: keeps_rules simp: store_simps)

lemma deep_steps_keeps [keeps_rules]: "engine_ok E \<Longrightarrow> keeps (deep_steps E sp sts v)"
  by (induction sts arbitrary: v) (auto intro!: keeps_rules)

lemma eval_deep_index_keeps [keeps_rules]: "engine_ok E \<Longrightarrow> keeps (eval_deep_index E di)"
  unfolding eval_deep_index_def by (auto intro!: keeps_rules simp: store_simps)

lemma eval_nav_atom_keeps [keeps_rules]: "engine_ok E \<Longrightarrow> keeps (eval_nav_atom E e)"
  unfolding eval_nav_atom_def by (auto intro!: keeps_rules simp: store_simps)

lemma walk_steps_keeps [keeps_rules]: "engine_ok E \<Longrightarrow> keeps (walk_steps E sp sts v)"
  by (induction sts arbitrary: v) (auto intro!: keeps_rules)

lemma walk_paths_keeps [keeps_rules]: "engine_ok E \<Longrightarrow> keeps (walk_paths E sp v ps)"
  unfolding walk_paths_def by (auto intro!: keeps_rules simp: store_simps)

lemma eval_flat_extract_keeps [keeps_rules]: "engine_ok E \<Longrightarrow> keeps (eval_flat_extract E fe)"
  unfolding eval_flat_extract_def by (auto intro!: keeps_rules simp: store_simps)

lemma eval_structured_extract_keeps [keeps_rules]: "engine_ok E \<Longrightarrow> keeps (eval_structured_extract E se)"
  unfolding eval_structured_extract_def by (auto intro!: keeps_rules simp: store_simps)

lemma eval_array_literal_keeps [keeps_rules]: "engine_ok E \<Longrightarrow> keeps (eval_array_literal E a)"
  unfolding eval_array_literal_def by (auto intro!: keeps_rules simp: store_simps)

lemma eval_tuple_keeps [keeps_rules]: "engine_ok E \<Longrightarrow> keeps (eval_tuple E t)"
  unfolding eval_tuple_def by (auto intro!: keeps_rules simp: store_simps)

lemma eval_field_keeps [keeps_rules]: "engine_ok E \<Longrightarrow> keeps (eval_field E f)"
  unfolding eval_field_def by (auto intro!: keeps_rules simp: store_simps)

lemma eval_named_tuple_keeps [keeps_rules]: "engine_ok E \<Longrightarrow> keeps (eval_named_tuple E t)"
  unfolding eval_named_tuple_def by (auto intro!: keeps_rules simp: store_simps)

lemma eval_error_construct_keeps [keeps_rules]: "engine_ok E \<Longrightarrow> keeps (eval_error_construct E e)"
  unfolding eval_error_construct_def by (auto intro!: keeps_rules simp: store_simps)

lemma eval_error_check_keeps [keeps_rules]: "engine_ok E \<Longrightarrow> keeps (eval_error_check E e)"
  unfolding eval_error_check_def by (auto intro!: keeps_rules simp: store_simps)

lemma eval_error_propagate_keeps [keeps_rules]: "engine_ok E \<Longrightarrow> keeps (eval_error_propagate E e)"
  unfolding eval_error_propagate_def by (auto intro!: keeps_rules simp: store_simps)

section \<open>More fuel changes no answer\<close>

lemma eval_member_access_le [le_rules]:
  "le_engine E F \<Longrightarrow> le_comp (eval_member_access E ma) (eval_member_access F ma)"
  unfolding eval_member_access_def Let_def by (auto intro!: le_rules)

lemma eval_logical_le [le_rules]:
  "le_engine E F \<Longrightarrow> le_comp (eval_logical E b) (eval_logical F b)"
  unfolding eval_logical_def Let_def by (auto intro!: le_rules)

lemma eval_hot_binary_le [le_rules]:
  "le_engine E F \<Longrightarrow> le_comp (eval_hot_binary E b i) (eval_hot_binary F b i)"
  unfolding eval_hot_binary_def Let_def by (auto intro!: le_rules)

lemma eval_binary_le [le_rules]:
  "le_engine E F \<Longrightarrow> le_comp (eval_binary h E b) (eval_binary h F b)"
  unfolding eval_binary_def by (auto intro!: le_rules)

lemma eval_unary_le [le_rules]:
  "le_engine E F \<Longrightarrow> le_comp (eval_unary E u) (eval_unary F u)"
  unfolding eval_unary_def by (auto intro!: le_rules)

lemma pipe_argument_le [le_rules]:
  "le_engine E F \<Longrightarrow> le_comp (pipe_argument E v a) (pipe_argument F v a)"
  unfolding pipe_argument_def by (cases a) (auto intro!: le_rules)

lemma eval_pipe_le [le_rules]:
  "le_engine E F \<Longrightarrow> le_comp (eval_pipe h E p) (eval_pipe h F p)"
  unfolding eval_pipe_def by (auto intro!: le_rules)

lemma eval_link_le [le_rules]:
  "le_engine E F \<Longrightarrow> le_comp (eval_link E ix) (eval_link F ix)"
  unfolding eval_link_def by (auto intro!: le_rules)

lemma index_by_value_le [le_rules]:
  "le_engine E F \<Longrightarrow> le_comp (index_by_value E ix) (index_by_value F ix)"
  unfolding index_by_value_def by (auto intro!: le_rules)

lemma eval_index_le [le_rules]:
  "le_engine E F \<Longrightarrow> le_comp (eval_index E ix) (eval_index F ix)"
  unfolding eval_index_def aborted_def by (auto intro!: le_rules)

lemma deep_steps_le [le_rules]:
  "le_engine E F \<Longrightarrow> le_comp (deep_steps E sp sts v) (deep_steps F sp sts v)"
  by (induction sts arbitrary: v) (auto intro!: le_rules)

lemma eval_deep_index_le [le_rules]:
  "le_engine E F \<Longrightarrow> le_comp (eval_deep_index E di) (eval_deep_index F di)"
  unfolding eval_deep_index_def by (auto intro!: le_rules)

lemma eval_nav_atom_le [le_rules]:
  "le_engine E F \<Longrightarrow> le_comp (eval_nav_atom E e) (eval_nav_atom F e)"
  unfolding eval_nav_atom_def by (auto intro!: le_rules)

lemma walk_steps_le [le_rules]:
  "le_engine E F \<Longrightarrow> le_comp (walk_steps E sp sts v) (walk_steps F sp sts v)"
  by (induction sts arbitrary: v) (auto intro!: le_rules)

lemma walk_paths_le [le_rules]:
  "le_engine E F \<Longrightarrow> le_comp (walk_paths E sp v ps) (walk_paths F sp v ps)"
  unfolding walk_paths_def by (auto intro!: le_rules)

lemma eval_flat_extract_le [le_rules]:
  "le_engine E F \<Longrightarrow> le_comp (eval_flat_extract E fe) (eval_flat_extract F fe)"
  unfolding eval_flat_extract_def by (auto intro!: le_rules)

lemma eval_structured_extract_le [le_rules]:
  "le_engine E F \<Longrightarrow> le_comp (eval_structured_extract E se) (eval_structured_extract F se)"
  unfolding eval_structured_extract_def by (auto intro!: le_rules)

lemma eval_array_literal_le [le_rules]:
  "le_engine E F \<Longrightarrow> le_comp (eval_array_literal E a) (eval_array_literal F a)"
  unfolding eval_array_literal_def by (auto intro!: le_rules)

lemma eval_tuple_le [le_rules]:
  "le_engine E F \<Longrightarrow> le_comp (eval_tuple E t) (eval_tuple F t)"
  unfolding eval_tuple_def by (auto intro!: le_rules)

lemma eval_field_le [le_rules]:
  "le_engine E F \<Longrightarrow> le_comp (eval_field E f) (eval_field F f)"
  unfolding eval_field_def by (auto intro!: le_rules)

lemma eval_named_tuple_le [le_rules]:
  "le_engine E F \<Longrightarrow> le_comp (eval_named_tuple E t) (eval_named_tuple F t)"
  unfolding eval_named_tuple_def by (auto intro!: le_rules)

lemma eval_error_construct_le [le_rules]:
  "le_engine E F \<Longrightarrow> le_comp (eval_error_construct E e) (eval_error_construct F e)"
  unfolding eval_error_construct_def by (auto intro!: le_rules)

lemma eval_error_check_le [le_rules]:
  "le_engine E F \<Longrightarrow> le_comp (eval_error_check E e) (eval_error_check F e)"
  unfolding eval_error_check_def by (auto intro!: le_rules)

lemma eval_error_propagate_le [le_rules]:
  "le_engine E F \<Longrightarrow> le_comp (eval_error_propagate E e) (eval_error_propagate F e)"
  unfolding eval_error_propagate_def by (auto intro!: le_rules)

end
