(* ===== verification/ZyCollOps.thy ===== *)
theory ZyCollOps imports ZyExprs ZySort begin

text \<open>
  The operators on collections and texts
  (crates/zymbol-interpreter/src/collection_ops.rs, string_ops.rs): what evaluates their operands, in
  which order, around the operations of theories ZyCollect and ZySort.
\<close>

section \<open>One collection and its operands\<close>

definition eval_two :: "engine \<Rightarrow> expr \<Rightarrow> expr \<Rightarrow> (zvalue \<Rightarrow> zvalue \<Rightarrow> zvalue outcome) \<Rightarrow> zvalue comp" where
  "eval_two E a b f = bindc (eval E a) (\<lambda>v. bindc (eval E b) (\<lambda>w. lift (f v w)))"

definition eval_collection_length :: "engine \<Rightarrow> expr length_expr \<Rightarrow> zvalue comp" where
  "eval_collection_length E op = bindc (eval E (len_collection op)) (\<lambda>v. lift (collection_length v (len_span op)))"

definition eval_collection_append :: "engine \<Rightarrow> expr append_expr \<Rightarrow> zvalue comp" where
  "eval_collection_append E op = eval_two E (app_collection op) (app_element op) (\<lambda>c v. append_in c v (app_span op))"

definition eval_collection_remove :: "engine \<Rightarrow> expr remove_at_expr \<Rightarrow> zvalue comp" where
  "eval_collection_remove E op = eval_two E (rat_collection op) (rat_index op) (\<lambda>c v. remove_at_in c v (rat_span op))"

definition eval_collection_contains :: "engine \<Rightarrow> expr contains_expr \<Rightarrow> zvalue comp" where
  "eval_collection_contains E op = eval_two E (con_collection op) (con_element op) (\<lambda>c v. contains_in c v (con_span op))"

definition eval_collection_insert :: "engine \<Rightarrow> expr insert_expr \<Rightarrow> zvalue comp" where
  "eval_collection_insert E op =
     bindc (eval E (ins_collection op)) (\<lambda>c.
       eval_two E (ins_index op) (ins_element op) (\<lambda>i v. insert_at_position c i v (ins_span op)))"

definition eval_collection_remove_value :: "engine \<Rightarrow> expr remove_value_expr \<Rightarrow> zvalue comp" where
  "eval_collection_remove_value E op =
     eval_two E (rv_collection op) (rv_value op) (\<lambda>c v. remove_value_in c v (rv_span op))"

definition eval_collection_remove_all :: "engine \<Rightarrow> expr remove_all_expr \<Rightarrow> zvalue comp" where
  "eval_collection_remove_all E op =
     eval_two E (ra_collection op) (ra_value op) (\<lambda>c v. remove_all_in c v (ra_span op))"

definition eval_collection_find_all :: "engine \<Rightarrow> expr find_all_expr \<Rightarrow> zvalue comp" where
  "eval_collection_find_all E op =
     eval_two E (fa_collection op) (fa_value op) (\<lambda>c v. find_all_in c v (fa_span op))"

section \<open>Writing a place\<close>

definition deep_range_error :: "span \<Rightarrow> runtime_error" where
  "deep_range_error sp = EGeneric (U ''deep update ($~) does not support ranges in the path'') sp"

definition no_place_error :: "span \<Rightarrow> runtime_error" where
  "no_place_error sp = EGeneric (U ''update operator ($~) requires a place to write like arr[i]$~ val, arr[i>j]$~ val or d.key$~ val'') sp"

text \<open>The collection a target names and the address in it.\<close>

definition eval_place :: "engine \<Rightarrow> expr \<Rightarrow> span \<Rightarrow> (zvalue \<times> zvalue) comp" where
  "eval_place E target sp =
     (case target of
        EIndex ix \<Rightarrow> bindc (eval E (ix_array ix)) (\<lambda>c. bindc (eval E (ix_index ix)) (\<lambda>i. ret (c, i)))
      | EMemberAccess ma \<Rightarrow>
          if mem_module ma then raise (no_place_error sp)
          else bindc (eval E (mem_object ma)) (\<lambda>c. ret (c, VString (mem_field ma)))
      | _ \<Rightarrow> raise (no_place_error sp))"

definition eval_deep_update :: "engine \<Rightarrow> expr deep_index \<Rightarrow> expr \<Rightarrow> span \<Rightarrow> zvalue comp" where
  "eval_deep_update E di value sp =
     (if \<not> no_ranges di then raise (deep_range_error sp)
      else bindc (eval E (di_array di)) (\<lambda>root.
           bindc (eval_nav_steps E di sp) (\<lambda>path.
           bindc (eval E value) (\<lambda>v. lift (deep_update_value root path v sp)))))"

definition eval_collection_update :: "engine \<Rightarrow> expr update_expr \<Rightarrow> zvalue comp" where
  "eval_collection_update E op =
     (case unwrap_group (upd_target op) of
        EDeepIndex di \<Rightarrow> eval_deep_update E di (upd_value op) (upd_span op)
      | target \<Rightarrow>
          bindc (eval_place E target (upd_span op)) (\<lambda>(c, i).
          bindc (eval E (upd_value op)) (\<lambda>v. lift (update_in c i v (upd_span op)))))"

section \<open>Parts of a collection\<close>

text \<open>A bound that may be left out.\<close>

definition eval_bound :: "engine \<Rightarrow> expr option \<Rightarrow> (zvalue \<Rightarrow> runtime_error + int) \<Rightarrow> int \<Rightarrow> int comp" where
  "eval_bound E bound check start =
     (case bound of None \<Rightarrow> ret start | Some e \<Rightarrow> bindc (eval E e) (\<lambda>v. lift (check v)))"

definition eval_collection_slice :: "engine \<Rightarrow> expr slice_expr \<Rightarrow> zvalue comp" where
  "eval_collection_slice E op =
     bindc (eval E (sl_collection op)) (\<lambda>c.
     bindc (lift (slice_length c (sl_span op))) (\<lambda>len.
     bindc (eval_bound E (sl_start op) (\<lambda>v. want_int (U ''slice start'') v (sl_span op)) 0) (\<lambda>a.
     bindc (eval_bound E (sl_end op)
              (\<lambda>v. want_int (if sl_count op then U ''slice count'' else U ''slice end'') v (sl_span op)) (int len)) (\<lambda>b.
       lift (slice_in c len a b (sl_count op) (sl_span op))))))"

definition eval_collection_remove_range :: "engine \<Rightarrow> expr remove_range_expr \<Rightarrow> zvalue comp" where
  "eval_collection_remove_range E op =
     bindc (eval E (rr_collection op)) (\<lambda>c.
     bindc (lift (range_length c (rr_span op))) (\<lambda>len.
     bindc (eval_bound E (rr_start op) (\<lambda>v. range_start v (rr_span op)) 1) (\<lambda>a.
     bindc (eval_bound E (rr_end op) (\<lambda>v. range_end (rr_count op) v (rr_span op)) (int len)) (\<lambda>b.
       lift (remove_range_in c len a b (rr_count op) (rr_span op))))))"

section \<open>Functions over collections\<close>

definition want_lambda :: "string \<Rightarrow> zvalue \<Rightarrow> span \<Rightarrow> runtime_error + function_value" where
  "want_lambda name v sp =
     (case v of VFunction f \<Rightarrow> Inr f | _ \<Rightarrow> Inl (kinded ''Type'' (U name @ U '' requires lambda function'') sp))"

definition want_items :: "string \<Rightarrow> zvalue \<Rightarrow> span \<Rightarrow> runtime_error + zvalue list" where
  "want_items name v sp =
     (case hof_items v of
        Some xs \<Rightarrow> Inr xs
      | None \<Rightarrow> Inl (kinded ''Type'' (U name @ U '' requires array, tuple, string or dictionary, got '' @ type_label v) sp))"

definition eval_collection_map :: "host \<Rightarrow> engine \<Rightarrow> expr map_expr \<Rightarrow> zvalue comp" where
  "eval_collection_map h E op =
     bindc (eval E (map_collection op)) (\<lambda>c.
     bindc (eval E (map_lambda op)) (\<lambda>l.
     bindc (lift (want_lambda ''map'' l (map_span op))) (\<lambda>f.
     bindc (lift (want_items ''map'' c (map_span op))) (\<lambda>xs.
     bindc (mapc (\<lambda>x. eval_lambda_call h E f [x] (map_span op)) xs) (\<lambda>ys. ret (hof_rebuild c ys))))))"

primrec filter_items :: "(zvalue \<Rightarrow> zvalue comp) \<Rightarrow> span \<Rightarrow> zvalue list \<Rightarrow> zvalue list comp" where
  "filter_items f sp [] = ret []"
| "filter_items f sp (x # xs) =
     bindc (f x) (\<lambda>v.
       case v of
         VBool b \<Rightarrow> bindc (filter_items f sp xs) (\<lambda>ys. ret (if b then x # ys else ys))
       | _ \<Rightarrow> raise (kinded ''Type'' (U ''filter lambda must return boolean, got '' @ type_label v) sp))"

definition eval_collection_filter :: "host \<Rightarrow> engine \<Rightarrow> expr filter_expr \<Rightarrow> zvalue comp" where
  "eval_collection_filter h E op =
     bindc (eval E (flt_collection op)) (\<lambda>c.
     bindc (eval E (flt_lambda op)) (\<lambda>l.
     bindc (lift (want_lambda ''filter'' l (flt_span op))) (\<lambda>f.
     bindc (lift (want_items ''filter'' c (flt_span op))) (\<lambda>xs.
     bindc (filter_items (\<lambda>x. eval_lambda_call h E f [x] (flt_span op)) (flt_span op) xs) (\<lambda>ys.
       ret (hof_rebuild c ys))))))"

primrec reduce_items :: "(zvalue \<Rightarrow> zvalue \<Rightarrow> zvalue comp) \<Rightarrow> zvalue \<Rightarrow> zvalue list \<Rightarrow> zvalue comp" where
  "reduce_items f acc [] = ret acc"
| "reduce_items f acc (x # xs) = bindc (f acc x) (\<lambda>acc'. reduce_items f acc' xs)"

definition eval_collection_reduce :: "host \<Rightarrow> engine \<Rightarrow> expr reduce_expr \<Rightarrow> zvalue comp" where
  "eval_collection_reduce h E op =
     bindc (eval E (red_collection op)) (\<lambda>c.
     bindc (eval E (red_initial op)) (\<lambda>start.
     bindc (eval E (red_lambda op)) (\<lambda>l.
     bindc (lift (want_lambda ''reduce'' l (red_span op))) (\<lambda>f.
       if length (fv_params f) \<noteq> 2
       then raise (EGeneric (U ''reduce lambda requires 2 parameters (accumulator, element), got '' @
              show_nat (length (fv_params f))) (red_span op))
       else bindc (lift (want_items ''reduce'' c (red_span op))) (\<lambda>xs.
              reduce_items (\<lambda>acc x. eval_lambda_call h E f [acc, x] (red_span op)) start xs)))))"

definition comparator_says :: "host \<Rightarrow> engine \<Rightarrow> function_value \<Rightarrow> span \<Rightarrow> zvalue \<Rightarrow> zvalue \<Rightarrow> bool comp" where
  "comparator_says h E f sp a b =
     bindc (eval_lambda_call h E f [a, b] sp) (\<lambda>v.
       case v of
         VBool x \<Rightarrow> ret x
       | _ \<Rightarrow> raise (kinded ''Type'' (U ''sort comparator must return a Bool, got '' @ type_ident v) sp))"

definition eval_collection_sort :: "host \<Rightarrow> engine \<Rightarrow> expr sort_expr \<Rightarrow> zvalue comp" where
  "eval_collection_sort h E op =
     bindc (eval E (srt_collection op)) (\<lambda>c.
       case c of
         VArray xs \<Rightarrow>
           (case srt_comparator op of
              None \<Rightarrow> ret (VArray (natural_sort (h_sort_unordered h) (srt_ascending op) xs))
            | Some e \<Rightarrow>
                bindc (eval E e) (\<lambda>l.
                  case l of
                    VFunction f \<Rightarrow> bindc (merge_sort (comparator_says h E f (srt_span op)) xs) (\<lambda>ys. ret (VArray ys))
                  | _ \<Rightarrow> raise (EGeneric (U ''sort comparator must be a lambda (a, b) -> Bool'') (srt_span op))))
       | _ \<Rightarrow> raise (kinded ''Type'' (U ''sort requires an array, got '' @ type_label c) (srt_span op)))"

section \<open>Texts\<close>

definition eval_string_repeat :: "engine \<Rightarrow> expr repeat_expr \<Rightarrow> zvalue comp" where
  "eval_string_repeat E op = eval_two E (rep_string op) (rep_count op) (\<lambda>s n. repeat_text s n (rep_span op))"

definition eval_string_replace :: "engine \<Rightarrow> expr replace_expr \<Rightarrow> zvalue comp" where
  "eval_string_replace E op =
     bindc (eval E (rpl_string op)) (\<lambda>sv.
     bindc (eval E (rpl_pattern op)) (\<lambda>pv.
     bindc (eval E (rpl_replacement op)) (\<lambda>rv.
     bindc (lift (replace_string sv (rpl_span op))) (\<lambda>s.
     bindc (lift (replace_with rv (rpl_span op))) (\<lambda>r.
     bindc (case rpl_count op of
              None \<Rightarrow> ret None
            | Some e \<Rightarrow> bindc (eval E e) (\<lambda>n. lift (replace_count n (rpl_span op)))) (\<lambda>count.
     bindc (lift (replace_pattern pv (rpl_span op))) (\<lambda>p.
       ret (VString (replace_sub p r count s)))))))))"

definition eval_string_split :: "engine \<Rightarrow> expr split_expr \<Rightarrow> zvalue comp" where
  "eval_string_split E op = eval_two E (sp_string op) (sp_delimiter op) (\<lambda>s d. split_text s d (sp_span op))"

definition eval_concat_build :: "engine \<Rightarrow> expr concat_build \<Rightarrow> zvalue comp" where
  "eval_concat_build E op =
     bindc (eval E (cb_base op)) (\<lambda>base.
       case base of
         VString s \<Rightarrow> bindc (mapc (eval_as_text E) (cb_items op)) (\<lambda>parts. ret (VString (s @ concat parts)))
       | VArray xs \<Rightarrow> bindc (mapc (eval E) (cb_items op)) (\<lambda>ys. ret (VArray (xs @ ys)))
       | _ \<Rightarrow> raise (build_base_error base (cb_span op)))"

section \<open>What the handlers keep\<close>

lemma eval_two_keeps [keeps_rules]: "engine_ok E \<Longrightarrow> keeps (eval_two E a b f)"
  unfolding eval_two_def by (auto intro!: keeps_rules simp: store_simps)

lemma eval_collection_length_keeps [keeps_rules]: "engine_ok E \<Longrightarrow> keeps (eval_collection_length E op)"
  unfolding eval_collection_length_def by (auto intro!: keeps_rules simp: store_simps)

lemma eval_collection_append_keeps [keeps_rules]: "engine_ok E \<Longrightarrow> keeps (eval_collection_append E op)"
  unfolding eval_collection_append_def by (auto intro!: keeps_rules simp: store_simps)

lemma eval_collection_remove_keeps [keeps_rules]: "engine_ok E \<Longrightarrow> keeps (eval_collection_remove E op)"
  unfolding eval_collection_remove_def by (auto intro!: keeps_rules simp: store_simps)

lemma eval_collection_contains_keeps [keeps_rules]: "engine_ok E \<Longrightarrow> keeps (eval_collection_contains E op)"
  unfolding eval_collection_contains_def by (auto intro!: keeps_rules simp: store_simps)

lemma eval_collection_insert_keeps [keeps_rules]: "engine_ok E \<Longrightarrow> keeps (eval_collection_insert E op)"
  unfolding eval_collection_insert_def by (auto intro!: keeps_rules simp: store_simps)

lemma eval_collection_remove_value_keeps [keeps_rules]: "engine_ok E \<Longrightarrow> keeps (eval_collection_remove_value E op)"
  unfolding eval_collection_remove_value_def by (auto intro!: keeps_rules simp: store_simps)

lemma eval_collection_remove_all_keeps [keeps_rules]: "engine_ok E \<Longrightarrow> keeps (eval_collection_remove_all E op)"
  unfolding eval_collection_remove_all_def by (auto intro!: keeps_rules simp: store_simps)

lemma eval_collection_find_all_keeps [keeps_rules]: "engine_ok E \<Longrightarrow> keeps (eval_collection_find_all E op)"
  unfolding eval_collection_find_all_def by (auto intro!: keeps_rules simp: store_simps)

lemma eval_place_keeps [keeps_rules]: "engine_ok E \<Longrightarrow> keeps (eval_place E target sp)"
  unfolding eval_place_def by (cases "target") (auto intro!: keeps_rules)

lemma eval_deep_update_keeps [keeps_rules]: "engine_ok E \<Longrightarrow> keeps (eval_deep_update E di v sp)"
  unfolding eval_deep_update_def by (auto intro!: keeps_rules simp: store_simps)

lemma eval_collection_update_keeps [keeps_rules]: "engine_ok E \<Longrightarrow> keeps (eval_collection_update E op)"
  unfolding eval_collection_update_def by (cases "unwrap_group (upd_target op)") (auto intro!: keeps_rules)

lemma eval_bound_keeps [keeps_rules]: "engine_ok E \<Longrightarrow> keeps (eval_bound E z f d)"
  unfolding eval_bound_def by (auto intro!: keeps_rules simp: store_simps)

lemma eval_collection_slice_keeps [keeps_rules]: "engine_ok E \<Longrightarrow> keeps (eval_collection_slice E op)"
  unfolding eval_collection_slice_def by (auto intro!: keeps_rules simp: store_simps)

lemma eval_collection_remove_range_keeps [keeps_rules]: "engine_ok E \<Longrightarrow> keeps (eval_collection_remove_range E op)"
  unfolding eval_collection_remove_range_def by (auto intro!: keeps_rules simp: store_simps)

lemma eval_collection_map_keeps [keeps_rules]: "engine_ok E \<Longrightarrow> keeps (eval_collection_map h E op)"
  unfolding eval_collection_map_def by (auto intro!: keeps_rules simp: store_simps)

lemma filter_items_keeps [keeps_rules]: "(\<And>x. keeps (f x)) \<Longrightarrow> keeps (filter_items f sp xs)"
  by (induction xs) (auto intro!: keeps_rules)

lemma eval_collection_filter_keeps [keeps_rules]: "engine_ok E \<Longrightarrow> keeps (eval_collection_filter h E op)"
  unfolding eval_collection_filter_def by (auto intro!: keeps_rules simp: store_simps)

lemma reduce_items_keeps [keeps_rules]: "(\<And>a x. keeps (f a x)) \<Longrightarrow> keeps (reduce_items f a xs)"
  by (induction xs arbitrary: a) (auto intro!: keeps_rules)

lemma eval_collection_reduce_keeps [keeps_rules]: "engine_ok E \<Longrightarrow> keeps (eval_collection_reduce h E op)"
  unfolding eval_collection_reduce_def by (auto intro!: keeps_rules simp: store_simps)

lemma comparator_says_keeps [keeps_rules]: "engine_ok E \<Longrightarrow> keeps (comparator_says h E f sp a b)"
  unfolding comparator_says_def by (auto intro!: keeps_rules simp: store_simps)

lemma takes_left_keeps [keeps_rules]: "(\<And>a b. keeps (says a b)) \<Longrightarrow> keeps (takes_left says a b)"
  unfolding takes_left_def by (auto intro!: keeps_rules)

lemma merge_runs_keeps [keeps_rules]: "(\<And>a b. keeps (left a b)) \<Longrightarrow> keeps (merge_runs left xs ys)"
  by (induction left xs ys rule: merge_runs.induct) (auto intro!: keeps_rules)

lemma merge_pass_keeps [keeps_rules]: "(\<And>a b. keeps (left a b)) \<Longrightarrow> keeps (merge_pass left w xs)"
proof (induction left w xs rule: merge_pass.induct)
  case (1 left w xs)
  show ?case using "1.IH" "1.prems" by (subst merge_pass.simps) (auto intro!: keeps_rules)
qed

lemma merge_passes_keeps [keeps_rules]: "(\<And>a b. keeps (left a b)) \<Longrightarrow> keeps (merge_passes left n w xs)"
proof (induction left n w xs rule: merge_passes.induct)
  case (1 left n w xs)
  show ?case using "1.IH" "1.prems" by (subst merge_passes.simps) (auto intro!: keeps_rules)
qed

lemma merge_sort_keeps [keeps_rules]: "(\<And>a b. keeps (says a b)) \<Longrightarrow> keeps (merge_sort says xs)"
  unfolding merge_sort_def by (auto intro!: keeps_rules)

lemma eval_collection_sort_keeps [keeps_rules]: "engine_ok E \<Longrightarrow> keeps (eval_collection_sort h E op)"
  unfolding eval_collection_sort_def by (auto intro!: keeps_rules simp: store_simps)

lemma eval_string_repeat_keeps [keeps_rules]: "engine_ok E \<Longrightarrow> keeps (eval_string_repeat E op)"
  unfolding eval_string_repeat_def by (auto intro!: keeps_rules simp: store_simps)

lemma eval_string_replace_keeps [keeps_rules]: "engine_ok E \<Longrightarrow> keeps (eval_string_replace E op)"
  unfolding eval_string_replace_def by (auto intro!: keeps_rules simp: store_simps)

lemma eval_string_split_keeps [keeps_rules]: "engine_ok E \<Longrightarrow> keeps (eval_string_split E op)"
  unfolding eval_string_split_def by (auto intro!: keeps_rules simp: store_simps)

lemma eval_concat_build_keeps [keeps_rules]: "engine_ok E \<Longrightarrow> keeps (eval_concat_build E op)"
  unfolding eval_concat_build_def by (auto intro!: keeps_rules simp: store_simps)

section \<open>More fuel changes no answer\<close>

lemma eval_two_le [le_rules]:
  "le_engine E F \<Longrightarrow> le_comp (eval_two E a b f) (eval_two F a b f)"
  unfolding eval_two_def by (auto intro!: le_rules)

lemma eval_collection_length_le [le_rules]:
  "le_engine E F \<Longrightarrow> le_comp (eval_collection_length E op) (eval_collection_length F op)"
  unfolding eval_collection_length_def by (auto intro!: le_rules)

lemma eval_collection_append_le [le_rules]:
  "le_engine E F \<Longrightarrow> le_comp (eval_collection_append E op) (eval_collection_append F op)"
  unfolding eval_collection_append_def by (auto intro!: le_rules)

lemma eval_collection_remove_le [le_rules]:
  "le_engine E F \<Longrightarrow> le_comp (eval_collection_remove E op) (eval_collection_remove F op)"
  unfolding eval_collection_remove_def by (auto intro!: le_rules)

lemma eval_collection_contains_le [le_rules]:
  "le_engine E F \<Longrightarrow> le_comp (eval_collection_contains E op) (eval_collection_contains F op)"
  unfolding eval_collection_contains_def by (auto intro!: le_rules)

lemma eval_collection_insert_le [le_rules]:
  "le_engine E F \<Longrightarrow> le_comp (eval_collection_insert E op) (eval_collection_insert F op)"
  unfolding eval_collection_insert_def by (auto intro!: le_rules)

lemma eval_collection_remove_value_le [le_rules]:
  "le_engine E F \<Longrightarrow> le_comp (eval_collection_remove_value E op) (eval_collection_remove_value F op)"
  unfolding eval_collection_remove_value_def by (auto intro!: le_rules)

lemma eval_collection_remove_all_le [le_rules]:
  "le_engine E F \<Longrightarrow> le_comp (eval_collection_remove_all E op) (eval_collection_remove_all F op)"
  unfolding eval_collection_remove_all_def by (auto intro!: le_rules)

lemma eval_collection_find_all_le [le_rules]:
  "le_engine E F \<Longrightarrow> le_comp (eval_collection_find_all E op) (eval_collection_find_all F op)"
  unfolding eval_collection_find_all_def by (auto intro!: le_rules)

lemma eval_place_le [le_rules]:
  "le_engine E F \<Longrightarrow> le_comp (eval_place E target sp) (eval_place F target sp)"
  unfolding eval_place_def by (cases "target") (auto intro!: le_rules)

lemma eval_deep_update_le [le_rules]:
  "le_engine E F \<Longrightarrow> le_comp (eval_deep_update E di v sp) (eval_deep_update F di v sp)"
  unfolding eval_deep_update_def by (auto intro!: le_rules)

lemma eval_collection_update_le [le_rules]:
  "le_engine E F \<Longrightarrow> le_comp (eval_collection_update E op) (eval_collection_update F op)"
  unfolding eval_collection_update_def by (cases "unwrap_group (upd_target op)") (auto intro!: le_rules)

lemma eval_bound_le [le_rules]:
  "le_engine E F \<Longrightarrow> le_comp (eval_bound E z f d) (eval_bound F z f d)"
  unfolding eval_bound_def by (auto intro!: le_rules)

lemma eval_collection_slice_le [le_rules]:
  "le_engine E F \<Longrightarrow> le_comp (eval_collection_slice E op) (eval_collection_slice F op)"
  unfolding eval_collection_slice_def by (auto intro!: le_rules)

lemma eval_collection_remove_range_le [le_rules]:
  "le_engine E F \<Longrightarrow> le_comp (eval_collection_remove_range E op) (eval_collection_remove_range F op)"
  unfolding eval_collection_remove_range_def by (auto intro!: le_rules)

lemma eval_collection_map_le [le_rules]:
  "le_engine E F \<Longrightarrow> le_comp (eval_collection_map h E op) (eval_collection_map h F op)"
  unfolding eval_collection_map_def by (auto intro!: le_rules)

lemma filter_items_le [le_rules]: "(\<And>x. le_comp (f x) (g x)) \<Longrightarrow> le_comp (filter_items f sp xs) (filter_items g sp xs)"
  by (induction xs) (auto intro!: le_rules)

lemma eval_collection_filter_le [le_rules]:
  "le_engine E F \<Longrightarrow> le_comp (eval_collection_filter h E op) (eval_collection_filter h F op)"
  unfolding eval_collection_filter_def by (auto intro!: le_rules)

lemma reduce_items_le [le_rules]:
  "(\<And>a x. le_comp (f a x) (g a x)) \<Longrightarrow> le_comp (reduce_items f a xs) (reduce_items g a xs)"
  by (induction xs arbitrary: a) (auto intro!: le_rules)

lemma eval_collection_reduce_le [le_rules]:
  "le_engine E F \<Longrightarrow> le_comp (eval_collection_reduce h E op) (eval_collection_reduce h F op)"
  unfolding eval_collection_reduce_def by (auto intro!: le_rules)

lemma comparator_says_le [le_rules]:
  "le_engine E F \<Longrightarrow> le_comp (comparator_says h E f sp a b) (comparator_says h F f sp a b)"
  unfolding comparator_says_def by (auto intro!: le_rules)

lemma takes_left_le [le_rules]: "(\<And>a b. le_comp (f a b) (g a b)) \<Longrightarrow> le_comp (takes_left f a b) (takes_left g a b)"
  unfolding takes_left_def by (auto intro!: le_rules)

lemma merge_runs_le [le_rules]:
  "(\<And>a b. le_comp (left a b) (right a b)) \<Longrightarrow> le_comp (merge_runs left xs ys) (merge_runs right xs ys)"
  by (induction left xs ys rule: merge_runs.induct) (auto intro!: le_rules)

lemma merge_pass_le [le_rules]:
  "(\<And>a b. le_comp (left a b) (right a b)) \<Longrightarrow> le_comp (merge_pass left w xs) (merge_pass right w xs)"
proof (induction left w xs rule: merge_pass.induct)
  case (1 left w xs)
  show ?case using "1.IH" "1.prems" by (subst (1 2) merge_pass.simps) (auto intro!: le_rules)
qed

lemma merge_passes_le [le_rules]:
  "(\<And>a b. le_comp (left a b) (right a b)) \<Longrightarrow> le_comp (merge_passes left n w xs) (merge_passes right n w xs)"
proof (induction left n w xs rule: merge_passes.induct)
  case (1 left n w xs)
  show ?case using "1.IH" "1.prems" by (subst (1 2) merge_passes.simps) (auto intro!: le_rules)
qed

lemma merge_sort_le [le_rules]:
  "(\<And>a b. le_comp (f a b) (g a b)) \<Longrightarrow> le_comp (merge_sort f xs) (merge_sort g xs)"
  unfolding merge_sort_def by (auto intro!: le_rules)

lemma eval_collection_sort_le [le_rules]:
  "le_engine E F \<Longrightarrow> le_comp (eval_collection_sort h E op) (eval_collection_sort h F op)"
  unfolding eval_collection_sort_def by (auto intro!: le_rules)

lemma eval_string_repeat_le [le_rules]:
  "le_engine E F \<Longrightarrow> le_comp (eval_string_repeat E op) (eval_string_repeat F op)"
  unfolding eval_string_repeat_def by (auto intro!: le_rules)

lemma eval_string_replace_le [le_rules]:
  "le_engine E F \<Longrightarrow> le_comp (eval_string_replace E op) (eval_string_replace F op)"
  unfolding eval_string_replace_def by (auto intro!: le_rules)

lemma eval_string_split_le [le_rules]:
  "le_engine E F \<Longrightarrow> le_comp (eval_string_split E op) (eval_string_split F op)"
  unfolding eval_string_split_def by (auto intro!: le_rules)

lemma eval_concat_build_le [le_rules]:
  "le_engine E F \<Longrightarrow> le_comp (eval_concat_build E op) (eval_concat_build F op)"
  unfolding eval_concat_build_def by (auto intro!: le_rules)

end
