(* ===== verification/ZyRadix.thy ===== *)
theory ZyRadix imports ZyDigits begin

text \<open>
  Reading an unsigned 32-bit number in a radix, as u32::from_str_radix of the standard library does.
\<close>

definition radix_digit :: "nat \<Rightarrow> uchar \<Rightarrow> nat option" where
  "radix_digit radix c =
     (let d = (if 48 \<le> c \<and> c \<le> 57 then Some (c - 48) else if 97 \<le> c \<and> c \<le> 122 then Some (c - 87)
               else if 65 \<le> c \<and> c \<le> 90 then Some (c - 55) else None)
      in case d of Some n \<Rightarrow> if n < radix then Some n else None | None \<Rightarrow> None)"

definition parse_u32 :: "nat \<Rightarrow> ustring \<Rightarrow> nat option" where
  "parse_u32 radix s =
     (let ds = (case s of c # cs \<Rightarrow> if c = 43 then cs else s | [] \<Rightarrow> [])
      in if ds = [] \<or> \<not> list_all (\<lambda>c. radix_digit radix c \<noteq> None) ds then None
         else let n = from_digits radix (map (\<lambda>c. the (radix_digit radix c)) ds)
              in if n < 2 ^ 32 then Some n else None)"

end
