(* ===== verification/ZyData.thy ===== *)
theory ZyData imports ZyCollOps ZyRadix begin

text \<open>
  Conversions of data (crates/zymbol-interpreter/src/data_ops.rs): reading a number out of a text,
  casts, the type of a value, rounding to a count of decimals, number formats and bases.
\<close>

section \<open>Numbers out of texts\<close>

definition value_type :: "zvalue \<Rightarrow> ustring" where
  "value_type v =
     (case v of
        VInt _ \<Rightarrow> U ''Int'' | VFloat _ \<Rightarrow> U ''Float'' | VString _ \<Rightarrow> U ''String'' | VChar _ \<Rightarrow> U ''Char''
      | VBool _ \<Rightarrow> U ''Bool'' | VArray _ \<Rightarrow> U ''Array'' | VTuple _ \<Rightarrow> U ''Tuple'' | VNamedTuple _ \<Rightarrow> U ''Tuple''
      | VFunction _ \<Rightarrow> U ''Function'' | VError _ \<Rightarrow> U ''Error'' | VUnit \<Rightarrow> U ''Unit'')"

definition numeric :: "ustring \<Rightarrow> zvalue option" where
  "numeric t = (case num_parse t of NInt n \<Rightarrow> Some (VInt n) | NFloat f \<Rightarrow> Some (VFloat f) | NNone \<Rightarrow> None)"

definition parse_numeric_string :: "ustring \<Rightarrow> zvalue" where
  "parse_numeric_string s =
     (case numeric (trim s) of
        Some v \<Rightarrow> v
      | None \<Rightarrow>
          (case (case ascii_number (trim s) of Some t \<Rightarrow> numeric t | None \<Rightarrow> None) of
             Some v \<Rightarrow> v
           | None \<Rightarrow> VString s))"

definition numeric_value :: "zvalue \<Rightarrow> zvalue" where
  "numeric_value v =
     (case v of
        VString s \<Rightarrow> parse_numeric_string s
      | VChar c \<Rightarrow> (let w = parse_numeric_string [c] in if is_string_value w then VChar c else w)
      | _ \<Rightarrow> v)"

definition eval_numeric_eval :: "engine \<Rightarrow> expr numeric_eval \<Rightarrow> zvalue comp" where
  "eval_numeric_eval E op = bindc (eval E (ne_expr op)) (\<lambda>v. ret (numeric_value v))"

text \<open>What rounding, truncating and formatting read out of a text.\<close>

definition number_of_text :: "ustring \<Rightarrow> f64 option" where
  "number_of_text s =
     (let t = ascii_digits (trim s)
      in case parse_i64 t of Some n \<Rightarrow> Some (f_of_int n) | None \<Rightarrow> parse_f64 t)"

section \<open>Casts\<close>

text \<open>The nearest integer, halves away from zero, and the parts of a double.\<close>

fun fround :: "f64 \<Rightarrow> f64" where
  "fround (FFin s m e) = round_ratio s ((2 * nat \<bar>fkey (FFin s m e)\<bar> + 2 ^ f64_bias) div (2 * 2 ^ f64_bias)) 1"
| "fround x = x"

fun fabs :: "f64 \<Rightarrow> f64" where
  "fabs FNan = FNan"
| "fabs (FInf s) = FInf False"
| "fabs (FFin s m e) = FFin False m e"

definition ffloor :: "f64 \<Rightarrow> f64" where
  "ffloor x = (let t = ftrunc x in if flt x t then fsub t (f_of_int 1) else t)"

definition cast_to_int :: "f64 \<Rightarrow> string \<Rightarrow> span \<Rightarrow> zvalue outcome" where
  "cast_to_int f cast sp =
     (case num_from_f64 f of
        Some n \<Rightarrow> Inr (VInt n)
      | None \<Rightarrow> Inl (EGeneric (U ''integer overflow: '' @ U cast @ U '' cannot represent this float'') sp))"

definition cast_error :: "string \<Rightarrow> zvalue \<Rightarrow> span \<Rightarrow> zvalue outcome" where
  "cast_error wants v sp = Inl (kinded ''Type'' (U wants @ U '', got '' @ value_type v) sp)"

definition char_of_code :: "int \<Rightarrow> uchar option" where
  "char_of_code n = (if 0 \<le> n \<and> n \<le> u32_max then char_from_u32 (nat n) else None)"

definition cast_value :: "cast_kind \<Rightarrow> zvalue \<Rightarrow> span \<Rightarrow> zvalue outcome" where
  "cast_value kind v sp =
     (case kind of
        ToFloat \<Rightarrow>
          (case v of VFloat _ \<Rightarrow> Inr v | VInt n \<Rightarrow> Inr (VFloat (f_of_int n))
           | _ \<Rightarrow> cast_error ''##. requires a numeric value'' v sp)
      | ToIntRound \<Rightarrow>
          (case v of VInt _ \<Rightarrow> Inr v | VFloat f \<Rightarrow> cast_to_int (fround f) ''###'' sp
           | _ \<Rightarrow> cast_error ''### requires a numeric value'' v sp)
      | ToIntTrunc \<Rightarrow>
          (case v of VInt _ \<Rightarrow> Inr v | VFloat f \<Rightarrow> cast_to_int (ftrunc f) ''##!'' sp | VChar c \<Rightarrow> Inr (VInt (int c))
           | _ \<Rightarrow> cast_error ''##! requires a numeric value or Char'' v sp)
      | ToChar \<Rightarrow>
          (case v of
             VChar _ \<Rightarrow> Inr v
           | VInt n \<Rightarrow>
               (case char_of_code n of
                  Some c \<Rightarrow> Inr (VChar c)
                | None \<Rightarrow> Inl (kinded ''Range'' (U ''character out of range: ##' cannot represent this Int'') sp))
           | _ \<Rightarrow> cast_error ''##' requires an Int or Char'' v sp))"

definition eval_numeric_cast :: "engine \<Rightarrow> expr numeric_cast \<Rightarrow> zvalue comp" where
  "eval_numeric_cast E op = bindc (eval E (nc_expr op)) (\<lambda>v. lift (cast_value (nc_kind op) v (nc_span op)))"

section \<open>The type of a value\<close>

definition value_count :: "zvalue \<Rightarrow> nat" where
  "value_count v =
     (case v of
        VInt n \<Rightarrow> length (show_int n)
      | VFloat f \<Rightarrow> length (f_show f)
      | VString s \<Rightarrow> length s
      | VChar _ \<Rightarrow> 1
      | VBool _ \<Rightarrow> 1
      | VArray xs \<Rightarrow> length xs
      | VTuple xs \<Rightarrow> length xs
      | VNamedTuple d \<Rightarrow> length d
      | VFunction f \<Rightarrow> length (fv_params f)
      | VError e \<Rightarrow> length (err_message e)
      | VUnit \<Rightarrow> 0)"

definition metadata_of :: "zvalue \<Rightarrow> zvalue" where
  "metadata_of v = VTuple [VString (type_symbol_of v), VInt (int (value_count v)), v]"

definition eval_type_metadata :: "engine \<Rightarrow> expr type_metadata \<Rightarrow> zvalue comp" where
  "eval_type_metadata E op = bindc (eval E (tm_expr op)) (\<lambda>v. ret (metadata_of v))"

section \<open>A count of decimals\<close>

text \<open>The count is kept in 32 bits, and read as signed where the power of ten is taken.\<close>

definition decimal_count :: "zvalue \<Rightarrow> span \<Rightarrow> runtime_error + nat" where
  "decimal_count v sp =
     (case v of
        VInt n \<Rightarrow>
          if 0 \<le> n then Inr (nat (n mod (u32_max + 1)))
          else Inl (kinded ''Index'' (U ''decimal count must not be negative, got '' @ show_int n) sp)
      | _ \<Rightarrow> Inl (kinded ''Type'' (U ''decimal count must be a whole number, got '' @ type_label v) sp))"

definition as_i32 :: "nat \<Rightarrow> int" where
  "as_i32 n = (int n + 2147483648) mod 4294967296 - 2147483648"

definition eval_precision :: "engine \<Rightarrow> expr precision \<Rightarrow> span \<Rightarrow> nat comp" where
  "eval_precision E p sp =
     (case p of PrecLiteral n \<Rightarrow> ret n | PrecDynamic e \<Rightarrow> bindc (eval E e) (\<lambda>v. lift (decimal_count v sp)))"

definition power_of_ten :: "host \<Rightarrow> nat \<Rightarrow> f64" where
  "power_of_ten h n = h_powi h (f_of_int 10) (as_i32 n)"

definition to_decimals :: "host \<Rightarrow> (f64 \<Rightarrow> f64) \<Rightarrow> f64 \<Rightarrow> nat \<Rightarrow> f64" where
  "to_decimals h whole x n = fdiv (whole (fmul x (power_of_ten h n))) (power_of_ten h n)"

definition number_to_cut :: "string \<Rightarrow> string \<Rightarrow> zvalue \<Rightarrow> span \<Rightarrow> runtime_error + f64" where
  "number_to_cut noun what v sp =
     (case v of
        VInt n \<Rightarrow> Inr (f_of_int n)
      | VFloat f \<Rightarrow> Inr f
      | VString s \<Rightarrow>
          (case number_of_text s of
             Some f \<Rightarrow> Inr f
           | None \<Rightarrow> Inl (kinded ''Parse'' (U ''cannot convert string '' @ quoted s @ U '' to number for '' @ U noun) sp))
      | _ \<Rightarrow> Inl (kinded ''Type'' (U what @ U '' expressions only work with numbers or numeric strings, got '' @
               type_label v) sp))"

definition eval_round :: "host \<Rightarrow> engine \<Rightarrow> expr round_expr \<Rightarrow> zvalue comp" where
  "eval_round h E op =
     bindc (eval E (ro_expr op)) (\<lambda>v.
     bindc (lift (number_to_cut ''rounding'' ''round'' v (ro_span op))) (\<lambda>x.
     bindc (eval_precision E (ro_precision op) (ro_span op)) (\<lambda>n. ret (VFloat (to_decimals h fround x n)))))"

definition eval_trunc :: "host \<Rightarrow> engine \<Rightarrow> expr trunc_expr \<Rightarrow> zvalue comp" where
  "eval_trunc h E op =
     bindc (eval E (tr_expr op)) (\<lambda>v.
     bindc (lift (number_to_cut ''truncation'' ''truncate'' v (tr_span op))) (\<lambda>x.
     bindc (eval_precision E (tr_precision op) (tr_span op)) (\<lambda>n. ret (VFloat (to_decimals h ftrunc x n)))))"

section \<open>Number formats\<close>

datatype resolved_precision = ResRound nat | ResTruncate nat

definition eval_precision_op :: "engine \<Rightarrow> expr precision_op option \<Rightarrow> span \<Rightarrow> resolved_precision option comp" where
  "eval_precision_op E z sp =
     (case z of
        None \<Rightarrow> ret None
      | Some (PrecRound p) \<Rightarrow> bindc (eval_precision E p sp) (\<lambda>n. ret (Some (ResRound n)))
      | Some (PrecTruncate p) \<Rightarrow> bindc (eval_precision E p sp) (\<lambda>n. ret (Some (ResTruncate n))))"

text \<open>A double with so many decimals, and in scientific notation, as the library's format writes them: rounded
  exactly, halves to even.\<close>

definition sign_text :: "bool \<Rightarrow> ustring" where "sign_text s = (if s then [45] else [])"

fun fixed_text :: "nat \<Rightarrow> f64 \<Rightarrow> ustring" where
  "fixed_text n (FFin s m e) =
     (case f_ratio m e of (a, b) \<Rightarrow>
        let q = round_half_even (a * 10 ^ n) b
        in sign_text s @ show_nat (q div 10 ^ n) @
           (if n = 0 then [] else 46 # pad_zero n (show_nat (q mod 10 ^ n))))"
| "fixed_text n x = f_show x"

definition mantissa_text :: "ustring \<Rightarrow> ustring" where
  "mantissa_text ds = take 1 ds @ (if length ds \<le> 1 then [] else 46 # drop 1 ds)"

fun scientific_text :: "f64 \<Rightarrow> ustring" where
  "scientific_text (FFin s m e) =
     sign_text s @
     (if m = 0 then U ''0e0''
      else case shortest_decimal s m e of (c, p) \<Rightarrow>
             let ds = show_nat c in mantissa_text ds @ U ''e'' @ show_int (p + int (length ds) - 1))"
| "scientific_text x = f_show x"

fun scientific_fixed :: "nat \<Rightarrow> f64 \<Rightarrow> ustring" where
  "scientific_fixed n (FFin s m e) =
     sign_text s @
     (if m = 0 then mantissa_text (replicate (n + 1) 48) @ U ''e0''
      else case f_ratio m e of (a, b) \<Rightarrow>
             let k = decimal_exponent a b; p = k - int (n + 1);
                 q = (if 0 \<le> p then round_half_even a (b * 10 ^ nat p) else round_half_even (a * 10 ^ nat (- p)) b);
                 (q', k') = (if q = 10 ^ (n + 1) then (10 ^ n, k + 1) else (q, k))
             in mantissa_text (show_nat q') @ U ''e'' @ show_int (k' - 1))"
| "scientific_fixed n x = f_show x"

definition as_i32_saturating :: "f64 \<Rightarrow> int" where
  "as_i32_saturating x = max (- 2147483648) (min 2147483647 (f_to_i64 x))"

definition interp_fmt_scientific_truncate :: "host \<Rightarrow> f64 \<Rightarrow> nat \<Rightarrow> ustring" where
  "interp_fmt_scientific_truncate h x n =
     (if feq x (f_of_int 0) then (if n = 0 then U ''0e0'' else scientific_fixed n (f_of_int 0))
      else
        let ex = as_i32_saturating (ffloor (h_log10 h (fabs x)));
            short = to_decimals h ftrunc (fdiv x (h_powi h (f_of_int 10) ex)) n
        in (if n = 0 then show_int (f_to_i64 short) else fixed_text n short) @ U ''e'' @ show_int ex)"

definition interp_fmt_scientific :: "host \<Rightarrow> f64 \<Rightarrow> resolved_precision option \<Rightarrow> ustring" where
  "interp_fmt_scientific h x z =
     (case z of
        None \<Rightarrow> scientific_text x
      | Some (ResRound n) \<Rightarrow> scientific_fixed n x
      | Some (ResTruncate n) \<Rightarrow> interp_fmt_scientific_truncate h x n)"

text \<open>Digits in groups of three, from the right.\<close>

fun group_three :: "ustring \<Rightarrow> ustring" where
  "group_three (a # b # c # d # ds) = a # b # c # 44 # group_three (d # ds)"
| "group_three ds = ds"

definition with_commas :: "ustring \<Rightarrow> ustring" where
  "with_commas ds = rev (group_three (rev ds))"

definition from_dot :: "ustring \<Rightarrow> ustring" where
  "from_dot s = dropWhile (\<lambda>c. c \<noteq> 46) s"

definition interp_fmt_thousands :: "host \<Rightarrow> f64 \<Rightarrow> resolved_precision option \<Rightarrow> ustring" where
  "interp_fmt_thousands h x0 z =
     (let x = (case z of None \<Rightarrow> x0 | Some (ResRound n) \<Rightarrow> to_decimals h fround x0 n
                | Some (ResTruncate n) \<Rightarrow> to_decimals h ftrunc x0 n);
          a = fabs x;
          ip = f_to_i64 (ffloor a);
          frac = (\<lambda>n. if n = 0 then [] else from_dot (fixed_text n (fsub a (f_of_int ip))))
      in (if flt x (f_of_int 0) then [45] else []) @ with_commas (show_int ip) @
         (case z of None \<Rightarrow> from_dot (f_show a) | Some (ResRound n) \<Rightarrow> frac n | Some (ResTruncate n) \<Rightarrow> frac n))"

definition number_to_format :: "zvalue \<Rightarrow> span \<Rightarrow> runtime_error + f64" where
  "number_to_format v sp =
     (let refused = Inl (kinded ''Type'' (U ''format expressions only work with numbers, got '' @ type_label v) sp)
      in case v of
           VInt n \<Rightarrow> Inr (f_of_int n)
         | VFloat f \<Rightarrow> Inr f
         | VString s \<Rightarrow> (case number_of_text s of Some f \<Rightarrow> Inr f | None \<Rightarrow> refused)
         | _ \<Rightarrow> refused)"

definition eval_format :: "host \<Rightarrow> engine \<Rightarrow> expr format_expr \<Rightarrow> zvalue comp" where
  "eval_format h E op =
     bindc (eval E (fmt_expr op)) (\<lambda>v.
     bindc (lift (number_to_format v (fmt_span op))) (\<lambda>x.
     bindc (eval_precision_op E (fmt_precision op) (fmt_span op)) (\<lambda>z. reading (\<lambda>s.
       ret (VString (map_numeral_number
         (case fmt_kind op of Thousands \<Rightarrow> interp_fmt_thousands h x z | Scientific \<Rightarrow> interp_fmt_scientific h x z)
         (numeral_mode s)))))))"

section \<open>Bases\<close>

fun base_radix :: "base_prefix \<Rightarrow> nat" where
  "base_radix Binary = 2" | "base_radix Octal = 8" | "base_radix Decimal = 10" | "base_radix Hex = 16"

fun base_mark :: "base_prefix \<Rightarrow> ustring" where
  "base_mark Binary = U ''0b''" | "base_mark Octal = U ''0o''" | "base_mark Decimal = U ''0d''" | "base_mark Hex = U ''0x''"

fun base_word :: "base_prefix \<Rightarrow> ustring" where
  "base_word Binary = U ''binary''" | "base_word Octal = U ''octal''" | "base_word Decimal = U ''decimal''"
| "base_word Hex = U ''hexadecimal''"

definition char_in_base :: "base_prefix \<Rightarrow> uchar \<Rightarrow> ustring" where
  "char_in_base b c =
     (case b of
        Binary \<Rightarrow> base_mark b @ show_radix 2 c
      | Octal \<Rightarrow> base_mark b @ show_radix 8 c
      | Decimal \<Rightarrow> base_mark b @ pad_zero 4 (show_radix 10 c)
      | Hex \<Rightarrow> base_mark b @ pad_zero 4 (show_radix 16 c))"

text \<open>A mark taken off the front as often as it stands there.\<close>

function strip_mark :: "ustring \<Rightarrow> ustring \<Rightarrow> ustring" where
  "strip_mark p s = (if p \<noteq> [] \<and> starts_with p s \<and> s \<noteq> [] then strip_mark p (drop (length p) s) else s)"
  by pat_completeness auto
termination by (relation "measure (\<lambda>(p, s). length s)") auto

declare strip_mark.simps [simp del]

definition strip_marks :: "ustring \<Rightarrow> ustring" where
  "strip_marks s = fold strip_mark (map U [''0b'', ''0o'', ''0d'', ''0x'', ''0B'', ''0O'', ''0D'', ''0X'']) s"

definition char_of_text :: "base_prefix \<Rightarrow> ustring \<Rightarrow> span \<Rightarrow> zvalue outcome" where
  "char_of_text b text sp =
     (let s = strip_marks text
      in case parse_u32 (base_radix b) s of
           None \<Rightarrow> Inl (kinded ''Parse'' (U ''failed to parse '' @ quoted s @ U '' as '' @ base_word b @ U '' number'') sp)
         | Some code \<Rightarrow>
             (case char_from_u32 code of
                Some c \<Rightarrow> Inr (VChar c)
              | None \<Rightarrow> Inl (kinded ''Range'' (U ''character out of range: '' @ base_mark b @ 124 # 0x2026 # 124 #
                          U '' cannot represent this code'') sp)))"

definition convert_base :: "base_prefix \<Rightarrow> zvalue \<Rightarrow> span \<Rightarrow> zvalue outcome" where
  "convert_base b v sp =
     (case v of
        VChar c \<Rightarrow> Inr (VString (char_in_base b c))
      | VInt n \<Rightarrow> Inr (VString (base_string n (base_radix b)))
      | VString s \<Rightarrow> char_of_text b s sp
      | _ \<Rightarrow> Inl (kinded ''Type'' (U ''base conversion expressions work with char, int, or string, got '' @ type_label v) sp))"

definition eval_base_conversion :: "engine \<Rightarrow> expr base_conversion \<Rightarrow> zvalue comp" where
  "eval_base_conversion E op =
     bindc (eval E (bc_expr op)) (\<lambda>v. lift (convert_base (bc_prefix op) v (bc_span op)))"

section \<open>What the handlers keep\<close>

lemma eval_numeric_eval_keeps [keeps_rules]: "engine_ok E \<Longrightarrow> keeps (eval_numeric_eval E op)"
  unfolding eval_numeric_eval_def by (auto intro!: keeps_rules simp: store_simps)

lemma eval_numeric_cast_keeps [keeps_rules]: "engine_ok E \<Longrightarrow> keeps (eval_numeric_cast E op)"
  unfolding eval_numeric_cast_def by (auto intro!: keeps_rules simp: store_simps)

lemma eval_type_metadata_keeps [keeps_rules]: "engine_ok E \<Longrightarrow> keeps (eval_type_metadata E op)"
  unfolding eval_type_metadata_def by (auto intro!: keeps_rules simp: store_simps)

lemma eval_precision_keeps [keeps_rules]: "engine_ok E \<Longrightarrow> keeps (eval_precision E p sp)"
  unfolding eval_precision_def by (cases "p") (auto intro!: keeps_rules)

lemma eval_round_keeps [keeps_rules]: "engine_ok E \<Longrightarrow> keeps (eval_round h E op)"
  unfolding eval_round_def by (auto intro!: keeps_rules simp: store_simps)

lemma eval_trunc_keeps [keeps_rules]: "engine_ok E \<Longrightarrow> keeps (eval_trunc h E op)"
  unfolding eval_trunc_def by (auto intro!: keeps_rules simp: store_simps)

lemma eval_precision_op_keeps [keeps_rules]: "engine_ok E \<Longrightarrow> keeps (eval_precision_op E z sp)"
  unfolding eval_precision_op_def by (auto intro!: keeps_rules split: option.split precision_op.split)

lemma eval_format_keeps [keeps_rules]: "engine_ok E \<Longrightarrow> keeps (eval_format h E op)"
  unfolding eval_format_def by (auto intro!: keeps_rules simp: store_simps)

lemma eval_base_conversion_keeps [keeps_rules]: "engine_ok E \<Longrightarrow> keeps (eval_base_conversion E op)"
  unfolding eval_base_conversion_def by (auto intro!: keeps_rules simp: store_simps)

section \<open>More fuel changes no answer\<close>

lemma eval_numeric_eval_le [le_rules]:
  "le_engine E F \<Longrightarrow> le_comp (eval_numeric_eval E op) (eval_numeric_eval F op)"
  unfolding eval_numeric_eval_def by (auto intro!: le_rules)

lemma eval_numeric_cast_le [le_rules]:
  "le_engine E F \<Longrightarrow> le_comp (eval_numeric_cast E op) (eval_numeric_cast F op)"
  unfolding eval_numeric_cast_def by (auto intro!: le_rules)

lemma eval_type_metadata_le [le_rules]:
  "le_engine E F \<Longrightarrow> le_comp (eval_type_metadata E op) (eval_type_metadata F op)"
  unfolding eval_type_metadata_def by (auto intro!: le_rules)

lemma eval_precision_le [le_rules]:
  "le_engine E F \<Longrightarrow> le_comp (eval_precision E p sp) (eval_precision F p sp)"
  unfolding eval_precision_def by (cases "p") (auto intro!: le_rules)

lemma eval_round_le [le_rules]:
  "le_engine E F \<Longrightarrow> le_comp (eval_round h E op) (eval_round h F op)"
  unfolding eval_round_def by (auto intro!: le_rules)

lemma eval_trunc_le [le_rules]:
  "le_engine E F \<Longrightarrow> le_comp (eval_trunc h E op) (eval_trunc h F op)"
  unfolding eval_trunc_def by (auto intro!: le_rules)

lemma eval_precision_op_le [le_rules]:
  "le_engine E F \<Longrightarrow> le_comp (eval_precision_op E z sp) (eval_precision_op F z sp)"
  unfolding eval_precision_op_def by (auto intro!: le_rules split: option.split precision_op.split)

lemma eval_format_le [le_rules]:
  "le_engine E F \<Longrightarrow> le_comp (eval_format h E op) (eval_format h F op)"
  unfolding eval_format_def by (auto intro!: le_rules)

lemma eval_base_conversion_le [le_rules]:
  "le_engine E F \<Longrightarrow> le_comp (eval_base_conversion E op) (eval_base_conversion F op)"
  unfolding eval_base_conversion_def by (auto intro!: le_rules)

end
