(* ===== verification/ZyIo.thy ===== *)
theory ZyIo imports ZyData begin

text \<open>
  Output, input and the terminal (crates/zymbol-interpreter/src/io.rs, and the pause of loops.rs).
  What is written goes to the field written of the state and what is read comes from input_lines,
  one raw line at a time; no line left is the end of the input.  The terminal itself, its keys and
  the virtual screen of zymbol run --keys belong to the host.
\<close>

section \<open>Output\<close>

definition write_text :: "ustring \<Rightarrow> interp \<Rightarrow> interp" where
  "write_text t s = s\<lparr>written := written s @ t\<rparr>"

primrec output_exprs :: "engine \<Rightarrow> expr list \<Rightarrow> unit comp" where
  "output_exprs E [] = ret ()"
| "output_exprs E (e # es) =
     bindc (eval E e) (\<lambda>v. bindc (modify (\<lambda>s. write_text (format_value s v) s)) (\<lambda>_. output_exprs E es))"

definition execute_output :: "engine \<Rightarrow> expr output_stmt \<Rightarrow> unit comp" where
  "execute_output E c = output_exprs E (out_exprs c)"

text \<open>While the terminal is raw a line feed alone does not return to the first column.\<close>

definition execute_newline :: "newline_stmt \<Rightarrow> unit comp" where
  "execute_newline c = modify (\<lambda>s. write_text (if 0 < tui_depth s then [13, 10] else [10]) s)"

section \<open>Input\<close>

fun describe_input_cast :: "input_cast \<Rightarrow> ustring" where
  "describe_input_cast CastString = U ''text''"
| "describe_input_cast (CastText None) = U ''text''"
| "describe_input_cast CastNumeric = U ''a number''"
| "describe_input_cast CastFloat = U ''a number''"
| "describe_input_cast (CastDecimal digits decimals) =
     U ''a number with up to '' @ show_nat digits @ U '' digits and '' @ show_nat decimals @ U '' decimals''"
| "describe_input_cast (CastInt (Some n)) = U ''an integer of up to '' @ show_nat n @ U '' digits''"
| "describe_input_cast (CastInt None) = U ''an integer''"
| "describe_input_cast (CastText (Some n)) = U ''text of up to '' @ show_nat n @ U '' characters''"
| "describe_input_cast CastChar = U ''a single character''"

definition count_digits :: "ustring \<Rightarrow> nat" where
  "count_digits s = length (filter is_ascii_digit s)"

definition validate_int :: "ustring \<Rightarrow> nat option \<Rightarrow> int option" where
  "validate_int s max_digits =
     (case parse_i64 s of
        None \<Rightarrow> None
      | Some n \<Rightarrow> (case max_digits of Some d \<Rightarrow> if d < count_digits s then None else Some n | None \<Rightarrow> Some n))"

text \<open>Whole and fractional digits before and after at most one point; None when anything else stands there.\<close>

fun decimal_digits :: "ustring \<Rightarrow> bool \<Rightarrow> nat \<Rightarrow> nat \<Rightarrow> (nat \<times> nat) option" where
  "decimal_digits [] seen_dot i f = Some (i, f)"
| "decimal_digits (c # cs) seen_dot i f =
     (if c = 46 then (if seen_dot then None else decimal_digits cs True i f)
      else if is_ascii_digit c
      then (if seen_dot then decimal_digits cs True i (f + 1) else decimal_digits cs False (i + 1) f)
      else None)"

definition strip_one_sign :: "ustring \<Rightarrow> ustring" where
  "strip_one_sign s = (case s of c # cs \<Rightarrow> if c = 43 \<or> c = 45 then cs else s | [] \<Rightarrow> [])"

definition validate_decimal :: "ustring \<Rightarrow> nat \<Rightarrow> nat \<Rightarrow> f64 option" where
  "validate_decimal s digits decimals =
     (case parse_f64 s of
        None \<Rightarrow> None
      | Some x \<Rightarrow>
          (case decimal_digits (strip_one_sign s) False 0 0 of
             None \<Rightarrow> None
           | Some (i, f) \<Rightarrow> if decimals < f \<or> digits < i + f then None else Some x))"

definition validate_input :: "ustring \<Rightarrow> input_cast \<Rightarrow> ustring + zvalue" where
  "validate_input s cast =
     (let hint = (\<lambda>z. case z of Some v \<Rightarrow> Inr v | None \<Rightarrow> Inl (describe_input_cast cast))
      in case cast of
           CastString \<Rightarrow> Inr (VString s)
         | CastNumeric \<Rightarrow> Inr (parse_numeric_string s)
         | CastFloat \<Rightarrow> hint (map_option VFloat (parse_f64 (ascii_digits s)))
         | CastDecimal digits decimals \<Rightarrow> hint (map_option VFloat (validate_decimal (ascii_digits s) digits decimals))
         | CastInt max_digits \<Rightarrow> hint (map_option VInt (validate_int (ascii_digits s) max_digits))
         | CastText z \<Rightarrow>
             (case z of Some n \<Rightarrow> hint (if n < length s then None else Some (VString s)) | None \<Rightarrow> Inr (VString s))
         | CastChar \<Rightarrow> hint (case s of [c] \<Rightarrow> Some (VChar c) | _ \<Rightarrow> None))"

primrec prompt_parts :: "interp \<Rightarrow> span \<Rightarrow> string_part list \<Rightarrow> runtime_error + ustring" where
  "prompt_parts s sp [] = Inr []"
| "prompt_parts s sp (p # ps) =
     rbind (case p of
              PartText t \<Rightarrow> Inr t
            | PartVariable x \<Rightarrow>
                (case get_variable s x of
                   Some v \<Rightarrow> Inr (format_value s v)
                 | None \<Rightarrow> Inl (EGeneric (U ''undefined variable in input prompt: '' @ quoted x) sp)))
       (\<lambda>t. rbind (prompt_parts s sp ps) (\<lambda>rest. Inr (t @ rest)))"

definition prompt_text :: "interp \<Rightarrow> input_stmt \<Rightarrow> runtime_error + ustring" where
  "prompt_text s c =
     (case in_prompt c of
        None \<Rightarrow> Inr []
      | Some (PromptSimple t) \<Rightarrow> Inr t
      | Some (PromptInterpolated ps) \<Rightarrow> prompt_parts s (in_span c) ps)"

text \<open>The line asked for until one passes: a line that does not is answered with what was expected.\<close>

definition end_of_input :: "input_cast \<Rightarrow> span \<Rightarrow> runtime_error" where
  "end_of_input cast sp = EGeneric (U ''end of input while waiting for '' @ describe_input_cast cast) sp"

fun ask_lines :: "ustring \<Rightarrow> input_cast \<Rightarrow> span \<Rightarrow> ustring list \<Rightarrow> ustring \<Rightarrow> zvalue outcome \<times> ustring list \<times> ustring" where
  "ask_lines prompt cast sp [] out = (Inl (end_of_input cast sp), [], out @ prompt)"
| "ask_lines prompt cast sp (l # ls) out =
     (if l = [] then (Inl (end_of_input cast sp), ls, out @ prompt)
      else case validate_input (trim l) cast of
             Inr v \<Rightarrow> (Inr v, ls, out @ prompt)
           | Inl hint \<Rightarrow> ask_lines prompt cast sp ls (out @ prompt @ U ''  ('' @ hint @ U '')'' @ [10]))"

definition read_input :: "input_stmt \<Rightarrow> ustring \<Rightarrow> interp \<Rightarrow> zvalue outcome \<times> interp" where
  "read_input c prompt s =
     (case ask_lines prompt (in_cast c) (in_span c) (input_lines s) (written s) of
        (r, ls, out) \<Rightarrow> (r, s\<lparr>input_lines := ls, written := out\<rparr>))"

definition execute_input :: "input_stmt \<Rightarrow> unit comp" where
  "execute_input c = reading (\<lambda>s.
     bindc (lift (prompt_text s c)) (\<lambda>prompt.
     bindc (stateful (read_input c prompt)) (\<lambda>v. modify (set_variable (in_variable c) v))))"

section \<open>The pause and the terminal\<close>

definition execute_sleep :: "engine \<Rightarrow> expr sleep_stmt \<Rightarrow> unit comp" where
  "execute_sleep E c =
     bindc (eval E (slp_duration c)) (\<lambda>v.
       case v of
         VInt n \<Rightarrow> if 0 \<le> n then ret () else raise (EGeneric (U ''@~ requires non-negative duration, got '' @ show_int n) (slp_span c))
       | _ \<Rightarrow> raise (kinded ''Type'' (U ''@~ requires integer milliseconds, got '' @ type_label v) (slp_span c)))"

text \<open>The slots and the text of a positioned output are evaluated before anything is written; a single slot
  that holds a tuple gives them all.  Writing them there is the host's.\<close>

definition slot_int :: "zvalue \<Rightarrow> span \<Rightarrow> runtime_error + int" where
  "slot_int v sp = (case v of VInt n \<Rightarrow> Inr n
     | _ \<Rightarrow> Inl (kinded ''Type'' (U ''>>~ slot expects Int, got '' @ type_ident v) sp))"

definition eval_slot :: "engine \<Rightarrow> span \<Rightarrow> expr \<Rightarrow> int comp" where
  "eval_slot E sp e = bindc (eval E e) (\<lambda>v. lift (slot_int v sp))"

definition positioned_items :: "host \<Rightarrow> engine \<Rightarrow> expr output_pos \<Rightarrow> unit comp" where
  "positioned_items h E c = bindc (mapc (eval E) (op_items c)) (\<lambda>_. h_other_stmt h (SOutputPos c))"

definition positioned_slots :: "host \<Rightarrow> engine \<Rightarrow> expr output_pos \<Rightarrow> unit comp" where
  "positioned_slots h E c =
     bindc (mapc (optc (eval_slot E (op_span c))) (op_slots c)) (\<lambda>_. positioned_items h E c)"

definition is_positional_tuple :: "zvalue \<Rightarrow> bool" where
  "is_positional_tuple v = (case v of VTuple _ \<Rightarrow> True | _ \<Rightarrow> False)"

definition execute_output_pos :: "host \<Rightarrow> engine \<Rightarrow> expr output_pos \<Rightarrow> unit comp" where
  "execute_output_pos h E c =
     (case op_slots c of
        [Some e] \<Rightarrow>
          bindc (eval E e) (\<lambda>v. if is_positional_tuple v then positioned_items h E c else positioned_slots h E c)
      | _ \<Rightarrow> positioned_slots h E c)"

text \<open>A block on the terminal runs once the host has taken the terminal over.\<close>

definition in_tui :: "unit comp \<Rightarrow> unit comp" where
  "in_tui m = bindc (modify (\<lambda>s. s\<lparr>tui_depth := tui_depth s + 1\<rparr>)) (\<lambda>_.
     finally_do m (\<lambda>s. s\<lparr>tui_depth := tui_depth s - 1\<rparr>))"

definition execute_tui_block :: "host \<Rightarrow> engine \<Rightarrow> statement tui_block \<Rightarrow> unit comp" where
  "execute_tui_block h E c =
     bindc (h_other_stmt h (STuiBlock c)) (\<lambda>_. in_tui (execute_block E (tui_body c)))"

text \<open>An Int read from the input may lie outside the range of the language.\<close>

lemma input_int_escapes_range:
  "\<bar>n\<bar> < 2 ^ 63 \<Longrightarrow> validate_int (show_int n) None = Some n"
  "\<not> in_int_range (2 ^ 53)"
  by (auto simp: validate_int_def parse_i64_show_int checked_i64_def in_int_range_def in_i64_def i64_min_def
      i64_max_def ZY_INT_MIN_def ZY_INT_MAX_def)

section \<open>What the handlers keep\<close>

lemma write_text_shape [store_simps]:
  "shape (write_text t s) = shape s" "stacks_ok (write_text t s) = stacks_ok s"
  by (simp_all add: write_text_def shape_def stacks_ok_def)

lemma output_exprs_keeps [keeps_rules]: "engine_ok E \<Longrightarrow> keeps (output_exprs E es)"
  by (induction es) (auto intro!: keeps_rules simp: store_simps)

lemma execute_output_keeps [keeps_rules]: "engine_ok E \<Longrightarrow> keeps (execute_output E c)"
  unfolding execute_output_def by (auto intro!: keeps_rules)

lemma execute_newline_keeps [keeps_rules]: "keeps (execute_newline c)"
  unfolding execute_newline_def by (auto intro!: keeps_rules simp: store_simps)

lemma read_input_shape:
  "shape (snd (read_input c p s)) = shape s" "stacks_ok (snd (read_input c p s)) = stacks_ok s"
  by (simp_all add: read_input_def split_beta shape_def stacks_ok_def)

lemma execute_input_keeps [keeps_rules]: "keeps (execute_input c)"
  unfolding execute_input_def by (auto intro!: keeps_rules simp: store_simps read_input_shape)

lemma execute_sleep_keeps [keeps_rules]: "engine_ok E \<Longrightarrow> keeps (execute_sleep E c)"
  unfolding execute_sleep_def by (auto intro!: keeps_rules)

lemma eval_slot_keeps [keeps_rules]: "engine_ok E \<Longrightarrow> keeps (eval_slot E sp e)"
  unfolding eval_slot_def by (auto intro!: keeps_rules)

lemma positioned_keeps [keeps_rules]:
  "host_ok h \<Longrightarrow> engine_ok E \<Longrightarrow> keeps (positioned_items h E c)"
  "host_ok h \<Longrightarrow> engine_ok E \<Longrightarrow> keeps (positioned_slots h E c)"
  unfolding positioned_items_def positioned_slots_def by (auto intro!: keeps_rules)

lemma execute_output_pos_keeps [keeps_rules]: "host_ok h \<Longrightarrow> engine_ok E \<Longrightarrow> keeps (execute_output_pos h E c)"
  unfolding execute_output_pos_def by (auto intro!: keeps_rules)

lemma in_tui_keeps [keeps_rules]:
  assumes "keeps m" shows "keeps (in_tui m)"
  unfolding in_tui_def
  by (rule keeps_around [OF assms]) (simp_all add: stacks_ok_def grown_def shape_def)

lemma execute_tui_block_keeps [keeps_rules]: "host_ok h \<Longrightarrow> engine_ok E \<Longrightarrow> keeps (execute_tui_block h E c)"
  unfolding execute_tui_block_def by (auto intro!: keeps_rules)

section \<open>More fuel changes no answer\<close>

lemma output_exprs_le [le_rules]: "le_engine E F \<Longrightarrow> le_comp (output_exprs E es) (output_exprs F es)"
  by (induction es) (auto intro!: le_rules)

lemma execute_output_le [le_rules]: "le_engine E F \<Longrightarrow> le_comp (execute_output E c) (execute_output F c)"
  unfolding execute_output_def by (auto intro!: le_rules)

lemma execute_sleep_le [le_rules]: "le_engine E F \<Longrightarrow> le_comp (execute_sleep E c) (execute_sleep F c)"
  unfolding execute_sleep_def by (auto intro!: le_rules)

lemma eval_slot_le [le_rules]: "le_engine E F \<Longrightarrow> le_comp (eval_slot E sp e) (eval_slot F sp e)"
  unfolding eval_slot_def by (auto intro!: le_rules)

lemma positioned_le [le_rules]:
  "le_engine E F \<Longrightarrow> le_comp (positioned_items h E c) (positioned_items h F c)"
  "le_engine E F \<Longrightarrow> le_comp (positioned_slots h E c) (positioned_slots h F c)"
  unfolding positioned_items_def positioned_slots_def by (auto intro!: le_rules)

lemma execute_output_pos_le [le_rules]:
  "le_engine E F \<Longrightarrow> le_comp (execute_output_pos h E c) (execute_output_pos h F c)"
  unfolding execute_output_pos_def by (auto intro!: le_rules)

lemma in_tui_le [le_rules]: "le_comp m n \<Longrightarrow> le_comp (in_tui m) (in_tui n)"
  unfolding in_tui_def by (auto intro!: le_rules)

lemma execute_tui_block_le [le_rules]:
  "le_engine E F \<Longrightarrow> le_comp (execute_tui_block h E c) (execute_tui_block h F c)"
  unfolding execute_tui_block_def by (auto intro!: le_rules)

end
