(* ===== verification/ZyEval.thy ===== *)
theory ZyEval imports ZyIo begin

text \<open>
  The dispatch over statements and expressions, and a program run
  (crates/zymbol-interpreter/src/lib.rs): which handler each node of the tree goes to, the line an
  error is reported at, a return and the tail call it may be, and the engine that the handlers call
  back, tied on a bound on the depth of its recursion.
\<close>

section \<open>Expressions\<close>

definition range_outside_loop :: "span \<Rightarrow> runtime_error" where
  "range_outside_loop sp = EGeneric (U ''ranges can only be used in for-each loops'') sp"

definition eval_expr :: "host \<Rightarrow> engine \<Rightarrow> expr \<Rightarrow> zvalue comp" where
  "eval_expr h E e =
     (case e of
        EGroup g \<Rightarrow> eval E (grp_expr g)
      | ELiteral l \<Rightarrow> eval_literal h l
      | EIdentifier i \<Rightarrow> eval_identifier h i
      | EBinary b \<Rightarrow> eval_binary h E b
      | EUnary u \<Rightarrow> eval_unary E u
      | ERange r \<Rightarrow> raise (range_outside_loop (expr_span e))
      | EArrayLiteral a \<Rightarrow> eval_array_literal E a
      | ETuple t \<Rightarrow> eval_tuple E t
      | ENamedTuple t \<Rightarrow> eval_named_tuple E t
      | EMemberAccess ma \<Rightarrow> eval_member_access E ma
      | EIndex ix \<Rightarrow> eval_index E ix
      | EFunctionCall c \<Rightarrow> eval_function_call h E c
      | EMatch m \<Rightarrow> eval_match h E m
      | ELength op \<Rightarrow> eval_collection_length E op
      | EAppend op \<Rightarrow> eval_collection_append E op
      | EInsert op \<Rightarrow> eval_collection_insert E op
      | ERemoveValue op \<Rightarrow> eval_collection_remove_value E op
      | ERemoveAll op \<Rightarrow> eval_collection_remove_all E op
      | ERemoveAt op \<Rightarrow> eval_collection_remove E op
      | ERemoveRange op \<Rightarrow> eval_collection_remove_range E op
      | EContains op \<Rightarrow> eval_collection_contains E op
      | EFindAll op \<Rightarrow> eval_collection_find_all E op
      | EUpdate op \<Rightarrow> eval_collection_update E op
      | ESlice op \<Rightarrow> eval_collection_slice E op
      | EStringRepeat op \<Rightarrow> eval_string_repeat E op
      | EStringReplace op \<Rightarrow> eval_string_replace E op
      | EStringSplit op \<Rightarrow> eval_string_split E op
      | EConcatBuild op \<Rightarrow> eval_concat_build E op
      | ENumericCast op \<Rightarrow> eval_numeric_cast E op
      | ENumericEval op \<Rightarrow> eval_numeric_eval E op
      | ETypeMetadata op \<Rightarrow> eval_type_metadata E op
      | EFormat op \<Rightarrow> eval_format h E op
      | EBaseConversion op \<Rightarrow> eval_base_conversion E op
      | ELambda l \<Rightarrow> eval_lambda h l
      | EMap op \<Rightarrow> eval_collection_map h E op
      | EFilter op \<Rightarrow> eval_collection_filter h E op
      | EReduce op \<Rightarrow> eval_collection_reduce h E op
      | ESortAsc op \<Rightarrow> eval_collection_sort h E op
      | ESortDesc op \<Rightarrow> eval_collection_sort h E op
      | ESortCustom op \<Rightarrow> eval_collection_sort h E op
      | EPipe p \<Rightarrow> eval_pipe h E p
      | EExecute _ \<Rightarrow> h_other_expr h e
      | EBashExec _ \<Rightarrow> h_other_expr h e
      | ERound op \<Rightarrow> eval_round h E op
      | ETrunc op \<Rightarrow> eval_trunc h E op
      | EErrorConstruct c \<Rightarrow> eval_error_construct E c
      | EErrorCheck c \<Rightarrow> eval_error_check E c
      | EErrorPropagate p \<Rightarrow> eval_error_propagate E p
      | EDeepIndex di \<Rightarrow> eval_deep_index E di
      | EFlatExtract fe \<Rightarrow> eval_flat_extract E fe
      | EStructuredExtract se \<Rightarrow> eval_structured_extract E se
      | ETerminalSize _ \<Rightarrow> h_other_expr h e)"

section \<open>Statements\<close>

text \<open>A return of a call of the running function by itself, outside every try, is a tail call: its
  arguments, if it is one.\<close>

definition tail_call_of :: "interp \<Rightarrow> expr \<Rightarrow> expr list option" where
  "tail_call_of s e =
     (if try_depth s \<noteq> 0 then None
      else case unwrap_group e of
             EFunctionCall c \<Rightarrow>
               (case as_identifier (call_callable c) of
                  Some i \<Rightarrow> if current_function s = Some (id_name i) then Some (call_arguments c) else None
                | None \<Rightarrow> None)
           | _ \<Rightarrow> None)"

definition execute_tail_call :: "engine \<Rightarrow> expr list \<Rightarrow> unit comp" where
  "execute_tail_call E args =
     bindc (mapc (eval E) args) (\<lambda>vs.
       modify (\<lambda>s. set_control_flow (CfReturn None) (s\<lparr>tco_pending := True, tco_args := vs\<rparr>)))"

text \<open>A returned variable gives its value away, unless something still reads it.\<close>

definition moved_name :: "interp \<Rightarrow> expr \<Rightarrow> ustring option" where
  "moved_name s e =
     (if try_depth s \<noteq> 0 then None
      else case as_identifier e of
             Some i \<Rightarrow>
               if id_name i \<in> move_guard_names s \<or> fst (take_variable (id_name i) s) = None then None
               else Some (id_name i)
           | None \<Rightarrow> None)"

definition return_variable :: "ustring \<Rightarrow> interp \<Rightarrow> interp" where
  "return_variable x s = (case take_variable x s of (z, t) \<Rightarrow> set_control_flow (CfReturn z) t)"

definition return_value :: "engine \<Rightarrow> expr \<Rightarrow> unit comp" where
  "return_value E e = reading (\<lambda>s.
     case tail_call_of s e of
       Some args \<Rightarrow> execute_tail_call E args
     | None \<Rightarrow>
         (case moved_name s e of
            Some x \<Rightarrow> modify (return_variable x)
          | None \<Rightarrow> bindc (eval E e) (\<lambda>v. modify (set_control_flow (CfReturn (Some v))))))"

definition execute_return :: "engine \<Rightarrow> expr return_stmt \<Rightarrow> unit comp" where
  "execute_return E c =
     (case rt_value c of None \<Rightarrow> modify (set_control_flow (CfReturn None)) | Some e \<Rightarrow> return_value E e)"

definition execute_cli_args :: "cli_args_capture \<Rightarrow> unit comp" where
  "execute_cli_args c = modify (\<lambda>s.
     set_variable (ca_variable c) (VArray (case cli_args s of Some vs \<Rightarrow> vs | None \<Rightarrow> [])) s)"

definition enter_line :: "statement \<Rightarrow> interp \<Rightarrow> interp" where
  "enter_line c s =
     (let n = line (sp_start (statement_span c)) in if 0 < n then s\<lparr>cur_stmt_line := n\<rparr> else s)"

definition execute_kind :: "host \<Rightarrow> engine \<Rightarrow> statement \<Rightarrow> unit comp" where
  "execute_kind h E c =
     (case c of
        SOutput x \<Rightarrow> execute_output E x
      | SAssignment a \<Rightarrow> execute_assignment h E a
      | SConstDecl d \<Rightarrow> execute_const_decl E d
      | SNewline n \<Rightarrow> execute_newline n
      | SInput i \<Rightarrow> execute_input i
      | SIf i \<Rightarrow> execute_if E i
      | SLoop l \<Rightarrow> execute_loop E l
      | SBreak b \<Rightarrow> execute_break b
      | SContinue b \<Rightarrow> execute_continue b
      | SFunctionDecl d \<Rightarrow> modify (register_function h d)
      | SReturn r \<Rightarrow> execute_return E r
      | SMatch m \<Rightarrow> execute_match_statement h E m
      | SExpr x \<Rightarrow> bindc (eval E (es_expr x)) (\<lambda>_. ret ())
      | SCliArgsCapture a \<Rightarrow> execute_cli_args a
      | SLifetimeEnd l \<Rightarrow> stateful (destroy_variable (le_name l) (le_span l))
      | SDestructureAssign d \<Rightarrow> eval_destructure_assign E d
      | STry t \<Rightarrow> execute_try E t
      | SSetNumeralMode base _ \<Rightarrow> modify (\<lambda>s. s\<lparr>numeral_mode := base\<rparr>)
      | SSleep x \<Rightarrow> execute_sleep E x
      | SClearScreen _ \<Rightarrow> h_other_stmt h c
      | SKeyInput _ \<Rightarrow> h_other_stmt h c
      | SOutputPos p \<Rightarrow> execute_output_pos h E p
      | STuiBlock b \<Rightarrow> execute_tui_block h E b)"

definition execute_statement_inner :: "host \<Rightarrow> engine \<Rightarrow> statement \<Rightarrow> unit comp" where
  "execute_statement_inner h E c = bindc (modify (enter_line c)) (\<lambda>_. execute_kind h E c)"

text \<open>A signal that left an expression is the statement's own exit, and a statement that finishes gives
  the line back.\<close>

definition settle_statement :: "nat \<Rightarrow> unit outcome \<Rightarrow> interp \<Rightarrow> unit outcome \<times> interp" where
  "settle_statement holder r s =
     (let r' = (if r = Inl EUnwind then Inr () else r)
      in (r', if r' = Inr () \<and> \<not> has_control_flow s then s\<lparr>cur_stmt_line := holder\<rparr> else s))"

definition execute_statement :: "host \<Rightarrow> engine \<Rightarrow> statement \<Rightarrow> unit comp" where
  "execute_statement h E c = reading (\<lambda>s.
     bindc (attempt (execute_statement_inner h E c)) (\<lambda>r. stateful (settle_statement (cur_stmt_line s) r)))"

section \<open>The engine\<close>

text \<open>The engine whose recursion may go so many calls of eval_expr and execute_statement deep.\<close>

definition engine_over :: "host \<Rightarrow> engine \<Rightarrow> engine" where
  "engine_over h E = \<lparr>eval = eval_expr h E, exec = execute_statement h E, turns = Suc (turns E)\<rparr>"

primrec engine_at :: "host \<Rightarrow> nat \<Rightarrow> engine" where
  "engine_at h 0 = \<lparr>eval = \<lambda>_. no_fuel, exec = \<lambda>_. no_fuel, turns = 0\<rparr>"
| "engine_at h (Suc n) = engine_over h (engine_at h n)"

section \<open>A program\<close>

definition hoist :: "host \<Rightarrow> statement list \<Rightarrow> interp \<Rightarrow> interp" where
  "hoist h cs = fold (\<lambda>c. case c of SFunctionDecl d \<Rightarrow> register_function h d | _ \<Rightarrow> (\<lambda>s. s)) cs"

definition located :: "runtime_error \<Rightarrow> unit comp" where
  "located e = reading (\<lambda>s.
     raise (case current_file s of Some f \<Rightarrow> locate f (cur_stmt_line s) e | None \<Rightarrow> e))"

definition exit_status :: "zvalue option \<Rightarrow> int" where
  "exit_status z = (case z of None \<Rightarrow> 0 | Some v \<Rightarrow> (case v of VInt n \<Rightarrow> n | _ \<Rightarrow> 1))"

text \<open>A return at the top level ends the program; an error it carries is the program's.\<close>

definition end_program :: "zvalue option \<Rightarrow> statement \<Rightarrow> unit comp" where
  "end_program z c =
     (case (case z of Some v \<Rightarrow> as_error v | None \<Rightarrow> None) of
        Some e \<Rightarrow>
          bindc (modify clear_control_flow) (\<lambda>_.
            located (EGeneric (display_string (VError e)) (statement_span c)))
      | None \<Rightarrow> modify (\<lambda>s. clear_control_flow (s\<lparr>exit_code := Some (exit_status z)\<rparr>)))"

definition destroy_scheduled :: "nat \<Rightarrow> interp \<Rightarrow> interp" where
  "destroy_scheduled i s =
     (case map_of (destruction_schedule s) i of
        Some xs \<Rightarrow> fold auto_destroy_variable xs s
      | None \<Rightarrow> s)"

fun run_program :: "engine \<Rightarrow> nat \<Rightarrow> statement list \<Rightarrow> unit comp" where
  "run_program E i [] = ret ()"
| "run_program E i (c # cs) =
     bindc (attempt (exec E c)) (\<lambda>r.
       case r of
         Inl e \<Rightarrow> located e
       | Inr _ \<Rightarrow> reading (\<lambda>s.
           case control_flow s of
             CfReturn z \<Rightarrow> end_program z c
           | _ \<Rightarrow>
               bindc (modify (if has_control_flow s then (\<lambda>s. s) else destroy_scheduled i)) (\<lambda>_.
                 run_program E (i + 1) cs)))"

text \<open>A program without imports.\<close>

definition begin_program :: "host \<Rightarrow> statement list \<Rightarrow> interp \<Rightarrow> interp" where
  "begin_program h cs s =
     (let s1 = s\<lparr>auto_free_excluded := h_exclusions h cs\<rparr>;
          s2 = s1\<lparr>destruction_schedule := h_schedule h cs [] (auto_free_excluded s1)\<rparr>
      in hoist h cs s2)"

definition execute_program :: "host \<Rightarrow> nat \<Rightarrow> statement list \<Rightarrow> unit comp" where
  "execute_program h n cs = bindc (modify (begin_program h cs)) (\<lambda>_. run_program (engine_at h n) 0 cs)"

section \<open>What the engine keeps\<close>

lemma eval_expr_keeps: "host_ok h \<Longrightarrow> engine_ok E \<Longrightarrow> keeps (eval_expr h E e)"
  by (cases e) (auto simp: eval_expr_def intro!: keeps_rules)

lemma execute_tail_call_keeps [keeps_rules]: "engine_ok E \<Longrightarrow> keeps (execute_tail_call E args)"
  unfolding execute_tail_call_def by (auto intro!: keeps_rules simp: store_simps)

lemma return_variable_shape [store_simps]:
  "shape (return_variable x s) = shape s" "stacks_ok (return_variable x s) = stacks_ok s"
  by (simp_all add: return_variable_def split_beta store_simps)

lemma return_value_keeps [keeps_rules]: "engine_ok E \<Longrightarrow> keeps (return_value E e)"
  unfolding return_value_def by (auto intro!: keeps_rules simp: store_simps)

lemma execute_return_keeps [keeps_rules]: "engine_ok E \<Longrightarrow> keeps (execute_return E c)"
  unfolding execute_return_def by (auto intro!: keeps_rules simp: store_simps)

lemma execute_cli_args_keeps [keeps_rules]: "keeps (execute_cli_args c)"
  unfolding execute_cli_args_def by (auto intro!: keeps_rules simp: store_simps)

lemma numeral_mode_shape [store_simps]:
  "shape (s\<lparr>numeral_mode := m\<rparr>) = shape s" "stacks_ok (s\<lparr>numeral_mode := m\<rparr>) = stacks_ok s"
  by (simp_all add: shape_def stacks_ok_def)

lemma simple_statements_keep [keeps_rules]: "keeps (execute_break b)" "keeps (execute_continue c)"
  unfolding execute_break_def execute_continue_def by (auto intro!: keeps_rules simp: store_simps)

lemma execute_kind_keeps [keeps_rules]: "host_ok h \<Longrightarrow> engine_ok E \<Longrightarrow> keeps (execute_kind h E c)"
  by (cases c) (auto simp: execute_kind_def store_simps intro!: keeps_rules)

lemma enter_line_shape [store_simps]:
  "shape (enter_line c s) = shape s" "stacks_ok (enter_line c s) = stacks_ok s"
  by (simp_all add: enter_line_def Let_def store_simps)

lemma settle_statement_shape [store_simps]:
  "shape (snd (settle_statement n r s)) = shape s" "stacks_ok (snd (settle_statement n r s)) = stacks_ok s"
  by (simp_all add: settle_statement_def Let_def store_simps)

lemma execute_statement_keeps: "host_ok h \<Longrightarrow> engine_ok E \<Longrightarrow> keeps (execute_statement h E c)"
  unfolding execute_statement_def execute_statement_inner_def
  by (auto intro!: keeps_rules simp: store_simps)

lemma engine_at_ok [keeps_rules]: "host_ok h \<Longrightarrow> engine_ok (engine_at h n)"
proof (induction n)
  case 0
  show ?case by (simp add: engine_ok_def keeps_no_fuel)
next
  case (Suc n)
  then have "engine_ok (engine_at h n)" by simp
  then show ?case using Suc.prems by (simp add: engine_ok_def engine_over_def eval_expr_keeps execute_statement_keeps)
qed

section \<open>More fuel changes no answer\<close>

lemma eval_expr_le: "le_engine E F \<Longrightarrow> le_comp (eval_expr h E e) (eval_expr h F e)"
  by (cases e) (auto simp: eval_expr_def intro!: le_rules)

lemma execute_tail_call_le [le_rules]: "le_engine E F \<Longrightarrow> le_comp (execute_tail_call E args) (execute_tail_call F args)"
  unfolding execute_tail_call_def by (auto intro!: le_rules)

lemma return_value_le [le_rules]: "le_engine E F \<Longrightarrow> le_comp (return_value E e) (return_value F e)"
  unfolding return_value_def by (auto intro!: le_rules)

lemma execute_return_le [le_rules]: "le_engine E F \<Longrightarrow> le_comp (execute_return E c) (execute_return F c)"
  unfolding execute_return_def by (auto intro!: le_rules)

lemma execute_kind_le [le_rules]: "le_engine E F \<Longrightarrow> le_comp (execute_kind h E c) (execute_kind h F c)"
  by (cases c) (auto simp: execute_kind_def intro!: le_rules)

lemma execute_statement_le: "le_engine E F \<Longrightarrow> le_comp (execute_statement h E c) (execute_statement h F c)"
  unfolding execute_statement_def execute_statement_inner_def by (auto intro!: le_rules)

lemma engine_at_mono: "n \<le> m \<Longrightarrow> le_engine (engine_at h n) (engine_at h m)"
proof (induction n arbitrary: m)
  case 0
  show ?case by (simp add: le_engine_def le_no_fuel)
next
  case (Suc n)
  then obtain k where k: "m = Suc k" "n \<le> k" by (cases m) auto
  then have "le_engine (engine_at h n) (engine_at h k)" using Suc.IH by blast
  moreover from this have "turns (engine_at h n) \<le> turns (engine_at h k)" by (simp add: le_engine_def)
  ultimately show ?case using k by (simp add: le_engine_def engine_over_def eval_expr_le execute_statement_le)
qed

lemma run_program_le [le_rules]: "le_engine E F \<Longrightarrow> le_comp (run_program E i cs) (run_program F i cs)"
  by (induction cs arbitrary: i) (auto intro!: le_rules)

lemma execute_program_le: "n \<le> m \<Longrightarrow> le_comp (execute_program h n cs) (execute_program h m cs)"
  unfolding execute_program_def by (auto intro!: le_rules engine_at_mono)

end
