(* ===== verification/ZyProgram.thy ===== *)
theory ZyProgram imports ZyEval begin

text \<open>
  What holds of every run of the engine of theory ZyEval: scopes and counters are put back, the
  bound on nested evaluations decides nothing but whether there is an answer, a call gives the count
  of active calls back, a finally block runs and its effects stay, and the shortcut of the binary
  operators is the evaluation it stands for.
\<close>

section \<open>The discipline of scopes\<close>

text \<open>
  C1. Scopes and counters are put back.  Whatever statement runs - nested blocks, loops, calls, caught
  errors, breaks, continues and returns included - and whether it succeeds or fails, the interpreter
  comes out with the stacks of scopes still in step with one another, no scope lost, the loop anchors
  as they were, in the module it was in, and with the same counts of active calls, of call depth and of
  enclosing try blocks.
\<close>

theorem scope_discipline:
  assumes "host_ok h" and "stacks_ok s" and "exec (engine_at h n) c s = Some (r, t)"
  shows "stacks_ok t \<and> length (scope_stack s) \<le> length (scope_stack t) \<and>
    loop_scope_depths t = loop_scope_depths s \<and> module_scope t = module_scope s \<and>
    current_module_path t = current_module_path s \<and> call_depth t = call_depth s \<and>
    active_calls t = active_calls s \<and> try_depth t = try_depth s"
proof -
  have "keeps (exec (engine_at h n) c)" using engine_at_ok [OF assms(1)] engine_okD(2) by blast
  from keepsD [OF this assms(2,3)] show ?thesis by (simp add: grown_def shape_def)
qed

lemma quiet_host_ok: "host_ok quiet_host"
  by (simp add: host_ok_def quiet_host_def keeps_ret)

lemma new_interp_ok: "stacks_ok new_interp"
  by (simp add: stacks_ok_def new_interp_def fresh_frame_def frame.defs)

theorem scope_discipline_witness:
  "\<exists>r t. exec (engine_at quiet_host 1) (SBreak (Break None no_span)) new_interp = Some (r, t) \<and>
    stacks_ok t \<and> length (scope_stack new_interp) \<le> length (scope_stack t) \<and>
    loop_scope_depths t = loop_scope_depths new_interp \<and> module_scope t = module_scope new_interp \<and>
    current_module_path t = current_module_path new_interp \<and> call_depth t = call_depth new_interp \<and>
    active_calls t = active_calls new_interp \<and> try_depth t = try_depth new_interp"
proof -
  have "\<exists>x. exec (engine_at quiet_host 1) (SBreak (Break None no_span)) new_interp = Some x"
    by (simp add: engine_over_def execute_statement_def execute_statement_inner_def execute_kind_def execute_break_def
        reading_def bindc_def attempt_def modify_def stateful_def)
  then obtain r t where x: "exec (engine_at quiet_host 1) (SBreak (Break None no_span)) new_interp = Some (r, t)"
    by force
  from scope_discipline [OF quiet_host_ok new_interp_ok x] x show ?thesis by blast
qed

section \<open>Fuel\<close>

text \<open>
  The bound on the depth of evaluation is only a bound.  If a program gives an answer - an end or
  an error, with the state it leaves - when evaluation may nest n deep, then with any other bound it
  gives that very answer, or, when the bound is smaller, possibly none: no bound makes it answer
  anything else.
\<close>

lemma fuel_is_only_a_bound:
  assumes "execute_program h n cs s = Some x"
  shows "execute_program h m cs s = Some x \<or> m < n \<and> execute_program h m cs s = None"
proof (cases "n \<le> m")
  case True
  then show ?thesis using le_compD [OF execute_program_le assms] by blast
next
  case False
  then have "le_comp (execute_program h m cs) (execute_program h n cs)" by (intro execute_program_le) simp
  then have "execute_program h m cs s = Some x" if "execute_program h m cs s = Some y" for y
    using le_compD [of _ _ s y] assms that by fastforce
  with False show ?thesis by (cases "execute_program h m cs s") auto
qed

section \<open>The limit on calls\<close>

text \<open>
  C14. At most ten thousand calls are active at once.  With that many running, calling a closure or
  a function of the language answers an error of the family Depth and changes nothing, without looking
  at the arguments.  With fewer, what the call runs is run with one more counted, never more than the
  limit, and is given the caller's count back: whatever it did, calls of its own, errors and signals
  included, the call answers what it answers and leaves what it leaves, the count apart, which is what
  it was before.
\<close>

theorem call_limit:
  assumes "host_ok h" and "stacks_ok s"
  shows "(MAX_ACTIVE_CALLS \<le> active_calls s \<longrightarrow>
     (\<exists>e. eval_lambda_call h (engine_at h n) f vs sp s = Some (Inl e, s) \<and>
          eval_traditional_function_call h (engine_at h n) (FnZymbol ps b z fr) args sp p x s = Some (Inl e, s) \<and>
          family e = U ''Depth'')) \<and>
   (active_calls s < MAX_ACTIVE_CALLS \<and> \<not> h_stack_spent h s \<longrightarrow>
     (\<forall>r t. eval_lambda_call h (engine_at h n) f vs sp s = Some (r, t) \<longrightarrow>
        (\<exists>u. eval_lambda_call_body (engine_at h n) f vs sp (s\<lparr>active_calls := active_calls s + 1\<rparr>) = Some (r, u) \<and>
             t = u\<lparr>active_calls := active_calls s\<rparr>)) \<and>
     (\<forall>r t. eval_traditional_function_call h (engine_at h n) (FnZymbol ps b z fr) args sp p x s = Some (r, t) \<longrightarrow>
        (\<exists>u. call_zymbol h (engine_at h n) (FnZymbol ps b z fr) args sp p x (s\<lparr>active_calls := active_calls s + 1\<rparr>) = Some (r, u) \<and>
             t = u\<lparr>active_calls := active_calls s\<rparr>)))"
proof (intro conjI impI allI)
  assume "MAX_ACTIVE_CALLS \<le> active_calls s"
  then have "counted h sp k s = Some (Inl (EGeneric exceeded_message sp), s)" for k :: "zvalue comp"
    by (simp add: counted_def enter_call_def bindc_def run_simps)
  then show "\<exists>e. eval_lambda_call h (engine_at h n) f vs sp s = Some (Inl e, s) \<and>
      eval_traditional_function_call h (engine_at h n) (FnZymbol ps b z fr) args sp p x s = Some (Inl e, s) \<and> family e = U ''Depth''"
    by (simp add: eval_lambda_call_def eval_traditional_function_call_def exceeded_family)
next
  fix r t
  assume below: "active_calls s < MAX_ACTIVE_CALLS \<and> \<not> h_stack_spent h s"
  note E = engine_at_ok [OF assms(1)]
  show "\<exists>u. eval_lambda_call_body (engine_at h n) f vs sp (s\<lparr>active_calls := active_calls s + 1\<rparr>) = Some (r, u) \<and> t = u\<lparr>active_calls := active_calls s\<rparr>"
    if "eval_lambda_call h (engine_at h n) f vs sp s = Some (r, t)"
    using that below counted_exact(2) [OF eval_lambda_call_body_keeps [OF E] assms(2)] by (simp add: eval_lambda_call_def)
  show "\<exists>u. call_zymbol h (engine_at h n) (FnZymbol ps b z fr) args sp p x (s\<lparr>active_calls := active_calls s + 1\<rparr>) = Some (r, u) \<and> t = u\<lparr>active_calls := active_calls s\<rparr>"
    if "eval_traditional_function_call h (engine_at h n) (FnZymbol ps b z fr) args sp p x s = Some (r, t)"
    using that below counted_exact(2) [OF call_zymbol_keeps [OF E] assms(2)] by (simp add: eval_traditional_function_call_def)
qed

text \<open>A closure that answers 7, called as the last call there is room for and as one too many.\<close>

definition seven_closure :: function_value where
  "seven_closure = FunctionValue [] (LamExpr (ELiteral (LiteralExpr (LInt 7) no_span))) [(U ''y'', VInt 2)] False (IdLambda 1) []"

theorem call_limit_witness:
  "\<exists>e t. eval_lambda_call quiet_host (engine_at quiet_host 2) seven_closure [] no_span (new_interp\<lparr>active_calls := MAX_ACTIVE_CALLS\<rparr>)
      = Some (Inl e, new_interp\<lparr>active_calls := MAX_ACTIVE_CALLS\<rparr>) \<and> family e = U ''Depth'' \<and>
    eval_lambda_call quiet_host (engine_at quiet_host 2) seven_closure [] no_span (new_interp\<lparr>active_calls := 9999\<rparr>) = Some (Inr (VInt 7), t) \<and>
    active_calls t = 9999"
proof -
  let ?s = "new_interp\<lparr>active_calls := MAX_ACTIVE_CALLS\<rparr>" and ?u = "new_interp\<lparr>active_calls := 9999\<rparr>"
  have ok: "stacks_ok ?s" "stacks_ok ?u" using new_interp_ok by (simp_all add: stacks_ok_def)
  obtain t where t: "eval_lambda_call quiet_host (engine_at quiet_host 2) seven_closure [] no_span ?u = Some (Inr (VInt 7), t)"
    by (simp add: eval_lambda_call_def counted_def enter_call_def eval_lambda_call_body_def seven_closure_def in_frame_def
      lambda_body_comp_def leave_lambda_def unwound_result_def lambda_result_def take_call_state_def reading_def bindc_def
      finally_do_def modify_def engine_over_def eval_expr_def eval_literal_def literal_to_value_def ret_def numeral_2_eq_2
      quiet_host_def MAX_ACTIVE_CALLS_def attempt_def stateful_def split_beta Let_def del: One_nat_def)
  have below: "active_calls ?u < MAX_ACTIVE_CALLS \<and> \<not> h_stack_spent quiet_host ?u"
    by (simp add: MAX_ACTIVE_CALLS_def quiet_host_def)
  note limit = call_limit [OF quiet_host_ok ok(2), of 2 seven_closure "[]" no_span]
  from mp [OF conjunct2 [OF limit] below] t obtain u where "t = u\<lparr>active_calls := active_calls ?u\<rparr>" by blast
  then have "active_calls t = 9999" by simp
  moreover have "MAX_ACTIVE_CALLS \<le> active_calls ?s" by simp
  from mp [OF conjunct1 [OF call_limit [OF quiet_host_ok ok(1), of 2 seven_closure "[]" no_span]] this]
  obtain e where "eval_lambda_call quiet_host (engine_at quiet_host 2) seven_closure [] no_span ?s = Some (Inl e, ?s)"
    "family e = U ''Depth''" by blast
  ultimately show ?thesis using t by blast
qed

section \<open>What a finally block is owed\<close>

text \<open>
  C2. A finally block always runs, once, and what it leaves is what the statement leaves.  Whenever a try
  statement with a finally block ends - its body done, its error caught, its error caught by no clause,
  a clause failing in turn, a break, a continue or a return on its way out - the finally block has run
  after the body and the clauses, in the state they left but with no signal pending, and the statement
  ends in the very state the block left, its assignments and output included.  Three things are put
  right in it: the enclosing handlers are counted as before; the signal pending before the block is pending
  again, and the error still owed by the body or by a clause is raised, at the line it was raised at; or,
  if the block failed, its own error goes on, from the scopes the statement began in.
\<close>

theorem finally_runs:
  assumes "execute_try E c s = Some (r, t)" and "try_finally c = Some f"
  shows "\<exists>pending v q w.
    bindc (attempt (in_try (execute_block E (try_block c))))
      (run_clauses E c (length (scope_stack s)) (length (loop_scope_depths s))) s = Some (Inr pending, v) \<and>
    execute_block E (fc_block f)
      (v\<lparr>control_flow := CfNone, has_control_flow := False, try_depth := try_depth v + 1\<rparr>) = Some (q, w) \<and>
    (case q of
       Inl e \<Rightarrow> r = Inl e \<and>
         t = unwind_scopes_to (length (scope_stack s)) (length (loop_scope_depths s)) (w\<lparr>try_depth := try_depth w - 1\<rparr>)
     | Inr _ \<Rightarrow>
         let w = w\<lparr>try_depth := try_depth w - 1, control_flow := control_flow v, has_control_flow := has_control_flow v\<rparr>
         in case pending of
              None \<Rightarrow> r = Inr () \<and> t = w
            | Some (e, raised_at) \<Rightarrow> r = Inl e \<and> t = w\<lparr>cur_stmt_line := raised_at\<rparr>)"
proof -
  let ?n = "length (scope_stack s)" and ?k = "length (loop_scope_depths s)"
  let ?m = "bindc (attempt (in_try (execute_block E (try_block c)))) (run_clauses E c ?n ?k)"
  let ?owed = "\<lambda>pending. case pending of
            None \<Rightarrow> ret ()
          | Some (e, raised_at) \<Rightarrow> bindc (modify (\<lambda>s. s\<lparr>cur_stmt_line := raised_at\<rparr>)) (\<lambda>_. raise e)"
  have ex: "execute_try E c s = bindc ?m (\<lambda>pending. bindc (run_finally E (Some f) ?n ?k) (\<lambda>_. ?owed pending)) s"
    using assms(2) by (simp add: execute_try_def reading_def Let_def bindc_def split: option.split sum.split)
  then obtain z v where m: "?m s = Some (z, v)"
    using assms(1) by (cases "?m s") (auto simp: bindc_def)
  have "\<exists>p. z = Inr p"
    using m run_clauses_never_raises by (auto simp: bindc_def attempt_def split: option.splits)
  then obtain pending where z: "z = Inr pending" by blast
  let ?v = "v\<lparr>control_flow := CfNone, has_control_flow := False, try_depth := try_depth v + 1\<rparr>"
  have rest: "bindc (run_finally E (Some f) ?n ?k) (\<lambda>_. ?owed pending) v = Some (r, t)"
    using assms(1) bindc_answer [of ?m, OF m [unfolded z]] unfolding ex by metis
  obtain q w where b: "execute_block E (fc_block f) ?v = Some (q, w)"
    using rest
    by (cases "execute_block E (fc_block f) ?v")
      (auto simp: bindc_def run_finally_def reading_def modify_def attempt_def in_try_def finally_do_def)
  have "case q of
       Inl e \<Rightarrow> r = Inl e \<and> t = unwind_scopes_to ?n ?k (w\<lparr>try_depth := try_depth w - 1\<rparr>)
     | Inr _ \<Rightarrow>
         let w = w\<lparr>try_depth := try_depth w - 1, control_flow := control_flow v, has_control_flow := has_control_flow v\<rparr>
         in case pending of
              None \<Rightarrow> r = Inr () \<and> t = w
            | Some (e, raised_at) \<Rightarrow> r = Inl e \<and> t = w\<lparr>cur_stmt_line := raised_at\<rparr>"
    using rest b
    by (auto simp: bindc_def run_finally_def reading_def modify_def attempt_def in_try_def finally_do_def Let_def
        raise_def ret_def split: sum.splits option.splits prod.splits)
  with m z b show ?thesis by blast
qed

text \<open>
  A body that names what does not exist, no clause, and a finally block that sets the variable of the
  calling code to 7: the error goes on, and the variable is 7.
\<close>

lemmas engine_steps = engine_over_def execute_statement_def execute_statement_inner_def execute_kind_def
  eval_expr_def eval_literal_def literal_to_value_def eval_identifier_def reading_def bindc_def attempt_def modify_def
  stateful_def finally_do_def lift_def raise_def ret_def settle_statement_def enter_line_def Let_def

definition seven_to :: "ustring \<Rightarrow> statement" where
  "seven_to x = SAssignment (Assignment x (ELiteral (LiteralExpr (LInt 7) no_span)) no_span False False SugarNone None)"

definition only_named :: "ustring \<Rightarrow> statement" where
  "only_named y = SExpr (ExprStatement (EIdentifier (IdentifierExpr y no_span False False)) no_span)"

definition cleaning_try :: "ustring \<Rightarrow> ustring \<Rightarrow> statement try_stmt" where
  "cleaning_try x y = TryStmt (Block [only_named y] no_span) []
     (Some (FinallyClause (Block [seven_to x] no_span) no_span)) no_span"

definition one_in_x :: "ustring \<Rightarrow> interp" where
  "one_in_x x = new_interp\<lparr>scope_stack := [[x \<mapsto> VInt 1]]\<rparr>"

lemma first_line: "line (sp_start no_span) = 1"
  by (simp add: no_span_def position_start_def)

lemma seven_to_runs:
  assumes "\<not> is_const (s\<lparr>cur_stmt_line := 1\<rparr>) x" "\<not> has_control_flow (set_variable x (VInt 7) (s\<lparr>cur_stmt_line := 1\<rparr>))"
  shows "exec (engine_at quiet_host 3) (seven_to x) s =
    Some (Inr (), set_variable x (VInt 7) (s\<lparr>cur_stmt_line := 1\<rparr>)\<lparr>cur_stmt_line := cur_stmt_line s\<rparr>)"
  using assms
  by (simp add: engine_steps seven_to_def numeral_3_eq_3 first_line execute_assignment_def assign_shape_def start_hot_def)

lemma only_named_fails:
  assumes "get_variable (s\<lparr>cur_stmt_line := 1\<rparr>) y = None" "fn_table s y = None"
    "check_variable_alive (s\<lparr>cur_stmt_line := 1\<rparr>) y no_span = Inr ()"
  shows "exec (engine_at quiet_host 3) (only_named y) s =
    Some (Inl (undefined_name y no_span), s\<lparr>cur_stmt_line := 1\<rparr>)"
proof -
  have "undefined_name y no_span \<noteq> EUnwind" by (simp add: undefined_name_def)
  with assms show ?thesis by (simp add: numeral_3_eq_3 only_named_def engine_steps first_line)
qed

lemmas cleaning_steps = cleaning_try_def bindc_def attempt_def in_try_def execute_block_def in_scope_def modify_def
  finally_do_def only_named_fails seven_to_runs one_in_x_def new_interp_def fresh_frame_def frame.defs get_variable_def
  lookup_def check_variable_alive_def is_dead_module_state_def is_const_def push_scope_def pop_scope_def run_clauses_def
  run_finally_def unwind_scopes_to_def reading_def raise_def ret_def Let_def set_variable_def mirror_file_var_def
  insert_at_def is_callable_def

lemma cleaning_try_parts:
  assumes "x \<noteq> y"
  shows "bindc (attempt (in_try (execute_block (engine_at quiet_host 3) (try_block (cleaning_try x y)))))
      (run_clauses (engine_at quiet_host 3) (cleaning_try x y) 1 0) (one_in_x x) =
     Some (Inr (Some (undefined_name y no_span, 1)), one_in_x x\<lparr>cur_stmt_line := 1\<rparr>)"
    and "execute_block (engine_at quiet_host 3) (Block [seven_to x] no_span) (one_in_x x\<lparr>cur_stmt_line := 1, try_depth := 1\<rparr>)
     = Some (Inr (), one_in_x x\<lparr>scope_stack := [[x \<mapsto> VInt 7]], cur_stmt_line := 1, try_depth := 1\<rparr>)"
    and "\<exists>z. execute_try (engine_at quiet_host 3) (cleaning_try x y) (one_in_x x) = Some z"
  using assms by (simp_all add: execute_try_def cleaning_steps)

theorem finally_runs_witness:
  "\<exists>t w. execute_try (engine_at quiet_host 3) (cleaning_try (U ''x'') (U ''y'')) (one_in_x (U ''x''))
       = Some (Inl (undefined_name (U ''y'') no_span), t) \<and>
     execute_block (engine_at quiet_host 3) (Block [seven_to (U ''x'')] no_span)
       (one_in_x (U ''x'')\<lparr>cur_stmt_line := 1, try_depth := 1\<rparr>) = Some (Inr (), w) \<and>
     t = w\<lparr>try_depth := 0, cur_stmt_line := 1\<rparr> \<and> get_variable t (U ''x'') = Some (VInt 7)"
proof -
  obtain x y where xy: "x = U ''x''" "y = U ''y''" by blast
  then have "x \<noteq> y" by simp
  note parts = cleaning_try_parts [OF this]
  obtain r t where ran: "execute_try (engine_at quiet_host 3) (cleaning_try x y) (one_in_x x) = Some (r, t)"
    using parts(3) by force
  let ?w = "one_in_x x\<lparr>scope_stack := [[x \<mapsto> VInt 7]], cur_stmt_line := 1, try_depth := 1\<rparr>"
  have f: "try_finally (cleaning_try x y) = Some (FinallyClause (Block [seven_to x] no_span) no_span)"
    by (simp add: cleaning_try_def)
  have start: "length (scope_stack (one_in_x x)) = 1" "length (loop_scope_depths (one_in_x x)) = 0"
    "one_in_x x\<lparr>cur_stmt_line := 1, control_flow := CfNone, has_control_flow := False, try_depth := try_depth (one_in_x x) + 1\<rparr>
      = one_in_x x\<lparr>cur_stmt_line := 1, try_depth := 1\<rparr>"
    "control_flow (one_in_x x) = CfNone" "has_control_flow (one_in_x x) = False"
    by (simp_all add: one_in_x_def new_interp_def fresh_frame_def frame.defs)
  have "r = Inl (undefined_name y no_span) \<and> t = ?w\<lparr>try_depth := 0, cur_stmt_line := 1\<rparr>"
    using finally_runs [OF ran f] parts(1,2) start by (auto simp: Let_def)
  moreover from this have "get_variable t x = Some (VInt 7)" by (simp add: get_variable_def lookup_def)
  ultimately show ?thesis using ran parts(2) unfolding xy by blast
qed

section \<open>The shortcut on integers\<close>

text \<open>How deep in parentheses an expression stands.\<close>

fun group_depth :: "expr \<Rightarrow> nat" where
  "group_depth (EGroup (GroupExpr e sp)) = Suc (group_depth e)"
| "group_depth e = 0"

lemma eval_through_groups:
  "group_depth e < n \<Longrightarrow> eval (engine_at h n) e = eval (engine_at h (n - group_depth e)) (unwrap_group e)"
proof (induction e arbitrary: n rule: group_depth.induct)
  case (1 e sp)
  then obtain k where "n = Suc k" "group_depth e < k" by (cases n) auto
  with 1 show ?case by (simp add: engine_over_def eval_expr_def)
qed simp_all

lemma eval_one_level: "0 < n \<Longrightarrow> eval (engine_at h n) e = eval_expr h (engine_at h (n - 1)) e"
  by (cases n) (simp_all add: engine_over_def)

lemma eval_leaf:
  "group_depth e < n \<Longrightarrow>
   eval (engine_at h n) e = eval_expr h (engine_at h (n - group_depth e - 1)) (unwrap_group e)"
  using eval_through_groups [of e n h] eval_one_level [of "n - group_depth e" h "unwrap_group e"] by simp

lemma eval_int_name:
  assumes "as_identifier e = Some i" "int_variable s (id_name i) = Some n"
    and "check_variable_alive s (id_name i) (id_span i) = Inr ()" "group_depth e < k"
  shows "eval (engine_at h k) e s = Some (Inr (VInt n), s)"
proof -
  have "unwrap_group e = EIdentifier i"
    using assms(1) by (auto simp: as_identifier_def split: expr.splits)
  moreover have "get_variable s (id_name i) = Some (VInt n)"
    using assms(2) by (auto simp: int_variable_def split: option.splits zvalue.splits)
  ultimately show ?thesis
    using assms(3,4) by (simp add: eval_leaf eval_expr_def eval_identifier_def reading_def bindc_def lift_def ret_def)
qed

lemma eval_int_right:
  assumes "int_right s e = Some n" "group_depth e < k"
    and "\<forall>i. as_identifier e = Some i \<longrightarrow> check_variable_alive s (id_name i) (id_span i) = Inr ()"
  shows "eval (engine_at h k) e s = Some (Inr (VInt n), s)"
proof (cases "as_identifier e")
  case (Some i)
  then have "unwrap_group e = EIdentifier i"
    by (auto simp: as_identifier_def split: expr.splits)
  then show ?thesis using eval_int_name [OF Some] assms Some by (simp add: int_right_def)
next
  case None
  then obtain l where l: "unwrap_group e = ELiteral l" "lit_value l = LInt n"
    using assms(1) by (auto simp: int_right_def as_identifier_def split: expr.splits literal.splits)
  with assms(2) show ?thesis
    by (simp add: eval_leaf eval_expr_def eval_literal_def literal_to_value_def ret_def)
qed

lemma shortcut_is_operator:
  "int_shortcut op l r sp = Some x \<Longrightarrow> apply_binary powf mode op sp (VInt l) (VInt r) = x"
  by (cases op)
    (auto simp: int_shortcut_def apply_binary_def eval_add_def eval_arithmetic_def eval_mod_def eval_div_def
      compare_values_def is_zero_number_def is_number_def int_result_def split: if_splits)

text \<open>
  C15. The shortcut on integers is the evaluation it stands for.  When an operator on a name and a
  name or a literal is answered by the shortcut, evaluating both operands and applying the operator
  gives the same answer, or the same error, and leaves the state alone - provided the names have not
  been destroyed, which the shortcut does not ask.
\<close>

theorem int_shortcut_is_evaluation:
  assumes "eval_int_shortcut s b = Some x"
    and "group_depth (bin_left b) < n" and "group_depth (bin_right b) < n"
    and "\<forall>e \<in> {bin_left b, bin_right b}. \<forall>i. as_identifier e = Some i \<longrightarrow>
      check_variable_alive s (id_name i) (id_span i) = Inr ()"
  shows "bindc (eval (engine_at h n) (bin_left b)) (\<lambda>l.
    bindc (eval (engine_at h n) (bin_right b)) (\<lambda>r. apply_in h b l r)) s = Some (x, s)"
proof -
  obtain i l r where i: "as_identifier (bin_left b) = Some i" "int_variable s (id_name i) = Some l"
      "int_right s (bin_right b) = Some r" and x: "int_shortcut (bin_op b) l r (bin_span b) = Some x"
    using assms(1) by (auto simp: eval_int_shortcut_def split: option.splits)
  have "eval (engine_at h n) (bin_left b) s = Some (Inr (VInt l), s)"
    using eval_int_name [OF i(1,2)] assms(2,4) i(1) by simp
  moreover have "eval (engine_at h n) (bin_right b) s = Some (Inr (VInt r), s)"
    using eval_int_right [OF i(3) assms(3)] assms(4) by simp
  moreover have "apply_in h b (VInt l) (VInt r) s = Some (x, s)"
    using shortcut_is_operator [OF x] by (simp add: apply_in_def reading_def lift_def)
  ultimately show ?thesis by (simp add: bindc_answer)
qed

text \<open>The sum of a name and a literal in parentheses.\<close>

definition sum_in_parentheses :: "expr binary_expr" where
  "sum_in_parentheses = BinaryExpr OpAdd (EIdentifier (IdentifierExpr (U ''n'') no_span False False))
     (EGroup (GroupExpr (ELiteral (LiteralExpr (LInt 2) no_span)) no_span)) no_span"

theorem int_shortcut_is_evaluation_witness:
  "bindc (eval (engine_at quiet_host 2) (bin_left sum_in_parentheses)) (\<lambda>l.
    bindc (eval (engine_at quiet_host 2) (bin_right sum_in_parentheses)) (\<lambda>r. apply_in quiet_host sum_in_parentheses l r))
    (set_variable (U ''n'') (VInt 40) new_interp) = Some (Inr (VInt 42), set_variable (U ''n'') (VInt 40) new_interp)"
proof -
  let ?s = "set_variable (U ''n'') (VInt 40) new_interp"
  have v: "get_variable ?s (U ''n'') = Some (VInt 40)" by (rule set_variable_get [OF new_interp_ok])
  have i: "int_variable ?s (U ''n'') = Some 40" by (simp only: int_variable_def v option.case zvalue.case)
  have x: "eval_int_shortcut ?s sum_in_parentheses = Some (Inr (VInt 42))"
    by (simp add: eval_int_shortcut_def sum_in_parentheses_def as_identifier_def int_right_def i [simplified]
        int_shortcut_def int_result_def num_add_def num_checked_def in_int_range_def checked_i64_def in_i64_def i64_min_def i64_max_def
        ZY_INT_MIN_def ZY_INT_MAX_def)
  have "check_variable_alive ?s (U ''n'') no_span = Inr ()" by code_simp
  then show ?thesis
    using int_shortcut_is_evaluation [OF x, of 2 quiet_host] by (simp add: sum_in_parentheses_def as_identifier_def)
qed

end
