(* ===== verification/ZyDiag.thy ===== *)
theory ZyDiag imports ZySyntax begin

text \<open>
  Diagnostics (crates/zymbol-error/src/lib.rs): what the lexer and the checks report.  Only their
  content is modelled; how they are printed is not.
\<close>

datatype severity = SevError | SevWarning | SevNote

record diagnostic =
  dg_severity :: severity
  dg_message :: ustring
  dg_span :: "span option"
  dg_notes :: "ustring list"
  dg_help :: "ustring option"

definition diag_error :: "ustring \<Rightarrow> diagnostic" where
  "diag_error m = \<lparr>dg_severity = SevError, dg_message = m, dg_span = None, dg_notes = [], dg_help = None\<rparr>"

definition diag_warning :: "ustring \<Rightarrow> diagnostic" where
  "diag_warning m = \<lparr>dg_severity = SevWarning, dg_message = m, dg_span = None, dg_notes = [], dg_help = None\<rparr>"

definition with_span :: "span \<Rightarrow> diagnostic \<Rightarrow> diagnostic" where
  "with_span sp d = d\<lparr>dg_span := Some sp\<rparr>"

definition with_note :: "ustring \<Rightarrow> diagnostic \<Rightarrow> diagnostic" where
  "with_note n d = d\<lparr>dg_notes := dg_notes d @ [n]\<rparr>"

definition with_help :: "ustring \<Rightarrow> diagnostic \<Rightarrow> diagnostic" where
  "with_help h d = d\<lparr>dg_help := Some h\<rparr>"

end
