(* ===== verification/ZyTokens.thy ===== *)
theory ZyTokens imports ZyDiag ZyStmtNodes ZyDigits begin

text \<open>
  The tokens of the lexer (crates/zymbol-lexer/src/lib.rs, TokenKind and Token).  The source has one
  enum; here the tokens that carry nothing are grouped by the sections of that enum, each group an
  enumeration of its own, under the source's names with the prefix Tk.
\<close>

section \<open>Kinds\<close>

datatype io_token =
    TkOutput | TkOutputClear | TkOutputQuery | TkOutputGate | TkOutputPos | TkInput | TkKeyBlock | TkKeyNonBlock
  | TkNewline | TkBackslash2 | TkBackslash | TkCliArgsCapture | TkBashOpen | TkBashClose

datatype assign_token =
    TkAssign | TkFatArrow | TkConstAssign | TkPlusAssign | TkMinusAssign | TkStarAssign | TkSlashAssign
  | TkPercentAssign | TkCaretAssign | TkPlusPlus | TkMinusMinus

datatype operator_token =
    TkPlus | TkMinus | TkStar | TkSlash | TkPercent | TkCaret | TkGt | TkLt | TkGe | TkLe | TkEq | TkNeq
  | TkAnd | TkOr | TkNot | TkReturn | TkTilde | TkArrow | TkModuleImport | TkScopeResolution | TkPipe | TkPipeOp

datatype dollar_token =
    TkDollarHash | TkDollarPlus | TkDollarMinus | TkDollarQuestion | TkDollarTilde | TkDollarLBracket | TkDollarGt
  | TkDollarPipe | TkDollarLt | TkDollarPlusLBracket | TkDollarMinusLBracket | TkDollarCaretPlus
  | TkDollarCaretMinus | TkDollarCaret | TkDollarQuestionQuestion | TkDollarPlusPlus | TkDollarMinusMinus
  | TkDollarTildeTilde | TkDollarSlash | TkDollarStar | TkDollarExclaim | TkDollarExclaimExclaim

datatype flow_token =
    TkQuestion | TkDoubleQuestion | TkUnderscore | TkElseIf | TkTryBlock | TkCatchBlock | TkFinallyBlock
  | TkAt | TkAtBreak | TkAtContinue | TkAtTilde

datatype mark_token =
    TkComma | TkColon | TkSemicolon | TkDot | TkDotDot | TkLBrace | TkRBrace | TkLBracket | TkRBracket
  | TkLParen | TkRParen | TkBaseBinary | TkBaseOctal | TkBaseDecimal | TkBaseHex

datatype hash_token =
    TkHashComma | TkHashCaret | TkHashPipe | TkHashQuestion | TkHashLParen | TkHashDot | TkHashExclaim
  | TkHashHashUnderscore | TkHashHashDot | TkHashHashHash | TkHashHashBang | TkHashHashQuote | TkHashHashApos
  | TkHash | TkExportBlock

datatype token_kind =
    TIo io_token | TAssign assign_token | TOperator operator_token | TDollar dollar_token | TFlow flow_token
  | TMark mark_token | THash hash_token
  | TkString ustring
  | TkStringInterpolated "string_part list"
  | TkInteger int
  | TkFloat f64
  | TkChar uchar
  | TkBoolean bool
  | TkSetNumeralMode nat
  | TkIdent ustring
  | TkHotIdent ustring
  | TkPreHotIdent ustring
  | TkAtLabel ustring
  | TkAtColonLabel ustring
  | TkAtColonLabelBreak ustring
  | TkAtColonLabelContinue ustring
  | TkExecuteCommand ustring
  | TkLineComment ustring
  | TkBlockComment ustring
  | TkEof
  | TkError ustring

record token =
  tk_kind :: token_kind
  tk_span :: span

section \<open>How a token is written\<close>

fun io_spelling :: "io_token \<Rightarrow> ustring" where
  "io_spelling TkOutput = U ''>>''" | "io_spelling TkOutputClear = U ''>>!''" | "io_spelling TkOutputQuery = U ''>>?''"
| "io_spelling TkOutputGate = U ''>>|''" | "io_spelling TkOutputPos = U ''>>~''" | "io_spelling TkInput = U ''<<''"
| "io_spelling TkKeyBlock = U ''<<|''" | "io_spelling TkKeyNonBlock = U ''<<|?''" | "io_spelling TkNewline = [0xB6]"
| "io_spelling TkBackslash2 = [92, 92]" | "io_spelling TkBackslash = [92]" | "io_spelling TkCliArgsCapture = U ''><''"
| "io_spelling TkBashOpen = [60, 92]" | "io_spelling TkBashClose = [92, 62]"

fun assign_spelling :: "assign_token \<Rightarrow> ustring" where
  "assign_spelling TkAssign = U ''=''" | "assign_spelling TkFatArrow = U ''=>''" | "assign_spelling TkConstAssign = U '':=''"
| "assign_spelling TkPlusAssign = U ''+=''" | "assign_spelling TkMinusAssign = U ''-=''"
| "assign_spelling TkStarAssign = U ''*=''" | "assign_spelling TkSlashAssign = U ''/=''"
| "assign_spelling TkPercentAssign = U ''%=''" | "assign_spelling TkCaretAssign = U ''^=''"
| "assign_spelling TkPlusPlus = U ''++''" | "assign_spelling TkMinusMinus = U ''--''"

fun operator_spelling :: "operator_token \<Rightarrow> ustring" where
  "operator_spelling TkPlus = U ''+''" | "operator_spelling TkMinus = U ''-''" | "operator_spelling TkStar = U ''*''"
| "operator_spelling TkSlash = U ''/''" | "operator_spelling TkPercent = U ''%''" | "operator_spelling TkCaret = U ''^''"
| "operator_spelling TkGt = U ''>''" | "operator_spelling TkLt = U ''<''" | "operator_spelling TkGe = U ''>=''"
| "operator_spelling TkLe = U ''<=''" | "operator_spelling TkEq = U ''==''" | "operator_spelling TkNeq = U ''<>''"
| "operator_spelling TkAnd = U ''&&''" | "operator_spelling TkOr = U ''||''" | "operator_spelling TkNot = U ''!''"
| "operator_spelling TkReturn = U ''<~''" | "operator_spelling TkTilde = U ''~''" | "operator_spelling TkArrow = U ''->''"
| "operator_spelling TkModuleImport = U ''<#''" | "operator_spelling TkScopeResolution = U ''::''"
| "operator_spelling TkPipe = U ''|''" | "operator_spelling TkPipeOp = U ''|>''"

fun dollar_spelling :: "dollar_token \<Rightarrow> ustring" where
  "dollar_spelling TkDollarHash = U ''$#''" | "dollar_spelling TkDollarPlus = U ''$+''" | "dollar_spelling TkDollarMinus = U ''$-''"
| "dollar_spelling TkDollarQuestion = U ''$?''" | "dollar_spelling TkDollarTilde = U ''$~''"
| "dollar_spelling TkDollarLBracket = U ''$[''" | "dollar_spelling TkDollarGt = U ''$>''" | "dollar_spelling TkDollarPipe = U ''$|''"
| "dollar_spelling TkDollarLt = U ''$<''" | "dollar_spelling TkDollarPlusLBracket = U ''$+[''"
| "dollar_spelling TkDollarMinusLBracket = U ''$-[''" | "dollar_spelling TkDollarCaretPlus = U ''$^+''"
| "dollar_spelling TkDollarCaretMinus = U ''$^-''" | "dollar_spelling TkDollarCaret = U ''$^''"
| "dollar_spelling TkDollarQuestionQuestion = U ''$??''" | "dollar_spelling TkDollarPlusPlus = U ''$++''"
| "dollar_spelling TkDollarMinusMinus = U ''$--''" | "dollar_spelling TkDollarTildeTilde = U ''$~~''"
| "dollar_spelling TkDollarSlash = U ''$/''" | "dollar_spelling TkDollarStar = U ''$*''"
| "dollar_spelling TkDollarExclaim = U ''$!''" | "dollar_spelling TkDollarExclaimExclaim = U ''$!!''"

fun flow_spelling :: "flow_token \<Rightarrow> ustring" where
  "flow_spelling TkQuestion = U ''?''" | "flow_spelling TkDoubleQuestion = U ''??''" | "flow_spelling TkUnderscore = U ''_''"
| "flow_spelling TkElseIf = U ''_?''" | "flow_spelling TkTryBlock = U ''!?''" | "flow_spelling TkCatchBlock = U '':!''"
| "flow_spelling TkFinallyBlock = U '':>''" | "flow_spelling TkAt = U ''@''" | "flow_spelling TkAtBreak = U ''@!''"
| "flow_spelling TkAtContinue = U ''@>''" | "flow_spelling TkAtTilde = U ''@~''"

fun mark_spelling :: "mark_token \<Rightarrow> ustring" where
  "mark_spelling TkComma = U '',''" | "mark_spelling TkColon = U '':''" | "mark_spelling TkSemicolon = U '';''"
| "mark_spelling TkDot = U ''.''" | "mark_spelling TkDotDot = U ''..''" | "mark_spelling TkLBrace = U ''{''"
| "mark_spelling TkRBrace = U ''}''" | "mark_spelling TkLBracket = U ''[''" | "mark_spelling TkRBracket = U '']''"
| "mark_spelling TkLParen = U ''(''" | "mark_spelling TkRParen = U '')''" | "mark_spelling TkBaseBinary = U ''0b''"
| "mark_spelling TkBaseOctal = U ''0o''" | "mark_spelling TkBaseDecimal = U ''0d''" | "mark_spelling TkBaseHex = U ''0x''"

fun hash_spelling :: "hash_token \<Rightarrow> ustring" where
  "hash_spelling TkHashComma = U ''#,''" | "hash_spelling TkHashCaret = U ''#^''" | "hash_spelling TkHashPipe = U ''#|''"
| "hash_spelling TkHashQuestion = U ''#?''" | "hash_spelling TkHashLParen = U ''#(''" | "hash_spelling TkHashDot = U ''#.''"
| "hash_spelling TkHashExclaim = U ''#!''" | "hash_spelling TkHashHashUnderscore = U ''##_''"
| "hash_spelling TkHashHashDot = U ''##.''" | "hash_spelling TkHashHashHash = U ''###''" | "hash_spelling TkHashHashBang = U ''##!''"
| "hash_spelling TkHashHashQuote = [35, 35, 34]" | "hash_spelling TkHashHashApos = [35, 35, 39]"
| "hash_spelling TkHash = U ''#''" | "hash_spelling TkExportBlock = U ''#>''"

fun part_spelling :: "string_part \<Rightarrow> ustring" where
  "part_spelling (PartText t) = t"
| "part_spelling (PartVariable v) = 123 # v @ [125]"

fun spelling :: "token_kind \<Rightarrow> ustring" where
  "spelling (TIo k) = io_spelling k" | "spelling (TAssign k) = assign_spelling k"
| "spelling (TOperator k) = operator_spelling k" | "spelling (TDollar k) = dollar_spelling k"
| "spelling (TFlow k) = flow_spelling k" | "spelling (TMark k) = mark_spelling k" | "spelling (THash k) = hash_spelling k"
| "spelling (TkString s) = 34 # s @ [34]"
| "spelling (TkStringInterpolated ps) = 34 # concat (map part_spelling ps) @ [34]"
| "spelling (TkInteger n) = show_int n"
| "spelling (TkFloat f) = f_show f"
| "spelling (TkChar c) = [39, c, 39]"
| "spelling (TkBoolean b) = (if b then U ''#1'' else U ''#0'')"
| "spelling (TkSetNumeralMode cp) =
     [35, case char_from_u32 cp of Some c \<Rightarrow> c | None \<Rightarrow> 48, case char_from_u32 (cp + 9) of Some c \<Rightarrow> c | None \<Rightarrow> 57, 35]"
| "spelling (TkIdent x) = x"
| "spelling (TkHotIdent x) = x @ [0xB0]"
| "spelling (TkPreHotIdent x) = 0xB0 # x"
| "spelling (TkAtLabel l) = 64 # l"
| "spelling (TkAtColonLabel l) = U ''@:'' @ l"
| "spelling (TkAtColonLabelBreak l) = U ''@:'' @ l @ U ''!''"
| "spelling (TkAtColonLabelContinue l) = U ''@:'' @ l @ U ''>''"
| "spelling (TkExecuteCommand path) = U ''</ '' @ path @ U '' />''"
| "spelling (TkLineComment _) = U ''//''"
| "spelling (TkBlockComment _) = U ''//''"
| "spelling TkEof = []"
| "spelling (TkError m) = m"

definition quoted_token :: "token_kind \<Rightarrow> ustring" where
  "quoted_token k =
     (case k of
        TkEof \<Rightarrow> U ''end of file''
      | TkError m \<Rightarrow> m
      | TkLineComment _ \<Rightarrow> U ''a comment''
      | TkBlockComment _ \<Rightarrow> U ''a comment''
      | TkChar _ \<Rightarrow> spelling k
      | TkString _ \<Rightarrow> spelling k
      | TkStringInterpolated _ \<Rightarrow> spelling k
      | _ \<Rightarrow> 39 # spelling k @ [39])"

end
