(* ===== verification/ZyLexer.thy ===== *)
theory ZyLexer imports ZyTokens ZyChars ZyRadix begin

text \<open>
  The lexer (crates/zymbol-lexer: lib.rs and its modules io, variables, if_stmt, match_stmt, loops,
  functions, collections, collection_ops, literals).  The source keeps all characters and an index
  into them; here the cursor is the characters that are left, with the line, the column and the byte
  offset the source derives from the index.  The Unicode properties Alphabetic and Numeric of the
  standard library are the parameter letters; a character is alphanumeric when it has one of them,
  as the standard library defines it.
\<close>

section \<open>The cursor\<close>

record lexer =
  lx_rest :: ustring
  lx_position :: position
  lx_file :: nat
  lx_diagnostics :: "diagnostic list"
  lx_bash_depth :: nat

record letters =
  alphabetic :: "uchar \<Rightarrow> bool"
  numeric_char :: "uchar \<Rightarrow> bool"

definition alphanumeric :: "letters \<Rightarrow> uchar \<Rightarrow> bool" where
  "alphanumeric a c = (alphabetic a c \<or> numeric_char a c)"

definition len_utf8 :: "uchar \<Rightarrow> nat" where
  "len_utf8 c = (if c < 0x80 then 1 else if c < 0x800 then 2 else if c < 0x10000 then 3 else 4)"

text \<open>The position behind a character.\<close>

definition step_over :: "uchar \<Rightarrow> position \<Rightarrow> position" where
  "step_over c p =
     \<lparr>line = if c = 10 then line p + 1 else line p, column = if c = 10 then 1 else column p + 1,
      byte_offset = byte_offset p + len_utf8 c\<rparr>"

definition new_lexer :: "ustring \<Rightarrow> nat \<Rightarrow> lexer" where
  "new_lexer source file =
     \<lparr>lx_rest = (case source of c # cs \<Rightarrow> if c = 0xFEFF then cs else source | [] \<Rightarrow> []),
      lx_position = \<lparr>line = 1, column = 1,
        byte_offset = (case source of c # cs \<Rightarrow> if c = 0xFEFF then len_utf8 c else 0 | [] \<Rightarrow> 0)\<rparr>,
      lx_file = file, lx_diagnostics = [], lx_bash_depth = 0\<rparr>"

definition is_at_end :: "lexer \<Rightarrow> bool" where
  "is_at_end s = (lx_rest s = [])"

definition peek_ahead :: "nat \<Rightarrow> lexer \<Rightarrow> uchar option" where
  "peek_ahead n s = (if n < length (lx_rest s) then Some (lx_rest s ! n) else None)"

definition advance :: "lexer \<Rightarrow> lexer" where
  "advance s =
     (case lx_rest s of
        [] \<Rightarrow> s
      | c # cs \<Rightarrow> s\<lparr>lx_rest := cs, lx_position := step_over c (lx_position s)\<rparr>)"

primrec advances :: "nat \<Rightarrow> lexer \<Rightarrow> lexer" where
  "advances 0 s = s"
| "advances (Suc n) s = advances n (advance s)"

definition span_from :: "position \<Rightarrow> lexer \<Rightarrow> span" where
  "span_from start s = \<lparr>sp_start = start, sp_end = lx_position s, file_id = lx_file s\<rparr>"

text \<open>Whether the characters at the cursor are these.\<close>

definition looking :: "string \<Rightarrow> lexer \<Rightarrow> bool" where
  "looking p s = starts_with (U p) (lx_rest s)"

definition report :: "diagnostic \<Rightarrow> lexer \<Rightarrow> lexer" where
  "report d s = s\<lparr>lx_diagnostics := lx_diagnostics s @ [d]\<rparr>"

type_synonym lexed = "token \<times> lexer"

definition token_at :: "token_kind \<Rightarrow> position \<Rightarrow> lexer \<Rightarrow> lexed" where
  "token_at k start s = (\<lparr>tk_kind = k, tk_span = span_from start s\<rparr>, s)"

text \<open>A token of so many characters.\<close>

definition emit :: "token_kind \<Rightarrow> nat \<Rightarrow> position \<Rightarrow> lexer \<Rightarrow> lexed" where
  "emit k n start s = token_at k start (advances n s)"

text \<open>A literal refused: what is said about it, and the error token.\<close>

definition refuse :: "ustring \<Rightarrow> ustring \<Rightarrow> ustring option \<Rightarrow> position \<Rightarrow> lexer \<Rightarrow> lexed" where
  "refuse message kind help start s =
     (let sp = span_from start s;
          d = with_span sp (diag_error message)
      in (\<lparr>tk_kind = TkError kind, tk_span = sp\<rparr>, report (case help of Some h \<Rightarrow> with_help h d | None \<Rightarrow> d) s))"

text \<open>The characters from the cursor on that satisfy a test, taken.\<close>

definition take_run :: "(uchar \<Rightarrow> bool) \<Rightarrow> lexer \<Rightarrow> ustring \<times> lexer" where
  "take_run P s = (let u = takeWhile P (lx_rest s) in (u, advances (length u) s))"

section \<open>Tokens of fixed spelling\<close>

definition try_parse_io_token :: "position \<Rightarrow> lexer \<Rightarrow> lexed option" where
  "try_parse_io_token start s =
     (if looking ''>>'' s then
        (if peek_ahead 2 s = Some 33 then Some (emit (TIo TkOutputClear) 3 start s)
         else if peek_ahead 2 s = Some 63 then Some (emit (TIo TkOutputQuery) 3 start s)
         else if peek_ahead 2 s = Some 124 then Some (emit (TIo TkOutputGate) 3 start s)
         else if peek_ahead 2 s = Some 126 then Some (emit (TIo TkOutputPos) 3 start s)
         else Some (emit (TIo TkOutput) 2 start s))
      else if looking ''><'' s then Some (emit (TIo TkCliArgsCapture) 2 start s)
      else if looking ''<<'' s then
        (if peek_ahead 2 s = Some 124 then
           (if peek_ahead 3 s = Some 63 then Some (emit (TIo TkKeyNonBlock) 4 start s)
            else Some (emit (TIo TkKeyBlock) 3 start s))
         else Some (emit (TIo TkInput) 2 start s))
      else if starts_with [92, 62] (lx_rest s) \<and> 0 < lx_bash_depth s then
        Some (token_at (TIo TkBashClose) start ((advances 2 s)\<lparr>lx_bash_depth := lx_bash_depth s - 1\<rparr>))
      else if starts_with [92, 92] (lx_rest s) then Some (emit (TIo TkBackslash2) 2 start s)
      else if starts_with [92] (lx_rest s) then Some (emit (TIo TkBackslash) 1 start s)
      else if starts_with [0xB6] (lx_rest s) then Some (emit (TIo TkNewline) 1 start s)
      else None)"

definition try_parse_variable_token :: "position \<Rightarrow> lexer \<Rightarrow> lexed option" where
  "try_parse_variable_token start s =
     (if looking ''=='' s then Some (emit (TOperator TkEq) 2 start s)
      else if looking ''=>'' s then Some (emit (TAssign TkFatArrow) 2 start s)
      else if looking ''='' s then Some (emit (TAssign TkAssign) 1 start s)
      else if looking '':'' s then
        (if looking '':='' s then Some (emit (TAssign TkConstAssign) 2 start s)
         else if looking '':!'' s then Some (emit (TFlow TkCatchBlock) 2 start s)
         else if looking '':>'' s then Some (emit (TFlow TkFinallyBlock) 2 start s)
         else None)
      else if looking ''+'' s then
        (if looking ''++'' s then Some (emit (TAssign TkPlusPlus) 2 start s)
         else if looking ''+='' s then Some (emit (TAssign TkPlusAssign) 2 start s)
         else None)
      else if looking ''-'' s then
        (if looking ''->'' s then None
         else if looking ''--'' s then Some (emit (TAssign TkMinusMinus) 2 start s)
         else if looking ''-='' s then Some (emit (TAssign TkMinusAssign) 2 start s)
         else None)
      else if looking ''*'' s then
        (if looking ''*='' s then Some (emit (TAssign TkStarAssign) 2 start s) else None)
      else if looking ''/'' s then
        (if looking ''/='' s then Some (emit (TAssign TkSlashAssign) 2 start s) else None)
      else if looking ''%'' s then
        (if looking ''%='' s then Some (emit (TAssign TkPercentAssign) 2 start s) else None)
      else None)"

definition try_parse_if_token :: "letters \<Rightarrow> position \<Rightarrow> lexer \<Rightarrow> lexed option" where
  "try_parse_if_token a start s =
     (if looking ''?'' s then
        (if looking ''??'' s then None else Some (emit (TFlow TkQuestion) 1 start s))
      else if looking ''_?'' s then Some (emit (TFlow TkElseIf) 2 start s)
      else if looking ''_'' s then
        (case peek_ahead 1 s of
           Some c \<Rightarrow> if is_ident_continue (alphanumeric a) c then None else Some (emit (TFlow TkUnderscore) 1 start s)
         | None \<Rightarrow> Some (emit (TFlow TkUnderscore) 1 start s))
      else None)"

definition try_parse_match_token :: "position \<Rightarrow> lexer \<Rightarrow> lexed option" where
  "try_parse_match_token start s =
     (if looking ''??'' s then Some (emit (TFlow TkDoubleQuestion) 2 start s) else None)"

definition try_parse_loop_token :: "letters \<Rightarrow> position \<Rightarrow> lexer \<Rightarrow> lexed option" where
  "try_parse_loop_token a start s =
     (if looking ''@!'' s then Some (emit (TFlow TkAtBreak) 2 start s)
      else if looking ''@>'' s then Some (emit (TFlow TkAtContinue) 2 start s)
      else if looking ''@:'' s then
        (let s2 = advances 2 s
         in case peek_ahead 0 s2 of
              None \<Rightarrow> Some (token_at (TFlow TkAt) start s2)
            | Some c \<Rightarrow>
                if \<not> is_ident_start (alphabetic a) c then Some (token_at (TFlow TkAt) start s2)
                else (case take_run (is_ident_continue (alphanumeric a)) s2 of (label, s3) \<Rightarrow>
                  if looking ''!'' s3 then Some (emit (TkAtColonLabelBreak label) 1 start s3)
                  else if looking ''>'' s3 then Some (emit (TkAtColonLabelContinue label) 1 start s3)
                  else Some (token_at (TkAtColonLabel label) start s3)))
      else if looking ''@~'' s then Some (emit (TFlow TkAtTilde) 2 start s)
      else if looking ''@'' s then Some (emit (TFlow TkAt) 1 start s)
      else None)"

definition try_parse_function_token :: "position \<Rightarrow> lexer \<Rightarrow> lexed option" where
  "try_parse_function_token start s =
     (if looking ''->'' s then Some (emit (TOperator TkArrow) 2 start s)
      else if looking ''<~'' s then Some (emit (TOperator TkReturn) 2 start s)
      else None)"

definition try_parse_collection_token :: "position \<Rightarrow> lexer \<Rightarrow> lexed option" where
  "try_parse_collection_token start s =
     (if looking ''['' s then Some (emit (TMark TkLBracket) 1 start s)
      else if looking '']'' s then Some (emit (TMark TkRBracket) 1 start s)
      else if looking ''('' s then Some (emit (TMark TkLParen) 1 start s)
      else if looking '')'' s then Some (emit (TMark TkRParen) 1 start s)
      else if looking '','' s then Some (emit (TMark TkComma) 1 start s)
      else None)"

definition try_parse_collection_op :: "position \<Rightarrow> lexer \<Rightarrow> lexed option" where
  "try_parse_collection_op start s =
     (if looking ''$#'' s then Some (emit (TDollar TkDollarHash) 2 start s)
      else if looking ''$+'' s then
        (if looking ''$++'' s then Some (emit (TDollar TkDollarPlusPlus) 3 start s)
         else if looking ''$+['' s then Some (emit (TDollar TkDollarPlusLBracket) 3 start s)
         else Some (emit (TDollar TkDollarPlus) 2 start s))
      else if looking ''$-'' s then
        (if looking ''$--'' s then Some (emit (TDollar TkDollarMinusMinus) 3 start s)
         else if looking ''$-['' s then Some (emit (TDollar TkDollarMinusLBracket) 3 start s)
         else Some (emit (TDollar TkDollarMinus) 2 start s))
      else if looking ''$?'' s then
        (if looking ''$??'' s then Some (emit (TDollar TkDollarQuestionQuestion) 3 start s)
         else Some (emit (TDollar TkDollarQuestion) 2 start s))
      else if looking ''$~'' s then
        (if looking ''$~~'' s then Some (emit (TDollar TkDollarTildeTilde) 3 start s)
         else Some (emit (TDollar TkDollarTilde) 2 start s))
      else if looking ''$^'' s then
        (if looking ''$^+'' s then Some (emit (TDollar TkDollarCaretPlus) 3 start s)
         else if looking ''$^-'' s then Some (emit (TDollar TkDollarCaretMinus) 3 start s)
         else Some (emit (TDollar TkDollarCaret) 2 start s))
      else if looking ''$/'' s then Some (emit (TDollar TkDollarSlash) 2 start s)
      else if looking ''$*'' s then Some (emit (TDollar TkDollarStar) 2 start s)
      else if looking ''$['' s then Some (emit (TDollar TkDollarLBracket) 2 start s)
      else if looking ''$>'' s then Some (emit (TDollar TkDollarGt) 2 start s)
      else if looking ''$|'' s then Some (emit (TDollar TkDollarPipe) 2 start s)
      else if looking ''$<'' s then Some (emit (TDollar TkDollarLt) 2 start s)
      else if looking ''$!'' s then
        (if looking ''$!!'' s then Some (emit (TDollar TkDollarExclaimExclaim) 3 start s)
         else Some (emit (TDollar TkDollarExclaim) 2 start s))
      else None)"

end
