(* ===== verification/ZyLiterals.thy ===== *)
theory ZyLiterals imports ZyLexer begin

text \<open>
  The literals (crates/zymbol-lexer/src/literals.rs): texts with their escapes and interpolations,
  characters, numbers in any script, characters by code point.  A literal that is refused gives an
  error token and what is said about it.
\<close>

section \<open>Texts\<close>

definition has_closing_quote_ahead :: "lexer \<Rightarrow> bool" where
  "has_closing_quote_ahead s = (34 \<in> set (lx_rest s))"

definition has_closing_brace_ahead :: "lexer \<Rightarrow> bool" where
  "has_closing_brace_ahead s = (125 \<in> set (lx_rest s))"

function skip_rest_of_string :: "lexer \<Rightarrow> lexer" where
  "skip_rest_of_string s =
     (case lx_rest s of
        [] \<Rightarrow> s
      | c # cs \<Rightarrow>
          if c = 34 then advance s
          else if c = 92 then
            (let s1 = advance s in if is_at_end s1 then s1 else skip_rest_of_string (advance s1))
          else skip_rest_of_string (advance s))"
  by pat_completeness auto
termination
  by (relation "measure (\<lambda>s. length (lx_rest s))") (auto simp: advance_def split: list.splits)

declare skip_rest_of_string.simps [simp del]

text \<open>The characters 1 and 2 stand for escaped braces.\<close>

definition string_escape :: "uchar \<Rightarrow> uchar" where
  "string_escape c =
     (if c = 110 then 10 else if c = 116 then 9 else if c = 114 then 13
      else if c = 123 then 1 else if c = 125 then 2 else c)"

text \<open>The name of an interpolation, up to the first character that cannot belong to it.\<close>

function interpolation_name :: "letters \<Rightarrow> ustring \<Rightarrow> lexer \<Rightarrow> ustring \<times> lexer" where
  "interpolation_name a name s =
     (case lx_rest s of
        [] \<Rightarrow> (name, s)
      | c # cs \<Rightarrow>
          if c = 34 \<or> c = 125 then (name, s)
          else if (if name = [] then is_ident_start (alphabetic a) c else is_ident_continue (alphanumeric a) c)
          then interpolation_name a (name @ [c]) (advance s)
          else (name, s))"
  by pat_completeness auto
termination
  by (relation "measure (\<lambda>(a, name, s). length (lx_rest s))") (auto simp: advance_def)

declare interpolation_name.simps [simp del]

lemma advance_shorter: "lx_rest s \<noteq> [] \<Longrightarrow> length (lx_rest (advance s)) < length (lx_rest s)"
  by (cases "lx_rest s") (auto simp: advance_def)

lemma advance_not_longer: "length (lx_rest (advance s)) \<le> length (lx_rest s)"
  by (cases "lx_rest s") (auto simp: advance_def)

lemma interpolation_name_not_longer: "length (lx_rest (snd (interpolation_name a name s))) \<le> length (lx_rest s)"
  by (induction a name s rule: interpolation_name.induct)
     (subst interpolation_name.simps, auto simp: advance_def split: list.splits)

definition add_text :: "ustring \<Rightarrow> string_part list \<Rightarrow> string_part list" where
  "add_text text parts = (if text = [] then parts else parts @ [PartText text])"

definition open_string_help :: ustring where
  "open_string_help = U ''add closing '' @ [34] @ U '' to end the string''"

definition reported :: "ustring \<Rightarrow> ustring \<Rightarrow> position \<Rightarrow> lexer \<Rightarrow> lexer" where
  "reported message h start s = report (with_help h (with_span (span_from start s) (diag_error message))) s"

definition bad_interpolation :: "position \<Rightarrow> lexer \<Rightarrow> lexed" where
  "bad_interpolation start s =
     (let quote_open = \<not> has_closing_quote_ahead s;
          s1 = (if quote_open then reported (U ''unterminated string literal'') open_string_help start s else s)
      in apsnd skip_rest_of_string
           (if quote_open \<and> \<not> has_closing_brace_ahead s
            then refuse (U ''unterminated string interpolation'') (U ''invalid interpolation'')
                   (Some (U ''close the interpolation with }'')) start s1
            else refuse (U ''invalid character in string interpolation'') (U ''invalid interpolation'')
                   (Some (U ''interpolation must be {identifier} '' @ [0x2014] @ U '' use '' @ [92] @ U ''{ for a literal brace'')) start s1))"

definition stray_brace :: "position \<Rightarrow> lexer \<Rightarrow> lexed" where
  "stray_brace start s =
     apsnd skip_rest_of_string
       (if line (lx_position s) = line start
        then refuse (U ''unmatched '' @ [39, 125, 39] @ U '' in string'') (U ''unterminated string'')
               (Some (U ''the escape is symmetric '' @ [0x2014] @ U '' write '' @ [92] @ U ''} for a literal brace, as '' @ [92]
                      @ U ''{ is for the opening one'')) start s
        else refuse (U ''unterminated string literal'') (U ''unterminated string'')
               (Some (U ''the string opened here ran on and swallowed the closing brace on line '' @ show_nat (line (lx_position s))
                      @ [32, 0x2014] @ U '' add the closing quote, or escape the brace to keep it inside the text'')) start s)"

definition string_token :: "string_part list \<Rightarrow> bool \<Rightarrow> token_kind" where
  "string_token parts interpolated =
     (if \<not> interpolated then TkString (case parts of PartText t # _ \<Rightarrow> t | _ \<Rightarrow> []) else TkStringInterpolated parts)"

function lex_string_loop :: "letters \<Rightarrow> position \<Rightarrow> string_part list \<Rightarrow> ustring \<Rightarrow> bool \<Rightarrow> lexer \<Rightarrow> lexed" where
  "lex_string_loop a start parts text interpolated s =
     (case lx_rest s of
        [] \<Rightarrow> refuse (U ''unterminated string literal'') (U ''unterminated string'') (Some open_string_help) start s
      | c # cs \<Rightarrow>
          if c = 34 then token_at (string_token (add_text text parts) interpolated) start (advance s)
          else if c = 92 then
            (let s1 = advance s
             in case lx_rest s1 of
                  [] \<Rightarrow> refuse (U ''unterminated string literal'') (U ''unterminated string'') (Some open_string_help) start s1
                | e # _ \<Rightarrow> lex_string_loop a start parts (text @ [string_escape e]) interpolated (advance s1))
          else if c = 123 then
            (case interpolation_name a [] (advance s) of (name, s1) \<Rightarrow>
               (case lx_rest s1 of
                 [] \<Rightarrow> refuse (U ''unterminated string interpolation'') (U ''unterminated interpolation'')
                         (Some (U ''close the interpolation with }'')) start s1
               | d # _ \<Rightarrow>
                   if d = 34 then
                     apsnd advance (refuse (U ''unterminated string interpolation'') (U ''unterminated interpolation'')
                       (Some (U ''close the interpolation with }'')) start s1)
                   else if d = 125 then
                     (if name = [] then
                        apsnd skip_rest_of_string (refuse (U ''empty string interpolation {}'') (U ''empty interpolation'')
                          (Some (U ''provide a variable name: {varname}'')) start (advance s1))
                      else lex_string_loop a start (add_text text parts @ [PartVariable name]) [] True (advance s1))
                   else bad_interpolation start s1))
          else if c = 125 then stray_brace start s
          else lex_string_loop a start parts (text @ [c]) interpolated (advance s))"
  by pat_completeness auto
termination
proof (relation "measure (\<lambda>(a, start, parts, text, interpolated, s). length (lx_rest s))", goal_cases)
  case 1
  then show ?case by simp
next
  case (2 a start parts body interpolated s c cs s1 e es)
  then show ?case using advance_not_longer [of s1] advance_shorter [of s] by simp
next
  case (3 a start parts body interpolated s c cs name s1 d ds)
  have "s1 = snd (interpolation_name a [] (advance s))" by (simp flip: 3(5))
  then have "length (lx_rest s1) < length (lx_rest s)"
    using interpolation_name_not_longer [of a "[]" "advance s"] advance_shorter [of s] 3(1) by simp
  then show ?case using advance_not_longer [of s1] by simp
next
  case (4 a start parts body interpolated s c cs)
  then show ?case using advance_shorter [of s] by simp
qed

declare lex_string_loop.simps [simp del]

definition lex_string :: "letters \<Rightarrow> position \<Rightarrow> lexer \<Rightarrow> lexed" where
  "lex_string a start s = lex_string_loop a start [] [] False (advance s)"

section \<open>Characters\<close>

definition char_escape :: "uchar \<Rightarrow> uchar option" where
  "char_escape c =
     (if c = 110 then Some 10 else if c = 116 then Some 9 else if c = 114 then Some 13
      else if c = 39 then Some 39 else if c = 92 then Some 92 else if c = 48 then Some 0 else None)"

definition close_char :: "uchar \<Rightarrow> position \<Rightarrow> lexer \<Rightarrow> lexed" where
  "close_char c start s =
     (if peek_ahead 0 s \<noteq> Some 39
      then refuse (U ''expected closing '' @ [39] @ U '' for char literal'') (U ''unterminated char'') None start s
      else token_at (TkChar c) start (advance s))"

definition lex_char :: "position \<Rightarrow> lexer \<Rightarrow> lexed" where
  "lex_char start s =
     (let s1 = advance s
      in case lx_rest s1 of
           [] \<Rightarrow> refuse (U ''unterminated char literal'') (U ''unterminated char'') None start s1
         | c # _ \<Rightarrow>
             if c \<noteq> 92 then close_char c start (advance s1)
             else (let s2 = advance s1
                   in case lx_rest s2 of
                        [] \<Rightarrow> refuse (U ''unterminated char literal'') (U ''unterminated char'') None start s2
                      | e # _ \<Rightarrow>
                          (case char_escape e of
                             Some r \<Rightarrow> close_char r start (advance s2)
                           | None \<Rightarrow>
                               close_char e start (advance (report (with_span (span_from start s2)
                                 (diag_error (U ''invalid escape sequence: '' @ [39, 92, e, 39]))) s2)))))"

section \<open>Numbers\<close>

text \<open>Digits, all of one script; Inl where another script begins.\<close>

function digit_run :: "nat option \<Rightarrow> ustring \<Rightarrow> lexer \<Rightarrow> lexer + nat option \<times> ustring \<times> lexer" where
  "digit_run active number s =
     (case lx_rest s of
        [] \<Rightarrow> Inr (active, number, s)
      | c # cs \<Rightarrow>
          (case digit_value c of
             None \<Rightarrow> Inr (active, number, s)
           | Some d \<Rightarrow>
               if active = None \<or> active = digit_block_base c
               then digit_run (digit_block_base c) (number @ [48 + d]) (advance s)
               else Inl s))"
  by pat_completeness auto
termination
  by (relation "measure (\<lambda>(active, number, s). length (lx_rest s))") (auto simp: advance_def)

declare digit_run.simps [simp del]

definition mixed_script_error :: "position \<Rightarrow> lexer \<Rightarrow> lexed" where
  "mixed_script_error start s =
     refuse (U ''mixed digit scripts in numeric literal'') (U ''mixed digit scripts'')
       (Some (U ''all digits in a literal must belong to the same numeral system (e.g. all ASCII or all Devanagari)'')) start s"

text \<open>The exponent, read as far as it goes: None where there is none.\<close>

definition exponent_run :: "ustring \<Rightarrow> lexer \<Rightarrow> (ustring \<times> lexer) option" where
  "exponent_run number s =
     (case lx_rest s of
        [] \<Rightarrow> None
      | c # cs \<Rightarrow>
          if c = 101 \<or> c = 69 then
            (let s1 = advance s;
                 (sign, s2) = (case lx_rest s1 of
                                 e # _ \<Rightarrow> if e = 43 \<or> e = 45 then ([e], advance s1) else ([], s1)
                               | [] \<Rightarrow> ([], s1));
                 (ds, s3) = take_run is_ascii_digit s2
             in Some (number @ [c] @ sign @ ds, s3))
          else None)"

definition float_token :: "ustring \<Rightarrow> position \<Rightarrow> lexer \<Rightarrow> lexed" where
  "float_token number start s =
     (case parse_f64 number of
        Some f \<Rightarrow> token_at (TkFloat f) start s
      | None \<Rightarrow> refuse (U ''invalid float literal: '' @ [39] @ number @ [39])
                  (U ''invalid float: '' @ [39] @ number @ [39]) None start s)"

definition ZY_INT_RANGE_HELP :: ustring where
  "ZY_INT_RANGE_HELP =
     U ''integers range from -9007199254740991 to 9007199254740991 ('' @ [0xB1, 50, 0x2075, 0xB3, 0x2212, 49, 41]"

definition integer_token :: "ustring \<Rightarrow> position \<Rightarrow> lexer \<Rightarrow> lexed" where
  "integer_token number start s =
     (case (case parse_i64 number of Some n \<Rightarrow> if in_int_range n then Some n else None | None \<Rightarrow> None) of
        Some n \<Rightarrow> token_at (TkInteger n) start s
      | None \<Rightarrow> refuse (U ''integer literal out of range: '' @ [39] @ number @ [39])
                  (U ''invalid integer: '' @ [39] @ number @ [39]) (Some ZY_INT_RANGE_HELP) start s)"

text \<open>Whether a decimal separator and a digit stand at the cursor.\<close>

definition fraction_ahead :: "nat option \<Rightarrow> lexer \<Rightarrow> bool" where
  "fraction_ahead active s =
     (case lx_rest s of
        c # d # _ \<Rightarrow> (c = 46 \<or> map_option decimal_separator active = Some c) \<and> digit_value d \<noteq> None
      | _ \<Rightarrow> False)"

definition number_end :: "bool \<Rightarrow> ustring \<Rightarrow> position \<Rightarrow> lexer \<Rightarrow> lexed" where
  "number_end is_float number start s =
     (case exponent_run number s of
        Some (number', s') \<Rightarrow> float_token number' start s'
      | None \<Rightarrow> if is_float then float_token number start s else integer_token number start s)"

definition plain_number :: "position \<Rightarrow> lexer \<Rightarrow> lexed" where
  "plain_number start s =
     (case digit_run None [] s of
        Inl s1 \<Rightarrow> mixed_script_error start s1
      | Inr (active, number, s1) \<Rightarrow>
          if fraction_ahead active s1 then
            (case digit_run active (number @ [46]) (advance s1) of
               Inl s2 \<Rightarrow> mixed_script_error start s2
             | Inr (_, number', s2) \<Rightarrow> number_end True number' start s2)
          else number_end False number start s1)"

section \<open>Characters by code point\<close>

definition base_digit :: "nat \<Rightarrow> uchar \<Rightarrow> bool" where
  "base_digit radix c =
     (if radix = 2 then c = 48 \<or> c = 49
      else if radix = 8 then 48 \<le> c \<and> c \<le> 55
      else if radix = 10 then is_ascii_digit c
      else if radix = 16 then is_ascii_digit c \<or> 65 \<le> c \<and> c \<le> 70 \<or> 97 \<le> c \<and> c \<le> 102
      else False)"

definition lex_base_char_literal :: "position \<Rightarrow> nat \<Rightarrow> ustring \<Rightarrow> lexer \<Rightarrow> lexed" where
  "lex_base_char_literal start radix base_name s =
     (case take_run (base_digit radix) (advances 2 s) of (digits, s1) \<Rightarrow>
        if digits = [] then
          refuse (U ''expected '' @ base_name @ U '' digits after base prefix'') (U ''invalid '' @ base_name @ U '' literal'') None start s1
        else (case parse_u32 radix digits of
                Some code \<Rightarrow>
                  (case char_from_u32 code of
                     Some c \<Rightarrow> token_at (TkChar c) start s1
                   | None \<Rightarrow>
                       refuse (U ''invalid Unicode code point: 0x'' @ show_radix 16 code @ U '' ('' @ base_name @ [32] @ digits @ [41])
                         (U ''invalid code point: 0x'' @ show_radix 16 code) None start s1)
              | None \<Rightarrow>
                  refuse (U ''invalid '' @ base_name @ U '' literal: '' @ digits) (U ''invalid '' @ base_name @ U '' literal'') None start s1))"

definition base_prefix_of :: "uchar \<Rightarrow> (mark_token \<times> nat \<times> ustring) option" where
  "base_prefix_of c =
     (if c = 98 then Some (TkBaseBinary, 2, U ''binary'')
      else if c = 111 then Some (TkBaseOctal, 8, U ''octal'')
      else if c = 100 then Some (TkBaseDecimal, 10, U ''decimal'')
      else if c = 120 then Some (TkBaseHex, 16, U ''hexadecimal'')
      else None)"

definition lex_number :: "position \<Rightarrow> lexer \<Rightarrow> lexed" where
  "lex_number start s =
     (case (if peek_ahead 0 s = Some 48 then Option.bind (peek_ahead 1 s) base_prefix_of else None) of
        Some (kind, radix, base_name) \<Rightarrow>
          if peek_ahead 2 s = Some 124 then emit (TMark kind) 2 start s
          else lex_base_char_literal start radix base_name s
      | None \<Rightarrow> plain_number start s)"

end
