(* ===== verification/ZyScan.thy ===== *)
theory ZyScan imports ZyLiterals begin

text \<open>
  The next token and the whole source (crates/zymbol-lexer/src/lib.rs, next_token and tokenize).  The
  order of the parts is the order of the tests in the source.
\<close>

section \<open>Names and comments\<close>

definition lex_identifier :: "letters \<Rightarrow> position \<Rightarrow> lexer \<Rightarrow> lexed" where
  "lex_identifier a start s =
     (case take_run (is_ident_continue (alphanumeric a)) s of (ident, s1) \<Rightarrow>
        if ident \<noteq> [] \<and> last ident = 0xB0 \<and> butlast ident \<noteq> []
        then token_at (TkHotIdent (butlast ident)) start s1
        else token_at (TkIdent ident) start s1)"

definition skip_whitespace_only :: "lexer \<Rightarrow> lexer" where
  "skip_whitespace_only s = snd (take_run is_whitespace s)"

text \<open>A block comment from behind its opening on: how deep it is left, and its content.\<close>

function block_comment_loop :: "nat \<Rightarrow> ustring \<Rightarrow> lexer \<Rightarrow> nat \<times> ustring \<times> lexer" where
  "block_comment_loop depth content s =
     (case lx_rest s of
        [] \<Rightarrow> (depth, content, s)
      | c # _ \<Rightarrow>
          if depth = 0 then (depth, content, s)
          else if c = 47 \<and> peek_ahead 1 s = Some 42 then
            block_comment_loop (depth + 1) (content @ [47, 42]) (advance (advance s))
          else if c = 42 \<and> peek_ahead 1 s = Some 47 then
            (if 1 < depth then block_comment_loop (depth - 1) (content @ [42, 47]) (advance (advance (advance s)))
             else block_comment_loop (depth - 1) content (advance (advance s)))
          else block_comment_loop depth (content @ [c]) (advance s))"
  by pat_completeness auto
termination
proof (relation "measure (\<lambda>(depth, content, s). length (lx_rest s))", goal_cases)
  case 1
  then show ?case by simp
next
  case (2 depth content s c cs)
  then show ?case using advance_shorter [of s] advance_not_longer [of "advance s"] by simp
next
  case (3 depth content s c cs)
  then show ?case
    using advance_shorter [of s] advance_not_longer [of "advance s"] advance_not_longer [of "advance (advance s)"] by simp
next
  case (4 depth content s c cs)
  then show ?case using advance_shorter [of s] advance_not_longer [of "advance s"] by simp
next
  case (5 depth content s c cs)
  then show ?case using advance_shorter [of s] by simp
qed

declare block_comment_loop.simps [simp del]

definition try_parse_comment :: "position \<Rightarrow> lexer \<Rightarrow> lexed option" where
  "try_parse_comment start s =
     (if looking ''//'' s then
        (case take_run (\<lambda>c. c \<noteq> 10) (advances 2 s) of (content, s1) \<Rightarrow>
           Some (token_at (TkLineComment content) start s1))
      else if looking ''/*'' s then
        (case block_comment_loop 1 [] (advances 2 s) of (depth, content, s1) \<Rightarrow>
           Some (token_at (TkBlockComment content) start
             (if 0 < depth
              then reported (U ''Unterminated multi-line comment'') (U ''add */ to close the comment'') start s1
              else s1)))
      else None)"

section \<open>Operators\<close>

text \<open>What stands between the slashes of an execute expression; True where it is closed.\<close>

function execute_path :: "ustring \<Rightarrow> lexer \<Rightarrow> bool \<times> ustring \<times> lexer" where
  "execute_path raw s =
     (case lx_rest s of
        [] \<Rightarrow> (False, raw, s)
      | c # _ \<Rightarrow>
          if c = 47 \<and> peek_ahead 1 s = Some 62 then (True, raw, advance (advance s))
          else execute_path (raw @ [c]) (advance s))"
  by pat_completeness auto
termination
  by (relation "measure (\<lambda>(raw, s). length (lx_rest s))") (auto simp: advance_def)

declare execute_path.simps [simp del]

definition execute_token :: "position \<Rightarrow> lexer \<Rightarrow> lexed" where
  "execute_token start s =
     (case execute_path [] (advances 2 s) of (closed, raw, s1) \<Rightarrow>
        token_at (TkExecuteCommand (trim raw)) start
          (if closed then s1
           else reported (U ''unterminated execute expression'') (U ''execute syntax: </ path.zy />'') start s1))"

definition angle_token :: "position \<Rightarrow> lexer \<Rightarrow> lexed option" where
  "angle_token start s =
     (if looking ''>='' s then Some (emit (TOperator TkGe) 2 start s)
      else if looking ''>'' s then Some (emit (TOperator TkGt) 1 start s)
      else if looking ''<#'' s then Some (emit (TOperator TkModuleImport) 2 start s)
      else if looking ''<='' s then Some (emit (TOperator TkLe) 2 start s)
      else if looking ''<>'' s then Some (emit (TOperator TkNeq) 2 start s)
      else if looking ''</'' s then Some (execute_token start s)
      else if starts_with [60, 92] (lx_rest s) then
        Some (token_at (TIo TkBashOpen) start ((advances 2 s)\<lparr>lx_bash_depth := lx_bash_depth s + 1\<rparr>))
      else if looking ''<'' s then Some (emit (TOperator TkLt) 1 start s)
      else None)"

definition bang_token :: "position \<Rightarrow> lexer \<Rightarrow> lexed" where
  "bang_token start s =
     (if peek_ahead 1 s = Some 63 then emit (TFlow TkTryBlock) 2 start s
      else if peek_ahead 1 s = Some 61 then
        refuse ([39] @ U ''!='' @ [39] @ U '' is not a valid Zymbol operator'') (U ''invalid operator '' @ [39] @ U ''!='' @ [39])
          (Some (U ''use '' @ [39] @ U ''<>'' @ [39] @ U '' for not-equal  '' @ [0x2192] @ U ''  a <> b'')) start (advances 2 s)
      else emit (TOperator TkNot) 1 start s)"

definition sign_token :: "position \<Rightarrow> lexer \<Rightarrow> lexed option" where
  "sign_token start s =
     (if looking ''::'' s then Some (emit (TOperator TkScopeResolution) 2 start s)
      else if looking '':'' s then Some (emit (TMark TkColon) 1 start s)
      else if looking '';'' s then Some (emit (TMark TkSemicolon) 1 start s)
      else if looking ''+'' s then Some (emit (TOperator TkPlus) 1 start s)
      else if looking ''-'' s then Some (emit (TOperator TkMinus) 1 start s)
      else if looking ''*'' s then Some (emit (TOperator TkStar) 1 start s)
      else if looking ''/'' s then Some (emit (TOperator TkSlash) 1 start s)
      else if looking ''%'' s then Some (emit (TOperator TkPercent) 1 start s)
      else if looking ''^='' s then Some (emit (TAssign TkCaretAssign) 2 start s)
      else if looking ''^'' s then Some (emit (TOperator TkCaret) 1 start s)
      else if looking ''&&'' s then Some (emit (TOperator TkAnd) 2 start s)
      else if looking ''||'' s then Some (emit (TOperator TkOr) 2 start s)
      else if looking ''!'' s then Some (bang_token start s)
      else if looking ''..'' s then Some (emit (TMark TkDotDot) 2 start s)
      else if looking ''.'' s then Some (emit (TMark TkDot) 1 start s)
      else if looking ''{'' s then Some (emit (TMark TkLBrace) 1 start s)
      else if looking ''}'' s then Some (emit (TMark TkRBrace) 1 start s)
      else if looking ''~'' s then Some (emit (TOperator TkTilde) 1 start s)
      else None)"

section \<open>Marks that begin with a hash\<close>

definition double_hash_token :: "letters \<Rightarrow> position \<Rightarrow> lexer \<Rightarrow> lexed option" where
  "double_hash_token a start s =
     (case peek_ahead 2 s of
        None \<Rightarrow> None
      | Some c \<Rightarrow>
          if c = 46 then Some (emit (THash TkHashHashDot) 3 start s)
          else if c = 35 then Some (emit (THash TkHashHashHash) 3 start s)
          else if c = 33 then Some (emit (THash TkHashHashBang) 3 start s)
          else if c = 34 then Some (emit (THash TkHashHashQuote) 3 start s)
          else if c = 39 then Some (emit (THash TkHashHashApos) 3 start s)
          else if c = 95 \<and> (case peek_ahead 3 s of Some d \<Rightarrow> \<not> is_ident_continue (alphanumeric a) d | None \<Rightarrow> True)
          then Some (emit (THash TkHashHashUnderscore) 3 start s)
          else None)"

text \<open>The block of digits that a numeral mode switch names, where the digit behind the hash begins one.\<close>

definition numeral_switch :: "uchar \<Rightarrow> lexer \<Rightarrow> nat option" where
  "numeral_switch zero s =
     (case (peek_ahead 2 s, peek_ahead 3 s) of
        (Some nine, Some h) \<Rightarrow>
          if h = 35 \<and> digit_value nine = Some 9 \<and> digit_block_base zero = digit_block_base nine
          then digit_block_base zero else None
      | _ \<Rightarrow> None)"

definition hash_digit_token :: "nat \<Rightarrow> uchar \<Rightarrow> position \<Rightarrow> lexer \<Rightarrow> lexed" where
  "hash_digit_token dv c start s =
     (case (if dv = 0 then numeral_switch c s else None) of
        Some base \<Rightarrow> emit (TkSetNumeralMode base) 4 start s
      | None \<Rightarrow>
          if dv = 0 then emit (TkBoolean False) 2 start s
          else if dv = 1 then emit (TkBoolean True) 2 start s
          else refuse (U ''invalid boolean literal: digit '' @ show_nat dv @ U '' is not valid after '' @ [39, 35, 39])
                 (U ''invalid boolean literal'')
                 (Some (U ''use '' @ [39, 35, 48, 39] @ U '' (or its Unicode equivalent) for false, '' @ [39, 35, 49, 39] @ U '' for true''))
                 start (advances 2 s))"

definition hash_mark_token :: "letters \<Rightarrow> position \<Rightarrow> lexer \<Rightarrow> lexed" where
  "hash_mark_token a start s =
     (case (case peek_ahead 1 s of
              None \<Rightarrow> None
            | Some c \<Rightarrow>
                if c = 62 then Some (emit (THash TkExportBlock) 2 start s)
                else if c = 124 then Some (emit (THash TkHashPipe) 2 start s)
                else if c = 40 then Some (emit (THash TkHashLParen) 2 start s)
                else if c = 63 then Some (emit (THash TkHashQuestion) 2 start s)
                else if c = 35 then double_hash_token a start s
                else if c = 46 then Some (emit (THash TkHashDot) 2 start s)
                else if c = 33 then Some (emit (THash TkHashExclaim) 2 start s)
                else if c = 44 then Some (emit (THash TkHashComma) 2 start s)
                else if c = 94 then Some (emit (THash TkHashCaret) 2 start s)
                else map_option (\<lambda>dv. hash_digit_token dv c start s) (digit_value c)) of
        Some r \<Rightarrow> r
      | None \<Rightarrow> emit (THash TkHash) 1 start s)"

section \<open>The rest\<close>

text \<open>A name behind a degree sign.\<close>

definition pre_hot_token :: "letters \<Rightarrow> position \<Rightarrow> lexer \<Rightarrow> lexed" where
  "pre_hot_token a start s =
     (let s1 = advance s;
          (t, s2) = lex_identifier a (lx_position s1) s1;
          (name, s3) =
            (case tk_kind t of
               TkIdent n \<Rightarrow> (n, s2)
             | TkHotIdent n \<Rightarrow>
                 (n, reported (U ''ambiguous hot-definition markers on '' @ [39] @ n @ [39] @ U '': use either '' @ [39, 0xB0] @ n
                       @ [39] @ U '' (anchors above loop) or '' @ [39] @ n @ [0xB0, 39] @ U '' (anchors at loop), not both'')
                     (U ''remove one of the two '' @ [39, 0xB0, 39] @ U '' markers'') start s2)
             | _ \<Rightarrow> ([], s2));
          s4 = (if starts_with [95] name
                then reported ([39, 0xB0] @ name @ [39] @ U '' anchors the name above the loop, where '' @ [39, 95, 39] @ U '' makes it unreadable'')
                       (U ''write '' @ [39] @ name @ [0xB0, 39] @ U '' for a private value that lives through every iteration of the loop'')
                       start s3
                else s3)
      in token_at (TkPreHotIdent name) start s4)"

definition unknown_character :: "uchar \<Rightarrow> position \<Rightarrow> lexer \<Rightarrow> lexed" where
  "unknown_character c start s =
     (let shown = (if is_invisible_char c then U ''U+'' @ pad_zero 4 (show_radix 16 c) else [39, c, 39]);
          message = U ''unexpected character: '' @ shown
      in refuse message message None start (advance s))"

definition remaining_token :: "letters \<Rightarrow> uchar \<Rightarrow> position \<Rightarrow> lexer \<Rightarrow> lexed" where
  "remaining_token a c start s =
     (if c = 35 then hash_mark_token a start s
      else if looking ''|>'' s then emit (TOperator TkPipeOp) 2 start s
      else if c = 124 then emit (TOperator TkPipe) 1 start s
      else if c = 34 then lex_string a start s
      else if c = 39 then lex_char start s
      else if digit_value c \<noteq> None then lex_number start s
      else if c = 0xB0 \<and> (case peek_ahead 1 s of Some d \<Rightarrow> is_ident_start (alphabetic a) d | None \<Rightarrow> False)
      then pre_hot_token a start s
      else if is_ident_start (alphabetic a) c then lex_identifier a start s
      else unknown_character c start s)"

text \<open>The first of these that takes the text at the cursor.\<close>

fun first_token :: "(position \<Rightarrow> lexer \<Rightarrow> lexed option) list \<Rightarrow> position \<Rightarrow> lexer \<Rightarrow> lexed option" where
  "first_token [] start s = None"
| "first_token (f # fs) start s = (case f start s of Some r \<Rightarrow> Some r | None \<Rightarrow> first_token fs start s)"

definition token_parts :: "letters \<Rightarrow> (position \<Rightarrow> lexer \<Rightarrow> lexed option) list" where
  "token_parts a =
     [try_parse_io_token, try_parse_variable_token, try_parse_if_token a, try_parse_match_token,
      try_parse_loop_token a, try_parse_function_token, try_parse_collection_token, angle_token,
      sign_token, \<lambda>start s. if looking ''$'' s then try_parse_collection_op start s else None]"

definition next_token :: "letters \<Rightarrow> lexer \<Rightarrow> lexed" where
  "next_token a s0 =
     (let s = skip_whitespace_only s0; start = lx_position s
      in case try_parse_comment start s of
           Some r \<Rightarrow> r
         | None \<Rightarrow>
             (case lx_rest s of
                [] \<Rightarrow> token_at TkEof start s
              | c # _ \<Rightarrow>
                  (case first_token (token_parts a) start s of
                     Some r \<Rightarrow> r
                   | None \<Rightarrow> remaining_token a c start s)))"

end
