(* ===== verification/ZyWritten.thy ===== *)
theory ZyWritten imports ZyScan begin

text \<open>
  What a token has to do with the text it was read from: the cursor only moves on through the source,
  and the piece of text a token takes is how that token is written.
\<close>

section \<open>Progress of the cursor\<close>

definition after_text :: "ustring \<Rightarrow> position \<Rightarrow> position" where
  "after_text u p = fold step_over u p"

definition eats :: "ustring \<Rightarrow> lexer \<Rightarrow> lexer \<Rightarrow> bool" where
  "eats u s t \<longleftrightarrow>
     lx_rest s = u @ lx_rest t \<and> lx_position t = after_text u (lx_position s) \<and> lx_file t = lx_file s"

lemma after_text_append [simp]: "after_text (u @ v) p = after_text v (after_text u p)"
  by (simp add: after_text_def)

lemma eats_nothing [simp]: "eats [] s s"
  by (simp add: eats_def after_text_def)

lemma eats_trans: "eats u s t \<Longrightarrow> eats v t w \<Longrightarrow> eats (u @ v) s w"
  by (simp add: eats_def)

lemma eats_advance: "lx_rest s = c # cs \<Longrightarrow> eats [c] s (advance s)"
  by (simp add: eats_def advance_def after_text_def)

lemma eats_report [simp]:
  "eats u s (report d t) = eats u s t" "eats u s (reported m h p t) = eats u s t"
  "eats u s (t\<lparr>lx_bash_depth := n\<rparr>) = eats u s t"
  by (simp_all add: eats_def report_def reported_def)

lemma rest_report [simp]:
  "lx_rest (report d t) = lx_rest t" "lx_rest (reported m h p t) = lx_rest t" "lx_rest (t\<lparr>lx_bash_depth := n\<rparr>) = lx_rest t"
  by (simp_all add: report_def reported_def)

lemma eats_advances: "n \<le> length (lx_rest s) \<Longrightarrow> eats (take n (lx_rest s)) s (advances n s)"
proof (induction n arbitrary: s)
  case 0
  then show ?case by simp
next
  case (Suc n)
  then obtain c cs where s: "lx_rest s = c # cs" by (cases "lx_rest s") auto
  then have "lx_rest (advance s) = cs" by (simp add: advance_def)
  with Suc.IH [of "advance s"] Suc.prems s have "eats (take n cs) (advance s) (advances n (advance s))" by simp
  from eats_trans [OF eats_advance [OF s] this] s show ?case by simp
qed

lemma eats_run: "take_run P s = (u, t) \<Longrightarrow> eats u s t \<and> u = takeWhile P (lx_rest s)"
  using eats_advances [of "length (takeWhile P (lx_rest s))" s]
  by (auto simp: take_run_def Let_def length_takeWhile_le takeWhile_eq_take [symmetric])

lemma eats_rest: "eats u s t \<Longrightarrow> lx_rest t = drop (length u) (lx_rest s)"
  by (simp add: eats_def)

lemma rest_advances [simp]: "lx_rest (advances n s) = drop n (lx_rest s)"
proof (induction n arbitrary: s)
  case (Suc n)
  then show ?case by (cases "lx_rest s") (auto simp: advance_def)
qed simp

lemma starts_with_Cons [simp]: "starts_with (p # ps) xs \<longleftrightarrow> (\<exists>cs. xs = p # cs \<and> starts_with ps cs)"
  by (cases xs) auto

lemma peek_rest: "peek_ahead n s = (case drop n (lx_rest s) of [] \<Rightarrow> None | c # _ \<Rightarrow> Some c)"
  by (auto simp: peek_ahead_def hd_drop_conv_nth [symmetric] split: list.split)

section \<open>How tokens are written\<close>

definition lexes :: "(token_kind \<Rightarrow> ustring \<Rightarrow> bool) \<Rightarrow> position \<Rightarrow> lexer \<Rightarrow> lexed \<Rightarrow> bool" where
  "lexes W start s r \<longleftrightarrow>
     (\<exists>u v. u \<noteq> [] \<and> W (tk_kind (fst r)) u \<and> eats (u @ v) s (snd r) \<and> (v = [] \<or> (\<exists>m. tk_kind (fst r) = TkError m))
        \<and> tk_span (fst r) = \<lparr>sp_start = start, sp_end = after_text u (lx_position s), file_id = lx_file s\<rparr>)"

lemma lexes_token: "eats u s t \<Longrightarrow> u \<noteq> [] \<Longrightarrow> W k u \<Longrightarrow> lexes W start s (token_at k start t)"
  unfolding lexes_def by (rule exI [of _ u], rule exI [of _ "[]"]) (auto simp: token_at_def span_from_def eats_def)

lemma lexes_emit:
  "n \<le> length (lx_rest s) \<Longrightarrow> 0 < n \<Longrightarrow> W k (take n (lx_rest s)) \<Longrightarrow> lexes W start s (emit k n start s)"
  unfolding emit_def by (rule lexes_token [OF eats_advances]) auto

lemma lexes_refuse:
  "eats u s t \<Longrightarrow> u \<noteq> [] \<Longrightarrow> W (TkError k) u \<Longrightarrow> lexes W start s (refuse m k h start t)"
  unfolding lexes_def
  by (rule exI [of _ u], rule exI [of _ "[]"]) (auto simp: refuse_def Let_def span_from_def eats_def report_def)

lemma lexes_refuse_then:
  "eats u s t \<Longrightarrow> u \<noteq> [] \<Longrightarrow> W (TkError k) u \<Longrightarrow> (\<And>s. \<exists>v. eats v s (f s)) \<Longrightarrow>
   lexes W start s (apsnd f (refuse m k h start t))"
proof -
  assume a: "eats u s t" "u \<noteq> []" "W (TkError k) u" and f: "\<And>s. \<exists>v. eats v s (f s)"
  obtain v where "eats v (snd (refuse m k h start t)) (f (snd (refuse m k h start t)))" using f by blast
  moreover have "eats u s (snd (refuse m k h start t))" using a(1) by (simp add: refuse_def Let_def)
  ultimately have "eats (u @ v) s (f (snd (refuse m k h start t)))" by (rule eats_trans [rotated])
  moreover have "span_from start t = \<lparr>sp_start = start, sp_end = after_text u (lx_position s), file_id = lx_file s\<rparr>"
    using a(1) by (simp add: span_from_def eats_def)
  ultimately show ?thesis using a(2,3)
    unfolding lexes_def by (intro exI [of _ u] exI [of _ v]) (simp add: refuse_def Let_def)
qed


text \<open>An interpolated text: what it says, and how that is written between the quotes.\<close>

inductive raw_text :: "ustring \<Rightarrow> ustring \<Rightarrow> bool" where
  raw_nothing: "raw_text [] []"
| raw_plain: "raw_text t v \<Longrightarrow> c \<notin> {34, 92, 123, 125} \<Longrightarrow> raw_text (t @ [c]) (v @ [c])"
| raw_escape: "raw_text t v \<Longrightarrow> raw_text (t @ [string_escape e]) (v @ [92, e])"

inductive raw_parts :: "string_part list \<Rightarrow> ustring \<Rightarrow> bool" where
  no_parts: "raw_parts [] []"
| one_more: "raw_parts ps v \<Longrightarrow> raw_text t w \<Longrightarrow> n \<noteq> [] \<Longrightarrow>
     raw_parts (add_text t ps @ [PartVariable n]) (v @ w @ 123 # n @ [125])"

text \<open>A number in any script, in ASCII.\<close>

definition number_char :: "uchar \<Rightarrow> uchar" where
  "number_char c =
     (case digit_value c of Some d \<Rightarrow> 48 + d | None \<Rightarrow> if c \<in> {101, 69, 43, 45} then c else 46)"

fun written :: "token_kind \<Rightarrow> ustring \<Rightarrow> bool" where
  "written (TIo k) u = (u = io_spelling k)"
| "written (TAssign k) u = (u = assign_spelling k)"
| "written (TOperator k) u = (u = operator_spelling k)"
| "written (TDollar k) u = (u = dollar_spelling k)"
| "written (TFlow k) u = (u = flow_spelling k \<or> k = TkAt \<and> u = U ''@:'')"
| "written (TMark k) u = (u = mark_spelling k)"
| "written (THash k) u = (u = hash_spelling k)"
| "written (TkString t) u = (\<exists>v. u = 34 # v @ [34] \<and> raw_text t v)"
| "written (TkStringInterpolated ps) u =
     (\<exists>qs t v w. u = 34 # v @ w @ [34] \<and> ps = add_text t qs \<and> qs \<noteq> [] \<and> raw_parts qs v \<and> raw_text t w)"
| "written (TkInteger n) u =
     ((\<exists>b. \<forall>c \<in> set u. digit_block_base c = Some b) \<and> parse_i64 (map number_char u) = Some n \<and> in_int_range n)"
| "written (TkFloat f) u = (parse_f64 (map number_char u) = Some f)"
| "written (TkChar c) u =
     (u = [39, c, 39] \<and> c \<noteq> 92
      \<or> (\<exists>e. u = [39, 92, e, 39] \<and> c = (case char_escape e of Some r \<Rightarrow> r | None \<Rightarrow> e))
      \<or> (\<exists>p k radix name ds. u = 48 # p # ds \<and> base_prefix_of p = Some (k, radix, name) \<and> list_all (base_digit radix) ds
           \<and> Option.bind (parse_u32 radix ds) char_from_u32 = Some c))"
| "written (TkBoolean b) u = (\<exists>d. u = [35, d] \<and> digit_value d = Some (if b then 1 else 0))"
| "written (TkSetNumeralMode base) u =
     (\<exists>z n. u = [35, z, n, 35] \<and> digit_value z = Some 0 \<and> digit_value n = Some 9
        \<and> digit_block_base z = Some base \<and> digit_block_base n = Some base)"
| "written (TkIdent x) u = (u = x)"
| "written (TkHotIdent x) u = (x \<noteq> [] \<and> u = x @ [0xB0])"
| "written (TkPreHotIdent x) u = (u = 0xB0 # x \<or> u = 0xB0 # x @ [0xB0])"
| "written (TkAtLabel l) u = False"
| "written (TkAtColonLabel l) u = (u = U ''@:'' @ l)"
| "written (TkAtColonLabelBreak l) u = (u = U ''@:'' @ l @ U ''!'')"
| "written (TkAtColonLabelContinue l) u = (u = U ''@:'' @ l @ U ''>'')"
| "written (TkExecuteCommand path) u =
     (\<exists>raw. path = trim raw \<and> (u = U ''</'' @ raw @ U ''/>'' \<or> u = U ''</'' @ raw))"
| "written (TkLineComment content) u = (u = U ''//'' @ content)"
| "written (TkBlockComment content) u = (\<exists>v. u = U ''/*'' @ v)"
| "written TkEof u = False"
| "written (TkError m) u = True"

lemma lexes_depth:
  "n \<le> length (lx_rest s) \<Longrightarrow> 0 < n \<Longrightarrow> W k (take n (lx_rest s)) \<Longrightarrow>
   lexes W start s (token_at k start ((advances n s)\<lparr>lx_bash_depth := d\<rparr>))"
  by (rule lexes_token) (auto intro: eats_advances)

lemmas fixed_simps = looking_def peek_rest

lemma io_lexes: "try_parse_io_token start s = Some r \<Longrightarrow> lexes written start s r"
  by (auto simp: try_parse_io_token_def fixed_simps split: if_splits list.splits intro!: lexes_emit lexes_depth)

lemma variable_lexes: "try_parse_variable_token start s = Some r \<Longrightarrow> lexes written start s r"
  by (auto simp: try_parse_variable_token_def fixed_simps split: if_splits intro!: lexes_emit)

lemma if_lexes: "try_parse_if_token a start s = Some r \<Longrightarrow> lexes written start s r"
  by (auto simp: try_parse_if_token_def fixed_simps split: if_splits list.splits option.splits intro!: lexes_emit)

lemma match_lexes: "try_parse_match_token start s = Some r \<Longrightarrow> lexes written start s r"
  by (auto simp: try_parse_match_token_def fixed_simps split: if_splits intro!: lexes_emit)

lemma function_lexes: "try_parse_function_token start s = Some r \<Longrightarrow> lexes written start s r"
  by (auto simp: try_parse_function_token_def fixed_simps split: if_splits intro!: lexes_emit)

lemma collection_lexes: "try_parse_collection_token start s = Some r \<Longrightarrow> lexes written start s r"
  by (auto simp: try_parse_collection_token_def fixed_simps split: if_splits intro!: lexes_emit)

lemma dollar_lexes: "try_parse_collection_op start s = Some r \<Longrightarrow> lexes written start s r"
  by (auto simp: try_parse_collection_op_def fixed_simps split: if_splits intro!: lexes_emit)

end
