(* ===== verification/ZyLexed.thy ===== *)
theory ZyLexed imports ZyWritten begin

text \<open>
  Every part of next_token that recognises marks, comments, names and characters takes a piece of text
  that is how its token is written.
\<close>

lemma advances_eats: "starts_with p (lx_rest s) \<Longrightarrow> length p = n \<Longrightarrow> eats p s (advances n s)"
  using eats_advances [of n s] by (auto simp: starts_with_iff)

lemma takes_then:
  "eats u s t \<Longrightarrow> take_run P t = (v, w) \<Longrightarrow> eats (u @ v) s w"
  using eats_run eats_trans by blast

lemma loop_lexes: "try_parse_loop_token a start s = Some r \<Longrightarrow> lexes written start s r"
proof -
  assume r: "try_parse_loop_token a start s = Some r"
  show ?thesis
  proof (cases "looking ''@:'' s \<and> \<not> looking ''@!'' s \<and> \<not> looking ''@>'' s")
    case False
    with r show ?thesis
      by (auto simp: try_parse_loop_token_def fixed_simps Let_def split: if_splits intro!: lexes_emit)
  next
    case True
    let ?s = "advances 2 s"
    obtain label s3 where l: "take_run (is_ident_continue (alphanumeric a)) ?s = (label, s3)" by fastforce
    from True have e: "eats [64, 58] s ?s" using advances_eats [of "[64, 58]" s 2] by (simp add: looking_def)
    from takes_then [OF e l] have e3: "eats (64 # 58 # label) s s3" by simp
    have last: "eats (64 # 58 # label @ [c]) s (advance s3)" if "lx_rest s3 = c # cs" for c cs
      using eats_trans [OF e3 eats_advance [OF that]] by simp
    from r True l e show ?thesis
      by (auto simp: try_parse_loop_token_def fixed_simps Let_def emit_def split: if_splits list.splits
               intro!: lexes_token [OF e] lexes_token [OF e3] lexes_token [OF last])
  qed
qed

lemma identifier_lexes:
  assumes "lx_rest s = c # cs" "is_ident_continue (alphanumeric a) c"
  shows "lexes written start s (lex_identifier a start s)"
proof -
  obtain u t where r: "take_run (is_ident_continue (alphanumeric a)) s = (u, t)" by fastforce
  from eats_run [OF this] assms have e: "eats u s t" and "u \<noteq> []" by auto
  then show ?thesis
    by (auto simp: lex_identifier_def r intro!: lexes_token [OF e]) (metis append_butlast_last_id)
qed

lemma execute_path_eats:
  "execute_path raw s = (closed, raw', t) \<Longrightarrow>
   \<exists>v. raw' = raw @ v \<and> eats (v @ (if closed then [47, 62] else [])) s t"
proof (induction raw s arbitrary: closed raw' t rule: execute_path.induct)
  case (1 raw s)
  show ?case
  proof (cases "lx_rest s")
    case Nil
    with 1 show ?thesis by (subst (asm) execute_path.simps) auto
  next
    case (Cons c cs)
    show ?thesis
    proof (cases "c = 47 \<and> peek_ahead 1 s = Some 62")
      case True
      then have "eats [47, 62] s (advances 2 s)"
        using advances_eats [of "[47, 62]" s 2] Cons by (auto simp: peek_rest split: list.splits)
      with 1(2) Cons True show ?thesis
        by (subst (asm) execute_path.simps) (auto simp: numeral_2_eq_2)
    next
      case False
      with 1(2) Cons have "execute_path (raw @ [c]) (advance s) = (closed, raw', t)"
        by (subst (asm) execute_path.simps) auto
      from 1(1) [OF Cons False this] obtain v
        where "raw' = raw @ c # v" "eats (v @ (if closed then [47, 62] else [])) (advance s) t" by auto
      with eats_trans [OF eats_advance [OF Cons]] show ?thesis
        by (intro exI [of _ "c # v"]) fastforce
    qed
  qed
qed

lemma execute_lexes: "looking ''</'' s \<Longrightarrow> lexes written start s (execute_token start s)"
proof -
  assume "looking ''</'' s"
  then have e: "eats [60, 47] s (advances 2 s)" using advances_eats [of "[60, 47]" s 2] by (simp add: looking_def)
  obtain closed raw t where p: "execute_path [] (advances 2 s) = (closed, raw, t)" by (metis prod_cases3)
  from execute_path_eats [OF this] have "eats (raw @ (if closed then [47, 62] else [])) (advances 2 s) t" by simp
  from eats_trans [OF e this] have "eats ([60, 47] @ raw @ (if closed then [47, 62] else [])) s t" by simp
  then have x: "eats ([60, 47] @ raw @ (if closed then [47, 62] else [])) s
      (if closed then t else reported (U ''unterminated execute expression'') (U ''execute syntax: </ path.zy />'') start t)"
    by (cases closed) simp_all
  show ?thesis unfolding execute_token_def p prod.case by (rule lexes_token [OF x]) auto
qed

lemma angle_lexes: "angle_token start s = Some r \<Longrightarrow> lexes written start s r"
  by (auto simp: angle_token_def execute_lexes [unfolded looking_def] fixed_simps split: if_splits
           intro!: lexes_emit lexes_depth)

lemma sign_lexes: "sign_token start s = Some r \<Longrightarrow> lexes written start s r"
  by (auto simp: sign_token_def bang_token_def fixed_simps split: if_splits list.splits
           intro!: lexes_emit lexes_refuse [OF eats_advances])

lemma double_hash_lexes:
  "lx_rest s = 35 # 35 # cs \<Longrightarrow> double_hash_token a start s = Some r \<Longrightarrow> lexes written start s r"
  by (auto simp: double_hash_token_def peek_rest split: if_splits list.splits intro!: lexes_emit)

lemma numeral_switch_Some:
  "lx_rest s = 35 # c # cs \<Longrightarrow> numeral_switch c s = Some base \<Longrightarrow>
   \<exists>n ds. cs = n # 35 # ds \<and> digit_value n = Some 9 \<and> digit_block_base c = Some base \<and> digit_block_base n = Some base"
  by (auto simp: numeral_switch_def peek_rest split: list.splits if_splits)

lemma hash_digit_lexes:
  assumes s: "lx_rest s = 35 # c # cs" and dv: "digit_value c = Some dv"
  shows "lexes written start s (hash_digit_token dv c start s)"
proof (cases "if dv = 0 then numeral_switch c s else None")
  case None
  with s dv show ?thesis
    by (auto simp: hash_digit_token_def split: if_splits intro!: lexes_emit lexes_refuse [OF eats_advances])
next
  case (Some base)
  with numeral_switch_Some [OF s, of base] s dv show ?thesis
    by (auto simp: hash_digit_token_def split: if_splits intro!: lexes_emit)
qed

lemma hash_lexes: "lx_rest s = 35 # cs \<Longrightarrow> lexes written start s (hash_mark_token a start s)"
  by (cases cs)
     (auto simp: hash_mark_token_def peek_rest hash_digit_lexes dest: double_hash_lexes
           split: option.split intro!: lexes_emit)


lemma eats_more: "lx_rest s = c # cs \<Longrightarrow> \<exists>v. eats v (advance s) t \<Longrightarrow> \<exists>v. eats v s t"
  using eats_trans [OF eats_advance] by blast

lemma advance_eats: "\<exists>v. eats v s (advance s)"
  by (cases "lx_rest s") (use eats_advance in \<open>auto simp: advance_def intro: exI [of _ "[]"]\<close>)

lemma eats_some: "\<exists>v. eats v s t \<Longrightarrow> \<exists>v. eats v t w \<Longrightarrow> \<exists>v. eats v s w"
  using eats_trans by blast

lemma block_comment_eats: "block_comment_loop depth content s = (d, c, t) \<Longrightarrow> \<exists>v. eats v s t"
proof (induction depth content s arbitrary: d c t rule: block_comment_loop.induct)
  case (1 depth content s)
  have two: "\<exists>v. eats v s (advance (advance s))" and three: "\<exists>v. eats v s (advance (advance (advance s)))"
    by (meson advance_eats eats_some)+
  show ?case
  proof (cases "lx_rest s")
    case Nil
    with 1(5) show ?thesis by (subst (asm) block_comment_loop.simps) (auto intro: exI [of _ "[]"])
  next
    case (Cons x xs)
    from 1(5) show ?thesis
      apply (subst (asm) block_comment_loop.simps)
      apply (simp add: Cons split: if_splits)
          apply (auto intro: exI [of _ "[]"]) []
         apply (rule eats_some [OF two 1(1) [OF Cons]]; simp add: Cons)
        apply (rule eats_some [OF three 1(2) [OF Cons]]; simp add: Cons)
       apply (rule eats_some [OF two 1(3) [OF Cons]]; simp add: Cons)
      apply (rule eats_some [OF advance_eats 1(4) [OF Cons]]; simp add: Cons)
      done
  qed
qed

lemma comment_lexes: "try_parse_comment start s = Some r \<Longrightarrow> lexes written start s r"
proof -
  assume r: "try_parse_comment start s = Some r"
  show ?thesis
  proof (cases "looking ''//'' s")
    case True
    obtain content t where l: "take_run (\<lambda>c. c \<noteq> 10) (advances 2 s) = (content, t)" by fastforce
    from True have "eats [47, 47] s (advances 2 s)" using advances_eats [of "[47, 47]" s 2] by (simp add: looking_def)
    from takes_then [OF this l] r True l show ?thesis
      by (auto simp: try_parse_comment_def intro!: lexes_token)
  next
    case False
    with r have c: "looking ''/*'' s" by (auto simp: try_parse_comment_def split: if_splits)
    obtain d content t where l: "block_comment_loop 1 [] (advances 2 s) = (d, content, t)" by (metis prod_cases3)
    from c have e: "eats [47, 42] s (advances 2 s)" using advances_eats [of "[47, 42]" s 2] by (simp add: looking_def)
    from block_comment_eats [OF l] obtain v where "eats v (advances 2 s) t" by blast
    from eats_trans [OF e this] have
      "eats (47 # 42 # v) s (if 0 < d then reported (U ''Unterminated multi-line comment'') (U ''add */ to close the comment'') start t else t)"
      by simp
    from lexes_token [where W = written and k = "TkBlockComment content", OF this] r False c l show ?thesis
      by (auto simp: try_parse_comment_def)
  qed
qed

lemma skip_eats: "\<exists>v. eats v s (skip_rest_of_string s)"
proof (induction s rule: skip_rest_of_string.induct)
  case (1 s)
  show ?case
  proof (cases "lx_rest s")
    case Nil
    then show ?thesis by (subst skip_rest_of_string.simps) (auto intro: exI [of _ "[]"])
  next
    case (Cons c cs)
    show ?thesis
      by (subst skip_rest_of_string.simps)
         (auto simp: Cons Let_def intro: advance_eats eats_some [OF advance_eats] 1(2) [OF Cons]
            eats_some [OF advance_eats, OF eats_some [OF advance_eats, OF 1(1) [OF Cons]]])
  qed
qed

lemma close_char_lexes:
  assumes e: "eats u s t" and u: "u \<noteq> []" and W: "written (TkChar c) (u @ [39])"
  shows "lexes written start s (close_char c start t)"
proof (cases "peek_ahead 0 t = Some 39")
  case True
  then obtain cs where "lx_rest t = 39 # cs" by (auto simp: peek_rest split: list.splits)
  from eats_trans [OF e eats_advance [OF this]] True W show ?thesis
    unfolding close_char_def by (auto intro!: lexes_token simp del: written.simps)
next
  case False
  with u show ?thesis unfolding close_char_def by (auto intro: lexes_refuse [OF e])
qed

lemma char_lexes: "lx_rest s = 39 # cs \<Longrightarrow> lexes written start s (lex_char start s)"
proof -
  assume s: "lx_rest s = 39 # cs"
  let ?s1 = "advance s" and ?s2 = "advance (advance s)"
  have e1: "eats [39] s ?s1" by (rule eats_advance [OF s])
  have r1: "lx_rest ?s1 = cs" using s by (simp add: advance_def)
  show ?thesis
  proof (cases cs)
    case Nil
    then show ?thesis using r1 by (auto simp: lex_char_def Let_def intro: lexes_refuse [OF e1])
  next
    case (Cons c ds)
    with r1 have e2: "eats [39, c] s ?s2" using eats_trans [OF e1 eats_advance] by fastforce
    have r2: "lx_rest ?s2 = ds" using r1 Cons by (simp add: advance_def [of ?s1])
    show ?thesis
    proof (cases "c = 92")
      case False
      then show ?thesis using Cons r1 by (auto simp: lex_char_def Let_def intro: close_char_lexes [OF e2])
    next
      case True
      show ?thesis
      proof (cases ds)
        case Nil
        then show ?thesis using Cons True r1 r2 by (auto simp: lex_char_def Let_def intro: lexes_refuse [OF e2])
      next
        case (Cons e es)
        have e3: "eats [39, 92, e] s (advance ?s2)"
          using eats_trans [OF e2 eats_advance] r2 Cons True by fastforce
        have e4: "eats [39, 92, e] s (advance (report d ?s2))" for d
          using e3 r2 Cons by (auto simp: eats_def advance_def report_def)
        show ?thesis using Cons \<open>cs = c # ds\<close> True r1 r2
          by (auto simp: lex_char_def Let_def split: option.split intro!: close_char_lexes [OF e3] close_char_lexes [OF e4])
      qed
    qed
  qed
qed

end
