(* ===== verification/ZyLexedLits.thy ===== *)
theory ZyLexedLits imports ZyLexed begin

text \<open>
  The literals take a piece of text that is how their token is written, and so does every other token.
\<close>

section \<open>Texts\<close>

lemma eats_self [simp]: "\<exists>v. eats v s s"
  by (rule exI [of _ "[]"]) simp

lemma raw_text_Nil [simp]: "raw_text [] w \<longleftrightarrow> w = []"
  by (auto elim: raw_text.cases intro: raw_nothing)

lemma raw_parts_Nil [simp]: "raw_parts [] w \<longleftrightarrow> w = []"
  by (auto elim: raw_parts.cases intro: no_parts)

lemma interpolation_name_eats: "interpolation_name a name s = (n, t) \<Longrightarrow> \<exists>v. n = name @ v \<and> eats v s t"
proof (induction a name s arbitrary: n t rule: interpolation_name.induct)
  case (1 a name s)
  show ?case
  proof (cases "lx_rest s")
    case Nil
    with 1(2) show ?thesis by (subst (asm) interpolation_name.simps) auto
  next
    case (Cons c cs)
    show ?thesis
    proof (cases "\<not> (c = 34 \<or> c = 125) \<and>
        (if name = [] then is_ident_start (alphabetic a) c else is_ident_continue (alphanumeric a) c)")
      case False
      with 1(2) Cons show ?thesis by (subst (asm) interpolation_name.simps) (auto split: if_splits)
    next
      case True
      with 1(2) Cons have "interpolation_name a (name @ [c]) (advance s) = (n, t)"
        by (subst (asm) interpolation_name.simps) (auto split: if_splits)
      with 1(1) [OF Cons] True obtain v where "n = (name @ [c]) @ v" "eats v (advance s) t" by blast
      then show ?thesis using eats_trans [OF eats_advance [OF Cons]] by fastforce
    qed
  qed
qed

lemma string_token_written:
  assumes "raw_parts parts v" "raw_text body w" "interp = (parts \<noteq> [])"
  shows "written (string_token (add_text body parts) interp) (34 # v @ w @ [34])"
proof (cases "parts = []")
  case True
  with assms show ?thesis by (cases "body = []") (auto simp: string_token_def add_text_def)
next
  case False
  with assms show ?thesis by (auto simp: string_token_def)
qed

lemma bad_interpolation_lexes: "eats (34 # u) s t \<Longrightarrow> lexes written start s (bad_interpolation start t)"
  by (auto simp: bad_interpolation_def Let_def intro!: lexes_refuse_then skip_eats)

lemma string_loop_lexes:
  "eats (34 # v @ w) s0 s \<Longrightarrow> raw_parts parts v \<Longrightarrow> raw_text body w \<Longrightarrow> interp = (parts \<noteq> []) \<Longrightarrow>
   lexes written start s0 (lex_string_loop a start parts body interp s)"
proof (induction a start parts body interp s arbitrary: v w rule: lex_string_loop.induct)
  case (1 a start parts body interp s)
  note e = 1(4) and parts = 1(5) and body = 1(6) and interp = 1(7)
  have err: "lexes written start s0 (refuse m k h start t)" if "\<exists>v. eats v s t" for m k h t
    using eats_trans [OF e] that by (auto intro!: lexes_refuse)
  have err': "lexes written start s0 (apsnd f (refuse m k h start t))"
    if "\<exists>v. eats v s t" "\<And>s. \<exists>v. eats v s (f s)" for m k h t f
    using eats_trans [OF e] that by (auto intro!: lexes_refuse_then)
  show ?case
  proof (cases "lx_rest s")
    case Nil
    then show ?thesis by (subst lex_string_loop.simps) (auto intro!: err exI [of _ "[]"])
  next
    case (Cons c cs)
    note s = this
    note e1 = eats_trans [OF e eats_advance [OF s]]
    consider (ends) "c = 34" | (escapes) "c = 92" | (brace) "c = 123" | (closing) "c = 125" | (other) "c \<notin> {34, 92, 123, 125}"
      by blast
    then show ?thesis
    proof cases
      case ends
      then show ?thesis
        using e1 string_token_written [OF parts body interp]
        by (subst lex_string_loop.simps) (auto simp: s intro!: lexes_token simp del: written.simps)
    next
      case escapes
      show ?thesis
      proof (cases "lx_rest (advance s)")
        case Nil
        then show ?thesis using escapes
          by (subst lex_string_loop.simps) (auto simp: s Let_def intro!: err advance_eats)
      next
        case (Cons d ds)
        have "eats (34 # v @ w @ [92, d]) s0 (advance (advance s))"
          using eats_trans [OF e1 eats_advance [OF Cons]] escapes by simp
        from 1(1) [OF s _ escapes refl Cons this parts raw_escape [OF body] interp] escapes
        show ?thesis by (subst lex_string_loop.simps) (simp add: s Cons)
      qed
    next
      case brace
      obtain n t where n: "interpolation_name a [] (advance s) = (n, t)" by fastforce
      with interpolation_name_eats have en: "eats n (advance s) t" by fastforce
      then have st: "\<exists>v. eats v s t" using advance_eats eats_some by blast
      have et: "eats (34 # v @ w @ 123 # n) s0 t" using eats_trans [OF e1 en] brace by simp
      show ?thesis
      proof (cases "lx_rest t")
        case Nil
        then show ?thesis using brace
          by (subst lex_string_loop.simps) (auto simp: s n intro!: err st)
      next
        case (Cons d ds)
        have e2: "eats (34 # (v @ w @ 123 # n @ [d]) @ []) s0 (advance t)"
          using eats_trans [OF et eats_advance [OF Cons]] by simp
        show ?thesis
        proof (cases "d = 125 \<and> n \<noteq> []")
          case True
          from e2 True have e3: "eats (34 # (v @ w @ 123 # n @ [125]) @ []) s0 (advance t)" by simp
          from 1(2) [OF s _ _ brace n [symmetric] Cons _ _ _ e3 one_more [OF parts body] raw_nothing] True brace
          show ?thesis by (subst lex_string_loop.simps) (simp add: s n Cons)
        next
          case False
          then show ?thesis using brace et st
            by (subst lex_string_loop.simps)
               (auto simp: s n Cons intro!: err' advance_eats skip_eats bad_interpolation_lexes
                     intro: eats_some [OF st advance_eats])
        qed
      qed
    next
      case closing
      then show ?thesis
        by (subst lex_string_loop.simps)
           (auto simp: s stray_brace_def intro!: err' skip_eats exI [of _ "[]"])
    next
      case other
      have "eats (34 # v @ (w @ [c])) s0 (advance s)" using e1 by simp
      from 1(3) [OF s _ _ _ _ this parts raw_plain [OF body other] interp] other
      show ?thesis by (subst lex_string_loop.simps) (simp add: s)
    qed
  qed
qed

section \<open>Numbers\<close>

lemma digit_block_of_value: "digit_value c = Some d \<Longrightarrow> \<exists>b. digit_block_base c = Some b"
  by (auto simp: digit_value_block)

definition one_script :: "nat option \<Rightarrow> ustring \<Rightarrow> bool" where
  "one_script active u = (\<forall>c \<in> set u. digit_block_base c = active \<and> digit_value c \<noteq> None)"

lemma digit_run_eats:
  "digit_run active number s = r \<Longrightarrow>
   (case r of Inl t \<Rightarrow> \<exists>v. eats v s t
    | Inr (active', number', t) \<Rightarrow>
        \<exists>v. number' = number @ map number_char v \<and> eats v s t \<and> (v = [] \<longrightarrow> active' = active)
          \<and> (v \<noteq> [] \<longrightarrow> one_script active' v \<and> (active = None \<or> active = active') \<and> active' \<noteq> None))"
proof (induction active number s arbitrary: r rule: digit_run.induct)
  case (1 active number s)
  show ?case
  proof (cases "lx_rest s")
    case Nil
    with 1(2) show ?thesis by (subst (asm) digit_run.simps) (auto simp: one_script_def)
  next
    case (Cons c cs)
    show ?thesis
    proof (cases "digit_value c")
      case None
      with 1(2) Cons show ?thesis by (subst (asm) digit_run.simps) (auto simp: one_script_def)
    next
      case (Some d)
      note dv = this
      obtain b where b: "digit_block_base c = Some b" using digit_block_of_value [OF Some] by blast
      show ?thesis
      proof (cases "active = None \<or> active = digit_block_base c")
        case False
        with 1(2) Cons Some show ?thesis
          by (subst (asm) digit_run.simps) auto
      next
        case True
        with 1(2) Cons Some have rr: "digit_run (digit_block_base c) (number @ [48 + d]) (advance s) = r"
          by (subst (asm) digit_run.simps) auto
        note IH = 1(1) [OF Cons Some True this]
        show ?thesis
        proof (cases r)
          case (Inl t)
          with IH show ?thesis using eats_some [OF advance_eats] by simp
        next
          case (Inr x)
          obtain act num t where x: "x = (act, num, t)" by (cases x)
          from IH Inr x obtain v where v: "num = (number @ [48 + d]) @ map number_char v" "eats v (advance s) t"
              "v = [] \<longrightarrow> act = digit_block_base c"
              "v \<noteq> [] \<longrightarrow> one_script act v \<and> (digit_block_base c = None \<or> digit_block_base c = act) \<and> act \<noteq> None"
            by auto
          have "one_script act (c # v) \<and> (active = None \<or> active = act) \<and> act \<noteq> None"
            using v(3,4) b dv True by (cases "v = []") (auto simp: one_script_def)
          moreover have "num = number @ map number_char (c # v)" using v(1) dv by (simp add: number_char_def)
          moreover have "eats (c # v) s t" using eats_trans [OF eats_advance [OF Cons] v(2)] by simp
          ultimately show ?thesis using Inr x by (auto intro!: exI [of _ "c # v"])
        qed
      qed
    qed
  qed
qed

lemma number_char_ascii [simp]: "is_ascii_digit c \<Longrightarrow> number_char c = c"
proof -
  assume "is_ascii_digit c"
  then have "digit_value c = Some (c - 48)"
    using digit_value_in [of 48 "c - 48"] by (auto simp: is_ascii_digit_def is_script_def DIGIT_BLOCKS_def)
  then show ?thesis using \<open>is_ascii_digit c\<close> by (simp add: number_char_def is_ascii_digit_def)
qed

lemma exponent_marks: "digit_value 101 = None" "digit_value 69 = None" "digit_value 43 = None" "digit_value 45 = None"
  by (simp_all add: digit_value_def DIGIT_BLOCKS_def in_block_def)

lemma decimal_separators: "decimal_separator b = 46 \<or> decimal_separator b = 0x66B"
  by (auto simp: decimal_separator_def SCRIPT_SEPARATORS_def)

lemma number_char_marks [simp]:
  "number_char 101 = 101" "number_char 69 = 69" "number_char 43 = 43" "number_char 45 = 45" "number_char 46 = 46"
  "number_char (decimal_separator b) = 46"
  using decimal_separators [of b] not_digits by (auto simp: number_char_def exponent_marks)

lemma exponent_run_eats:
  assumes "exponent_run number s = Some (number', t)"
  shows "\<exists>v. number' = number @ map number_char v \<and> eats v s t"
proof -
  from assms obtain c cs where s: "lx_rest s = c # cs" and c: "c = 101 \<or> c = 69"
    by (auto simp: exponent_run_def split: list.splits if_splits)
  let ?s1 = "advance s"
  have e1: "eats [c] s ?s1" by (rule eats_advance [OF s])
  obtain sign s2 where sign: "(case lx_rest ?s1 of e # _ \<Rightarrow> if e = 43 \<or> e = 45 then ([e], advance ?s1) else ([], ?s1) | [] \<Rightarrow> ([], ?s1)) = (sign, s2)"
    by fastforce
  then have e2: "eats sign ?s1 s2" "map number_char sign = sign"
    by (auto split: list.splits if_splits intro: eats_advance)
  obtain ds s3 where ds: "take_run is_ascii_digit s2 = (ds, s3)" by fastforce
  have nds: "map number_char ds = ds" using eats_run [OF ds] by (auto intro!: map_idI dest: set_takeWhileD)
  have "eats (c # sign @ ds) s s3" using takes_then [OF eats_trans [OF e1 e2(1)] ds] by simp
  moreover have "number' = number @ c # sign @ ds" "t = s3"
    using assms s c sign ds by (auto simp: exponent_run_def Let_def)
  ultimately show ?thesis using c e2(2) nds by (intro exI [of _ "c # sign @ ds"]) auto
qed

lemma number_end_lexes:
  assumes e: "eats u s t" and u: "u \<noteq> []" and n: "number = map number_char u"
    and one: "\<not> is_float \<Longrightarrow> \<exists>b. \<forall>c \<in> set u. digit_block_base c = Some b"
  shows "lexes written start s (number_end is_float number start t)"
proof -
  have flt: "lexes written start s (float_token (map number_char v) start w)" if "eats v s w" "v \<noteq> []" for v w
    using that by (auto simp: float_token_def split: option.split intro: lexes_token lexes_refuse)
  show ?thesis
  proof (cases "exponent_run number t")
    case None
    then show ?thesis using e u one n flt [OF e u]
      by (auto simp: number_end_def integer_token_def split: option.split intro!: lexes_token [OF e u] lexes_refuse [OF e u])
  next
    case (Some x)
    obtain num w where x: "x = (num, w)" by fastforce
    with Some exponent_run_eats obtain v where "num = number @ map number_char v" "eats v t w" by blast
    with n eats_trans [OF e] have "num = map number_char (u @ v)" "eats (u @ v) s w" by auto
    with Some x u show ?thesis by (auto simp: number_end_def dest: flt)
  qed
qed

lemma fraction_ahead_rest:
  "fraction_ahead active s \<Longrightarrow> \<exists>c cs. lx_rest s = c # cs \<and> number_char c = 46"
  by (auto simp: fraction_ahead_def split: list.splits)

lemma plain_number_lexes:
  assumes s: "lx_rest s = c # cs" and c: "digit_value c = Some d"
  shows "lexes written start s (plain_number start s)"
proof -
  obtain b where b: "digit_block_base c = Some b" using digit_block_of_value [OF c] by blast
  have e1: "eats [c] s (advance s)" by (rule eats_advance [OF s])
  have mixed: "lexes written start s (mixed_script_error start t)" if "eats [c] s m" "\<exists>v. eats v m t" for m t
    using eats_trans [OF that(1)] that(2) by (auto simp: mixed_script_error_def intro!: lexes_refuse)
  have run: "digit_run None [] s = digit_run (Some b) [48 + d] (advance s)"
    by (subst digit_run.simps) (simp add: s c b)
  show ?thesis
  proof (cases "digit_run (Some b) [48 + d] (advance s)")
    case (Inl t)
    with digit_run_eats [OF Inl] run show ?thesis by (auto simp: plain_number_def intro!: mixed [OF e1])
  next
    case (Inr x)
    obtain act num t where x: "x = (act, num, t)" by (cases x)
    from digit_run_eats [OF Inr] x obtain v where v: "num = [48 + d] @ map number_char v" "eats v (advance s) t"
        "v = [] \<longrightarrow> act = Some b" "v \<noteq> [] \<longrightarrow> one_script act v \<and> Some b = act"
      by auto
    have n: "num = map number_char (c # v)" using v(1) c by (simp add: number_char_def)
    have e2: "eats (c # v) s t" using eats_trans [OF e1 v(2)] by simp
    have act: "act = Some b" "\<forall>x \<in> set (c # v). digit_block_base x = Some b"
      using v(3,4) b by (auto simp: one_script_def)
    show ?thesis
    proof (cases "fraction_ahead act t")
      case False
      with run Inr x act show ?thesis
        by (auto simp: plain_number_def intro!: number_end_lexes [OF e2 _ n])
    next
      case True
      then obtain p ps where p: "lx_rest t = p # ps" "number_char p = 46" using fraction_ahead_rest by blast
      have e3: "eats (c # v @ [p]) s (advance t)" using eats_trans [OF e2 eats_advance [OF p(1)]] by simp
      show ?thesis
      proof (cases "digit_run act (num @ [46]) (advance t)")
        case (Inl w)
        have "\<exists>u. eats u (advance s) w"
          using eats_some [OF exI [of "\<lambda>v. eats v (advance s) t", OF v(2)] eats_some [OF advance_eats]] digit_run_eats [OF Inl] by simp
        with run Inr x True Inl show ?thesis by (auto simp: plain_number_def intro!: mixed [OF e1])
      next
        case R: (Inr y)
        obtain act' num' w where y: "y = (act', num', w)" by (cases y)
        from digit_run_eats [OF R] y obtain v' where v': "num' = (num @ [46]) @ map number_char v'" "eats v' (advance t) w"
          by auto
        have "num' = map number_char (c # v @ [p] @ v')" using v'(1) n p(2) by simp
        moreover have "eats (c # v @ [p] @ v') s w" using eats_trans [OF e3 v'(2)] by simp
        ultimately show ?thesis using run Inr x True R y
          by (auto simp: plain_number_def intro!: number_end_lexes)
      qed
    qed
  qed
qed

lemma base_char_lexes:
  assumes "lx_rest s = 48 # p # cs" "base_prefix_of p = Some (k, radix, name)"
  shows "lexes written start s (lex_base_char_literal start radix name s)"
proof -
  obtain ds t where l: "take_run (base_digit radix) (advances 2 s) = (ds, t)" by fastforce
  have "eats [48, p] s (advances 2 s)" using advances_eats [of "[48, p]" s 2] assms by simp
  from takes_then [OF this l] have e: "eats (48 # p # ds) s t" by simp
  have "list_all (base_digit radix) ds" using eats_run [OF l] by (auto simp: list_all_iff dest: set_takeWhileD)
  then show ?thesis using assms(2)
    by (auto simp: lex_base_char_literal_def l split: option.split intro!: lexes_token [OF e] lexes_refuse [OF e])
qed

lemma number_lexes:
  assumes s: "lx_rest s = c # cs" and c: "digit_value c = Some d"
  shows "lexes written start s (lex_number start s)"
proof (cases "if peek_ahead 0 s = Some 48 then Option.bind (peek_ahead 1 s) base_prefix_of else None")
  case None
  then show ?thesis using plain_number_lexes [OF assms] by (simp add: lex_number_def)
next
  case (Some x)
  obtain k radix name where x: "x = (k, radix, name)" by (cases x)
  from Some s x obtain p ds where p: "lx_rest s = 48 # p # ds" "base_prefix_of p = Some (k, radix, name)"
    by (auto simp: peek_rest split: if_splits list.splits)
  have "written (TMark k) [48, p]" using p(2) by (auto simp: base_prefix_of_def split: if_splits)
  then show ?thesis using p base_char_lexes [OF p] Some x
    by (auto simp: lex_number_def intro!: lexes_emit)
qed

section \<open>The next token\<close>

lemma pre_hot_lexes:
  assumes "lx_rest s = 0xB0 # c # cs"
  shows "lexes written start s (pre_hot_token a start s)"
proof -
  have e1: "eats [0xB0] s (advance s)" by (rule eats_advance [OF assms])
  obtain u t where l: "take_run (is_ident_continue (alphanumeric a)) (advance s) = (u, t)" by fastforce
  have e: "eats (0xB0 # u) s t" using takes_then [OF e1 l] by simp
  have "u \<noteq> [] \<Longrightarrow> last u = 0xB0 \<Longrightarrow> butlast u @ [0xB0] = u" by (metis append_butlast_last_id)
  then show ?thesis using e
    by (auto simp: pre_hot_token_def lex_identifier_def l token_at_def [of "TkIdent _"] token_at_def [of "TkHotIdent _"] Let_def
          intro!: lexes_token simp del: starts_with_Cons)
qed

lemma start_continues:
  assumes "is_ident_start (alphabetic a) c"
  shows "is_ident_continue (alphanumeric a) c"
proof (cases "c = 95")
  case True
  moreover have "is_ident_continue (\<lambda>c. False) 95"
    by (simp add: is_ident_continue_def is_invisible_char_def is_control_def invisible_ranges_def)
  ultimately show ?thesis by (auto simp: is_ident_continue_def split: if_splits)
next
  case False
  with assms show ?thesis
    by (auto simp: is_ident_start_def is_ident_continue_def alphanumeric_def split: if_splits)
qed

lemma string_lexes: "lx_rest s = 34 # cs \<Longrightarrow> lexes written start s (lex_string a start s)"
  unfolding lex_string_def
  by (rule string_loop_lexes [where v = "[]" and w = "[]"]) (auto intro: eats_advance no_parts raw_nothing)

lemma remaining_lexes: "lx_rest s = c # cs \<Longrightarrow> lexes written start s (remaining_token a c start s)"
  unfolding remaining_token_def
  by (auto simp: looking_def peek_rest unknown_character_def Let_def split: list.splits
        intro!: hash_lexes lexes_emit string_lexes char_lexes number_lexes pre_hot_lexes identifier_lexes start_continues
          lexes_refuse [OF eats_advance])

end
