(* ===== verification/ZyTokenize.thy ===== *)
theory ZyTokenize imports ZyLexedLits begin

text \<open>
  The lexer as a whole (crates/zymbol-lexer/src/lib.rs, tokenize): it answers on every source, its
  tokens tile the source, and what is printed as tokens is read as these tokens.
\<close>

lemma first_token_lexes:
  "(\<And>f r. f \<in> set fs \<Longrightarrow> f start s = Some r \<Longrightarrow> lexes written start s r) \<Longrightarrow>
   first_token fs start s = Some r \<Longrightarrow> lexes written start s r"
  by (induction fs) (auto split: option.splits)

lemma parts_lexes: "first_token (token_parts a) start s = Some r \<Longrightarrow> lexes written start s r"
  by (rule first_token_lexes [where fs = "token_parts a"])
     (auto simp: token_parts_def split: if_splits
       intro: io_lexes variable_lexes if_lexes match_lexes loop_lexes function_lexes collection_lexes angle_lexes
         sign_lexes dollar_lexes)

text \<open>A token is either the end, or it takes some text.\<close>

lemma next_token_cases:
  obtains w where "eats w s (skip_whitespace_only s)" "list_all is_whitespace w"
    and "lx_rest (skip_whitespace_only s) = []
           \<and> next_token a s = token_at TkEof (lx_position (skip_whitespace_only s)) (skip_whitespace_only s)
         \<or> lexes written (lx_position (skip_whitespace_only s)) (skip_whitespace_only s) (next_token a s)"
proof -
  obtain w t where w: "take_run is_whitespace s = (w, t)" by fastforce
  note r = eats_run [OF this]
  have "lx_rest t = [] \<and> next_token a s = token_at TkEof (lx_position t) t \<or> lexes written (lx_position t) t (next_token a s)"
    using w by (auto simp: next_token_def skip_whitespace_only_def Let_def comment_lexes parts_lexes remaining_lexes
        split: option.split list.split)
  with r w that show ?thesis
    by (auto simp: skip_whitespace_only_def list_all_iff dest: set_takeWhileD)
qed

lemma next_token_shorter:
  assumes "next_token a s = (t, s')" "tk_kind t \<noteq> TkEof"
  shows "length (lx_rest s') < length (lx_rest s)"
proof -
  obtain w where w: "eats w s (skip_whitespace_only s)"
    and c: "lx_rest (skip_whitespace_only s) = []
           \<and> next_token a s = token_at TkEof (lx_position (skip_whitespace_only s)) (skip_whitespace_only s)
         \<or> lexes written (lx_position (skip_whitespace_only s)) (skip_whitespace_only s) (next_token a s)"
    by (rule next_token_cases)
  from c assms have "lexes written (lx_position (skip_whitespace_only s)) (skip_whitespace_only s) (t, s')"
    by (auto simp: token_at_def)
  then obtain u v where "u \<noteq> []" "eats (u @ v) (skip_whitespace_only s) s'" by (auto simp: lexes_def)
  with w show ?thesis by (simp add: eats_def)
qed

section \<open>The whole source\<close>

function tokens_from :: "letters \<Rightarrow> lexer \<Rightarrow> token list \<times> lexer" where
  "tokens_from a s =
     (case next_token a s of (t, s1) \<Rightarrow>
        if tk_kind t = TkEof then ([t], s1)
        else (case tokens_from a s1 of (ts, s2) \<Rightarrow> (t # ts, s2)))"
  by pat_completeness auto
termination
  by (relation "measure (\<lambda>(a, s). length (lx_rest s))") (auto dest: next_token_shorter [OF sym])

declare tokens_from.simps [simp del]

definition tokenize :: "letters \<Rightarrow> ustring \<Rightarrow> nat \<Rightarrow> token list \<times> diagnostic list" where
  "tokenize a source file =
     (case tokens_from a (new_lexer source file) of (ts, s) \<Rightarrow> (ts, lx_diagnostics s))"

text \<open>
  A list of tokens tiles a text: before each token stands white space, the token's span is exactly the
  text it takes, that text is how the token is written, and only behind an error is text passed over.
\<close>

inductive tiles :: "nat \<Rightarrow> position \<Rightarrow> ustring \<Rightarrow> token list \<Rightarrow> bool" for fid :: nat where
  tiles_end: "list_all is_whitespace w \<Longrightarrow>
     tiles fid p w [\<lparr>tk_kind = TkEof, tk_span = \<lparr>sp_start = after_text w p, sp_end = after_text w p, file_id = fid\<rparr>\<rparr>]"
| tiles_token: "list_all is_whitespace w \<Longrightarrow> u \<noteq> [] \<Longrightarrow> written k u \<Longrightarrow> v = [] \<or> (\<exists>m. k = TkError m) \<Longrightarrow>
     tiles fid (after_text (w @ u @ v) p) rest ts \<Longrightarrow>
     tiles fid p (w @ u @ v @ rest)
       (\<lparr>tk_kind = k, tk_span = \<lparr>sp_start = after_text w p, sp_end = after_text (w @ u) p, file_id = fid\<rparr>\<rparr> # ts)"

lemma tokens_tile: "tokens_from a s = (ts, s') \<Longrightarrow> tiles (lx_file s) (lx_position s) (lx_rest s) ts"
proof (induction a s arbitrary: ts s' rule: tokens_from.induct)
  case (1 a s)
  obtain t s1 where n: "next_token a s = (t, s1)" by fastforce
  let ?m = "skip_whitespace_only s"
  obtain w where w: "eats w s ?m" "list_all is_whitespace w"
    and c: "lx_rest ?m = [] \<and> next_token a s = token_at TkEof (lx_position ?m) ?m
         \<or> lexes written (lx_position ?m) ?m (next_token a s)"
    by (rule next_token_cases)
  from w(1) have m: "lx_rest s = w @ lx_rest ?m" "lx_position ?m = after_text w (lx_position s)" "lx_file ?m = lx_file s"
    by (simp_all add: eats_def)
  show ?case
  proof (cases "tk_kind t = TkEof")
    case True
    have "\<not> lexes written (lx_position ?m) ?m (t, s1)" using True by (simp add: lexes_def)
    with c n have "lx_rest ?m = []" "t = fst (token_at TkEof (lx_position ?m) ?m)"
      by (auto simp: token_at_def)
    moreover have "ts = [t]" using 1(2) n True by (subst (asm) tokens_from.simps) simp
    ultimately show ?thesis
      using tiles_end [OF w(2), of "lx_file s" "lx_position s"] m by (simp add: token_at_def span_from_def)
  next
    case False
    with c n have "lexes written (lx_position ?m) ?m (t, s1)" by (auto simp: token_at_def)
    then obtain u v where u: "u \<noteq> []" "written (tk_kind t) u" "eats (u @ v) ?m s1" "v = [] \<or> (\<exists>m. tk_kind t = TkError m)"
      "tk_span t = \<lparr>sp_start = lx_position ?m, sp_end = after_text u (lx_position ?m), file_id = lx_file ?m\<rparr>"
      by (auto simp: lexes_def)
    obtain ts1 s2 where r: "tokens_from a s1 = (ts1, s2)" by fastforce
    from 1(1) [OF n [symmetric] False r] have "tiles (lx_file s1) (lx_position s1) (lx_rest s1) ts1" .
    with u(3) m have "tiles (lx_file s) (after_text (w @ u @ v) (lx_position s)) (lx_rest s1) ts1" by (simp add: eats_def)
    from tiles_token [OF w(2) u(1,2,4) this] have
      "tiles (lx_file s) (lx_position s) (lx_rest s)
         (\<lparr>tk_kind = tk_kind t, tk_span = \<lparr>sp_start = after_text w (lx_position s), sp_end = after_text (w @ u) (lx_position s),
            file_id = lx_file s\<rparr>\<rparr> # ts1)"
      using u(3) m by (simp add: eats_def)
    moreover have "ts = t # ts1" using 1(2) n False r by (subst (asm) tokens_from.simps) simp
    ultimately show ?thesis using u(5) m by (cases t) simp
  qed
qed


section \<open>Reading what was written\<close>

definition reads :: "letters \<Rightarrow> lexer \<Rightarrow> token_kind \<Rightarrow> ustring \<Rightarrow> bool" where
  "reads a s k cs \<longleftrightarrow>
     tk_kind (fst (next_token a s)) = k \<and> lx_rest (snd (next_token a s)) = cs
     \<and> lx_diagnostics (snd (next_token a s)) = lx_diagnostics s"

lemma next_token_at:
  "lx_rest s = c # cs \<Longrightarrow> \<not> is_whitespace c \<Longrightarrow>
   next_token a s =
     (case try_parse_comment (lx_position s) s of
        Some r \<Rightarrow> r
      | None \<Rightarrow> (case first_token (token_parts a) (lx_position s) s of
                   Some r \<Rightarrow> r
                 | None \<Rightarrow> remaining_token a c (lx_position s) s))"
  by (simp add: next_token_def skip_whitespace_only_def take_run_def Let_def split: option.split)

lemma rest_advance [simp]: "lx_rest (advance s) = tl (lx_rest s)"
  by (cases "lx_rest s") (simp_all add: advance_def)

lemma diagnostics_advance [simp]: "lx_diagnostics (advance s) = lx_diagnostics s"
  by (simp add: advance_def split: list.split)

lemma diagnostics_advances [simp]: "lx_diagnostics (advances n s) = lx_diagnostics s"
  by (induction n arbitrary: s) simp_all

lemmas reading =
  reads_def next_token_at is_whitespace_def try_parse_comment_def looking_def token_parts_def peek_rest
  try_parse_io_token_def try_parse_variable_token_def try_parse_if_token_def try_parse_match_token_def
  try_parse_loop_token_def try_parse_function_token_def try_parse_collection_token_def angle_token_def
  sign_token_def bang_token_def try_parse_collection_op_def emit_def token_at_def Let_def

definition stands_alone :: "letters \<Rightarrow> ustring \<Rightarrow> bool" where
  "stands_alone a cs = (case cs of [] \<Rightarrow> True | c # _ \<Rightarrow> c = 32 \<and> \<not> alphanumeric a c)"

lemma io_reads:
  "lx_rest s = io_spelling k @ cs \<Longrightarrow> stands_alone a cs \<Longrightarrow> k \<noteq> TkBashClose \<Longrightarrow> reads a s (TIo k) cs"
  by (cases k; cases cs) (simp_all add: reading stands_alone_def)

lemma assign_reads: "lx_rest s = assign_spelling k @ cs \<Longrightarrow> stands_alone a cs \<Longrightarrow> reads a s (TAssign k) cs"
  by (cases k; cases cs) (simp_all add: reading stands_alone_def)


lemma operator_reads: "lx_rest s = operator_spelling k @ cs \<Longrightarrow> stands_alone a cs \<Longrightarrow> reads a s (TOperator k) cs"
  by (cases k; cases cs) (simp_all add: reading stands_alone_def remaining_token_def)

lemma dollar_reads: "lx_rest s = dollar_spelling k @ cs \<Longrightarrow> stands_alone a cs \<Longrightarrow> reads a s (TDollar k) cs"
  by (cases k; cases cs) (simp_all add: reading stands_alone_def)

lemma space_continues: "\<not> alphanumeric a 32 \<Longrightarrow> \<not> is_ident_continue (alphanumeric a) 32"
  by (simp add: is_ident_continue_def is_whitespace_def)

lemma flow_reads: "lx_rest s = flow_spelling k @ cs \<Longrightarrow> stands_alone a cs \<Longrightarrow> reads a s (TFlow k) cs"
  by (cases k; cases cs) (simp_all add: reading stands_alone_def space_continues)

lemma mark_reads:
  "lx_rest s = mark_spelling k @ cs \<Longrightarrow> stands_alone a cs \<Longrightarrow>
   k \<notin> {TkBaseBinary, TkBaseOctal, TkBaseDecimal, TkBaseHex} \<Longrightarrow> reads a s (TMark k) cs"
  by (cases k; cases cs) (simp_all add: reading stands_alone_def)

lemma digit_value_space: "digit_value 32 = None"
  by (simp add: digit_value_def DIGIT_BLOCKS_def in_block_def)

lemma hash_reads: "lx_rest s = hash_spelling k @ cs \<Longrightarrow> stands_alone a cs \<Longrightarrow> reads a s (THash k) cs"
  by (cases k; cases cs)
     (simp_all add: reading stands_alone_def remaining_token_def hash_mark_token_def double_hash_token_def space_continues digit_value_space)


lemma ascii_digit_value: "is_ascii_digit c \<Longrightarrow> digit_value c = Some (c - 48) \<and> digit_block_base c = Some 48"
proof -
  have "is_script 48" by (simp add: is_script_def DIGIT_BLOCKS_def)
  then show "is_ascii_digit c \<Longrightarrow> digit_value c = Some (c - 48) \<and> digit_block_base c = Some 48"
    using digit_value_in [of 48 "c - 48"] digit_block_base_in [of 48 "c - 48"] by (auto simp: is_ascii_digit_def)
qed

lemma digit_value_ascii: "digit_value 48 = Some 0" "digit_value 49 = Some 1"
  using ascii_digit_value [of 48] ascii_digit_value [of 49] by (simp_all add: is_ascii_digit_def)

lemma boolean_reads: "lx_rest s = 35 # (if b then 49 else 48) # cs \<Longrightarrow> stands_alone a cs \<Longrightarrow> reads a s (TkBoolean b) cs"
  by (cases cs; cases "tl cs")
     (simp_all add: reading stands_alone_def remaining_token_def hash_mark_token_def hash_digit_token_def numeral_switch_def
        digit_value_ascii digit_value_space)

definition plain_name :: "letters \<Rightarrow> ustring \<Rightarrow> bool" where
  "plain_name a x \<longleftrightarrow>
     (case x of
        [] \<Rightarrow> False
      | c # _ \<Rightarrow> is_ident_start (alphabetic a) c \<and> \<not> is_whitespace c \<and> \<not> is_operator_char c \<and> digit_value c = None
          \<and> c \<notin> {34, 39, 0xB0})
     \<and> list_all (\<lambda>c. is_ident_continue (alphanumeric a) c \<and> \<not> is_operator_char c) x \<and> last x \<noteq> 0xB0 \<and> x \<noteq> [95]"

lemma not_a_mark:
  assumes "lx_rest s = c # cs" "\<not> is_operator_char c" "c = 95 \<longrightarrow> (\<exists>d ds. cs = d # ds \<and> d \<noteq> 63 \<and> is_ident_continue (alphanumeric a) d)"
  shows "try_parse_comment start s = None \<and> first_token (token_parts a) start s = None"
  using assms
  by (auto simp: reading is_operator_char_def)

lemma ident_reads: "lx_rest s = x @ cs \<Longrightarrow> stands_alone a cs \<Longrightarrow> plain_name a x \<Longrightarrow> reads a s (TkIdent x) cs"
proof -
  assume r: "lx_rest s = x @ cs" "stands_alone a cs" "plain_name a x"
  obtain c ys where x: "x = c # ys" using r(3) by (cases x) (auto simp: plain_name_def)
  note c = r(3) [unfolded plain_name_def x, simplified]
  have run: "takeWhile (is_ident_continue (alphanumeric a)) (c # ys @ cs) = c # ys"
    using c r(2) space_continues by (auto simp: stands_alone_def takeWhile_append list_all_iff split: list.splits)
  have m: "try_parse_comment (lx_position s) s = None \<and> first_token (token_parts a) (lx_position s) s = None"
  proof (rule not_a_mark)
    show "lx_rest s = c # ys @ cs" "\<not> is_operator_char c" using r(1) x c by simp_all
    show "c = 95 \<longrightarrow> (\<exists>d ds. ys @ cs = d # ds \<and> d \<noteq> 63 \<and> is_ident_continue (alphanumeric a) d)"
      using c by (cases ys) (auto simp: is_operator_char_def)
  qed
  have "c \<noteq> 35" "c \<noteq> 124" using c by (auto simp: is_operator_char_def)
  with c run r(1) x m show ?thesis
    by (simp add: reads_def next_token_at remaining_token_def lex_identifier_def take_run_def token_at_def Let_def looking_def)
qed

lemma plain_string_loop:
  "lx_rest s = t @ 34 # cs \<Longrightarrow> list_all (\<lambda>c. c \<notin> {34, 92, 123, 125}) t \<Longrightarrow>
   tk_kind (fst (lex_string_loop a start [] body False s)) = TkString (body @ t)
   \<and> lx_rest (snd (lex_string_loop a start [] body False s)) = cs
   \<and> lx_diagnostics (snd (lex_string_loop a start [] body False s)) = lx_diagnostics s"
proof (induction t arbitrary: s body)
  case Nil
  then show ?case by (subst (1 2 3) lex_string_loop.simps) (auto simp: token_at_def string_token_def add_text_def)
next
  case (Cons c t)
  have "lex_string_loop a start [] body False s = lex_string_loop a start [] (body @ [c]) False (advance s)"
    using Cons.prems by (subst lex_string_loop.simps) simp
  with Cons show ?case by simp
qed

lemma not_marks: "\<not> is_operator_char 34" "\<not> is_operator_char 39" "\<not> is_whitespace 34" "\<not> is_whitespace 39"
  by (simp_all add: is_operator_char_def is_whitespace_def)

lemma string_reads:
  "lx_rest s = 34 # t @ 34 # cs \<Longrightarrow> list_all (\<lambda>c. c \<notin> {34, 92, 123, 125}) t \<Longrightarrow> reads a s (TkString t) cs"
  using plain_string_loop [of "advance s" t cs a "lx_position s" "[]"]
  by (simp add: reads_def next_token_at not_marks not_a_mark remaining_token_def lex_string_def looking_def)

lemma char_reads: "lx_rest s = [39, c, 39] @ cs \<Longrightarrow> c \<noteq> 92 \<Longrightarrow> reads a s (TkChar c) cs"
  by (simp add: reads_def next_token_at not_marks not_a_mark remaining_token_def lex_char_def close_char_def looking_def
      peek_rest token_at_def Let_def)

lemma digit_run_ascii:
  "list_all is_ascii_digit ds \<Longrightarrow> lx_rest s = ds @ cs \<Longrightarrow> cs = [] \<or> digit_value (hd cs) = None \<Longrightarrow> b = None \<or> b = Some 48 \<Longrightarrow>
   \<exists>b' s'. digit_run b number s = Inr (b', number @ ds, s') \<and> lx_rest s' = cs \<and> lx_diagnostics s' = lx_diagnostics s
     \<and> (b' = None \<or> b' = Some 48)"
proof (induction ds arbitrary: s b number)
  case Nil
  then show ?case by (subst digit_run.simps) (auto split: list.split)
next
  case (Cons d ds)
  have d: "digit_value d = Some (d - 48)" "digit_block_base d = Some 48" "48 + (d - 48) = d"
    using Cons.prems(1) ascii_digit_value [of d] by (auto simp: is_ascii_digit_def)
  have "digit_run b number s = digit_run (Some 48) (number @ [d]) (advance s)"
    using Cons.prems d by (subst digit_run.simps) (auto simp: d)
  with Cons.IH [of "advance s" "Some 48" "number @ [d]"] Cons.prems show ?case by simp
qed

lemma integer_reads:
  "lx_rest s = show_nat n @ cs \<Longrightarrow> stands_alone a cs \<Longrightarrow> in_int_range (int n) \<Longrightarrow> reads a s (TkInteger (int n)) cs"
proof -
  assume r: "lx_rest s = show_nat n @ cs" "stands_alone a cs" "in_int_range (int n)"
  obtain c ys where n: "show_nat n = c # ys" by (cases "show_nat n") auto
  have ds: "list_all is_ascii_digit (c # ys)" using show_nat_digits [of n] n by simp
  then have c: "is_ascii_digit c" by simp
  have m: "try_parse_comment (lx_position s) s = None \<and> first_token (token_parts a) (lx_position s) s = None"
    by (rule not_a_mark) (use r n c in \<open>auto simp: is_ascii_digit_def is_operator_char_def\<close>)
  have cs: "cs = [] \<or> digit_value (hd cs) = None" "cs = [] \<or> hd cs = 32"
    using r(2) digit_value_space by (auto simp: stands_alone_def split: list.splits)
  have pre: "(if peek_ahead 0 s = Some 48 then Option.bind (peek_ahead 1 s) base_prefix_of else None) = None"
    using r(1) n cs(2) ds by (cases ys) (auto simp: peek_rest base_prefix_of_def is_ascii_digit_def split: list.split)
  obtain b' s' where run: "digit_run None [] s = Inr (b', show_nat n, s')" "lx_rest s' = cs" "lx_diagnostics s' = lx_diagnostics s"
    using digit_run_ascii [OF ds, of s cs None "[]"] r(1) n cs(1) by auto
  have "decimal_separator b \<noteq> 32" for b using decimal_separators [of b] by auto
  then have fr: "\<not> fraction_ahead b' s'" using run(2) cs(2)
    by (auto simp: fraction_ahead_def split: list.splits)
  have ex: "exponent_run v s' = None" for v using run(2) cs(2) by (auto simp: exponent_run_def split: list.splits)
  have "parse_i64 (show_nat n) = Some (int n)"
    using parse_i64_show_int [of "int n"] r(3)
    by (simp add: show_int_def checked_i64_def in_int_range_def in_i64_def ZY_INT_MAX_def ZY_INT_MIN_def i64_min_def i64_max_def)
  with pre run fr ex r(3) have "tk_kind (fst (lex_number start s)) = TkInteger (int n) \<and> lx_rest (snd (lex_number start s)) = cs
      \<and> lx_diagnostics (snd (lex_number start s)) = lx_diagnostics s" for start
    by (simp add: lex_number_def plain_number_def number_end_def integer_token_def token_at_def)
  moreover have "next_token a s = lex_number (lx_position s) s"
    using m r(1) n c ascii_digit_value [OF c]
    by (auto simp: next_token_at remaining_token_def looking_def is_ascii_digit_def is_whitespace_def)
  ultimately show ?thesis by (simp add: reads_def)
qed

section \<open>A program as a sequence of tokens\<close>

text \<open>The tokens whose spelling is read back whatever stands around it.\<close>

definition prints :: "letters \<Rightarrow> token_kind \<Rightarrow> bool" where
  "prints a k =
     (case k of
        TIo t \<Rightarrow> t \<noteq> TkBashClose
      | TAssign _ \<Rightarrow> True
      | TOperator _ \<Rightarrow> True
      | TDollar _ \<Rightarrow> True
      | TFlow _ \<Rightarrow> True
      | TMark m \<Rightarrow> m \<notin> {TkBaseBinary, TkBaseOctal, TkBaseDecimal, TkBaseHex}
      | THash _ \<Rightarrow> True
      | TkIdent x \<Rightarrow> plain_name a x
      | TkInteger n \<Rightarrow> 0 \<le> n \<and> in_int_range n
      | TkBoolean _ \<Rightarrow> True
      | TkString t \<Rightarrow> list_all (\<lambda>c. c \<notin> {34, 92, 123, 125}) t
      | TkChar c \<Rightarrow> c \<noteq> 92
      | _ \<Rightarrow> False)"

lemma printed_reads:
  assumes "prints a k" "lx_rest s = spelling k @ cs" "stands_alone a cs"
  shows "reads a s k cs"
proof (cases k)
  case (TkInteger n)
  with assms integer_reads [of s "nat n" cs a] show ?thesis by (simp add: prints_def show_int_def)
qed (use assms in \<open>auto simp: prints_def intro: io_reads assign_reads operator_reads dollar_reads flow_reads mark_reads hash_reads
    ident_reads boolean_reads string_reads char_reads\<close>)

lemma next_token_space: "lx_rest s = 32 # cs \<Longrightarrow> next_token a s = next_token a (advance s)"
  by (simp add: next_token_def skip_whitespace_only_def take_run_def is_whitespace_def Let_def)

lemma printed_rest:
  "join_with [32] (map spelling (k # ks)) = spelling k @ (if ks = [] then [] else 32 # join_with [32] (map spelling ks))"
  by (cases ks) simp_all

lemma next_token_end: "lx_rest s = [] \<Longrightarrow> next_token a s = token_at TkEof (lx_position s) s"
  by (simp add: next_token_def skip_whitespace_only_def take_run_def Let_def try_parse_comment_def looking_def)

lemma tokens_of_printed:
  "\<lbrakk>list_all (prints a) ks; \<not> alphanumeric a 32;
    lx_rest s = (if ks = [] then [] else w @ join_with [32] (map spelling ks)); w = [] \<or> w = [32]\<rbrakk> \<Longrightarrow>
   map tk_kind (fst (tokens_from a s)) = ks @ [TkEof] \<and> lx_diagnostics (snd (tokens_from a s)) = lx_diagnostics s"
proof (induction ks arbitrary: s w)
  case Nil
  then show ?case by (subst (1 2) tokens_from.simps) (simp add: next_token_end token_at_def)
next
  case (Cons k ks)
  let ?cs = "if ks = [] then [] else 32 # join_with [32] (map spelling ks)"
  define m where "m = (if w = [] then s else advance s)"
  have m: "lx_rest m = spelling k @ ?cs" "next_token a s = next_token a m" "lx_diagnostics m = lx_diagnostics s"
    using Cons.prems(3,4) next_token_space [of s _ a] by (auto simp: m_def printed_rest simp del: list.map join_with.simps)
  obtain t s1 where n: "next_token a m = (t, s1)" by fastforce
  have "reads a m k ?cs"
    by (rule printed_reads) (use Cons.prems m(1) in \<open>auto simp: stands_alone_def\<close>)
  with n have t: "tk_kind t = k" "lx_rest s1 = ?cs" "lx_diagnostics s1 = lx_diagnostics m" by (simp_all add: reads_def)
  have k: "tk_kind t \<noteq> TkEof" using Cons.prems(1) t(1) by (auto simp: prints_def)
  have "map tk_kind (fst (tokens_from a s1)) = ks @ [TkEof] \<and> lx_diagnostics (snd (tokens_from a s1)) = lx_diagnostics s1"
    by (rule Cons.IH [where w = "[32]"]) (use Cons.prems t(2) in auto)
  then show ?case using m n t k
    by (subst (1 2) tokens_from.simps) (simp add: case_prod_unfold)
qed

lemma printed_start:
  assumes "prints a k"
  shows "\<exists>c cs. spelling k = c # cs \<and> c \<noteq> 0xFEFF"
proof (cases k)
  case (TkIdent x)
  have "\<not> is_ident_start (alphabetic a) 0xFEFF"
    by (simp add: is_ident_start_def is_invisible_char_def invisible_ranges_def)
  with TkIdent assms show ?thesis by (cases x) (auto simp: prints_def plain_name_def)
next
  case (TkInteger n)
  obtain c cs where c: "show_nat (nat n) = c # cs" by (cases "show_nat (nat n)") auto
  moreover have "is_ascii_digit c" using show_nat_digits [of "nat n"] c by simp
  ultimately show ?thesis using TkInteger assms by (auto simp: prints_def show_int_def is_ascii_digit_def)
next
  case (TIo t)
  then show ?thesis by (cases t) auto
next
  case (TAssign t)
  then show ?thesis by (cases t) auto
next
  case (TOperator t)
  then show ?thesis by (cases t) auto
next
  case (TDollar t)
  then show ?thesis by (cases t) auto
next
  case (TFlow t)
  then show ?thesis by (cases t) auto
next
  case (TMark t)
  then show ?thesis by (cases t) auto
next
  case (THash t)
  then show ?thesis by (cases t) auto
qed (use assms in \<open>auto simp: prints_def\<close>)

lemma printed_tokens:
  assumes "list_all (prints a) ks" and "\<not> alphanumeric a 32"
  shows "map tk_kind (fst (tokenize a (join_with [32] (map spelling ks)) file)) = ks @ [TkEof]
    \<and> snd (tokenize a (join_with [32] (map spelling ks)) file) = []"
proof -
  let ?src = "join_with [32] (map spelling ks)"
  have "lx_rest (new_lexer ?src file) = ?src"
  proof (cases ks)
    case (Cons k rest)
    with assms(1) printed_start obtain c cs where "spelling k = c # cs" "c \<noteq> 0xFEFF" by fastforce
    with Cons show ?thesis by (simp add: new_lexer_def printed_rest del: list.map join_with.simps)
  qed (simp add: new_lexer_def)
  then have "map tk_kind (fst (tokens_from a (new_lexer ?src file))) = ks @ [TkEof]
      \<and> lx_diagnostics (snd (tokens_from a (new_lexer ?src file))) = []"
    using tokens_of_printed [OF assms, of "new_lexer ?src file" "[]"] by (simp add: new_lexer_def)
  then show ?thesis by (simp add: tokenize_def case_prod_unfold)
qed

text \<open>
  C7. Printing and lexing.  A program written as the spellings of its tokens with a space between two
  of them is read back as exactly these tokens and the end, with nothing reported: every fixed mark
  (but the close of a shell text, which only counts inside one, and the prefixes of bases), names,
  integers of the range, booleans, texts of plain characters and characters.
\<close>

theorem printed_program_is_read:
  assumes "list_all (prints a) ks" and "\<not> alphanumeric a 32"
  shows "map tk_kind (fst (tokenize a (join_with [32] (map spelling ks)) file)) = ks @ [TkEof]
    \<and> snd (tokenize a (join_with [32] (map spelling ks)) file) = []"
  using assms by (rule printed_tokens)

theorem printed_program_is_read_witness:
  "map tk_kind (fst (tokenize \<lparr>alphabetic = \<lambda>c. c = 120, numeric_char = \<lambda>c. False\<rparr>
      (join_with [32] (map spelling [TkIdent (U ''x''), TAssign TkConstAssign, TkInteger 42])) 0))
    = [TkIdent (U ''x''), TAssign TkConstAssign, TkInteger 42, TkEof]"
proof -
  let ?a = "\<lparr>alphabetic = \<lambda>c. c = 120, numeric_char = \<lambda>c. False\<rparr> :: letters"
  have "list_all (prints ?a) [TkIdent (U ''x''), TAssign TkConstAssign, TkInteger 42]"
    by (simp add: prints_def plain_name_def is_ident_start_def is_ident_continue_def is_invisible_char_def invisible_ranges_def
        is_control_def alphanumeric_def is_operator_char_def is_whitespace_def digit_value_def DIGIT_BLOCKS_def in_block_def
        in_int_range_def ZY_INT_MIN_def ZY_INT_MAX_def)
  from printed_program_is_read [OF this, of 0] show ?thesis by (simp add: alphanumeric_def)
qed

text \<open>
  C5. The lexer is lossless.  On every source it answers with tokens that tile the source: between
  tokens there is only white space, each token's span is the text it was read from, this text is how
  the token is written, a span's byte offsets and lines are those of the source, and text is passed
  over only behind a token that reports an error.
\<close>

theorem tokens_tile_the_source:
  "tiles file (lx_position (new_lexer source file)) (lx_rest (new_lexer source file)) (fst (tokenize a source file))"
  using tokens_tile [of a "new_lexer source file"] by (auto simp: tokenize_def new_lexer_def split: prod.split)

end
