(* ===== verification/ZyWalk.thy ===== *)
theory ZyWalk imports ZyAst begin

text \<open>
  The two walkers the semantic passes share (crates/zymbol-semantic/src/last_use.rs): the expressions
  of a statement, through nested blocks but not into a function declaration (walk_stmt_exprs), and
  the direct parts of an expression (walk_sub_exprs).  The source hands each expression to a closure;
  here the walkers answer the list of them in the order they are visited.
\<close>

section \<open>Parts\<close>

definition option_parts :: "'a option \<Rightarrow> 'a list" where
  "option_parts z = (case z of None \<Rightarrow> [] | Some x \<Rightarrow> [x])"

definition block_of :: "'s block option \<Rightarrow> 's list" where
  "block_of z = (case z of None \<Rightarrow> [] | Some b \<Rightarrow> blk_statements b)"

definition precision_expr :: "'e precision \<Rightarrow> 'e list" where
  "precision_expr p = (case p of PrecLiteral _ \<Rightarrow> [] | PrecDynamic e \<Rightarrow> [e])"

definition scan_precision_op :: "'e precision_op option \<Rightarrow> 'e list" where
  "scan_precision_op z =
     (case z of None \<Rightarrow> [] | Some (PrecRound p) \<Rightarrow> precision_expr p | Some (PrecTruncate p) \<Rightarrow> precision_expr p)"

definition steps_exprs :: "'e nav_path \<Rightarrow> 'e list" where
  "steps_exprs p = concat (map (\<lambda>s. nav_index s # option_parts (nav_range_end s)) (nav_steps p))"

definition pipe_exprs :: "'e pipe_arg list \<Rightarrow> 'e list" where
  "pipe_exprs as = concat (map (\<lambda>a. case a of Placeholder \<Rightarrow> [] | PipeExprArg e \<Rightarrow> [e]) as)"

definition range_or_comparison :: "'e pattern \<Rightarrow> 'e list" where
  "range_or_comparison p = (case p of PRange a b _ \<Rightarrow> [a, b] | PComparison _ e _ \<Rightarrow> [e] | _ \<Rightarrow> [])"

definition lambda_block :: "('e, 's) lambda_body \<Rightarrow> 's list" where
  "lambda_block b = (case b of LamExpr _ \<Rightarrow> [] | LamBlock b \<Rightarrow> blk_statements b)"

definition lambda_value :: "('e, 's) lambda_body \<Rightarrow> 'e list" where
  "lambda_value b = (case b of LamExpr e \<Rightarrow> [e] | LamBlock b \<Rightarrow> [])"

lemma option_parts_set [simp]: "x \<in> set (option_parts z) \<longleftrightarrow> z = Some x"
  by (auto simp: option_parts_def split: option.splits)

text \<open>The statements that stand in the blocks of a statement, but for a function declaration.\<close>

fun inner_statements :: "statement \<Rightarrow> statement list" where
  "inner_statements (SIf x) =
     blk_statements (if_then x) @ concat (map (\<lambda>b. blk_statements (ei_block b)) (if_else_ifs x)) @ block_of (if_else x)"
| "inner_statements (SLoop x) = blk_statements (lp_body x)"
| "inner_statements (STry x) =
     blk_statements (try_block x) @ concat (map (\<lambda>c. blk_statements (cc_block c)) (try_catches x))
     @ (case try_finally x of None \<Rightarrow> [] | Some f \<Rightarrow> blk_statements (fc_block f))"
| "inner_statements (SMatch x) = concat (map (\<lambda>c. block_of (mc_block c)) (m_cases x))"
| "inner_statements (STuiBlock x) = blk_statements (tui_body x)"
| "inner_statements _ = []"

lemma in_size_list: "x \<in> set xs \<Longrightarrow> f x < Suc (size_list f xs)"
  by (auto dest!: split_list)

lemma in_size_block: "s \<in> set (blk_statements b) \<Longrightarrow> f s < size_block f b"
  by (cases b) (auto dest!: split_list)

lemma in_block_of: "s \<in> set (block_of z) \<Longrightarrow> f s < size_option (size_block f) z"
  by (cases z) (auto simp: block_of_def dest: in_size_block [where f = f])

lemma below_list: "y \<in> set ys \<Longrightarrow> (n::nat) < h y \<Longrightarrow> n < Suc (size_list h ys)"
  by (auto dest!: split_list)

lemma inner_statements_smaller: "s \<in> set (inner_statements t) \<Longrightarrow> size s < size t"
proof (cases t)
  case (SIf x)
  assume s: "s \<in> set (inner_statements t)"
  obtain c th es el sp where x: "x = IfStmt c th es el sp" by (cases x)
  have e: "s \<in> set (blk_statements (ei_block b)) \<Longrightarrow> size s < size_else_if size size b" for b
    by (cases b) (auto dest: in_size_block [where f = size])
  from s SIf x consider "s \<in> set (blk_statements th)" | b where "b \<in> set es" "s \<in> set (blk_statements (ei_block b))" | "s \<in> set (block_of el)"
    by auto
  then show ?thesis
    using SIf x in_size_block [of s th size] in_block_of [of s el size] by cases (auto dest: below_list [of _ _ "size s" "size_else_if size size", OF _ e])
next
  case (SLoop x)
  assume "s \<in> set (inner_statements t)"
  then show ?thesis using SLoop in_size_block [of s "lp_body x" size] by (cases x) auto
next
  case (STry x)
  assume s: "s \<in> set (inner_statements t)"
  obtain th cs f sp where x: "x = TryStmt th cs f sp" by (cases x)
  have e: "s \<in> set (blk_statements (cc_block b)) \<Longrightarrow> size s < size_catch_clause size b" for b
    by (cases b) (auto dest: in_size_block [where f = size])
  have g: "s \<in> set (blk_statements (fc_block b)) \<Longrightarrow> size s < size_finally_clause size b" for b
    by (cases b) (auto dest: in_size_block [where f = size])
  from s STry x consider "s \<in> set (blk_statements th)" | b where "b \<in> set cs" "s \<in> set (blk_statements (cc_block b))"
    | b where "f = Some b" "s \<in> set (blk_statements (fc_block b))"
    by (auto split: option.splits)
  then show ?thesis
    using STry x in_size_block [of s th size] by cases (auto dest: g below_list [of _ _ "size s" "size_catch_clause size", OF _ e])
next
  case (SMatch x)
  assume s: "s \<in> set (inner_statements t)"
  obtain e cs sp where x: "x = MatchExpr e cs sp" by (cases x)
  have e: "s \<in> set (block_of (mc_block b)) \<Longrightarrow> size s < size_match_case size size b" for b
    by (cases b) (auto dest: in_block_of [where f = size])
  from s SMatch x show ?thesis by (auto dest: below_list [of _ _ "size s" "size_match_case size size", OF _ e])
next
  case (STuiBlock x)
  assume "s \<in> set (inner_statements t)"
  then show ?thesis using STuiBlock in_size_block [of s "tui_body x" size] by (cases x) auto
qed simp_all

section \<open>Expressions of a statement\<close>

function walk_stmt_exprs :: "statement \<Rightarrow> expr list" where
  "walk_stmt_exprs t =
     (case t of
        SOutput x \<Rightarrow> out_exprs x
      | SAssignment x \<Rightarrow> [as_value x]
      | SConstDecl x \<Rightarrow> [cd_value x]
      | SDestructureAssign x \<Rightarrow> [da_value x]
      | SIf x \<Rightarrow>
          if_condition x # concat (map walk_stmt_exprs (blk_statements (if_then x)))
          @ concat (map (\<lambda>b. ei_condition b # concat (map walk_stmt_exprs (blk_statements (ei_block b)))) (if_else_ifs x))
          @ concat (map walk_stmt_exprs (block_of (if_else x)))
      | SLoop x \<Rightarrow>
          option_parts (lp_condition x) @ option_parts (lp_iterable x) @ concat (map walk_stmt_exprs (blk_statements (lp_body x)))
      | STry x \<Rightarrow>
          concat (map walk_stmt_exprs (blk_statements (try_block x)))
          @ concat (map (\<lambda>c. concat (map walk_stmt_exprs (blk_statements (cc_block c)))) (try_catches x))
          @ (case try_finally x of None \<Rightarrow> [] | Some f \<Rightarrow> concat (map walk_stmt_exprs (blk_statements (fc_block f))))
      | SReturn x \<Rightarrow> option_parts (rt_value x)
      | SMatch x \<Rightarrow>
          m_scrutinee x # concat (map (\<lambda>c. option_parts (mc_value c) @ concat (map walk_stmt_exprs (block_of (mc_block c)))) (m_cases x))
      | SExpr x \<Rightarrow> [es_expr x]
      | SSleep x \<Rightarrow> [slp_duration x]
      | SOutputPos x \<Rightarrow> concat (map option_parts (op_slots x)) @ op_items x
      | STuiBlock x \<Rightarrow> concat (map walk_stmt_exprs (blk_statements (tui_body x)))
      | _ \<Rightarrow> [])"
  by pat_completeness auto
termination
  by (relation "measure size"; (simp; fail | (simp only: in_measure, rule inner_statements_smaller, force)))


declare walk_stmt_exprs.simps [simp del]

section \<open>Parts of an expression\<close>

definition match_parts :: "(expr, statement) match_expr \<Rightarrow> expr list" where
  "match_parts x =
     m_scrutinee x # concat (map (\<lambda>c. range_or_comparison (mc_pattern c) @ option_parts (mc_value c)
       @ concat (map walk_stmt_exprs (block_of (mc_block c)))) (m_cases x))"

fun walk_sub_exprs :: "expr \<Rightarrow> expr list" where
  "walk_sub_exprs (ELiteral x) = []"
| "walk_sub_exprs (EIdentifier x) = []"
| "walk_sub_exprs (EBinary x) = [bin_left x, bin_right x]"
| "walk_sub_exprs (EUnary x) = [un_operand x]"
| "walk_sub_exprs (ERange x) = rng_start x # rng_end x # option_parts (rng_step x)"
| "walk_sub_exprs (EArrayLiteral x) = arr_elements x"
| "walk_sub_exprs (ETuple x) = tup_elements x"
| "walk_sub_exprs (EGroup x) = [grp_expr x]"
| "walk_sub_exprs (ENamedTuple x) = map snd (nt_fields x)"
| "walk_sub_exprs (EMemberAccess x) = [mem_object x]"
| "walk_sub_exprs (EIndex x) = [ix_array x, ix_index x]"
| "walk_sub_exprs (EFunctionCall x) = call_callable x # call_arguments x"
| "walk_sub_exprs (EMatch x) = match_parts x"
| "walk_sub_exprs (ELength x) = [len_collection x]"
| "walk_sub_exprs (EAppend x) = [app_collection x, app_element x]"
| "walk_sub_exprs (EInsert x) = [ins_collection x, ins_index x, ins_element x]"
| "walk_sub_exprs (ERemoveValue x) = [rv_collection x, rv_value x]"
| "walk_sub_exprs (ERemoveAll x) = [ra_collection x, ra_value x]"
| "walk_sub_exprs (ERemoveAt x) = [rat_collection x, rat_index x]"
| "walk_sub_exprs (ERemoveRange x) = rr_collection x # option_parts (rr_start x) @ option_parts (rr_end x)"
| "walk_sub_exprs (EContains x) = [con_collection x, con_element x]"
| "walk_sub_exprs (EFindAll x) = [fa_collection x, fa_value x]"
| "walk_sub_exprs (EUpdate x) = [upd_target x, upd_value x]"
| "walk_sub_exprs (ESlice x) = sl_collection x # option_parts (sl_start x) @ option_parts (sl_end x)"
| "walk_sub_exprs (EStringRepeat x) = [rep_string x, rep_count x]"
| "walk_sub_exprs (EStringReplace x) = rpl_string x # rpl_pattern x # rpl_replacement x # option_parts (rpl_count x)"
| "walk_sub_exprs (EStringSplit x) = [sp_string x, sp_delimiter x]"
| "walk_sub_exprs (EConcatBuild x) = cb_base x # cb_items x"
| "walk_sub_exprs (ENumericEval x) = [ne_expr x]"
| "walk_sub_exprs (ETypeMetadata x) = [tm_expr x]"
| "walk_sub_exprs (EFormat x) = fmt_expr x # scan_precision_op (fmt_precision x)"
| "walk_sub_exprs (EBaseConversion x) = [bc_expr x]"
| "walk_sub_exprs (ELambda x) = lambda_value (lam_body x) @ concat (map walk_stmt_exprs (lambda_block (lam_body x)))"
| "walk_sub_exprs (EMap x) = [map_collection x, map_lambda x]"
| "walk_sub_exprs (EFilter x) = [flt_collection x, flt_lambda x]"
| "walk_sub_exprs (EReduce x) = [red_collection x, red_initial x, red_lambda x]"
| "walk_sub_exprs (ESortAsc x) = srt_collection x # option_parts (srt_comparator x)"
| "walk_sub_exprs (ESortDesc x) = srt_collection x # option_parts (srt_comparator x)"
| "walk_sub_exprs (ESortCustom x) = srt_collection x # option_parts (srt_comparator x)"
| "walk_sub_exprs (EPipe x) = pp_left x # pp_callable x # pipe_exprs (pp_arguments x)"
| "walk_sub_exprs (EExecute x) = []"
| "walk_sub_exprs (EBashExec x) = bx_args x"
| "walk_sub_exprs (ERound x) = ro_expr x # precision_expr (ro_precision x)"
| "walk_sub_exprs (ETrunc x) = tr_expr x # precision_expr (tr_precision x)"
| "walk_sub_exprs (ENumericCast x) = [nc_expr x]"
| "walk_sub_exprs (EErrorCheck x) = [ec_expr x]"
| "walk_sub_exprs (EErrorConstruct x) = [eco_message x]"
| "walk_sub_exprs (EErrorPropagate x) = [ep_expr x]"
| "walk_sub_exprs (EDeepIndex x) = di_array x # steps_exprs (di_path x)"
| "walk_sub_exprs (EFlatExtract x) = fe_array x # concat (map steps_exprs (fe_paths x))"
| "walk_sub_exprs (EStructuredExtract x) = se_array x # concat (map (\<lambda>g. concat (map steps_exprs (eg_paths g))) (se_groups x))"
| "walk_sub_exprs (ETerminalSize x) = []"

section \<open>Both walkers go down\<close>

lemma in_precision: "e \<in> set (precision_expr p) \<Longrightarrow> f e < size_precision f p"
  by (cases p) (auto simp: precision_expr_def)

lemma in_precision_op: "e \<in> set (scan_precision_op z) \<Longrightarrow> f e < size_option (size_precision_op f) z"
  by (cases z) (auto simp: scan_precision_op_def split: precision_op.splits dest: in_precision [where f = f])

lemma in_steps: "e \<in> set (steps_exprs p) \<Longrightarrow> (f e :: nat) < size_nav_path f p"
proof -
  assume "e \<in> set (steps_exprs p)"
  then obtain st where st: "st \<in> set (nav_steps p)" "e \<in> set (nav_index st # option_parts (nav_range_end st))"
    by (auto simp: steps_exprs_def)
  have "f e < size_nav_step f st" using st(2) by (cases st) auto
  with below_list [OF st(1), of "f e" "size_nav_step f"] show ?thesis by (cases p) simp
qed

lemma in_pipe: "e \<in> set (pipe_exprs as) \<Longrightarrow> f e < Suc (size_list (size_pipe_arg f) as)"
proof -
  assume "e \<in> set (pipe_exprs as)"
  then have "PipeExprArg e \<in> set as" by (auto simp: pipe_exprs_def split: pipe_arg.splits)
  from below_list [OF this, of "f e" "size_pipe_arg f"] show ?thesis by simp
qed

lemma in_pattern: "e \<in> set (range_or_comparison p) \<Longrightarrow> f e < size_pattern f p"
  by (cases p) (auto simp: range_or_comparison_def)

text \<open>The expressions that stand in a statement itself.\<close>

fun own_exprs :: "statement \<Rightarrow> expr list" where
  "own_exprs (SIf x) = if_condition x # map ei_condition (if_else_ifs x)"
| "own_exprs (SLoop x) = option_parts (lp_condition x) @ option_parts (lp_iterable x)"
| "own_exprs (SMatch x) = m_scrutinee x # concat (map (\<lambda>c. option_parts (mc_value c)) (m_cases x))"
| "own_exprs (STry x) = []"
| "own_exprs (STuiBlock x) = []"
| "own_exprs t = walk_stmt_exprs t"

lemma walk_stmt_exprs_set:
  "set (walk_stmt_exprs t) = set (own_exprs t) \<union> (\<Union>s \<in> set (inner_statements t). set (walk_stmt_exprs s))"
proof (cases t)
  case (SIf x)
  then show ?thesis by (subst walk_stmt_exprs.simps) auto
next
  case (SLoop x)
  then show ?thesis by (subst walk_stmt_exprs.simps) auto
next
  case (SMatch x)
  then show ?thesis by (subst walk_stmt_exprs.simps) auto
next
  case (STry x)
  then show ?thesis by (subst walk_stmt_exprs.simps) (auto split: option.splits)
next
  case (STuiBlock x)
  then show ?thesis by (subst walk_stmt_exprs.simps) auto
qed simp_all

lemma in_slots: "Some e \<in> set zs \<Longrightarrow> (f e :: nat) < Suc (size_list (size_option f) zs)"
  using below_list [of "Some e" zs "f e" "size_option f"] by simp

lemma own_exprs_smaller: "e \<in> set (own_exprs t) \<Longrightarrow> size e < size t"
proof (cases t)
  case (SIf x)
  assume e: "e \<in> set (own_exprs t)"
  have c: "size (ei_condition b) < size_else_if size size b" for b by (cases b) simp
  from e SIf below_list [of _ _ _ "size_else_if size size", OF _ c] show ?thesis by (cases x) fastforce
next
  case (SMatch x)
  assume e: "e \<in> set (own_exprs t)"
  have c: "mc_value b = Some e \<Longrightarrow> size e < size_match_case size size b" for b by (cases b) simp
  from e SMatch show ?thesis by (cases x) (auto dest: below_list [of _ _ _ "size_match_case size size", OF _ c])
next
  case (SOutput x)
  assume "e \<in> set (own_exprs t)"
  with SOutput show ?thesis by (cases x) (auto simp: walk_stmt_exprs.simps dest: in_size_list [where f = size])
next
  case (SOutputPos x)
  assume "e \<in> set (own_exprs t)"
  with SOutputPos show ?thesis
    by (cases x) (auto simp: walk_stmt_exprs.simps dest: in_size_list [where f = size] in_slots [where f = size])
next
  case (SLoop x)
  assume "e \<in> set (own_exprs t)"
  with SLoop show ?thesis by (cases x) auto
next
  case (SAssignment x)
  then show "e \<in> set (own_exprs t) \<Longrightarrow> ?thesis" by (cases x) (simp add: walk_stmt_exprs.simps)
next
  case (SConstDecl x)
  then show "e \<in> set (own_exprs t) \<Longrightarrow> ?thesis" by (cases x) (simp add: walk_stmt_exprs.simps)
next
  case (SDestructureAssign x)
  then show "e \<in> set (own_exprs t) \<Longrightarrow> ?thesis" by (cases x) (simp add: walk_stmt_exprs.simps)
next
  case (SReturn x)
  then show "e \<in> set (own_exprs t) \<Longrightarrow> ?thesis" by (cases x) (simp add: walk_stmt_exprs.simps)
next
  case (SExpr x)
  then show "e \<in> set (own_exprs t) \<Longrightarrow> ?thesis" by (cases x) (simp add: walk_stmt_exprs.simps)
next
  case (SSleep x)
  then show "e \<in> set (own_exprs t) \<Longrightarrow> ?thesis" by (cases x) (simp add: walk_stmt_exprs.simps)
qed (simp_all add: walk_stmt_exprs.simps)

lemma walk_stmt_exprs_smaller: "e \<in> set (walk_stmt_exprs t) \<Longrightarrow> size e < size t"
proof (induction "size t" arbitrary: t rule: less_induct)
  case less
  then show ?case
    using own_exprs_smaller [of e t] inner_statements_smaller [of _ t] by (fastforce simp: walk_stmt_exprs_set [of t])
qed


lemma match_parts_smaller: "e \<in> set (match_parts x) \<Longrightarrow> size e < size_match_expr size size x"
proof -
  assume e: "e \<in> set (match_parts x)"
  obtain sc cs sp where x: "x = MatchExpr sc cs sp" by (cases x)
  have c: "size e < size_match_case size size k" if "e \<in> set (range_or_comparison (mc_pattern k)) \<or> mc_value k = Some e
      \<or> (\<exists>s \<in> set (block_of (mc_block k)). e \<in> set (walk_stmt_exprs s))" for k
  proof -
    obtain p v b sp' where k: "k = MatchCase p v b sp'" by (cases k)
    from that k consider "e \<in> set (range_or_comparison p)" | "v = Some e"
      | s where "s \<in> set (block_of b)" "e \<in> set (walk_stmt_exprs s)" by auto
    then show ?thesis
    proof cases
      case 3
      with walk_stmt_exprs_smaller in_block_of [of s b size] k show ?thesis by fastforce
    qed (use k in_pattern [of e p size] in auto)
  qed
  from e x consider "e = sc" | k where "k \<in> set cs" "e \<in> set (range_or_comparison (mc_pattern k)) \<or> mc_value k = Some e
      \<or> (\<exists>s \<in> set (block_of (mc_block k)). e \<in> set (walk_stmt_exprs s))"
    by (auto simp: match_parts_def)
  then show ?thesis
  proof cases
    case 2
    with x below_list [of k cs "size e" "size_match_case size size", OF 2(1) c [OF 2(2)]] show ?thesis by simp
  qed (use x in simp)
qed

lemma lambda_parts_smaller:
  "e \<in> set (lambda_value b @ concat (map walk_stmt_exprs (lambda_block b))) \<Longrightarrow> size e < size_lambda_body size size b"
  by (cases b)
     (auto simp: lambda_value_def lambda_block_def dest!: walk_stmt_exprs_smaller in_size_block [where f = size])

lemma group_steps_smaller:
  "e \<in> set (concat (map steps_exprs ps)) \<Longrightarrow> size e < Suc (size_list (size_nav_path size) ps)"
  by (auto dest!: in_steps [where f = size] below_list [of _ _ "size e" "size_nav_path size"])

lemma groups_smaller:
  assumes "g \<in> set gs" "e \<in> set (concat (map steps_exprs (eg_paths g)))"
  shows "size e < Suc (size_list (size_extract_group size) gs)"
proof -
  have "size e < size_extract_group size g" using group_steps_smaller [OF assms(2)] by (cases g) simp
  with assms(1) show ?thesis by (rule below_list)
qed

lemma walk_sub_exprs_smaller: "e \<in> set (walk_sub_exprs x) \<Longrightarrow> size e < size x"
proof (cases x)
  case (EMatch y)
  then show "e \<in> set (walk_sub_exprs x) \<Longrightarrow> ?thesis" using match_parts_smaller [of e y] by simp
next
  case (ELambda y)
  then show "e \<in> set (walk_sub_exprs x) \<Longrightarrow> ?thesis" using lambda_parts_smaller [of e "lam_body y"] by (cases y) simp
next
  case (EFlatExtract y)
  then show "e \<in> set (walk_sub_exprs x) \<Longrightarrow> ?thesis" using group_steps_smaller [of e "fe_paths y"] by (cases y) fastforce
next
  case (EStructuredExtract y)
  then show "e \<in> set (walk_sub_exprs x) \<Longrightarrow> ?thesis" using groups_smaller [of _ "se_groups y" e] by (cases y) fastforce
next
  case (ENamedTuple y)
  assume "e \<in> set (walk_sub_exprs x)"
  with ENamedTuple obtain n where n: "(n, e) \<in> set (nt_fields y)" by auto
  from below_list [OF n, of "size e" "size_prod (\<lambda>x. 0) size"] ENamedTuple show ?thesis by (cases y) simp
qed ((rename_tac y, case_tac y, force dest: in_size_list [where f = size] in_precision [where f = size]
   in_precision_op [where f = size] in_steps [where f = size] in_pipe [where f = size])+)


section \<open>What a recursion over both may use\<close>

lemma block_part_smaller:
  "s \<in> set (blk_statements (if_then i)) \<Longrightarrow> size s < size (SIf i)"
  "b \<in> set (if_else_ifs i) \<Longrightarrow> s \<in> set (blk_statements (ei_block b)) \<Longrightarrow> size s < size (SIf i)"
  "s \<in> set (block_of (if_else i)) \<Longrightarrow> size s < size (SIf i)"
  "s \<in> set (blk_statements (lp_body l)) \<Longrightarrow> size s < size (SLoop l)"
  "s \<in> set (blk_statements (try_block t)) \<Longrightarrow> size s < size (STry t)"
  "k \<in> set (try_catches t) \<Longrightarrow> s \<in> set (blk_statements (cc_block k)) \<Longrightarrow> size s < size (STry t)"
  "try_finally t = Some f \<Longrightarrow> s \<in> set (blk_statements (fc_block f)) \<Longrightarrow> size s < size (STry t)"
  "c \<in> set (m_cases m) \<Longrightarrow> s \<in> set (block_of (mc_block c)) \<Longrightarrow> size s < size (SMatch m)"
  "s \<in> set (blk_statements (tui_body u)) \<Longrightarrow> size s < size (STuiBlock u)"
  by (rule inner_statements_smaller; auto)+

lemma function_body_smaller: "s \<in> set (blk_statements (fd_body d)) \<Longrightarrow> size s < size (SFunctionDecl d)"
  using in_size_block [of s "fd_body d" size] by (cases d) simp

lemma lambda_block_smaller: "s \<in> set (lambda_block (lam_body l)) \<Longrightarrow> size s < size (ELambda l)"
proof -
  assume "s \<in> set (lambda_block (lam_body l))"
  then have "size s < size_lambda_body size size (lam_body l)"
    by (cases "lam_body l") (auto simp: lambda_block_def dest: in_size_block [where f = size])
  then show ?thesis by (cases l) simp
qed

lemma lambda_value_smaller: "e \<in> set (lambda_value (lam_body l)) \<Longrightarrow> size e < size (ELambda l)"
  using walk_sub_exprs_smaller [of e "ELambda l"] by simp

lemma loop_part_smaller:
  "lp_condition l = Some e \<Longrightarrow> size e < size (SLoop l)" "lp_iterable l = Some e \<Longrightarrow> size e < size (SLoop l)"
  using own_exprs_smaller [of e "SLoop l"] by simp_all

lemma if_part_smaller:
  "size (if_condition i) < size (SIf i)" "b \<in> set (if_else_ifs i) \<Longrightarrow> size (ei_condition b) < size (SIf i)"
  using own_exprs_smaller [of _ "SIf i"] by simp_all

lemma match_part_smaller:
  "size (m_scrutinee m) < size (SMatch m)" "c \<in> set (m_cases m) \<Longrightarrow> mc_value c = Some e \<Longrightarrow> size e < size (SMatch m)"
  using own_exprs_smaller [of _ "SMatch m"] by auto

lemmas smaller = block_part_smaller walk_stmt_exprs_smaller walk_sub_exprs_smaller function_body_smaller
  lambda_block_smaller lambda_value_smaller
  if_part_smaller loop_part_smaller match_part_smaller

end
