(* ===== verification/ZyChecks.thy ===== *)
theory ZyChecks imports ZyWalk ZyDiag ZyRefs begin

text \<open>
  Two semantic passes that run before a program: breaks and continues that have no loop
  (crates/zymbol-semantic/src/loop_context.rs) and code that cannot run (unreachable.rs).  A pass that
  collects diagnostics in a field answers them as a list.
\<close>

section \<open>The loops a break may name\<close>

text \<open>What is in the list more than once stays where it first stands.\<close>

fun first_occurrences :: "'a list \<Rightarrow> 'a list \<Rightarrow> 'a list" where
  "first_occurrences seen [] = []"
| "first_occurrences seen (x # xs) =
     (if x \<in> set seen then first_occurrences seen xs else x # first_occurrences (x # seen) xs)"

definition some_values :: "'a option list \<Rightarrow> 'a list" where
  "some_values zs = concat (map option_parts zs)"

definition in_scope_help :: "ustring option list \<Rightarrow> ustring \<Rightarrow> ustring \<Rightarrow> ustring" where
  "in_scope_help labels wanted mark =
     (let known = first_occurrences [] (some_values labels)
      in if known = [] then
           (if labels = []
            then 39 # mark @ 39 # U '' is inside no loop at all. A function or lambda body does not see the caller'' @ 39 # U ''s loops.''
            else U ''the enclosing loops have no labels '' @ 0x2014 # U '' write '' @ 39 # U ''@:'' @ wanted @ U '' { }'' @ 39 # U '' on the one you mean to target'')
         else U ''labels in scope here: '' @ join_with (U '', '') (map (\<lambda>l. 39 # l @ [39]) known))"

definition loop_control :: "ustring option list \<Rightarrow> ustring option \<Rightarrow> span \<Rightarrow> ustring \<Rightarrow> ustring \<Rightarrow> diagnostic list" where
  "loop_control labels label sp mark word =
     (case label of
        None \<Rightarrow>
          if labels = [] then
            [with_help (39 # mark @ 39 # 32 # word @ U ''s the enclosing '' @ [39, 64, 39]
                @ U '' loop; there is none here. A function or lambda body does not see the caller'' @ 39 # U ''s loops.'')
               (with_span sp (diag_error (39 # mark @ 39 # U '' outside a loop'')))]
          else []
      | Some name \<Rightarrow>
          if Some name \<in> set labels then []
          else [with_help (in_scope_help labels name mark)
                  (with_span sp (diag_error (U ''no enclosing loop is labelled '' @ 39 # name @ [39])))])"

function loops_of_stmt :: "ustring option list \<Rightarrow> statement \<Rightarrow> diagnostic list"
  and loops_of_expr :: "ustring option list \<Rightarrow> expr \<Rightarrow> diagnostic list" where
  "loops_of_stmt labels c =
     (case c of
        SLoop l \<Rightarrow>
          concat (map (loops_of_stmt (labels @ [lp_label l])) (blk_statements (lp_body l)))
          @ concat (map (loops_of_expr labels) (option_parts (lp_condition l)))
          @ concat (map (loops_of_expr labels) (option_parts (lp_iterable l)))
      | SBreak b \<Rightarrow> loop_control labels (br_label b) (br_span b) (U ''@!'') (U ''break'')
      | SContinue b \<Rightarrow> loop_control labels (ct_label b) (ct_span b) (U ''@>'') (U ''continue'')
      | SFunctionDecl f \<Rightarrow> concat (map (loops_of_stmt []) (blk_statements (fd_body f)))
      | SIf i \<Rightarrow>
          loops_of_expr labels (if_condition i) @ concat (map (loops_of_stmt labels) (blk_statements (if_then i)))
          @ concat (map (\<lambda>b. loops_of_expr labels (ei_condition b)
              @ concat (map (loops_of_stmt labels) (blk_statements (ei_block b)))) (if_else_ifs i))
          @ concat (map (loops_of_stmt labels) (block_of (if_else i)))
      | STry t \<Rightarrow>
          concat (map (loops_of_stmt labels) (blk_statements (try_block t)))
          @ concat (map (\<lambda>k. concat (map (loops_of_stmt labels) (blk_statements (cc_block k)))) (try_catches t))
          @ (case try_finally t of None \<Rightarrow> [] | Some f \<Rightarrow> concat (map (loops_of_stmt labels) (blk_statements (fc_block f))))
      | SMatch m \<Rightarrow>
          loops_of_expr labels (m_scrutinee m)
          @ concat (map (\<lambda>k. concat (map (loops_of_expr labels) (option_parts (mc_value k)))
              @ concat (map (loops_of_stmt labels) (block_of (mc_block k)))) (m_cases m))
      | STuiBlock t \<Rightarrow> concat (map (loops_of_stmt labels) (blk_statements (tui_body t)))
      | _ \<Rightarrow> concat (map (loops_of_expr labels) (walk_stmt_exprs c)))"
| "loops_of_expr labels e =
     (case e of
        ELambda l \<Rightarrow>
          concat (map (loops_of_stmt []) (lambda_block (lam_body l)))
          @ concat (map (loops_of_expr labels) (lambda_value (lam_body l)))
      | _ \<Rightarrow> concat (map (loops_of_expr labels) (walk_sub_exprs e)))"
  by pat_completeness auto
termination
  by (relation "measure (case_sum (\<lambda>(labels, c). size c) (\<lambda>(labels, e). size e))")
     (auto simp only: in_measure wf_measure sum.case prod.case option_parts_set
        intro: smaller)


declare loops_of_stmt.simps [simp del] loops_of_expr.simps [simp del]

definition check_loop_context :: "statement list \<Rightarrow> diagnostic list" where
  "check_loop_context program = concat (map (loops_of_stmt []) program)"

section \<open>Constant conditions\<close>

datatype const_value = CBool bool | CNum f64

definition fold_unary :: "unary_op \<Rightarrow> const_value \<Rightarrow> const_value option" where
  "fold_unary op v =
     (case (op, v) of
        (OpNot, CBool b) \<Rightarrow> Some (CBool (\<not> b))
      | (OpNeg, CNum n) \<Rightarrow> Some (CNum (fneg n))
      | (OpPos, CNum n) \<Rightarrow> Some (CNum n)
      | _ \<Rightarrow> None)"

definition fold_binary :: "binary_op \<Rightarrow> const_value \<Rightarrow> const_value \<Rightarrow> const_value option" where
  "fold_binary op l r =
     (case (l, r) of
        (CBool x, CBool y) \<Rightarrow>
          (case op of
             OpAnd \<Rightarrow> Some (CBool (x \<and> y)) | OpOr \<Rightarrow> Some (CBool (x \<or> y))
           | OpEq \<Rightarrow> Some (CBool (x = y)) | OpNeq \<Rightarrow> Some (CBool (x \<noteq> y)) | _ \<Rightarrow> None)
      | (CNum x, CNum y) \<Rightarrow>
          (case op of
             OpEq \<Rightarrow> Some (CBool (feq x y)) | OpNeq \<Rightarrow> Some (CBool (\<not> feq x y))
           | OpLt \<Rightarrow> Some (CBool (flt x y)) | OpLe \<Rightarrow> Some (CBool (fle x y))
           | OpGt \<Rightarrow> Some (CBool (flt y x)) | OpGe \<Rightarrow> Some (CBool (fle y x)) | _ \<Rightarrow> None)
      | _ \<Rightarrow> None)"

fun fold_const :: "expr \<Rightarrow> const_value option" where
  "fold_const (ELiteral l) =
     (case lit_value l of LBool b \<Rightarrow> Some (CBool b) | LInt n \<Rightarrow> Some (CNum (f_of_int n)) | LFloat x \<Rightarrow> Some (CNum x) | _ \<Rightarrow> None)"
| "fold_const (EGroup (GroupExpr e sp)) = fold_const e"
| "fold_const (EUnary (UnaryExpr op e sp)) = (case fold_const e of Some v \<Rightarrow> fold_unary op v | None \<Rightarrow> None)"
| "fold_const (EBinary (BinaryExpr op a b sp)) =
     (case fold_const a of
        None \<Rightarrow> None
      | Some x \<Rightarrow> (case fold_const b of None \<Rightarrow> None | Some y \<Rightarrow> fold_binary op x y))"
| "fold_const _ = None"

section \<open>Code that cannot run\<close>

text \<open>How a statement leaves its block, when it always does: the exit it is, or nothing when every branch of it does.\<close>

function leaves :: "statement \<Rightarrow> ustring option" where
  "leaves c =
     (case c of
        SReturn _ \<Rightarrow> Some (39 # U ''<~'' @ [39])
      | SBreak _ \<Rightarrow> Some (39 # U ''@!'' @ [39])
      | SContinue _ \<Rightarrow> Some (39 # U ''@>'' @ [39])
      | SIf i \<Rightarrow>
          (case if_else i of
             None \<Rightarrow> None
           | Some e \<Rightarrow>
               if list_ex (\<lambda>s. leaves s \<noteq> None) (blk_statements (if_then i))
                  \<and> list_all (\<lambda>b. list_ex (\<lambda>s. leaves s \<noteq> None) (blk_statements (ei_block b))) (if_else_ifs i)
                  \<and> list_ex (\<lambda>s. leaves s \<noteq> None) (block_of (if_else i))
               then Some [] else None)
      | _ \<Rightarrow> None)"
  by pat_completeness auto
termination
  by (relation "measure size") (auto simp only: in_measure wf_measure intro: smaller)

declare leaves.simps [simp del]

definition block_leaves :: "statement list \<Rightarrow> bool" where
  "block_leaves b = list_ex (\<lambda>s. leaves s \<noteq> None) b"

definition help_after_exit :: ustring where
  "help_after_exit = U ''delete it, or move it above the exit''"

definition help_constant :: ustring where
  "help_constant = U ''remove the dead code, or make the condition depend on something that can change''"

definition warn_at :: "statement \<Rightarrow> ustring \<Rightarrow> ustring \<Rightarrow> diagnostic" where
  "warn_at c message h = with_help h (with_span (statement_span c) (diag_warning message))"

definition dead_block :: "statement list \<Rightarrow> ustring \<Rightarrow> diagnostic list" where
  "dead_block cs message = (case cs of [] \<Rightarrow> [] | c # _ \<Rightarrow> [warn_at c message help_constant])"

text \<open>The statement behind the first that always leaves.\<close>

fun after_exit :: "statement list \<Rightarrow> diagnostic list" where
  "after_exit [] = []"
| "after_exit (c # cs) =
     (case leaves c of
        None \<Rightarrow> after_exit cs
      | Some exit \<Rightarrow>
          (case cs of
             [] \<Rightarrow> []
           | next # _ \<Rightarrow>
               [warn_at next
                  (if exit = [] then U ''unreachable code: every branch of the '' @ [39, 63, 39] @ U '' above leaves the block''
                   else U ''unreachable code: this statement comes after '' @ exit @ U '', which always leaves the block'')
                  help_after_exit]))"

definition never_runs :: "ustring \<Rightarrow> ustring \<Rightarrow> ustring" where
  "never_runs what why = U ''this '' @ what @ U '' never runs: '' @ why"

fun dead_branches :: "expr list \<Rightarrow> statement list list \<Rightarrow> diagnostic list" where
  "dead_branches (c # cs) (b # bs) =
     (case fold_const c of
        Some (CBool False) \<Rightarrow>
          dead_block b (never_runs (U ''branch'') (U ''its condition is always #0'')) @ dead_branches cs bs
      | Some (CBool True) \<Rightarrow>
          (case find (\<lambda>l. l \<noteq> []) bs of
             Some l \<Rightarrow> dead_block l (never_runs (U ''branch'') (U ''an earlier condition in the chain is always #1''))
           | None \<Rightarrow> [])
      | _ \<Rightarrow> dead_branches cs bs)"
| "dead_branches _ _ = []"

definition dead_loop :: "(expr, statement) loop_stmt \<Rightarrow> diagnostic list" where
  "dead_loop l =
     (if lp_iterator l = None \<and> lp_iterable l = None
         \<and> Option.bind (lp_condition l) fold_const = Some (CBool False)
      then dead_block (blk_statements (lp_body l)) (never_runs (U ''loop'') (U ''its condition is always #0''))
      else [])"

text \<open>
  The pass itself, over what it has reported and the blocks it has seen.  The source tells a block by
  its address; here it is told by its statements, which carry the places they stand at.
\<close>

type_synonym reach = "diagnostic list \<times> statement list list"

definition say :: "diagnostic list \<Rightarrow> reach \<Rightarrow> reach" where
  "say ds st = (fst st @ ds, snd st)"

lemma block_statements_size: "size_list f (blk_statements b) < size_block f b"
  by (cases b) simp

lemma arm_size: "mc_block c = Some q \<Longrightarrow> size_list size (blk_statements q) < size_match_case size size c"
  using block_statements_size [of size q] by (cases c) simp

lemma size_of_arms:
  "c \<in> set (m_cases m) \<Longrightarrow> mc_block c = Some q \<Longrightarrow> size_list size (blk_statements q) < size_match_expr size size m"
  using below_list [of c "m_cases m" _ "size_match_case size size", OF _ arm_size] by (cases m) fastforce

lemma size_of_cases:
  "c \<in> set (m_cases m) \<Longrightarrow> mc_block c = Some q \<Longrightarrow> size_list size (blk_statements q) < size (SMatch m)"
  "c \<in> set (m_cases m) \<Longrightarrow> mc_block c = Some q \<Longrightarrow> size_list size (blk_statements q) < size (EMatch m)"
  using size_of_arms [of c m q] by simp_all

lemma size_of_branches:
  "size_list size (blk_statements (if_then i)) < size (SIf i)"
  "b \<in> set (if_else_ifs i) \<Longrightarrow> size_list size (blk_statements (ei_block b)) < size (SIf i)"
  "if_else i = Some e \<Longrightarrow> size_list size (blk_statements e) < size (SIf i)"
proof -
  obtain c th es el sp where i: "i = IfStmt c th es el sp" by (cases i)
  have b: "size_list size (blk_statements (ei_block b)) < size_else_if size size b" for b
    using block_statements_size [of size "ei_block b"] by (cases b) simp
  show "size_list size (blk_statements (if_then i)) < size (SIf i)"
    using i block_statements_size [of size th] by simp
  show "b \<in> set (if_else_ifs i) \<Longrightarrow> size_list size (blk_statements (ei_block b)) < size (SIf i)"
    using i below_list [of b es _ "size_else_if size size", OF _ b] by simp
  show "if_else i = Some e \<Longrightarrow> size_list size (blk_statements e) < size (SIf i)"
    using i block_statements_size [of size e] by simp
qed

lemma size_of_try:
  "size_list size (blk_statements (try_block t)) < size (STry t)"
  "k \<in> set (try_catches t) \<Longrightarrow> size_list size (blk_statements (cc_block k)) < size (STry t)"
  "try_finally t = Some f \<Longrightarrow> size_list size (blk_statements (fc_block f)) < size (STry t)"
proof -
  obtain b cs fin sp where t: "t = TryStmt b cs fin sp" by (cases t)
  have c: "size_list size (blk_statements (cc_block k)) < size_catch_clause size k" for k
    using block_statements_size [of size "cc_block k"] by (cases k) simp
  show "size_list size (blk_statements (try_block t)) < size (STry t)"
    using t block_statements_size [of size b] by simp
  show "k \<in> set (try_catches t) \<Longrightarrow> size_list size (blk_statements (cc_block k)) < size (STry t)"
    using t below_list [of k cs _ "size_catch_clause size", OF _ c] by simp
  show "try_finally t = Some f \<Longrightarrow> size_list size (blk_statements (fc_block f)) < size (STry t)"
    using t block_statements_size [of size "fc_block f"] by (cases f) simp
qed

lemma size_of_bodies:
  "size_list size (blk_statements (lp_body l)) < size (SLoop l)"
  "size_list size (blk_statements (tui_body u)) < size (STuiBlock u)"
  "size_list size (blk_statements (fd_body d)) < size (SFunctionDecl d)"
  "lam_body x = LamBlock q \<Longrightarrow> size_list size (blk_statements q) < size (ELambda x)"
proof -
  show "size_list size (blk_statements (lp_body l)) < size (SLoop l)"
    using block_statements_size [of size "lp_body l"] by (cases l) simp
  show "size_list size (blk_statements (tui_body u)) < size (STuiBlock u)"
    using block_statements_size [of size "tui_body u"] by (cases u) simp
  show "size_list size (blk_statements (fd_body d)) < size (SFunctionDecl d)"
    using block_statements_size [of size "fd_body d"] by (cases d) simp
  show "lam_body x = LamBlock q \<Longrightarrow> size_list size (blk_statements q) < size (ELambda x)"
    using block_statements_size [of size q] by (cases x) simp
qed

lemma in_statements: "c \<in> set cs \<Longrightarrow> size c < size_list size cs"
  by (auto dest!: split_list)

lemmas size_of_statements = size_of_cases size_of_branches size_of_try size_of_bodies in_statements

function reach_block :: "statement list \<Rightarrow> reach \<Rightarrow> reach" and reach_stmt :: "statement \<Rightarrow> reach \<Rightarrow> reach"
  and reach_expr :: "expr \<Rightarrow> reach \<Rightarrow> reach" where
  "reach_block cs st =
     (if cs \<in> set (snd st) then st
      else fold reach_stmt cs (say (after_exit cs) (fst st, cs # snd st)))"
| "reach_stmt c st =
     fold reach_expr (walk_stmt_exprs c)
       (case c of
          SIf i \<Rightarrow>
            (let conds = if_condition i # map ei_condition (if_else_ifs i);
                 blocks = blk_statements (if_then i) # map (\<lambda>b. blk_statements (ei_block b)) (if_else_ifs i)
                            @ map blk_statements (option_parts (if_else i))
             in fold reach_block blocks (say (dead_branches conds blocks) st))
        | SLoop l \<Rightarrow> reach_block (blk_statements (lp_body l)) (say (dead_loop l) st)
        | STry t \<Rightarrow>
            (let st1 = reach_block (blk_statements (try_block t)) st;
                 st2 = fold (\<lambda>k. reach_block (blk_statements (cc_block k))) (try_catches t) st1
             in case try_finally t of None \<Rightarrow> st2 | Some f \<Rightarrow> reach_block (blk_statements (fc_block f)) st2)
        | SFunctionDecl f \<Rightarrow> reach_block (blk_statements (fd_body f)) st
        | SMatch m \<Rightarrow> fold (\<lambda>k. case mc_block k of None \<Rightarrow> (\<lambda>st. st) | Some b \<Rightarrow> reach_block (blk_statements b)) (m_cases m) st
        | STuiBlock u \<Rightarrow> reach_block (blk_statements (tui_body u)) st
        | _ \<Rightarrow> st)"
| "reach_expr e st =
     fold reach_expr (walk_sub_exprs e)
       (case e of
          ELambda l \<Rightarrow> (case lam_body l of LamBlock b \<Rightarrow> reach_block (blk_statements b) st | LamExpr _ \<Rightarrow> st)
        | EMatch m \<Rightarrow> fold (\<lambda>k. case mc_block k of None \<Rightarrow> (\<lambda>st. st) | Some b \<Rightarrow> reach_block (blk_statements b)) (m_cases m) st
        | _ \<Rightarrow> st)"
  by pat_completeness auto
termination
  by (relation "measure (case_sum (\<lambda>(cs, st). size_list size cs) (case_sum (\<lambda>(c, st). size c) (\<lambda>(e, st). size e)))")
     (auto simp: in_measure intro: smaller size_of_statements simp del: statement.size expr.size)

definition check_unreachable :: "statement list \<Rightarrow> diagnostic list" where
  "check_unreachable program = fst (reach_block program ([], []))"

end
