(* ===== verification/ZyCheckSound.thy ===== *)
theory ZyCheckSound imports ZyChecks ZyProgram begin

text \<open>
  The warnings about constant conditions say the truth: what the pass folds is what the engine
  answers.
\<close>

text \<open>An expression made of literals of the language, and how deep it is.\<close>

fun language_literals :: "expr \<Rightarrow> bool" where
  "language_literals (ELiteral l) = (case lit_value l of LInt n \<Rightarrow> in_int_range n | _ \<Rightarrow> True)"
| "language_literals (EGroup (GroupExpr e sp)) = language_literals e"
| "language_literals (EUnary (UnaryExpr op e sp)) = language_literals e"
| "language_literals (EBinary (BinaryExpr op a b sp)) = (language_literals a \<and> language_literals b)"
| "language_literals _ = True"

fun const_depth :: "expr \<Rightarrow> nat" where
  "const_depth (EGroup (GroupExpr e sp)) = Suc (const_depth e)"
| "const_depth (EUnary (UnaryExpr op e sp)) = Suc (const_depth e)"
| "const_depth (EBinary (BinaryExpr op a b sp)) = Suc (max (const_depth a) (const_depth b))"
| "const_depth _ = 1"

text \<open>A value is what a constant stands for: the same truth value, or a number that no comparison tells from it.\<close>

definition same_double :: "f64 \<Rightarrow> f64 \<Rightarrow> bool" where
  "same_double x y \<longleftrightarrow> x = y \<or> f_is_zero x \<and> f_is_zero y"

definition stands_for :: "const_value \<Rightarrow> zvalue \<Rightarrow> bool" where
  "stands_for c v =
     (case c of
        CBool b \<Rightarrow> v = VBool b
      | CNum x \<Rightarrow> is_number v \<and> value_ok v \<and> same_double x (number_f64 v))"

lemma zero_double: "f_is_zero x \<Longrightarrow> \<exists>s m e. x = FFin s m e \<and> fkey x = 0"
  by (cases x) (auto simp: f_is_zero_def)

lemma same_double_cases:
  assumes "same_double x y"
  obtains "x = y" | s m e s' m' e' where "x = FFin s m e" "y = FFin s' m' e'" "fkey x = fkey y"
  using assms zero_double [of x] zero_double [of y] unfolding same_double_def by auto

lemma same_double_compare:
  assumes "same_double x x'" "same_double y y'"
  shows "feq x y = feq x' y'" "flt x y = flt x' y'" "fle x y = fle x' y'"
proof -
  show e: "feq x y = feq x' y'"
    by (rule same_double_cases [OF assms(1)]; rule same_double_cases [OF assms(2)]; cases y'; cases x') auto
  show l: "flt x y = flt x' y'"
    by (rule same_double_cases [OF assms(1)]; rule same_double_cases [OF assms(2)]; cases y'; cases x') auto
  show "fle x y = fle x' y'" using e l by (simp add: fle_def)
qed

lemma fneg_round_ratio: "fneg (round_ratio s n d) = round_ratio (\<not> s) n d"
  by (simp add: round_ratio_def pack_f64_def Let_def split: prod.split)

lemma same_double_refl [simp]: "same_double x x"
  by (simp add: same_double_def)

lemma fneg_of_int: "same_double (fneg (f_of_int n)) (f_of_int (- n))"
proof (cases "n = 0")
  case True
  then show ?thesis by (simp add: same_double_def f_of_int_def round_ratio_def f_is_zero_def)
next
  case False
  then have "(\<not> n < 0) = (- n < 0)" by linarith
  then show ?thesis by (simp add: f_of_int_def fneg_round_ratio)
qed

lemma fneg_same: "same_double x y \<Longrightarrow> same_double (fneg x) (fneg y)"
  by (cases x; cases y) (auto simp: same_double_def f_is_zero_def)

lemma same_double_trans: "same_double x y \<Longrightarrow> same_double y z \<Longrightarrow> same_double x z"
  by (auto simp: same_double_def)

lemma unary_stands_for:
  assumes "stands_for c v" "fold_unary op c = Some d"
  shows "\<exists>w. apply_unary op sp v = Inr w \<and> stands_for d w"
proof (cases c)
  case (CBool b)
  with assms show ?thesis by (cases op) (auto simp: fold_unary_def stands_for_def apply_unary_def)
next
  case (CNum x)
  with assms(1) consider n where "v = VInt n" "in_int_range n" "same_double x (f_of_int n)" | f where "v = VFloat f" "same_double x f"
    by (cases v) (auto simp: stands_for_def is_number_def number_f64_def)
  then show ?thesis
  proof cases
    case 1
    have "same_double (fneg x) (f_of_int (- n))" using same_double_trans [OF fneg_same [OF 1(3)] fneg_of_int] .
    with 1 CNum assms(2) show ?thesis
      by (cases op) (auto simp: fold_unary_def stands_for_def apply_unary_def is_number_def number_f64_def in_int_range_iff)
  next
    case 2
    with CNum assms(2) fneg_same [OF 2(2)] show ?thesis
      by (cases op) (auto simp: fold_unary_def stands_for_def apply_unary_def is_number_def number_f64_def)
  qed
qed

lemma binary_stands_for:
  assumes "stands_for c v" "stands_for d w" "fold_binary op c d = Some e" "op \<noteq> OpAnd" "op \<noteq> OpOr"
  shows "\<exists>x. apply_binary powf mode op sp v w = Inr x \<and> stands_for e x"
proof (cases c)
  case (CBool b)
  with assms show ?thesis
    by (cases d; cases op) (auto simp: fold_binary_def stands_for_def apply_binary_def)
next
  case (CNum x)
  with assms(3) obtain y where d: "d = CNum y" by (cases d) (auto simp: fold_binary_def)
  from assms(1,2) CNum d have n: "is_number v" "is_number w" "value_ok v" "value_ok w"
    and s: "same_double x (number_f64 v)" "same_double y (number_f64 w)"
    by (simp_all add: stands_for_def)
  note compare = same_double_compare [OF s] same_double_compare [OF s(2,1)]
  from CNum d assms(3-5) show ?thesis
    by (cases op) (auto simp: fold_binary_def stands_for_def apply_binary_def numeric_relations [OF n] compare)
qed

lemma folded_no_name: "fold_const e = Some c \<Longrightarrow> as_identifier e = None"
  by (induction e arbitrary: c rule: fold_const.induct) (auto simp: as_identifier_def)

lemma folded_evaluates:
  assumes "fold_const e = Some c" and "language_literals e" and "const_depth e \<le> n"
  shows "\<exists>v. eval (engine_at h n) e s = Some (Inr v, s) \<and> stands_for c v"
  using assms
proof (induction e arbitrary: n c rule: fold_const.induct)
  case (1 l)
  then show ?case
    by (cases n) (auto simp: engine_over_def eval_expr_def eval_literal_def literal_to_value_def ret_def stands_for_def is_number_def
        number_f64_def split: literal.splits)
next
  case (2 e sp)
  then obtain m where n: "n = Suc m" "const_depth e \<le> m" by (cases n) auto
  with 2 show ?case by (simp add: engine_over_def eval_expr_def)
next
  case (3 op e sp)
  then obtain m x where n: "n = Suc m" "const_depth e \<le> m" and x: "fold_const e = Some x" "fold_unary op x = Some c"
    by (cases n) (auto split: option.splits)
  from 3(1) [OF x(1) _ n(2)] 3(3) obtain v where v: "eval (engine_at h m) e s = Some (Inr v, s)" "stands_for x v" by auto
  from unary_stands_for [OF v(2) x(2)] obtain w where "apply_unary op sp v = Inr w" "stands_for c w" by blast
  with n v show ?case by (auto simp: engine_over_def eval_expr_def eval_unary_def bindc_def lift_def ret_def)
next
  case (4 op a b sp)
  then obtain m x y where n: "n = Suc m" "const_depth a \<le> m" "const_depth b \<le> m"
    and x: "fold_const a = Some x" and y: "fold_const b = Some y" and c: "fold_binary op x y = Some c"
    by (cases n) (auto split: option.splits)
  from 4(1) [OF x _ n(2)] 4(4) obtain v where v: "eval (engine_at h m) a s = Some (Inr v, s)" "stands_for x v" by auto
  from 4(2) [OF x y _ n(3)] 4(4) obtain w where w: "eval (engine_at h m) b s = Some (Inr w, s)" "stands_for y w" by auto
  show ?case
  proof (cases "op = OpAnd \<or> op = OpOr")
    case True
    with c v(2) w(2) show ?thesis
      using n(1) v(1) w(1)
      by (auto simp: fold_binary_def stands_for_def engine_over_def eval_expr_def eval_binary_def eval_logical_def bindc_def
          lift_def ret_def Let_def as_bool_def split: const_value.splits)
  next
    case False
    from binary_stands_for [OF v(2) w(2) c] False obtain z
      where z: "apply_binary (h_powf h) (numeral_mode s) op sp v w = Inr z" "stands_for c z" by blast
    have "as_identifier a = None" by (rule folded_no_name [OF x])
    with False n(1) v(1) w(1) z show ?thesis
      by (auto simp: engine_over_def eval_expr_def eval_binary_def eval_int_shortcut_def hot_left_def reading_def bindc_def
          apply_in_def lift_def ret_def)
  qed
qed simp_all

text \<open>
  C34. A condition the checker folds is what the engine answers.  Whenever the pass that warns about
  code that cannot run folds an expression to a constant, evaluating it in any state, with room to nest
  as deep as the expression is, succeeds, leaves the state as it was, and answers that truth value, or
  a number that no comparison tells from the constant.
\<close>

theorem folded_is_evaluated:
  assumes "fold_const e = Some c" and "language_literals e" and "const_depth e \<le> n"
  shows "\<exists>v. eval (engine_at h n) e s = Some (Inr v, s) \<and> stands_for c v"
  using assms by (rule folded_evaluates)

theorem folded_is_evaluated_witness:
  "\<exists>v. eval (engine_at quiet_host 2) (EBinary (BinaryExpr OpLt (ELiteral (LiteralExpr (LInt 1) no_span))
        (ELiteral (LiteralExpr (LInt 2) no_span)) no_span)) new_interp = Some (Inr v, new_interp) \<and> stands_for (CBool True) v"
proof -
  let ?e = "EBinary (BinaryExpr OpLt (ELiteral (LiteralExpr (LInt 1) no_span)) (ELiteral (LiteralExpr (LInt 2) no_span)) no_span)"
  have f: "fold_const ?e = Some (CBool True)"
    by (simp add: fold_binary_def in_range_flt in_int_range_iff)
  have l: "language_literals ?e" by (simp add: in_int_range_iff)
  have d: "const_depth ?e \<le> 2" by simp
  from folded_is_evaluated [OF f l d] show ?thesis by blast
qed

section \<open>A break the loop check does not see\<close>

text \<open>
  The loop check sees the blocks of statements, not those of expressions.  A break with no loop
  around it is refused in the arm of a match that stands as a statement, and passes in the same arm of
  the same match when its value is assigned.
\<close>

lemma break_in_an_arm:
  "check_loop_context [SMatch (MatchExpr (ELiteral l) [MatchCase (PWildcard sp) None (Some (Block [SBreak (Break None sp)] sp)) sp] sp)] \<noteq> []
   \<and> check_loop_context [SAssignment (Assignment x
        (EMatch (MatchExpr (ELiteral l) [MatchCase (PWildcard sp) None (Some (Block [SBreak (Break None sp)] sp)) sp] sp))
        sp False False SugarNone None)] = []"
  by (simp add: check_loop_context_def loops_of_stmt.simps loops_of_expr.simps walk_stmt_exprs.simps match_parts_def
      range_or_comparison_def option_parts_def block_of_def loop_control_def)

end
