(* ===== verification/ZyCoverage.thy ===== *)
theory ZyCoverage imports ZyCheckSound "HOL-Library.Option_ord" "HOL-Library.Product_Lexorder" begin

text \<open>
  Matches that may find no arm (crates/zymbol-semantic/src/match_coverage.rs), and what the silence of
  the pass is worth at run time.
\<close>

section \<open>What the arms leave out\<close>

definition alternatives :: "(expr, statement) match_expr \<Rightarrow> expr pattern list" where
  "alternatives m = concat (map (\<lambda>c. case mc_pattern c of POr ps _ \<Rightarrow> ps | p \<Rightarrow> [p]) (m_cases m))"

definition has_wildcard :: "expr pattern list \<Rightarrow> bool" where
  "has_wildcard alts = list_ex (\<lambda>p. case p of PWildcard _ \<Rightarrow> True | _ \<Rightarrow> False) alts"

definition bool_literals :: "expr pattern list \<Rightarrow> bool list" where
  "bool_literals alts = concat (map (\<lambda>p. case p of PLiteral (LBool b) _ \<Rightarrow> [b] | _ \<Rightarrow> []) alts)"

definition constant_comparisons :: "expr pattern list \<Rightarrow> (binary_op \<times> f64) list" where
  "constant_comparisons alts = concat (map (\<lambda>p.
     case p of
       PComparison op e _ \<Rightarrow> (case fold_const e of Some (CNum k) \<Rightarrow> [(op, k)] | _ \<Rightarrow> [])
     | _ \<Rightarrow> []) alts)"

text \<open>Two comparisons that leave no number out.\<close>

definition no_gap :: "binary_op \<times> f64 \<Rightarrow> binary_op \<times> f64 \<Rightarrow> bool" where
  "no_gap x y =
     (case (x, y) of
        ((lo, a), (hi, b)) \<Rightarrow>
          if lo \<in> {OpLt, OpLe} \<and> hi \<in> {OpGt, OpGe} then flt b a \<or> feq b a \<and> (lo = OpLe \<or> hi = OpGe)
          else if lo = OpEq \<and> hi = OpNeq then feq a b
          else False)"

definition comparisons_cover :: "expr pattern list \<Rightarrow> bool" where
  "comparisons_cover alts =
     (let cmps = constant_comparisons alts in list_ex (\<lambda>x. list_ex (no_gap x) cmps) cmps)"

definition complete_match :: "(expr, statement) match_expr \<Rightarrow> bool" where
  "complete_match m =
     (let alts = alternatives m
      in if has_wildcard alts then True
         else if card (set (bool_literals alts)) = 2 then True
         else comparisons_cover alts)"

section \<open>The pass\<close>

definition coverage_message :: ustring where
  "coverage_message = U ''this '' @ [39, 63, 63, 39] @ U '' has no '' @ [39, 95, 39] @ U '' arm: a value no arm matches stops the program''"

definition coverage_help :: ustring where
  "coverage_help = U ''add '' @ 96 # U ''_ => '' @ 0x2026 # 96 # U '' for every other value '' @ 0x2014 #
     U '' or, if no other value can arrive, catch the error where it matters with '' @ [96, 33, 63, 96]"

text \<open>
  What has been reported and the matches judged.  The source tells a match by its address; here it is
  told by what it holds, places included.
\<close>

type_synonym coverage = "diagnostic list \<times> (expr, statement) match_expr list"

definition judge_match :: "(expr, statement) match_expr \<Rightarrow> coverage \<Rightarrow> coverage" where
  "judge_match m st =
     (if m \<in> set (snd st) then st
      else (if complete_match m then fst st
            else fst st @ [with_help coverage_help (with_span (m_span m) (diag_warning coverage_message))], m # snd st))"

function cover_stmt :: "statement \<Rightarrow> coverage \<Rightarrow> coverage" and cover_expr :: "expr \<Rightarrow> coverage \<Rightarrow> coverage" where
  "cover_stmt c st =
     fold cover_expr (walk_stmt_exprs c)
       (case c of
          SMatch m \<Rightarrow> fold (\<lambda>k st. case mc_block k of None \<Rightarrow> st | Some b \<Rightarrow> fold cover_stmt (blk_statements b) st) (m_cases m) (judge_match m st)
        | SIf i \<Rightarrow>
            fold cover_stmt (blk_statements (if_then i) @ concat (map (\<lambda>b. blk_statements (ei_block b)) (if_else_ifs i))
              @ block_of (if_else i)) st
        | SLoop l \<Rightarrow> fold cover_stmt (blk_statements (lp_body l)) st
        | STry t \<Rightarrow>
            fold cover_stmt (blk_statements (try_block t) @ concat (map (\<lambda>k. blk_statements (cc_block k)) (try_catches t))
              @ (case try_finally t of None \<Rightarrow> [] | Some f \<Rightarrow> blk_statements (fc_block f))) st
        | SFunctionDecl f \<Rightarrow> fold cover_stmt (blk_statements (fd_body f)) st
        | STuiBlock u \<Rightarrow> fold cover_stmt (blk_statements (tui_body u)) st
        | _ \<Rightarrow> st)"
| "cover_expr e st =
     fold cover_expr (walk_sub_exprs e)
       (case e of
          EMatch m \<Rightarrow> fold (\<lambda>k st. case mc_block k of None \<Rightarrow> st | Some b \<Rightarrow> fold cover_stmt (blk_statements b) st) (m_cases m) (judge_match m st)
        | ELambda l \<Rightarrow> (case lam_body l of LamBlock b \<Rightarrow> fold cover_stmt (blk_statements b) st | LamExpr _ \<Rightarrow> st)
        | _ \<Rightarrow> st)"
  by pat_completeness auto
termination
  by (relation "measure (case_sum (\<lambda>(c, st). size c) (\<lambda>(e, st). size e))")
     (auto simp: in_measure intro: smaller size_of_statements less_trans [OF in_statements] size_of_try(3) [OF sym] simp del: statement.size expr.size)

definition span_key :: "diagnostic \<Rightarrow> (nat \<times> nat) option" where
  "span_key d = map_option (\<lambda>sp. (line (sp_start sp), column (sp_start sp))) (dg_span d)"

definition check_match_coverage :: "statement list \<Rightarrow> diagnostic list" where
  "check_match_coverage program = sort_key span_key (fst (fold cover_stmt program ([], [])))"

section \<open>What the silence is worth\<close>

text \<open>A pattern that matches a value in every state, whatever the expressions of the others do.\<close>

definition always_matches :: "host \<Rightarrow> engine \<Rightarrow> expr pattern \<Rightarrow> zvalue \<Rightarrow> bool" where
  "always_matches h E p v \<longleftrightarrow> (\<forall>s. pattern_matches h E p v s = Some (Inr (Some True), s))"

lemma any_match_always:
  "p \<in> set ps \<Longrightarrow> always_matches h E p v \<Longrightarrow> any_match h E ps v s = Some (Inr m, t) \<Longrightarrow> m = Some True"
proof (induction ps arbitrary: s t)
  case (Cons q ps)
  show ?case
  proof (cases "q = p")
    case True
    with Cons.prems show ?thesis by (auto simp: always_matches_def bindc_def ret_def)
  next
    case False
    with Cons show ?thesis by (fastforce simp: bindc_def ret_def split: option.splits sum.splits if_splits)
  qed
qed simp

lemma case_matches:
  assumes "p \<in> set (case mc_pattern c of POr ps _ \<Rightarrow> ps | q \<Rightarrow> [q])" "always_matches h E p v"
    "pattern_matches h E (mc_pattern c) v s = Some (Inr m, t)"
  shows "m = Some True"
proof (cases "mc_pattern c")
  case (POr ps sp)
  with assms any_match_always show ?thesis by simp
qed (use assms in \<open>auto simp: always_matches_def simp del: pattern_matches.simps\<close>)

lemma cases_find_an_arm:
  "\<exists>c \<in> set cs. \<exists>p \<in> set (case mc_pattern c of POr ps _ \<Rightarrow> ps | q \<Rightarrow> [q]). always_matches h E p v \<Longrightarrow>
   eval_cases h E v sp cs s = eval_cases h E v sp' cs s"
proof (induction cs arbitrary: s)
  case (Cons c cs)
  show ?case
  proof (cases "\<exists>p \<in> set (case mc_pattern c of POr ps _ \<Rightarrow> ps | q \<Rightarrow> [q]). always_matches h E p v")
    case True
    then show ?thesis
      using case_matches [of _ c h E v s] by (auto simp: bindc_def split: option.split sum.split)
  next
    case False
    with Cons show ?thesis by (auto simp: bindc_def split: option.split sum.split)
  qed
qed simp

text \<open>When a comparison holds, and the numbers two comparisons leave out.\<close>

definition holds :: "binary_op \<Rightarrow> f64 \<Rightarrow> f64 \<Rightarrow> bool" where
  "holds op x k =
     (case op of
        OpLt \<Rightarrow> flt x k | OpLe \<Rightarrow> fle x k | OpGt \<Rightarrow> flt k x | OpGe \<Rightarrow> fle k x
      | OpEq \<Rightarrow> feq x k | OpNeq \<Rightarrow> \<not> feq x k | _ \<Rightarrow> False)"

lemma double_order:
  "x \<noteq> FNan \<Longrightarrow> flt b a \<Longrightarrow> flt x a \<or> flt b x"
  "x \<noteq> FNan \<Longrightarrow> feq b a \<Longrightarrow> flt x a \<or> fle b x"
  "x \<noteq> FNan \<Longrightarrow> feq b a \<Longrightarrow> fle x a \<or> flt b x"
  "feq a b \<Longrightarrow> feq x a \<or> \<not> feq x b"
  by (cases x; cases a; cases b; auto simp: fle_def)+

lemma no_gap_holds:
  assumes "no_gap (lo, a) (hi, b)" "x \<noteq> FNan"
  shows "holds lo x a \<or> holds hi x b"
  using assms(1) double_order(1-3) [OF assms(2), of b a] double_order(4) [of a b x] unfolding no_gap_def holds_def
  by (auto simp: fle_def split: if_splits)

lemma comparison_always:
  assumes "fold_const e = Some (CNum k)" "language_literals e" "const_depth e \<le> n"
    and v: "is_number v" "value_ok v" and "holds op (number_f64 v) k"
  shows "always_matches h (engine_at h n) (PComparison op e sp) v"
  unfolding always_matches_def
proof
  fix s
  obtain r where r: "eval (engine_at h n) e s = Some (Inr r, s)" "stands_for (CNum k) r"
    using folded_evaluates [OF assms(1-3)] by blast
  from r(2) have n: "is_number r" "value_ok r" and d: "same_double k (number_f64 r)" by (simp_all add: stands_for_def)
  have c: "flt (number_f64 v) (number_f64 r) = flt (number_f64 v) k" "flt (number_f64 r) (number_f64 v) = flt k (number_f64 v)"
    "fle (number_f64 v) (number_f64 r) = fle (number_f64 v) k" "fle (number_f64 r) (number_f64 v) = fle k (number_f64 v)"
    "feq (number_f64 v) (number_f64 r) = feq (number_f64 v) k"
    using same_double_compare [OF same_double_refl d, of "number_f64 v"] same_double_compare [OF d same_double_refl, of "number_f64 v"]
    by simp_all
  have "comparison_pattern op v r sp = Inr (Some True)"
    using assms(6) numeric_relations [OF v(1) n(1) v(2) n(2)] c
    by (cases op) (simp_all add: holds_def comparison_pattern_def order_test_def matched_def)
  with r(1) show "pattern_matches h (engine_at h n) (PComparison op e sp) v s = Some (Inr (Some True), s)"
    by (simp add: bindc_def lift_def ret_def)
qed

definition constants_fit :: "nat \<Rightarrow> (expr, statement) match_expr \<Rightarrow> bool" where
  "constants_fit n m =
     list_all (\<lambda>p. case p of PComparison op e sp \<Rightarrow> language_literals e \<and> const_depth e \<le> n | _ \<Rightarrow> True) (alternatives m)"

text \<open>The values a ground of the pass speaks of: any behind a wildcard, a truth value, a number that is one.\<close>

definition spoken_of :: "(expr, statement) match_expr \<Rightarrow> zvalue \<Rightarrow> bool" where
  "spoken_of m v \<longleftrightarrow>
     has_wildcard (alternatives m)
     \<or> card (set (bool_literals (alternatives m))) = 2 \<and> (\<exists>b. v = VBool b)
     \<or> comparisons_cover (alternatives m) \<and> is_number v \<and> value_ok v \<and> number_f64 v \<noteq> FNan"

lemma constant_comparisonD:
  "(op, k) \<in> set (constant_comparisons alts) \<Longrightarrow> \<exists>e sp. PComparison op e sp \<in> set alts \<and> fold_const e = Some (CNum k)"
  by (force simp: constant_comparisons_def split: pattern.splits option.splits const_value.splits)

lemma always_matching_alternative:
  assumes "spoken_of m v" "constants_fit n m"
  shows "\<exists>p \<in> set (alternatives m). always_matches h (engine_at h n) p v"
  using assms(1) unfolding spoken_of_def
proof (elim disjE conjE exE)
  assume "has_wildcard (alternatives m)"
  then obtain p where p: "p \<in> set (alternatives m)" "case p of PWildcard _ \<Rightarrow> True | _ \<Rightarrow> False"
    by (auto simp: has_wildcard_def list_ex_iff)
  from p(2) obtain sp where "p = PWildcard sp" by (cases p) simp_all
  with p(1) have "PWildcard sp \<in> set (alternatives m)" by simp
  moreover have "always_matches h (engine_at h n) (PWildcard sp) v" by (simp add: always_matches_def ret_def)
  ultimately show ?thesis by blast
next
  fix b
  assume c: "card (set (bool_literals (alternatives m))) = 2" and v: "v = VBool b"
  have "set (bool_literals (alternatives m)) = UNIV"
    by (rule card_subset_eq [OF finite subset_UNIV]) (simp add: c)
  then have "b \<in> set (bool_literals (alternatives m))" by simp
  then obtain sp where "PLiteral (LBool b) sp \<in> set (alternatives m)"
    by (auto simp: bool_literals_def split: pattern.splits literal.splits)
  moreover have "always_matches h (engine_at h n) (PLiteral (LBool b) sp) v"
    by (simp add: always_matches_def ret_def v literal_to_value_def matched_def)
  ultimately show ?thesis by blast
next
  assume c: "comparisons_cover (alternatives m)" and v: "is_number v" "value_ok v" "number_f64 v \<noteq> FNan"
  from c obtain lo a hi b where ab: "(lo, a) \<in> set (constant_comparisons (alternatives m))"
      "(hi, b) \<in> set (constant_comparisons (alternatives m))" "no_gap (lo, a) (hi, b)"
    by (auto simp: comparisons_cover_def list_ex_iff Let_def)
  from no_gap_holds [OF ab(3) v(3)] obtain op k where k: "(op, k) \<in> set (constant_comparisons (alternatives m))"
      "holds op (number_f64 v) k" using ab(1,2) by blast
  from constant_comparisonD [OF k(1)] obtain e sp where e: "PComparison op e sp \<in> set (alternatives m)"
      "fold_const e = Some (CNum k)" by blast
  have "language_literals e" "const_depth e \<le> n" using assms(2) e(1) by (auto simp: constants_fit_def list_all_iff)
  from comparison_always [OF e(2) this v(1,2) k(2)] e(1) show ?thesis by blast
qed

lemma alternatives_of_cases:
  "p \<in> set (alternatives m) \<Longrightarrow> \<exists>c \<in> set (m_cases m). p \<in> set (case mc_pattern c of POr ps _ \<Rightarrow> ps | q \<Rightarrow> [q])"
  by (auto simp: alternatives_def)

text \<open>
  C16. What the pass calls complete finds an arm.  When the pass says nothing about a match, for a
  wildcard, for both truth values or for two comparisons without a gap, then on every value that
  ground speaks of the match never ends without an arm: its answer is the same wherever the error for
  that case would be reported, in every state, whatever else the arms do and raise.
\<close>

theorem complete_match_finds_an_arm:
  assumes "spoken_of m v" and "constants_fit n m"
  shows "complete_match m \<and> eval_cases h (engine_at h n) v sp (m_cases m) s = eval_cases h (engine_at h n) v sp' (m_cases m) s"
proof
  show "complete_match m" using assms(1) by (auto simp: spoken_of_def complete_match_def Let_def)
  show "eval_cases h (engine_at h n) v sp (m_cases m) s = eval_cases h (engine_at h n) v sp' (m_cases m) s"
    using always_matching_alternative [OF assms] alternatives_of_cases cases_find_an_arm by metis
qed

text \<open>Below 5, and from 5 on.\<close>

theorem complete_match_finds_an_arm_witness:
  "eval_cases quiet_host (engine_at quiet_host 1) (VInt 7) (no_span\<lparr>file_id := 1\<rparr>)
      [MatchCase (PComparison OpLt (ELiteral (LiteralExpr (LInt 5) no_span)) no_span) None None no_span,
       MatchCase (PComparison OpGe (ELiteral (LiteralExpr (LInt 5) no_span)) no_span) None None no_span] new_interp
   = eval_cases quiet_host (engine_at quiet_host 1) (VInt 7) no_span
      [MatchCase (PComparison OpLt (ELiteral (LiteralExpr (LInt 5) no_span)) no_span) None None no_span,
       MatchCase (PComparison OpGe (ELiteral (LiteralExpr (LInt 5) no_span)) no_span) None None no_span] new_interp"
proof -
  let ?five = "ELiteral (LiteralExpr (LInt 5) no_span)"
  let ?m = "MatchExpr ?five [MatchCase (PComparison OpLt ?five no_span) None None no_span,
       MatchCase (PComparison OpGe ?five no_span) None None no_span] no_span"
  have "comparisons_cover (alternatives ?m)"
    by (simp add: comparisons_cover_def alternatives_def constant_comparisons_def no_gap_def in_range_feq in_int_range_iff)
  then have s: "spoken_of ?m (VInt 7)"
    by (simp add: spoken_of_def is_number_def number_f64_def f_of_int_not_nan in_int_range_iff)
  have f: "constants_fit 1 ?m" by (simp add: constants_fit_def alternatives_def in_int_range_iff)
  show ?thesis
    using complete_match_finds_an_arm [OF s f, of quiet_host "no_span\<lparr>file_id := 1\<rparr>" new_interp no_span, THEN conjunct2] by (simp only: match_expr.sel)
qed

text \<open>A number that is none falls through two comparisons without a gap.\<close>

lemma nan_is_left_out:
  "no_gap (OpLt, k) (OpGe, k') \<Longrightarrow> \<not> holds OpLt FNan k \<and> \<not> holds OpGe FNan k'"
  by (cases k; cases k') (simp_all add: holds_def fle_def)

end
