(* ===== verification/ZyLastUse.thy ===== *)
theory ZyLastUse imports ZyWalk ZyRefs "HOL-Library.List_Lexorder" begin

text \<open>
  The last-use analysis (crates/zymbol-semantic/src/last_use.rs): which names may be destroyed after
  which statement of a body, and which names are left alone in the whole program.  The source collects
  mentions in a map from names to the index of the last statement that mentions them and in a set of
  names that must not be freed; here a walk answers the list of mentions, each with whether it poisons
  its name.
\<close>

section \<open>Mentions\<close>

type_synonym mention = "ustring \<times> bool"

definition mentions_of :: "ustring list \<Rightarrow> mention list" where
  "mentions_of xs = map (\<lambda>x. (x, False)) xs"

text \<open>What stands between braces in a text, as it is written.\<close>

function scan_interpolated :: "ustring \<Rightarrow> ustring list" where
  "scan_interpolated s =
     (case s of
        [] \<Rightarrow> []
      | c # cs \<Rightarrow>
          if c = 123 \<and> 125 \<in> set cs
          then takeWhile (\<lambda>d. d \<noteq> 125) cs # scan_interpolated (tl (dropWhile (\<lambda>d. d \<noteq> 125) cs))
          else scan_interpolated cs)"
  by pat_completeness auto
termination
proof (relation "measure length", goal_cases)
  case (2 s c cs)
  have "length (tl (dropWhile (\<lambda>d. d \<noteq> 125) cs)) \<le> length cs"
    using length_dropWhile_le [of "\<lambda>d. d \<noteq> 125" cs] by simp
  with 2 show ?case by simp
qed simp_all

declare scan_interpolated.simps [simp del]

definition scan_literal :: "literal \<Rightarrow> mention list" where
  "scan_literal l = (case l of LInterpolated s \<Rightarrow> mentions_of (scan_interpolated s) | _ \<Rightarrow> [])"

definition item_names :: "destructure_item list \<Rightarrow> ustring list" where
  "item_names is = concat (map (\<lambda>i. case i of DBind n \<Rightarrow> [n] | DRest n \<Rightarrow> [n] | DIgnore \<Rightarrow> []) is)"

definition pattern_names :: "destructure_pattern \<Rightarrow> ustring list" where
  "pattern_names p =
     (case p of DArray is \<Rightarrow> item_names is | DPositional is \<Rightarrow> item_names is | DNamedTuple ps \<Rightarrow> map snd ps)"

definition prompt_names :: "input_prompt option \<Rightarrow> ustring list" where
  "prompt_names z =
     (case z of
        Some (PromptInterpolated ps) \<Rightarrow> concat (map (\<lambda>p. case p of PartVariable n \<Rightarrow> [n] | PartText _ \<Rightarrow> []) ps)
      | _ \<Rightarrow> [])"

lemma pattern_part_smaller:
  "c \<in> set (m_cases m) \<Longrightarrow> size_pattern size (mc_pattern c) < size (EMatch m)"
  "c \<in> set (m_cases m) \<Longrightarrow> size_pattern size (mc_pattern c) < size (SMatch m)"
proof -
  obtain e cs sp where m: "m = MatchExpr e cs sp" by (cases m)
  have p: "size_pattern size (mc_pattern c) < size_match_case size size c" for c :: "(expr, statement) match_case"
    by (cases c) simp
  show "c \<in> set (m_cases m) \<Longrightarrow> size_pattern size (mc_pattern c) < size (EMatch m)"
    "c \<in> set (m_cases m) \<Longrightarrow> size_pattern size (mc_pattern c) < size (SMatch m)"
    using m below_list [of c cs _ "size_match_case size size", OF _ p] by simp_all
qed

lemma match_expr_smaller:
  "size (m_scrutinee m) < size (EMatch m)" "c \<in> set (m_cases m) \<Longrightarrow> mc_value c = Some e \<Longrightarrow> size e < size (EMatch m)"
  "c \<in> set (m_cases m) \<Longrightarrow> s \<in> set (block_of (mc_block c)) \<Longrightarrow> size s < size (EMatch m)"
  using match_part_smaller(1) [of m] match_part_smaller(2) [of c m e] block_part_smaller(8) [of c m s] by simp_all

lemma in_patterns: "p \<in> set ps \<Longrightarrow> size_pattern size p < Suc (size_list (size_pattern size) ps)"
  using below_list [of p ps _ "size_pattern size"] by (auto dest!: split_list)

lemma statement_part_smaller:
  "e \<in> set (out_exprs x) \<Longrightarrow> size e < size (SOutput x)" "size (as_value a) < size (SAssignment a)"
  "size (cd_value d) < size (SConstDecl d)" "size (da_value g) < size (SDestructureAssign g)"
  "rt_value r = Some e \<Longrightarrow> size e < size (SReturn r)" "size (es_expr w) < size (SExpr w)"
  "size (slp_duration z) < size (SSleep z)" "Some e \<in> set (op_slots u) \<Longrightarrow> size e < size (SOutputPos u)"
  "e \<in> set (op_items u) \<Longrightarrow> size e < size (SOutputPos u)"
  by (rule own_exprs_smaller; auto simp: walk_stmt_exprs.simps intro!: bexI [of _ "Some e"])+

text \<open>
  The expressions that mention nothing themselves are walked part by part: for these the source
  visits the parts walk_sub_exprs answers, in the same order.
\<close>

function scan_expr :: "expr \<Rightarrow> mention list" and scan_pattern :: "expr pattern \<Rightarrow> mention list"
  and scan_stmt :: "statement \<Rightarrow> mention list" where
  "scan_expr e =
     (case e of
        ELiteral l \<Rightarrow> scan_literal (lit_value l)
      | EIdentifier i \<Rightarrow> [(id_name i, id_hot i \<or> id_pre_hot i)]
      | EMatch m \<Rightarrow>
          scan_expr (m_scrutinee m)
          @ concat (map (\<lambda>c. scan_pattern (mc_pattern c) @ concat (map scan_expr (option_parts (mc_value c)))
              @ concat (map scan_stmt (block_of (mc_block c)))) (m_cases m))
      | ELambda l \<Rightarrow>
          concat (map scan_expr (lambda_value (lam_body l))) @ concat (map scan_stmt (lambda_block (lam_body l)))
      | _ \<Rightarrow> concat (map scan_expr (walk_sub_exprs e)))"
| "scan_pattern p =
     (case p of
        PLiteral l _ \<Rightarrow> scan_literal l
      | PRange a b _ \<Rightarrow> scan_expr a @ scan_expr b
      | PList ps _ \<Rightarrow> concat (map scan_pattern ps)
      | PWildcard _ \<Rightarrow> []
      | PComparison _ e _ \<Rightarrow> scan_expr e
      | PIdent x _ \<Rightarrow> [(x, False)]
      | POr ps _ \<Rightarrow> concat (map scan_pattern ps)
      | PErrorKind _ _ _ \<Rightarrow> [])"
| "scan_stmt s =
     (case s of
        SOutput x \<Rightarrow> concat (map scan_expr (out_exprs x))
      | SAssignment a \<Rightarrow> (as_name a, as_hot a \<or> as_pre_hot a) # scan_expr (as_value a)
      | SConstDecl d \<Rightarrow> (cd_name d, True) # scan_expr (cd_value d)
      | SDestructureAssign d \<Rightarrow> mentions_of (pattern_names (da_pattern d)) @ scan_expr (da_value d)
      | SLifetimeEnd l \<Rightarrow> [(le_name l, False)]
      | SInput i \<Rightarrow> mentions_of (in_variable i # prompt_names (in_prompt i))
      | SIf i \<Rightarrow>
          scan_expr (if_condition i) @ concat (map scan_stmt (blk_statements (if_then i)))
          @ concat (map (\<lambda>b. scan_expr (ei_condition b) @ concat (map scan_stmt (blk_statements (ei_block b)))) (if_else_ifs i))
          @ concat (map scan_stmt (block_of (if_else i)))
      | SLoop l \<Rightarrow>
          mentions_of (option_parts (lp_iterator l)) @ concat (map scan_expr (option_parts (lp_condition l)))
          @ concat (map scan_expr (option_parts (lp_iterable l))) @ concat (map scan_stmt (blk_statements (lp_body l)))
      | STry t \<Rightarrow>
          concat (map scan_stmt (blk_statements (try_block t)))
          @ concat (map (\<lambda>k. concat (map scan_stmt (blk_statements (cc_block k)))) (try_catches t))
          @ (case try_finally t of None \<Rightarrow> [] | Some f \<Rightarrow> concat (map scan_stmt (blk_statements (fc_block f))))
      | SReturn r \<Rightarrow> concat (map scan_expr (option_parts (rt_value r)))
      | SMatch m \<Rightarrow>
          scan_expr (m_scrutinee m)
          @ concat (map (\<lambda>c. scan_pattern (mc_pattern c) @ concat (map scan_expr (option_parts (mc_value c)))
              @ concat (map scan_stmt (block_of (mc_block c)))) (m_cases m))
      | SExpr x \<Rightarrow> scan_expr (es_expr x)
      | SCliArgsCapture c \<Rightarrow> [(ca_variable c, False)]
      | SSleep x \<Rightarrow> scan_expr (slp_duration x)
      | SKeyInput k \<Rightarrow> [(ki_variable k, False)]
      | SOutputPos p \<Rightarrow>
          concat (map (\<lambda>z. concat (map scan_expr (option_parts z))) (op_slots p)) @ concat (map scan_expr (op_items p))
      | STuiBlock t \<Rightarrow> concat (map scan_stmt (blk_statements (tui_body t)))
      | _ \<Rightarrow> [])"
  by pat_completeness auto
termination
  by (relation "measure (case_sum size (case_sum (size_pattern size) size))")
     (auto simp: in_measure simp del: statement.size expr.size walk_sub_exprs.simps
        intro: smaller pattern_part_smaller match_expr_smaller in_patterns statement_part_smaller)

declare scan_expr.simps [simp del] scan_pattern.simps [simp del] scan_stmt.simps [simp del]

record mentions =
  last_mention :: "ustring \<rightharpoonup> nat"
  poisoned :: "ustring set"

definition no_mentions :: mentions where
  "no_mentions = \<lparr>last_mention = Map.empty, poisoned = {}\<rparr>"

fun take_mention :: "nat \<Rightarrow> mention \<Rightarrow> mentions \<Rightarrow> mentions" where
  "take_mention i (x, p) m =
     m\<lparr>last_mention := (last_mention m)(x \<mapsto> i), poisoned := (if p then insert x (poisoned m) else poisoned m)\<rparr>"

fun region_mentions :: "nat \<Rightarrow> statement list \<Rightarrow> mentions \<Rightarrow> mentions" where
  "region_mentions i [] m = m"
| "region_mentions i (c # cs) m = region_mentions (Suc i) cs (fold (take_mention i) (scan_stmt c) m)"

section \<open>What a region creates, and when it is given up\<close>

definition creations :: "statement \<Rightarrow> ustring list" where
  "creations c =
     (case c of
        SAssignment a \<Rightarrow> if \<not> as_hot a \<and> \<not> as_pre_hot a then [as_name a] else []
      | SDestructureAssign d \<Rightarrow> pattern_names (da_pattern d)
      | SInput i \<Rightarrow> [in_variable i]
      | SKeyInput k \<Rightarrow> [ki_variable k]
      | SCliArgsCapture a \<Rightarrow> [ca_variable a]
      | _ \<Rightarrow> [])"

definition region_schedule :: "statement list \<Rightarrow> ustring list \<Rightarrow> ustring set \<Rightarrow> (nat \<times> ustring list) list" where
  "region_schedule cs params excluded =
     (let m = region_mentions 0 cs no_mentions;
          candidates = remdups (params @ concat (map creations cs));
          free = filter (\<lambda>x. \<not> (case x of c # _ \<Rightarrow> c = 95 | [] \<Rightarrow> False) \<and> x \<notin> poisoned m \<and> x \<notin> excluded) candidates;
          slot = (\<lambda>i. sort (filter (\<lambda>x. last_mention m x = Some i) free))
      in filter (\<lambda>(i, xs). xs \<noteq> []) (map (\<lambda>i. (i, slot i)) [0..<length cs]))"

definition mentioned_names :: "statement block \<Rightarrow> ustring set" where
  "mentioned_names b =
     (let m = fold (take_mention 0) (concat (map scan_stmt (blk_statements b))) no_mentions
      in dom (last_mention m) \<union> poisoned m)"

section \<open>Names left alone in the whole program\<close>

function collect_decl_poisons :: "statement \<Rightarrow> ustring set" where
  "collect_decl_poisons c =
     (case c of
        SFunctionDecl d \<Rightarrow>
          set (map fst (filter snd (concat (map scan_stmt (blk_statements (fd_body d))))))
          \<union> \<Union> (set (map collect_decl_poisons (blk_statements (fd_body d))))
      | _ \<Rightarrow> {})"
  by pat_completeness auto
termination
  by (relation "measure size") (auto simp: in_measure simp del: statement.size intro: smaller)

declare collect_decl_poisons.simps [simp del]

definition mention_reads_name :: "statement \<Rightarrow> ustring \<Rightarrow> bool" where
  "mention_reads_name c x =
     (case c of
        SAssignment a \<Rightarrow> x \<in> set (map fst (scan_expr (as_value a)))
      | SDestructureAssign d \<Rightarrow> x \<in> set (map fst (scan_expr (da_value d)))
      | SInput i \<Rightarrow> x \<in> set (prompt_names (in_prompt i))
      | _ \<Rightarrow> True)"

fun free_mentions :: "ustring set \<Rightarrow> statement list \<Rightarrow> ustring set" where
  "free_mentions local [] = {}"
| "free_mentions local (c # cs) =
     {x \<in> set (map fst (scan_stmt c)). x \<notin> local \<and> \<not> (x \<in> set (creations c) \<and> \<not> mention_reads_name c x)}
     \<union> free_mentions (local \<union> set (creations c)) cs"

text \<open>The free names of every named function; a later declaration of a name takes the place of an earlier one.\<close>

function fn_free_vars :: "statement \<Rightarrow> (ustring \<times> ustring set) list" where
  "fn_free_vars c =
     (case c of
        SFunctionDecl d \<Rightarrow>
          (fd_name d, free_mentions (set (map pa_name (fd_parameters d))) (blk_statements (fd_body d)))
          # concat (map fn_free_vars (blk_statements (fd_body d)))
      | _ \<Rightarrow> [])"
  by pat_completeness auto
termination
  by (relation "measure size") (auto simp: in_measure simp del: statement.size intro: smaller)

declare fn_free_vars.simps [simp del]

definition collect_fn_free_vars :: "statement list \<Rightarrow> (ustring \<times> ustring set) list" where
  "collect_fn_free_vars cs = rev (concat (map fn_free_vars cs))"

text \<open>The names an expression calls, and the names of functions it mentions otherwise.\<close>

definition called_name :: "expr \<Rightarrow> ustring option" where
  "called_name f = (case unwrap_group f of EIdentifier i \<Rightarrow> Some (id_name i) | _ \<Rightarrow> None)"

function called_names :: "expr \<Rightarrow> ustring list" where
  "called_names e =
     (case e of EFunctionCall k \<Rightarrow> option_parts (called_name (call_callable k)) | _ \<Rightarrow> [])
     @ concat (map called_names (walk_sub_exprs e))"
  by pat_completeness auto
termination
  by (relation "measure size") (auto simp: in_measure simp del: expr.size walk_sub_exprs.simps intro: smaller)

declare called_names.simps [simp del]

definition collect_call_callables :: "statement \<Rightarrow> ustring list" where
  "collect_call_callables c = concat (map called_names (walk_stmt_exprs c))"

lemma call_part_smaller:
  "size (call_callable k) < size (EFunctionCall k)" "e \<in> set (call_arguments k) \<Longrightarrow> size e < size (EFunctionCall k)"
  using walk_sub_exprs_smaller [of _ "EFunctionCall k"] by simp_all

function extra_occurrences :: "ustring set \<Rightarrow> expr \<Rightarrow> ustring list" where
  "extra_occurrences fns e =
     (case e of
        EFunctionCall k \<Rightarrow>
          (if called_name (call_callable k) = None then extra_occurrences fns (call_callable k) else [])
          @ concat (map (extra_occurrences fns) (call_arguments k))
      | EIdentifier i \<Rightarrow> (if id_name i \<in> fns then [id_name i] else [])
      | _ \<Rightarrow> concat (map (extra_occurrences fns) (walk_sub_exprs e)))"
  by pat_completeness auto
termination
  by (relation "measure (size \<circ> snd)")
     (auto simp: in_measure simp del: expr.size walk_sub_exprs.simps intro: smaller call_part_smaller)

declare extra_occurrences.simps [simp del]

definition value_uses :: "ustring set \<Rightarrow> statement \<Rightarrow> ustring set" where
  "value_uses fns c =
     {x \<in> set (map fst (scan_stmt c)). x \<in> fns \<and> x \<notin> set (collect_call_callables c)}
     \<union> set (concat (map (extra_occurrences fns) (walk_stmt_exprs c)))"

function scan_value_uses :: "ustring set \<Rightarrow> statement \<Rightarrow> ustring set" where
  "scan_value_uses fns c =
     (case c of
        SFunctionDecl d \<Rightarrow> \<Union> (set (map (scan_value_uses fns) (blk_statements (fd_body d))))
      | _ \<Rightarrow> value_uses fns c)"
  by pat_completeness auto
termination
  by (relation "measure (size \<circ> snd)") (auto simp: in_measure simp del: statement.size intro: smaller)

declare scan_value_uses.simps [simp del]

definition auto_free_exclusions :: "bool \<Rightarrow> statement list \<Rightarrow> ustring set" where
  "auto_free_exclusions is_module cs =
     (let fn_free = collect_fn_free_vars cs;
          value_used = \<Union> (set (map (scan_value_uses (set (map fst fn_free))) cs))
      in set (map fst (filter snd (concat (map scan_stmt cs))))
         \<union> \<Union> (set (map collect_decl_poisons cs))
         \<union> \<Union> ((\<lambda>x. case map_of fn_free x of None \<Rightarrow> {} | Some free \<Rightarrow> free) ` value_used)
         \<union> (if is_module then set (concat (map creations cs)) else {}))"

section \<open>Output arguments\<close>

definition output_argument :: "(expr function_call) \<Rightarrow> nat \<Rightarrow> ustring list" where
  "output_argument k i =
     (if i < length (call_arguments k) then option_parts (called_name (call_arguments k ! i)) else [])"

function written_names :: "expr \<Rightarrow> ustring list" where
  "written_names e =
     (case e of EFunctionCall k \<Rightarrow> concat (map (output_argument k) (call_out_args k)) | _ \<Rightarrow> [])
     @ concat (map written_names (walk_sub_exprs e))"
  by pat_completeness auto
termination
  by (relation "measure size") (auto simp: in_measure simp del: expr.size walk_sub_exprs.simps intro: smaller)

declare written_names.simps [simp del]

definition names_written_through_output :: "statement \<Rightarrow> ustring set" where
  "names_written_through_output c = set (concat (map written_names (walk_stmt_exprs c)))"

section \<open>When a name is given up\<close>

definition names_in :: "statement \<Rightarrow> ustring set" where
  "names_in c = fst ` set (scan_stmt c)"

lemma take_mentions:
  "last_mention (fold (take_mention i) ms m) x = (if x \<in> fst ` set ms then Some i else last_mention m x)"
  "poisoned (fold (take_mention i) ms m) = poisoned m \<union> {x. (x, True) \<in> set ms}"
  by (induction ms arbitrary: m) (auto split: if_splits)

lemma region_poisoned: "poisoned (region_mentions k cs m) = poisoned m \<union> {x. \<exists>c \<in> set cs. (x, True) \<in> set (scan_stmt c)}"
  by (induction cs arbitrary: k m) (auto simp: take_mentions)

text \<open>The statements of a region in which a name is mentioned for the last time.\<close>

fun last_index :: "nat \<Rightarrow> ustring \<Rightarrow> statement list \<Rightarrow> nat option" where
  "last_index k x [] = None"
| "last_index k x (c # cs) =
     (case last_index (Suc k) x cs of Some i \<Rightarrow> Some i | None \<Rightarrow> if x \<in> names_in c then Some k else None)"

lemma region_last: "last_mention (region_mentions k cs m) x = (case last_index k x cs of Some i \<Rightarrow> Some i | None \<Rightarrow> last_mention m x)"
  by (induction cs arbitrary: k m) (auto simp: take_mentions names_in_def split: option.splits)

lemma last_index_none: "last_index k x cs = None \<longleftrightarrow> (\<forall>c \<in> set cs. x \<notin> names_in c)"
proof (induction cs arbitrary: k)
  case (Cons c cs)
  show ?case using Cons.IH [of "Suc k"] by (cases "last_index (Suc k) x cs") auto
qed simp

lemma last_index_some:
  "last_index k x cs = Some i \<longleftrightarrow>
     k \<le> i \<and> i < k + length cs \<and> x \<in> names_in (cs ! (i - k)) \<and> (\<forall>c \<in> set (drop (Suc i - k) cs). x \<notin> names_in c)"
proof (induction cs arbitrary: k)
  case (Cons c cs)
  show ?case
  proof (cases "i \<le> k")
    case True
    then show ?thesis
      using Cons.IH [of "Suc k"] last_index_none [of "Suc k" x cs] by (cases "i = k") (auto split: option.splits)
  next
    case False
    then have "i - k = Suc (i - Suc k)" "Suc i - k = Suc (Suc i - Suc k)" by auto
    with False show ?thesis
      using Cons.IH [of "Suc k"] last_index_none [of "Suc k" x cs] by (auto split: option.splits if_splits)
  qed
qed simp

lemma in_slot:
  "(\<exists>xs. (i, xs) \<in> set (filter (\<lambda>(i, xs). xs \<noteq> []) (map (\<lambda>i. (i, f i)) [0..<n])) \<and> x \<in> set xs) \<longleftrightarrow> i < n \<and> x \<in> set (f i)"
  by force

lemma in_schedule_iff:
  "(\<exists>xs. (i, xs) \<in> set (region_schedule cs params excluded) \<and> x \<in> set xs) \<longleftrightarrow>
     i < length cs \<and> (x \<in> set params \<or> x \<in> (\<Union>c \<in> set cs. set (creations c)))
     \<and> \<not> (\<exists>y. x = 95 # y) \<and> x \<notin> excluded \<and> (x, True) \<notin> (\<Union>c \<in> set cs. set (scan_stmt c))
     \<and> x \<in> names_in (cs ! i) \<and> x \<notin> (\<Union>c \<in> set (drop (Suc i) cs). names_in c)"
proof -
  let ?m = "region_mentions 0 cs no_mentions"
  have l: "last_mention ?m x = Some i \<longleftrightarrow>
     i < length cs \<and> x \<in> names_in (cs ! i) \<and> (\<forall>c \<in> set (drop (Suc i) cs). x \<notin> names_in c)"
    using last_index_some [of 0 x cs i] by (cases "last_index 0 x cs") (simp_all add: region_last no_mentions_def)
  have p: "x \<in> poisoned ?m \<longleftrightarrow> (\<exists>c \<in> set cs. (x, True) \<in> set (scan_stmt c))"
    by (simp add: region_poisoned no_mentions_def)
  have u: "(case x of c # _ \<Rightarrow> c = 95 | [] \<Rightarrow> False) \<longleftrightarrow> (\<exists>y. x = 95 # y)"
    by (cases x) auto
  show ?thesis
    unfolding region_schedule_def Let_def in_slot
    by (auto simp: l u p)
qed

text \<open>
  C35. A name is given up after the last statement that mentions it.  The schedule of a body names x
  after statement number i exactly when x is a parameter or created by a statement of the body itself,
  its name does not begin with an underscore, the program does not keep it and no mention in the body
  is hot or a constant, statement i mentions it, and no later statement of the body does, in any block,
  function without a name, pattern or text it holds.  So a name has one place at most.
\<close>

theorem schedule_is_last_use:
  "(\<exists>xs. (i, xs) \<in> set (region_schedule cs params excluded) \<and> x \<in> set xs) \<longleftrightarrow>
     i < length cs \<and> (x \<in> set params \<or> x \<in> (\<Union>c \<in> set cs. set (creations c)))
     \<and> \<not> (\<exists>y. x = 95 # y) \<and> x \<notin> excluded \<and> (x, True) \<notin> (\<Union>c \<in> set cs. set (scan_stmt c))
     \<and> x \<in> names_in (cs ! i) \<and> x \<notin> (\<Union>c \<in> set (drop (Suc i) cs). names_in c)"
  by (rule in_schedule_iff)


section \<open>The scan misses no identifier\<close>

lemma own_exprs_covered: "e \<in> set (own_exprs t) \<Longrightarrow> set (scan_expr e) \<subseteq> set (scan_stmt t)"
proof (cases t)
  case (SIf x)
  assume "e \<in> set (own_exprs t)"
  with SIf show ?thesis by (auto simp: scan_stmt.simps [of "SIf x"])
next
  case (SLoop x)
  assume "e \<in> set (own_exprs t)"
  with SLoop show ?thesis by (auto simp: scan_stmt.simps [of "SLoop x"])
next
  case (SMatch x)
  assume "e \<in> set (own_exprs t)"
  with SMatch show ?thesis by (fastforce simp: scan_stmt.simps [of "SMatch x"])
next
  case (SOutputPos x)
  assume "e \<in> set (own_exprs t)"
  with SOutputPos show ?thesis by (fastforce simp: scan_stmt.simps [of "SOutputPos x"] walk_stmt_exprs.simps)
qed (auto simp: walk_stmt_exprs.simps scan_stmt.simps [of "SOutput x" for x] scan_stmt.simps [of "SAssignment x" for x]
  scan_stmt.simps [of "SConstDecl x" for x] scan_stmt.simps [of "SDestructureAssign x" for x] scan_stmt.simps [of "SReturn x" for x]
  scan_stmt.simps [of "SExpr x" for x] scan_stmt.simps [of "SSleep x" for x])

lemma inner_statements_covered: "s \<in> set (inner_statements t) \<Longrightarrow> set (scan_stmt s) \<subseteq> set (scan_stmt t)"
proof (cases t)
  case (STry x)
  assume "s \<in> set (inner_statements t)"
  with STry show ?thesis by (auto simp: scan_stmt.simps [of "STry x"] split: option.splits)
next
  case (SIf x)
  assume "s \<in> set (inner_statements t)"
  with SIf show ?thesis by (auto simp: scan_stmt.simps [of "SIf x"])
next
  case (SMatch x)
  assume "s \<in> set (inner_statements t)"
  with SMatch show ?thesis by (fastforce simp: scan_stmt.simps [of "SMatch x"])
next
  case (SLoop x)
  assume "s \<in> set (inner_statements t)"
  with SLoop show ?thesis by (auto simp: scan_stmt.simps [of "SLoop x"])
next
  case (STuiBlock x)
  assume "s \<in> set (inner_statements t)"
  with STuiBlock show ?thesis by (auto simp: scan_stmt.simps [of "STuiBlock x"])
qed simp_all

lemma stmt_exprs_covered: "e \<in> set (walk_stmt_exprs t) \<Longrightarrow> set (scan_expr e) \<subseteq> set (scan_stmt t)"
proof (induction t rule: measure_induct_rule [of size])
  case (less t)
  from less.prems walk_stmt_exprs_set [of t] consider "e \<in> set (own_exprs t)"
    | s where "s \<in> set (inner_statements t)" "e \<in> set (walk_stmt_exprs s)" by auto
  then show ?case
  proof cases
    case 2
    with less.IH [OF inner_statements_smaller [OF 2(1)]] inner_statements_covered [OF 2(1)] show ?thesis by blast
  qed (rule own_exprs_covered)
qed

lemma match_parts_covered: "e \<in> set (match_parts m) \<Longrightarrow> set (scan_expr e) \<subseteq> set (scan_expr (EMatch m))"
proof -
  assume e: "e \<in> set (match_parts m)"
  have p: "x \<in> set (range_or_comparison p) \<Longrightarrow> set (scan_expr x) \<subseteq> set (scan_pattern p)" for x p
    by (cases p) (auto simp: range_or_comparison_def scan_pattern.simps)
  show ?thesis
    using e p stmt_exprs_covered by (subst (2) scan_expr.simps) (fastforce simp: match_parts_def)
qed

lemma scan_parts:
  "(case x of ELiteral _ \<Rightarrow> False | EIdentifier _ \<Rightarrow> False | EMatch _ \<Rightarrow> False | ELambda _ \<Rightarrow> False | _ \<Rightarrow> True)
    \<Longrightarrow> scan_expr x = concat (map scan_expr (walk_sub_exprs x))"
  by (subst scan_expr.simps) (cases x; simp del: walk_sub_exprs.simps)

lemma sub_exprs_covered: "e \<in> set (walk_sub_exprs x) \<Longrightarrow> set (scan_expr e) \<subseteq> set (scan_expr x)"
proof (cases x)
  case (EMatch m)
  then show "e \<in> set (walk_sub_exprs x) \<Longrightarrow> ?thesis" using match_parts_covered [of e m] by simp
next
  case (ELambda l)
  assume "e \<in> set (walk_sub_exprs x)"
  then show ?thesis using ELambda stmt_exprs_covered by (subst (2) scan_expr.simps) fastforce
qed (auto simp: scan_parts simp del: walk_sub_exprs.simps, simp_all)


inductive inside :: "expr \<Rightarrow> statement \<Rightarrow> bool" where
  inside_stmt: "e \<in> set (walk_stmt_exprs c) \<Longrightarrow> inside e c"
| inside_part: "inside e c \<Longrightarrow> f \<in> set (walk_sub_exprs e) \<Longrightarrow> inside f c"

lemma inside_is_scanned: "inside e c \<Longrightarrow> set (scan_expr e) \<subseteq> set (scan_stmt c)"
  by (induction rule: inside.induct) (use stmt_exprs_covered sub_exprs_covered in blast)+

lemma identifier_is_mentioned: "inside (EIdentifier v) c \<Longrightarrow> (id_name v, id_hot v \<or> id_pre_hot v) \<in> set (scan_stmt c)"
  using inside_is_scanned [of "EIdentifier v" c] by (simp add: scan_expr.simps)

lemma in_schedule:
  assumes "(i, xs) \<in> set (region_schedule cs params excluded)" "x \<in> set xs"
  shows "i < length cs" "x \<notin> excluded" "c \<in> set cs \<Longrightarrow> (x, True) \<notin> set (scan_stmt c)"
    "i < j \<Longrightarrow> j < length cs \<Longrightarrow> (x, p) \<notin> set (scan_stmt (cs ! j))"
proof -
  show "i < length cs" "x \<notin> excluded" "c \<in> set cs \<Longrightarrow> (x, True) \<notin> set (scan_stmt c)"
    using in_schedule_iff [of i cs params excluded x] assms by blast+
  assume "i < j" "j < length cs"
  then have j: "cs ! j \<in> set (drop (Suc i) cs)"
    using nth_mem [of "j - Suc i" "drop (Suc i) cs"] by simp
  from in_schedule_iff [of i cs params excluded x] assms have "x \<notin> (\<Union>c \<in> set (drop (Suc i) cs). names_in c)" by blast
  with j have "x \<notin> names_in (cs ! j)" by blast
  then show "(x, p) \<notin> set (scan_stmt (cs ! j))" unfolding names_in_def by force
qed

text \<open>
  C36. What is given up is not used again.  An identifier that stands anywhere in a statement of the
  body, behind nested blocks, the arms of a choice and the bodies of functions without a name, as far
  as the two walkers of the semantic passes reach, stands in no statement behind the one its name is
  destroyed after, and carries no mark that keeps its name alive.
\<close>

theorem freed_after_last_use:
  assumes "(i, xs) \<in> set (region_schedule cs params excluded)" and "id_name v \<in> set xs"
    and "j < length cs" and "inside (EIdentifier v) (cs ! j)"
  shows "j \<le> i \<and> \<not> hot_name v"
  using in_schedule [OF assms(1,2)] identifier_is_mentioned [OF assms(4)] assms(3)
  by (cases "i < j") (auto simp: hot_name_def)

definition last_use_demo :: "statement list" where
  "last_use_demo = [SOutput (OutputStmt [EIdentifier (IdentifierExpr (U ''x'') no_span False False)] no_span), SNewline (Newline no_span False)]"

lemma last_use_demo_schedule: "region_schedule last_use_demo [U ''x''] {} = [(0, [U ''x''])]"
  by (simp add: region_schedule_def last_use_demo_def scan_stmt.simps scan_expr.simps no_mentions_def creations_def)

theorem freed_after_last_use_witness:
  "(0::nat) \<le> 0 \<and> \<not> hot_name (IdentifierExpr (U ''x'') no_span False False)"
proof -
  have "inside (EIdentifier (IdentifierExpr (U ''x'') no_span False False)) (last_use_demo ! 0)"
    by (rule inside_stmt) (simp add: last_use_demo_def walk_stmt_exprs.simps)
  then show ?thesis
    using freed_after_last_use [of 0 "[U ''x'']" last_use_demo "[U ''x'']" "{}" "IdentifierExpr (U ''x'') no_span False False" 0]
      last_use_demo_schedule by (simp add: last_use_demo_def)
qed

end
