(* ===== verification/ZyParser.thy ===== *)
theory ZyParser imports ZyTokens begin

text \<open>
  The parser's state and its cursor (crates/zymbol-parser/src/lib.rs, struct Parser).  An operation
  takes the parser and answers a result, an error or a value, and the parser it leaves; None says that
  the bound on nesting was reached, which no Rust program sees.  The parser is always given tokens
  that end with the end of the file; behind it the source would stop with a panic, here the last token
  is answered again.
\<close>

section \<open>State and results\<close>

record parser =
  ps_tokens :: "token list"
  ps_current :: nat
  ps_diagnostics :: "diagnostic list"

type_synonym 'a parse = "parser \<Rightarrow> ((diagnostic + 'a) \<times> parser) option"

definition pret :: "'a \<Rightarrow> 'a parse" where
  "pret x p = Some (Inr x, p)"

definition pfail :: "diagnostic \<Rightarrow> 'a parse" where
  "pfail d p = Some (Inl d, p)"

definition spent :: "'a parse" where
  "spent p = None"

definition pbind :: "'a parse \<Rightarrow> ('a \<Rightarrow> 'b parse) \<Rightarrow> 'b parse" where
  "pbind m f p =
     (case m p of None \<Rightarrow> None | Some (Inl d, p') \<Rightarrow> Some (Inl d, p') | Some (Inr x, p') \<Rightarrow> f x p')"

text \<open>Runs the parser and hands the error on as a value.\<close>

definition pcatch :: "'a parse \<Rightarrow> (diagnostic \<Rightarrow> 'b parse) \<Rightarrow> ('a \<Rightarrow> 'b parse) \<Rightarrow> 'b parse" where
  "pcatch m h f p = (case m p of None \<Rightarrow> None | Some (Inl d, p') \<Rightarrow> h d p' | Some (Inr x, p') \<Rightarrow> f x p')"

definition pmap :: "('a \<Rightarrow> 'b) \<Rightarrow> 'a parse \<Rightarrow> 'b parse" where
  "pmap f m = pbind m (\<lambda>x. pret (f x))"

text \<open>Reading the state, and changing it.\<close>

definition pread :: "(parser \<Rightarrow> 'a parse) \<Rightarrow> 'a parse" where
  "pread f p = f p p"

definition pmod :: "(parser \<Rightarrow> parser) \<Rightarrow> unit parse" where
  "pmod f p = Some (Inr (), f p)"

definition diagnose :: "diagnostic \<Rightarrow> unit parse" where
  "diagnose d = pmod (\<lambda>p. p\<lparr>ps_diagnostics := ps_diagnostics p @ [d]\<rparr>)"

text \<open>A refusal at a place, with a help or without.\<close>

definition refusal :: "ustring \<Rightarrow> span \<Rightarrow> diagnostic" where
  "refusal m sp = with_span sp (diag_error m)"

definition refusal_help :: "ustring \<Rightarrow> span \<Rightarrow> ustring \<Rightarrow> diagnostic" where
  "refusal_help m sp h = with_help h (with_span sp (diag_error m))"

section \<open>The cursor\<close>

definition comment_token :: "token \<Rightarrow> bool" where
  "comment_token t = (case tk_kind t of TkLineComment _ \<Rightarrow> True | TkBlockComment _ \<Rightarrow> True | _ \<Rightarrow> False)"

definition past_comments :: "token list \<Rightarrow> nat \<Rightarrow> nat" where
  "past_comments ts i = i + length (takeWhile comment_token (drop i ts))"

definition token_or_last :: "token list \<Rightarrow> nat \<Rightarrow> token" where
  "token_or_last ts i = (if i < length ts then ts ! i else last ts)"

definition peek :: "parser \<Rightarrow> token" where
  "peek p = token_or_last (ps_tokens p) (past_comments (ps_tokens p) (ps_current p))"

definition peek_kind :: "parser \<Rightarrow> token_kind" where
  "peek_kind p = tk_kind (peek p)"

definition peek_at :: "nat \<Rightarrow> parser \<Rightarrow> token option" where
  "peek_at k p =
     (let ts = filter (\<lambda>t. \<not> comment_token t) (drop (ps_current p) (ps_tokens p))
      in if k < length ts then Some (ts ! k) else None)"

definition kind_at :: "nat \<Rightarrow> parser \<Rightarrow> token_kind option" where
  "kind_at k p = map_option tk_kind (peek_at k p)"

definition at_end :: "parser \<Rightarrow> bool" where
  "at_end p = (peek_kind p = TkEof)"

definition skip_comment_tokens :: "parser \<Rightarrow> parser" where
  "skip_comment_tokens p = p\<lparr>ps_current := past_comments (ps_tokens p) (ps_current p)\<rparr>"

definition advanced :: "parser \<Rightarrow> parser" where
  "advanced p =
     (let q = skip_comment_tokens p
      in if at_end q then q else skip_comment_tokens (q\<lparr>ps_current := ps_current q + 1\<rparr>))"

definition next_tok :: "token parse" where
  "next_tok p =
     (let q = skip_comment_tokens p in Some (Inr (token_or_last (ps_tokens q) (ps_current q)), advanced p))"

text \<open>Asking for the token under the cursor.\<close>

definition peeking :: "(token \<Rightarrow> 'a parse) \<Rightarrow> 'a parse" where
  "peeking f p = f (peek p) p"

definition if_next :: "token_kind \<Rightarrow> 'a parse \<Rightarrow> 'a parse \<Rightarrow> 'a parse" where
  "if_next k m n = peeking (\<lambda>t. if tk_kind t = k then m else n)"

definition skip_tok :: "'a parse \<Rightarrow> 'a parse" where
  "skip_tok m = pbind next_tok (\<lambda>_. m)"

text \<open>A token the grammar demands: it is taken, or its absence is refused where it should stand.\<close>

definition demand :: "token_kind \<Rightarrow> (span \<Rightarrow> diagnostic) \<Rightarrow> (token \<Rightarrow> 'a parse) \<Rightarrow> 'a parse" where
  "demand k d f = peeking (\<lambda>t. if tk_kind t = k then pbind next_tok (\<lambda>_. f t) else pfail (d (tk_span t)))"

definition demand_name :: "(span \<Rightarrow> diagnostic) \<Rightarrow> (ustring \<Rightarrow> token \<Rightarrow> 'a parse) \<Rightarrow> 'a parse" where
  "demand_name d f = peeking (\<lambda>t.
     case tk_kind t of TkIdent x \<Rightarrow> pbind next_tok (\<lambda>_. f x t) | _ \<Rightarrow> pfail (d (tk_span t)))"

section \<open>Loops\<close>

text \<open>
  A loop goes on with Inl and ends with Inr.  Every turn of the loops of the parser takes a token, so
  the number of tokens bounds the turns.
\<close>

fun ploop_at :: "nat \<Rightarrow> ('a \<Rightarrow> ('a + 'b) parse) \<Rightarrow> 'a \<Rightarrow> 'b parse" where
  "ploop_at 0 f x = spent"
| "ploop_at (Suc n) f x = pbind (f x) (\<lambda>r. case r of Inl y \<Rightarrow> ploop_at n f y | Inr z \<Rightarrow> pret z)"

definition turns_left :: "parser \<Rightarrow> nat" where
  "turns_left p = Suc (length (ps_tokens p) - ps_current p)"

definition ploop :: "('a \<Rightarrow> ('a + 'b) parse) \<Rightarrow> 'a \<Rightarrow> 'b parse" where
  "ploop f x = pread (\<lambda>p. ploop_at (turns_left p) f x)"

definition again :: "'a \<Rightarrow> ('a + 'b) parse" where
  "again x = pret (Inl x)"

definition finish :: "'b \<Rightarrow> ('a + 'b) parse" where
  "finish y = pret (Inr y)"

section \<open>Looking past brackets\<close>

text \<open>
  The scans that look past a group without reading it: from the token behind the opening one, the
  number of groups open.  They answer where the cursor stands behind the group.
\<close>

fun scan_group :: "nat \<Rightarrow> token_kind list \<Rightarrow> token_kind \<Rightarrow> nat \<Rightarrow> parser \<Rightarrow> parser" where
  "scan_group 0 opens closes depth p = p"
| "scan_group (Suc n) opens closes depth p =
     (if depth = 0 \<or> at_end p then p
      else scan_group n opens closes
             (if peek_kind p \<in> set opens then depth + 1 else if peek_kind p = closes then depth - 1 else depth)
             (advanced p))"

definition past_group :: "token_kind list \<Rightarrow> token_kind \<Rightarrow> parser \<Rightarrow> parser" where
  "past_group opens closes p = scan_group (turns_left p) opens closes 1 (advanced p)"

definition compound_assigns :: "assign_token list" where
  "compound_assigns = [TkPlusAssign, TkMinusAssign, TkStarAssign, TkSlashAssign, TkPercentAssign, TkCaretAssign]"

definition assigning :: "token_kind \<Rightarrow> bool" where
  "assigning k = (k \<in> TAssign ` set (TkAssign # compound_assigns))"

definition stepping :: "token_kind \<Rightarrow> bool" where
  "stepping k = (k = TAssign TkPlusPlus \<or> k = TAssign TkMinusMinus)"

fun past_brackets :: "nat \<Rightarrow> parser \<Rightarrow> parser" where
  "past_brackets 0 p = p"
| "past_brackets (Suc n) p =
     (if peek_kind p = TMark TkLBracket then past_brackets n (past_group [TMark TkLBracket] (TMark TkRBracket) p) else p)"

definition is_indexed_assignment :: "parser \<Rightarrow> bool" where
  "is_indexed_assignment p = assigning (peek_kind (past_brackets (turns_left p) (advanced p)))"

definition is_array_destructure :: "parser \<Rightarrow> bool" where
  "is_array_destructure p = (peek_kind (past_group [TMark TkLBracket] (TMark TkRBracket) p) = TAssign TkAssign)"

definition is_tuple_destructure :: "parser \<Rightarrow> bool" where
  "is_tuple_destructure p =
     (peek_kind (past_group [TMark TkLParen, THash TkHashLParen] (TMark TkRParen) p) = TAssign TkAssign)"

definition is_loop_pattern :: "parser \<Rightarrow> bool" where
  "is_loop_pattern p =
     (let (opens, closes) = (if peek_kind p = TMark TkLBracket then (TMark TkLBracket, TMark TkRBracket)
                             else (TMark TkLParen, TMark TkRParen))
      in peek_kind (past_group [opens] closes p) = TMark TkColon)"

text \<open>Whether a block follows the parentheses behind a name.\<close>

definition block_after_call :: "parser \<Rightarrow> bool" where
  "block_after_call p = (peek_kind (past_group [TMark TkLParen] (TMark TkRParen) (advanced p)) = TMark TkLBrace)"

definition is_name :: "token_kind \<Rightarrow> bool" where
  "is_name k = (case k of TkIdent _ \<Rightarrow> True | _ \<Rightarrow> False)"

fun lambda_params_ahead :: "nat \<Rightarrow> parser \<Rightarrow> bool" where
  "lambda_params_ahead 0 p = False"
| "lambda_params_ahead (Suc n) p =
     (if \<not> is_name (peek_kind p) then False
      else let q = advanced p
           in if peek_kind q = TMark TkComma then lambda_params_ahead n (advanced q)
              else if peek_kind q = TMark TkRParen then peek_kind (advanced q) = TOperator TkArrow
              else peek_kind q = TOperator TkArrow)"

definition is_lambda_start :: "parser \<Rightarrow> bool" where
  "is_lambda_start p =
     (if peek_kind p \<noteq> TMark TkLParen then False
      else let q = advanced p
           in if peek_kind q = TMark TkRParen then peek_kind (advanced q) = TOperator TkArrow
              else lambda_params_ahead (turns_left p) q)"

end
