(* ===== verification/ZyParseOps.thy ===== *)
theory ZyParseOps imports ZyParser ZyRefs begin

text \<open>
  What stands behind an expression (crates/zymbol-parser/src/functions.rs, index_nav.rs,
  collection_ops.rs, string_ops.rs, data_ops.rs): functions without a name, navigation in brackets, the
  operators of collections and texts, and the formats.  The parsers these call again, for an expression
  inside an expression, are the fields of a record, so that each is one definition; theory ZyParse ties
  the knot.
\<close>

record parse_engine =
  g_expr :: "expr parse"
  g_juxt :: "expr parse"
  g_postfix :: "expr parse"
  g_structural :: "expr parse"
  g_addition :: "expr parse"
  g_arm_value :: "expr parse"
  g_block :: "statement block parse"

section \<open>Helpers\<close>

definition spans :: "expr \<Rightarrow> expr \<Rightarrow> span" where
  "spans a b = span_to (expr_span a) (expr_span b)"

definition binary_of :: "binary_op \<Rightarrow> expr \<Rightarrow> expr \<Rightarrow> expr" where
  "binary_of op a b = EBinary (BinaryExpr op a b (spans a b))"

definition literal_at :: "literal \<Rightarrow> span \<Rightarrow> expr" where
  "literal_at l sp = ELiteral (LiteralExpr l sp)"

definition name_at :: "ustring \<Rightarrow> span \<Rightarrow> expr" where
  "name_at x sp = EIdentifier (IdentifierExpr x sp False False)"

text \<open>An operator that binds to the left: an operand, then operators of one level with an operand each.\<close>

definition left_assoc :: "(token_kind \<Rightarrow> binary_op option) \<Rightarrow> expr parse \<Rightarrow> expr parse" where
  "left_assoc level operand = pbind operand (ploop (\<lambda>left. peeking (\<lambda>t.
     case level (tk_kind t) of
       None \<Rightarrow> finish left
     | Some op \<Rightarrow> skip_tok (pbind operand (\<lambda>right. again (binary_of op left right))))))"

definition additive :: "token_kind \<Rightarrow> binary_op option" where
  "additive k = (if k = TOperator TkPlus then Some OpAdd else if k = TOperator TkMinus then Some OpSub else None)"

definition multiplicative :: "token_kind \<Rightarrow> binary_op option" where
  "multiplicative k =
     (if k = TOperator TkStar then Some OpMul else if k = TOperator TkSlash then Some OpDiv
      else if k = TOperator TkPercent then Some OpMod else None)"

text \<open>Powers bind to the right.\<close>

fun right_power :: "nat \<Rightarrow> expr parse \<Rightarrow> expr parse" where
  "right_power 0 operand = spent"
| "right_power (Suc n) operand = pbind operand (\<lambda>left.
     if_next (TOperator TkCaret) (skip_tok (pbind (right_power n operand) (\<lambda>right. pret (binary_of OpPow left right))))
       (pret left))"

definition powers_of :: "expr parse \<Rightarrow> expr parse" where
  "powers_of operand = pread (\<lambda>p. right_power (turns_left p) operand)"

section \<open>Functions without a name\<close>

text \<open>
  The parameters between parentheses: their names, and whether an arrow came before the closing
  parenthesis.
\<close>

definition lambda_param_list :: "(ustring list \<times> bool) parse" where
  "lambda_param_list = ploop (\<lambda>params.
     if_next (TMark TkRParen) (finish (params, False))
       (demand_name (\<lambda>sp. refusal_help (U ''expected parameter name in lambda'') sp
            (U ''lambda parameters must be identifiers: (a, b) -> expr'')) (\<lambda>x _.
          let params = params @ [x]
          in peeking (\<lambda>t.
               if tk_kind t = TMark TkComma then skip_tok (again params)
               else finish (params, tk_kind t = TOperator TkArrow))))) []"

definition lambda_head :: "(ustring list \<times> bool \<times> bool) parse" where
  "lambda_head =
     if_next (TMark TkLParen)
       (skip_tok (pbind lambda_param_list (\<lambda>(params, arrow_inside).
          peeking (\<lambda>t.
            if tk_kind t = TMark TkRParen then skip_tok (pret (params, arrow_inside, \<not> arrow_inside))
            else if tk_kind t \<noteq> TOperator TkArrow then
              pfail (refusal_help (U ''expected ')' after lambda parameters'') (tk_span t) (U ''lambda syntax: (a, b) -> expr''))
            else pret (params, arrow_inside, \<not> arrow_inside)))))
       (demand_name (\<lambda>sp. refusal_help (U ''expected parameter name in lambda'') sp (U ''lambda syntax: x -> expr''))
          (\<lambda>x _. pret ([x], False, False)))"

definition parse_lambda :: "parse_engine \<Rightarrow> expr parse" where
  "parse_lambda E = peeking (\<lambda>t0. pbind lambda_head (\<lambda>(params, arrow_inside, parenthesized).
     demand (TOperator TkArrow) (\<lambda>sp. refusal_help (U ''expected '->' in lambda expression'') sp
         (U ''lambda syntax: x -> expr or (a, b) -> expr'')) (\<lambda>_.
     pbind (if_next (TMark TkLBrace)
              (pbind (g_block E) (\<lambda>b. pret (LamBlock b, blk_span b)))
              (pbind (g_expr E) (\<lambda>e. pret (LamExpr e, expr_span e)))) (\<lambda>(body, end0).
     pbind (if arrow_inside then peeking (\<lambda>t. if tk_kind t = TMark TkRParen then skip_tok (pret (tk_span t)) else pret end0)
            else pret end0) (\<lambda>end1.
     let sp = span_to (tk_span t0) end1;
         l = ELambda (LambdaExpr params body parenthesized sp)
     in pret (if arrow_inside then EGroup (GroupExpr l sp) else l))))))"

definition parse_lambda_or_ident :: "parse_engine \<Rightarrow> expr parse" where
  "parse_lambda_or_ident E = pread (\<lambda>p.
     case peek_kind p of
       TkIdent x \<Rightarrow>
         if kind_at 1 p = Some (TOperator TkArrow) then parse_lambda E
         else pbind next_tok (\<lambda>t. pret (name_at x (tk_span t)))
     | _ \<Rightarrow> parse_lambda E)"

section \<open>Navigation in brackets\<close>

definition nav_mark :: "token_kind option \<Rightarrow> bool" where
  "nav_mark z = (z \<in> Some ` {TOperator TkGt, TMark TkSemicolon, TMark TkDotDot})"

text \<open>From the token behind the opening bracket on: whether a group in parentheses is followed by a depth mark.\<close>

fun nav_after_paren :: "token_kind list \<Rightarrow> nat \<Rightarrow> bool" where
  "nav_after_paren [] depth = False"
| "nav_after_paren (k # ks) depth =
     (if k = TMark TkLParen then nav_after_paren ks (depth + 1)
      else if k = TMark TkRParen then
        (if depth = 0 then False
         else if depth = 1 \<and> (case ks of [] \<Rightarrow> False | k' # _ \<Rightarrow> k' = TOperator TkGt) then True
         else nav_after_paren ks (depth - 1))
      else if k = TMark TkRBracket \<or> k = TkEof then False
      else nav_after_paren ks depth)"

definition kinds_ahead :: "parser \<Rightarrow> token_kind list" where
  "kinds_ahead p = map tk_kind (filter (\<lambda>t. \<not> comment_token t) (drop (ps_current p) (ps_tokens p)))"

definition is_nav_index :: "parser \<Rightarrow> bool" where
  "is_nav_index p =
     (case kind_at 1 p of
        None \<Rightarrow> False
      | Some k \<Rightarrow>
          (case k of
             TMark TkLBracket \<Rightarrow> True
           | TkInteger _ \<Rightarrow> nav_mark (kind_at 2 p)
           | TkIdent _ \<Rightarrow> nav_mark (kind_at 2 p)
           | TkString _ \<Rightarrow> nav_mark (kind_at 2 p)
           | TOperator TkMinus \<Rightarrow>
               (case kind_at 2 p of Some (TkInteger _) \<Rightarrow> nav_mark (kind_at 3 p) | _ \<Rightarrow> False)
           | TMark TkLParen \<Rightarrow> nav_after_paren (drop 1 (kinds_ahead p)) 0
           | _ \<Rightarrow> False))"

definition nav_atom_refusal :: "span \<Rightarrow> diagnostic" where
  "nav_atom_refusal sp = refusal_help
     (U ''expected navigation step: a position (integer or variable) or a dictionary key (string)'') sp
     (U ''valid nav index: arr[1>2], arr[n>m], arr[(a)>(b)], arr[1>2..4]'')"

definition parse_nav_atom :: "parse_engine \<Rightarrow> expr parse" where
  "parse_nav_atom E = peeking (\<lambda>t.
     case tk_kind t of
       TOperator TkMinus \<Rightarrow> skip_tok (peeking (\<lambda>u.
         case tk_kind u of
           TkInteger n \<Rightarrow> skip_tok (pret (literal_at (LInt (- n)) (span_to (tk_span t) (tk_span u))))
         | _ \<Rightarrow> pfail (refusal_help (U ''expected integer after '-' in nav index'') (tk_span u)
                  (U ''negative indices: arr[-1], arr[-2>-1]''))))
     | TkInteger n \<Rightarrow> skip_tok (pret (literal_at (LInt n) (tk_span t)))
     | TkIdent x \<Rightarrow> skip_tok (pret (name_at x (tk_span t)))
     | TkString s \<Rightarrow> skip_tok (pret (literal_at (LString s) (tk_span t)))
     | TMark TkLParen \<Rightarrow> skip_tok (pbind (g_expr E) (\<lambda>e.
         demand (TMark TkRParen) (\<lambda>sp. refusal_help (U ''expected ')' after computed index'') sp
             (U ''computed indices: arr[(expr)>(expr)]'')) (\<lambda>u.
         pret (EGroup (GroupExpr e (span_to (tk_span t) (tk_span u)))))))
     | _ \<Rightarrow> pfail (nav_atom_refusal (tk_span t)))"

definition parse_nav_step :: "parse_engine \<Rightarrow> expr nav_step parse" where
  "parse_nav_step E = pbind (parse_nav_atom E) (\<lambda>i.
     if_next (TMark TkDotDot) (skip_tok (pbind (parse_nav_atom E) (\<lambda>j. pret (NavStep i (Some j)))))
       (pret (NavStep i None)))"

text \<open>Something, then again behind every separator.\<close>

definition separated :: "token_kind \<Rightarrow> 'a parse \<Rightarrow> 'a list parse" where
  "separated k item = pbind item (\<lambda>x. ploop (\<lambda>xs.
     if_next k (skip_tok (pbind item (\<lambda>y. again (xs @ [y])))) (finish xs)) [x])"

definition parse_nav_path :: "parse_engine \<Rightarrow> expr nav_path parse" where
  "parse_nav_path E = pmap NavPath (separated (TOperator TkGt) (parse_nav_step E))"

definition parse_extract_group :: "parse_engine \<Rightarrow> expr extract_group parse" where
  "parse_extract_group E = skip_tok (pbind (separated (TMark TkComma) (parse_nav_path E)) (\<lambda>ps.
     demand (TMark TkRBracket) (\<lambda>sp. refusal_help (U ''expected ']' to close extraction group'') sp
         (U ''each group must be wrapped: [path] or [path1, path2]'')) (\<lambda>_. pret (ExtractGroup ps))))"

definition parse_double_bracket_extract :: "parse_engine \<Rightarrow> expr \<Rightarrow> expr parse" where
  "parse_double_bracket_extract E base = pbind (parse_extract_group E) (\<lambda>g. peeking (\<lambda>t.
     if tk_kind t = TMark TkRBracket then
       skip_tok (pret (EFlatExtract (FlatExtractExpr base (eg_paths g) True (span_to (expr_span base) (tk_span t)))))
     else pbind (ploop (\<lambda>gs. if_next (TMark TkSemicolon)
            (skip_tok (pbind (parse_extract_group E) (\<lambda>h. again (gs @ [h])))) (finish gs)) [g]) (\<lambda>gs.
       demand (TMark TkRBracket) (\<lambda>sp. refusal_help (U ''expected ']' to close structured extraction'') sp
           (U ''structured extraction: arr[[row>col] ; [row>col]]'')) (\<lambda>u.
       pret (EStructuredExtract (StructuredExtractExpr base gs (span_to (expr_span base) (tk_span u))))))))"

definition parse_single_bracket_nav :: "parse_engine \<Rightarrow> expr \<Rightarrow> expr parse" where
  "parse_single_bracket_nav E base = pbind (parse_nav_path E) (\<lambda>path. peeking (\<lambda>t.
     if tk_kind t = TMark TkSemicolon then
       pbind (ploop (\<lambda>ps. if_next (TMark TkSemicolon)
                (skip_tok (pbind (parse_nav_path E) (\<lambda>q. again (ps @ [q])))) (finish ps)) [path]) (\<lambda>ps.
         demand (TMark TkRBracket) (refusal (U ''expected ']' after flat extraction'')) (\<lambda>u.
         pret (EFlatExtract (FlatExtractExpr base ps False (span_to (expr_span base) (tk_span u))))))
     else
       demand (TMark TkRBracket) (\<lambda>sp. refusal_help (U ''expected ']' after index'') sp
           (U ''array indexing must use brackets: arr[index] or arr[i>j]'')) (\<lambda>u.
         let sp = span_to (expr_span base) (tk_span u);
             has_range = list_ex (\<lambda>s. nav_range_end s \<noteq> None) (nav_steps path)
         in pret (if length (nav_steps path) = 1 \<and> \<not> has_range then EIndex (IndexExpr base (nav_index (hd (nav_steps path))) sp)
                  else if has_range then EFlatExtract (FlatExtractExpr base [path] False sp)
                  else EDeepIndex (DeepIndexExpr base path sp)))))"

definition parse_nav_index :: "parse_engine \<Rightarrow> expr \<Rightarrow> expr parse" where
  "parse_nav_index E base = skip_tok (if_next (TMark TkLBracket) (parse_double_bracket_extract E base)
     (parse_single_bracket_nav E base))"

text \<open>Brackets behind brackets are refused before the second are read.\<close>

fun bracket_end_from :: "token list \<Rightarrow> nat \<Rightarrow> span option" where
  "bracket_end_from [] depth = None"
| "bracket_end_from (t # ts) depth =
     (if tk_kind t = TMark TkLBracket then bracket_end_from ts (depth + 1)
      else if tk_kind t = TMark TkRBracket then
        (if depth = 1 then Some (tk_span t) else bracket_end_from ts (depth - 1))
      else bracket_end_from ts depth)"

definition bracket_group_end_span :: "parser \<Rightarrow> span" where
  "bracket_group_end_span p =
     (case bracket_end_from (filter (\<lambda>t. \<not> comment_token t) (drop (ps_current p) (ps_tokens p))) 0 of
        Some sp \<Rightarrow> sp
      | None \<Rightarrow> tk_span (peek p))"

fun index_root_name :: "expr \<Rightarrow> ustring" where
  "index_root_name (EGroup (GroupExpr e _)) = index_root_name e"
| "index_root_name (EIdentifier i) = id_name i"
| "index_root_name (EIndex (IndexExpr a _ _)) = index_root_name a"
| "index_root_name (EDeepIndex (DeepIndexExpr a _ _)) = index_root_name a"
| "index_root_name _ = [0x2026]"

definition reject_chained_index :: "expr \<Rightarrow> 'a parse \<Rightarrow> 'a parse" where
  "reject_chained_index base m = pread (\<lambda>p.
     let b = unwrap_group base; x = index_root_name b
     in case b of
          EIndex _ \<Rightarrow> pfail (refusal_help (U ''chained index does not exist: '' @ [39] @ x @ U ''['' @ [0x2026] @ U '']['' @ [0x2026] @ U '']' is not a form of Zymbol'')
            (span_to (expr_span b) (bracket_group_end_span p))
            (U ''nesting is navigated with '>', so this is '' @ [39] @ x @ U ''[i>j]' '' @ [0x2014] @ U '' one bracket group addresses one element, however deep it lies''))
        | EDeepIndex _ \<Rightarrow> pfail (refusal_help (U ''chained index does not exist: '' @ [39] @ x @ U ''['' @ [0x2026] @ U '']['' @ [0x2026] @ U '']' is not a form of Zymbol'')
            (span_to (expr_span b) (bracket_group_end_span p))
            (U ''nesting is navigated with '>', so this is '' @ [39] @ x @ U ''[i>j]' '' @ [0x2014] @ U '' one bracket group addresses one element, however deep it lies''))
        | _ \<Rightarrow> m)"

section \<open>Operators of collections\<close>

definition operandless_refusal :: "dollar_token \<Rightarrow> token_kind \<Rightarrow> (ustring \<times> ustring) option" where
  "operandless_refusal op k =
     (if k = TMark TkLBracket then
        (case op of
           TkDollarHash \<Rightarrow> Some ((U ''unexpected '[' after '$#'' @ [39]), (U ''to index the result, put the operation in parentheses: (c$#)[i]''))
         | TkDollarCaretPlus \<Rightarrow> Some ((U ''unexpected '[' after '$^+'' @ [39]), (U ''to index the result, put the operation in parentheses: (c$^+)[i]''))
         | TkDollarCaretMinus \<Rightarrow> Some ((U ''unexpected '[' after '$^-'' @ [39]), (U ''to index the result, put the operation in parentheses: (c$^-)[i]''))
         | TkDollarPlusPlus \<Rightarrow> Some ((U ''unexpected '[' after '$++'' @ [39]),
             (U '''$++' appends the items written after it; to insert at a position, use c$+[i] value''))
         | _ \<Rightarrow> None)
      else if k = TMark TkLParen then
        (case op of
           TkDollarHash \<Rightarrow> Some ((U ''unexpected '(' after '$#'' @ [39]),
             (U '''$#' takes nothing; to use its result, put the operation in parentheses: (c$#)''))
         | TkDollarCaretPlus \<Rightarrow> Some ((U ''unexpected '(' after '$^+'' @ [39]),
             (U '''$^+' sorts in natural order and takes no comparator; to sort with one, use c$^ (a, b -> a < b)''))
         | TkDollarCaretMinus \<Rightarrow> Some ((U ''unexpected '(' after '$^-'' @ [39]),
             (U '''$^-' sorts in natural order and takes no comparator; to sort with one, use c$^ (a, b -> a > b)''))
         | _ \<Rightarrow> None)
      else None)"

definition line_of :: "span \<Rightarrow> nat" where
  "line_of sp = line (sp_start sp)"

definition refuse_after_operandless :: "dollar_token \<Rightarrow> nat \<Rightarrow> 'a parse \<Rightarrow> 'a parse" where
  "refuse_after_operandless op l m = peeking (\<lambda>t.
     if line_of (tk_span t) \<noteq> l then m
     else case operandless_refusal op (tk_kind t) of
            None \<Rightarrow> m
          | Some (message, help) \<Rightarrow> pfail (refusal_help message (tk_span t) help))"

definition parse_collection_length :: "expr \<Rightarrow> expr parse" where
  "parse_collection_length c = pbind next_tok (\<lambda>op.
     refuse_after_operandless TkDollarHash (line_of (tk_span op))
       (pret (ELength (CollectionLengthExpr c (span_to (expr_span c) (tk_span op))))))"

definition parse_collection_append :: "parse_engine \<Rightarrow> expr \<Rightarrow> expr parse" where
  "parse_collection_append E c = skip_tok (pbind (g_structural E) (\<lambda>e. pret (EAppend (CollectionAppendExpr c e (spans c e)))))"

definition parse_collection_remove :: "parse_engine \<Rightarrow> expr \<Rightarrow> expr parse" where
  "parse_collection_remove E c = skip_tok (pbind (g_postfix E) (\<lambda>e. pret (ERemoveValue (CollectionRemoveValueExpr c e (spans c e)))))"

definition parse_collection_remove_all :: "parse_engine \<Rightarrow> expr \<Rightarrow> expr parse" where
  "parse_collection_remove_all E c = skip_tok (peeking (\<lambda>t.
     if tk_kind t = TMark TkLBracket then
       pfail (refusal_help (U ''$--[position:count] is retired '' @ [0x2014] @ U '' use $-[start..end] instead'') (tk_span t) (U ''v0.0.2: s$--[0:6] '' @ [0x2192] @ U '' s$-[0..6]''))
     else pbind (g_postfix E) (\<lambda>e. pret (ERemoveAll (CollectionRemoveAllExpr c e (spans c e))))))"

definition parse_collection_insert :: "parse_engine \<Rightarrow> expr \<Rightarrow> expr parse" where
  "parse_collection_insert E c = skip_tok (pbind (g_expr E) (\<lambda>i.
     demand (TMark TkRBracket) (\<lambda>sp. refusal_help (U ''expected ']' after index in $+[index]'') sp (U ''insert syntax: collection$+[index] element'')) (\<lambda>_.
     pbind (g_postfix E) (\<lambda>e. pret (EInsert (CollectionInsertExpr c i e (spans c e)))))))"

text \<open>A bound of a range in brackets, which reads arithmetic but no range.\<close>

definition parse_slice_bound :: "parse_engine \<Rightarrow> expr parse" where
  "parse_slice_bound E = left_assoc additive (left_assoc multiplicative (powers_of (g_postfix E)))"

text \<open>What follows the two dots: a bound, unless the bracket closes.\<close>

definition bound_unless_closed :: "parse_engine \<Rightarrow> expr option parse" where
  "bound_unless_closed E = if_next (TMark TkRBracket) (pret None) (pmap Some (parse_slice_bound E))"

definition parse_collection_remove_positional :: "parse_engine \<Rightarrow> expr \<Rightarrow> expr parse" where
  "parse_collection_remove_positional E c = skip_tok (if_next (TMark TkDotDot)
     (skip_tok (pbind (bound_unless_closed E) (\<lambda>z.
        demand (TMark TkRBracket) (\<lambda>sp. refusal_help (U ''expected ']' after range'') sp (U ''range syntax: $-[..end] or $-[..]'')) (\<lambda>u.
        pret (ERemoveRange (CollectionRemoveRangeExpr c None z False (span_to (expr_span c) (tk_span u))))))))
     (pbind (parse_slice_bound E) (\<lambda>first. peeking (\<lambda>t.
        if tk_kind t = TMark TkDotDot then
          skip_tok (pbind (bound_unless_closed E) (\<lambda>z.
            demand (TMark TkRBracket) (\<lambda>sp. refusal_help (U ''expected ']' after range'') sp (U ''range syntax: $-[start..end] or $-[start..]'')) (\<lambda>u.
            pret (ERemoveRange (CollectionRemoveRangeExpr c (Some first) z False (span_to (expr_span c) (tk_span u)))))))
        else if tk_kind t = TMark TkColon then
          skip_tok (pbind (parse_slice_bound E) (\<lambda>count.
            demand (TMark TkRBracket) (\<lambda>sp. refusal_help (U ''expected ']' after count'') sp (U ''count-based range syntax: $-[start:count]'')) (\<lambda>u.
            pret (ERemoveRange (CollectionRemoveRangeExpr c (Some first) (Some count) True (span_to (expr_span c) (tk_span u)))))))
        else
          demand (TMark TkRBracket) (\<lambda>sp. refusal_help (U ''expected ']', '..', or ':' after index'') sp
              (U ''remove syntax: $-[index], $-[start..end], or $-[start:count]'')) (\<lambda>u.
          pret (ERemoveAt (CollectionRemoveAtExpr c first (span_to (expr_span c) (tk_span u)))))))))"

definition parse_collection_contains :: "parse_engine \<Rightarrow> expr \<Rightarrow> expr parse" where
  "parse_collection_contains E c = skip_tok (pbind (g_postfix E) (\<lambda>e. pret (EContains (CollectionContainsExpr c e (spans c e)))))"

text \<open>One bracket whose path has a range in it selects several places, and a write reaches one.\<close>

definition is_ranged_path :: "expr \<Rightarrow> bool" where
  "is_ranged_path e =
     (case unwrap_group e of
        EFlatExtract f \<Rightarrow> \<not> fe_double_bracket f \<and> length (fe_paths f) = 1
          \<and> list_ex (\<lambda>s. nav_range_end s \<noteq> None) (nav_steps (hd (fe_paths f)))
      | _ \<Rightarrow> False)"

definition RANGE_IN_PATH :: ustring where
  "RANGE_IN_PATH = (U ''a write reaches one place, so its path has no ranges'')"

definition is_place :: "expr \<Rightarrow> bool" where
  "is_place e = (case unwrap_group e of EIndex _ \<Rightarrow> True | EDeepIndex _ \<Rightarrow> True | EMemberAccess m \<Rightarrow> \<not> mem_module m | _ \<Rightarrow> False)"

definition parse_collection_update :: "parse_engine \<Rightarrow> expr \<Rightarrow> expr parse" where
  "parse_collection_update E target =
     (if \<not> is_place target then
        pfail (refusal_help (U ''collection update ($~) requires a place to write'') (expr_span target)
          (if is_ranged_path target then RANGE_IN_PATH else (U ''use: arr[i]$~ value, arr[i>j]$~ value, or d.key$~ value'')))
      else skip_tok (pbind (g_juxt E) (\<lambda>v. pret (EUpdate (CollectionUpdateExpr target v (spans target v))))))"

definition parse_collection_slice :: "parse_engine \<Rightarrow> expr \<Rightarrow> expr parse" where
  "parse_collection_slice E c = skip_tok (pbind
     (if_next (TMark TkDotDot) (pret None) (pmap Some (parse_slice_bound E))) (\<lambda>start. peeking (\<lambda>t.
       if start \<noteq> None \<and> tk_kind t = TMark TkColon then
         skip_tok (pbind (parse_slice_bound E) (\<lambda>count.
           demand (TMark TkRBracket) (\<lambda>sp. refusal_help (U ''expected ']' after count'') sp (U ''count-based slice syntax: $[start:count]'')) (\<lambda>u.
           pret (ESlice (CollectionSliceExpr c start (Some count) True (span_to (expr_span c) (tk_span u)))))))
       else
         demand (TMark TkDotDot) (\<lambda>sp. refusal_help (U ''expected '..', or ':' in slice'') sp
             (U ''slice syntax: $[start..end], $[..end], $[start..], or $[start:count]'')) (\<lambda>_.
         pbind (bound_unless_closed E) (\<lambda>z.
           demand (TMark TkRBracket) (refusal (U ''expected ']' after slice range'')) (\<lambda>u.
           pret (ESlice (CollectionSliceExpr c start z False (span_to (expr_span c) (tk_span u))))))))))"

definition parse_collection_map :: "parse_engine \<Rightarrow> expr \<Rightarrow> expr parse" where
  "parse_collection_map E c = skip_tok (pbind (parse_lambda_or_ident E) (\<lambda>l. pret (EMap (CollectionMapExpr c l (spans c l)))))"

definition parse_collection_filter :: "parse_engine \<Rightarrow> expr \<Rightarrow> expr parse" where
  "parse_collection_filter E c = skip_tok (pbind (parse_lambda_or_ident E) (\<lambda>l. pret (EFilter (CollectionFilterExpr c l (spans c l)))))"

definition reduce_syntax :: ustring where
  "reduce_syntax = (U ''reduce syntax: collection$< (initial, lambda)'')"

definition parse_collection_reduce :: "parse_engine \<Rightarrow> expr \<Rightarrow> expr parse" where
  "parse_collection_reduce E c = skip_tok (
     demand (TMark TkLParen) (\<lambda>sp. refusal_help (U ''expected '(' after $<'') sp reduce_syntax) (\<lambda>_.
     pbind (g_expr E) (\<lambda>initial.
     demand (TMark TkComma) (\<lambda>sp. refusal_help (U ''expected ',' after initial value'') sp reduce_syntax) (\<lambda>_.
     pbind (parse_lambda_or_ident E) (\<lambda>l.
     demand (TMark TkRParen) (\<lambda>sp. refusal_help (U ''expected ')' after lambda'') sp reduce_syntax) (\<lambda>u.
     pret (EReduce (CollectionReduceExpr c initial l (span_to (expr_span c) (tk_span u))))))))))"

definition parse_collection_sort :: "bool \<Rightarrow> expr \<Rightarrow> expr parse" where
  "parse_collection_sort ascending c = pbind next_tok (\<lambda>op.
     refuse_after_operandless (if ascending then TkDollarCaretPlus else TkDollarCaretMinus) (line_of (tk_span op))
       (let s = CollectionSortExpr c ascending None (span_to (expr_span c) (tk_span op))
        in pret (if ascending then ESortAsc s else ESortDesc s)))"

definition parse_collection_sort_custom :: "parse_engine \<Rightarrow> expr \<Rightarrow> expr parse" where
  "parse_collection_sort_custom E c = skip_tok (peeking (\<lambda>t.
     if tk_kind t \<noteq> TMark TkLParen then
       pfail (refusal (U ''expected comparator lambda after '$^', e.g. $^ (a, b -> a < b)'') (tk_span t))
     else pbind (parse_lambda E) (\<lambda>l. pret (ESortCustom (CollectionSortExpr c True (Some l) (spans c l))))))"

section \<open>Operators of texts\<close>

definition can_juxtapose :: "token_kind \<Rightarrow> bool" where
  "can_juxtapose k =
     (case k of
        TkString _ \<Rightarrow> True | TkStringInterpolated _ \<Rightarrow> True | TkChar _ \<Rightarrow> True | TkInteger _ \<Rightarrow> True | TkFloat _ \<Rightarrow> True
      | TkBoolean _ \<Rightarrow> True | TkIdent _ \<Rightarrow> True | TkHotIdent _ \<Rightarrow> True
      | THash h \<Rightarrow> h \<in> {TkHashHashDot, TkHashHashHash, TkHashHashBang, TkHashHashApos, TkHashPipe, TkHashDot,
                        TkHashExclaim, TkHashComma, TkHashCaret}
      | TMark m \<Rightarrow> m \<in> {TkBaseBinary, TkBaseOctal, TkBaseDecimal, TkBaseHex}
      | TOperator o' \<Rightarrow> o' = TkNot
      | _ \<Rightarrow> False)"

definition parse_string_find_positions :: "parse_engine \<Rightarrow> expr \<Rightarrow> expr parse" where
  "parse_string_find_positions E c = skip_tok (pbind (g_postfix E) (\<lambda>v. pret (EFindAll (CollectionFindAllExpr c v (spans c v)))))"

definition parse_string_insert :: "parse_engine \<Rightarrow> expr \<Rightarrow> expr parse" where
  "parse_string_insert E base = pbind next_tok (\<lambda>op.
     pbind (ploop (\<lambda>items. peeking (\<lambda>t.
       if line_of (tk_span t) = line_of (tk_span op) \<and> (can_juxtapose (tk_kind t) \<or> tk_kind t = TMark TkLParen)
       then pbind (g_postfix E) (\<lambda>i. again (items @ [i])) else finish items)) []) (\<lambda>items.
     (if items = [] then refuse_after_operandless TkDollarPlusPlus (line_of (tk_span op)) else (\<lambda>m. m))
       (pret (EConcatBuild (ConcatBuildExpr base items
          (span_to (expr_span base) (if items = [] then tk_span op else expr_span (last items))))))))"

definition replace_syntax :: ustring where
  "replace_syntax = (U ''syntax: string$~~[pattern:replacement:count?]'')"

definition parse_string_replace :: "parse_engine \<Rightarrow> expr \<Rightarrow> expr parse" where
  "parse_string_replace E s = skip_tok (
     demand (TMark TkLBracket) (\<lambda>sp. refusal_help (U ''expected '[' after $~~'') sp
         (U ''syntax: string$~~[pattern:replacement] or string$~~[pattern:replacement:count]'')) (\<lambda>_.
     pbind (g_expr E) (\<lambda>pat.
     demand (TMark TkColon) (\<lambda>sp. refusal_help (U ''expected ':' after pattern'') sp replace_syntax) (\<lambda>_.
     pbind (g_expr E) (\<lambda>rep.
     pbind (if_next (TMark TkColon) (skip_tok (pmap Some (g_expr E))) (pret None)) (\<lambda>count.
     demand (TMark TkRBracket) (\<lambda>sp. refusal_help (U ''expected ']' after replacement or count'') sp replace_syntax) (\<lambda>u.
     pret (EStringReplace (StringReplaceExpr s pat rep count (span_to (expr_span s) (tk_span u)))))))))))"

definition parse_string_repeat :: "parse_engine \<Rightarrow> expr \<Rightarrow> expr parse" where
  "parse_string_repeat E s = skip_tok (pbind (g_postfix E) (\<lambda>n. pret (EStringRepeat (StringRepeatExpr s n (spans s n)))))"

definition parse_string_split :: "parse_engine \<Rightarrow> expr \<Rightarrow> expr parse" where
  "parse_string_split E s = skip_tok (pbind (g_postfix E) (\<lambda>d. pret (EStringSplit (StringSplitExpr s d (spans s d)))))"

text \<open>The operators with a dollar sign, by their token.\<close>

definition dollar_operation :: "parse_engine \<Rightarrow> dollar_token \<Rightarrow> expr \<Rightarrow> expr parse" where
  "dollar_operation E op e =
     (case op of
        TkDollarHash \<Rightarrow> parse_collection_length e
      | TkDollarPlus \<Rightarrow> parse_collection_append E e
      | TkDollarPlusLBracket \<Rightarrow> parse_collection_insert E e
      | TkDollarMinus \<Rightarrow> parse_collection_remove E e
      | TkDollarMinusLBracket \<Rightarrow> parse_collection_remove_positional E e
      | TkDollarQuestion \<Rightarrow> parse_collection_contains E e
      | TkDollarQuestionQuestion \<Rightarrow> parse_string_find_positions E e
      | TkDollarPlusPlus \<Rightarrow> parse_string_insert E e
      | TkDollarMinusMinus \<Rightarrow> parse_collection_remove_all E e
      | TkDollarTildeTilde \<Rightarrow> parse_string_replace E e
      | TkDollarSlash \<Rightarrow> parse_string_split E e
      | TkDollarStar \<Rightarrow> parse_string_repeat E e
      | TkDollarTilde \<Rightarrow> parse_collection_update E e
      | TkDollarLBracket \<Rightarrow> parse_collection_slice E e
      | TkDollarGt \<Rightarrow> parse_collection_map E e
      | TkDollarPipe \<Rightarrow> parse_collection_filter E e
      | TkDollarLt \<Rightarrow> parse_collection_reduce E e
      | TkDollarCaretPlus \<Rightarrow> parse_collection_sort True e
      | TkDollarCaretMinus \<Rightarrow> parse_collection_sort False e
      | TkDollarCaret \<Rightarrow> parse_collection_sort_custom E e
      | TkDollarExclaim \<Rightarrow> pbind next_tok (\<lambda>t. pret (EErrorCheck (ErrorCheckExpr e (span_to (expr_span e) (tk_span t)))))
      | TkDollarExclaimExclaim \<Rightarrow>
          pbind next_tok (\<lambda>t. pret (EErrorPropagate (ErrorPropagateExpr e (span_to (expr_span e) (tk_span t))))))"

definition type_operation :: "expr \<Rightarrow> expr parse" where
  "type_operation e = pbind next_tok (\<lambda>t. pret (ETypeMetadata (TypeMetadataExpr e (span_to (expr_span e) (tk_span t)))))"

section \<open>Formats\<close>

definition touches :: "nat \<Rightarrow> parser \<Rightarrow> bool" where
  "touches e p = (byte_offset (sp_start (tk_span (peek p))) = e)"

definition end_of :: "span \<Rightarrow> nat" where
  "end_of sp = byte_offset (sp_end sp)"

definition parse_numeric_eval :: "parse_engine \<Rightarrow> expr parse" where
  "parse_numeric_eval E = pbind next_tok (\<lambda>t. pbind (g_expr E) (\<lambda>e.
     demand (TOperator TkPipe) (\<lambda>sp. refusal_help (U ''expected '|' to close numeric evaluation'') sp (U ''numeric evaluation syntax: #|expr|'')) (\<lambda>u.
     pret (ENumericEval (NumericEvalExpr e (span_to (tk_span t) (tk_span u)))))))"

definition as_u32 :: "int \<Rightarrow> nat" where
  "as_u32 n = nat (n mod 2 ^ 32)"

definition parse_format_precision :: "ustring \<Rightarrow> ustring \<Rightarrow> nat \<Rightarrow> (expr precision \<times> nat) parse" where
  "parse_format_precision prefix_str count_op prev_end = pread (\<lambda>p. let t = peek p
     in case if touches prev_end p then tk_kind t else TkEof of
          TkInteger n \<Rightarrow>
            (if n < 0 then pfail (refusal_help (U ''precision must be a non-negative integer'') (tk_span t)
                (U ''format expression syntax: '' @ count_op @ U ''N|expr| where N >= 0''))
             else skip_tok (pret (PrecLiteral (as_u32 n), end_of (tk_span t))))
        | TkIdent x \<Rightarrow> skip_tok (pret (PrecDynamic (name_at x (tk_span t)), end_of (tk_span t)))
        | _ \<Rightarrow> pfail (refusal_help (U ''expected a decimal count after '' @ [39] @ prefix_str @ [39]) (tk_span t)
            (U ''write the count or the name of a variable holding it: '' @ count_op @ U ''2|value| or '' @ count_op @ U ''n|value|'')))"

text \<open>The bar that opens the value of a format, which touches what stands before it.\<close>

definition touching_bar :: "nat \<Rightarrow> (span \<Rightarrow> diagnostic) \<Rightarrow> 'a parse \<Rightarrow> 'a parse" where
  "touching_bar e d m = pread (\<lambda>p.
     if peek_kind p \<noteq> TOperator TkPipe \<or> \<not> touches e p then pfail (d (tk_span (peek p))) else skip_tok m)"

definition format_prefix :: "format_kind \<Rightarrow> ustring" where
  "format_prefix k = (case k of Thousands \<Rightarrow> (U ''#,'') | Scientific \<Rightarrow> (U ''#^''))"

definition parse_format_expr :: "parse_engine \<Rightarrow> format_kind \<Rightarrow> expr parse" where
  "parse_format_expr E k = (let pre = format_prefix k in pbind next_tok (\<lambda>t. pbind
     (pread (\<lambda>p.
        if \<not> touches (end_of (tk_span t)) p then pret (None, end_of (tk_span t))
        else if peek_kind p = TMark TkDot then
          pbind next_tok (\<lambda>m. pbind (parse_format_precision pre (pre @ U ''.'') (end_of (tk_span m))) (\<lambda>(n, e). pret (Some (PrecRound n), e)))
        else if peek_kind p = TOperator TkNot then
          pbind next_tok (\<lambda>m. pbind (parse_format_precision pre (pre @ U ''!'') (end_of (tk_span m))) (\<lambda>(n, e). pret (Some (PrecTruncate n), e)))
        else pret (None, end_of (tk_span t)))) (\<lambda>(precision, last_end).
     touching_bar last_end (\<lambda>sp. refusal_help (U ''expected '|' after format operator '' @ [39] @ pre @ [39]) sp
         (U ''format expression syntax: '' @ pre @ U ''|expr| or '' @ pre @ U ''.N|expr|''))
       (pbind (g_expr E) (\<lambda>e.
        demand (TOperator TkPipe) (\<lambda>sp. refusal_help (U ''expected '|' to close format expression'') sp
            (U ''format expression syntax: '' @ pre @ U ''|expr|'')) (\<lambda>u.
        pret (EFormat (FormatExpr k precision e (span_to (tk_span t) (tk_span u))))))))))"

definition base_prefix_text :: "base_prefix \<Rightarrow> ustring" where
  "base_prefix_text b = (case b of Binary \<Rightarrow> U ''0b'' | Octal \<Rightarrow> U ''0o'' | Decimal \<Rightarrow> U ''0d'' | Hex \<Rightarrow> U ''0x'')"

definition parse_base_conversion :: "parse_engine \<Rightarrow> base_prefix \<Rightarrow> expr parse" where
  "parse_base_conversion E b = (let pre = base_prefix_text b in pbind next_tok (\<lambda>t.
     demand (TOperator TkPipe) (\<lambda>sp. refusal_help (U ''expected '|' after base prefix '' @ [39] @ pre @ [39]) sp (U ''base conversion syntax: '' @ pre @ U ''|expr|'')) (\<lambda>_.
     pbind (g_expr E) (\<lambda>e.
     demand (TOperator TkPipe) (\<lambda>sp. refusal_help (U ''expected '|' to close base conversion expression'') sp
         (U ''base conversion syntax: '' @ pre @ U ''|expr|'')) (\<lambda>u.
     pret (EBaseConversion (BaseConversionExpr b e (span_to (tk_span t) (tk_span u)))))))))"

definition parse_round_expr :: "parse_engine \<Rightarrow> expr parse" where
  "parse_round_expr E = pbind next_tok (\<lambda>t.
     pbind (parse_format_precision (U ''#.'') (U ''#.'') (end_of (tk_span t))) (\<lambda>(n, e0).
     touching_bar e0 (\<lambda>sp. refusal_help (U ''expected '|' after precision'') sp (U ''round expression syntax: #.N|expr|''))
       (pbind (g_expr E) (\<lambda>e.
        demand (TOperator TkPipe) (\<lambda>sp. refusal_help (U ''expected '|' to close round expression'') sp (U ''round expression syntax: #.N|expr|'')) (\<lambda>u.
        pret (ERound (RoundExpr n e (span_to (tk_span t) (tk_span u)))))))))"

definition parse_trunc_expr :: "parse_engine \<Rightarrow> expr parse" where
  "parse_trunc_expr E = pbind next_tok (\<lambda>t.
     pbind (parse_format_precision (U ''#!'') (U ''#!'') (end_of (tk_span t))) (\<lambda>(n, e0).
     touching_bar e0 (\<lambda>sp. refusal_help (U ''expected '|' after precision'') sp (U ''truncate expression syntax: #!N|expr|''))
       (pbind (g_expr E) (\<lambda>e.
        demand (TOperator TkPipe) (\<lambda>sp. refusal_help (U ''expected '|' to close truncate expression'') sp (U ''truncate expression syntax: #!N|expr|'')) (\<lambda>u.
        pret (ETrunc (TruncExpr n e (span_to (tk_span t) (tk_span u)))))))))"

end
