(* ===== verification/ZyParseExpr.thy ===== *)
theory ZyParseExpr imports ZyParseOps begin

text \<open>
  Expressions (crates/zymbol-parser/src/lib.rs, expressions.rs, collections.rs, match_stmt.rs and
  script_exec.rs, and the juxtaposition of variables.rs).
\<close>

section \<open>Literals of collections\<close>

definition parse_array_literal :: "parse_engine \<Rightarrow> expr array_literal parse" where
  "parse_array_literal E = pbind next_tok (\<lambda>t0.
     if_next (TMark TkRBracket) (pbind next_tok (\<lambda>u. pret (ArrayLiteralExpr [] (span_to (tk_span t0) (tk_span u)) False)))
       (pbind (g_juxt E) (\<lambda>e.
        pbind (ploop (\<lambda>es. if_next (TMark TkComma)
                 (skip_tok (if_next (TMark TkRBracket) (finish es) (pbind (g_juxt E) (\<lambda>f. again (es @ [f])))))
                 (finish es)) [e]) (\<lambda>es.
        demand (TMark TkRBracket) (\<lambda>sp. refusal_help (U ''expected ']' to close array literal'') sp
            (U ''array literals must be enclosed in brackets'')) (\<lambda>u.
        pret (ArrayLiteralExpr es (span_to (tk_span t0) (tk_span u)) False))))))"

definition parse_mixed_array_literal :: "parse_engine \<Rightarrow> expr parse" where
  "parse_mixed_array_literal E = pbind next_tok (\<lambda>h. pbind (parse_array_literal E) (\<lambda>a.
     pret (EArrayLiteral (ArrayLiteralExpr (arr_elements a) (span_to (tk_span h) (arr_span a)) True))))"

definition dict_key :: "(ustring \<times> bool \<times> span) parse" where
  "dict_key = peeking (\<lambda>t.
     case tk_kind t of
       TkIdent x \<Rightarrow> skip_tok (pret (x, False, tk_span t))
     | TkString s \<Rightarrow> skip_tok (pret (s, True, tk_span t))
     | _ \<Rightarrow> pfail (refusal_help (U ''expected a key in the dictionary'') (tk_span t)
              (U ''a key is a name or a string: #(nombre: valor) or #('' @ [34] @ U ''gasto.alimentaci'' @ [0xf3] @ U ''n'' @ [34] @ U '': valor)'')))"

definition dict_fields :: "parse_engine \<Rightarrow> ((ustring \<times> expr) list \<times> bool list) parse" where
  "dict_fields E = ploop (\<lambda>(fields, quoted). pbind dict_key (\<lambda>(key, q, ksp).
     demand (TMark TkColon) (refusal (U ''expected ':' after the key'')) (\<lambda>_.
     if key \<in> fst ` set fields then
       pfail (refusal_help (U ''key '' @ [39] @ key @ U ''' appears twice in the dictionary'') ksp
         (U ''a dictionary holds each key once: keep the one you mean, or rename the other''))
     else pbind (g_expr E) (\<lambda>v.
       let fields = fields @ [(key, v)]; quoted = quoted @ [q]
       in if_next (TMark TkComma)
            (skip_tok (if_next (TMark TkRParen) (finish (fields, quoted)) (again (fields, quoted))))
            (finish (fields, quoted)))))) ([], [])"

definition parse_dict_literal :: "parse_engine \<Rightarrow> expr parse" where
  "parse_dict_literal E = pbind next_tok (\<lambda>t0.
     if_next (TMark TkRParen) (pbind next_tok (\<lambda>u. pret (ENamedTuple (NamedTupleExpr [] [] (span_to (tk_span t0) (tk_span u))))))
       (pbind (dict_fields E) (\<lambda>(fields, quoted).
        demand (TMark TkRParen) (\<lambda>sp. refusal_help (U ''expected ')' to close the dictionary'') sp
            (U ''a dictionary is written #(key: value, key2: value2)'')) (\<lambda>u.
        pret (ENamedTuple (NamedTupleExpr fields quoted (span_to (tk_span t0) (tk_span u))))))))"

definition parse_tuple_or_grouped :: "parse_engine \<Rightarrow> expr parse" where
  "parse_tuple_or_grouped E = pbind next_tok (\<lambda>t0. pread (\<lambda>p.
     if is_name (peek_kind p) \<and> kind_at 1 p = Some (TMark TkColon) then
       pfail (refusal_help (U ''a dictionary is written '' @ [96] @ U ''#('' @ [0x2026] @ U '')'' @ [96]) (tk_span t0)
         (U ''write '' @ [96] @ U ''#('' @ [96] @ U '' here: '' @ [96] @ U ''#(nombre: valor)'' @ [96] @ U ''. A bare '' @ [96] @ U ''('' @ [0x2026] @ U '')'' @ [96] @ U '' is a positional tuple, and '' @ [96] @ U ''#()'' @ [96] @ U '' is the empty dictionary '' @ [0x2014] @ U '' which '' @ [96] @ U ''()'' @ [96] @ U '' cannot be, since it would have to be the empty tuple as well''))
     else pbind (g_juxt E) (\<lambda>e.
       if_next (TMark TkComma)
         (pbind (ploop (\<lambda>es. if_next (TMark TkComma)
                  (skip_tok (if_next (TMark TkRParen) (finish es) (pbind (g_juxt E) (\<lambda>f. again (es @ [f])))))
                  (finish es)) [e]) (\<lambda>es.
          demand (TMark TkRParen) (\<lambda>sp. refusal_help (U ''expected ')' to close tuple'') sp
              (U ''tuples must be enclosed in parentheses: (expr, expr, ...)'')) (\<lambda>u.
          pret (ETuple (TupleExpr es (span_to (tk_span t0) (tk_span u)))))))
         (demand (TMark TkRParen) (\<lambda>sp. refusal_help (U ''expected ')' to close grouped expression'') sp
              (U ''grouped expressions must be enclosed in parentheses: (expr)'')) (\<lambda>u.
          pret (EGroup (GroupExpr e (span_to (tk_span t0) (tk_span u)))))))))"

section \<open>Patterns and matches\<close>

fun pattern_span :: "'e pattern \<Rightarrow> span" where
  "pattern_span (PLiteral _ sp) = sp" | "pattern_span (PRange _ _ sp) = sp" | "pattern_span (PList _ sp) = sp"
| "pattern_span (PWildcard sp) = sp" | "pattern_span (PComparison _ _ sp) = sp" | "pattern_span (PIdent _ sp) = sp"
| "pattern_span (POr _ sp) = sp" | "pattern_span (PErrorKind _ _ sp) = sp"

definition range_of :: "literal \<Rightarrow> span \<Rightarrow> literal \<Rightarrow> span \<Rightarrow> expr pattern" where
  "range_of a sa b sb = PRange (literal_at a sa) (literal_at b sb) (span_to sa sb)"

definition finish_int_pattern :: "int \<Rightarrow> span \<Rightarrow> expr pattern parse" where
  "finish_int_pattern n sp = if_next (TMark TkDotDot)
     (skip_tok (pread (\<lambda>p. let t = peek p in
        case tk_kind t of
          TkInteger m \<Rightarrow> skip_tok (pret (range_of (LInt n) sp (LInt m) (tk_span t)))
        | TOperator TkMinus \<Rightarrow>
            (case kind_at 1 p of
               Some (TkInteger m) \<Rightarrow> skip_tok (pbind next_tok (\<lambda>u.
                 pret (range_of (LInt n) sp (LInt (- m)) (span_to (tk_span t) (tk_span u)))))
             | _ \<Rightarrow> pfail (refusal (U ''expected integer after '..' in range pattern'') (tk_span t)))
        | _ \<Rightarrow> pfail (refusal (U ''expected integer after '..' in range pattern'') (tk_span t)))))
     (pret (PLiteral (LInt n) sp))"

definition comparison_op :: "token_kind \<Rightarrow> binary_op option" where
  "comparison_op k =
     (case k of
        TOperator o' \<Rightarrow>
          (case o' of TkEq \<Rightarrow> Some OpEq | TkNeq \<Rightarrow> Some OpNeq | TkLt \<Rightarrow> Some OpLt | TkGt \<Rightarrow> Some OpGt
           | TkLe \<Rightarrow> Some OpLe | TkGe \<Rightarrow> Some OpGe | _ \<Rightarrow> None)
      | _ \<Rightarrow> None)"

definition error_mark :: "parser \<Rightarrow> ustring option" where
  "error_mark p =
     (if peek_kind p = THash TkHash \<and> kind_at 1 p = Some (THash TkHash)
      then case kind_at 2 p of Some (TkIdent k) \<Rightarrow> Some k | _ \<Rightarrow> None else None)"

definition parse_error_pattern :: "ustring \<Rightarrow> expr pattern parse" where
  "parse_error_pattern kind = pbind next_tok (\<lambda>a. pbind next_tok (\<lambda>b. pbind next_tok (\<lambda>n.
     if byte_offset (sp_start (tk_span b)) \<noteq> end_of (tk_span a) \<or> byte_offset (sp_start (tk_span n)) \<noteq> end_of (tk_span b) then
       pfail (refusal (U ''an error kind is written together: ##'' @ kind) (span_to (tk_span a) (tk_span n)))
     else pread (\<lambda>p.
       if peek_kind p \<noteq> TMark TkLParen \<or> \<not> touches (end_of (tk_span n)) p then
         pret (PErrorKind kind None (span_to (tk_span a) (tk_span n)))
       else skip_tok (pbind next_tok (\<lambda>i. pbind
         (case tk_kind i of
            TkIdent x \<Rightarrow> pret (Some x)
          | TFlow TkUnderscore \<Rightarrow> pret None
          | _ \<Rightarrow> pfail (refusal_help (U ''an error pattern names its message, or ignores it with _'') (tk_span i)
                   (U ''##'' @ kind @ U ''(message) binds it for the arm; ##'' @ kind @ U ''(_) or ##'' @ kind @ U '' matches the kind alone''))) (\<lambda>binding.
          demand (TMark TkRParen) (\<lambda>sp. refusal_help (U ''expected ')' to close the error pattern'') sp
              (U ''an error pattern is written ##'' @ kind @ U ''(message)'')) (\<lambda>u.
          pret (PErrorKind kind binding (span_to (tk_span a) (tk_span u)))))))))))"

text \<open>One pattern; those of a list are read by the argument.\<close>

definition simple_pattern :: "parse_engine \<Rightarrow> expr pattern parse \<Rightarrow> expr pattern parse" where
  "simple_pattern E element = pread (\<lambda>p. let t = peek p; sp = tk_span t in
     case error_mark p of Some kind \<Rightarrow> parse_error_pattern kind | None \<Rightarrow>
     (case tk_kind t of
       TFlow TkUnderscore \<Rightarrow> skip_tok (pret (PWildcard sp))
     | TkString s \<Rightarrow> skip_tok (pret (PLiteral (LString s) sp))
     | TkInteger n \<Rightarrow> skip_tok (finish_int_pattern n sp)
     | TkChar c \<Rightarrow> skip_tok (if_next (TMark TkDotDot)
         (skip_tok (peeking (\<lambda>u. case tk_kind u of
            TkChar d \<Rightarrow> skip_tok (pret (range_of (LChar c) sp (LChar d) (tk_span u)))
          | _ \<Rightarrow> pfail (refusal (U ''expected char after '..' in range pattern'') (tk_span u)))))
         (pret (PLiteral (LChar c) sp)))
     | TkFloat f \<Rightarrow> skip_tok (pret (PLiteral (LFloat f) sp))
     | TkBoolean b \<Rightarrow> skip_tok (pret (PLiteral (LBool b) sp))
     | TMark TkLBracket \<Rightarrow> skip_tok (if_next (TMark TkRBracket)
         (pbind next_tok (\<lambda>u. pret (PList [] (span_to sp (tk_span u)))))
         (pbind element (\<lambda>x.
          pbind (ploop (\<lambda>xs. if_next (TMark TkComma)
                   (skip_tok (if_next (TMark TkRBracket) (finish xs) (pbind element (\<lambda>y. again (xs @ [y])))))
                   (finish xs)) [x]) (\<lambda>xs.
          demand (TMark TkRBracket) (refusal (U ''expected ']' to close list pattern'')) (\<lambda>u.
          pret (PList xs (span_to sp (tk_span u))))))))
     | TkIdent x \<Rightarrow> skip_tok (pret (PIdent x sp))
     | k \<Rightarrow>
       (case comparison_op k of
          Some op \<Rightarrow> skip_tok (pbind (g_addition E) (\<lambda>e. pret (PComparison op e (span_to sp (expr_span e)))))
        | None \<Rightarrow>
          if k = TOperator TkMinus then
            (case kind_at 1 p of
               Some (TkInteger n) \<Rightarrow> skip_tok (pbind next_tok (\<lambda>u. finish_int_pattern (- n) (span_to sp (tk_span u))))
             | Some (TkFloat f) \<Rightarrow> skip_tok (pbind next_tok (\<lambda>u. pret (PLiteral (LFloat (fneg f)) (span_to sp (tk_span u)))))
             | _ \<Rightarrow> pfail (refusal (U ''expected pattern, found '' @ quoted_token k) sp))
          else pfail (refusal (U ''expected pattern, found '' @ quoted_token k) sp))))"

fun pattern_at :: "nat \<Rightarrow> parse_engine \<Rightarrow> expr pattern parse" where
  "pattern_at 0 E = spent"
| "pattern_at (Suc n) E = simple_pattern E (pattern_at n E)"

definition parse_pattern_primary :: "parse_engine \<Rightarrow> expr pattern parse" where
  "parse_pattern_primary E = pread (\<lambda>p. pattern_at (turns_left p) E)"

text \<open>The first error pattern that stands in a list, lists inside lists included.\<close>

fun error_in_items :: "expr pattern \<Rightarrow> span option" where
  "error_in_items (PList xs _) =
     (case dropWhile (\<lambda>z. z = None) (map (\<lambda>x. case x of PErrorKind _ _ sp \<Rightarrow> Some sp | _ \<Rightarrow> error_in_items x) xs) of
        [] \<Rightarrow> None | z # _ \<Rightarrow> z)"
| "error_in_items _ = None"

definition refuse_error_in_list :: "expr pattern \<Rightarrow> 'a parse \<Rightarrow> 'a parse" where
  "refuse_error_in_list x m =
     (case error_in_items x of
        None \<Rightarrow> m
      | Some sp \<Rightarrow> pfail (refusal_help (U ''an error pattern is not an element of a list pattern'') sp
          (U ''match the error in an arm of its own: ##Kind(m) => '' @ [0x2026])))"

fun check_alternatives :: "expr pattern list \<Rightarrow> 'a parse \<Rightarrow> 'a parse" where
  "check_alternatives [] m = m"
| "check_alternatives (x # xs) m = refuse_error_in_list x
     (case x of
        PErrorKind _ (Some _) sp \<Rightarrow> pfail (refusal_help (U ''a pattern that names an error's message stands alone in its arm'') sp
          (U ''give it an arm of its own, or match the kind without naming the message: ##Kind(_)''))
      | _ \<Rightarrow> check_alternatives xs m)"

definition parse_pattern :: "parse_engine \<Rightarrow> expr pattern parse" where
  "parse_pattern E = pbind (parse_pattern_primary E) (\<lambda>x.
     if_next (TOperator TkOr)
       (pbind (ploop (\<lambda>xs. if_next (TOperator TkOr)
                (skip_tok (pbind (parse_pattern_primary E) (\<lambda>y. again (xs @ [y])))) (finish xs)) [x]) (\<lambda>xs.
        check_alternatives xs (pret (POr xs (span_to (pattern_span x) (pattern_span (last xs)))))))
       (refuse_error_in_list x (pret x)))"

definition parse_match_case :: "parse_engine \<Rightarrow> (expr, statement) match_case parse" where
  "parse_match_case E = peeking (\<lambda>t0. pbind (parse_pattern E) (\<lambda>pat.
     demand (TAssign TkFatArrow) (\<lambda>sp. refusal_help (U ''expected '=>' after pattern'') sp
         (U ''match case syntax: pattern => [value] [{ block }]'')) (\<lambda>_.
     if_next (TMark TkLBrace)
       (pbind (g_block E) (\<lambda>b. pret (MatchCase pat None (Some b) (span_to (tk_span t0) (blk_span b)))))
       (pbind (g_arm_value E) (\<lambda>v.
        if_next (TMark TkLBrace)
          (pbind (g_block E) (\<lambda>b. pret (MatchCase pat (Some v) (Some b) (span_to (tk_span t0) (blk_span b)))))
          (pret (MatchCase pat (Some v) None (span_to (tk_span t0) (expr_span v)))))))))"

definition parse_match_expr_inner :: "parse_engine \<Rightarrow> (expr, statement) match_expr parse" where
  "parse_match_expr_inner E = pbind next_tok (\<lambda>t0. pbind (g_expr E) (\<lambda>e.
     demand (TMark TkLBrace) (\<lambda>sp. refusal_help (U ''expected '{' after match expression'') sp
         (U ''match syntax: ?? expr { pattern => value }'')) (\<lambda>_.
     pbind (ploop (\<lambda>cs. pread (\<lambda>p.
              if peek_kind p = TMark TkRBrace \<or> at_end p then finish cs
              else pbind (parse_match_case E) (\<lambda>c. again (cs @ [c])))) []) (\<lambda>cs.
     demand (TMark TkRBrace) (\<lambda>sp. refusal_help (U ''expected '}' to close match expression'') sp
         (U ''match expression must be enclosed in braces'')) (\<lambda>u.
     pret (MatchExpr e cs (span_to (tk_span t0) (tk_span u))))))))"

section \<open>Calls\<close>

text \<open>The arguments of a call, each with its output mark, read by the argument parser a position has.\<close>

definition call_list :: "expr parse \<Rightarrow> (expr list \<times> nat list) parse" where
  "call_list argument = if_next (TMark TkRParen) (pret ([], []))
     (ploop (\<lambda>(as, outs). pbind argument (\<lambda>a.
        let as' = as @ [a]
        in pbind (if_next (TOperator TkReturn) (skip_tok (pret (outs @ [length as' - 1]))) (pret outs)) (\<lambda>outs.
           if_next (TMark TkComma) (skip_tok (again (as', outs))) (finish (as', outs))))) ([], []))"

definition parse_call :: "expr parse \<Rightarrow> (span \<Rightarrow> diagnostic) \<Rightarrow> expr \<Rightarrow> span \<Rightarrow> expr parse" where
  "parse_call argument d callee start = skip_tok (pbind (call_list argument) (\<lambda>(as, outs).
     demand (TMark TkRParen) d (\<lambda>u. pret (EFunctionCall (FunctionCallExpr callee as outs (span_to start (tk_span u)))))))"

section \<open>Primary expressions\<close>

definition parse_error_construct :: "parse_engine \<Rightarrow> ustring \<Rightarrow> expr parse" where
  "parse_error_construct E kind = pbind next_tok (\<lambda>a. pbind next_tok (\<lambda>b. pbind next_tok (\<lambda>n. pread (\<lambda>p.
     if byte_offset (sp_start (tk_span b)) \<noteq> end_of (tk_span a) \<or> byte_offset (sp_start (tk_span n)) \<noteq> end_of (tk_span b)
       \<or> peek_kind p \<noteq> TMark TkLParen \<or> \<not> touches (end_of (tk_span n)) p then
       pfail (refusal_help (U ''an error kind in an expression builds an error value, and needs its message: ##'' @ kind @ U ''('' @ [34] @ [0x2026] @ [34] @ U '')'')
         (span_to (tk_span a) (tk_span n))
         (U ''write it together, with the message in parentheses: ##'' @ kind @ U ''('' @ [34] @ U ''what went wrong'' @ [34] @ U '') '' @ [0x2014] @ U '' '' @ [96] @ U '':! ##'' @ kind @ [96] @ U '' is where a kind stands alone''))
     else skip_tok (pbind (g_juxt E) (\<lambda>m.
       demand (TMark TkRParen) (\<lambda>sp. refusal_help (U ''expected ')' to close the error's message'') sp
           (U ''an error value is written ##'' @ kind @ U ''('' @ [34] @ U ''message'' @ [34] @ U '')'')) (\<lambda>u.
       pret (EErrorConstruct (ErrorConstructExpr kind m (span_to (tk_span a) (tk_span u)))))))))))"

definition parse_module_call :: "parse_engine \<Rightarrow> ustring \<Rightarrow> span \<Rightarrow> expr parse" where
  "parse_module_call E x sp0 = skip_tok (
     demand_name (refusal (U ''expected function name after '::'' @ [39])) (\<lambda>f ft.
     demand (TMark TkLParen) (\<lambda>sp. refusal_help (U ''expected '(' for module function call'') sp
         (U ''module function call syntax: module::function(args)'')) (\<lambda>_.
     pbind (call_list (g_juxt E)) (\<lambda>(as, outs).
     demand (TMark TkRParen) (\<lambda>sp. refusal_help (U ''expected ')' after function arguments'') sp
         (U ''module function call syntax: module::function(arg1, arg2, ...)'')) (\<lambda>u. pread (\<lambda>p.
     pret (EFunctionCall (FunctionCallExpr
       (EMemberAccess (MemberAccessExpr (name_at x sp0) f True
          (span_to sp0 (tk_span (token_or_last (ps_tokens p) (ps_current p - 2))))))
       as outs (span_to sp0 (tk_span u))))))))))"

definition parse_name :: "parse_engine \<Rightarrow> ustring \<Rightarrow> span \<Rightarrow> expr parse" where
  "parse_name E x sp = pread (\<lambda>p.
     if kind_at 1 p = Some (TOperator TkArrow) then parse_lambda E
     else skip_tok (peeking (\<lambda>t.
       if tk_kind t = TOperator TkScopeResolution then parse_module_call E x sp
       else if tk_kind t = TMark TkLParen \<and> line_of (tk_span t) = line_of sp then
         parse_call (g_juxt E) (\<lambda>sp. refusal_help (U ''expected ')' after function arguments'') sp
           (U ''function call syntax: name(arg1, arg2, ...)'')) (name_at x sp) sp
       else pret (name_at x sp))))"

definition parse_cast :: "parse_engine \<Rightarrow> cast_kind \<Rightarrow> span \<Rightarrow> expr parse" where
  "parse_cast E k sp = skip_tok (pbind (g_postfix E) (\<lambda>e. pret (ENumericCast (NumericCastExpr k e (span_to sp (expr_span e))))))"

fun split_words :: "nat \<Rightarrow> ustring \<Rightarrow> (ustring \<times> bool) list" where
  "split_words 0 s = []"
| "split_words (Suc n) s =
     (case s of
        [] \<Rightarrow> []
      | c # cs \<Rightarrow>
          if is_whitespace c then split_words n cs
          else if c = 34 then
            (takeWhile (\<lambda>d. d \<noteq> 34) cs, True) # split_words n (drop 1 (dropWhile (\<lambda>d. d \<noteq> 34) cs))
          else (takeWhile (\<lambda>d. \<not> is_whitespace d) s, False) # split_words n (dropWhile (\<lambda>d. \<not> is_whitespace d) s))"

definition split_execute :: "ustring \<Rightarrow> ustring \<times> bool \<times> ustring list" where
  "split_execute raw =
     (case split_words (Suc (length raw)) (trim raw) of
        [] \<Rightarrow> ([], False, [])
      | (path, q) # ws \<Rightarrow> (path, q, map fst ws))"

definition parse_execute_expr :: "ustring \<Rightarrow> span \<Rightarrow> expr parse" where
  "parse_execute_expr raw sp = skip_tok
     (if raw = [] then pfail (refusal_help (U ''expected file path after </'') sp (U ''execute syntax: </ path.zy />''))
      else let (path, q, args) = split_execute raw in pret (EExecute (ExecuteExpr path q args sp)))"

definition parse_bash_exec_expr :: "parse_engine \<Rightarrow> expr parse" where
  "parse_bash_exec_expr E = pbind next_tok (\<lambda>t0.
     pbind (ploop (\<lambda>as. pread (\<lambda>p.
              if peek_kind p = TIo TkBashClose \<or> at_end p then finish as
              else pbind (g_expr E) (\<lambda>a. again (as @ [a])))) []) (\<lambda>as. peeking (\<lambda>t.
     if tk_kind t = TIo TkBashClose then skip_tok (pret (EBashExec (BashExecExpr as (span_to (tk_span t0) (tk_span t)))))
     else pfail (refusal_help (U ''unterminated bash execute expression'') (tk_span t0)
            (U ''bash execute syntax: <'' @ [92] @ U '' expr1 expr2 ... '' @ [92] @ U ''>'')))))"

definition hash_expression :: "parse_engine \<Rightarrow> hash_token \<Rightarrow> span \<Rightarrow> expr parse" where
  "hash_expression E h sp = pread (\<lambda>p.
     case h of
       TkHashLParen \<Rightarrow> parse_dict_literal E
     | TkHashHashUnderscore \<Rightarrow> skip_tok (pret (literal_at LUnit sp))
     | TkHash \<Rightarrow>
         (case error_mark p of
            Some kind \<Rightarrow> parse_error_construct E kind
          | None \<Rightarrow>
              if kind_at 1 p = Some (TMark TkLBracket) then parse_mixed_array_literal E
              else pfail (refusal (U ''expected expression, found '' @ quoted_token (THash h)) sp))
     | TkHashPipe \<Rightarrow> parse_numeric_eval E
     | TkHashHashDot \<Rightarrow> parse_cast E ToFloat sp
     | TkHashHashHash \<Rightarrow> parse_cast E ToIntRound sp
     | TkHashHashBang \<Rightarrow> parse_cast E ToIntTrunc sp
     | TkHashHashApos \<Rightarrow> parse_cast E ToChar sp
     | TkHashDot \<Rightarrow> parse_round_expr E
     | TkHashExclaim \<Rightarrow> parse_trunc_expr E
     | TkHashComma \<Rightarrow> parse_format_expr E Thousands
     | TkHashCaret \<Rightarrow> parse_format_expr E Scientific
     | _ \<Rightarrow> pfail (refusal (U ''expected expression, found '' @ quoted_token (THash h)) sp))"

definition mark_expression :: "parse_engine \<Rightarrow> mark_token \<Rightarrow> span \<Rightarrow> expr parse" where
  "mark_expression E m sp = pread (\<lambda>p.
     case m of
       TkLParen \<Rightarrow> if is_lambda_start p then parse_lambda E else parse_tuple_or_grouped E
     | TkLBracket \<Rightarrow> pmap EArrayLiteral (parse_array_literal E)
     | TkBaseBinary \<Rightarrow> parse_base_conversion E Binary
     | TkBaseOctal \<Rightarrow> parse_base_conversion E Octal
     | TkBaseDecimal \<Rightarrow> parse_base_conversion E Decimal
     | TkBaseHex \<Rightarrow> parse_base_conversion E Hex
     | _ \<Rightarrow> pfail (refusal (U ''expected expression, found '' @ quoted_token (TMark m)) sp))"

definition parse_primary_expr :: "parse_engine \<Rightarrow> expr parse" where
  "parse_primary_expr E = peeking (\<lambda>t. let sp = tk_span t in
     case tk_kind t of
       TkString s \<Rightarrow> skip_tok (pret (literal_at (LString s) sp))
     | TkStringInterpolated ps \<Rightarrow> skip_tok (pret (literal_at (LInterpolated (concat (map part_spelling ps))) sp))
     | TkInteger n \<Rightarrow> skip_tok (pret (literal_at (LInt n) sp))
     | TkFloat f \<Rightarrow> skip_tok (pret (literal_at (LFloat f) sp))
     | TkChar c \<Rightarrow> skip_tok (pret (literal_at (LChar c) sp))
     | TkBoolean b \<Rightarrow> skip_tok (pret (literal_at (LBool b) sp))
     | TkIdent x \<Rightarrow> parse_name E x sp
     | TkHotIdent x \<Rightarrow> skip_tok (pret (EIdentifier (IdentifierExpr x sp True False)))
     | TkPreHotIdent x \<Rightarrow> skip_tok (pret (EIdentifier (IdentifierExpr x sp False True)))
     | TMark m \<Rightarrow> mark_expression E m sp
     | THash h \<Rightarrow> hash_expression E h sp
     | TFlow TkDoubleQuestion \<Rightarrow> pmap EMatch (parse_match_expr_inner E)
     | TkExecuteCommand raw \<Rightarrow> parse_execute_expr raw sp
     | TIo TkBashOpen \<Rightarrow> parse_bash_exec_expr E
     | TIo TkOutputQuery \<Rightarrow> skip_tok (pret (ETerminalSize sp))
     | TkEof \<Rightarrow> pfail (refusal (U ''expected expression, found end of file'') sp)
     | k \<Rightarrow> pfail (refusal (U ''expected expression, found '' @ quoted_token k) sp))"

end
