(* ===== verification/ZyParseLevels.thy ===== *)
theory ZyParseLevels imports ZyParseExpr begin

text \<open>
  The levels of expressions, from prefixed operands to pipes (crates/zymbol-parser/src/lib.rs and
  expressions.rs), the narrower grammar of output items, and juxtaposition (variables.rs).
\<close>

section \<open>Prefixes\<close>

definition prefix_op :: "token_kind \<Rightarrow> unary_op option" where
  "prefix_op k =
     (if k = TOperator TkNot then Some OpNot else if k = TOperator TkMinus then Some OpNeg
      else if k = TOperator TkPlus then Some OpPos else None)"

fun prefixed_at :: "nat \<Rightarrow> expr parse \<Rightarrow> expr parse" where
  "prefixed_at 0 operand = spent"
| "prefixed_at (Suc n) operand = peeking (\<lambda>t.
     case prefix_op (tk_kind t) of
       None \<Rightarrow> operand
     | Some op \<Rightarrow> skip_tok (pbind (prefixed_at n operand) (\<lambda>e.
         pret (EUnary (UnaryExpr op e (span_to (tk_span t) (expr_span e)))))))"

definition parse_prefixed :: "expr parse \<Rightarrow> expr parse" where
  "parse_prefixed operand = pread (\<lambda>p. prefixed_at (turns_left p) operand)"

section \<open>Postfixes\<close>

definition is_literal_group :: "expr \<Rightarrow> bool" where
  "is_literal_group e = (case unwrap_group e of ELiteral _ \<Rightarrow> True | _ \<Rightarrow> False)"

text \<open>A bracket, a dot and parentheses behind an expression; each position words its refusals itself.\<close>

definition index_operation :: "parse_engine \<Rightarrow> (span \<Rightarrow> diagnostic) \<Rightarrow> expr \<Rightarrow> expr parse" where
  "index_operation E d e = reject_chained_index e (pread (\<lambda>p.
     if is_nav_index p then parse_nav_index E e
     else skip_tok (pbind (g_expr E) (\<lambda>i.
       demand (TMark TkRBracket) d (\<lambda>u. pret (EIndex (IndexExpr e i (span_to (expr_span e) (tk_span u)))))))))"

definition member_operation :: "(span \<Rightarrow> diagnostic) \<Rightarrow> expr \<Rightarrow> expr parse" where
  "member_operation d e = skip_tok (demand_name d (\<lambda>x t.
     pret (EMemberAccess (MemberAccessExpr e x False (span_to (expr_span e) (tk_span t))))))"

definition index_help :: "span \<Rightarrow> diagnostic" where
  "index_help sp = refusal_help (U ''expected ']' after index'') sp (U ''array indexing must use brackets: arr[index]'')"

definition member_help :: "span \<Rightarrow> diagnostic" where
  "member_help sp = refusal_help (U ''expected field name after '.'' @ [39]) sp (U ''member access requires a field name: object.field'')"

text \<open>Whether what stands under the cursor is on the line the expression ends on.\<close>

definition on_end_line :: "token \<Rightarrow> expr \<Rightarrow> bool" where
  "on_end_line t e = (line_of (tk_span t) = line (sp_end (expr_span e)))"

definition structural_turn :: "parse_engine \<Rightarrow> expr \<Rightarrow> (expr + expr) parse" where
  "structural_turn E e = peeking (\<lambda>t.
     case tk_kind t of
       TMark TkLBracket \<Rightarrow>
         if \<not> on_end_line t e then finish e
         else pbind (index_operation E (refusal (U ''expected ']' after index'')) e) again
     | TMark TkDot \<Rightarrow> pbind (member_operation (refusal (U ''expected field name after '.'' @ [39])) e) again
     | TMark TkLParen \<Rightarrow>
         if is_literal_group e \<or> \<not> on_end_line t e then finish e
         else pbind (parse_call (g_expr E) (refusal (U ''expected ')' after arguments'')) e (expr_span e)) again
     | _ \<Rightarrow> finish e)"

definition parse_structural_ops :: "parse_engine \<Rightarrow> expr \<Rightarrow> expr parse" where
  "parse_structural_ops E = ploop (structural_turn E)"

definition parse_postfix_structural :: "parse_engine \<Rightarrow> expr parse" where
  "parse_postfix_structural E = parse_prefixed (pbind (parse_primary_expr E) (parse_structural_ops E))"

text \<open>
  The two inner loops of parse_postfix_ops as one turn each: the accesses, and the operators with a
  dollar sign or a type mark.
\<close>

definition access_turn :: "parse_engine \<Rightarrow> expr \<Rightarrow> (expr + expr) parse" where
  "access_turn E e = peeking (\<lambda>t.
     case tk_kind t of
       TMark TkLBracket \<Rightarrow>
         if \<not> on_end_line t e then finish e else pbind (index_operation E index_help e) again
     | TMark TkDot \<Rightarrow> pbind (member_operation member_help e) again
     | TMark TkLParen \<Rightarrow>
         if is_literal_group e \<or> \<not> on_end_line t e then finish e
         else pbind (parse_call (g_juxt E) (\<lambda>sp. refusal_help (U ''expected ')' after function arguments'') sp
                (U ''function call syntax: expr(arg1, arg2, ...)'')) e (expr_span e)) again
     | _ \<Rightarrow> finish e)"

definition operator_turn :: "parse_engine \<Rightarrow> expr \<Rightarrow> (expr + expr) parse" where
  "operator_turn E e = peeking (\<lambda>t.
     case tk_kind t of
       TDollar op \<Rightarrow> pbind (dollar_operation E op e) again
     | THash TkHashQuestion \<Rightarrow> pbind (type_operation e) again
     | _ \<Rightarrow> finish e)"

definition parse_postfix_ops :: "parse_engine \<Rightarrow> expr \<Rightarrow> expr parse" where
  "parse_postfix_ops E = ploop (\<lambda>e.
     pbind (ploop (access_turn E) e) (\<lambda>e.
     pbind (ploop (operator_turn E) e) (\<lambda>e. peeking (\<lambda>t.
     if tk_kind t = TMark TkLParen \<and> on_end_line t e \<and> \<not> is_literal_group e then again e else finish e))))"

definition parse_unary :: "parse_engine \<Rightarrow> expr parse" where
  "parse_unary E = parse_prefixed (pbind (parse_primary_expr E) (parse_postfix_ops E))"

definition parse_postfix :: "parse_engine \<Rightarrow> expr parse" where
  "parse_postfix E = parse_unary E"

text \<open>What a pipe calls: an operand and its postfixes, but no call.\<close>

definition pipe_operator :: "dollar_token \<Rightarrow> bool" where
  "pipe_operator op = (op \<notin> {TkDollarPlusLBracket, TkDollarMinusLBracket, TkDollarCaretPlus, TkDollarCaretMinus,
                             TkDollarCaret})"

definition callee_operand :: "parse_engine \<Rightarrow> expr parse" where
  "callee_operand E = pread (\<lambda>p. let t = peek p in
     case tk_kind t of
       TMark TkLParen \<Rightarrow>
         if is_lambda_start p then parse_lambda E
         else skip_tok (pbind (g_expr E) (\<lambda>e.
           demand (TMark TkRParen) (refusal (U ''expected ')' after expression'')) (\<lambda>u.
           pret (EGroup (GroupExpr e (span_to (tk_span t) (tk_span u)))))))
     | TkIdent x \<Rightarrow>
         if kind_at 1 p = Some (TOperator TkArrow) then parse_lambda E
         else skip_tok (pret (name_at x (tk_span t)))
     | _ \<Rightarrow> parse_prefixed (parse_primary_expr E))"

definition callee_turn :: "parse_engine \<Rightarrow> expr \<Rightarrow> (expr + expr) parse" where
  "callee_turn E e = peeking (\<lambda>t.
     case tk_kind t of
       TMark TkLBracket \<Rightarrow>
         if \<not> on_end_line t e then finish e else pbind (index_operation E index_help e) again
     | TMark TkDot \<Rightarrow> pbind (member_operation member_help e) again
     | TDollar op \<Rightarrow> if pipe_operator op then pbind (dollar_operation E op e) again else finish e
     | THash TkHashQuestion \<Rightarrow> pbind (type_operation e) again
     | _ \<Rightarrow> finish e)"

definition parse_postfix_without_calls :: "parse_engine \<Rightarrow> expr parse" where
  "parse_postfix_without_calls E = pbind (callee_operand E) (ploop (callee_turn E))"

section \<open>Binary operators\<close>

definition parse_range :: "parse_engine \<Rightarrow> expr parse" where
  "parse_range E = pbind (parse_postfix E) (\<lambda>a.
     if_next (TMark TkDotDot)
       (skip_tok (pbind (parse_postfix E) (\<lambda>b.
          if_next (TMark TkColon)
            (skip_tok (pbind (parse_postfix E) (\<lambda>c. pret (ERange (RangeExpr a b (Some c) (spans a c))))))
            (pret (ERange (RangeExpr a b None (spans a b)))))))
       (pret a))"

definition parse_power :: "parse_engine \<Rightarrow> expr parse" where
  "parse_power E = powers_of (parse_range E)"

definition parse_multiplication :: "parse_engine \<Rightarrow> expr parse" where
  "parse_multiplication E = left_assoc multiplicative (parse_power E)"

definition parse_addition :: "parse_engine \<Rightarrow> expr parse" where
  "parse_addition E = left_assoc additive (parse_multiplication E)"

definition parse_comparison :: "parse_engine \<Rightarrow> expr parse" where
  "parse_comparison E = left_assoc comparison_op (parse_addition E)"

definition and_op :: "token_kind \<Rightarrow> binary_op option" where
  "and_op k = (if k = TOperator TkAnd then Some OpAnd else None)"

definition or_op :: "token_kind \<Rightarrow> binary_op option" where
  "or_op k = (if k = TOperator TkOr then Some OpOr else None)"

definition parse_logic_and :: "parse_engine \<Rightarrow> expr parse" where
  "parse_logic_and E = left_assoc and_op (parse_comparison E)"

definition parse_logic_or :: "parse_engine \<Rightarrow> expr parse" where
  "parse_logic_or E = left_assoc or_op (parse_logic_and E)"

definition parse_logic_and_no_comparison :: "parse_engine \<Rightarrow> expr parse" where
  "parse_logic_and_no_comparison E = left_assoc and_op (parse_addition E)"

definition parse_logic_or_no_comparison :: "parse_engine \<Rightarrow> expr parse" where
  "parse_logic_or_no_comparison E = left_assoc or_op (parse_logic_and_no_comparison E)"

section \<open>Pipes\<close>

definition pipe_args :: "expr parse \<Rightarrow> expr pipe_arg list parse" where
  "pipe_args argument = if_next (TMark TkRParen) (pret [])
     (ploop (\<lambda>as.
        pbind (if_next (TFlow TkUnderscore) (skip_tok (pret Placeholder)) (pmap PipeExprArg argument)) (\<lambda>a.
        if_next (TMark TkComma) (skip_tok (again (as @ [a]))) (finish (as @ [a])))) [])"

text \<open>What closes the arguments: a parenthesis the grammar demands, or, in the arm of a match, any token.\<close>

definition pipe_turn :: "parse_engine \<Rightarrow> expr parse \<Rightarrow> token parse \<Rightarrow> expr \<Rightarrow> (expr + expr) parse" where
  "pipe_turn E argument close left = if_next (TOperator TkPipeOp)
     (skip_tok (pbind (parse_postfix_without_calls E) (\<lambda>c.
        if_next (TMark TkLParen)
          (skip_tok (pbind (pipe_args argument) (\<lambda>as. pbind close (\<lambda>u.
             again (EPipe (PipeExpr left c as False (span_to (expr_span left) (tk_span u))))))))
          (again (EPipe (PipeExpr left c [Placeholder] True (spans left c)))))))
     (finish left)"

definition parse_pipe :: "parse_engine \<Rightarrow> expr parse" where
  "parse_pipe E = pbind (parse_logic_or E) (ploop (pipe_turn E (parse_logic_or E)
     (demand (TMark TkRParen) (\<lambda>sp. refusal_help (U ''expected ')' after pipe arguments'') sp (U ''pipe syntax: value |> func(_)'')) pret)))"

definition parse_expr :: "parse_engine \<Rightarrow> expr parse" where
  "parse_expr E = parse_pipe E"

definition parse_match_arm_value :: "parse_engine \<Rightarrow> expr parse" where
  "parse_match_arm_value E = pbind (parse_logic_or_no_comparison E) (ploop (pipe_turn E (parse_logic_or_no_comparison E)
     (peeking (\<lambda>t. skip_tok (pret t)))))"

section \<open>Juxtaposition\<close>

definition parse_juxtapose_chain_inner :: "parse_engine \<Rightarrow> bool \<Rightarrow> expr \<Rightarrow> expr parse" where
  "parse_juxtapose_chain_inner E allow_lparen = ploop (\<lambda>e. peeking (\<lambda>t.
     if on_end_line t e
       \<and> (can_juxtapose (tk_kind t)
          \<or> allow_lparen \<and> tk_kind t = TMark TkLParen
            \<and> (case unwrap_group e of ELiteral _ \<Rightarrow> True | EBinary _ \<Rightarrow> True | _ \<Rightarrow> False))
     then pbind (parse_expr E) (\<lambda>f. again (binary_of OpConcat e f))
     else finish e))"

definition parse_juxtapose_chain :: "parse_engine \<Rightarrow> expr \<Rightarrow> expr parse" where
  "parse_juxtapose_chain E e = parse_juxtapose_chain_inner E True e"

definition parse_expr_juxt :: "parse_engine \<Rightarrow> expr parse" where
  "parse_expr_juxt E = pbind (parse_expr E) (parse_juxtapose_chain_inner E False)"

section \<open>Output items\<close>

definition output_postfix_turn :: "parse_engine \<Rightarrow> expr \<Rightarrow> (expr + expr) parse" where
  "output_postfix_turn E e = peeking (\<lambda>t.
     if line_of (tk_span t) \<noteq> line_of (expr_span e) then finish e
     else case tk_kind t of
       TMark TkLBracket \<Rightarrow> pbind (index_operation E index_help e) again
     | TMark TkDot \<Rightarrow> pbind (member_operation (refusal (U ''expected field name after '.'' @ [39])) e) again
     | TMark TkLParen \<Rightarrow>
         if is_literal_group e then finish e
         else pbind (parse_call (g_expr E) (refusal (U ''expected ')' after arguments'')) e (expr_span e)) again
     | TDollar op \<Rightarrow> pbind (dollar_operation E op e) again
     | THash TkHashQuestion \<Rightarrow> pbind (type_operation e) again
     | _ \<Rightarrow> finish e)"

definition parse_output_item_postfix :: "parse_engine \<Rightarrow> expr \<Rightarrow> expr parse" where
  "parse_output_item_postfix E = ploop (output_postfix_turn E)"

definition parse_output_item_term :: "parse_engine \<Rightarrow> expr parse" where
  "parse_output_item_term E = powers_of (parse_prefixed (pbind (parse_primary_expr E) (parse_output_item_postfix E)))"

definition parse_output_item_mul :: "parse_engine \<Rightarrow> expr parse" where
  "parse_output_item_mul E = left_assoc multiplicative (parse_output_item_term E)"

definition parse_output_item :: "parse_engine \<Rightarrow> expr parse" where
  "parse_output_item E = left_assoc additive (parse_output_item_mul E)"

end
