(* ===== verification/ZyParseStmt.thy ===== *)
theory ZyParseStmt imports ZyParseLevels begin

text \<open>
  Statements (crates/zymbol-parser/src/lib.rs, variables.rs, io.rs, if_stmt.rs, loops.rs,
  functions.rs and error_handling.rs).
\<close>

section \<open>Patterns that take apart\<close>

definition is_rest_item :: "destructure_item \<Rightarrow> bool" where
  "is_rest_item i = (case i of DRest _ \<Rightarrow> True | _ \<Rightarrow> False)"

definition rest_item :: "destructure_item list \<Rightarrow> destructure_item list parse" where
  "rest_item items = pbind next_tok (\<lambda>star.
     demand_name (refusal (U ''expected identifier after '*' in destructure'')) (\<lambda>x _.
     if list_ex is_rest_item items then
       pfail (refusal_help (U ''only one '*rest' is allowed in a destructure pattern'') (tk_span star)
         (U ''two rests cannot be told apart: nothing says where the first ends''))
     else pret (items @ [DRest x])))"

definition parse_array_destructure_pattern :: "destructure_pattern parse" where
  "parse_array_destructure_pattern = skip_tok (ploop (\<lambda>items. peeking (\<lambda>t.
     case tk_kind t of
       TMark TkRBracket \<Rightarrow> skip_tok (finish (DArray items))
     | TMark TkComma \<Rightarrow> skip_tok (again items)
     | TOperator TkStar \<Rightarrow> pbind (rest_item items) again
     | TFlow TkUnderscore \<Rightarrow> skip_tok (again (items @ [DIgnore]))
     | TkIdent x \<Rightarrow> skip_tok (again (items @ [DBind x]))
     | _ \<Rightarrow> pfail (refusal (U ''expected identifier, '*rest', or '_' in array destructure'') (tk_span t)))) [])"

definition named_item :: "(ustring \<times> ustring) list \<Rightarrow> ustring \<Rightarrow> (ustring \<times> ustring) list parse" where
  "named_item pairs field = skip_tok (
     demand (TMark TkColon) (refusal (U ''expected ':' after field name in named tuple destructure'')) (\<lambda>_.
     demand_name (refusal (U ''expected variable name after ':' in named tuple destructure'')) (\<lambda>x _.
     pret (pairs @ [(field, x)]))))"

definition tuple_pattern_refusal :: "span \<Rightarrow> diagnostic" where
  "tuple_pattern_refusal = refusal (U ''unexpected token in tuple destructure pattern'')"

definition named_pattern :: "destructure_pattern parse" where
  "named_pattern = ploop (\<lambda>pairs. peeking (\<lambda>t.
     case tk_kind t of
       TMark TkRParen \<Rightarrow> skip_tok (finish (DNamedTuple pairs))
     | TMark TkComma \<Rightarrow> skip_tok (again pairs)
     | TkIdent x \<Rightarrow> pbind (named_item pairs x) again
     | _ \<Rightarrow> pfail (tuple_pattern_refusal (tk_span t)))) []"

definition positional_pattern :: "destructure_pattern parse" where
  "positional_pattern = ploop (\<lambda>items. peeking (\<lambda>t.
     case tk_kind t of
       TMark TkRParen \<Rightarrow> skip_tok (finish (DPositional items))
     | TMark TkComma \<Rightarrow> skip_tok (again items)
     | TOperator TkStar \<Rightarrow> pbind (rest_item items) again
     | TFlow TkUnderscore \<Rightarrow> skip_tok (again (items @ [DIgnore]))
     | TkIdent x \<Rightarrow> skip_tok (again (items @ [DBind x]))
     | _ \<Rightarrow> pfail (tuple_pattern_refusal (tk_span t)))) []"

definition parse_tuple_destructure_pattern :: "destructure_pattern parse" where
  "parse_tuple_destructure_pattern = pbind next_tok (\<lambda>opener. pread (\<lambda>p.
     let named = is_name (peek_kind p) \<and> kind_at 1 p = Some (TMark TkColon)
     in if named \<and> tk_kind opener = TMark TkLParen then
          pfail (refusal_help (U ''a dictionary pattern is written '' @ [96] @ U ''#('' @ [0x2026] @ U '')'' @ [96]) (tk_span opener)
            (U ''write '' @ [96] @ U ''#('' @ [96] @ U '' here: '' @ [96] @ U ''#(name: n) = d'' @ [96] @ U ''. A bare '' @ [96] @ U ''('' @ [0x2026] @ U '')'' @ [96] @ U '' takes a tuple apart, by position''))
        else if \<not> named \<and> tk_kind opener = THash TkHashLParen then
          pfail (refusal_help (U ''a dictionary pattern takes '' @ [96] @ U ''key: name'' @ [96] @ U '' pairs'') (tk_span opener)
            ([96] @ U ''#(name: n) = d'' @ [96] @ U '' unpacks a dictionary; write '' @ [96] @ U ''(a, b) = t'' @ [96] @ U '' to take a tuple apart, by position''))
        else if named then named_pattern else positional_pattern))"

definition parse_pattern_group :: "destructure_pattern parse" where
  "parse_pattern_group = if_next (TMark TkLBracket) parse_array_destructure_pattern parse_tuple_destructure_pattern"

definition parse_destructure_assign :: "parse_engine \<Rightarrow> statement parse" where
  "parse_destructure_assign E = peeking (\<lambda>t0. pbind parse_pattern_group (\<lambda>pat.
     demand (TAssign TkAssign) (refusal (U ''expected '=' in destructure assignment'')) (\<lambda>_.
     pbind (parse_expr E) (\<lambda>e. pret (SDestructureAssign (DestructureAssign pat e (span_to (tk_span t0) (expr_span e))))))))"

section \<open>Assignments and edits\<close>

definition assigned_name :: "token_kind \<Rightarrow> (ustring \<times> bool \<times> bool) option" where
  "assigned_name k =
     (case k of TkIdent x \<Rightarrow> Some (x, False, False) | TkHotIdent x \<Rightarrow> Some (x, True, False)
      | TkPreHotIdent x \<Rightarrow> Some (x, False, True) | _ \<Rightarrow> None)"

text \<open>An index on the left of an assignment, which the language does not have.\<close>

definition refuse_indexed_assignment :: "parse_engine \<Rightarrow> ustring \<Rightarrow> span \<Rightarrow> 'a parse" where
  "refuse_indexed_assignment E x sp0 = skip_tok (pbind (parse_expr E) (\<lambda>i.
     demand (TMark TkRBracket) (\<lambda>sp. refusal_help (U ''expected ']' after index'') sp
         (if (case unwrap_group i of EBinary b \<Rightarrow> bin_op b = OpGt | _ \<Rightarrow> False)
          then (U ''array indexing must use brackets: arr[index] or arr[i>j]'')
          else (U ''array indexing must use brackets: arr[index]''))) (\<lambda>_. peeking (\<lambda>t.
     pfail (refusal_help (U ''indexed assignment does not exist: '' @ [39] @ x @ U ''['' @ [0x2026] @ U ''] =' is not a form of Zymbol'') (span_to sp0 (tk_span t))
       (if tk_kind t = TMark TkLBracket
        then (U ''nesting is navigated with '>', so this is '' @ [39] @ x @ U ''[i>j]$~ value' '' @ [0x2014] @ U '' '=' gives a value to a NAME, '$~' changes part of a collection'')
        else (U ''use '' @ [39] @ x @ U ''[i]$~ value' to modify in place '' @ [0x2014] @ U '' '=' gives a value to a NAME, '$~' changes part of a collection'')))))))"

definition compound_op :: "assign_token \<Rightarrow> binary_op option" where
  "compound_op a =
     (case a of TkPlusAssign \<Rightarrow> Some OpAdd | TkMinusAssign \<Rightarrow> Some OpSub | TkStarAssign \<Rightarrow> Some OpMul
      | TkSlashAssign \<Rightarrow> Some OpDiv | TkPercentAssign \<Rightarrow> Some OpMod | TkCaretAssign \<Rightarrow> Some OpPow | _ \<Rightarrow> None)"

definition step_statement :: "binary_op \<Rightarrow> assign_sugar \<Rightarrow> ustring \<Rightarrow> bool \<Rightarrow> bool \<Rightarrow> span \<Rightarrow> span \<Rightarrow> statement" where
  "step_statement op sugar x hot pre sp0 sp =
     SAssignment (Assignment x (EBinary (BinaryExpr op (name_at x sp0) (literal_at (LInt 1) sp) (span_to sp0 sp)))
       (span_to sp0 sp) hot pre sugar None)"

definition parse_assignment :: "parse_engine \<Rightarrow> statement parse" where
  "parse_assignment E = pbind next_tok (\<lambda>t0. let sp0 = tk_span t0 in
     case assigned_name (tk_kind t0) of
       None \<Rightarrow> pfail (refusal (U ''expected identifier'') sp0)
     | Some (x, hot, pre) \<Rightarrow> peeking (\<lambda>t.
         case tk_kind t of
           TMark TkLBracket \<Rightarrow> refuse_indexed_assignment E x sp0
         | TDollar TkDollarExclaimExclaim \<Rightarrow> skip_tok (let sp = span_to sp0 (tk_span t)
             in pret (SExpr (ExprStatement (EErrorPropagate (ErrorPropagateExpr (name_at x sp0) sp)) sp)))
         | TAssign a \<Rightarrow>
             if a = TkPlusPlus then skip_tok (pret (step_statement OpAdd SugarIncrement x hot pre sp0 (tk_span t)))
             else if a = TkMinusMinus then skip_tok (pret (step_statement OpSub SugarDecrement x hot pre sp0 (tk_span t)))
             else (case compound_op a of
                 Some op \<Rightarrow> skip_tok (pbind (parse_expr E) (\<lambda>e. let sp = span_to sp0 (expr_span e)
                   in pret (SAssignment (Assignment x (EBinary (BinaryExpr op (name_at x sp0) e sp)) sp hot pre (SugarCompound op) None))))
               | None \<Rightarrow>
                 if a = TkAssign then skip_tok (pbind (parse_expr E) (\<lambda>e. pbind (parse_juxtapose_chain E e) (\<lambda>v.
                   pret (SAssignment (Assignment x v (span_to sp0 (expr_span v)) hot pre SugarNone None)))))
                 else pfail (refusal_help (U ''expected assignment operator (=, +=, -=, *=, /=, %=, ^=, ++, --)'') (tk_span t)
                        (U ''use '=' to assign a value to a variable'')))
         | _ \<Rightarrow> pfail (refusal_help (U ''expected assignment operator (=, +=, -=, *=, /=, %=, ^=, ++, --)'') (tk_span t)
                  (U ''use '=' to assign a value to a variable''))))"

definition parse_const_decl :: "parse_engine \<Rightarrow> statement parse" where
  "parse_const_decl E = pbind next_tok (\<lambda>t0.
     case tk_kind t0 of
       TkIdent x \<Rightarrow> demand (TAssign TkConstAssign) (\<lambda>sp. refusal_help (U ''expected := for constant declaration'') sp
           (U ''use := to declare constants (immutable values)'')) (\<lambda>_.
         pbind (parse_expr E) (\<lambda>e. pbind (parse_juxtapose_chain E e) (\<lambda>v.
         pret (SConstDecl (ConstDecl x v (span_to (tk_span t0) (expr_span v)))))))
     | _ \<Rightarrow> pfail (refusal (U ''expected identifier'') (tk_span t0)))"

definition parse_lifetime_end :: "statement parse" where
  "parse_lifetime_end = pbind next_tok (\<lambda>t0.
     demand_name (\<lambda>sp. refusal_help (U ''expected variable name after '' @ [92]) sp (U ''syntax: '' @ [92] @ U ''variable to explicitly destroy a variable''))
       (\<lambda>x t. pret (SLifetimeEnd (LifetimeEnd x (span_to (tk_span t0) (tk_span t))))))"

text \<open>What an edit writes into.\<close>

datatype edit_root = EditRoot (er_name: ustring) (er_hot: bool) (er_pre_hot: bool)

datatype edit_anchor =
    NotAnEdit
  | WholeEdit edit_root
  | PathEdit edit_root "expr list"
  | Unanchored ustring

definition NO_NAME :: ustring where
  "NO_NAME = (U ''this edits what the expression produced, and nothing holds it '' @ [0x2014] @ U '' assign the result to a name first'')"

definition edited_expr :: "expr \<Rightarrow> expr option" where
  "edited_expr e =
     (case unwrap_group e of
        EAppend x \<Rightarrow> Some (app_collection x)
      | EInsert x \<Rightarrow> Some (ins_collection x)
      | ERemoveValue x \<Rightarrow> Some (rv_collection x)
      | ERemoveAll x \<Rightarrow> Some (ra_collection x)
      | ERemoveAt x \<Rightarrow> Some (rat_collection x)
      | ERemoveRange x \<Rightarrow> Some (rr_collection x)
      | ESortAsc x \<Rightarrow> Some (srt_collection x)
      | ESortDesc x \<Rightarrow> Some (srt_collection x)
      | ESortCustom x \<Rightarrow> Some (srt_collection x)
      | EUpdate x \<Rightarrow> Some (upd_target x)
      | EConcatBuild x \<Rightarrow> Some (cb_base x)
      | _ \<Rightarrow> None)"

fun flatten_receiver :: "expr \<Rightarrow> ustring + edit_root \<times> expr list" where
  "flatten_receiver (EGroup (GroupExpr e _)) = flatten_receiver e"
| "flatten_receiver (EIdentifier i) = Inr (EditRoot (id_name i) (id_hot i) (id_pre_hot i), [])"
| "flatten_receiver (EIndex (IndexExpr a i _)) =
     (case flatten_receiver a of Inl why \<Rightarrow> Inl why | Inr (r, steps) \<Rightarrow> Inr (r, steps @ [i]))"
| "flatten_receiver (EDeepIndex (DeepIndexExpr a path _)) =
     (case flatten_receiver a of
        Inl why \<Rightarrow> Inl why
      | Inr (r, steps) \<Rightarrow>
          if list_ex (\<lambda>s. nav_range_end s \<noteq> None) (nav_steps path) then Inl RANGE_IN_PATH
          else Inr (r, steps @ map nav_index (nav_steps path)))"
| "flatten_receiver (EMemberAccess (MemberAccessExpr a x is_module sp)) =
     (if is_module then Inl NO_NAME
      else case flatten_receiver a of Inl why \<Rightarrow> Inl why | Inr (r, steps) \<Rightarrow> Inr (r, steps @ [literal_at (LString x) sp]))"
| "flatten_receiver e = Inl (if is_ranged_path e then RANGE_IN_PATH else NO_NAME)"

definition classify_edit :: "expr \<Rightarrow> edit_anchor" where
  "classify_edit e =
     (case edited_expr e of
        None \<Rightarrow> NotAnEdit
      | Some receiver \<Rightarrow>
          (case flatten_receiver receiver of
             Inl why \<Rightarrow> Unanchored why
           | Inr (r, steps) \<Rightarrow>
               if (case unwrap_group e of EUpdate _ \<Rightarrow> length steps \<le> 1 | _ \<Rightarrow> steps = []) then WholeEdit r
               else PathEdit r steps))"

definition rewrite_edit_at_path :: "expr \<Rightarrow> edit_root \<Rightarrow> expr list \<Rightarrow> span \<Rightarrow> expr" where
  "rewrite_edit_at_path e r steps sp =
     EUpdate (CollectionUpdateExpr
       (EDeepIndex (DeepIndexExpr (EIdentifier (IdentifierExpr (er_name r) sp (er_hot r) (er_pre_hot r)))
          (NavPath (map (\<lambda>i. NavStep i None) steps)) sp))
       (case e of EUpdate u \<Rightarrow> upd_value u | _ \<Rightarrow> e) sp)"

definition edit_statement :: "edit_root \<Rightarrow> expr \<Rightarrow> expr option \<Rightarrow> span \<Rightarrow> statement" where
  "edit_statement r v original sp = SAssignment (Assignment (er_name r) v sp (er_hot r) (er_pre_hot r) SugarInPlaceEdit original)"

definition parse_expr_or_edit_statement :: "parse_engine \<Rightarrow> statement parse" where
  "parse_expr_or_edit_statement E = pbind (parse_expr E) (\<lambda>e. let sp = expr_span e in
     case classify_edit e of
       WholeEdit r \<Rightarrow> pret (edit_statement r e None sp)
     | PathEdit r steps \<Rightarrow> pret (edit_statement r (rewrite_edit_at_path e r steps sp) (Some e) sp)
     | Unanchored help \<Rightarrow> pfail (refusal_help (U ''this edit has nothing to write into'') sp help)
     | NotAnEdit \<Rightarrow> pret (SExpr (ExprStatement e sp)))"

section \<open>Functions\<close>

definition parse_parameter :: "parameter parse" where
  "parse_parameter = demand_name (\<lambda>sp. refusal_help (U ''expected parameter name'') sp (U ''parameters must be identifiers'')) (\<lambda>x t0.
     peeking (\<lambda>t.
       if tk_kind t = TOperator TkTilde then skip_tok (pret (Parameter x ParamMutable (tk_span t0)))
       else if tk_kind t = TOperator TkReturn then skip_tok (pret (Parameter x ParamOutput (tk_span t0)))
       else pret (Parameter x ParamNormal (tk_span t0))))"

definition parse_parameters :: "parameter list parse" where
  "parse_parameters = if_next (TMark TkRParen) (pret []) (ploop (\<lambda>ps. pbind parse_parameter (\<lambda>x.
     if_next (TMark TkComma) (skip_tok (again (ps @ [x]))) (finish (ps @ [x])))) [])"

definition function_syntax :: ustring where
  "function_syntax = (U ''function syntax: name(params) { }'')"

definition parse_function_decl :: "parse_engine \<Rightarrow> statement parse" where
  "parse_function_decl E = pbind next_tok (\<lambda>t0.
     demand (TMark TkLParen) (\<lambda>sp. refusal_help (U ''expected '(' after function name'') sp function_syntax) (\<lambda>_.
     pbind parse_parameters (\<lambda>ps.
     demand (TMark TkRParen) (\<lambda>sp. refusal_help (U ''expected ')' after parameters'') sp function_syntax) (\<lambda>_.
     pbind (g_block E) (\<lambda>b.
     pret (SFunctionDecl (FunctionDecl (case tk_kind t0 of TkIdent x \<Rightarrow> x | _ \<Rightarrow> []) ps b (span_to (tk_span t0) (blk_span b)))))))))"

definition output_ends :: "token_kind \<Rightarrow> bool" where
  "output_ends k = (k \<in> {TIo TkNewline, TIo TkBackslash2, TMark TkRBrace, TkEof})"

definition parse_return :: "parse_engine \<Rightarrow> statement parse" where
  "parse_return E = pbind next_tok (\<lambda>t0. peeking (\<lambda>t.
     if output_ends (tk_kind t) then pret (SReturn (ReturnStmt None (tk_span t0)))
     else pbind (parse_expr E) (\<lambda>e. pbind (parse_juxtapose_chain E e) (\<lambda>v.
       pret (SReturn (ReturnStmt (Some v) (span_to (tk_span t0) (expr_span v))))))))"

definition edits_result :: "expr \<Rightarrow> bool" where
  "edits_result e =
     (case e of EUpdate _ \<Rightarrow> True | EAppend _ \<Rightarrow> True | EInsert _ \<Rightarrow> True | ERemoveAt _ \<Rightarrow> True | ERemoveValue _ \<Rightarrow> True
      | ERemoveAll _ \<Rightarrow> True | ERemoveRange _ \<Rightarrow> True | ESortAsc _ \<Rightarrow> True | ESortDesc _ \<Rightarrow> True | ESortCustom _ \<Rightarrow> True
      | _ \<Rightarrow> False)"

definition parse_function_call_statement :: "parse_engine \<Rightarrow> statement parse" where
  "parse_function_call_statement E = pbind (parse_expr E) (\<lambda>e. let sp = expr_span e in
     case e of
       EFunctionCall _ \<Rightarrow> pret (SExpr (ExprStatement e sp))
     | _ \<Rightarrow>
       if edits_result e then
         pfail (refusal_help (U ''modifying requires a destination with a name'') sp
           (U ''this edits whatever the call returned, and nothing holds it '' @ [0x2014] @ U '' assign the result first, or edit a named collection''))
       else pfail (refusal_help (U ''expected function call'') sp (U ''only function calls can be used as statements'')))"

section \<open>Conditions and loops\<close>

definition else_if_branch :: "parse_engine \<Rightarrow> (expr, statement) else_if parse" where
  "else_if_branch E = pbind next_tok (\<lambda>t0. peeking (\<lambda>t.
     if tk_kind t = TMark TkLBrace then
       pfail (refusal_help (U '''_?' requires a condition'') (tk_span t0) (U ''use '_' (without '?') for an unconditional else branch''))
     else pbind (parse_expr E) (\<lambda>c. pbind (g_block E) (\<lambda>b.
       pret (ElseIfBranch c b (span_to (tk_span t0) (blk_span b)))))))"

definition parse_if :: "parse_engine \<Rightarrow> statement parse" where
  "parse_if E = pbind next_tok (\<lambda>t0. pbind (parse_expr E) (\<lambda>c. pbind (g_block E) (\<lambda>b.
     pbind (ploop (\<lambda>bs. if_next (TFlow TkElseIf) (pbind (else_if_branch E) (\<lambda>x. again (bs @ [x]))) (finish bs)) []) (\<lambda>bs.
     pbind (if_next (TFlow TkUnderscore) (skip_tok (pmap Some (g_block E))) (pret None)) (\<lambda>z.
     pret (SIf (IfStmt c b bs z (span_to (tk_span t0)
       (case z of Some x \<Rightarrow> blk_span x | None \<Rightarrow> if bs = [] then blk_span b else ei_span (last bs)))))))))) "

definition parse_sleep :: "parse_engine \<Rightarrow> statement parse" where
  "parse_sleep E = pbind next_tok (\<lambda>t0. pbind (parse_expr E) (\<lambda>e.
     pret (SSleep (Sleep e (span_to (tk_span t0) (expr_span e))))))"

definition refuse_label_after_jump :: "ustring \<Rightarrow> nat \<Rightarrow> 'a parse \<Rightarrow> 'a parse" where
  "refuse_label_after_jump kw l m = peeking (\<lambda>t. let rest = drop 1 kw in
     case tk_kind t of
       TkIdent x \<Rightarrow>
         if line_of (tk_span t) = l then
           pfail (refusal_help ([39] @ kw @ U '' '' @ x @ U ''' is a bare '' @ [39] @ kw @ U ''' and a name that is read and discarded, not a labelled jump'') (tk_span t)
             (U ''the label goes inside the jump: write '@:'' @ x @ rest @ U ''' to target the loop labelled '' @ [39] @ x @ [39]))
         else m
     | _ \<Rightarrow> m)"

definition parse_break :: "statement parse" where
  "parse_break = pbind next_tok (\<lambda>t.
     case tk_kind t of
       TkAtColonLabelBreak l \<Rightarrow> pret (SBreak (Break (Some l) (tk_span t)))
     | _ \<Rightarrow> refuse_label_after_jump (U ''@!'') (line_of (tk_span t)) (pret (SBreak (Break None (tk_span t)))))"

definition parse_continue :: "statement parse" where
  "parse_continue = pbind next_tok (\<lambda>t.
     case tk_kind t of
       TkAtColonLabelContinue l \<Rightarrow> pret (SContinue (Continue (Some l) (tk_span t)))
     | _ \<Rightarrow> refuse_label_after_jump (U ''@>'') (line_of (tk_span t)) (pret (SContinue (Continue None (tk_span t)))))"

definition loop_label :: "token_kind \<Rightarrow> ustring option" where
  "loop_label k = (case k of TkAtLabel l \<Rightarrow> Some l | TkAtColonLabel l \<Rightarrow> Some l | _ \<Rightarrow> None)"

definition parse_loop :: "parse_engine \<Rightarrow> statement parse" where
  "parse_loop E = pbind next_tok (\<lambda>t0. let label = loop_label (tk_kind t0); sp0 = tk_span t0 in pread (\<lambda>p.
     if peek_kind p \<in> {TMark TkLParen, TMark TkLBracket, THash TkHashLParen} \<and> is_loop_pattern p then
       pbind parse_pattern_group (\<lambda>pat. skip_tok (pbind (parse_expr E) (\<lambda>e. pbind (g_block E) (\<lambda>b.
         pret (SLoop (Loop None None (Some pat) (Some e) b label (span_to sp0 (blk_span b))))))))
     else if is_name (peek_kind p) \<and> kind_at 1 p = Some (TMark TkColon) then
       pbind next_tok (\<lambda>v. skip_tok (pbind (parse_expr E) (\<lambda>e. pbind (g_block E) (\<lambda>b.
         pret (SLoop (Loop None (case tk_kind v of TkIdent x \<Rightarrow> Some x | _ \<Rightarrow> None) None (Some e) b label (span_to sp0 (blk_span b))))))))
     else pbind (if_next (TMark TkLBrace) (pret None) (pmap Some (parse_expr E))) (\<lambda>c. pbind (g_block E) (\<lambda>b.
       pret (SLoop (Loop c None None None b label (span_to sp0 (blk_span b))))))))"

section \<open>Errors\<close>

definition error_type_help :: ustring where
  "error_type_help = (U ''error types use ## prefix: ##Div, ##Index, ##Key, ##Range, ##Type, ##Parse, ##IO, ##Network, ##DB, ##Time, ##_'')"

definition parse_error_type :: "error_type parse" where
  "parse_error_type = peeking (\<lambda>t0.
     demand (THash TkHash) (\<lambda>sp. refusal_help (U ''expected '##' for error type'') sp error_type_help) (\<lambda>_.
     demand (THash TkHash) (\<lambda>sp. refusal_help (U ''expected '##' for error type (missing second #)'') sp error_type_help) (\<lambda>_.
     peeking (\<lambda>t.
       case tk_kind t of
         TkIdent x \<Rightarrow> skip_tok (pret (ErrorType x (span_to (tk_span t0) (tk_span t))))
       | TFlow TkUnderscore \<Rightarrow> skip_tok (pret (ErrorType [95] (span_to (tk_span t0) (tk_span t))))
       | _ \<Rightarrow> pfail (refusal_help (U ''expected error type name after '##'' @ [39]) (tk_span t)
                (U ''valid error types: ##Div, ##Index, ##Key, ##Range, ##Type, ##Parse, ##IO, ##Network, ##DB, ##Time, ##_''))))))"

definition parse_catch_clause :: "parse_engine \<Rightarrow> statement catch_clause parse" where
  "parse_catch_clause E = peeking (\<lambda>t0.
     demand (TFlow TkCatchBlock) (\<lambda>sp. refusal_help (U ''expected ':!' to start catch block'') sp
         (U ''catch blocks start with :! { } or :! ##Type { }'')) (\<lambda>_.
     pbind (peeking (\<lambda>t.
        if tk_kind t = THash TkHashHashUnderscore then skip_tok (pret (Some (ErrorType [95] (tk_span t))))
        else if tk_kind t = THash TkHash then pmap Some parse_error_type else pret None)) (\<lambda>z.
     pbind (g_block E) (\<lambda>b. pret (CatchClause z b (span_to (tk_span t0) (blk_span b)))))))"

definition parse_finally_clause :: "parse_engine \<Rightarrow> statement finally_clause parse" where
  "parse_finally_clause E = peeking (\<lambda>t0.
     demand (TFlow TkFinallyBlock) (\<lambda>sp. refusal_help (U ''expected ':>' to start finally block'') sp
         (U ''finally blocks start with :>{ }'')) (\<lambda>_.
     pbind (g_block E) (\<lambda>b. pret (FinallyClause b (span_to (tk_span t0) (blk_span b))))))"

definition parse_try_statement :: "parse_engine \<Rightarrow> statement parse" where
  "parse_try_statement E = peeking (\<lambda>t0.
     demand (TFlow TkTryBlock) (\<lambda>sp. refusal_help (U ''expected '!?' to start try block'') sp (U ''try blocks start with !?{ }'')) (\<lambda>_.
     pbind (g_block E) (\<lambda>b.
     pbind (ploop (\<lambda>cs. if_next (TFlow TkCatchBlock) (pbind (parse_catch_clause E) (\<lambda>c. again (cs @ [c]))) (finish cs)) []) (\<lambda>cs.
     pbind (if_next (TFlow TkFinallyBlock) (pmap Some (parse_finally_clause E)) (pret None)) (\<lambda>z.
     pret (STry (TryStmt b cs z (span_to (tk_span t0)
       (case z of Some f \<Rightarrow> blk_span (fc_block f)
        | None \<Rightarrow> if cs = [] then blk_span b else blk_span (cc_block (last cs)))))))))))"

section \<open>Input and output\<close>

definition expect_uint_arg :: "nat parse" where
  "expect_uint_arg = peeking (\<lambda>t.
     case tk_kind t of
       TkInteger n \<Rightarrow>
         if 0 \<le> n then skip_tok (pret (as_u32 n))
         else pfail (refusal_help (U ''expected a non-negative integer size argument'') (tk_span t)
           (U ''input typespec sizes are non-negative integers, e.g. ##.(5,2) or ###(4)''))
     | _ \<Rightarrow> pfail (refusal_help (U ''expected a non-negative integer size argument'') (tk_span t)
         (U ''input typespec sizes are non-negative integers, e.g. ##.(5,2) or ###(4)'')))"

definition expect_rparen :: "'a parse \<Rightarrow> 'a parse" where
  "expect_rparen m = demand (TMark TkRParen) (refusal (U ''expected ')' to close the size argument list'')) (\<lambda>_. m)"

definition parse_opt_one_uint_arg :: "nat option parse" where
  "parse_opt_one_uint_arg = if_next (TMark TkLParen)
     (skip_tok (pbind expect_uint_arg (\<lambda>n. expect_rparen (pret (Some n))))) (pret None)"

definition parse_two_uint_args :: "(nat \<times> nat) parse" where
  "parse_two_uint_args = skip_tok (pbind expect_uint_arg (\<lambda>a.
     demand (TMark TkComma) (\<lambda>sp. refusal_help (U ''expected ',' between the two size arguments'') sp
         (U ''decimal typespec syntax: ##.(total, decimals)'')) (\<lambda>_.
     pbind expect_uint_arg (\<lambda>b. expect_rparen (pret (a, b))))))"

definition parse_input_typespec :: "input_cast option parse" where
  "parse_input_typespec = peeking (\<lambda>t.
     case tk_kind t of
       THash h \<Rightarrow>
         (case h of
            TkHashHashDot \<Rightarrow> skip_tok (if_next (TMark TkLParen)
              (pbind parse_two_uint_args (\<lambda>(a, b). pret (Some (CastDecimal a b)))) (pret (Some CastFloat)))
          | TkHashHashHash \<Rightarrow> skip_tok (pbind parse_opt_one_uint_arg (\<lambda>n. pret (Some (CastInt n))))
          | TkHashHashBang \<Rightarrow> skip_tok (pbind parse_opt_one_uint_arg (\<lambda>n. pret (Some (CastInt n))))
          | TkHashHashQuote \<Rightarrow> skip_tok (pbind parse_opt_one_uint_arg (\<lambda>n. pret (Some (CastText n))))
          | TkHashHashApos \<Rightarrow> skip_tok (pret (Some CastChar))
          | _ \<Rightarrow> pret None)
     | _ \<Rightarrow> pret None)"

definition parse_input_prompt :: "input_prompt option parse" where
  "parse_input_prompt = peeking (\<lambda>t.
     case tk_kind t of
       TkString s \<Rightarrow> skip_tok (pret (Some (PromptSimple s)))
     | TkStringInterpolated ps \<Rightarrow> skip_tok (pret (Some (PromptInterpolated ps)))
     | _ \<Rightarrow> pret None)"

definition parse_input :: "statement parse" where
  "parse_input = pbind next_tok (\<lambda>t0. pbind parse_input_typespec (\<lambda>z. pbind parse_input_prompt (\<lambda>prompt. pread (\<lambda>p.
     let legacy = (z = None \<and> peek_kind p = THash TkHashPipe)
     in (if legacy then skip_tok else (\<lambda>m. m))
       (demand_name (\<lambda>sp. refusal_help (U ''expected variable name in input statement'') sp
            (U ''input syntax: << var  |  << #|var|  |  << '' @ [34] @ U ''prompt'' @ [34] @ U '' var  |  << ##.(5,2) '' @ [34] @ U ''prompt'' @ [34] @ U '' var'')) (\<lambda>x t.
        (if legacy then (\<lambda>m. demand (TOperator TkPipe) (\<lambda>sp. refusal_help (U ''expected '|' to close #|variable|'') sp
              (U ''numeric input syntax: << #|variable|'')) (\<lambda>_. m)) else (\<lambda>m. m))
        (pret (SInput (Input x prompt (case z of Some c \<Rightarrow> c | None \<Rightarrow> if legacy then CastNumeric else CastString)
           (span_to (tk_span t0) (tk_span t))))))))))) "

definition comparison_spelling :: "operator_token \<Rightarrow> ustring option" where
  "comparison_spelling k =
     (case k of TkEq \<Rightarrow> Some (U ''=='') | TkNeq \<Rightarrow> Some (U ''<>'') | TkLt \<Rightarrow> Some (U ''<'') | TkGt \<Rightarrow> Some (U ''>'') | TkLe \<Rightarrow> Some (U ''<='')
      | TkGe \<Rightarrow> Some (U ''>='') | TkAnd \<Rightarrow> Some (U ''&&'') | TkOr \<Rightarrow> Some (U ''||'') | _ \<Rightarrow> None)"

definition starts_statement :: "token_kind \<Rightarrow> bool" where
  "starts_statement k =
     (case k of
        TFlow f \<Rightarrow> f \<in> {TkQuestion, TkDoubleQuestion, TkAt, TkAtTilde}
      | TkAtLabel _ \<Rightarrow> True
      | TkAtColonLabel _ \<Rightarrow> True
      | TIo i \<Rightarrow> i \<in> {TkInput, TkKeyBlock, TkKeyNonBlock, TkOutputClear, TkOutputPos, TkOutputGate}
      | TOperator o' \<Rightarrow> o' = TkReturn
      | _ \<Rightarrow> False)"

definition output_turn :: "parse_engine \<Rightarrow> expr list \<Rightarrow> (expr list + expr list) parse" where
  "output_turn E es = pread (\<lambda>p. let k = peek_kind p; sp = tk_span (peek p) in
     if output_ends k \<or> k = TMark TkSemicolon \<or> k = TIo TkOutput then finish es
     else case (case k of TOperator o' \<Rightarrow> comparison_spelling o' | _ \<Rightarrow> None) of
       Some w \<Rightarrow> pfail (refusal_help (U ''expected expression, found '' @ quoted_token k) sp
         (U '''>>' takes arithmetic; parenthesise a comparison  '' @ [0x2192] @ U ''  >> (a '' @ w @ U '' b) '' @ [0xb6]))
     | None \<Rightarrow>
       if starts_statement k then finish es
       else if is_name k \<and> (case kind_at 1 p of Some k' \<Rightarrow> assigning k' \<or> stepping k' | None \<Rightarrow> False) then finish es
       else pbind (parse_output_item E) (\<lambda>e. again (es @ [e])))"

definition parse_output :: "parse_engine \<Rightarrow> statement parse" where
  "parse_output E = pbind next_tok (\<lambda>t0. peeking (\<lambda>t.
     if output_ends (tk_kind t) then pret (SOutput (OutputStmt [] (tk_span t0)))
     else pbind (parse_output_item E) (\<lambda>e. pbind (ploop (output_turn E) [e]) (\<lambda>es.
       pret (SOutput (OutputStmt es (span_to (tk_span t0) (expr_span (last es)))))))))"

definition parse_newline :: "statement parse" where
  "parse_newline = pbind next_tok (\<lambda>t. pret (SNewline (Newline (tk_span t) (tk_kind t = TIo TkBackslash2))))"

definition parse_clear_screen :: "statement parse" where
  "parse_clear_screen = pbind next_tok (\<lambda>t. pret (SClearScreen (ClearScreen (tk_span t))))"

definition parse_key_input :: "bool \<Rightarrow> statement parse" where
  "parse_key_input blocking = pbind next_tok (\<lambda>t0.
     demand_name (\<lambda>sp. refusal_help (U ''expected variable name after key input operator'') sp
         (if blocking then (U ''syntax: <<| var'') else (U ''syntax: <<|? var''))) (\<lambda>x t.
     pret (SKeyInput (KeyInput x blocking (span_to (tk_span t0) (tk_span t))))))"

definition slots_checked :: "expr option list \<Rightarrow> (expr option list + expr option list) parse" where
  "slots_checked slots = peeking (\<lambda>t.
     if 5 < length slots then pfail (refusal (U ''>>~ position tuple has at most 5 slots: (fila, col, BKS, fg, bg)'') (tk_span t))
     else again slots)"

definition parse_sparse_pos_tuple :: "parse_engine \<Rightarrow> expr option list parse" where
  "parse_sparse_pos_tuple E = skip_tok (ploop (\<lambda>slots. peeking (\<lambda>t.
     if tk_kind t = TMark TkRParen then skip_tok (finish slots)
     else if tk_kind t = TMark TkComma then skip_tok (slots_checked (slots @ [None]))
     else pbind (parse_expr E) (\<lambda>e.
       if_next (TMark TkComma) (skip_tok (slots_checked (slots @ [Some e]))) (slots_checked (slots @ [Some e]))))) [])"

definition parse_output_items_same_line :: "parse_engine \<Rightarrow> nat \<Rightarrow> expr list parse" where
  "parse_output_items_same_line E l = ploop (\<lambda>es. peeking (\<lambda>t.
     if output_ends (tk_kind t) \<or> line_of (tk_span t) \<noteq> l then finish es
     else pbind (parse_output_item E) (\<lambda>e. again (es @ [e])))) []"

definition parse_output_pos :: "parse_engine \<Rightarrow> statement parse" where
  "parse_output_pos E = pbind next_tok (\<lambda>t0. peeking (\<lambda>t. let parenthesized = (tk_kind t = TMark TkLParen) in
     pbind (if parenthesized then parse_sparse_pos_tuple E
            else if is_name (tk_kind t) then pbind (parse_postfix E) (\<lambda>e. pret [Some e])
            else pfail (refusal_help (U ''expected '(' or variable after >>~'') (tk_span t)
                   (U ''syntax: >>~ (fila, col [, BKS [, fg [, bg]]]) > items''))) (\<lambda>slots.
     demand (TOperator TkGt) (\<lambda>sp. refusal_help (U ''expected '>' after >>~ position'') sp (U ''syntax: >>~ (fila, col) > items'')) (\<lambda>g.
     pbind (parse_output_items_same_line E (line_of (tk_span g))) (\<lambda>items.
     pret (SOutputPos (OutputPos slots items parenthesized
       (span_to (tk_span t0) (if items = [] then tk_span g else expr_span (last items))))))))))"

definition parse_tui_block :: "parse_engine \<Rightarrow> statement parse" where
  "parse_tui_block E = pbind next_tok (\<lambda>t0. peeking (\<lambda>t.
     if tk_kind t \<noteq> TMark TkLBrace then
       pfail (refusal_help (U ''expected '{' after >>|'') (tk_span t) (U ''TUI block syntax: >>| { statements }''))
     else pbind (g_block E) (\<lambda>b. pret (STuiBlock (TuiBlock b (span_to (tk_span t0) (blk_span b)))))))"

definition parse_cli_args_capture :: "statement parse" where
  "parse_cli_args_capture = pbind next_tok (\<lambda>t0.
     demand_name (\<lambda>sp. refusal_help (U ''expected variable name after ><'') sp (U ''CLI args capture syntax: ><variable_name'')) (\<lambda>x t.
     pret (SCliArgsCapture (CliArgsCaptureStmt x (span_to (tk_span t0) (tk_span t))))))"

end
