(* ===== verification/ZyParse.thy ===== *)
theory ZyParse imports ZyParseStmt begin

text \<open>
  Blocks, the choice of a statement, modules and whole programs (crates/zymbol-parser/src/lib.rs and
  modules.rs), and the knot: the parser on a level calls itself one level below, and a level is left
  behind only where a token has been taken, so as many levels as tokens are enough.
\<close>

section \<open>Recovery\<close>

definition open_braces :: "token list \<Rightarrow> nat" where
  "open_braces ts = fold (\<lambda>t d. if tk_kind t = TMark TkLBrace then d + 1 else if tk_kind t = TMark TkRBrace then d - 1 else d) ts 0"

fun skip_rest :: "nat \<Rightarrow> nat \<Rightarrow> nat \<Rightarrow> parser \<Rightarrow> parser" where
  "skip_rest 0 depth l p = p"
| "skip_rest (Suc n) depth l p =
     (let k = peek_kind p in
      if at_end p then p
      else if k = TMark TkLBrace then skip_rest n (depth + 1) l (advanced p)
      else if k = TMark TkRBrace then
        (if depth = 0 then p else skip_rest n (depth - 1) (line_of (tk_span (peek p))) (advanced p))
      else if depth = 0 \<and> (k = TMark TkSemicolon \<or> line_of (tk_span (peek p)) \<noteq> l) then p
      else skip_rest n depth l (advanced p))"

definition skip_statement :: "nat \<Rightarrow> bool \<Rightarrow> parser \<Rightarrow> parser" where
  "skip_statement start inside_block p =
     (if at_end p then p
      else
        let depth = open_braces (take (ps_current p - start) (drop start (ps_tokens p)));
            k = peek_kind p
        in if inside_block \<and> depth = 0 \<and> k = TMark TkRBrace \<and> start < ps_current p then p
           else skip_rest (turns_left p)
                  (if k = TMark TkLBrace then depth + 1 else if k = TMark TkRBrace then depth - 1 else depth)
                  (line_of (tk_span (peek p))) (advanced p))"

fun skip_braces :: "nat \<Rightarrow> nat \<Rightarrow> parser \<Rightarrow> parser" where
  "skip_braces 0 depth p = p"
| "skip_braces (Suc n) depth p =
     (if at_end p then p
      else if peek_kind p = TMark TkLBrace then skip_braces n (depth + 1) (advanced p)
      else if peek_kind p = TMark TkRBrace then
        (if depth = 1 then advanced p else skip_braces n (depth - 1) (advanced p))
      else skip_braces n depth (advanced p))"

definition skip_export_block :: "parser \<Rightarrow> parser" where
  "skip_export_block p =
     (if at_end p then p
      else let q = advanced p in if peek_kind q \<noteq> TMark TkLBrace then q else skip_braces (turns_left q) 0 q)"

section \<open>The choice of a statement\<close>

definition name_before_current :: "parser \<Rightarrow> ustring option" where
  "name_before_current p =
     (case filter (\<lambda>t. \<not> comment_token t) (rev (take (past_comments (ps_tokens p) (ps_current p)) (ps_tokens p))) of
        [] \<Rightarrow> None
      | t # _ \<Rightarrow> (case tk_kind t of TkIdent x \<Rightarrow> Some x | _ \<Rightarrow> None))"

text \<open>Whether a name at the cursor is assigned to; the marks of error propagation count where the last argument says so.\<close>

definition assigns_ahead :: "bool \<Rightarrow> parser \<Rightarrow> bool" where
  "assigns_ahead propagates p =
     (case kind_at 1 p of
        None \<Rightarrow> False
      | Some k \<Rightarrow> assigning k \<or> stepping k \<or> propagates \<and> k = TDollar TkDollarExclaimExclaim
          \<or> k = TMark TkLBracket \<and> is_indexed_assignment p)"

definition name_statement :: "parse_engine \<Rightarrow> statement parse" where
  "name_statement E = pread (\<lambda>p.
     if kind_at 1 p = Some (TAssign TkConstAssign) then parse_const_decl E
     else if kind_at 1 p = Some (TOperator TkScopeResolution) then parse_function_call_statement E
     else if kind_at 1 p = Some (TMark TkLParen) then
       (if block_after_call p then parse_function_decl E else parse_function_call_statement E)
     else if assigns_ahead True p then parse_assignment E
     else parse_expr_or_edit_statement E)"

definition group_statement :: "parse_engine \<Rightarrow> bool \<Rightarrow> diagnostic \<Rightarrow> statement parse" where
  "group_statement E destructures d = (if destructures then parse_destructure_assign E else pfail d)"

definition misplaced :: "token_kind \<Rightarrow> span \<Rightarrow> 'a parse" where
  "misplaced k sp = pread (\<lambda>p.
     case (if assigning k \<or> stepping k then name_before_current p else None) of
       Some x \<Rightarrow> pfail (refusal_help (U ''unexpected '' @ quoted_token k @ U '': '' @ [39] @ x @ U ''' was read as part of the expression before it'') sp
         (U ''a new statement starts on a new line, or after ';'' @ [39]))
     | None \<Rightarrow> pfail (refusal_help (U ''unexpected token: '' @ quoted_token k) sp
         (U ''expected statement (>>, <<, ?, ??, @, @!, @>, !?, <~, '' @ [0xb6] @ U '', '' @ [92] @ [92] @ U '', or identifier)'')))"

definition io_statement :: "parse_engine \<Rightarrow> io_token \<Rightarrow> span \<Rightarrow> statement parse" where
  "io_statement E i sp =
     (case i of
        TkOutput \<Rightarrow> parse_output E
      | TkOutputClear \<Rightarrow> parse_clear_screen
      | TkOutputPos \<Rightarrow> parse_output_pos E
      | TkOutputGate \<Rightarrow> parse_tui_block E
      | TkInput \<Rightarrow> parse_input
      | TkKeyBlock \<Rightarrow> parse_key_input True
      | TkKeyNonBlock \<Rightarrow> parse_key_input False
      | TkCliArgsCapture \<Rightarrow> parse_cli_args_capture
      | TkNewline \<Rightarrow> parse_newline
      | TkBackslash2 \<Rightarrow> parse_newline
      | TkBackslash \<Rightarrow> parse_lifetime_end
      | TkBashOpen \<Rightarrow> pbind (parse_expr E) (\<lambda>e. pret (SExpr (ExprStatement e (expr_span e))))
      | _ \<Rightarrow> misplaced (TIo i) sp)"

definition flow_statement :: "parse_engine \<Rightarrow> flow_token \<Rightarrow> span \<Rightarrow> statement parse" where
  "flow_statement E f sp =
     (case f of
        TkQuestion \<Rightarrow> parse_if E
      | TkDoubleQuestion \<Rightarrow> pmap SMatch (parse_match_expr_inner E)
      | TkAt \<Rightarrow> parse_loop E
      | TkAtBreak \<Rightarrow> parse_break
      | TkAtContinue \<Rightarrow> parse_continue
      | TkAtTilde \<Rightarrow> parse_sleep E
      | TkTryBlock \<Rightarrow> parse_try_statement E
      | _ \<Rightarrow> misplaced (TFlow f) sp)"

definition parse_statement :: "parse_engine \<Rightarrow> statement parse" where
  "parse_statement E = pread (\<lambda>p. let t = peek p; sp = tk_span t in
     case tk_kind t of
       THash TkExportBlock \<Rightarrow> pbind (pmod skip_export_block) (\<lambda>_.
         pfail (refusal_help (U ''an export block belongs inside a module block'') sp
           (U ''move this '' @ [96] @ U ''#>'' @ [96] @ U '' inside '' @ [96] @ U ''# name { '' @ [0x2026] @ U '' }'' @ [96] @ U '' '' @ [0x2014] @ U '' a module declares what it exports, and only a module can'')))
     | TkSetNumeralMode b \<Rightarrow> skip_tok (pret (SSetNumeralMode b sp))
     | TIo i \<Rightarrow> io_statement E i sp
     | TFlow f \<Rightarrow> flow_statement E f sp
     | TkAtLabel _ \<Rightarrow> parse_loop E
     | TkAtColonLabel _ \<Rightarrow> parse_loop E
     | TkAtColonLabelBreak _ \<Rightarrow> parse_break
     | TkAtColonLabelContinue _ \<Rightarrow> parse_continue
     | TOperator TkReturn \<Rightarrow> parse_return E
     | TkIdent _ \<Rightarrow> name_statement E
     | TkHotIdent _ \<Rightarrow> if assigns_ahead True p then parse_assignment E else parse_expr_or_edit_statement E
     | TkPreHotIdent _ \<Rightarrow>
         if assigns_ahead False p then parse_assignment E
         else pfail (refusal_help ([39] @ [0xb0] @ U ''name' is only valid as an assignment target'') sp
                (U ''use '' @ [39] @ [0xb0] @ U ''x += n' to anchor accumulation above the nearest loop''))
     | TMark TkLBracket \<Rightarrow> group_statement E (is_array_destructure p)
         (refusal_help (U ''unexpected '[' at statement level'') sp (U ''use '[a, b] = expr' for array destructuring''))
     | THash TkHashLParen \<Rightarrow> group_statement E (is_tuple_destructure p)
         (refusal_help (U ''unexpected '#(' at statement level'') sp (U ''use '#(name: n) = expr' to destructure a dictionary''))
     | TMark TkLParen \<Rightarrow> group_statement E (is_tuple_destructure p)
         (refusal_help (U ''unexpected '(' at statement level'') sp (U ''use '(a, b) = expr' for tuple destructuring''))
     | TkEof \<Rightarrow> pfail (refusal (U ''unexpected end of file'') sp)
     | TOperator TkModuleImport \<Rightarrow> pfail (refusal_help (U ''imports must come before any statement'') sp
         (U ''move this '' @ [96] @ U ''<#'' @ [96] @ U '' above the first statement in the file''))
     | TkError m \<Rightarrow> pfail (refusal m sp)
     | k \<Rightarrow> misplaced k sp)"

section \<open>Blocks\<close>

definition function_in_block :: "statement \<Rightarrow> unit parse" where
  "function_in_block c =
     (case c of
        SFunctionDecl f \<Rightarrow> diagnose (refusal_help
          (U ''a function cannot be declared inside a block: '' @ [39] @ fd_name f @ U ''' is free in a script or part of a module, not of a '?', '@' or function body'')
          (fd_span f) (U ''move the declaration to the top level of the script or into a module''))
      | _ \<Rightarrow> pret ())"

definition is_error_token :: "token \<Rightarrow> bool" where
  "is_error_token t = (case tk_kind t of TkError _ \<Rightarrow> True | _ \<Rightarrow> False)"

text \<open>One turn of a list of statements: a statement, or a report and what the recovery passes over.\<close>

definition statement_turn :: "parse_engine \<Rightarrow> bool \<Rightarrow> statement list \<Rightarrow> (statement list + 'b) parse" where
  "statement_turn E inside_block cs = pread (\<lambda>p0. pcatch (parse_statement E)
     (\<lambda>d. pbind (diagnose d) (\<lambda>_. pbind (pmod (skip_statement (ps_current p0) inside_block)) (\<lambda>_. again cs)))
     (\<lambda>c. pbind (if inside_block then function_in_block c else pret ()) (\<lambda>_.
        if_next (TMark TkSemicolon) (skip_tok (again (cs @ [c]))) (again (cs @ [c])))))"

definition block_statements :: "parse_engine \<Rightarrow> statement list parse" where
  "block_statements E = ploop (\<lambda>cs. pread (\<lambda>p.
     if peek_kind p = TMark TkRBrace \<or> at_end p then finish cs else statement_turn E True cs)) []"

definition parse_block :: "parse_engine \<Rightarrow> statement block parse" where
  "parse_block E = peeking (\<lambda>t0.
     demand (TMark TkLBrace) (\<lambda>sp. refusal_help (U ''expected '{' to start block'') sp (U ''blocks must be enclosed in braces'')) (\<lambda>_.
     pbind (block_statements E) (\<lambda>cs. pread (\<lambda>p. let t = peek p in
     if tk_kind t = TMark TkRBrace then skip_tok (pret (Block cs (span_to (tk_span t0) (tk_span t))))
     else pfail (refusal_help (U ''expected '}' to close block'')
            (case filter is_error_token (ps_tokens p) of [] \<Rightarrow> tk_span t | e # _ \<Rightarrow> tk_span e)
            (U ''blocks must be enclosed in braces''))))))"

section \<open>The knot\<close>

definition no_engine :: parse_engine where
  "no_engine = \<lparr>g_expr = spent, g_juxt = spent, g_postfix = spent, g_structural = spent, g_addition = spent,
     g_arm_value = spent, g_block = spent\<rparr>"

definition parser_over :: "parse_engine \<Rightarrow> parse_engine" where
  "parser_over E = \<lparr>g_expr = parse_expr E, g_juxt = parse_expr_juxt E, g_postfix = parse_postfix E,
     g_structural = parse_postfix_structural E, g_addition = parse_addition E,
     g_arm_value = parse_match_arm_value E, g_block = parse_block E\<rparr>"

fun parse_level :: "nat \<Rightarrow> parse_engine" where
  "parse_level 0 = no_engine"
| "parse_level (Suc n) = parser_over (parse_level n)"

section \<open>Modules\<close>

datatype item_type = ItemFunction | ItemConstant

datatype export_item =
    OwnItem ustring "ustring option" span
  | ReExport ustring ustring item_type "ustring option" span

datatype export_block = ExportBlock (eb_items: "export_item list") (eb_commas: "bool list") (eb_span: span)

datatype module_decl = ModuleDecl (md_name: ustring) (md_exports: "export_block option") (md_span: span)

record module_path =
  mp_components :: "ustring list"
  mp_relative :: bool
  mp_absolute :: bool
  mp_home :: bool
  mp_parents :: nat
  mp_span :: span

datatype import_stmt = ImportStmt (im_path: module_path) (im_alias: ustring) (im_span: span)

record program =
  pg_module :: "module_decl option"
  pg_imports :: "import_stmt list"
  pg_statements :: "statement list"

fun parents_up :: "nat \<Rightarrow> nat \<Rightarrow> nat parse" where
  "parents_up 0 n = spent"
| "parents_up (Suc k) n = if_next (TMark TkDotDot)
     (skip_tok (demand (TOperator TkSlash) (refusal (U ''expected '/' after '..'' @ [39])) (\<lambda>_. parents_up k (n + 1))))
     (pret n)"

definition path_start :: "(bool \<times> bool \<times> bool \<times> nat) parse" where
  "path_start = peeking (\<lambda>t.
     if tk_kind t = TMark TkDot then skip_tok (
       demand (TOperator TkSlash) (refusal (U ''expected '/' after '.'' @ [39])) (\<lambda>_. peeking (\<lambda>u.
       if tk_kind u = TMark TkDotDot then
         pfail (refusal_help (U '''./../' is not a module path'') (tk_span u) (U ''write '../' to go up one level: <# ../shared/lib => alias''))
       else pret (True, False, False, 0))))
     else if tk_kind t = TMark TkDotDot then skip_tok (
       demand (TOperator TkSlash) (refusal (U ''expected '/' after '..'' @ [39])) (\<lambda>_.
       pbind (pread (\<lambda>p. parents_up (turns_left p) 1)) (\<lambda>n. pret (True, False, False, n))))
     else if tk_kind t = TOperator TkSlash then skip_tok (pret (False, True, False, 0))
     else if tk_kind t = TOperator TkTilde then skip_tok (
       demand (TOperator TkSlash) (refusal (U ''expected '/' after '~'' @ [39])) (\<lambda>_. pret (False, True, True, 0)))
     else pret (False, False, False, 0))"

definition path_components :: "span \<Rightarrow> (ustring list \<times> span) parse" where
  "path_components sp = ploop (\<lambda>(xs, e). peeking (\<lambda>t.
     case tk_kind t of
       TkIdent x \<Rightarrow> skip_tok (if_next (TOperator TkSlash) (skip_tok (again (xs @ [x], tk_span t)))
         (finish (xs @ [x], tk_span t)))
     | _ \<Rightarrow> if xs = [] then pfail (refusal (U ''expected module path'') (tk_span t)) else finish (xs, e))) ([], sp)"

definition parse_module_path :: "module_path parse" where
  "parse_module_path = peeking (\<lambda>t0. pbind path_start (\<lambda>(relative, absolute, home, parents).
     pbind (path_components (tk_span t0)) (\<lambda>(xs, e).
     pret \<lparr>mp_components = xs, mp_relative = relative, mp_absolute = absolute, mp_home = home,
       mp_parents = parents, mp_span = span_to (tk_span t0) e\<rparr>)))"

definition parse_import_statement :: "import_stmt parse" where
  "parse_import_statement = peeking (\<lambda>t0.
     demand (TOperator TkModuleImport) (refusal (U ''expected '<#' for import statement'')) (\<lambda>_.
     pbind parse_module_path (\<lambda>path.
     demand (TAssign TkFatArrow) (\<lambda>sp. refusal_help (U ''expected '=>' for module alias'') sp (U ''import syntax: <# path => alias'')) (\<lambda>_.
     demand_name (refusal (U ''expected alias name after '=>'' @ [39])) (\<lambda>x at. peeking (\<lambda>t.
     if tk_kind t = TMark TkSemicolon then skip_tok (pret (ImportStmt path x (span_to (tk_span t0) (tk_span t))))
     else pret (ImportStmt path x (span_to (tk_span t0) (tk_span at)))))))))"

text \<open>The new name of an exported item, behind an arrow, and where the item ends then.\<close>

definition export_rename :: "ustring \<Rightarrow> span \<Rightarrow> (ustring option \<times> span) parse" where
  "export_rename message sp = if_next (TAssign TkFatArrow)
     (skip_tok (demand_name (refusal message) (\<lambda>x t. pret (Some x, tk_span t)))) (pret (None, sp))"

definition parse_export_item :: "export_item parse" where
  "parse_export_item = peeking (\<lambda>t0. let sp0 = tk_span t0 in
     case tk_kind t0 of
       TkIdent x \<Rightarrow> skip_tok (peeking (\<lambda>t.
         if tk_kind t = TOperator TkScopeResolution then
           skip_tok (demand_name (refusal (U ''expected function name after '::'' @ [39])) (\<lambda>f ft.
             pbind (export_rename (U ''expected new name after '=>'' @ [39]) (tk_span ft)) (\<lambda>(r, e).
             pret (ReExport x f ItemFunction r (span_to sp0 e)))))
         else if tk_kind t = TMark TkDot then
           skip_tok (demand_name (refusal (U ''expected constant name after '.'' @ [39])) (\<lambda>f ft.
             pbind (export_rename (U ''expected new name after '=>'' @ [39]) (tk_span ft)) (\<lambda>(r, e).
             pret (ReExport x f ItemConstant r (span_to sp0 e)))))
         else pbind (export_rename (U ''expected public name after '=>'' @ [39]) sp0) (\<lambda>(r, e). pret (OwnItem x r (span_to sp0 e)))))
     | k \<Rightarrow>
       if k = TOperator TkLe \<or> k = TMark TkColon then
         pfail (refusal_help (U ''legacy export rename separator'') sp0 (U ''the rename separator is '=>': #> { alias::fn => new_name }''))
       else pfail (refusal_help (U ''expected identifier in export item'') sp0
              (U ''export syntax: #> { own_fn, alias::fn => new_name, alias.CONST => NEW }'')))"

definition parse_export_block :: "export_block parse" where
  "parse_export_block = peeking (\<lambda>t0.
     demand (THash TkExportBlock) (refusal (U ''expected '#>' for export block'')) (\<lambda>_.
     demand (TMark TkLBrace) (refusal (U ''expected '{' after '#>'' @ [39])) (\<lambda>_.
     pbind (ploop (\<lambda>(items, commas). pread (\<lambda>p.
        if peek_kind p = TMark TkRBrace \<or> at_end p then finish (items, commas)
        else pbind parse_export_item (\<lambda>i. peeking (\<lambda>t.
          let r = (items @ [i], commas @ [tk_kind t = TMark TkComma])
          in if tk_kind t = TMark TkComma \<or> tk_kind t = TMark TkSemicolon then skip_tok (again r) else again r)))) ([], []))
       (\<lambda>(items, commas).
     demand (TMark TkRBrace) (refusal (U ''expected '}' to close export block'')) (\<lambda>u.
     pret (ExportBlock items commas (span_to (tk_span t0) (tk_span u))))))))"

fun is_literal_expr :: "expr \<Rightarrow> bool" where
  "is_literal_expr (EGroup (GroupExpr e _)) = is_literal_expr e"
| "is_literal_expr (ELiteral _) = True"
| "is_literal_expr (EUnary (UnaryExpr op e _)) = (op \<in> {OpNeg, OpPos} \<and> is_literal_group e)"
| "is_literal_expr (EArrayLiteral (ArrayLiteralExpr es _ _)) = list_all is_literal_expr es"
| "is_literal_expr (ETuple (TupleExpr es _)) = list_all is_literal_expr es"
| "is_literal_expr (ENamedTuple (NamedTupleExpr fs _ _)) = list_all (\<lambda>(k, e). is_literal_expr e) fs"
| "is_literal_expr _ = False"

definition E013 :: "span \<Rightarrow> diagnostic" where
  "E013 sp = refusal_help (U ''E013: executable statement not allowed in module body'') sp
     (U ''modules may only contain imports, exports, constants, variables, and function definitions'')"

definition module_const :: "parse_engine \<Rightarrow> statement parse" where
  "module_const E = pbind (parse_const_decl E) (\<lambda>c.
     case c of
       SConstDecl d \<Rightarrow>
         if is_literal_expr (cd_value d) then pret c
         else pfail (refusal_help (U ''E013: constant initializer in module must be a literal'') (expr_span (cd_value d))
                (U ''module-level constants must use literal values, not expressions or function calls''))
     | _ \<Rightarrow> pret c)"

definition module_variable :: "parse_engine \<Rightarrow> statement parse" where
  "module_variable E = pbind (parse_assignment E) (\<lambda>c.
     case c of
       SAssignment a \<Rightarrow>
         if is_literal_expr (as_value a) then pret c
         else pfail (refusal_help (U ''E013: variable initializer in module must be a literal'') (expr_span (as_value a))
                (U ''module-level variables must use literal values, not expressions or function calls''))
     | _ \<Rightarrow> pret c)"

definition module_member :: "parse_engine \<Rightarrow> statement parse" where
  "module_member E = pread (\<lambda>p.
     if kind_at 1 p = Some (TAssign TkConstAssign) then module_const E
     else if kind_at 1 p = Some (TAssign TkAssign) then module_variable E
     else if kind_at 1 p = Some (TMark TkLParen) \<and> block_after_call p then parse_function_decl E
     else pfail (E013 (tk_span (peek p))))"

type_synonym module_parts = "import_stmt list \<times> export_block option \<times> statement list"

definition module_turn :: "parse_engine \<Rightarrow> module_parts \<Rightarrow> (module_parts + module_parts) parse" where
  "module_turn E parts = (let (imports, exports, cs) = parts in pread (\<lambda>p. let t = peek p; k = tk_kind t in
     if k = TMark TkRBrace \<or> at_end p then finish parts
     else if k = TOperator TkModuleImport then pbind parse_import_statement (\<lambda>i. again (imports @ [i], exports, cs))
     else if k = THash TkExportBlock then
       (if exports \<noteq> None then
          pfail (refusal_help (U ''duplicate export block in module'') (tk_span t) (U ''a module may only have one #> export block''))
        else pbind parse_export_block (\<lambda>x. again (imports, Some x, cs)))
     else if is_name k then pbind (module_member E) (\<lambda>c. again (imports, exports, cs @ [c]))
     else pfail (E013 (tk_span t))))"

definition parse_module_block :: "parse_engine \<Rightarrow> (module_decl \<times> import_stmt list \<times> statement list) parse" where
  "parse_module_block E = peeking (\<lambda>t0.
     demand (THash TkHash) (refusal (U ''expected '#' for module declaration'')) (\<lambda>_.
     pbind (if_next (TMark TkDot) (skip_tok (pret [46])) (pret [])) (\<lambda>dot.
     demand_name (refusal (U ''expected module name after '#'' @ [39])) (\<lambda>x _.
     demand (TMark TkLBrace) (\<lambda>sp. refusal_help (U ''expected '{' after module name'') sp
         (U ''module body must be enclosed in braces: # name { ... }'')) (\<lambda>_.
     pbind (ploop (module_turn E) ([], None, [])) (\<lambda>(imports, exports, cs).
     demand (TMark TkRBrace) (refusal (U ''expected '}' to close module body'')) (\<lambda>u.
     pret (ModuleDecl (dot @ x) exports (span_to (tk_span t0) (tk_span u)), imports, cs))))))))"

section \<open>Programs\<close>

definition new_parser :: "token list \<Rightarrow> parser" where
  "new_parser ts = \<lparr>ps_tokens = ts, ps_current = 0, ps_diagnostics = []\<rparr>"

definition module_file :: "parse_engine \<Rightarrow> program parse" where
  "module_file E = pbind
     (pcatch (parse_module_block E) (\<lambda>d. pbind (diagnose d) (\<lambda>_. pret \<lparr>pg_module = None, pg_imports = [], pg_statements = []\<rparr>))
        (\<lambda>(m, is, cs). pret \<lparr>pg_module = Some m, pg_imports = is, pg_statements = cs\<rparr>)) (\<lambda>g. pread (\<lambda>p.
     if \<not> at_end p \<and> ps_diagnostics p = [] then
       pbind (diagnose (refusal_help (U ''unexpected token after module block'') (tk_span (peek p))
         (U ''a module file must contain only: # name { ... }''))) (\<lambda>_. pret g)
     else pret g))"

definition import_turn :: "import_stmt list \<Rightarrow> (import_stmt list + import_stmt list) parse" where
  "import_turn is = pread (\<lambda>p0.
     if peek_kind p0 \<noteq> TOperator TkModuleImport then finish is
     else pcatch parse_import_statement
       (\<lambda>d. pbind (diagnose d) (\<lambda>_. pbind (pmod (skip_statement (ps_current p0) False)) (\<lambda>_. again is)))
       (\<lambda>i. again (is @ [i])))"

definition script_file :: "parse_engine \<Rightarrow> program parse" where
  "script_file E = pbind (ploop import_turn []) (\<lambda>is.
     pbind (ploop (\<lambda>cs. pread (\<lambda>p. if at_end p then finish cs else statement_turn E False cs)) []) (\<lambda>cs.
     pret \<lparr>pg_module = None, pg_imports = is, pg_statements = cs\<rparr>))"

definition parse_file :: "parse_engine \<Rightarrow> program parse" where
  "parse_file E = if_next (THash TkHash) (module_file E) (script_file E)"

text \<open>What the lexer already refused is not reported again.\<close>

definition reported_diagnostics :: "token list \<Rightarrow> diagnostic list \<Rightarrow> diagnostic list" where
  "reported_diagnostics ts ds =
     (let refused = map tk_span (filter is_error_token ts)
      in filter (\<lambda>d. case dg_span d of Some sp \<Rightarrow> sp \<notin> set refused | None \<Rightarrow> True) ds)"

definition parse_with :: "nat \<Rightarrow> token list \<Rightarrow> (diagnostic list + program) option" where
  "parse_with n ts =
     (case parse_file (parse_level n) (new_parser ts) of
        None \<Rightarrow> None
      | Some (r, p) \<Rightarrow>
          (case r of
             Inr g \<Rightarrow> if ps_diagnostics p = [] then Some (Inr g) else Some (Inl (reported_diagnostics ts (ps_diagnostics p)))
           | Inl d \<Rightarrow> Some (Inl (reported_diagnostics ts (ps_diagnostics p)))))"

definition parse :: "token list \<Rightarrow> (diagnostic list + program) option" where
  "parse ts = parse_with (length ts) ts"

end
