(* ===== verification/ZyParseRuns.thy ===== *)
theory ZyParseRuns imports ZyParse begin

text \<open>
  The parser answers: on tokens that end with the end of the file every operation answers, leaves the
  cursor inside the tokens, never moves it backwards, and does not depend on how many levels of nesting
  are left over.  The rules here take an operation apart, each combinator by one rule, as a calculus
  for total correctness does; theory ZyParseEnds applies them to the whole parser.
\<close>

section \<open>The cursor stays inside\<close>

definition inside_tokens :: "parser \<Rightarrow> bool" where
  "inside_tokens p \<longleftrightarrow> ps_current p < length (ps_tokens p) \<and> tk_kind (last (ps_tokens p)) = TkEof"

definition left :: "parser \<Rightarrow> nat" where
  "left p = length (ps_tokens p) - ps_current p"

lemma past_comments_inside:
  assumes "i < length ts" "tk_kind (last ts) = TkEof"
  shows "past_comments ts i < length ts" "\<not> comment_token (ts ! past_comments ts i)" "i \<le> past_comments ts i"
proof -
  let ?ds = "drop i ts"
  have l: "last ?ds = last ts" "?ds \<noteq> []" using assms(1) by simp_all
  have e: "\<not> comment_token (last ?ds)" using assms(2) l by (simp add: comment_token_def)
  have w: "length (takeWhile comment_token ?ds) < length ?ds"
  proof (rule ccontr)
    assume "\<not> ?thesis"
    then have "takeWhile comment_token ?ds = ?ds"
      using takeWhile_eq_take [of comment_token ?ds] length_takeWhile_le [of comment_token ?ds] by simp
    then have "\<forall>t \<in> set ?ds. comment_token t" by (simp add: takeWhile_eq_all_conv)
    with e l show False by (metis last_in_set)
  qed
  then show "past_comments ts i < length ts" using assms(1) by (simp add: past_comments_def)
  have "\<not> comment_token (?ds ! length (takeWhile comment_token ?ds))" using w by (rule nth_length_takeWhile)
  then show "\<not> comment_token (ts ! past_comments ts i)" using assms(1) w by (simp add: past_comments_def)
  show "i \<le> past_comments ts i" by (simp add: past_comments_def)
qed

lemma past_comments_again:
  "i < length ts \<Longrightarrow> \<not> comment_token (ts ! i) \<Longrightarrow> past_comments ts i = i"
  by (simp add: past_comments_def takeWhile_eq_Nil_iff hd_drop_conv_nth)

lemma skip_comments_inside:
  assumes "inside_tokens p"
  shows "inside_tokens (skip_comment_tokens p)" "left (skip_comment_tokens p) \<le> left p"
    "peek (skip_comment_tokens p) = peek p" "past_comments (ps_tokens p) (ps_current (skip_comment_tokens p)) = ps_current (skip_comment_tokens p)"
  using assms past_comments_inside [of "ps_current p" "ps_tokens p"]
  by (auto simp: inside_tokens_def skip_comment_tokens_def left_def peek_def past_comments_again)

lemma advanced_inside:
  assumes "inside_tokens p"
  shows "inside_tokens (advanced p)" "left (advanced p) \<le> left p"
    "\<not> at_end p \<Longrightarrow> left (advanced p) < left p" "ps_tokens (advanced p) = ps_tokens p"
    "ps_diagnostics (advanced p) = ps_diagnostics p"
proof -
  let ?q = "skip_comment_tokens p"
  note q = skip_comments_inside [OF assms]
  have "inside_tokens (advanced p) \<and> left (advanced p) \<le> left p \<and> (\<not> at_end p \<longrightarrow> left (advanced p) < left p)"
  proof (cases "at_end ?q")
    case True
    then have "at_end p" using q(3) by (simp add: at_end_def peek_kind_def)
    with True q show ?thesis by (simp add: advanced_def Let_def)
  next
    case False
    let ?r = "?q\<lparr>ps_current := ps_current ?q + 1\<rparr>"
    have l: "ps_current ?q < length (ps_tokens p)" using q(1) by (simp add: inside_tokens_def skip_comment_tokens_def)
    have k: "tk_kind (ps_tokens p ! ps_current ?q) \<noteq> TkEof"
      using False q(4) l by (simp add: at_end_def peek_kind_def peek_def token_or_last_def skip_comment_tokens_def)
    have "ps_current ?q + 1 < length (ps_tokens p)"
    proof (rule ccontr)
      assume "\<not> ?thesis"
      with l have "ps_tokens p ! ps_current ?q = last (ps_tokens p)" by (subst last_conv_nth) (auto intro!: arg_cong [where f = "(!) _"])
      with k assms show False by (simp add: inside_tokens_def)
    qed
    then have r: "inside_tokens ?r" using q(1) by (simp add: inside_tokens_def skip_comment_tokens_def)
    have "left ?r < left ?q" using l by (simp add: left_def skip_comment_tokens_def)
    with False skip_comments_inside [OF r] r q(2) show ?thesis by (simp add: advanced_def Let_def)
  qed
  then show "inside_tokens (advanced p)" "left (advanced p) \<le> left p" "\<not> at_end p \<Longrightarrow> left (advanced p) < left p" by simp_all
  show "ps_tokens (advanced p) = ps_tokens p" "ps_diagnostics (advanced p) = ps_diagnostics p"
    by (simp_all add: advanced_def skip_comment_tokens_def Let_def)
qed

lemma left_pos: "inside_tokens p \<Longrightarrow> 0 < left p"
  by (simp add: inside_tokens_def left_def)

lemma left_turns: "turns_left p = Suc (left p)"
  by (simp add: turns_left_def left_def)

section \<open>Answers\<close>

text \<open>
  Two operations, the same one over two parsers below it, answer the same from a parser inside its tokens,
  leave it inside, not further from the end, and where the answer is a value the condition holds of it.
\<close>

definition settles :: "'a parse \<Rightarrow> 'a parse \<Rightarrow> parser \<Rightarrow> ('a \<Rightarrow> parser \<Rightarrow> bool) \<Rightarrow> bool" where
  "settles m m' p S \<longleftrightarrow> (inside_tokens p \<longrightarrow>
     (\<exists>r q. m p = Some (r, q) \<and> m' p = Some (r, q) \<and> inside_tokens q \<and> ps_tokens q = ps_tokens p
        \<and> left q \<le> left p \<and> (\<forall>x. r = Inr x \<longrightarrow> S x q)))"

named_theorems settles_rules

lemma settles_weaken: "settles m m' p S \<Longrightarrow> (\<And>x q. S x q \<Longrightarrow> T x q) \<Longrightarrow> settles m m' p T"
  unfolding settles_def by blast

lemma settles_pret [settles_rules]: "S x p \<Longrightarrow> settles (pret x) (pret x) p S"
  by (simp add: settles_def pret_def)

lemma settles_pfail [settles_rules]: "settles (pfail d) (pfail d) p S"
  by (simp add: settles_def pfail_def)

lemma settles_bind [settles_rules]:
  assumes "settles m m' p (\<lambda>x q. settles (f x) (f' x) q S)"
  shows "settles (pbind m f) (pbind m' f') p S"
  unfolding settles_def
proof
  assume "inside_tokens p"
  with assms obtain r q where r: "m p = Some (r, q)" "m' p = Some (r, q)" "inside_tokens q" "ps_tokens q = ps_tokens p"
    "left q \<le> left p" "\<And>x. r = Inr x \<Longrightarrow> settles (f x) (f' x) q S"
    unfolding settles_def [of m] by blast
  show "\<exists>r q. pbind m f p = Some (r, q) \<and> pbind m' f' p = Some (r, q) \<and> inside_tokens q \<and> ps_tokens q = ps_tokens p
      \<and> left q \<le> left p \<and> (\<forall>x. r = Inr x \<longrightarrow> S x q)"
  proof (cases r)
    case (Inl d)
    with r show ?thesis by (simp add: pbind_def)
  next
    case (Inr x)
    from r(6) [OF this] r(3) obtain s u where "f x q = Some (s, u)" "f' x q = Some (s, u)" "inside_tokens u"
      "ps_tokens u = ps_tokens q" "left u \<le> left q" "\<forall>y. s = Inr y \<longrightarrow> S y u"
      unfolding settles_def by blast
    with r Inr show ?thesis by (simp add: pbind_def)
  qed
qed

lemma settles_catch [settles_rules]:
  assumes "settles m m' p (\<lambda>x q. settles (f x) (f' x) q S)"
    "\<And>d q. inside_tokens q \<Longrightarrow> ps_tokens q = ps_tokens p \<Longrightarrow> left q \<le> left p \<Longrightarrow> settles (h d) (h' d) q S"
  shows "settles (pcatch m h f) (pcatch m' h' f') p S"
  unfolding settles_def
proof
  assume "inside_tokens p"
  with assms(1) obtain r q where r: "m p = Some (r, q)" "m' p = Some (r, q)" "inside_tokens q" "ps_tokens q = ps_tokens p"
    "left q \<le> left p" "\<And>x. r = Inr x \<Longrightarrow> settles (f x) (f' x) q S"
    unfolding settles_def [of m] by blast
  show "\<exists>r q. pcatch m h f p = Some (r, q) \<and> pcatch m' h' f' p = Some (r, q) \<and> inside_tokens q
      \<and> ps_tokens q = ps_tokens p \<and> left q \<le> left p \<and> (\<forall>x. r = Inr x \<longrightarrow> S x q)"
  proof (cases r)
    case (Inl d)
    from assms(2) [OF r(3-5), of d] r(3) obtain s u where "h d q = Some (s, u)" "h' d q = Some (s, u)" "inside_tokens u"
      "ps_tokens u = ps_tokens q" "left u \<le> left q" "\<forall>y. s = Inr y \<longrightarrow> S y u"
      unfolding settles_def by blast
    with r Inl show ?thesis by (simp add: pcatch_def)
  next
    case (Inr x)
    from r(6) [OF this] r(3) obtain s u where "f x q = Some (s, u)" "f' x q = Some (s, u)" "inside_tokens u"
      "ps_tokens u = ps_tokens q" "left u \<le> left q" "\<forall>y. s = Inr y \<longrightarrow> S y u"
      unfolding settles_def by blast
    with r Inr show ?thesis by (simp add: pcatch_def)
  qed
qed

lemma settles_peeking [settles_rules]: "settles (f (peek p)) (f' (peek p)) p S \<Longrightarrow> settles (peeking f) (peeking f') p S"
  by (simp add: settles_def peeking_def)

lemma settles_pread [settles_rules]:
  "(inside_tokens p \<Longrightarrow> settles (f p) (f' p) p S) \<Longrightarrow> settles (pread f) (pread f') p S"
  by (simp add: settles_def pread_def)

lemma settles_pmap [settles_rules]:
  "settles m m' p (\<lambda>x q. S (f x) q) \<Longrightarrow> settles (pmap f m) (pmap f m') p S"
  unfolding pmap_def by (rule settles_bind, erule settles_weaken, rule settles_pret)

lemma settles_pmod:
  "(inside_tokens p \<Longrightarrow> inside_tokens (f p) \<and> ps_tokens (f p) = ps_tokens p \<and> left (f p) \<le> left p \<and> S () (f p)) \<Longrightarrow>
   settles (pmod f) (pmod f) p S"
  by (simp add: settles_def pmod_def)

lemma settles_diagnose [settles_rules]:
  "(\<And>q. left q = left p \<Longrightarrow> peek q = peek p \<Longrightarrow> inside_tokens q = inside_tokens p \<Longrightarrow> ps_tokens q = ps_tokens p \<Longrightarrow>
     ps_current q = ps_current p \<Longrightarrow> S () q) \<Longrightarrow> settles (diagnose d) (diagnose d) p S"
  unfolding diagnose_def by (rule settles_pmod) (simp add: inside_tokens_def left_def peek_def)

section \<open>Taking tokens\<close>

lemma settles_next [settles_rules]:
  assumes "\<And>t q. left q \<le> left p \<Longrightarrow> tk_kind (peek p) \<noteq> TkEof \<longrightarrow> left q < left p \<Longrightarrow> S t q"
  shows "settles next_tok next_tok p S"
  unfolding settles_def
proof
  assume p: "inside_tokens p"
  have "S (token_or_last (ps_tokens (skip_comment_tokens p)) (ps_current (skip_comment_tokens p))) (advanced p)"
    using advanced_inside [OF p] by (intro assms) (auto simp: at_end_def peek_kind_def)
  then show "\<exists>r q. next_tok p = Some (r, q) \<and> next_tok p = Some (r, q) \<and> inside_tokens q \<and> ps_tokens q = ps_tokens p
      \<and> left q \<le> left p \<and> (\<forall>x. r = Inr x \<longrightarrow> S x q)"
    using advanced_inside [OF p] by (simp add: next_tok_def Let_def)
qed

lemma settles_skip [settles_rules]:
  assumes "\<And>q. left q \<le> left p \<Longrightarrow> tk_kind (peek p) \<noteq> TkEof \<longrightarrow> left q < left p \<Longrightarrow> settles m m' q S"
  shows "settles (skip_tok m) (skip_tok m') p S"
  unfolding skip_tok_def by (rule settles_bind, rule settles_next, rule assms)

lemma settles_if_next [settles_rules]:
  assumes "tk_kind (peek p) = k \<Longrightarrow> settles m m' p S" "tk_kind (peek p) \<noteq> k \<Longrightarrow> settles n n' p S"
  shows "settles (if_next k m n) (if_next k m' n') p S"
  unfolding if_next_def using assms by (intro settles_peeking) simp

lemma settles_demand [settles_rules]:
  assumes "\<And>t q. left q \<le> left p \<Longrightarrow> k \<noteq> TkEof \<longrightarrow> left q < left p \<Longrightarrow> settles (f t) (f' t) q S"
  shows "settles (demand k d f) (demand k d f') p S"
  unfolding demand_def
  by (rule settles_peeking) (auto intro!: settles_pfail settles_bind settles_next intro: assms)

lemma settles_demand_name [settles_rules]:
  assumes "\<And>x t q. left q < left p \<Longrightarrow> settles (f x t) (f' x t) q S"
  shows "settles (demand_name d f) (demand_name d f') p S"
  unfolding demand_name_def
  by (rule settles_peeking)
     (auto intro!: settles_pfail settles_bind settles_next split: token_kind.split intro: assms)

section \<open>Loops\<close>

text \<open>What a turn of a loop leaves: it goes on with less in front of it, or it ends with what the loop promises.\<close>

definition turned :: "('a \<Rightarrow> parser \<Rightarrow> bool) \<Rightarrow> ('b \<Rightarrow> parser \<Rightarrow> bool) \<Rightarrow> 'a + 'b \<Rightarrow> parser \<Rightarrow> bool" where
  "turned I S r u = (case r of Inl y \<Rightarrow> I y u | Inr z \<Rightarrow> S z u)"

lemma turned_again [settles_rules]: "I y u \<Longrightarrow> turned I S (Inl y) u"
  by (simp add: turned_def)

lemma turned_finish [settles_rules]: "S z u \<Longrightarrow> turned I S (Inr z) u"
  by (simp add: turned_def)

lemma ploop_at_answers:
  assumes "\<And>y q. I y q \<Longrightarrow> left q \<le> left p \<Longrightarrow> settles (f y) (f' y) q
      (turned (\<lambda>z u. left u < left q \<and> I z u) S)"
  shows "I x q \<Longrightarrow> left q \<le> left p \<Longrightarrow> left q < n \<Longrightarrow> left q < n' \<Longrightarrow> settles (ploop_at n f x) (ploop_at n' f' x) q S"
proof (induction n arbitrary: x q n')
  case (Suc n)
  then obtain l where l: "n' = Suc l" by (cases n') simp_all
  have "settles (f x) (f' x) q (\<lambda>r u. settles
      (case r of Inl y \<Rightarrow> ploop_at n f y | Inr z \<Rightarrow> pret z) (case r of Inl y \<Rightarrow> ploop_at l f' y | Inr z \<Rightarrow> pret z) u S)"
  proof (rule settles_weaken [OF assms [OF Suc.prems(1,2)]])
    fix r u
    assume r: "turned (\<lambda>z u. left u < left q \<and> I z u) S r u"
    show "settles (case r of Inl y \<Rightarrow> ploop_at n f y | Inr z \<Rightarrow> pret z) (case r of Inl y \<Rightarrow> ploop_at l f' y | Inr z \<Rightarrow> pret z) u S"
    proof (cases r)
      case (Inl z)
      with r Suc.prems l show ?thesis by (auto simp: turned_def intro: Suc.IH)
    next
      case (Inr z)
      with r show ?thesis by (simp add: turned_def settles_pret)
    qed
  qed
  with l show ?case by (simp add: settles_bind)
qed simp

lemma settles_loop_invariant:
  assumes "I x p"
    "\<And>y q. I y q \<Longrightarrow> left q \<le> left p \<Longrightarrow> settles (f y) (f' y) q
      (turned (\<lambda>z u. left u < left q \<and> I z u) S)"
  shows "settles (ploop f x) (ploop f' x) p S"
  unfolding ploop_def
  by (rule settles_pread, rule ploop_at_answers [where I = I and p = p])
     (simp_all add: assms left_turns)

lemma settles_loop [settles_rules]:
  assumes "\<And>y q. left q \<le> left p \<Longrightarrow> settles (f y) (f' y) q (turned (\<lambda>_ u. left u < left q) S)"
  shows "settles (ploop f x) (ploop f' x) p S"
  by (rule settles_loop_invariant [where I = "\<lambda>_ _. True"]) (simp, simp only: simp_thms, rule assms)

lemma settles_again [settles_rules]: "S (Inl x) p \<Longrightarrow> settles (again x) (again x) p S"
  by (simp add: again_def settles_pret)

lemma settles_finish [settles_rules]: "S (Inr x) p \<Longrightarrow> settles (finish x) (finish x) p S"
  by (simp add: finish_def settles_pret)

section \<open>Choices\<close>

lemma settles_if [settles_rules]:
  "(b \<Longrightarrow> settles m m' p S) \<Longrightarrow> (\<not> b \<Longrightarrow> settles n n' p S) \<Longrightarrow> settles (if b then m else n) (if b then m' else n') p S"
  by simp

lemma settles_let [settles_rules]: "settles (f a) (f' a) p S \<Longrightarrow> settles (Let a f) (Let a f') p S"
  by simp

lemma settles_pair [settles_rules]:
  "(\<And>a b. z = (a, b) \<Longrightarrow> settles (f a b) (f' a b) p S) \<Longrightarrow> settles (case_prod f z) (case_prod f' z) p S"
  by (cases z) simp

lemma settles_option [settles_rules]:
  "(z = None \<Longrightarrow> settles m m' p S) \<Longrightarrow> (\<And>x. z = Some x \<Longrightarrow> settles (f x) (f' x) p S) \<Longrightarrow>
   settles (case_option m f z) (case_option m' f' z) p S"
  by (cases z) simp_all

lemma settles_case_io [settles_rules]:
  assumes
    "k = TkOutput \<Longrightarrow> settles f0 g0 p S" "k = TkOutputClear \<Longrightarrow> settles f1 g1 p S"
    "k = TkOutputQuery \<Longrightarrow> settles f2 g2 p S"
    "k = TkOutputGate \<Longrightarrow> settles f3 g3 p S" "k = TkOutputPos \<Longrightarrow> settles f4 g4 p S"
    "k = TkInput \<Longrightarrow> settles f5 g5 p S" "k = TkKeyBlock \<Longrightarrow> settles f6 g6 p S"
    "k = TkKeyNonBlock \<Longrightarrow> settles f7 g7 p S" "k = TkNewline \<Longrightarrow> settles f8 g8 p S"
    "k = TkBackslash2 \<Longrightarrow> settles f9 g9 p S"
    "k = TkBackslash \<Longrightarrow> settles f10 g10 p S"
    "k = TkCliArgsCapture \<Longrightarrow> settles f11 g11 p S"
    "k = TkBashOpen \<Longrightarrow> settles f12 g12 p S"
    "k = TkBashClose \<Longrightarrow> settles f13 g13 p S"
  shows "settles (case_io_token f0 f1 f2 f3 f4 f5 f6 f7 f8 f9 f10 f11 f12 f13 k) (case_io_token g0 g1 g2 g3 g4 g5 g6 g7 g8 g9 g10 g11 g12 g13 k) p S"
  using assms by (cases k) simp_all

lemma settles_case_assign [settles_rules]:
  assumes
    "k = TkAssign \<Longrightarrow> settles f0 g0 p S" "k = TkFatArrow \<Longrightarrow> settles f1 g1 p S"
    "k = TkConstAssign \<Longrightarrow> settles f2 g2 p S"
    "k = TkPlusAssign \<Longrightarrow> settles f3 g3 p S"
    "k = TkMinusAssign \<Longrightarrow> settles f4 g4 p S"
    "k = TkStarAssign \<Longrightarrow> settles f5 g5 p S"
    "k = TkSlashAssign \<Longrightarrow> settles f6 g6 p S"
    "k = TkPercentAssign \<Longrightarrow> settles f7 g7 p S"
    "k = TkCaretAssign \<Longrightarrow> settles f8 g8 p S" "k = TkPlusPlus \<Longrightarrow> settles f9 g9 p S"
    "k = TkMinusMinus \<Longrightarrow> settles f10 g10 p S"
  shows "settles (case_assign_token f0 f1 f2 f3 f4 f5 f6 f7 f8 f9 f10 k) (case_assign_token g0 g1 g2 g3 g4 g5 g6 g7 g8 g9 g10 k) p S"
  using assms by (cases k) simp_all

lemma settles_case_operator [settles_rules]:
  assumes
    "k = TkPlus \<Longrightarrow> settles f0 g0 p S" "k = TkMinus \<Longrightarrow> settles f1 g1 p S"
    "k = TkStar \<Longrightarrow> settles f2 g2 p S" "k = TkSlash \<Longrightarrow> settles f3 g3 p S"
    "k = TkPercent \<Longrightarrow> settles f4 g4 p S" "k = TkCaret \<Longrightarrow> settles f5 g5 p S"
    "k = TkGt \<Longrightarrow> settles f6 g6 p S" "k = TkLt \<Longrightarrow> settles f7 g7 p S"
    "k = TkGe \<Longrightarrow> settles f8 g8 p S" "k = TkLe \<Longrightarrow> settles f9 g9 p S"
    "k = TkEq \<Longrightarrow> settles f10 g10 p S" "k = TkNeq \<Longrightarrow> settles f11 g11 p S"
    "k = TkAnd \<Longrightarrow> settles f12 g12 p S" "k = TkOr \<Longrightarrow> settles f13 g13 p S"
    "k = TkNot \<Longrightarrow> settles f14 g14 p S" "k = TkReturn \<Longrightarrow> settles f15 g15 p S"
    "k = TkTilde \<Longrightarrow> settles f16 g16 p S" "k = TkArrow \<Longrightarrow> settles f17 g17 p S"
    "k = TkModuleImport \<Longrightarrow> settles f18 g18 p S"
    "k = TkScopeResolution \<Longrightarrow> settles f19 g19 p S"
    "k = TkPipe \<Longrightarrow> settles f20 g20 p S" "k = TkPipeOp \<Longrightarrow> settles f21 g21 p S"
  shows "settles (case_operator_token f0 f1 f2 f3 f4 f5 f6 f7 f8 f9 f10 f11 f12 f13 f14 f15 f16 f17 f18 f19 f20 f21 k) (case_operator_token g0 g1 g2 g3 g4 g5 g6 g7 g8 g9 g10 g11 g12 g13 g14 g15 g16 g17 g18 g19 g20 g21 k) p S"
  using assms by (cases k) simp_all

lemma settles_case_dollar [settles_rules]:
  assumes
    "k = TkDollarHash \<Longrightarrow> settles f0 g0 p S" "k = TkDollarPlus \<Longrightarrow> settles f1 g1 p S"
    "k = TkDollarMinus \<Longrightarrow> settles f2 g2 p S"
    "k = TkDollarQuestion \<Longrightarrow> settles f3 g3 p S"
    "k = TkDollarTilde \<Longrightarrow> settles f4 g4 p S"
    "k = TkDollarLBracket \<Longrightarrow> settles f5 g5 p S"
    "k = TkDollarGt \<Longrightarrow> settles f6 g6 p S" "k = TkDollarPipe \<Longrightarrow> settles f7 g7 p S"
    "k = TkDollarLt \<Longrightarrow> settles f8 g8 p S"
    "k = TkDollarPlusLBracket \<Longrightarrow> settles f9 g9 p S"
    "k = TkDollarMinusLBracket \<Longrightarrow> settles f10 g10 p S"
    "k = TkDollarCaretPlus \<Longrightarrow> settles f11 g11 p S"
    "k = TkDollarCaretMinus \<Longrightarrow> settles f12 g12 p S"
    "k = TkDollarCaret \<Longrightarrow> settles f13 g13 p S"
    "k = TkDollarQuestionQuestion \<Longrightarrow> settles f14 g14 p S"
    "k = TkDollarPlusPlus \<Longrightarrow> settles f15 g15 p S"
    "k = TkDollarMinusMinus \<Longrightarrow> settles f16 g16 p S"
    "k = TkDollarTildeTilde \<Longrightarrow> settles f17 g17 p S"
    "k = TkDollarSlash \<Longrightarrow> settles f18 g18 p S"
    "k = TkDollarStar \<Longrightarrow> settles f19 g19 p S"
    "k = TkDollarExclaim \<Longrightarrow> settles f20 g20 p S"
    "k = TkDollarExclaimExclaim \<Longrightarrow> settles f21 g21 p S"
  shows "settles (case_dollar_token f0 f1 f2 f3 f4 f5 f6 f7 f8 f9 f10 f11 f12 f13 f14 f15 f16 f17 f18 f19 f20 f21 k) (case_dollar_token g0 g1 g2 g3 g4 g5 g6 g7 g8 g9 g10 g11 g12 g13 g14 g15 g16 g17 g18 g19 g20 g21 k) p S"
  using assms by (cases k) simp_all

lemma settles_case_flow [settles_rules]:
  assumes
    "k = TkQuestion \<Longrightarrow> settles f0 g0 p S"
    "k = TkDoubleQuestion \<Longrightarrow> settles f1 g1 p S"
    "k = TkUnderscore \<Longrightarrow> settles f2 g2 p S" "k = TkElseIf \<Longrightarrow> settles f3 g3 p S"
    "k = TkTryBlock \<Longrightarrow> settles f4 g4 p S" "k = TkCatchBlock \<Longrightarrow> settles f5 g5 p S"
    "k = TkFinallyBlock \<Longrightarrow> settles f6 g6 p S" "k = TkAt \<Longrightarrow> settles f7 g7 p S"
    "k = TkAtBreak \<Longrightarrow> settles f8 g8 p S" "k = TkAtContinue \<Longrightarrow> settles f9 g9 p S"
    "k = TkAtTilde \<Longrightarrow> settles f10 g10 p S"
  shows "settles (case_flow_token f0 f1 f2 f3 f4 f5 f6 f7 f8 f9 f10 k) (case_flow_token g0 g1 g2 g3 g4 g5 g6 g7 g8 g9 g10 k) p S"
  using assms by (cases k) simp_all

lemma settles_case_mark [settles_rules]:
  assumes
    "k = TkComma \<Longrightarrow> settles f0 g0 p S" "k = TkColon \<Longrightarrow> settles f1 g1 p S"
    "k = TkSemicolon \<Longrightarrow> settles f2 g2 p S" "k = TkDot \<Longrightarrow> settles f3 g3 p S"
    "k = TkDotDot \<Longrightarrow> settles f4 g4 p S" "k = TkLBrace \<Longrightarrow> settles f5 g5 p S"
    "k = TkRBrace \<Longrightarrow> settles f6 g6 p S" "k = TkLBracket \<Longrightarrow> settles f7 g7 p S"
    "k = TkRBracket \<Longrightarrow> settles f8 g8 p S" "k = TkLParen \<Longrightarrow> settles f9 g9 p S"
    "k = TkRParen \<Longrightarrow> settles f10 g10 p S" "k = TkBaseBinary \<Longrightarrow> settles f11 g11 p S"
    "k = TkBaseOctal \<Longrightarrow> settles f12 g12 p S"
    "k = TkBaseDecimal \<Longrightarrow> settles f13 g13 p S"
    "k = TkBaseHex \<Longrightarrow> settles f14 g14 p S"
  shows "settles (case_mark_token f0 f1 f2 f3 f4 f5 f6 f7 f8 f9 f10 f11 f12 f13 f14 k) (case_mark_token g0 g1 g2 g3 g4 g5 g6 g7 g8 g9 g10 g11 g12 g13 g14 k) p S"
  using assms by (cases k) simp_all

lemma settles_case_hash [settles_rules]:
  assumes
    "k = TkHashComma \<Longrightarrow> settles f0 g0 p S" "k = TkHashCaret \<Longrightarrow> settles f1 g1 p S"
    "k = TkHashPipe \<Longrightarrow> settles f2 g2 p S" "k = TkHashQuestion \<Longrightarrow> settles f3 g3 p S"
    "k = TkHashLParen \<Longrightarrow> settles f4 g4 p S" "k = TkHashDot \<Longrightarrow> settles f5 g5 p S"
    "k = TkHashExclaim \<Longrightarrow> settles f6 g6 p S"
    "k = TkHashHashUnderscore \<Longrightarrow> settles f7 g7 p S"
    "k = TkHashHashDot \<Longrightarrow> settles f8 g8 p S"
    "k = TkHashHashHash \<Longrightarrow> settles f9 g9 p S"
    "k = TkHashHashBang \<Longrightarrow> settles f10 g10 p S"
    "k = TkHashHashQuote \<Longrightarrow> settles f11 g11 p S"
    "k = TkHashHashApos \<Longrightarrow> settles f12 g12 p S" "k = TkHash \<Longrightarrow> settles f13 g13 p S"
    "k = TkExportBlock \<Longrightarrow> settles f14 g14 p S"
  shows "settles (case_hash_token f0 f1 f2 f3 f4 f5 f6 f7 f8 f9 f10 f11 f12 f13 f14 k) (case_hash_token g0 g1 g2 g3 g4 g5 g6 g7 g8 g9 g10 g11 g12 g13 g14 k) p S"
  using assms by (cases k) simp_all

lemma settles_case_kind [settles_rules]:
  assumes
    "\<And>x. k = TIo x \<Longrightarrow> settles (f0 x) (g0 x) p S"
    "\<And>x. k = TAssign x \<Longrightarrow> settles (f1 x) (g1 x) p S"
    "\<And>x. k = TOperator x \<Longrightarrow> settles (f2 x) (g2 x) p S"
    "\<And>x. k = TDollar x \<Longrightarrow> settles (f3 x) (g3 x) p S"
    "\<And>x. k = TFlow x \<Longrightarrow> settles (f4 x) (g4 x) p S"
    "\<And>x. k = TMark x \<Longrightarrow> settles (f5 x) (g5 x) p S"
    "\<And>x. k = THash x \<Longrightarrow> settles (f6 x) (g6 x) p S"
    "\<And>x. k = TkString x \<Longrightarrow> settles (f7 x) (g7 x) p S"
    "\<And>x. k = TkStringInterpolated x \<Longrightarrow> settles (f8 x) (g8 x) p S"
    "\<And>x. k = TkInteger x \<Longrightarrow> settles (f9 x) (g9 x) p S"
    "\<And>x. k = TkFloat x \<Longrightarrow> settles (f10 x) (g10 x) p S"
    "\<And>x. k = TkChar x \<Longrightarrow> settles (f11 x) (g11 x) p S"
    "\<And>x. k = TkBoolean x \<Longrightarrow> settles (f12 x) (g12 x) p S"
    "\<And>x. k = TkSetNumeralMode x \<Longrightarrow> settles (f13 x) (g13 x) p S"
    "\<And>x. k = TkIdent x \<Longrightarrow> settles (f14 x) (g14 x) p S"
    "\<And>x. k = TkHotIdent x \<Longrightarrow> settles (f15 x) (g15 x) p S"
    "\<And>x. k = TkPreHotIdent x \<Longrightarrow> settles (f16 x) (g16 x) p S"
    "\<And>x. k = TkAtLabel x \<Longrightarrow> settles (f17 x) (g17 x) p S"
    "\<And>x. k = TkAtColonLabel x \<Longrightarrow> settles (f18 x) (g18 x) p S"
    "\<And>x. k = TkAtColonLabelBreak x \<Longrightarrow> settles (f19 x) (g19 x) p S"
    "\<And>x. k = TkAtColonLabelContinue x \<Longrightarrow> settles (f20 x) (g20 x) p S"
    "\<And>x. k = TkExecuteCommand x \<Longrightarrow> settles (f21 x) (g21 x) p S"
    "\<And>x. k = TkLineComment x \<Longrightarrow> settles (f22 x) (g22 x) p S"
    "\<And>x. k = TkBlockComment x \<Longrightarrow> settles (f23 x) (g23 x) p S"
    "k = TkEof \<Longrightarrow> settles f24 g24 p S"
    "\<And>x. k = TkError x \<Longrightarrow> settles (f25 x) (g25 x) p S"
  shows "settles (case_token_kind f0 f1 f2 f3 f4 f5 f6 f7 f8 f9 f10 f11 f12 f13 f14 f15 f16 f17 f18 f19 f20 f21 f22 f23 f24 f25 k) (case_token_kind g0 g1 g2 g3 g4 g5 g6 g7 g8 g9 g10 g11 g12 g13 g14 g15 g16 g17 g18 g19 g20 g21 g22 g23 g24 g25 k) p S"
  using assms by (cases k) simp_all


end
