(* ===== verification/ZyParseEnds.thy ===== *)
theory ZyParseEnds imports ZyParseRuns begin

text \<open>
  The whole parser answers: over two parsers that agree one level below, every operation agrees, and
  takes a token wherever it answers a value the grammar cannot leave empty.  With as many levels as
  tokens a token list is therefore always answered, and more levels change nothing.
\<close>

section \<open>Loops and levels over an operand\<close>

lemma settles_prefixed [settles_rules]:
  assumes operand: "\<And>q. left q \<le> left p \<Longrightarrow> settles m m' q (\<lambda>_ u. left u < left q)"
    and S: "\<And>x q. left q < left p \<Longrightarrow> S x q"
  shows "settles (parse_prefixed m) (parse_prefixed m') p S"
proof -
  have "left q \<le> left p \<Longrightarrow> left q < n \<Longrightarrow> left q < n' \<Longrightarrow> settles (prefixed_at n m) (prefixed_at n' m') q (\<lambda>_ u. left u < left q)"
    for n n' q
  proof (induction n arbitrary: n' q)
    case (Suc n)
    then obtain l where l: "n' = Suc l" by (cases n') simp_all
    have "settles (prefixed_at n m) (prefixed_at l m') u (\<lambda>x v. settles (pret (f x)) (pret (f x)) v (\<lambda>_ u. left u < left q))"
      if "left u < left q" for u f
      using that Suc.prems l by (intro settles_weaken [OF Suc.IH]) (auto intro: settles_pret)
    moreover have "tk_kind t \<noteq> TkEof" if "prefix_op (tk_kind t) = Some op" for t op
      using that by (auto simp: prefix_op_def)
    ultimately show ?case
      using Suc.prems l operand [of q] by (simp, intro settles_rules) auto
  qed simp
  note go = this
  show ?thesis
    unfolding parse_prefixed_def
    by (rule settles_pread, rule settles_weaken [OF go]) (auto simp: left_turns intro: S)
qed

lemma settles_powers [settles_rules]:
  assumes operand: "\<And>q. left q \<le> left p \<Longrightarrow> settles m m' q (\<lambda>_ u. left u < left q)"
    and S: "\<And>x q. left q < left p \<Longrightarrow> S x q"
  shows "settles (powers_of m) (powers_of m') p S"
proof -
  have "left q \<le> left p \<Longrightarrow> left q < n \<Longrightarrow> left q < n' \<Longrightarrow> settles (right_power n m) (right_power n' m') q (\<lambda>_ u. left u < left q)"
    for n n' q
  proof (induction n arbitrary: n' q)
    case (Suc n)
    then obtain l where l: "n' = Suc l" by (cases n') simp_all
    have step: "settles (right_power n m) (right_power l m') u (\<lambda>x v. settles (pret (f x)) (pret (f x)) v (\<lambda>_ u. left u < left q))"
      if "left u < left q" for u f
      using that Suc.prems l by (intro settles_weaken [OF Suc.IH]) (auto intro: settles_pret)
    show ?case
      unfolding l right_power.simps
      by (intro settles_bind settles_weaken [OF operand [OF Suc.prems(1)]] settles_if_next settles_skip settles_pret step) auto
  qed simp
  note go = this
  show ?thesis
    unfolding powers_of_def
    by (rule settles_pread, rule settles_weaken [OF go]) (auto simp: left_turns intro: S)
qed

lemma settles_left_assoc [settles_rules]:
  assumes operand: "\<And>q. left q \<le> left p \<Longrightarrow> settles m m' q (\<lambda>_ u. left u < left q)"
    and S: "\<And>x q. left q < left p \<Longrightarrow> S x q"
  shows "settles (left_assoc level m) (left_assoc level m') p S"
  unfolding left_assoc_def
proof (rule settles_bind, rule settles_weaken [OF operand])
  fix x q
  assume q: "left q < left p"
  show "settles (ploop (\<lambda>l. peeking (\<lambda>t. case level (tk_kind t) of None \<Rightarrow> finish l
          | Some op \<Rightarrow> skip_tok (pbind m (\<lambda>r. again (binary_of op l r))))) x)
        (ploop (\<lambda>l. peeking (\<lambda>t. case level (tk_kind t) of None \<Rightarrow> finish l
          | Some op \<Rightarrow> skip_tok (pbind m' (\<lambda>r. again (binary_of op l r))))) x) q S"
  proof (intro settles_loop settles_peeking settles_option settles_finish turned_finish settles_skip settles_bind)
    fix u v :: parser
    assume "left u \<le> left q" "left v \<le> left u"
    with q show "settles m m' v (\<lambda>r w. settles (again (b r)) (again (b r)) w (turned (\<lambda>_ w. left w < left u) S))" for b
      by (intro settles_weaken [OF operand]) (auto intro!: settles_again turned_again)
  qed (use q S in auto)
qed simp

lemma settles_separated [settles_rules]:
  assumes item: "\<And>q. left q \<le> left p \<Longrightarrow> settles m m' q (\<lambda>_ u. left u < left q)"
    and S: "\<And>x q. left q < left p \<Longrightarrow> S x q"
  shows "settles (separated k m) (separated k m') p S"
  unfolding separated_def
proof (rule settles_bind, rule settles_weaken [OF item])
  fix x q
  assume q: "left q < left p"
  show "settles (ploop (\<lambda>xs. if_next k (skip_tok (pbind m (\<lambda>y. again (xs @ [y])))) (finish xs)) [x])
        (ploop (\<lambda>xs. if_next k (skip_tok (pbind m' (\<lambda>y. again (xs @ [y])))) (finish xs)) [x]) q S"
  proof (intro settles_loop settles_if_next settles_finish turned_finish settles_skip settles_bind)
    fix u v :: parser
    assume "left u \<le> left q" "left v \<le> left u"
    with q show "settles m m' v (\<lambda>r w. settles (again (b r)) (again (b r)) w (turned (\<lambda>_ w. left w < left u) S))" for b
      by (intro settles_weaken [OF item]) (auto intro!: settles_again turned_again)
  qed (use q S in auto)
qed simp

section \<open>Operations that only refuse\<close>

lemma settles_reject_chained [settles_rules]:
  "settles m m' p S \<Longrightarrow> settles (reject_chained_index b m) (reject_chained_index b m') p S"
  unfolding reject_chained_index_def by (rule settles_pread) (simp add: Let_def settles_pfail split: expr.split)

lemma settles_refuse_operandless [settles_rules]:
  "settles m m' p S \<Longrightarrow> settles (refuse_after_operandless op l m) (refuse_after_operandless op l m') p S"
  unfolding refuse_after_operandless_def by (intro settles_rules)

lemma settles_refuse_error_in_list [settles_rules]:
  "settles m m' p S \<Longrightarrow> settles (refuse_error_in_list x m) (refuse_error_in_list x m') p S"
  unfolding refuse_error_in_list_def by (intro settles_rules)

lemma settles_check_alternatives [settles_rules]:
  "settles m m' p S \<Longrightarrow> settles (check_alternatives xs m) (check_alternatives xs m') p S"
  by (induction xs) (auto intro!: settles_refuse_error_in_list settles_pfail split: pattern.split option.split)

lemma settles_refuse_label [settles_rules]:
  "settles m m' p S \<Longrightarrow> settles (refuse_label_after_jump kw l m) (refuse_label_after_jump kw l m') p S"
  unfolding refuse_label_after_jump_def by (intro settles_rules)

lemma settles_touching_bar [settles_rules]:
  "(\<And>q. left q < left p \<Longrightarrow> settles m m' q S) \<Longrightarrow> settles (touching_bar e d m) (touching_bar e d m') p S"
  unfolding touching_bar_def by (intro settles_rules; simp add: peek_kind_def)

lemma settles_format_precision [settles_rules]:
  "(\<And>x q. left q \<le> left p \<Longrightarrow> S x q) \<Longrightarrow>
   settles (parse_format_precision a b e) (parse_format_precision a b e) p S"
  unfolding parse_format_precision_def by (intro settles_rules; simp)

lemma error_mark_here: "error_mark p = Some x \<Longrightarrow> tk_kind (peek p) = THash TkHash"
  by (simp add: error_mark_def peek_kind_def split: if_splits)

lemma settles_error_pattern [settles_rules]:
  "error_mark p = Some x \<Longrightarrow> (\<And>z q. left q < left p \<Longrightarrow> S z q) \<Longrightarrow>
   settles (parse_error_pattern x) (parse_error_pattern x) p S"
  unfolding parse_error_pattern_def by (drule error_mark_here) (intro settles_rules; simp)

lemma settles_finish_int_pattern [settles_rules]:
  "(\<And>z q. left q \<le> left p \<Longrightarrow> S z q) \<Longrightarrow> settles (finish_int_pattern n sp) (finish_int_pattern n sp) p S"
  unfolding finish_int_pattern_def by (intro settles_rules; simp)

lemma settles_type_operation [settles_rules]:
  "tk_kind (peek p) = THash TkHashQuestion \<Longrightarrow> (\<And>x q. left q < left p \<Longrightarrow> S x q) \<Longrightarrow>
   settles (type_operation e) (type_operation e) p S"
  unfolding type_operation_def by (intro settles_rules; simp)

lemma settles_execute [settles_rules]:
  "tk_kind (peek p) \<noteq> TkEof \<Longrightarrow> (\<And>x q. left q < left p \<Longrightarrow> S x q) \<Longrightarrow>
   settles (parse_execute_expr raw sp) (parse_execute_expr raw sp) p S"
  unfolding parse_execute_expr_def by (intro settles_rules; simp)

section \<open>Patterns that take apart, and the parts of statements\<close>

lemma settles_rest_item [settles_rules]:
  "(\<And>x q. left q < left p \<Longrightarrow> S x q) \<Longrightarrow> settles (rest_item is) (rest_item is) p S"
  unfolding rest_item_def by (intro settles_rules; simp)

lemma settles_pattern_group [settles_rules]:
  "tk_kind (peek p) \<noteq> TkEof \<Longrightarrow> (\<And>x q. left q < left p \<Longrightarrow> S x q) \<Longrightarrow> settles parse_pattern_group parse_pattern_group p S"
  unfolding parse_pattern_group_def parse_array_destructure_pattern_def parse_tuple_destructure_pattern_def
    named_pattern_def positional_pattern_def named_item_def
  by (intro settles_rules; simp)

lemma settles_if_apply [settles_rules]:
  "(b \<Longrightarrow> settles (f m) (f' m') p S) \<Longrightarrow> (\<not> b \<Longrightarrow> settles (g m) (g' m') p S) \<Longrightarrow>
   settles ((if b then f else g) m) ((if b then f' else g') m') p S"
  by simp

lemma settles_typespec [settles_rules]:
  "(\<And>x q. left q \<le> left p \<Longrightarrow> S x q) \<Longrightarrow> settles parse_input_typespec parse_input_typespec p S"
  unfolding parse_input_typespec_def parse_two_uint_args_def parse_opt_one_uint_arg_def expect_uint_arg_def expect_rparen_def
  by (intro settles_rules; simp)

lemma settles_prompt [settles_rules]:
  "(\<And>x q. left q \<le> left p \<Longrightarrow> S x q) \<Longrightarrow> settles parse_input_prompt parse_input_prompt p S"
  unfolding parse_input_prompt_def by (intro settles_rules; simp)

lemma settles_input [settles_rules]:
  "(\<And>x q. left q < left p \<Longrightarrow> S x q) \<Longrightarrow> settles parse_input parse_input p S"
  unfolding parse_input_def by (intro settles_rules; simp)

lemma settles_error_type [settles_rules]:
  "(\<And>x q. left q < left p \<Longrightarrow> S x q) \<Longrightarrow> settles parse_error_type parse_error_type p S"
  unfolding parse_error_type_def by (intro settles_rules; simp)

lemma settles_parameters [settles_rules]:
  "(\<And>x q. left q \<le> left p \<Longrightarrow> S x q) \<Longrightarrow> settles parse_parameters parse_parameters p S"
  unfolding parse_parameters_def parse_parameter_def by (intro settles_rules; simp)

lemma settles_if_call [settles_rules]:
  "(\<And>c. settles (f c) (f' c) p S) \<Longrightarrow> settles n n' p S \<Longrightarrow>
   settles (case e of EFunctionCall c \<Rightarrow> f c | _ \<Rightarrow> n) (case e of EFunctionCall c \<Rightarrow> f' c | _ \<Rightarrow> n') p S"
  by (cases e) simp_all

lemma settles_function_in_block [settles_rules]:
  "(\<And>q. left q = left p \<Longrightarrow> peek q = peek p \<Longrightarrow> S () q) \<Longrightarrow> settles (function_in_block c) (function_in_block c) p S"
  unfolding function_in_block_def by (auto intro!: settles_diagnose settles_pret split: statement.split)

lemma settles_misplaced [settles_rules]: "settles (misplaced t sp) (misplaced t sp) p S"
  unfolding misplaced_def by (intro settles_rules)

section \<open>Recovery\<close>

lemma skip_rest_inside:
  "inside_tokens p \<Longrightarrow> inside_tokens (skip_rest n depth l p) \<and> ps_tokens (skip_rest n depth l p) = ps_tokens p
     \<and> left (skip_rest n depth l p) \<le> left p"
proof (induction n arbitrary: depth l p)
  case (Suc n)
  note a = advanced_inside [OF Suc.prems]
  have "inside_tokens (skip_rest n d m (advanced p))" "ps_tokens (skip_rest n d m (advanced p)) = ps_tokens p"
    "left (skip_rest n d m (advanced p)) \<le> left p" for d m
    using Suc.IH [OF a(1), of d m] a(2,4) by simp_all
  with Suc.prems a show ?case by (simp add: Let_def)
qed simp

lemma skip_statement_inside:
  assumes "inside_tokens p"
  shows "inside_tokens (skip_statement s b p)" "ps_tokens (skip_statement s b p) = ps_tokens p"
    "left (skip_statement s b p) \<le> left p" "\<not> at_end p \<Longrightarrow> \<not> s < ps_current p \<Longrightarrow> left (skip_statement s b p) < left p"
proof -
  note a = advanced_inside [OF assms]
  note r = skip_rest_inside [OF a(1)]
  have le: "left (skip_rest n d l (advanced p)) \<le> left p" for n d l
    using r [of n d l] a(2) by linarith
  have lt: "\<not> at_end p \<Longrightarrow> left (skip_rest n d l (advanced p)) < left p" for n d l
    using r [of n d l] a(3) by linarith
  show "inside_tokens (skip_statement s b p)" "ps_tokens (skip_statement s b p) = ps_tokens p"
    "left (skip_statement s b p) \<le> left p" "\<not> at_end p \<Longrightarrow> \<not> s < ps_current p \<Longrightarrow> left (skip_statement s b p) < left p"
    using assms r a le lt by (simp_all add: skip_statement_def Let_def)
qed

lemma skip_braces_inside:
  "inside_tokens p \<Longrightarrow> inside_tokens (skip_braces n depth p) \<and> ps_tokens (skip_braces n depth p) = ps_tokens p
     \<and> left (skip_braces n depth p) \<le> left p"
proof (induction n arbitrary: depth p)
  case (Suc n)
  note a = advanced_inside [OF Suc.prems]
  have "inside_tokens (skip_braces n d (advanced p))" "ps_tokens (skip_braces n d (advanced p)) = ps_tokens p"
    "left (skip_braces n d (advanced p)) \<le> left p" for d
    using Suc.IH [OF a(1), of d] a(2,4) by simp_all
  with Suc.prems a show ?case by (simp add: Let_def)
qed simp

lemma skip_export_block_inside:
  "inside_tokens p \<Longrightarrow> inside_tokens (skip_export_block p) \<and> ps_tokens (skip_export_block p) = ps_tokens p
     \<and> left (skip_export_block p) \<le> left p"
  using advanced_inside [of p] skip_braces_inside [of "advanced p" "turns_left (advanced p)" 0]
  by (auto simp: skip_export_block_def Let_def)

lemma settles_skip_export [settles_rules]:
  "(\<And>q. left q \<le> left p \<Longrightarrow> S () q) \<Longrightarrow> settles (pmod skip_export_block) (pmod skip_export_block) p S"
  by (rule settles_pmod) (simp add: skip_export_block_inside)

section \<open>Imports and exports\<close>

lemma settles_parents_up:
  "left p < n \<Longrightarrow> left p < n' \<Longrightarrow> settles (parents_up n l) (parents_up n' l) p (\<lambda>_ q. left q \<le> left p)"
proof (induction n arbitrary: n' l p)
  case (Suc n)
  then obtain j where j: "n' = Suc j" by (cases n') simp_all
  have step: "settles (parents_up n i) (parents_up j i) q (\<lambda>_ u. left u \<le> left p)" if "left q < left p" for q i
    by (rule settles_weaken [OF Suc.IH]) (use that Suc.prems j in auto)
  show ?case
    unfolding j parents_up.simps by (intro settles_if_next settles_skip settles_demand settles_pret step) auto
qed simp

lemma settles_path_start [settles_rules]:
  "(\<And>x q. left q \<le> left p \<Longrightarrow> S x q) \<Longrightarrow> settles path_start path_start p S"
proof -
  assume S: "\<And>x q. left q \<le> left p \<Longrightarrow> S x q"
  have [settles_rules]: "(\<And>x u. left u \<le> left q \<Longrightarrow> T x u) \<Longrightarrow>
      settles (pread (\<lambda>p. parents_up (turns_left p) l)) (pread (\<lambda>p. parents_up (turns_left p) l)) q T" for q l T
    by (rule settles_pread, rule settles_weaken [OF settles_parents_up]) (simp_all add: left_turns)
  show ?thesis
    unfolding path_start_def using S by (intro settles_rules; simp)
qed

lemma settles_import [settles_rules]:
  "(\<And>x q. left q < left p \<Longrightarrow> S x q) \<Longrightarrow> settles parse_import_statement parse_import_statement p S"
proof -
  assume S: "\<And>x q. left q < left p \<Longrightarrow> S x q"
  have [settles_rules]: "(\<And>x u. left u \<le> left q \<Longrightarrow> T x u) \<Longrightarrow> settles (path_components sp) (path_components sp) q T" for q sp T
    unfolding path_components_def by (intro settles_rules; simp)
  show ?thesis
    unfolding parse_import_statement_def parse_module_path_def using S by (intro settles_rules; simp)
qed

lemma settles_export_item [settles_rules]:
  "(\<And>x q. left q < left p \<Longrightarrow> S x q) \<Longrightarrow> settles parse_export_item parse_export_item p S"
  unfolding parse_export_item_def export_rename_def by (intro settles_rules; simp)

lemma settles_export_block [settles_rules]:
  "(\<And>x q. left q < left p \<Longrightarrow> S x q) \<Longrightarrow> settles parse_export_block parse_export_block p S"
  unfolding parse_export_block_def by (intro settles_rules; simp)

lemma settles_if_const [settles_rules]:
  "(\<And>c. settles (f c) (f' c) p S) \<Longrightarrow> settles n n' p S \<Longrightarrow>
   settles (case e of SConstDecl c \<Rightarrow> f c | _ \<Rightarrow> n) (case e of SConstDecl c \<Rightarrow> f' c | _ \<Rightarrow> n') p S"
  by (cases e) simp_all

lemma settles_if_assignment [settles_rules]:
  "(\<And>c. settles (f c) (f' c) p S) \<Longrightarrow> settles n n' p S \<Longrightarrow>
   settles (case e of SAssignment c \<Rightarrow> f c | _ \<Rightarrow> n) (case e of SAssignment c \<Rightarrow> f' c | _ \<Rightarrow> n') p S"
  by (cases e) simp_all

section \<open>Parsers that agree\<close>

locale twin_parsers =
  fixes k :: nat and E E' :: parse_engine
  assumes twin_expr: "left p \<le> k \<Longrightarrow> settles (g_expr E) (g_expr E') p (\<lambda>_ q. left q < left p)"
    and twin_juxt: "left p \<le> k \<Longrightarrow> settles (g_juxt E) (g_juxt E') p (\<lambda>_ q. left q < left p)"
    and twin_postfix: "left p \<le> k \<Longrightarrow> settles (g_postfix E) (g_postfix E') p (\<lambda>_ q. left q < left p)"
    and twin_structural: "left p \<le> k \<Longrightarrow> settles (g_structural E) (g_structural E') p (\<lambda>_ q. left q < left p)"
    and twin_addition: "left p \<le> k \<Longrightarrow> settles (g_addition E) (g_addition E') p (\<lambda>_ q. left q < left p)"
    and twin_arm: "left p \<le> k \<Longrightarrow> settles (g_arm_value E) (g_arm_value E') p (\<lambda>_ q. left q < left p)"
    and twin_block: "left p \<le> k \<Longrightarrow> settles (g_block E) (g_block E') p (\<lambda>_ q. left q < left p)"
begin

lemma settles_g [settles_rules]:
  "left p \<le> k \<Longrightarrow> (\<And>x q. left q < left p \<Longrightarrow> S x q) \<Longrightarrow> settles (g_expr E) (g_expr E') p S"
  "left p \<le> k \<Longrightarrow> (\<And>x q. left q < left p \<Longrightarrow> S x q) \<Longrightarrow> settles (g_juxt E) (g_juxt E') p S"
  "left p \<le> k \<Longrightarrow> (\<And>x q. left q < left p \<Longrightarrow> S x q) \<Longrightarrow> settles (g_postfix E) (g_postfix E') p S"
  "left p \<le> k \<Longrightarrow> (\<And>x q. left q < left p \<Longrightarrow> S x q) \<Longrightarrow> settles (g_structural E) (g_structural E') p S"
  "left p \<le> k \<Longrightarrow> (\<And>x q. left q < left p \<Longrightarrow> S x q) \<Longrightarrow> settles (g_addition E) (g_addition E') p S"
  "left p \<le> k \<Longrightarrow> (\<And>x q. left q < left p \<Longrightarrow> S x q) \<Longrightarrow> settles (g_arm_value E) (g_arm_value E') p S"
  "left p \<le> k \<Longrightarrow> (\<And>x q. left q < left p \<Longrightarrow> B x q) \<Longrightarrow> settles (g_block E) (g_block E') p B"
  by (rule settles_weaken, rule twin_expr twin_juxt twin_postfix twin_structural twin_addition twin_arm twin_block, assumption, blast)+

subsection \<open>Functions without a name and navigation\<close>

lemma settles_lambda [settles_rules]:
  "left p \<le> Suc k \<Longrightarrow> (\<And>x q. left q < left p \<Longrightarrow> S x q) \<Longrightarrow> settles (parse_lambda E) (parse_lambda E') p S"
  unfolding parse_lambda_def lambda_head_def lambda_param_list_def by (intro settles_rules; simp)

lemma settles_lambda_or_ident [settles_rules]:
  "left p \<le> Suc k \<Longrightarrow> (\<And>x q. left q < left p \<Longrightarrow> S x q) \<Longrightarrow> settles (parse_lambda_or_ident E) (parse_lambda_or_ident E') p S"
  unfolding parse_lambda_or_ident_def by (intro settles_rules; simp add: peek_kind_def)

lemma settles_nav_atom [settles_rules]:
  "left p \<le> Suc k \<Longrightarrow> (\<And>x q. left q < left p \<Longrightarrow> S x q) \<Longrightarrow> settles (parse_nav_atom E) (parse_nav_atom E') p S"
  unfolding parse_nav_atom_def by (intro settles_rules; simp)

lemma settles_nav_path [settles_rules]:
  "left p \<le> Suc k \<Longrightarrow> (\<And>x q. left q < left p \<Longrightarrow> S x q) \<Longrightarrow> settles (parse_nav_path E) (parse_nav_path E') p S"
  unfolding parse_nav_path_def parse_nav_step_def by (intro settles_rules; simp)

lemma settles_nav_index [settles_rules]:
  "left p \<le> Suc k \<Longrightarrow> (\<And>x q. left q < left p \<Longrightarrow> S x q) \<Longrightarrow> settles (parse_nav_index E e) (parse_nav_index E' e) p S"
  unfolding parse_nav_index_def parse_double_bracket_extract_def parse_single_bracket_nav_def parse_extract_group_def
  by (intro settles_rules; simp)

subsection \<open>Operators behind an expression\<close>

lemma settles_slice_bound [settles_rules]:
  "left p \<le> k \<Longrightarrow> (\<And>x q. left q < left p \<Longrightarrow> S x q) \<Longrightarrow> settles (parse_slice_bound E) (parse_slice_bound E') p S"
  unfolding parse_slice_bound_def by (intro settles_rules; simp)

lemma settles_bound_unless_closed [settles_rules]:
  "left p \<le> k \<Longrightarrow> (\<And>x q. left q \<le> left p \<Longrightarrow> S x q) \<Longrightarrow> settles (bound_unless_closed E) (bound_unless_closed E') p S"
  unfolding bound_unless_closed_def by (intro settles_rules; simp)

lemmas collection_parsers =
  parse_collection_length_def parse_collection_append_def parse_collection_insert_def parse_collection_remove_def
  parse_collection_remove_positional_def parse_collection_contains_def parse_string_find_positions_def
  parse_string_insert_def parse_collection_remove_all_def parse_string_replace_def parse_string_split_def
  parse_string_repeat_def parse_collection_update_def parse_collection_slice_def parse_collection_map_def
  parse_collection_filter_def parse_collection_reduce_def parse_collection_sort_def parse_collection_sort_custom_def

lemma settles_dollar [settles_rules]:
  "tk_kind (peek p) = TDollar op \<Longrightarrow> left p \<le> Suc k \<Longrightarrow> (\<And>x q. left q < left p \<Longrightarrow> S x q) \<Longrightarrow>
   settles (dollar_operation E op e) (dollar_operation E' op e) p S"
  unfolding dollar_operation_def collection_parsers
  by (intro settles_rules; simp add: settles_pret settles_refuse_operandless)

subsection \<open>Literals of collections, patterns and matches\<close>

lemma settles_array_literal [settles_rules]:
  "tk_kind (peek p) \<noteq> TkEof \<Longrightarrow> left p \<le> Suc k \<Longrightarrow> (\<And>x q. left q < left p \<Longrightarrow> S x q) \<Longrightarrow>
   settles (parse_array_literal E) (parse_array_literal E') p S"
  unfolding parse_array_literal_def by (intro settles_rules; simp)

lemma settles_mixed_array_literal [settles_rules]:
  assumes "tk_kind (peek p) \<noteq> TkEof" "left p \<le> Suc k" and S: "\<And>x q. left q < left p \<Longrightarrow> S x q"
  shows "settles (parse_mixed_array_literal E) (parse_mixed_array_literal E') p S"
proof -
  have "settles (parse_array_literal E) (parse_array_literal E') q T" if "left q < left p" "\<And>x u. left u < left p \<Longrightarrow> T x u" for q T
    using that assms(1,2) unfolding parse_array_literal_def by (intro settles_rules; simp)
  note elements = this
  show ?thesis
    unfolding parse_mixed_array_literal_def
    by (rule settles_bind, rule settles_next, rule settles_bind, rule elements) (use assms(1) in \<open>auto intro!: settles_pret S\<close>)
qed

lemma settles_dict_literal [settles_rules]:
  "tk_kind (peek p) \<noteq> TkEof \<Longrightarrow> left p \<le> Suc k \<Longrightarrow> (\<And>x q. left q < left p \<Longrightarrow> S x q) \<Longrightarrow>
   settles (parse_dict_literal E) (parse_dict_literal E') p S"
  unfolding parse_dict_literal_def dict_fields_def dict_key_def by (intro settles_rules; simp)

lemma settles_tuple_or_grouped [settles_rules]:
  "tk_kind (peek p) \<noteq> TkEof \<Longrightarrow> left p \<le> Suc k \<Longrightarrow> (\<And>x q. left q < left p \<Longrightarrow> S x q) \<Longrightarrow>
   settles (parse_tuple_or_grouped E) (parse_tuple_or_grouped E') p S"
  unfolding parse_tuple_or_grouped_def by (intro settles_rules; simp)

lemma settles_simple_pattern:
  assumes element: "\<And>q. left q < left p \<Longrightarrow> settles m m' q (\<lambda>_ u. left u < left q)"
    and p: "left p \<le> Suc k" and S: "\<And>x q. left q < left p \<Longrightarrow> S x q"
  shows "settles (simple_pattern E m) (simple_pattern E' m') p S"
proof -
  have [settles_rules]: "left q < left p \<Longrightarrow> (\<And>x u. left u < left q \<Longrightarrow> T x u) \<Longrightarrow> settles m m' q T" for q T
    by (rule settles_weaken [OF element])
  show ?thesis
    using p S unfolding simple_pattern_def by (intro settles_rules; simp add: comparison_op_def)
qed

lemma pattern_at_answers:
  "left p \<le> Suc k \<Longrightarrow> left p < n \<Longrightarrow> left p < n' \<Longrightarrow>
   settles (pattern_at n E) (pattern_at n' E') p (\<lambda>_ q. left q < left p)"
proof (induction n arbitrary: n' p)
  case (Suc n)
  then obtain l where "n' = Suc l" by (cases n') simp_all
  with Suc show ?case by (auto intro!: settles_simple_pattern)
qed simp

lemma settles_pattern_primary [settles_rules]:
  "left p \<le> Suc k \<Longrightarrow> (\<And>x q. left q < left p \<Longrightarrow> S x q) \<Longrightarrow>
   settles (parse_pattern_primary E) (parse_pattern_primary E') p S"
  unfolding parse_pattern_primary_def
  by (rule settles_pread, rule settles_weaken [OF pattern_at_answers]) (auto simp: left_turns)

lemma settles_pattern [settles_rules]:
  "left p \<le> Suc k \<Longrightarrow> (\<And>x q. left q < left p \<Longrightarrow> S x q) \<Longrightarrow> settles (parse_pattern E) (parse_pattern E') p S"
  unfolding parse_pattern_def by (intro settles_rules; simp)

lemma settles_match [settles_rules]:
  "tk_kind (peek p) \<noteq> TkEof \<Longrightarrow> left p \<le> Suc k \<Longrightarrow> (\<And>x q. left q < left p \<Longrightarrow> S x q) \<Longrightarrow>
   settles (parse_match_expr_inner E) (parse_match_expr_inner E') p S"
  unfolding parse_match_expr_inner_def parse_match_case_def by (intro settles_rules; simp)

subsection \<open>Calls and primary expressions\<close>

lemma settles_call_list [settles_rules]:
  assumes argument: "\<And>q. left q \<le> left p \<Longrightarrow> settles m m' q (\<lambda>_ u. left u < left q)"
    and S: "\<And>x q. left q \<le> left p \<Longrightarrow> S x q"
  shows "settles (call_list m) (call_list m') p S"
proof -
  have [settles_rules]: "left q \<le> left p \<Longrightarrow> (\<And>x u. left u < left q \<Longrightarrow> T x u) \<Longrightarrow> settles m m' q T" for q T
    by (rule settles_weaken [OF argument])
  show ?thesis
    using S unfolding call_list_def by (intro settles_rules; simp)
qed

lemma settles_call [settles_rules]:
  assumes "tk_kind (peek p) \<noteq> TkEof"
    and argument: "\<And>q. left q < left p \<Longrightarrow> settles m m' q (\<lambda>_ u. left u < left q)"
    and S: "\<And>x q. left q < left p \<Longrightarrow> S x q"
  shows "settles (parse_call m d e sp) (parse_call m' d e sp) p S"
  unfolding parse_call_def using assms by (intro settles_rules; simp)

lemma settles_name [settles_rules]:
  "tk_kind (peek p) \<noteq> TkEof \<Longrightarrow> left p \<le> Suc k \<Longrightarrow> (\<And>x q. left q < left p \<Longrightarrow> S x q) \<Longrightarrow>
   settles (parse_name E x sp) (parse_name E' x sp) p S"
  unfolding parse_name_def parse_module_call_def by (intro settles_rules; simp)

lemma settles_cast [settles_rules]:
  "tk_kind (peek p) \<noteq> TkEof \<Longrightarrow> left p \<le> Suc k \<Longrightarrow> (\<And>x q. left q < left p \<Longrightarrow> S x q) \<Longrightarrow>
   settles (parse_cast E c sp) (parse_cast E' c sp) p S"
  unfolding parse_cast_def by (intro settles_rules; simp)

lemma settles_hash_expression [settles_rules]:
  "tk_kind (peek p) \<noteq> TkEof \<Longrightarrow> left p \<le> Suc k \<Longrightarrow> (\<And>x q. left q < left p \<Longrightarrow> S x q) \<Longrightarrow>
   settles (hash_expression E h sp) (hash_expression E' h sp) p S"
  unfolding hash_expression_def parse_error_construct_def parse_numeric_eval_def
    parse_round_expr_def parse_trunc_expr_def parse_format_expr_def
  by (intro settles_rules; simp add: peek_kind_def)

lemma settles_mark_expression [settles_rules]:
  "tk_kind (peek p) \<noteq> TkEof \<Longrightarrow> left p \<le> Suc k \<Longrightarrow> (\<And>x q. left q < left p \<Longrightarrow> S x q) \<Longrightarrow>
   settles (mark_expression E m sp) (mark_expression E' m sp) p S"
  unfolding mark_expression_def parse_base_conversion_def by (intro settles_rules; simp)

lemma settles_primary [settles_rules]:
  "left p \<le> Suc k \<Longrightarrow> (\<And>x q. left q < left p \<Longrightarrow> S x q) \<Longrightarrow> settles (parse_primary_expr E) (parse_primary_expr E') p S"
  unfolding parse_primary_expr_def parse_bash_exec_expr_def by (intro settles_rules; simp)

subsection \<open>Levels\<close>

lemma settles_index_operation [settles_rules]:
  "tk_kind (peek p) = TMark TkLBracket \<Longrightarrow> left p \<le> Suc k \<Longrightarrow> (\<And>x q. left q < left p \<Longrightarrow> S x q) \<Longrightarrow>
   settles (index_operation E d e) (index_operation E' d e) p S"
  unfolding index_operation_def by (intro settles_rules; simp)

lemma settles_member_operation [settles_rules]:
  "tk_kind (peek p) = TMark TkDot \<Longrightarrow> (\<And>x q. left q < left p \<Longrightarrow> S x q) \<Longrightarrow>
   settles (member_operation d e) (member_operation d e) p S"
  unfolding member_operation_def by (intro settles_rules; simp)

lemma settles_structural [settles_rules]:
  "left p \<le> Suc k \<Longrightarrow> (\<And>x q. left q < left p \<Longrightarrow> S x q) \<Longrightarrow>
   settles (parse_postfix_structural E) (parse_postfix_structural E') p S"
  unfolding parse_postfix_structural_def parse_structural_ops_def structural_turn_def by (intro settles_rules; simp)

lemma settles_callee_operand [settles_rules]:
  "left p \<le> Suc k \<Longrightarrow> (\<And>x q. left q < left p \<Longrightarrow> S x q) \<Longrightarrow> settles (callee_operand E) (callee_operand E') p S"
  unfolding callee_operand_def by (intro settles_rules; simp)

lemma settles_without_calls [settles_rules]:
  "left p \<le> Suc k \<Longrightarrow> (\<And>x q. left q < left p \<Longrightarrow> S x q) \<Longrightarrow>
   settles (parse_postfix_without_calls E) (parse_postfix_without_calls E') p S"
  unfolding parse_postfix_without_calls_def callee_turn_def by (intro settles_rules; simp)

text \<open>A turn of the postfixes: where neither loop takes a token, no call can follow, since the first would have taken it.\<close>

lemma settles_accesses:
  assumes "left p \<le> Suc k"
    "\<And>x q. left q \<le> left p \<Longrightarrow>
       (tk_kind (peek q) = TMark TkLParen \<longrightarrow> is_literal_group x \<or> \<not> on_end_line (peek q) x) \<Longrightarrow> S x q"
  shows "settles (ploop (access_turn E) e) (ploop (access_turn E') e) p S"
  unfolding access_turn_def by (insert assms(1), intro settles_rules; (rule assms(2))?; simp)

lemma settles_operators:
  assumes "left p \<le> Suc k" "S e p" "\<And>x q. left q < left p \<Longrightarrow> S x q"
  shows "settles (ploop (operator_turn E) e) (ploop (operator_turn E') e) p S"
proof (rule settles_loop_invariant [where I = "\<lambda>x q. left q < left p \<or> x = e \<and> q = p"])
  fix y q
  assume q: "left q < left p \<or> y = e \<and> q = p" "left q \<le> left p"
  have "S y q" using assms q by blast
  with q assms show "settles (operator_turn E y) (operator_turn E' y) q
      (turned (\<lambda>z u. left u < left q \<and> (left u < left p \<or> z = e \<and> u = p)) S)"
    unfolding operator_turn_def by (intro settles_rules) auto
qed simp

lemma settles_postfix_ops [settles_rules]:
  assumes "left p \<le> Suc k" and S: "\<And>x q. left q \<le> left p \<Longrightarrow> S x q"
  shows "settles (parse_postfix_ops E e) (parse_postfix_ops E' e) p S"
  unfolding parse_postfix_ops_def
proof (rule settles_loop)
  fix y q
  assume q: "left q \<le> left p"
  show "settles
      (pbind (ploop (access_turn E) y) (\<lambda>e. pbind (ploop (operator_turn E) e) (\<lambda>e. peeking (\<lambda>t.
         if tk_kind t = TMark TkLParen \<and> on_end_line t e \<and> \<not> is_literal_group e then again e else finish e))))
      (pbind (ploop (access_turn E') y) (\<lambda>e. pbind (ploop (operator_turn E') e) (\<lambda>e. peeking (\<lambda>t.
         if tk_kind t = TMark TkLParen \<and> on_end_line t e \<and> \<not> is_literal_group e then again e else finish e))))
      q (turned (\<lambda>_ u. left u < left q) S)"
    using q assms(1)
    by (intro settles_bind settles_accesses settles_operators settles_peeking settles_if settles_again settles_finish
          turned_again turned_finish) (auto intro: S)
qed

lemma settles_postfix [settles_rules]:
  "left p \<le> Suc k \<Longrightarrow> (\<And>x q. left q < left p \<Longrightarrow> S x q) \<Longrightarrow> settles (parse_postfix E) (parse_postfix E') p S"
  unfolding parse_postfix_def parse_unary_def by (intro settles_rules; simp)

lemma settles_range [settles_rules]:
  "left p \<le> Suc k \<Longrightarrow> (\<And>x q. left q < left p \<Longrightarrow> S x q) \<Longrightarrow> settles (parse_range E) (parse_range E') p S"
  unfolding parse_range_def by (intro settles_rules; simp)

lemma settles_addition [settles_rules]:
  "left p \<le> Suc k \<Longrightarrow> (\<And>x q. left q < left p \<Longrightarrow> S x q) \<Longrightarrow> settles (parse_addition E) (parse_addition E') p S"
  unfolding parse_addition_def parse_multiplication_def parse_power_def by (intro settles_rules; simp)

lemma settles_logic_or [settles_rules]:
  "left p \<le> Suc k \<Longrightarrow> (\<And>x q. left q < left p \<Longrightarrow> S x q) \<Longrightarrow> settles (parse_logic_or E) (parse_logic_or E') p S"
  unfolding parse_logic_or_def parse_logic_and_def parse_comparison_def by (intro settles_rules; simp)

lemma settles_no_comparison [settles_rules]:
  "left p \<le> Suc k \<Longrightarrow> (\<And>x q. left q < left p \<Longrightarrow> S x q) \<Longrightarrow>
   settles (parse_logic_or_no_comparison E) (parse_logic_or_no_comparison E') p S"
  unfolding parse_logic_or_no_comparison_def parse_logic_and_no_comparison_def by (intro settles_rules; simp)

lemma settles_expr [settles_rules]:
  "left p \<le> Suc k \<Longrightarrow> (\<And>x q. left q < left p \<Longrightarrow> S x q) \<Longrightarrow> settles (parse_expr E) (parse_expr E') p S"
  unfolding parse_expr_def parse_pipe_def pipe_turn_def pipe_args_def by (intro settles_rules; simp)

lemma settles_arm_value [settles_rules]:
  "left p \<le> Suc k \<Longrightarrow> (\<And>x q. left q < left p \<Longrightarrow> S x q) \<Longrightarrow>
   settles (parse_match_arm_value E) (parse_match_arm_value E') p S"
  unfolding parse_match_arm_value_def pipe_turn_def pipe_args_def by (intro settles_rules; simp)

lemma settles_chain [settles_rules]:
  "left p \<le> Suc k \<Longrightarrow> (\<And>x q. left q \<le> left p \<Longrightarrow> S x q) \<Longrightarrow>
   settles (parse_juxtapose_chain_inner E b e) (parse_juxtapose_chain_inner E' b e) p S"
  unfolding parse_juxtapose_chain_inner_def by (intro settles_rules; simp)

lemma settles_juxtaposition [settles_rules]:
  "left p \<le> Suc k \<Longrightarrow> (\<And>x q. left q < left p \<Longrightarrow> S x q) \<Longrightarrow> settles (parse_expr_juxt E) (parse_expr_juxt E') p S"
  unfolding parse_expr_juxt_def by (intro settles_rules; simp)

lemma settles_output_item [settles_rules]:
  "left p \<le> Suc k \<Longrightarrow> (\<And>x q. left q < left p \<Longrightarrow> S x q) \<Longrightarrow> settles (parse_output_item E) (parse_output_item E') p S"
  unfolding parse_output_item_def parse_output_item_mul_def parse_output_item_term_def parse_output_item_postfix_def
    output_postfix_turn_def
  by (intro settles_rules; simp)

subsection \<open>Statements\<close>

lemma settles_assignment [settles_rules]:
  "left p \<le> Suc k \<Longrightarrow> (\<And>x q. left q < left p \<Longrightarrow> S x q) \<Longrightarrow> settles (parse_assignment E) (parse_assignment E') p S"
  unfolding parse_assignment_def refuse_indexed_assignment_def parse_juxtapose_chain_def by (intro settles_rules; simp)

lemma settles_const_decl [settles_rules]:
  "left p \<le> Suc k \<Longrightarrow> (\<And>x q. left q < left p \<Longrightarrow> S x q) \<Longrightarrow> settles (parse_const_decl E) (parse_const_decl E') p S"
  unfolding parse_const_decl_def parse_juxtapose_chain_def by (intro settles_rules; simp)

lemma settles_destructure [settles_rules]:
  "left p \<le> Suc k \<Longrightarrow> (\<And>x q. left q < left p \<Longrightarrow> S x q) \<Longrightarrow>
   tk_kind (peek p) \<noteq> TkEof \<Longrightarrow> settles (parse_destructure_assign E) (parse_destructure_assign E') p S"
  unfolding parse_destructure_assign_def by (intro settles_rules; simp)

lemma settles_edit_statement [settles_rules]:
  assumes "left p \<le> Suc k" and S: "\<And>x q. left q < left p \<Longrightarrow> S x q"
  shows "settles (parse_expr_or_edit_statement E) (parse_expr_or_edit_statement E') p S"
  unfolding parse_expr_or_edit_statement_def
  by (rule settles_bind, rule settles_expr [OF assms(1)])
     (auto simp: Let_def intro!: settles_pret settles_pfail S split: edit_anchor.split)

lemma settles_call_statement [settles_rules]:
  "left p \<le> Suc k \<Longrightarrow> (\<And>x q. left q < left p \<Longrightarrow> S x q) \<Longrightarrow>
   settles (parse_function_call_statement E) (parse_function_call_statement E') p S"
  unfolding parse_function_call_statement_def by (intro settles_rules; simp)

lemma settles_function_decl [settles_rules]:
  "left p \<le> Suc k \<Longrightarrow> (\<And>x q. left q < left p \<Longrightarrow> S x q) \<Longrightarrow> settles (parse_function_decl E) (parse_function_decl E') p S"
  unfolding parse_function_decl_def by (intro settles_rules; simp)

lemma settles_return [settles_rules]:
  "tk_kind (peek p) \<noteq> TkEof \<Longrightarrow> left p \<le> Suc k \<Longrightarrow> (\<And>x q. left q < left p \<Longrightarrow> S x q) \<Longrightarrow>
   settles (parse_return E) (parse_return E') p S"
  unfolding parse_return_def parse_juxtapose_chain_def by (intro settles_rules; simp)

lemma settles_if_statement [settles_rules]:
  "left p \<le> Suc k \<Longrightarrow> (\<And>x q. left q < left p \<Longrightarrow> S x q) \<Longrightarrow> settles (parse_if E) (parse_if E') p S"
  unfolding parse_if_def else_if_branch_def by (intro settles_rules; simp)

lemma settles_loop_statement [settles_rules]:
  "tk_kind (peek p) \<noteq> TkEof \<Longrightarrow> left p \<le> Suc k \<Longrightarrow> (\<And>x q. left q < left p \<Longrightarrow> S x q) \<Longrightarrow>
   settles (parse_loop E) (parse_loop E') p S"
  unfolding parse_loop_def by (intro settles_rules; auto simp: peek_kind_def)

lemma settles_try [settles_rules]:
  "left p \<le> Suc k \<Longrightarrow> (\<And>x q. left q < left p \<Longrightarrow> S x q) \<Longrightarrow> settles (parse_try_statement E) (parse_try_statement E') p S"
  unfolding parse_try_statement_def parse_catch_clause_def parse_finally_clause_def by (intro settles_rules; simp)

lemma settles_output [settles_rules]:
  "tk_kind (peek p) \<noteq> TkEof \<Longrightarrow> left p \<le> Suc k \<Longrightarrow> (\<And>x q. left q < left p \<Longrightarrow> S x q) \<Longrightarrow>
   settles (parse_output E) (parse_output E') p S"
  unfolding parse_output_def output_turn_def by (intro settles_rules; simp)

lemma settles_output_pos [settles_rules]:
  "left p \<le> Suc k \<Longrightarrow> (\<And>x q. left q < left p \<Longrightarrow> S x q) \<Longrightarrow> settles (parse_output_pos E) (parse_output_pos E') p S"
  unfolding parse_output_pos_def parse_sparse_pos_tuple_def parse_output_items_same_line_def slots_checked_def
  by (intro settles_rules; simp)

lemma settles_io [settles_rules]:
  "tk_kind (peek p) \<noteq> TkEof \<Longrightarrow> left p \<le> Suc k \<Longrightarrow> (\<And>x q. left q < left p \<Longrightarrow> S x q) \<Longrightarrow>
   settles (io_statement E i sp) (io_statement E' i sp) p S"
  unfolding io_statement_def parse_clear_screen_def parse_tui_block_def parse_key_input_def parse_cli_args_capture_def
    parse_newline_def parse_lifetime_end_def
  by (intro settles_rules; simp)

lemma settles_flow [settles_rules]:
  "tk_kind (peek p) \<noteq> TkEof \<Longrightarrow> left p \<le> Suc k \<Longrightarrow> (\<And>x q. left q < left p \<Longrightarrow> S x q) \<Longrightarrow>
   settles (flow_statement E i sp) (flow_statement E' i sp) p S"
  unfolding flow_statement_def parse_sleep_def parse_break_def parse_continue_def by (intro settles_rules; simp)

lemma settles_name_statement [settles_rules]:
  "left p \<le> Suc k \<Longrightarrow> (\<And>x q. left q < left p \<Longrightarrow> S x q) \<Longrightarrow> settles (name_statement E) (name_statement E') p S"
  unfolding name_statement_def by (intro settles_rules; simp)

lemma settles_statement [settles_rules]:
  "left p \<le> Suc k \<Longrightarrow> (\<And>x q. left q < left p \<Longrightarrow> S x q) \<Longrightarrow> settles (parse_statement E) (parse_statement E') p S"
  unfolding parse_statement_def group_statement_def parse_break_def parse_continue_def by (intro settles_rules; simp)

subsection \<open>Blocks\<close>

text \<open>
  Where a statement is refused, the recovery takes a token: the refusal came either after a token was
  taken, or at a token that is not the end.
\<close>

lemma settles_recovery:
  assumes p: "tk_kind (peek p) \<noteq> TkEof" and q: "inside_tokens p" "inside_tokens q" "ps_tokens q = ps_tokens p" "left q \<le> left p"
    and S: "\<And>u. left u < left p \<Longrightarrow> S () u"
  shows "settles (pmod (skip_statement (ps_current p) b)) (pmod (skip_statement (ps_current p) b)) q S"
proof (rule settles_pmod)
  note i = skip_statement_inside [OF q(2), of "ps_current p" b]
  have "left (skip_statement (ps_current p) b q) < left p"
  proof (cases "left q < left p")
    case True
    with i(3) show ?thesis by simp
  next
    case False
    then have "ps_current q = ps_current p" using q by (simp add: left_def inside_tokens_def)
    then have "peek q = peek p" using q(3) by (simp add: peek_def)
    with p i(4) \<open>ps_current q = ps_current p\<close> q(4) show ?thesis by (simp add: at_end_def peek_kind_def)
  qed
  with i S show "inside_tokens (skip_statement (ps_current p) b q) \<and> ps_tokens (skip_statement (ps_current p) b q) = ps_tokens q
      \<and> left (skip_statement (ps_current p) b q) \<le> left q \<and> S () (skip_statement (ps_current p) b q)"
    by simp
qed

lemma settles_refused_statement:
  assumes "tk_kind (peek p) \<noteq> TkEof" "inside_tokens p" "inside_tokens q" "ps_tokens q = ps_tokens p" "left q \<le> left p"
    and "\<And>u. left u < left p \<Longrightarrow> S () u"
  shows "settles (diagnose d) (diagnose d) q (\<lambda>_ v. settles (pmod (skip_statement (ps_current p) b))
           (pmod (skip_statement (ps_current p) b)) v S)"
  by (rule settles_diagnose, rule settles_recovery) (use assms in auto)

lemma settles_statement_turn [settles_rules]:
  assumes p: "tk_kind (peek p) \<noteq> TkEof" "left p \<le> Suc k"
    and S: "\<And>x q. left q < left p \<Longrightarrow> S (Inl x) q"
  shows "settles (statement_turn E b cs) (statement_turn E' b cs) p S"
  unfolding statement_turn_def
proof (rule settles_pread, rule settles_catch)
  show "settles (parse_statement E) (parse_statement E') p (\<lambda>c q. settles
      (pbind (if b then function_in_block c else pret ()) (\<lambda>_.
        if_next (TMark TkSemicolon) (skip_tok (again (cs @ [c]))) (again (cs @ [c]))))
      (pbind (if b then function_in_block c else pret ()) (\<lambda>_.
        if_next (TMark TkSemicolon) (skip_tok (again (cs @ [c]))) (again (cs @ [c])))) q S)"
    using p(2) S by (intro settles_rules; simp)
next
  fix d q
  assume "inside_tokens p" "inside_tokens q" "ps_tokens q = ps_tokens p" "left q \<le> left p"
  with p(1) S show "settles
      (pbind (diagnose d) (\<lambda>_. pbind (pmod (skip_statement (ps_current p) b)) (\<lambda>_. again cs)))
      (pbind (diagnose d) (\<lambda>_. pbind (pmod (skip_statement (ps_current p) b)) (\<lambda>_. again cs))) q S"
    by (intro settles_bind settles_weaken [OF settles_refused_statement [where S = "\<lambda>_ u. left u < left p"]])
       (auto intro!: settles_bind settles_again intro: settles_weaken)
qed

lemma settles_block:
  "left p \<le> Suc k \<Longrightarrow> settles (parse_block E) (parse_block E') p (\<lambda>_ q. left q < left p)"
  unfolding parse_block_def block_statements_def by (intro settles_rules; simp add: at_end_def peek_kind_def)

lemma next_level: "twin_parsers (Suc k) (parser_over E) (parser_over E')"
  by unfold_locales
     (simp_all add: parser_over_def settles_block settles_expr settles_juxtaposition settles_postfix settles_structural
       settles_addition settles_arm_value)

subsection \<open>Modules and programs\<close>

lemma settles_module_member [settles_rules]:
  "left p \<le> Suc k \<Longrightarrow> (\<And>x q. left q < left p \<Longrightarrow> S x q) \<Longrightarrow> settles (module_member E) (module_member E') p S"
  unfolding module_member_def module_const_def module_variable_def by (intro settles_rules; simp)

lemma settles_module [settles_rules]:
  "left p \<le> Suc k \<Longrightarrow> (\<And>x q. left q < left p \<Longrightarrow> S x q) \<Longrightarrow> settles (parse_module_block E) (parse_module_block E') p S"
  unfolding parse_module_block_def module_turn_def by (intro settles_rules; simp)

lemma settles_imports [settles_rules]:
  assumes S: "\<And>x q. left q \<le> left p \<Longrightarrow> S x q"
  shows "settles (ploop import_turn is) (ploop import_turn is) p S"
proof (rule settles_loop)
  fix y q
  assume q: "left q \<le> left p"
  show "settles (import_turn y) (import_turn y) q (turned (\<lambda>_ u. left u < left q) S)"
    unfolding import_turn_def
  proof (intro settles_pread settles_if settles_catch settles_finish turned_finish settles_import settles_again turned_again)
    fix d v
    assume "inside_tokens q" "\<not> peek_kind q \<noteq> TOperator TkModuleImport" "inside_tokens v" "ps_tokens v = ps_tokens q"
      "left v \<le> left q"
    then show "settles (pbind (diagnose d) (\<lambda>_. pbind (pmod (skip_statement (ps_current q) False)) (\<lambda>_. again y)))
        (pbind (diagnose d) (\<lambda>_. pbind (pmod (skip_statement (ps_current q) False)) (\<lambda>_. again y))) v
        (turned (\<lambda>_ u. left u < left q) S)"
      by (intro settles_bind settles_weaken [OF settles_refused_statement [where S = "\<lambda>_ u. left u < left q" and p = q]])
         (auto simp: peek_kind_def intro!: settles_bind settles_again turned_again intro: settles_weaken)
  qed (use q S in auto)
qed

lemma settles_file:
  "left p \<le> Suc k \<Longrightarrow> settles (parse_file E) (parse_file E') p (\<lambda>_ _. True)"
  unfolding parse_file_def module_file_def script_file_def by (intro settles_rules; simp add: at_end_def peek_kind_def)

end

section \<open>Levels\<close>

lemma settles_nothing_left: "left p = 0 \<Longrightarrow> settles m m' p S"
  using left_pos [of p] by (auto simp: settles_def)

lemma twin_levels: "twin_parsers n (parse_level n) (parse_level (n + d))"
proof (induction n)
  case 0
  show ?case by unfold_locales (simp_all add: settles_nothing_left)
next
  case (Suc n)
  from twin_parsers.next_level [OF this] show ?case by simp
qed

interpretation levels: twin_parsers n "parse_level n" "parse_level (n + d)" for n d
  by (rule twin_levels)

lemma parse_answers:
  assumes "ts \<noteq> []" "tk_kind (last ts) = TkEof" "length ts \<le> n"
  shows "parse_with n ts \<noteq> None" "parse_with (n + d) ts = parse_with n ts"
proof -
  have "inside_tokens (new_parser ts)" "left (new_parser ts) \<le> Suc n"
    using assms by (simp_all add: inside_tokens_def new_parser_def left_def)
  with levels.settles_file [of "new_parser ts" n d] obtain r q where
    "parse_file (parse_level n) (new_parser ts) = Some (r, q)" "parse_file (parse_level (n + d)) (new_parser ts) = Some (r, q)"
    unfolding settles_def by blast
  then show "parse_with n ts \<noteq> None" "parse_with (n + d) ts = parse_with n ts"
    by (auto simp: parse_with_def split: sum.split)
qed

end
