(* ===== verification/ZyParseReads.thy ===== *)
theory ZyParseReads imports ZyParseRuns begin

text \<open>
  Expressions as they are written and as they are read: a small grammar of operands, prefixes, binary
  operators and groups, the tokens that write its expressions, and the proof that each level of the
  parser (crates/zymbol-parser/src/lib.rs and expressions.rs) reads from these tokens the expression
  that was written, with the precedence and the associativity the levels give.
\<close>

section \<open>The expressions and their tokens\<close>

datatype form =
    FNumber int | FText ustring | FTruth bool | FName ustring | FGroup form
  | FPrefix unary_op form | FBinary binary_op form form | FOther

text \<open>An expression of the parser without its places.\<close>

fun shown :: "expr \<Rightarrow> form" where
  "shown (ELiteral (LiteralExpr l _)) =
     (case l of LInt n \<Rightarrow> FNumber n | LString s \<Rightarrow> FText s | LBool b \<Rightarrow> FTruth b | _ \<Rightarrow> FOther)"
| "shown (EIdentifier (IdentifierExpr x _ hot pre)) = (if hot \<or> pre then FOther else FName x)"
| "shown (EGroup (GroupExpr e _)) = FGroup (shown e)"
| "shown (EUnary (UnaryExpr op e _)) = FPrefix op (shown e)"
| "shown (EBinary (BinaryExpr op a b _)) = FBinary op (shown a) (shown b)"
| "shown _ = FOther"

fun prefix_token :: "unary_op \<Rightarrow> operator_token" where
  "prefix_token OpNeg = TkMinus" | "prefix_token OpNot = TkNot" | "prefix_token OpPos = TkPlus"

fun infix_token :: "binary_op \<Rightarrow> operator_token option" where
  "infix_token OpOr = Some TkOr" | "infix_token OpAnd = Some TkAnd"
| "infix_token OpEq = Some TkEq" | "infix_token OpNeq = Some TkNeq" | "infix_token OpLt = Some TkLt"
| "infix_token OpGt = Some TkGt" | "infix_token OpLe = Some TkLe" | "infix_token OpGe = Some TkGe"
| "infix_token OpAdd = Some TkPlus" | "infix_token OpSub = Some TkMinus"
| "infix_token OpMul = Some TkStar" | "infix_token OpDiv = Some TkSlash" | "infix_token OpMod = Some TkPercent"
| "infix_token OpPow = Some TkCaret" | "infix_token _ = None"

text \<open>How tightly an operator binds: the level of the grammar that reads it.\<close>

fun rank :: "binary_op \<Rightarrow> nat" where
  "rank OpOr = 1" | "rank OpAnd = 2"
| "rank OpEq = 3" | "rank OpNeq = 3" | "rank OpLt = 3" | "rank OpGt = 3" | "rank OpLe = 3" | "rank OpGe = 3"
| "rank OpAdd = 4" | "rank OpSub = 4" | "rank OpMul = 5" | "rank OpDiv = 5" | "rank OpMod = 5"
| "rank OpPow = 6" | "rank _ = 0"

fun words :: "form \<Rightarrow> token_kind list" where
  "words (FNumber n) = [TkInteger n]"
| "words (FText s) = [TkString s]"
| "words (FTruth b) = [TkBoolean b]"
| "words (FName x) = [TkIdent x]"
| "words (FGroup e) = TMark TkLParen # words e @ [TMark TkRParen]"
| "words (FPrefix op e) = TOperator (prefix_token op) # words e"
| "words (FBinary op a b) = words a @ TOperator (the (infix_token op)) # words b"
| "words FOther = []"

text \<open>
  Whether an expression can stand at a level without parentheses: every operator but the power binds
  to the left, the power to the right, and a prefix binds tighter than all of them.
\<close>

fun fits :: "nat \<Rightarrow> form \<Rightarrow> bool" where
  "fits l (FGroup e) = fits 1 e"
| "fits l (FPrefix op e) = fits 7 e"
| "fits l (FBinary op a b) =
     (l \<le> rank op \<and> rank op \<noteq> 0
      \<and> (if op = OpPow then fits 7 a \<and> fits 6 b else fits (rank op) a \<and> fits (Suc (rank op)) b))"
| "fits l FOther = False"
| "fits l _ = True"

text \<open>How tightly a token behind an expression would bind it: not at all when it closes.\<close>

definition closers :: "token_kind set" where
  "closers = {TMark TkRParen, TMark TkRBracket, TMark TkRBrace, TMark TkComma, TMark TkSemicolon, TkEof}"

definition binds :: "token_kind \<Rightarrow> nat" where
  "binds k =
     (if k \<in> closers then 0 else if or_op k \<noteq> None then 1 else if and_op k \<noteq> None then 2
      else if comparison_op k \<noteq> None then 3 else if additive k \<noteq> None then 4
      else if multiplicative k \<noteq> None then 5 else if k = TOperator TkCaret then 6 else 9)"

section \<open>The tokens ahead\<close>

definition kinds_ahead :: "parser \<Rightarrow> token_kind list" where
  "kinds_ahead p = map tk_kind (filter (\<lambda>t. \<not> comment_token t) (drop (ps_current p) (ps_tokens p)))"

definition ahead :: "token_kind list \<Rightarrow> parser \<Rightarrow> bool" where
  "ahead ks p \<longleftrightarrow> inside_tokens p \<and> kinds_ahead p = ks"

lemma drop_past_comments: "drop (past_comments ts i) ts = dropWhile comment_token (drop i ts)"
  unfolding past_comments_def by (simp add: dropWhile_eq_drop add.commute)

lemma filter_dropWhile: "filter (\<lambda>x. \<not> P x) (dropWhile P xs) = filter (\<lambda>x. \<not> P x) xs"
  by (induction xs) auto

lemma kinds_skip [simp]: "kinds_ahead (skip_comment_tokens p) = kinds_ahead p"
  by (simp add: kinds_ahead_def skip_comment_tokens_def drop_past_comments filter_dropWhile)

lemma kinds_ahead_peek:
  assumes "inside_tokens p"
  shows "\<exists>ks. kinds_ahead p = peek_kind p # ks"
proof -
  let ?i = "past_comments (ps_tokens p) (ps_current p)"
  note q = past_comments_inside [of "ps_current p" "ps_tokens p"]
  have i: "?i < length (ps_tokens p)" "\<not> comment_token (ps_tokens p ! ?i)" using assms q by (simp_all add: inside_tokens_def)
  have "filter (\<lambda>t. \<not> comment_token t) (drop (ps_current p) (ps_tokens p)) = filter (\<lambda>t. \<not> comment_token t) (drop ?i (ps_tokens p))"
    by (simp add: drop_past_comments filter_dropWhile)
  also have "\<dots> = ps_tokens p ! ?i # filter (\<lambda>t. \<not> comment_token t) (drop (Suc ?i) (ps_tokens p))"
    using i by (simp add: Cons_nth_drop_Suc [symmetric])
  finally show ?thesis using i by (simp add: kinds_ahead_def peek_kind_def peek_def token_or_last_def)
qed

lemma ahead_peek: "ahead (k # ks) p \<Longrightarrow> peek_kind p = k" "ahead (k # ks) p \<Longrightarrow> tk_kind (peek p) = k"
  using kinds_ahead_peek [of p] by (auto simp: ahead_def peek_kind_def)

lemma ahead_kind_at: "ahead ks p \<Longrightarrow> kind_at i p = (if i < length ks then Some (ks ! i) else None)"
  by (auto simp: ahead_def kinds_ahead_def kind_at_def peek_at_def Let_def)

lemma ahead_advanced:
  assumes "ahead (k # k' # ks) p" "k \<noteq> TkEof"
  shows "ahead (k' # ks) (advanced p)" "left (advanced p) < left p"
    "ps_tokens (advanced p) = ps_tokens p" "ps_diagnostics (advanced p) = ps_diagnostics p"
proof -
  let ?q = "skip_comment_tokens p"
  have p: "inside_tokens p" and k: "kinds_ahead p = k # k' # ks" using assms by (simp_all add: ahead_def)
  note q = skip_comments_inside [OF p]
  let ?i = "ps_current ?q"
  have i: "?i < length (ps_tokens p)" "\<not> comment_token (ps_tokens p ! ?i)"
    using p past_comments_inside [of "ps_current p" "ps_tokens p"] by (simp_all add: inside_tokens_def skip_comment_tokens_def)
  have e: "filter (\<lambda>t. \<not> comment_token t) (drop ?i (ps_tokens p))
      = ps_tokens p ! ?i # filter (\<lambda>t. \<not> comment_token t) (drop (Suc ?i) (ps_tokens p))"
    using i by (simp add: Cons_nth_drop_Suc [symmetric])
  have kq: "kinds_ahead ?q = k # k' # ks" using k by simp
  have r: "map tk_kind (filter (\<lambda>t. \<not> comment_token t) (drop (Suc ?i) (ps_tokens p))) = k' # ks"
    using kq e unfolding kinds_ahead_def by (simp add: skip_comment_tokens_def)
  have n: "\<not> at_end p" using ahead_peek(1) [OF assms(1)] assms(2) by (simp add: at_end_def)
  with q(3) have "\<not> at_end ?q" by (simp add: at_end_def peek_kind_def)
  then have "kinds_ahead (advanced p) = k' # ks"
    using r by (simp add: advanced_def Let_def) (simp add: kinds_ahead_def skip_comment_tokens_def)
  with advanced_inside [OF p] n show "ahead (k' # ks) (advanced p)" "left (advanced p) < left p"
    "ps_tokens (advanced p) = ps_tokens p" "ps_diagnostics (advanced p) = ps_diagnostics p" by (simp_all add: ahead_def)
qed

section \<open>What an operation yields\<close>

definition yields :: "'a parse \<Rightarrow> parser \<Rightarrow> ('a \<Rightarrow> parser \<Rightarrow> bool) \<Rightarrow> bool" where
  "yields m p S \<longleftrightarrow> (\<exists>x q. m p = Some (Inr x, q) \<and> S x q)"

definition went :: "token_kind list \<Rightarrow> parser \<Rightarrow> parser \<Rightarrow> bool" where
  "went ks p q \<longleftrightarrow> ahead ks q \<and> left q < left p \<and> ps_tokens q = ps_tokens p \<and> ps_diagnostics q = ps_diagnostics p"

text \<open>A parser that reads an expression from its tokens when what follows is of a kind, with so much left.\<close>

definition understands :: "nat \<Rightarrow> (token_kind \<Rightarrow> bool) \<Rightarrow> form \<Rightarrow> expr parse \<Rightarrow> bool" where
  "understands n follows e m \<longleftrightarrow> (\<forall>p k ks. ahead (words e @ k # ks) p \<longrightarrow> follows k \<longrightarrow> left p \<le> n \<longrightarrow>
     yields m p (\<lambda>x q. shown x = e \<and> went (k # ks) p q))"

lemma yields_weaken: "yields m p S \<Longrightarrow> (\<And>x q. S x q \<Longrightarrow> T x q) \<Longrightarrow> yields m p T"
  by (auto simp: yields_def)

lemma yields_pret [simp]: "yields (pret x) p S = S x p"
  by (simp add: yields_def pret_def)

lemma yields_bind [simp]: "yields (pbind m f) p S = yields m p (\<lambda>x q. yields (f x) q S)"
  by (auto simp: yields_def pbind_def split: option.split sum.split)

lemma yields_read [simp]: "yields (pread f) p S = yields (f p) p S" "yields (peeking g) p S = yields (g (peek p)) p S"
  by (simp_all add: yields_def pread_def peeking_def)

lemma yields_map [simp]: "yields (pmap h m) p S = yields m p (\<lambda>x q. S (h x) q)"
  by (simp add: pmap_def)

lemma yields_next [simp]: "yields next_tok p S = S (peek p) (advanced p)"
  by (simp add: yields_def next_tok_def Let_def peek_def skip_comment_tokens_def)

lemma yields_skip [simp]: "yields (skip_tok m) p S = yields m (advanced p) S"
  by (simp add: skip_tok_def)

lemma yields_if_next [simp]: "yields (if_next k m n) p S = (if peek_kind p = k then yields m p S else yields n p S)"
  by (simp add: if_next_def peek_kind_def)

lemma yields_demand: "peek_kind p = k \<Longrightarrow> yields (demand k d f) p S = yields (f (peek p)) (advanced p) S"
  by (simp add: demand_def peek_kind_def)

lemma went_trans: "went ks p q \<Longrightarrow> went ls q r \<Longrightarrow> went ls p r"
  by (auto simp: went_def)

lemma went_advanced: "ahead (k # k' # ks) p \<Longrightarrow> k \<noteq> TkEof \<Longrightarrow> went (k' # ks) p (advanced p)"
  using ahead_advanced by (simp add: went_def)

lemma went_ahead: "went ks p q \<Longrightarrow> ahead ks q"
  by (simp add: went_def)

lemma went_left: "went ks p q \<Longrightarrow> left q < left p"
  by (simp add: went_def)

lemma understandsD:
  "\<lbrakk>understands n follows e m; ahead (words e @ k # ks) p; follows k; left p \<le> n\<rbrakk> \<Longrightarrow>
   yields m p (\<lambda>x q. shown x = e \<and> went (k # ks) p q)"
  by (simp add: understands_def)

lemma binds_cases:
  assumes "binds k < 9"
  obtains "k \<in> closers" | oo where "k = TOperator oo"
    "oo \<in> {TkOr, TkAnd, TkEq, TkNeq, TkLt, TkGt, TkLe, TkGe, TkPlus, TkMinus, TkStar, TkSlash, TkPercent, TkCaret}"
proof (cases k)
  case (TOperator oo)
  with assms show thesis using that by (cases oo) (simp_all add: binds_def closers_def or_op_def and_op_def comparison_op_def additive_def multiplicative_def)
qed (use assms that in \<open>auto simp: binds_def or_op_def and_op_def comparison_op_def additive_def multiplicative_def split: if_splits\<close>)

section \<open>Operands\<close>

text \<open>A loop whose turn ends where it stands, and the tokens no postfix stands for.\<close>

lemma loop_stays: "yields (f x) p (\<lambda>r q. case r of Inr z \<Rightarrow> S z q | Inl _ \<Rightarrow> False) \<Longrightarrow> yields (ploop f x) p S"
  by (simp add: ploop_def turns_left_def) (erule yields_weaken, auto split: sum.splits)

lemma yields_finish [simp]: "yields (finish x) p S = S (Inr x) p" "yields (again y) p S = S (Inl y) p"
  by (simp_all add: finish_def again_def)

lemma yields_if [simp]: "yields (if c then m else n) p S = (if c then yields m p S else yields n p S)"
  by simp

definition no_postfix :: "token_kind \<Rightarrow> bool" where
  "no_postfix k \<longleftrightarrow> k \<notin> {TMark TkLBracket, TMark TkDot, TMark TkLParen, TMark TkDotDot, THash TkHashQuestion, TOperator TkScopeResolution,
       TOperator TkArrow, TOperator TkPipeOp} \<and> (\<forall>op. k \<noteq> TDollar op) \<and> \<not> can_juxtapose k"

lemma binds_no_postfix: "binds k < 9 \<Longrightarrow> no_postfix k"
  by (erule binds_cases) (auto simp: no_postfix_def closers_def can_juxtapose_def)

lemma turns_stay:
  assumes "no_postfix (peek_kind p)"
  shows "yields (access_turn E x) p S = S (Inr x) p" "yields (operator_turn E x) p S = S (Inr x) p"
  using assms unfolding no_postfix_def access_turn_def operator_turn_def
  by (auto simp: peek_kind_def split: token_kind.split mark_token.split hash_token.split)

lemma postfix_ops_stay: "no_postfix (peek_kind p) \<Longrightarrow> S x p \<Longrightarrow> yields (parse_postfix_ops E x) p S"
  unfolding parse_postfix_ops_def
  by (intro loop_stays; simp add: turns_stay loop_stays no_postfix_def peek_kind_def)

lemma juxtaposition_stays: "no_postfix (peek_kind p) \<Longrightarrow> S x p \<Longrightarrow> yields (parse_juxtapose_chain_inner E b x) p S"
  unfolding parse_juxtapose_chain_inner_def no_postfix_def by (intro loop_stays) (auto simp: peek_kind_def)

lemma pipe_stays: "no_postfix (peek_kind p) \<Longrightarrow> S x p \<Longrightarrow> yields (ploop (pipe_turn E m c) x) p S"
  unfolding no_postfix_def by (intro loop_stays) (auto simp: pipe_turn_def)

lemma level_stays:
  "level (peek_kind p) = None \<Longrightarrow> S x p \<Longrightarrow>
   yields (ploop (\<lambda>left. peeking (\<lambda>t. case level (tk_kind t) of None \<Rightarrow> finish left
       | Some op \<Rightarrow> skip_tok (pbind operand (\<lambda>right. again (binary_of op left right))))) x) p S"
  by (intro loop_stays) (simp add: peek_kind_def)

section \<open>Operands\<close>

lemma read_literal:
  "\<lbrakk>ahead (c # k # ks) p; tk_kind (peek p) = c; shown (literal_at l (tk_span (peek p))) = e; c \<noteq> TkEof\<rbrakk> \<Longrightarrow>
   yields (skip_tok (pret (literal_at l (tk_span (peek p))))) p (\<lambda>x q. shown x = e \<and> went (k # ks) p q)"
  by (simp add: went_advanced)

definition simple_operand :: "form \<Rightarrow> bool" where
  "simple_operand e \<longleftrightarrow> (case e of FNumber _ \<Rightarrow> True | FText _ \<Rightarrow> True | FTruth _ \<Rightarrow> True | FName _ \<Rightarrow> True | _ \<Rightarrow> False)"

lemma name_stays:
  assumes "ahead (TkIdent x # k # ks) p" "no_postfix k"
  shows "yields (parse_name E x sp) p (\<lambda>e q. shown e = FName x \<and> went (k # ks) p q)"
proof -
  have "went (k # ks) p (advanced p)" using went_advanced [OF assms(1)] by simp
  moreover from this have "tk_kind (peek (advanced p)) = k" by (rule ahead_peek(2) [OF went_ahead])
  ultimately show ?thesis using assms(2) ahead_kind_at [OF assms(1), of 1]
    by (simp add: parse_name_def no_postfix_def name_at_def)
qed

lemma operand_read:
  assumes "simple_operand e" "no_postfix k" "ahead (words e @ k # ks) p"
  shows "yields (parse_primary_expr E) p (\<lambda>x q. shown x = e \<and> went (k # ks) p q)"
  using assms ahead_peek(2) [of _ _ p] 
  by (cases e) (auto simp: simple_operand_def parse_primary_expr_def Let_def went_advanced literal_at_def name_stays ahead_peek)

lemma words_start:
  "fits l e \<Longrightarrow> \<exists>w ws. words e = w # ws \<and> w \<noteq> TMark TkRParen \<and> w \<noteq> TkEof \<and>
     (is_name w \<longrightarrow> ws = [] \<or> (\<exists>oo os. ws = TOperator oo # os \<and> oo \<noteq> TkArrow))"
proof (induction e arbitrary: l)
  case (FBinary op a b)
  then have "\<exists>l. fits l a" "the (infix_token op) \<noteq> TkArrow" by (cases op; auto)+
  with FBinary.IH(1) show ?case by fastforce
qed (auto simp: is_name_def)

lemma no_lambda:
  assumes "fits l e" "ahead (TMark TkLParen # words e @ TMark TkRParen # k # ks) p" "k \<noteq> TOperator TkArrow"
  shows "\<not> is_lambda_start p"
proof -
  obtain w ws where w: "words e = w # ws" "w \<noteq> TMark TkRParen" "w \<noteq> TkEof"
    and n: "is_name w \<Longrightarrow> ws = [] \<or> (\<exists>oo os. ws = TOperator oo # os \<and> oo \<noteq> TkArrow)" using words_start [OF assms(1)] by blast
  have a: "ahead (w # ws @ TMark TkRParen # k # ks) (advanced p)" using assms(2) w ahead_advanced(1) by fastforce
  have "\<not> lambda_params_ahead m (advanced p)" for m
  proof (cases m)
    case (Suc m)
    have "peek_kind (advanced p) = w" using a by (rule ahead_peek)
    moreover have "\<not> (let q = advanced (advanced p)
           in if peek_kind q = TMark TkComma then lambda_params_ahead m (advanced q)
              else if peek_kind q = TMark TkRParen then peek_kind (advanced q) = TOperator TkArrow
              else peek_kind q = TOperator TkArrow)" if "is_name w"
    using n [OF that]
    proof
      assume "ws = []"
      with a w(3) have "ahead (TMark TkRParen # k # ks) (advanced (advanced p))" using ahead_advanced(1) by fastforce
      moreover from ahead_advanced(1) [OF this] have "ahead (k # ks) (advanced (advanced (advanced p)))" by simp
      ultimately show ?thesis using assms(3) by (simp add: ahead_peek)
    next
      assume "\<exists>oo os. ws = TOperator oo # os \<and> oo \<noteq> TkArrow"
      then obtain oo os where o: "ws = TOperator oo # os" "oo \<noteq> TkArrow" by blast
      with a w(3) have "ahead (TOperator oo # os @ TMark TkRParen # k # ks) (advanced (advanced p))"
        using ahead_advanced(1) by fastforce
      with o(2) show ?thesis by (simp add: ahead_peek)
    qed
    ultimately show ?thesis using Suc by (simp add: Let_def)
  qed simp
  moreover have "peek_kind (advanced p) = w" using a by (rule ahead_peek)
  ultimately show ?thesis using w(2) by (simp add: is_lambda_start_def Let_def)
qed

lemma group_read:
  assumes e: "fits l e" and g: "understands n (\<lambda>k. k \<in> closers) e (g_juxt E)"
    and p: "ahead (words (FGroup e) @ k # ks) p" "left p \<le> Suc n" and k: "no_postfix k"
  shows "yields (parse_primary_expr E) p (\<lambda>x q. shown x = FGroup e \<and> went (k # ks) p q)"
proof -
  obtain w ws where w: "words e = w # ws" "w \<noteq> TMark TkRParen" "w \<noteq> TkEof"
    and n: "is_name w \<Longrightarrow> ws = [] \<or> (\<exists>oo os. ws = TOperator oo # os \<and> oo \<noteq> TkArrow)" using words_start [OF e] by blast
  let ?q = "advanced p"
  have p1: "ahead (TMark TkLParen # words e @ TMark TkRParen # k # ks) p" using p(1) by simp
  have a: "went (words e @ TMark TkRParen # k # ks) p ?q" using p1 w(1) went_advanced [of "TMark TkLParen"] by simp
  have c: "\<not> (is_name (peek_kind ?q) \<and> kind_at 1 ?q = Some (TMark TkColon))"
    using went_ahead [OF a] w(1) n by (auto simp: ahead_peek ahead_kind_at)
  have close: "TMark TkRParen \<in> closers" by (simp add: closers_def)
  have "yields (g_juxt E) ?q (\<lambda>x q. shown x = e \<and> went (TMark TkRParen # k # ks) ?q q)"
    by (rule understandsD [OF g went_ahead [OF a] close]) (use went_left [OF a] p(2) in simp)
  then have "yields (parse_tuple_or_grouped E) p (\<lambda>x q. shown x = FGroup e \<and> went (k # ks) p q)"
    unfolding parse_tuple_or_grouped_def yields_bind yields_next yields_read if_not_P [OF c] yields_if_next
  proof (rule yields_weaken, elim conjE)
    fix x q
    assume x: "shown x = e" "went (TMark TkRParen # k # ks) ?q q"
    have "went (k # ks) q (advanced q)" using went_advanced [OF went_ahead [OF x(2)]] by simp
    with x a have w: "went (k # ks) p (advanced q)" by (blast intro: went_trans)
    have k: "peek_kind q = TMark TkRParen" by (rule ahead_peek [OF went_ahead [OF x(2)]])
    then have c: "peek_kind q \<noteq> TMark TkComma" by simp
    show "if peek_kind q = TMark TkComma then yields m q S else yields (demand (TMark TkRParen) d
        (\<lambda>u. pret (EGroup (GroupExpr x (span_to (tk_span (peek p)) (tk_span u)))))) q (\<lambda>x q. shown x = FGroup e \<and> went (k # ks) p q)" for m S d
      unfolding if_not_P [OF c] yields_demand [OF k] yields_pret using w x(1) by simp
  qed
  with no_lambda [OF e p1] k show ?thesis
    by (simp add: parse_primary_expr_def Let_def mark_expression_def ahead_peek [OF p1] no_postfix_def)
qed

section \<open>Operators of one level\<close>

definition operator_turns :: "(token_kind \<Rightarrow> binary_op option) \<Rightarrow> expr parse \<Rightarrow> expr \<Rightarrow> (expr + expr) parse" where
  "operator_turns level operand a = peeking (\<lambda>t.
     case level (tk_kind t) of
       None \<Rightarrow> finish a
     | Some op \<Rightarrow> skip_tok (pbind operand (\<lambda>b. again (binary_of op a b))))"

lemma left_assoc_turns: "left_assoc level operand = pbind operand (ploop (operator_turns level operand))"
  by (simp add: left_assoc_def operator_turns_def [abs_def])

text \<open>An expression of the level may be followed by more operators of it: then the loop goes on from it.\<close>

definition opens_level :: "nat \<Rightarrow> nat \<Rightarrow> (token_kind \<Rightarrow> binary_op option) \<Rightarrow> expr parse \<Rightarrow> form \<Rightarrow> bool" where
  "opens_level n l level operand e \<longleftrightarrow> (\<forall>p k ks. ahead (words e @ k # ks) p \<longrightarrow> binds k \<le> l \<longrightarrow> left p \<le> n \<longrightarrow>
     (\<exists>x q N. left_assoc level operand p = ploop_at N (operator_turns level operand) x q
        \<and> shown x = e \<and> went (k # ks) p q \<and> left q < N))"

lemma opens_operand: "understands n (\<lambda>k. binds k \<le> l) e operand \<Longrightarrow> opens_level n l level operand e"
  unfolding opens_level_def
proof (intro allI impI)
  fix p k ks
  assume o': "understands n (\<lambda>k. binds k \<le> l) e operand" and p: "ahead (words e @ k # ks) p" "binds k \<le> l" "left p \<le> n"
  obtain x q where x: "operand p = Some (Inr x, q)" "shown x = e" "went (k # ks) p q"
    using understandsD [OF o' p] by (auto simp: yields_def)
  then have "left_assoc level operand p = ploop_at (turns_left q) (operator_turns level operand) x q"
    by (simp add: left_assoc_turns pbind_def ploop_def pread_def)
  with x show "\<exists>x q N. left_assoc level operand p = ploop_at N (operator_turns level operand) x q
      \<and> shown x = e \<and> went (k # ks) p q \<and> left q < N"
    by (intro exI [of _ x] exI [of _ q] exI [of _ "turns_left q"]) (simp add: turns_left_def left_def)
qed

lemma opens_binary:
  assumes a: "opens_level n l level operand a" and b: "understands n (\<lambda>k. binds k \<le> l) b operand"
    and t: "infix_token op = Some oo" "level (TOperator oo) = Some op" "binds (TOperator oo) = l" and f: "fits m b"
  shows "opens_level n l level operand (FBinary op a b)"
  unfolding opens_level_def
proof (intro allI impI)
  fix p k ks
  assume p: "ahead (words (FBinary op a b) @ k # ks) p" "binds k \<le> l" "left p \<le> n"
  obtain w ws where w: "words b = w # ws" using words_start [OF f] by blast
  from p(1) t(1) have "ahead (words a @ TOperator oo # words b @ k # ks) p" by simp
  with a t(3) p(3) obtain x q N where x: "left_assoc level operand p = ploop_at N (operator_turns level operand) x q"
      "shown x = a" "went (TOperator oo # words b @ k # ks) p q" "left q < N"
    unfolding opens_level_def by (metis order_refl)
  from x(4) obtain M where N: "N = Suc M" by (cases N) auto
  have q: "went (words b @ k # ks) q (advanced q)" using went_ahead [OF x(3)] w by (simp add: went_advanced)
  have "yields operand (advanced q) (\<lambda>x r. shown x = b \<and> went (k # ks) (advanced q) r)"
    by (rule understandsD [OF b went_ahead [OF q]]) (use p went_left [OF q] went_left [OF x(3)] in simp_all)
  then obtain y r where y: "operand (advanced q) = Some (Inr y, r)" "shown y = b" "went (k # ks) (advanced q) r"
    by (auto simp: yields_def)
  have "operator_turns level operand x q = Some (Inr (Inl (binary_of op x y)), r)"
    using y(1) t(2) ahead_peek(2) [OF went_ahead [OF x(3)]]
    by (simp add: operator_turns_def peeking_def skip_tok_def pbind_def next_tok_def Let_def again_def pret_def)
  with x(1) N have "left_assoc level operand p = ploop_at M (operator_turns level operand) (binary_of op x y) r"
    by (simp add: pbind_def)
  moreover have "went (k # ks) p r" using x(3) q y(3) by (blast intro: went_trans)
  moreover have "left r < M" using went_left [OF q] went_left [OF y(3)] x(4) N by simp
  ultimately show "\<exists>x q N. left_assoc level operand p = ploop_at N (operator_turns level operand) x q
      \<and> shown x = FBinary op a b \<and> went (k # ks) p q \<and> left q < N"
    using x(2) y(2) by (intro exI [of _ "binary_of op x y"] exI [of _ r] exI [of _ M]) (simp add: binary_of_def)
qed

lemma level_understands:
  assumes "opens_level n l level operand e" "\<And>k. binds k < l \<Longrightarrow> level k = None"
  shows "understands n (\<lambda>k. binds k < l) e (left_assoc level operand)"
  unfolding understands_def
proof (intro allI impI)
  fix p k ks
  assume p: "ahead (words e @ k # ks) p" "binds k < l" "left p \<le> n"
  with assms(1) obtain x q N where x: "left_assoc level operand p = ploop_at N (operator_turns level operand) x q"
      "shown x = e" "went (k # ks) p q" "left q < N"
    unfolding opens_level_def by (metis order.strict_implies_order)
  from x(4) obtain M where "N = Suc M" by (cases N) auto
  with x assms(2) [OF p(2)] ahead_peek(2) [OF went_ahead [OF x(3)]] show "yields (left_assoc level operand) p (\<lambda>x q. shown x = e \<and> went (k # ks) p q)"
    by (simp add: yields_def operator_turns_def peeking_def finish_def pbind_def pret_def)
qed

section \<open>Powers and prefixes\<close>

lemma power_operand:
  assumes "understands n (\<lambda>k. binds k < 7) e operand"
  shows "understands n (\<lambda>k. binds k < 6) e (right_power (Suc N) operand)"
  unfolding understands_def
proof (intro allI impI)
  fix p k ks
  assume p: "ahead (words e @ k # ks) p" "binds k < 6" "left p \<le> n"
  have "k \<noteq> TOperator TkCaret" using p(2) by (auto simp: binds_def closers_def or_op_def and_op_def comparison_op_def additive_def multiplicative_def)
  moreover have "yields operand p (\<lambda>x q. shown x = e \<and> went (k # ks) p q)"
    by (rule understandsD [OF assms p(1)]) (use p in simp_all)
  ultimately show "yields (right_power (Suc N) operand) p (\<lambda>x q. shown x = e \<and> went (k # ks) p q)"
    by (auto elim!: yields_weaken simp: ahead_peek [OF went_ahead])
qed

lemma power_pair:
  assumes a: "understands n (\<lambda>k. binds k < 7) a operand" and f: "fits m b"
    and b: "\<And>N. understands (min n N) (\<lambda>k. binds k < 6) b (right_power (Suc N) operand)"
  shows "understands (min n N) (\<lambda>k. binds k < 6) (FBinary OpPow a b) (right_power (Suc N) operand)"
  unfolding understands_def
proof (intro allI impI)
  fix p k ks
  assume p: "ahead (words (FBinary OpPow a b) @ k # ks) p" "binds k < 6" "left p \<le> min n N"
  obtain w ws where w: "words b = w # ws" using words_start [OF f] by blast
  have "left p \<noteq> 0" using p(1) by (auto simp: ahead_def inside_tokens_def left_def)
  with p(3) obtain M where N: "N = Suc M" by (cases N) auto
  let ?c = "TOperator TkCaret"
  have "yields operand p (\<lambda>x q. shown x = a \<and> went (?c # words b @ k # ks) p q)"
    by (rule understandsD [OF a]) (use p in \<open>simp_all add: binds_def closers_def or_op_def and_op_def comparison_op_def additive_def multiplicative_def\<close>)
  then show "yields (right_power (Suc N) operand) p (\<lambda>x q. shown x = FBinary OpPow a b \<and> went (k # ks) p q)"
  proof (simp only: right_power.simps(2) yields_bind, elim yields_weaken conjE)
    fix x q
    assume x: "shown x = a" "went (?c # words b @ k # ks) p q"
    have q: "went (words b @ k # ks) q (advanced q)" using went_ahead [OF x(2)] w by (simp add: went_advanced)
    have "yields (right_power (Suc M) operand) (advanced q) (\<lambda>y r. shown y = b \<and> went (k # ks) (advanced q) r)"
      by (rule understandsD [OF b went_ahead [OF q]]) (use p N went_left [OF q] went_left [OF x(2)] in simp_all)
    then have "yields (right_power N operand) (advanced q) (\<lambda>y r. shown (binary_of OpPow x y) = FBinary OpPow a b \<and> went (k # ks) p r)"
      unfolding N by (rule yields_weaken) (use x q in \<open>auto simp: binary_of_def intro: went_trans\<close>)
    then show "yields (if_next ?c (skip_tok (pbind (right_power N operand) (\<lambda>right. pret (binary_of OpPow x right)))) (pret x)) q
        (\<lambda>x q. shown x = FBinary OpPow a b \<and> went (k # ks) p q)"
      by (simp add: ahead_peek [OF went_ahead [OF x(2)]])
  qed
qed

lemma no_prefix: "simple_operand e \<or> (\<exists>e'. e = FGroup e') \<Longrightarrow> \<exists>w ws. words e = w # ws \<and> prefix_op w = None"
  by (cases e) (auto simp: simple_operand_def prefix_op_def)

lemma prefix_operand:
  assumes "understands n f e operand" "simple_operand e \<or> (\<exists>e'. e = FGroup e')"
  shows "understands n f e (prefixed_at (Suc N) operand)"
proof -
  obtain w ws where w: "words e = w # ws" "prefix_op w = None" using no_prefix [OF assms(2)] by blast
  show ?thesis unfolding understands_def
  proof (intro allI impI)
    fix p k ks
    assume p: "ahead (words e @ k # ks) p" "f k" "left p \<le> n"
    then have "tk_kind (peek p) = w" using w(1) by (simp add: ahead_peek)
    with w(2) understandsD [OF assms(1) p] show "yields (prefixed_at (Suc N) operand) p (\<lambda>x q. shown x = e \<and> went (k # ks) p q)"
      by simp
  qed
qed

lemma prefix_op_token: "prefix_op (TOperator (prefix_token op)) = Some op"
  by (cases op) (simp_all add: prefix_op_def)

lemma prefix_more:
  assumes e: "\<And>N. understands (min n N) f e (prefixed_at (Suc N) operand)" and m: "fits m e"
  shows "understands (min n N) f (FPrefix op e) (prefixed_at (Suc N) operand)"
  unfolding understands_def
proof (intro allI impI)
  fix p k ks
  assume p: "ahead (words (FPrefix op e) @ k # ks) p" "f k" "left p \<le> min n N"
  obtain w ws where w: "words e = w # ws" using words_start [OF m] by blast
  have "left p \<noteq> 0" using p(1) by (auto simp: ahead_def inside_tokens_def left_def)
  with p(3) obtain M where N: "N = Suc M" by (cases N) auto
  have q: "went (words e @ k # ks) p (advanced p)" using p(1) w by (simp add: went_advanced)
  have "yields (prefixed_at (Suc M) operand) (advanced p) (\<lambda>y r. shown y = e \<and> went (k # ks) (advanced p) r)"
    by (rule understandsD [OF e went_ahead [OF q]]) (use p N went_left [OF q] in simp_all)
  then have "yields (prefixed_at N operand) (advanced p)
      (\<lambda>y r. shown (EUnary (UnaryExpr op y (span_to (tk_span (peek p)) (expr_span y)))) = FPrefix op e \<and> went (k # ks) p r)"
    unfolding N by (rule yields_weaken) (use q in \<open>auto intro: went_trans\<close>)
  then show "yields (prefixed_at (Suc N) operand) p (\<lambda>x q. shown x = FPrefix op e \<and> went (k # ks) p q)"
    using p(1) by (simp add: ahead_peek prefix_op_token)
qed

section \<open>The levels\<close>

fun level_marks :: "nat \<Rightarrow> token_kind \<Rightarrow> binary_op option" where
  "level_marks l = (if l = 1 then or_op else if l = 2 then and_op else if l = 3 then comparison_op
     else if l = 4 then additive else multiplicative)"

text \<open>The parsers of the levels, from disjunctions, the widest, to operands with their prefixes and ranges.\<close>

fun level_parser :: "parse_engine \<Rightarrow> nat \<Rightarrow> expr parse" where
  "level_parser E l =
     (if l = 1 then parse_logic_or E else if l = 2 then parse_logic_and E else if l = 3 then parse_comparison E
      else if l = 4 then parse_addition E else if l = 5 then parse_multiplication E else if l = 6 then parse_power E
      else parse_range E)"

definition level_of :: "nat \<Rightarrow> bool" where
  "level_of l \<longleftrightarrow> l \<in> {1, 2, 3, 4, 5, 6, 7}"

lemma level_parser_next: "1 \<le> l \<Longrightarrow> l \<le> 5 \<Longrightarrow> level_parser E l = left_assoc (level_marks l) (level_parser E (Suc l))"
proof -
  assume "1 \<le> l" "l \<le> 5"
  then have "l \<in> {1, 2, 3, 4, 5}" by auto
  then show ?thesis
    by (auto simp: parse_logic_or_def parse_logic_and_def parse_comparison_def parse_addition_def parse_multiplication_def)
qed

lemma level_marks_none:
  assumes "binds k < l" "l \<le> 5"
  shows "level_marks l k = None"
proof (rule binds_cases)
  show "binds k < 9" using assms by simp
next
  assume "k \<in> closers"
  then show ?thesis by (auto simp: closers_def or_op_def and_op_def comparison_op_def additive_def multiplicative_def)
next
  fix oo
  assume k: "k = TOperator oo"
  from assms have "l = 1 \<or> l = 2 \<or> l = 3 \<or> l = 4 \<or> l = 5" by auto
  with assms(1) k show ?thesis
    by (cases oo) (auto simp: binds_def closers_def or_op_def and_op_def comparison_op_def additive_def multiplicative_def)
qed

lemma infix_marks:
  assumes "rank op \<noteq> 0" "op \<noteq> OpPow"
  obtains oo where "infix_token op = Some oo" "level_marks (rank op) (TOperator oo) = Some op" "binds (TOperator oo) = rank op"
  using assms that
  by (cases op) (simp_all add: binds_def closers_def or_op_def and_op_def comparison_op_def additive_def multiplicative_def)

text \<open>What is shown of an expression: its level reads it; for powers and prefixes with any bound that is enough.\<close>

definition level_reads :: "nat \<Rightarrow> nat \<Rightarrow> form \<Rightarrow> bool" where
  "level_reads n l e \<longleftrightarrow>
     (if l = 7 then \<forall>N. understands (min n N) (\<lambda>k. binds k < 7) e
          (prefixed_at (Suc N) (pbind (parse_primary_expr (parse_level n)) (parse_postfix_ops (parse_level n))))
      else if l = 6 then \<forall>N. understands (min n N) (\<lambda>k. binds k < 6) e (right_power (Suc N) (parse_range (parse_level n)))
      else opens_level n l (level_marks l) (level_parser (parse_level n) (Suc l)) e)"

declare prefixed_at.simps [simp del] right_power.simps [simp del] level_parser.simps [simp del] level_marks.simps [simp del]

lemma fueled_understands:
  assumes "\<And>N. understands (min n N) f e (m (Suc N))"
  shows "understands n f e (pread (\<lambda>p. m (turns_left p)))"
  unfolding understands_def
proof (intro allI impI)
  fix p k ks
  assume p: "ahead (words e @ k # ks) p" "f k" "left p \<le> n"
  have "yields (m (Suc (left p))) p (\<lambda>x q. shown x = e \<and> went (k # ks) p q)"
    by (rule understandsD [OF assms p(1,2)]) (use p(3) in simp)
  then show "yields (pread (\<lambda>p. m (turns_left p))) p (\<lambda>x q. shown x = e \<and> went (k # ks) p q)"
    by (simp add: turns_left_def left_def)
qed

lemma range_stays: "understands n (\<lambda>k. binds k < 7) e (parse_postfix E) \<Longrightarrow> understands n (\<lambda>k. binds k < 7) e (parse_range E)"
  unfolding understands_def
proof (intro allI impI, elim allE impE)
  fix p k ks
  assume k: "binds k < 7" and y: "yields (parse_postfix E) p (\<lambda>x q. shown x = e \<and> went (k # ks) p q)"
  have "k \<noteq> TMark TkDotDot" using binds_no_postfix [of k] k by (auto simp: no_postfix_def)
  with y show "yields (parse_range E) p (\<lambda>x q. shown x = e \<and> went (k # ks) p q)"
    unfolding parse_range_def by (auto elim!: yields_weaken simp: ahead_peek [OF went_ahead])
qed assumption+

lemma reads_understands:
  assumes "level_reads n l e" "1 \<le> l" "l \<le> 7"
  shows "understands n (\<lambda>k. binds k < l) e (level_parser (parse_level n) l)"
proof -
  consider "l = 7" | "l = 6" | "l \<le> 5" using assms(3) by linarith
  then show ?thesis
  proof cases
    case 1
    with assms(1) have "understands n (\<lambda>k. binds k < 7) e (parse_postfix (parse_level n))"
      unfolding parse_postfix_def parse_unary_def parse_prefixed_def
      by (intro fueled_understands [where m = "\<lambda>N. prefixed_at N (pbind (parse_primary_expr (parse_level n)) (parse_postfix_ops (parse_level n)))"])
         (simp add: level_reads_def)
    with 1 show ?thesis by (simp add: range_stays level_parser.simps)
  next
    case 2
    with assms(1) have "understands n (\<lambda>k. binds k < 6) e (parse_power (parse_level n))"
      unfolding parse_power_def powers_of_def
      by (intro fueled_understands [where m = "\<lambda>N. right_power N (parse_range (parse_level n))"]) (simp add: level_reads_def)
    with 2 show ?thesis by (simp add: level_parser.simps)
  next
    case 3
    with assms(1,2) level_understands [OF _ level_marks_none [OF _ 3]] level_parser_next [OF assms(2) 3, of "parse_level n"]
    show ?thesis by (simp add: level_reads_def)
  qed
qed

lemma understands_weaken: "understands n f e m \<Longrightarrow> n' \<le> n \<Longrightarrow> understands n' f e m"
  by (simp add: understands_def)

text \<open>What a level reads, the wider levels read.\<close>

lemma reads_wider:
  assumes "level_reads n (Suc l) e" "1 \<le> l" "l \<le> 6"
  shows "level_reads n l e"
proof (cases "l = 6")
  case True
  then have "understands n (\<lambda>k. binds k < 7) e (parse_range (parse_level n))"
    using reads_understands [OF assms(1)] by (simp add: level_parser.simps)
  from understands_weaken [OF power_operand [OF this]] True show ?thesis by (simp add: level_reads_def)
next
  case False
  with assms have l: "l \<le> 5" by simp
  have "understands n (\<lambda>k. binds k \<le> l) e (level_parser (parse_level n) (Suc l))"
    using reads_understands [OF assms(1)] l by (simp add: less_Suc_eq_le)
  from opens_operand [OF this] show ?thesis using l by (simp add: level_reads_def)
qed

lemma reads_widest:
  assumes "level_reads n r e" "r \<le> 7" "1 \<le> l" "l \<le> r"
  shows "level_reads n l e"
  using assms(4,1,2)
proof (induction rule: inc_induct)
  case (step m)
  then show ?case using reads_wider [of n m e] assms(3) by simp
qed

lemma reads_operand:
  assumes "\<And>p k ks. \<lbrakk>ahead (words e @ k # ks) p; no_postfix k; left p \<le> n\<rbrakk> \<Longrightarrow>
      yields (parse_primary_expr (parse_level n)) p (\<lambda>x q. shown x = e \<and> went (k # ks) p q)"
    and "simple_operand e \<or> (\<exists>e'. e = FGroup e')"
  shows "level_reads n 7 e"
proof -
  have "understands n (\<lambda>k. binds k < 7) e (pbind (parse_primary_expr (parse_level n)) (parse_postfix_ops (parse_level n)))"
    unfolding understands_def
  proof (intro allI impI)
    fix p k ks
    assume p: "ahead (words e @ k # ks) p" "binds k < 7" "left p \<le> n"
    then have k: "no_postfix k" by (simp add: binds_no_postfix)
    from assms(1) [OF p(1) k p(3)]
    show "yields (pbind (parse_primary_expr (parse_level n)) (parse_postfix_ops (parse_level n))) p (\<lambda>x q. shown x = e \<and> went (k # ks) p q)"
      using k by (auto elim!: yields_weaken intro!: postfix_ops_stay simp: ahead_peek [OF went_ahead])
  qed
  from prefix_operand [OF this assms(2)] show ?thesis
    by (auto simp: level_reads_def intro: understands_weaken [OF _ min.cobounded1])
qed

lemma juxt_reads:
  assumes "level_reads n 1 e"
  shows "understands n (\<lambda>k. k \<in> closers) e (parse_expr (parse_level n))"
    "understands n (\<lambda>k. k \<in> closers) e (parse_expr_juxt (parse_level n))"
proof -
  note o' = reads_understands [OF assms]
  have "understands n (\<lambda>k. k \<in> closers) e (parse_expr (parse_level n))
    \<and> understands n (\<lambda>k. k \<in> closers) e (parse_expr_juxt (parse_level n))"
    unfolding understands_def
  proof (intro conjI allI impI)
    fix p k ks
    assume p: "ahead (words e @ k # ks) p" "k \<in> closers" "left p \<le> n"
    then have b: "binds k < 1" by (simp add: binds_def)
    then have k: "no_postfix k" by (simp add: binds_no_postfix)
    have y: "yields (parse_logic_or (parse_level n)) p (\<lambda>x q. shown x = e \<and> went (k # ks) p q)"
      using understandsD [OF o' p(1) b p(3)] by (simp add: level_parser.simps)
    then show x: "yields (parse_expr (parse_level n)) p (\<lambda>x q. shown x = e \<and> went (k # ks) p q)"
      unfolding parse_expr_def parse_pipe_def yields_bind using k
      by (auto elim!: yields_weaken intro!: pipe_stays simp: ahead_peek [OF went_ahead])
    show "yields (parse_expr_juxt (parse_level n)) p (\<lambda>x q. shown x = e \<and> went (k # ks) p q)"
      unfolding parse_expr_juxt_def yields_bind using x k
      by (auto elim!: yields_weaken intro!: juxtaposition_stays simp: ahead_peek [OF went_ahead])
  qed
  then show "understands n (\<lambda>k. k \<in> closers) e (parse_expr (parse_level n))"
    "understands n (\<lambda>k. k \<in> closers) e (parse_expr_juxt (parse_level n))" by blast+
qed

lemma level_reads_form: "fits l e \<Longrightarrow> 1 \<le> l \<Longrightarrow> l \<le> 7 \<Longrightarrow> level_reads n l e"
proof (induction e arbitrary: n l)
  case (FGroup e)
  have "level_reads n 7 (FGroup e)"
  proof (rule reads_operand)
    fix p k ks
    assume p: "ahead (words (FGroup e) @ k # ks) p" "no_postfix k" "left p \<le> n"
    have "left p \<noteq> 0" using p(1) by (auto simp: ahead_def inside_tokens_def left_def)
    with p(3) obtain m where n: "n = Suc m" by (cases n) auto
    from FGroup have e: "fits 1 e" by simp
    have "understands m (\<lambda>k. k \<in> closers) e (g_juxt (parse_level n))"
      using juxt_reads(2) [OF FGroup.IH [OF e, of m]] n by (simp add: parser_over_def)
    from group_read [OF e this p(1) _ p(2)] p(3) n
    show "yields (parse_primary_expr (parse_level n)) p (\<lambda>x q. shown x = FGroup e \<and> went (k # ks) p q)" by simp
  qed simp
  then show ?case using FGroup.prems reads_widest by blast
next
  case (FPrefix op e)
  then have e: "fits 7 e" by simp
  with FPrefix.IH [OF e, of n] have "level_reads n 7 (FPrefix op e)"
    by (auto simp: level_reads_def intro!: prefix_more)
  then show ?case using FPrefix.prems reads_widest by blast
next
  case (FBinary op a b)
  from FBinary.prems have r: "l \<le> rank op" "rank op \<noteq> 0" by simp_all
  have r6: "rank op \<le> 6" by (cases op) simp_all
  have "level_reads n (rank op) (FBinary op a b)"
  proof (cases "op = OpPow")
    case True
    with FBinary.prems have f: "fits 7 a" "fits 6 b" by simp_all
    have "understands n (\<lambda>k. binds k < 7) a (parse_range (parse_level n))"
      using reads_understands [OF FBinary.IH(1) [OF f(1)]] by (simp add: level_parser.simps)
    moreover have "\<forall>N. understands (min n N) (\<lambda>k. binds k < 6) b (right_power (Suc N) (parse_range (parse_level n)))"
      using FBinary.IH(2) [OF f(2), of n] by (simp add: level_reads_def)
    ultimately show ?thesis using True power_pair f(2) by (simp add: level_reads_def)
  next
    case False
    with FBinary.prems have f: "fits (rank op) a" "fits (Suc (rank op)) b" by simp_all
    from False r(2) have s: "1 \<le> rank op" "rank op \<le> 5" by (cases op; simp)+
    let ?P = "level_parser (parse_level n)"
    have b: "understands n (\<lambda>k. binds k \<le> rank op) b (?P (Suc (rank op)))"
      using reads_understands [OF FBinary.IH(2) [OF f(2)]] s by (simp add: less_Suc_eq_le)
    have a: "opens_level n (rank op) (level_marks (rank op)) (?P (Suc (rank op))) a"
      using FBinary.IH(1) [OF f(1), of n] s by (simp add: level_reads_def)
    obtain oo where "infix_token op = Some oo" "level_marks (rank op) (TOperator oo) = Some op" "binds (TOperator oo) = rank op"
      using infix_marks [OF r(2) False] by blast
    from opens_binary [OF a b this f(2)] s show ?thesis by (simp add: level_reads_def)
  qed
  then show ?case by (rule reads_widest) (use r r6 FBinary.prems in simp_all)
qed (auto simp: simple_operand_def intro!: reads_widest [OF reads_operand] operand_read)

section \<open>Programs of assignments\<close>

definition assigned :: "statement \<Rightarrow> (ustring \<times> form) option" where
  "assigned c =
     (case c of
        SAssignment (Assignment x e _ hot pre sugar _) \<Rightarrow>
          if hot \<or> pre \<or> sugar \<noteq> SugarNone then None else Some (x, shown e)
      | _ \<Rightarrow> None)"

definition assignment_words :: "ustring \<times> form \<Rightarrow> token_kind list" where
  "assignment_words a = TkIdent (fst a) # TAssign TkAssign # words (snd a) @ [TMark TkSemicolon]"

definition program_words :: "(ustring \<times> form) list \<Rightarrow> token_kind list" where
  "program_words as = concat (map assignment_words as)"

lemma yields_catch: "yields m p (\<lambda>x q. yields (f x) q S) \<Longrightarrow> yields (pcatch m h f) p S"
  by (auto simp: yields_def pcatch_def)

lemma assignment_read:
  assumes e: "fits 1 e" and k: "k \<in> closers" and n: "left p \<le> n"
    and p: "ahead (TkIdent x # TAssign TkAssign # words e @ k # ks) p"
  shows "yields (parse_statement (parse_level n)) p (\<lambda>c q. assigned c = Some (x, e) \<and> went (k # ks) p q)"
proof -
  obtain w ws where w: "words e = w # ws" using words_start [OF e] by blast
  let ?E = "parse_level n" and ?q = "advanced p"
  have q: "went (TAssign TkAssign # words e @ k # ks) p ?q" using went_advanced [OF p] by simp
  have r: "went (words e @ k # ks) ?q (advanced ?q)" using went_ahead [OF q] w by (simp add: went_advanced)
  have b: "no_postfix k" using k by (intro binds_no_postfix) (simp add: binds_def)
  have l: "\<not> k = TMark TkLParen" using b by (simp add: no_postfix_def)
  have "yields (parse_expr ?E) (advanced ?q) (\<lambda>y u. shown y = e \<and> went (k # ks) (advanced ?q) u)"
    by (rule understandsD [OF juxt_reads(1) [OF level_reads_form [OF e]] went_ahead [OF r] k])
       (use n went_left [OF q] went_left [OF r] in simp_all)
  then have v: "yields (pbind (parse_expr ?E) (\<lambda>y. pbind (parse_juxtapose_chain ?E y) (\<lambda>v.
      pret (SAssignment (Assignment x v (span_to sp (expr_span v)) False False SugarNone None))))) (advanced ?q)
      (\<lambda>c u. assigned c = Some (x, e) \<and> went (k # ks) p u)" for sp
    unfolding yields_bind parse_juxtapose_chain_def
    by (auto elim!: yields_weaken intro!: juxtaposition_stays
         simp: ahead_peek [OF went_ahead] b assigned_def intro: went_trans [OF went_trans [OF q r]])
  have a: "tk_kind (peek ?q) = TAssign TkAssign" by (rule ahead_peek [OF went_ahead [OF q]])
  have "yields (parse_assignment ?E) p (\<lambda>c u. assigned c = Some (x, e) \<and> went (k # ks) p u)"
    unfolding parse_assignment_def yields_bind yields_next Let_def yields_read ahead_peek(2) [OF p]
    using v [of "tk_span (peek p)"] a by (simp add: assigned_name_def compound_op_def)
  moreover have "kind_at 1 p = Some (TAssign TkAssign)" using ahead_kind_at [OF p, of 1] by simp
  ultimately have "yields (name_statement ?E) p (\<lambda>c u. assigned c = Some (x, e) \<and> went (k # ks) p u)"
    by (simp add: name_statement_def assigns_ahead_def assigning_def)
  then show ?thesis by (simp add: parse_statement_def Let_def ahead_peek [OF p])
qed

lemma statement_turn_read:
  assumes "fits 1 (snd a)" "left p \<le> n" "ahead (assignment_words a @ k # ks) p"
  shows "yields (statement_turn (parse_level n) False cs) p
    (\<lambda>r q. (\<exists>c. r = Inl (cs @ [c]) \<and> assigned c = Some a) \<and> went (k # ks) p q)"
proof -
  have p: "ahead (TkIdent (fst a) # TAssign TkAssign # words (snd a) @ TMark TkSemicolon # k # ks) p"
    using assms(3) by (simp add: assignment_words_def)
  have "TMark TkSemicolon \<in> closers" by (simp add: closers_def)
  from assignment_read [OF assms(1) this assms(2) p]
  have "yields (parse_statement (parse_level n)) p (\<lambda>c q. yields (pbind (if False then function_in_block c else pret ()) (\<lambda>_.
      if_next (TMark TkSemicolon) (skip_tok (again (cs @ [c]))) (again (cs @ [c])))) q
      (\<lambda>r q. (\<exists>c. r = Inl (cs @ [c]) \<and> assigned c = Some a) \<and> went (k # ks) p q))"
  proof (elim yields_weaken conjE)
    fix c q
    assume c: "assigned c = Some (fst a, snd a)" "went (TMark TkSemicolon # k # ks) p q"
    have "went (k # ks) q (advanced q)" using went_advanced [OF went_ahead [OF c(2)]] by simp
    with c show "yields (pbind (if False then function_in_block c else pret ()) (\<lambda>_.
        if_next (TMark TkSemicolon) (skip_tok (again (cs @ [c]))) (again (cs @ [c])))) q
        (\<lambda>r q. (\<exists>c. r = Inl (cs @ [c]) \<and> assigned c = Some a) \<and> went (k # ks) p q)"
      by (auto simp: ahead_peek [OF went_ahead [OF c(2)]] intro: went_trans)
  qed
  then show ?thesis unfolding statement_turn_def yields_read by (rule yields_catch)
qed

lemma program_start: "as \<noteq> [] \<Longrightarrow> \<exists>x ks. program_words as @ [TkEof] = TkIdent x # ks"
  by (cases as) (auto simp: program_words_def assignment_words_def)

definition script_turn :: "parse_engine \<Rightarrow> statement list \<Rightarrow> (statement list + statement list) parse" where
  "script_turn E cs = pread (\<lambda>p. if at_end p then finish cs else statement_turn E False cs)"

lemma script_read:
  assumes "list_all (\<lambda>a. fits 1 (snd a)) as" "left p \<le> n" "left p < N" "ahead (program_words as @ [TkEof]) p"
  shows "yields (ploop_at N (script_turn (parse_level n)) cs) p
    (\<lambda>r q. map assigned r = map assigned cs @ map Some as \<and> ps_diagnostics q = ps_diagnostics p)"
  using assms
proof (induction as arbitrary: p N cs)
  case Nil
  then obtain M where N: "N = Suc M" by (cases N) auto
  have "peek_kind p = TkEof" using Nil.prems(4) by (simp add: program_words_def ahead_peek)
  then show ?case by (simp add: N script_turn_def at_end_def)
next
  case (Cons a as)
  then obtain M where N: "N = Suc M" by (cases N) auto
  obtain k ks where k: "program_words as @ [TkEof] = k # ks" by (cases "program_words as @ [TkEof]") auto
  have p: "ahead (assignment_words a @ k # ks) p" using Cons.prems(4) k by (simp add: program_words_def)
  then have "peek_kind p \<noteq> TkEof" by (simp add: assignment_words_def ahead_peek)
  then have "yields (script_turn (parse_level n) cs) p
      (\<lambda>r q. (\<exists>c. r = Inl (cs @ [c]) \<and> assigned c = Some a) \<and> went (k # ks) p q)"
    using statement_turn_read [of a p n k ks cs] Cons.prems(1,2) p by (simp add: script_turn_def at_end_def)
  then show ?case unfolding N ploop_at.simps yields_bind
  proof (elim yields_weaken conjE exE)
    fix r :: "statement list + statement list" and q c
    assume q: "went (k # ks) p q" and c: "r = Inl (cs @ [c])" "assigned c = Some a"
    have "yields (ploop_at M (script_turn (parse_level n)) (cs @ [c])) q
        (\<lambda>r u. map assigned r = map assigned (cs @ [c]) @ map Some as \<and> ps_diagnostics u = ps_diagnostics q)"
      by (rule Cons.IH) (use Cons.prems k q N in \<open>auto simp: went_def\<close>)
    with c q show "yields (case r of Inl y \<Rightarrow> ploop_at M (script_turn (parse_level n)) y | Inr z \<Rightarrow> pret z) q
        (\<lambda>r u. map assigned r = map assigned cs @ map Some (a # as) \<and> ps_diagnostics u = ps_diagnostics p)"
      by (simp add: went_def)
  qed
qed

lemma program_read:
  assumes f: "list_all (\<lambda>a. fits 1 (snd a)) as" and n: "length ts \<le> n"
    and k: "map tk_kind ts = program_words as @ [TkEof]" "list_all (\<lambda>t. \<not> comment_token t) ts"
  shows "\<exists>g. parse_with n ts = Some (Inr g) \<and> map assigned (pg_statements g) = map Some as \<and> pg_module g = None \<and> pg_imports g = []"
proof -
  let ?p = "new_parser ts"
  have ne: "ts \<noteq> []" using k(1) by auto
  have "tk_kind (last ts) = last (map tk_kind ts)" using ne by (simp add: last_map)
  then have "inside_tokens ?p" using ne k(1) by (simp add: inside_tokens_def new_parser_def)
  moreover have "filter (\<lambda>t. \<not> comment_token t) ts = ts" using k(2) by (simp add: list_all_iff filter_id_conv)
  ultimately have p: "ahead (program_words as @ [TkEof]) ?p" using k(1) by (simp add: ahead_def kinds_ahead_def new_parser_def)
  have s: "\<exists>k ks. program_words as @ [TkEof] = k # ks \<and> k \<notin> {THash TkHash, TOperator TkModuleImport}"
    using program_start [of as] by (cases "as = []") (auto simp: program_words_def)
  then have h: "peek_kind ?p \<noteq> THash TkHash" "peek_kind ?p \<noteq> TOperator TkModuleImport" using p ahead_peek(1) by fastforce+
  have "left ?p \<le> n" "left ?p < turns_left ?p" using n by (simp_all add: left_def new_parser_def turns_left_def)
  from script_read [OF f this p, of "[]"]
  have "yields (ploop (script_turn (parse_level n)) []) ?p (\<lambda>r q. map assigned r = map Some as \<and> ps_diagnostics q = [])"
    by (simp add: ploop_def new_parser_def)
  then have "yields (ploop (script_turn (parse_level n)) []) ?p (\<lambda>r q. map assigned r = map Some as \<and> ps_diagnostics q = [])" .
  then have y: "yields (script_file (parse_level n)) ?p (\<lambda>g q. map assigned (pg_statements g) = map Some as
      \<and> pg_module g = None \<and> pg_imports g = [] \<and> ps_diagnostics q = [])"
    unfolding script_file_def yields_bind script_turn_def [symmetric, abs_def]
    by (intro loop_stays) (auto simp: import_turn_def h elim!: yields_weaken)
  then have "yields (parse_file (parse_level n)) ?p (\<lambda>g q. map assigned (pg_statements g) = map Some as
      \<and> pg_module g = None \<and> pg_imports g = [] \<and> ps_diagnostics q = [])"
    using h by (simp add: parse_file_def)
  then show ?thesis by (auto simp: yields_def parse_with_def)
qed

end
