(* ===== verification/ZySource.thy ===== *)
theory ZySource imports ZyParseEnds ZyParseReads ZyTokenize begin

text \<open>
  From the text of a program to its tree: the lexer and the parser together.
\<close>

lemma tiles_end_of_file: "tiles fid p s ts \<Longrightarrow> ts \<noteq> [] \<and> tk_kind (last ts) = TkEof"
  by (induction rule: tiles.induct) auto

text \<open>
  C3. Every source is parsed.  Whatever the text, the lexer's tokens are answered by the parser, with a
  program or with what is wrong: no turn of a loop of the parser stays where it is, no recovery either,
  and no expression is entered again without a token taken, so that as many levels of nesting as there
  are tokens are enough and more change nothing.
\<close>

theorem every_source_is_parsed:
  "parse (fst (tokenize a source file)) \<noteq> None
   \<and> parse_with (length (fst (tokenize a source file)) + d) (fst (tokenize a source file)) = parse (fst (tokenize a source file))"
proof -
  have "tiles file (lx_position (new_lexer source file)) (lx_rest (new_lexer source file)) (fst (tokenize a source file))"
    using tokens_tile [of a "new_lexer source file"] by (auto simp: tokenize_def new_lexer_def split: prod.split)
  from tiles_end_of_file [OF this] show ?thesis
    unfolding parse_def using parse_answers by blast
qed

definition program_text :: "(ustring \<times> form) list \<Rightarrow> ustring" where
  "program_text as = join_with [32] (map spelling (program_words as))"

definition writable :: "letters \<Rightarrow> (ustring \<times> form) list \<Rightarrow> bool" where
  "writable a as \<longleftrightarrow>
     list_all (\<lambda>x. fits 1 (snd x)) as \<and> list_all (prints a) (program_words as) \<and> \<not> alphanumeric a 32"

text \<open>
  C4. Precedence.  A program of assignments whose expressions are built from integers, texts, truth
  values, names, groups, prefixes and all fourteen binary operators, written with only the parentheses
  the ranks and the associativity of the operators ask for, is read back from its text through lexer and
  parser as that very program: nothing is reported, every statement is one assignment, and each operator
  has the operands it was written with.
\<close>

theorem written_program_is_read:
  assumes "writable a as"
  shows "\<exists>g. parse (fst (tokenize a (program_text as) file)) = Some (Inr g) \<and> snd (tokenize a (program_text as) file) = []
    \<and> map assigned (pg_statements g) = map Some as \<and> pg_module g = None \<and> pg_imports g = []"
proof -
  let ?ts = "fst (tokenize a (program_text as) file)"
  have w: "list_all (\<lambda>x. fits 1 (snd x)) as" "list_all (prints a) (program_words as)" "\<not> alphanumeric a 32"
    using assms by (simp_all add: writable_def)
  have t: "map tk_kind ?ts = program_words as @ [TkEof]" "snd (tokenize a (program_text as) file) = []"
    using printed_tokens [OF w(2,3)] by (simp_all add: program_text_def)
  have "prints a k \<or> k = TkEof" if "k \<in> set (map tk_kind ?ts)" for k
    using that w(2) unfolding t(1) by (auto simp: list_all_iff)
  then have "list_all (\<lambda>t. \<not> comment_token t) ?ts"
    by (force simp: list_all_iff comment_token_def prints_def split: token_kind.splits)
  from program_read [OF w(1) order_refl t(1) this] t(2) show ?thesis unfolding parse_def by simp
qed

text \<open>x = 1 - 2 - 3 * - 4 ^ 5 and y = (x), read as (1 - 2) - (3 * ((- 4) ^ 5)).\<close>

theorem written_program_is_read_witness:
  "\<exists>g. parse (fst (tokenize \<lparr>alphabetic = \<lambda>c. c = 120 \<or> c = 121, numeric_char = \<lambda>c. False\<rparr>
      (program_text
        [([120], FBinary OpSub (FBinary OpSub (FNumber 1) (FNumber 2))
                   (FBinary OpMul (FNumber 3) (FBinary OpPow (FPrefix OpNeg (FNumber 4)) (FNumber 5)))),
         ([121], FGroup (FName [120]))]) 0)) = Some (Inr g)
    \<and> map assigned (pg_statements g) =
        [Some ([120], FBinary OpSub (FBinary OpSub (FNumber 1) (FNumber 2))
                   (FBinary OpMul (FNumber 3) (FBinary OpPow (FPrefix OpNeg (FNumber 4)) (FNumber 5)))),
         Some ([121], FGroup (FName [120]))]"
proof -
  let ?a = "\<lparr>alphabetic = \<lambda>c. c = 120 \<or> c = 121, numeric_char = \<lambda>c. False\<rparr> :: letters"
  let ?as = "[([120], FBinary OpSub (FBinary OpSub (FNumber 1) (FNumber 2))
                   (FBinary OpMul (FNumber 3) (FBinary OpPow (FPrefix OpNeg (FNumber 4)) (FNumber 5)))),
         ([121], FGroup (FName [120]))] :: (ustring \<times> form) list"
  have "writable ?a ?as"
    by (simp add: writable_def program_words_def assignment_words_def prints_def plain_name_def is_ident_start_def
        is_ident_continue_def is_invisible_char_def invisible_ranges_def is_control_def alphanumeric_def
        is_operator_char_def is_whitespace_def digit_value_def DIGIT_BLOCKS_def in_block_def
        in_int_range_def ZY_INT_MIN_def ZY_INT_MAX_def)
  from written_program_is_read [OF this, of 0] show ?thesis by (elim exE conjE, intro exI conjI) simp_all
qed

end
