(* ===== verification/ZyRandom.thy ===== *)
theory ZyRandom imports ZyError "HOL-Library.Word" begin

unbundle bit_operations_syntax

text \<open>
  The generator of std/random (crates/zymbol-intrinsics/src/random.rs) and its four functions
  (crates/zymbol-interpreter/src/stdlib/random.rs): xoshiro256++ on 64-bit words, its state expanded
  from one seed by splitmix64.  The state of the process is an option, none until a seed is chosen or
  the first draw asks the clock for one; the clock's answer is an argument.
\<close>

section \<open>The generator\<close>

type_synonym u64 = "64 word"
type_synonym xoshiro = "u64 \<times> u64 \<times> u64 \<times> u64"

definition splitmix64 :: "u64 \<Rightarrow> u64 \<times> u64" where
  "splitmix64 x =
     (let x = x + 0x9E3779B97F4A7C15;
          z = x;
          z = (z XOR drop_bit 30 z) * 0xBF58476D1CE4E5B9;
          z = (z XOR drop_bit 27 z) * 0x94D049BB133111EB
      in (z XOR drop_bit 31 z, x))"

definition state_from :: "u64 \<Rightarrow> xoshiro" where
  "state_from seed =
     (let (a, x) = splitmix64 seed; (b, x) = splitmix64 x; (c, x) = splitmix64 x; (d, x) = splitmix64 x
      in (a, b, c, d))"

definition seeded :: "int \<Rightarrow> xoshiro option" where
  "seeded n = Some (state_from (word_of_int n))"

definition stepped :: "xoshiro \<Rightarrow> xoshiro" where
  "stepped s =
     (let (s0, s1, s2, s3) = s;
          t = push_bit 17 s1;
          s2 = s2 XOR s0;
          s3 = s3 XOR s1;
          s1 = s1 XOR s2;
          s0 = s0 XOR s3;
          s2 = s2 XOR t;
          s3 = word_rotl 45 s3
      in (s0, s1, s2, s3))"

definition drawn :: "xoshiro \<Rightarrow> u64" where
  "drawn s = (case s of (s0, s1, s2, s3) \<Rightarrow> word_rotl 23 (s0 + s3) + s0)"

definition next_random :: "u64 \<Rightarrow> xoshiro option \<Rightarrow> u64 \<times> xoshiro option" where
  "next_random entropy st =
     (let s = (case st of Some s \<Rightarrow> s | None \<Rightarrow> state_from entropy) in (drawn s, Some (stepped s)))"

text \<open>The range is counted on 64 bits; within the integers of the language it is exact.\<close>

definition entero :: "int \<Rightarrow> int \<Rightarrow> u64 \<Rightarrow> xoshiro option \<Rightarrow> int \<times> xoshiro option" where
  "entero lo hi entropy st =
     (let range = word_of_int (hi - lo + 1) :: u64; (r, st) = next_random entropy st
      in (lo + sint (r mod range), st))"

definition rango :: "int \<Rightarrow> u64 \<Rightarrow> xoshiro option \<Rightarrow> int \<times> xoshiro option" where
  "rango n entropy st = (let (r, st) = next_random entropy st in (sint (r mod word_of_int n), st))"

definition peso_f64 :: "u64 \<Rightarrow> xoshiro option \<Rightarrow> f64 \<times> xoshiro option" where
  "peso_f64 entropy st =
     (let (r, st) = next_random entropy st in (fdiv (fsub (f_of_int (uint (r mod 201))) (f_of_int 100)) (f_of_int 1000), st))"

section \<open>The functions a program calls\<close>

type_synonym drawn_value = "(runtime_error + zvalue) \<times> xoshiro option"

definition drawn_as :: "('a \<Rightarrow> zvalue) \<Rightarrow> 'a \<times> xoshiro option \<Rightarrow> drawn_value" where
  "drawn_as f r = (Inr (f (fst r)), snd r)"

definition random_entero :: "u64 \<Rightarrow> zvalue list \<Rightarrow> span \<Rightarrow> xoshiro option \<Rightarrow> drawn_value" where
  "random_entero clock args sp st =
     (case args of
        VInt lo # VInt hi # _ \<Rightarrow>
          if lo \<le> hi then drawn_as VInt (entero lo hi clock st)
          else (Inl (EGeneric (U ''random::entero: expected (###, ###) with max >= min'') sp), st)
      | _ \<Rightarrow> (Inl (EGeneric (U ''random::entero: expected (###, ###) with max >= min'') sp), st))"

definition random_rango :: "u64 \<Rightarrow> zvalue list \<Rightarrow> span \<Rightarrow> xoshiro option \<Rightarrow> drawn_value" where
  "random_rango clock args sp st =
     (case args of
        VInt n # _ \<Rightarrow>
          if 0 < n then drawn_as VInt (rango n clock st)
          else (Inl (EGeneric (U ''random::rango: expected positive ###'') sp), st)
      | _ \<Rightarrow> (Inl (EGeneric (U ''random::rango: expected positive ###'') sp), st))"

definition random_peso_f64 :: "u64 \<Rightarrow> zvalue list \<Rightarrow> span \<Rightarrow> xoshiro option \<Rightarrow> drawn_value" where
  "random_peso_f64 clock args sp st = drawn_as VFloat (peso_f64 clock st)"

definition random_semilla :: "zvalue list \<Rightarrow> span \<Rightarrow> xoshiro option \<Rightarrow> drawn_value" where
  "random_semilla args sp st =
     (case args of
        VInt n # _ \<Rightarrow> (Inr VUnit, seeded n)
      | _ \<Rightarrow> (Inl (EGeneric (U ''random::semilla: expected ###'') sp), st))"

section \<open>The generator never degenerates\<close>

text \<open>A shift mixed into a word can be undone: the shifts die out.\<close>

lemma undo_push:
  fixes x :: u64
  assumes "y = x XOR push_bit 17 x"
  shows "y XOR push_bit 17 y XOR push_bit 34 y XOR push_bit 51 y = x"
proof -
  have "push_bit 68 x = 0" by (rule bit_word_eqI) (simp add: bit_push_bit_iff)
  then show ?thesis unfolding assms by (simp add: push_bit_xor push_bit_push_bit ac_simps)
qed

lemma undo_drop:
  fixes x :: u64
  assumes "y = x XOR drop_bit n x" "22 \<le> n"
  shows "y XOR drop_bit n y XOR drop_bit (n + n) y = x"
proof -
  have "drop_bit (n + (n + n)) x = 0" by (rule bit_word_eqI) (use assms(2) in \<open>simp add: bit_drop_bit_eq bit_imp_le_length\<close>)
  then show ?thesis unfolding assms(1) by (simp add: drop_bit_xor drop_bit_drop_bit ac_simps)
qed

lemma drop_mix_inj: "22 \<le> n \<Longrightarrow> inj (\<lambda>x :: u64. x XOR drop_bit n x)"
  by (metis (no_types, lifting) injI undo_drop)

lemma times_inj: "(k :: u64) * c = 1 \<Longrightarrow> inj (\<lambda>x. x * k)"
  by (metis (no_types, lifting) injI mult.assoc mult.right_neutral)

definition mixed :: "u64 \<Rightarrow> u64" where
  "mixed x =
     (let z = (x XOR drop_bit 30 x) * 0xBF58476D1CE4E5B9; z = (z XOR drop_bit 27 z) * 0x94D049BB133111EB in z XOR drop_bit 31 z)"

lemma mixed_inj: "inj mixed"
proof -
  have e: "mixed = (\<lambda>x. x XOR drop_bit 31 x) \<circ> (\<lambda>x. x * 0x94D049BB133111EB) \<circ> (\<lambda>x. x XOR drop_bit 27 x)
      \<circ> (\<lambda>x. x * 0xBF58476D1CE4E5B9) \<circ> (\<lambda>x. x XOR drop_bit 30 x)"
    by (simp add: fun_eq_iff mixed_def Let_def)
  have a: "inj (\<lambda>x :: u64. x * 0x94D049BB133111EB)" by (rule times_inj [of _ "0x319642b2d24d8ec3"]) simp
  have b: "inj (\<lambda>x :: u64. x * 0xBF58476D1CE4E5B9)" by (rule times_inj [of _ "0x96de1b173f119089"]) simp
  show ?thesis unfolding e by (intro inj_compose drop_mix_inj a b) simp_all
qed

lemma splitmix64_mixed: "splitmix64 x = (mixed (x + 0x9E3779B97F4A7C15), x + 0x9E3779B97F4A7C15)"
  by (simp add: splitmix64_def mixed_def Let_def)

lemma state_from_first: "state_from x = (mixed (x + 0x9E3779B97F4A7C15), mixed (x + 0x9E3779B97F4A7C15 + 0x9E3779B97F4A7C15),
    snd (snd (state_from x)))"
  by (simp add: state_from_def splitmix64_mixed)

lemma state_from_inj: "inj state_from"
proof (rule injI)
  fix x y
  assume "state_from x = state_from y"
  then have "mixed (x + 0x9E3779B97F4A7C15) = mixed (y + 0x9E3779B97F4A7C15)"
    using state_from_first [of x] state_from_first [of y] by (metis prod.inject)
  then show "x = y" using injD [OF mixed_inj] by fastforce
qed

lemma state_from_alive: "state_from x \<noteq> (0, 0, 0, 0)"
proof
  assume "state_from x = (0, 0, 0, 0)"
  then have "mixed (x + 0x9E3779B97F4A7C15) = mixed (x + 0x9E3779B97F4A7C15 + 0x9E3779B97F4A7C15)"
    using state_from_first [of x] by simp
  from injD [OF mixed_inj this] show False by simp
qed

text \<open>A step backwards.\<close>

definition unstepped :: "xoshiro \<Rightarrow> xoshiro" where
  "unstepped s =
     (let (s0, s1, s2, s3) = s;
          c = word_rotr 45 s3; a = s0 XOR c; y = s1 XOR s2;
          b = y XOR push_bit 17 y XOR push_bit 34 y XOR push_bit 51 y
      in (a, b, s1 XOR b XOR a, c XOR b))"

lemma unstepped_stepped: "unstepped (stepped s) = s"
proof -
  obtain s0 s1 s2 s3 where s: "s = (s0, s1, s2, s3)" by (cases s)
  define b where "b = s1 XOR (s2 XOR s0)"
  have st: "stepped s = (s0 XOR (s3 XOR s1), b, (s2 XOR s0) XOR push_bit 17 s1, word_rotl 45 (s3 XOR s1))"
    by (simp add: s stepped_def b_def Let_def)
  have y: "b XOR ((s2 XOR s0) XOR push_bit 17 s1) = s1 XOR push_bit 17 s1" by (simp add: b_def ac_simps)
  note u = undo_push [OF refl, of s1]
  show ?thesis
    unfolding st unstepped_def Let_def prod.case word_rot_lr y u by (simp add: s b_def ac_simps)
qed

lemma stepped_inj: "inj stepped"
  by (rule inj_on_inverseI) (rule unstepped_stepped)

lemma stepped_alive: "stepped s = (0, 0, 0, 0) \<Longrightarrow> s = (0, 0, 0, 0)"
  using unstepped_stepped [of s] by (simp add: unstepped_def)

text \<open>
  C37. The generator never degenerates.  Different seeds give different states and different states have
  different successors, so no two sequences ever run into each other; and the state of four zeros, from
  which only zeros are drawn, comes from no seed and is reached in no number of draws.
\<close>

theorem generator_never_degenerates:
  "inj state_from \<and> inj stepped \<and> (stepped ^^ n) (state_from seed) \<noteq> (0, 0, 0, 0)"
proof (intro conjI state_from_inj stepped_inj)
  show "(stepped ^^ n) (state_from seed) \<noteq> (0, 0, 0, 0)"
  proof (induction n)
    case 0
    show ?case using state_from_alive by simp
  next
    case (Suc n)
    then show ?case using stepped_alive [of "(stepped ^^ n) (state_from seed)"] by simp metis
  qed
qed

section \<open>The ranges hold\<close>

lemma sint_small: "uint (w :: u64) < 2 ^ 63 \<Longrightarrow> sint w = uint w"
proof -
  assume "uint w < 2 ^ 63"
  moreover have "- (2 ^ 63) \<le> uint w" by (rule order_trans [OF _ uint_ge_0]) simp
  ultimately show ?thesis by (simp add: sint_uint signed_take_bit_int_eq_self)
qed

lemma remainder_in_range:
  assumes "0 < n" "n < 2 ^ 63"
  shows "0 \<le> sint ((r :: u64) mod word_of_int n)" "sint (r mod word_of_int n) < n"
proof -
  have n: "uint (word_of_int n :: u64) = n" using assms by (simp add: uint_word_of_int)
  then have "uint (r mod word_of_int n) = uint r mod n" by (simp add: uint_mod_distrib)
  moreover have "uint r mod n < n" "0 \<le> uint r mod n" using assms(1) by simp_all
  moreover from this have "uint r mod n < 2 ^ 63" using assms(2) by linarith
  ultimately show "0 \<le> sint (r mod word_of_int n)" "sint (r mod word_of_int n) < n"
    using sint_small [of "r mod word_of_int n"] by simp_all
qed

text \<open>
  C17. Random integers stay in their range.  Between integers of the language, whatever the state of the
  generator and whatever the clock says, an integer drawn from a range is in it, both ends included, and
  one drawn below a bound is at least 0 and below it.
\<close>

theorem random_in_range:
  assumes "in_int_range lo" "in_int_range hi" "lo \<le> hi"
  shows "(\<exists>v. fst (random_entero clock [VInt lo, VInt hi] sp st) = Inr (VInt v) \<and> lo \<le> v \<and> v \<le> hi)
    \<and> (0 < hi \<longrightarrow> (\<exists>v. fst (random_rango clock [VInt hi] sp st) = Inr (VInt v) \<and> 0 \<le> v \<and> v < hi))"
proof -
  have r: "0 < hi - lo + 1" "hi - lo + 1 < 2 ^ 63" "hi < 2 ^ 63"
    using assms by (simp_all add: in_int_range_def ZY_INT_MIN_def ZY_INT_MAX_def)
  obtain x st' where x: "next_random clock st = (x, st')" by fastforce
  let ?v = "lo + sint (x mod word_of_int (hi - lo + 1))" and ?w = "sint (x mod word_of_int hi)"
  have "fst (random_entero clock [VInt lo, VInt hi] sp st) = Inr (VInt ?v)"
    using assms(3) x by (simp add: random_entero_def drawn_as_def entero_def)
  moreover have "lo \<le> ?v" "?v \<le> hi"
    using remainder_in_range [OF r(1,2), of x] by (simp_all del: of_int_add of_int_diff)
  moreover have "fst (random_rango clock [VInt hi] sp st) = Inr (VInt ?w) \<and> 0 \<le> ?w \<and> ?w < hi" if "0 < hi"
    using that x remainder_in_range [OF that r(3), of x] by (simp add: random_rango_def drawn_as_def rango_def)
  ultimately show ?thesis by blast
qed

theorem random_in_range_witness:
  "\<exists>v. fst (random_entero 5 [VInt (- 3), VInt 3] no_span None) = Inr (VInt v) \<and> - 3 \<le> v \<and> v \<le> 3"
  using random_in_range [of "- 3" 3 5 no_span None] by (simp add: in_int_range_def ZY_INT_MIN_def ZY_INT_MAX_def)

end
