(* ===== verification/Spec2Isabelle.thy ===== *)
theory Spec2Isabelle
  imports ZyCalendar ZySort ZyProgram ZyTokenize ZyCoverage ZyLastUse ZySource ZyRandom
begin

text \<open>
  A verification development for the Zymbol-Lang interpreter (src/crates).

  \<^bold>\<open>The program.\<close>  A source text goes through the lexer (zymbol-lexer), the parser (zymbol-parser), passes
  over the tree (zymbol-semantic) and the tree-walking engine (zymbol-interpreter); zymbol-span,
  zymbol-common, zymbol-ast and zymbol-error hold what they share, zymbol-intrinsics the pure half of the
  standard library.  The definitions here follow these crates file by file, in the order the program runs
  them, under the source's names where Isabelle allows them, so that they compose as the program does:
  \<^verbatim>\<open>tokenize\<close> (ZyScan), \<^verbatim>\<open>parse\<close> (ZyParse), the checks (ZyChecks, ZyLastUse), \<^verbatim>\<open>execute_program\<close> (ZyEval).

  \<^bold>\<open>How the code is rendered.\<close>  A character is its code point and a text a list of them; an Int is an int kept
  in the language's range by the checks of num.rs; a Float is the IEEE-754 double of ZyFloat, 64 bits with the
  operations written out over them; a struct is a datatype or record with the fields of the source, an enum a
  datatype; a map is a list of pairs where its order shows and a function otherwise.  What runs against a
  mutable receiver (the lexer, the parser, the interpreter) takes the state and answers the state it leaves
  together with an error or a value.  What is not code of the repository, or is the machine, is a parameter:
  the Unicode properties of characters (\<^verbatim>\<open>letters\<close>), the transcendental functions of doubles, the clock, the
  input lines, the import of a file and the functions the host provides.

  \<^bold>\<open>The theories.\<close>
  \<^item> Shared: ZyPrelude (conventions, lemma collections), ZyFloat (doubles), ZySyntax (spans, literals,
    operators), ZyExprNodes, ZyStmtNodes and ZyAst (the tree), ZyDiag (diagnostics).
  \<^item> Numbers and values: ZyNum (zymbol-common/src/num.rs), ZyDigits (digit_blocks.rs, numeral_mode.rs),
    ZyRadix, ZyTime and ZyCalendar (zymbol-intrinsics/src/time.rs), ZyValue (values, their display, typesym.rs,
    typeword.rs), ZyError (errors, errkind.rs), ZyArith (arithmetic_ops.rs), ZyRandom (std/random).
  \<^item> Lexer: ZyTokens, ZyLexer, ZyLiterals, ZyScan are the code; ZyWritten, ZyLexed, ZyLexedLits and ZyTokenize
    prove that tokens tile the source and that a program printed as its tokens is read back.
  \<^item> Parser: ZyParser (cursor and lookahead), ZyParseOps, ZyParseExpr, ZyParseLevels, ZyParseStmt, ZyParse are
    the code; ZyParseRuns and ZyParseEnds prove that every token list is answered; ZyParseReads that the levels
    of the grammar give each operator the operands it was written with; ZySource joins lexer and parser.
  \<^item> Passes: ZyWalk (the walkers of last_use.rs), ZyRefs (names an expression reads and writes), ZyChars
    (interpolation.rs and the characters of a name), ZyChecks (loop_context.rs, unreachable.rs), ZyCheckSound
    (what the checks promise about runs), ZyCoverage (match_coverage.rs and what its silence is worth), ZyLastUse (the destruction schedule).
  \<^item> Engine: ZyState (the store, frames), ZyEngine (computations), ZyCollect, ZySort (collections), ZyControl
    (blocks, loops, matches, try), ZyAssign, ZyCalls, ZyExprs, ZyCollOps, ZyData, ZyIo (handlers, one file of
    the source each or a few), ZyEval (dispatch and the run of a program), ZyProgram (what holds of every run).

  \<^bold>\<open>Bounds.\<close>  The engine can run for ever, so its recursion carries fuel, the number of nested evaluations;
  no answer is None, and lemma fuel_is_only_a_bound shows that more fuel never changes an answer.  A loop over
  a collection or a count runs down its list or its count; one over a condition or a range takes as many turns
  as the fuel allows, and the length of a range is enough (range_is_for_each) as long as its i64 counter does
  not wrap, which it does when the step leaves the machine's integers (range_wraps).  The host's last-use
  schedule is a field of the host, which region_schedule and auto_free_exclusions of ZyLastUse instantiate.
  The lexer is a total function, by the length of the text that is left.  The parser calls itself on levels:
  as many levels as tokens are enough and more change nothing, on every source (every_source_is_parsed);
  its loops count turns down from the tokens that are left, and no turn stays where it is.

  \<^bold>\<open>Interfaces.\<close>  Locales state what a component promises: checked_op (the checked integer operations),
  codec, bijective_codec and calendar (dates), store (the variable store, by a scope, by the parameters of a
  call and by a dictionary), twin_parsers (two parsers that agree one level below).  Each is interpreted on the
  definitions of the component that provides it.

  \<^bold>\<open>What is proved\<close>, in groups.
  \<^item> Front end: the tokens of every source tile it; printed programs are read back, as tokens and as trees with
    the precedence and associativity of the fourteen binary operators; every source is parsed or refused.
  \<^item> Engine, as invariants over every run: scopes, frames and counters are put back on every way out, errors
    included; a callee cannot touch its caller's variables; a finally block runs whatever happened, and the
    statement leaves what the block leaves; the call limit is exact, and every call gives the count back; the
    shortcut on integers is the evaluation it stands for; a range loop is the loop over the range's values.
  \<^item> Data: arithmetic is exact or refused; division and remainder fit; order is total on numbers; equality is
    an equivalence; written elements are read; slices, splits and dates come back; the merge sort is a stable
    sort by the comparator's answers.
  \<^item> Passes: what the unreachable-code pass folds is what the engine answers; the schedule of destructions is
    the last use of each name, and no name is mentioned after it.  A break in the arm of a match is missed
    by the loop check (break_in_an_arm).  A match the coverage check calls complete finds an arm, except that
    a Float that is no number falls through two comparisons (nan_is_left_out).
  \<^item> Random numbers: draws stay in their range, sequences of different states never merge.

  \<^bold>\<open>Not modelled.\<close>  The second engine (zymbol-compiler, zymbol-bytecode, zymbol-vm), the formatter, the
  analyzer, the language server, the REPL, the command line, packages and standalone executables; of the
  passes, call_arity, cfg, def_use, destroyed, modules, stdlib_access, type_check,
  unused_imports and variable_analysis, which report before a run and never change how it goes; of the interpreter, the loading
  of modules from files, child processes and the standard library's bindings to files, databases, the network
  and the terminal, whose answers are the machine's.  Diagnostics are modelled by what they hold, not by how
  they are printed.  Sharing by Rc is left out: the engine copies an aggregate before it writes one that is
  shared, so no program sees it; so are the pools of recycled maps and the counters of the profiler.
\<close>

end
